(* ===== verification/Prelude.thy ===== *)
theory Prelude imports Complex_Main "HOL-Library.AList" begin

text \<open>
  Shared vocabulary of the development.

  \<^item> \<open>exn\<close> lists the Python exceptions the modelled code raises or catches, and
    \<open>'a res\<close> is the outcome of code that may raise: \<open>Inl\<close> an exception, \<open>Inr\<close> a value.
  \<^item> A Python dict is an association list in insertion order, \<open>'v dict\<close>: \<open>map_of d k\<close> is
    \<open>d.get(k)\<close>, \<open>AList.update k v d\<close> is \<open>d[k] = v\<close> (an existing key keeps its place, a
    new one goes last) and \<open>AList.delete k d\<close> is \<open>d.pop(k, None)\<close>.
  \<^item> \<open>all_res\<close> and \<open>any_res\<close> are the builtins \<open>all\<close> and \<open>any\<close> over a generator whose
    elements may raise: left to right, stopping at the first decision.
  \<^item> \<open>sort_key\<close> of the library is the stable \<open>list.sort(key=...)\<close>.
\<close>

named_theorems dict_simps "lookup and update of dicts"
named_theorems res_simps "outcomes of code that may raise"

section \<open>Exceptions and outcomes\<close>

datatype exn =
    ValueError
  | TypeError
  | KeyError
  | IndexError
  | AttributeError
  | TimeoutError
  | RegexError
  | AuthError string
  | ServiceError
  | ImportError
  | RecursionError

type_synonym 'a res = "exn + 'a"

fun is_ok :: "'e + 'a \<Rightarrow> bool" where
  "is_ok (Inl e) = False"
| "is_ok (Inr x) = True"

lemma is_ok_iff [res_simps]: "is_ok r \<longleftrightarrow> (\<exists>x. r = Inr x)"
  by (cases r) auto

fun bind_res :: "'e + 'a \<Rightarrow> ('a \<Rightarrow> 'e + 'b) \<Rightarrow> 'e + 'b" where
  "bind_res (Inl e) f = Inl e"
| "bind_res (Inr x) f = f x"

lemma bind_res_cong [fundef_cong]:
  "r = r' \<Longrightarrow> (\<And>x. r' = Inr x \<Longrightarrow> f x = g x) \<Longrightarrow> bind_res r f = bind_res r' g"
  by (cases r') auto

lemma bind_res_Inr_iff [res_simps]:
  "bind_res r f = Inr y \<longleftrightarrow> (\<exists>x. r = Inr x \<and> f x = Inr y)"
  by (cases r) auto

lemma case_InrD: "(case r of Inl _ \<Rightarrow> False | Inr x \<Rightarrow> P x) \<Longrightarrow> \<exists>x. r = Inr x \<and> P x"
  by (cases r) auto

text \<open>
  Walking down a chain of \<open>if\<close>s whose outcome is known: each branch keeps its own guard only,
  so that a long chain leaves small goals.
\<close>

lemma if_eq_elim:
  "(if b then x else y) = z \<Longrightarrow> (b \<Longrightarrow> x = z \<Longrightarrow> P) \<Longrightarrow> (y = z \<Longrightarrow> P) \<Longrightarrow> P"
  by (cases b) auto

section \<open>Short-circuiting \<open>all\<close> and \<open>any\<close>\<close>

fun all_res :: "('a \<Rightarrow> 'e + bool) \<Rightarrow> 'a list \<Rightarrow> 'e + bool" where
  "all_res f [] = Inr True"
| "all_res f (x # xs) =
     (case f x of Inl e \<Rightarrow> Inl e | Inr b \<Rightarrow> if b then all_res f xs else Inr False)"

fun any_res :: "('a \<Rightarrow> 'e + bool) \<Rightarrow> 'a list \<Rightarrow> 'e + bool" where
  "any_res f [] = Inr False"
| "any_res f (x # xs) =
     (case f x of Inl e \<Rightarrow> Inl e | Inr b \<Rightarrow> if b then Inr True else any_res f xs)"

lemma all_res_cong [fundef_cong]:
  "xs = ys \<Longrightarrow> (\<And>x. x \<in> set ys \<Longrightarrow> f x = g x) \<Longrightarrow> all_res f xs = all_res g ys"
proof (induction ys arbitrary: xs)
  case Nil
  then show ?case by simp
next
  case (Cons y ys)
  then show ?case by (simp split: sum.split)
qed

lemma any_res_cong [fundef_cong]:
  "xs = ys \<Longrightarrow> (\<And>x. x \<in> set ys \<Longrightarrow> f x = g x) \<Longrightarrow> any_res f xs = any_res g ys"
proof (induction ys arbitrary: xs)
  case Nil
  then show ?case by simp
next
  case (Cons y ys)
  then show ?case by (simp split: sum.split)
qed

lemma all_res_pure [res_simps]:
  "(\<And>x. x \<in> set xs \<Longrightarrow> f x = Inr (g x)) \<Longrightarrow> all_res f xs = Inr (\<forall>x\<in>set xs. g x)"
  by (induction xs) auto

lemma any_res_pure [res_simps]:
  "(\<And>x. x \<in> set xs \<Longrightarrow> f x = Inr (g x)) \<Longrightarrow> any_res f xs = Inr (\<exists>x\<in>set xs. g x)"
  by (induction xs) auto

section \<open>Dicts\<close>

type_synonym 'v dict = "(string \<times> 'v) list"

definition dict_get :: "('k \<times> 'v) list \<Rightarrow> 'k \<Rightarrow> 'v \<Rightarrow> 'v" where
  "dict_get d k dflt = (case map_of d k of None \<Rightarrow> dflt | Some v \<Rightarrow> v)"

lemma map_of_update [dict_simps, simp]:
  "map_of (AList.update k v d) k' = (if k' = k then Some v else map_of d k')"
  by (simp add: update_conv)

lemma map_of_delete [dict_simps, simp]:
  "map_of (AList.delete k d) k' = (if k' = k then None else map_of d k')"
  by (simp add: delete_conv)

lemma dict_get_update [dict_simps, simp]:
  "dict_get (AList.update k v d) k' dflt = (if k' = k then v else dict_get d k' dflt)"
  by (simp add: dict_get_def)

lemma dict_get_delete [dict_simps, simp]:
  "dict_get (AList.delete k d) k' dflt = (if k' = k then dflt else dict_get d k' dflt)"
  by (simp add: dict_get_def)

section \<open>First match in a list\<close>

lemma find_append:
  "List.find P (xs @ ys) = (case List.find P xs of None \<Rightarrow> List.find P ys | Some x \<Rightarrow> Some x)"
  by (induction xs) auto

lemma find_SomeD: "List.find P xs = Some x \<Longrightarrow> x \<in> set xs \<and> P x"
  by (induction xs) (auto split: if_splits)

lemma find_first:
  "List.find P xs = Some x \<Longrightarrow>
   \<exists>us vs. xs = us @ x # vs \<and> P x \<and> (\<forall>u\<in>set us. \<not> P u)"
proof (induction xs)
  case Nil
  then show ?case by simp
next
  case (Cons y ys)
  show ?case
  proof (cases "P y")
    case True
    with Cons.prems show ?thesis by (intro exI [of _ "[]"] exI [of _ ys]) auto
  next
    case False
    with Cons obtain us vs where "ys = us @ x # vs" "P x" "\<forall>u\<in>set us. \<not> P u" by auto
    with False show ?thesis by (intro exI [of _ "y # us"] exI [of _ vs]) auto
  qed
qed

section \<open>Defaults, loops that collect, and modules that load rules\<close>

definition or_default :: "'a option \<Rightarrow> 'a \<Rightarrow> 'a" where
  "or_default x d = (case x of None \<Rightarrow> d | Some v \<Rightarrow> v)"

text \<open>A loop that appends what each turn yields and stops at the first exception.\<close>

fun collect :: "('a \<Rightarrow> 'b option res) \<Rightarrow> 'a list \<Rightarrow> 'b list res" where
  "collect f [] = Inr []"
| "collect f (x # xs) =
     bind_res (f x) (\<lambda>y. bind_res (collect f xs)
       (\<lambda>ys. Inr (case y of None \<Rightarrow> ys | Some v \<Rightarrow> v # ys)))"

lemma collect_in:
  "collect f xs = Inr ys \<Longrightarrow> y \<in> set ys \<longleftrightarrow> (\<exists>x\<in>set xs. f x = Inr (Some y))"
  by (induction xs arbitrary: ys) (auto simp: res_simps split: option.splits)

text \<open>A list comprehension whose body may raise.\<close>

fun each_res :: "('a \<Rightarrow> 'b res) \<Rightarrow> 'a list \<Rightarrow> 'b list res" where
  "each_res f [] = Inr []"
| "each_res f (x # xs) = bind_res (f x) (\<lambda>y. bind_res (each_res f xs) (\<lambda>ys. Inr (y # ys)))"

lemma each_res_cong [fundef_cong]:
  "xs = ys \<Longrightarrow> (\<And>x. x \<in> set ys \<Longrightarrow> f x = g x) \<Longrightarrow> each_res f xs = each_res g ys"
proof (induction ys arbitrary: xs)
  case Nil
  then show ?case by simp
next
  case (Cons y ys)
  then show ?case by simp
qed

lemma each_res_in:
  "each_res h xs = Inr ys \<Longrightarrow> y \<in> set ys \<Longrightarrow> \<exists>x\<in>set xs. h x = Inr y"
  by (induction xs arbitrary: ys) (auto simp: res_simps)

lemma each_res_Inr_iff [res_simps]:
  "each_res f xs = Inr ys \<longleftrightarrow> list_all2 (\<lambda>x y. f x = Inr y) xs ys"
  by (induction xs arbitrary: ys) (auto simp: res_simps list_all2_Cons1)

text \<open>
  The state of a module that compiles a list of the config bundle, and its load function
  (\<open>load_policies\<close>, \<open>load_dlp_rules\<close>, \<open>load_guardrails\<close>).
\<close>

record 'r rule_module =
  compiled_rules :: "'r list"
  has_configured :: bool

text \<open>
  An absent list counts as empty; the flag is set
  before the compilation, which may raise.
\<close>

definition load_rules ::
  "('raw list \<Rightarrow> 'r list res) \<Rightarrow> 'raw list option \<Rightarrow> 'r rule_module \<Rightarrow> unit res \<times> 'r rule_module" where
  "load_rules compiler raw_opt m =
     (let raw = or_default raw_opt []; m1 = m\<lparr>has_configured := raw \<noteq> []\<rparr>
      in case compiler raw of
           Inl e \<Rightarrow> (Inl e, m1)
         | Inr rs \<Rightarrow> (Inr (), m1\<lparr>compiled_rules := rs\<rparr>))"

end
