(* ===== verification/PyValues.thy ===== *)
theory PyValues imports Prelude "HOL-Library.Char_ord" begin

text \<open>
  The Python values the program computes with.

  A \<open>str\<close> is a \<open>string\<close>, one \<open>char\<close> per code point, so the model covers the texts whose
  code points are below 256; the character predicates below are those of \<open>str\<close> on that
  range (for instance the superscripts 178, 179 and 185 are digits for \<open>isdigit\<close> but not for
  \<open>int\<close>).  A JSON value, as the config bundle, requests and catalogs hold them, is \<open>json\<close>;
  an \<open>int\<close> is unbounded, a float is a real (no infinities and no NaN).  The text of a float
  is the only thing left open: \<open>fr\<close> stands for \<open>float.__repr__\<close>.
\<close>

section \<open>Characters\<close>

definition ord :: "char \<Rightarrow> nat" where
  "ord c = of_char c"

definition py_isspace :: "char \<Rightarrow> bool" where
  "py_isspace c \<longleftrightarrow> (let n = ord c in
     (9 \<le> n \<and> n \<le> 13) \<or> (28 \<le> n \<and> n \<le> 32) \<or> n = 133 \<or> n = 160)"

definition py_isdecimal :: "char \<Rightarrow> bool" where
  "py_isdecimal c \<longleftrightarrow> 48 \<le> ord c \<and> ord c \<le> 57"

definition py_isdigit :: "char \<Rightarrow> bool" where
  "py_isdigit c \<longleftrightarrow> py_isdecimal c \<or> ord c = 178 \<or> ord c = 179 \<or> ord c = 185"

definition py_isalpha :: "char \<Rightarrow> bool" where
  "py_isalpha c \<longleftrightarrow> (let n = ord c in
     (65 \<le> n \<and> n \<le> 90) \<or> (97 \<le> n \<and> n \<le> 122) \<or> n = 170 \<or> n = 181 \<or> n = 186 \<or>
     (192 \<le> n \<and> n \<noteq> 215 \<and> n \<noteq> 247))"

definition py_isalnum :: "char \<Rightarrow> bool" where
  "py_isalnum c \<longleftrightarrow> py_isalpha c \<or> py_isdigit c \<or> (188 \<le> ord c \<and> ord c \<le> 190)"

definition py_lower_char :: "char \<Rightarrow> char" where
  "py_lower_char c = (let n = ord c in
     if (65 \<le> n \<and> n \<le> 90) \<or> (192 \<le> n \<and> n \<le> 222 \<and> n \<noteq> 215) then char_of (n + 32) else c)"

definition py_lower :: "string \<Rightarrow> string" where
  "py_lower s = map py_lower_char s"

section \<open>Strings\<close>

definition lstrip :: "string \<Rightarrow> string" where
  "lstrip s = dropWhile py_isspace s"

definition strip :: "string \<Rightarrow> string" where
  "strip s = rev (lstrip (rev (lstrip s)))"

fun starts_with :: "'a list \<Rightarrow> 'a list \<Rightarrow> bool" where
  "starts_with s [] = True"
| "starts_with [] (p # ps) = False"
| "starts_with (c # cs) (p # ps) = (c = p \<and> starts_with cs ps)"

definition ends_with :: "'a list \<Rightarrow> 'a list \<Rightarrow> bool" where
  "ends_with s p = starts_with (rev s) (rev p)"

fun contains :: "'a list \<Rightarrow> 'a list \<Rightarrow> bool" where
  "contains [] p = (p = [])"
| "contains (c # cs) p = (starts_with (c # cs) p \<or> contains cs p)"

lemma starts_with_iff: "starts_with s p \<longleftrightarrow> (\<exists>r. s = p @ r)"
  by (induction s p rule: starts_with.induct) auto

lemma ends_with_iff: "ends_with s p \<longleftrightarrow> (\<exists>r. s = r @ p)"
proof
  assume "ends_with s p"
  then obtain r where "rev s = rev p @ r" by (auto simp: ends_with_def starts_with_iff)
  then have "rev (rev s) = rev (rev p @ r)" by simp
  then show "\<exists>r. s = r @ p" by auto
next
  assume "\<exists>r. s = r @ p"
  then show "ends_with s p" by (auto simp: ends_with_def starts_with_iff)
qed

lemma contains_iff: "contains s p \<longleftrightarrow> (\<exists>l r. s = l @ p @ r)"
proof (induction s)
  case Nil
  then show ?case by auto
next
  case (Cons c cs)
  have "(\<exists>l r. c # cs = l @ p @ r) \<longleftrightarrow> (\<exists>r. c # cs = p @ r) \<or> (\<exists>l r. cs = l @ p @ r)"
    by (auto simp: Cons_eq_append_conv)
  with Cons.IH show ?case by (simp add: starts_with_iff)
qed

text \<open>\<open>split_first s sep\<close> is \<open>s.split(sep, 1)\<close>: \<open>None\<close> when the separator does not occur.\<close>

fun split_first :: "'a list \<Rightarrow> 'a list \<Rightarrow> ('a list \<times> 'a list) option" where
  "split_first [] sep = (if sep = [] then Some ([], []) else None)"
| "split_first (c # cs) sep =
     (if starts_with (c # cs) sep then Some ([], drop (length sep) (c # cs))
      else map_option (\<lambda>(a, b). (c # a, b)) (split_first cs sep))"

lemma split_first_SomeD: "split_first s sep = Some (a, b) \<Longrightarrow> s = a @ sep @ b"
  by (induction s arbitrary: a) (auto simp: starts_with_iff split: if_splits)

lemma split_first_None_iff: "split_first s sep = None \<longleftrightarrow> \<not> contains s sep"
  by (induction s) auto

fun split_char :: "char \<Rightarrow> string \<Rightarrow> string list" where
  "split_char d [] = [[]]"
| "split_char d (c # cs) =
     (if c = d then [] # split_char d cs
      else (case split_char d cs of [] \<Rightarrow> [[c]] | w # ws \<Rightarrow> (c # w) # ws))"

fun join :: "'a list \<Rightarrow> 'a list list \<Rightarrow> 'a list" where
  "join sep [] = []"
| "join sep [x] = x"
| "join sep (x # y # ys) = x @ sep @ join sep (y # ys)"

section \<open>Integers as text\<close>

definition digit_char :: "nat \<Rightarrow> char" where
  "digit_char d = char_of (48 + d)"

definition digit_val :: "char \<Rightarrow> nat" where
  "digit_val c = ord c - 48"

fun nat_str :: "nat \<Rightarrow> string" where
  "nat_str n = (if n < 10 then [digit_char n] else nat_str (n div 10) @ [digit_char (n mod 10)])"

declare nat_str.simps [simp del]

definition int_str :: "int \<Rightarrow> string" where
  "int_str i = (if i < 0 then CHR ''-'' # nat_str (nat (- i)) else nat_str (nat i))"

definition digits_val :: "string \<Rightarrow> nat" where
  "digits_val s = foldl (\<lambda>a c. 10 * a + digit_val c) 0 s"

lemma digit_val_char [simp]: "d < 10 \<Longrightarrow> digit_val (digit_char d) = d"
  by (simp add: digit_val_def digit_char_def ord_def)

lemma decimal_digit_char [simp]: "d < 10 \<Longrightarrow> py_isdecimal (digit_char d)"
  by (simp add: py_isdecimal_def digit_char_def ord_def)

lemma nat_str_decimal: "c \<in> set (nat_str n) \<Longrightarrow> py_isdecimal c"
proof (induction n rule: nat_str.induct)
  case (1 n)
  then show ?case by (auto simp: nat_str.simps [of n] split: if_splits)
qed

lemma nat_str_neq_Nil [simp]: "nat_str n \<noteq> []"
  by (simp add: nat_str.simps [of n])

lemma digits_val_snoc: "digits_val (s @ [c]) = 10 * digits_val s + digit_val c"
  by (simp add: digits_val_def)

lemma digits_val_nat_str [simp]: "digits_val (nat_str n) = n"
proof (induction n rule: nat_str.induct)
  case (1 n)
  show ?case
  proof (cases "n < 10")
    case True
    then show ?thesis by (simp add: nat_str.simps [of n] digits_val_def)
  next
    case False
    with 1 show ?thesis by (simp add: nat_str.simps [of n] digits_val_snoc)
  qed
qed

lemma nat_str_inj [simp]: "nat_str m = nat_str n \<longleftrightarrow> m = n"
  by (metis digits_val_nat_str)

lemma decimal_not_minus: "py_isdecimal c \<Longrightarrow> c \<noteq> CHR ''-''"
  by (auto simp: py_isdecimal_def ord_def)

lemma int_str_inj [simp]: "int_str i = int_str j \<longleftrightarrow> i = j"
proof -
  have neg: "CHR ''-'' # s \<noteq> nat_str n" for s n
    by (metis decimal_not_minus list.set_intros(1) nat_str_decimal)
  show ?thesis using neg neg [symmetric] by (auto simp: int_str_def)
qed

text \<open>
  \<open>int(text)\<close>: surrounding white space is dropped, a sign is allowed, single underscores may
  stand between digits, and a literal of more than 4300 digits is refused.
\<close>

fun int_digits :: "string \<Rightarrow> string option" where
  "int_digits [] = None"
| "int_digits [c] = (if py_isdecimal c then Some [c] else None)"
| "int_digits (c # d # r) =
     (if py_isdecimal c then
        (if d = CHR ''_'' then map_option (\<lambda>ds. c # ds) (int_digits r)
         else map_option (\<lambda>ds. c # ds) (int_digits (d # r)))
      else None)"

definition digits_to_int :: "string \<Rightarrow> int option" where
  "digits_to_int s = (case int_digits s of None \<Rightarrow> None
     | Some ds \<Rightarrow> if 4300 < length ds then None else Some (int (digits_val ds)))"

definition py_int_of_str :: "string \<Rightarrow> int option" where
  "py_int_of_str s = (case strip s of
       [] \<Rightarrow> None
     | c # r \<Rightarrow>
         if c = CHR ''-'' then map_option uminus (digits_to_int r)
         else if c = CHR ''+'' then digits_to_int r
         else digits_to_int (c # r))"

lemma int_digits_decimal:
  "s \<noteq> [] \<Longrightarrow> (\<And>c. c \<in> set s \<Longrightarrow> py_isdecimal c) \<Longrightarrow> int_digits s = Some s"
proof (induction s rule: int_digits.induct)
  case (3 c d r)
  have "d \<noteq> CHR ''_''" using "3.prems"(2) [of d] by (auto simp: py_isdecimal_def ord_def)
  with 3 show ?case by simp
qed auto

section \<open>JSON values\<close>

datatype json =
    JNull
  | JBool bool
  | JInt int
  | JFloat real
  | JStr string
  | JList "json list"
  | JObj "(string \<times> json) list"

text \<open>Induction over a value together with the lists and dicts inside it.\<close>

lemma json_induct_all:
  assumes "P JNull" "\<And>b. P (JBool b)" "\<And>i. P (JInt i)" "\<And>r. P (JFloat r)" "\<And>s. P (JStr s)"
    and list: "\<And>xs. Q xs \<Longrightarrow> P (JList xs)" and dict: "\<And>d. R d \<Longrightarrow> P (JObj d)"
    and nil: "Q []" and cons: "\<And>x xs. P x \<Longrightarrow> Q xs \<Longrightarrow> Q (x # xs)"
    and dnil: "R []" and dcons: "\<And>k x d. P x \<Longrightarrow> R d \<Longrightarrow> R ((k, x) # d)"
  shows "P v" "Q vs" "R d"
proof -
  have Q: "Q xs" if "\<And>x. x \<in> set xs \<Longrightarrow> P x" for xs
    using that by (induction xs) (auto intro: nil cons)
  have R: "R e" if "\<And>k x. (k, x) \<in> set e \<Longrightarrow> P x" for e
    using that by (induction e) (auto intro: dnil dcons)
  show P: "P v" for v
  proof (induction v)
    case (JList xs)
    then show ?case by (intro list Q) auto
  next
    case (JObj e)
    then show ?case by (intro dict R) (auto intro: snds.intros)
  qed (use assms in auto)
  show "Q vs" using P by (rule Q)
  show "R d" using P by (rule R)
qed

text \<open>\<open>bool(v)\<close>.\<close>

fun py_truthy :: "json \<Rightarrow> bool" where
  "py_truthy JNull = False"
| "py_truthy (JBool b) = b"
| "py_truthy (JInt i) = (i \<noteq> 0)"
| "py_truthy (JFloat r) = (r \<noteq> 0)"
| "py_truthy (JStr s) = (s \<noteq> [])"
| "py_truthy (JList xs) = (xs \<noteq> [])"
| "py_truthy (JObj d) = (d \<noteq> [])"

text \<open>\<open>repr(text)\<close> and \<open>str(v)\<close>.\<close>

definition hex_digit :: "nat \<Rightarrow> char" where
  "hex_digit d = (if d < 10 then char_of (48 + d) else char_of (87 + d))"

definition repr_char :: "char \<Rightarrow> char \<Rightarrow> string" where
  "repr_char q c =
     (if c = q \<or> ord c = 92 then [char_of (92::nat), c]
      else if ord c = 9 then [char_of (92::nat), CHR ''t'']
      else if ord c = 10 then [char_of (92::nat), CHR ''n'']
      else if ord c = 13 then [char_of (92::nat), CHR ''r'']
      else if ord c < 32 \<or> (127 \<le> ord c \<and> ord c \<le> 160) \<or> ord c = 173
        then [char_of (92::nat), CHR ''x'', hex_digit (ord c div 16), hex_digit (ord c mod 16)]
      else [c])"

definition single_quote :: char where "single_quote = char_of (39::nat)"

definition backslash :: char where "backslash = char_of (92::nat)"

definition newline :: char where "newline = char_of (10::nat)"

definition double_quote :: char where "double_quote = char_of (34::nat)"

definition repr_str :: "string \<Rightarrow> string" where
  "repr_str s =
     (let q = (if single_quote \<in> set s \<and> double_quote \<notin> set s then double_quote else single_quote)
      in q # concat (map (repr_char q) s) @ [q])"

fun py_repr :: "(real \<Rightarrow> string) \<Rightarrow> json \<Rightarrow> string" where
  "py_repr fr JNull = ''None''"
| "py_repr fr (JBool b) = (if b then ''True'' else ''False'')"
| "py_repr fr (JInt i) = int_str i"
| "py_repr fr (JFloat r) = fr r"
| "py_repr fr (JStr s) = repr_str s"
| "py_repr fr (JList xs) = ''['' @ join '', '' (map (py_repr fr) xs) @ '']''"
| "py_repr fr (JObj d) =
     ''{'' @ join '', '' (map (\<lambda>(k, v). repr_str k @ '': '' @ py_repr fr v) d) @ ''}''"

fun py_str :: "(real \<Rightarrow> string) \<Rightarrow> json \<Rightarrow> string" where
  "py_str fr (JStr s) = s"
| "py_str fr v = py_repr fr v"

text \<open>\<open>int(v)\<close>: a float is truncated towards zero.\<close>

fun py_int :: "json \<Rightarrow> int res" where
  "py_int (JInt i) = Inr i"
| "py_int (JBool b) = Inr (if b then 1 else 0)"
| "py_int (JFloat r) = Inr (if r < 0 then \<lceil>r\<rceil> else \<lfloor>r\<rfloor>)"
| "py_int (JStr s) = (case py_int_of_str s of None \<Rightarrow> Inl ValueError | Some i \<Rightarrow> Inr i)"
| "py_int _ = Inl TypeError"

text \<open>
  \<open>a == b\<close>: numbers and booleans compare by value across their types, lists element by
  element, dicts without regard to the order of their keys.
\<close>

fun num_val :: "json \<Rightarrow> real option" where
  "num_val (JBool b) = Some (if b then 1 else 0)"
| "num_val (JInt i) = Some (real_of_int i)"
| "num_val (JFloat r) = Some r"
| "num_val _ = None"

lemma zip_size_list [termination_simp]:
  "(x, y) \<in> set (zip xs ys) \<Longrightarrow> size x < Suc (size_list size xs)"
  by (drule set_zip_leftD) (simp add: size_list_estimation' le_imp_less_Suc)

fun py_eq :: "json \<Rightarrow> json \<Rightarrow> bool" where
  "py_eq (JList xs) (JList ys) = (length xs = length ys \<and> list_all (\<lambda>(x, y). py_eq x y) (zip xs ys))"
| "py_eq (JObj d) (JObj e) =
     (length d = length e \<and>
      list_all (\<lambda>(k, v). case map_of e k of None \<Rightarrow> False | Some w \<Rightarrow> py_eq v w) d)"
| "py_eq (JStr s) (JStr t) = (s = t)"
| "py_eq JNull JNull = True"
| "py_eq a b = (case (num_val a, num_val b) of (Some x, Some y) \<Rightarrow> x = y | _ \<Rightarrow> False)"

lemma py_eq_str_iff [simp]: "py_eq v (JStr s) \<longleftrightarrow> v = JStr s"
  by (cases v) auto

text \<open>Access to an object's field, \<open>v.get(k)\<close>, where the value is known to be a dict.\<close>

fun jget :: "json \<Rightarrow> string \<Rightarrow> json option" where
  "jget (JObj d) k = map_of d k"
| "jget _ k = None"

definition jget_or_null :: "json \<Rightarrow> string \<Rightarrow> json" where
  "jget_or_null v k = (case jget v k of None \<Rightarrow> JNull | Some x \<Rightarrow> x)"

fun is_obj :: "json \<Rightarrow> bool" where
  "is_obj (JObj d) = True"
| "is_obj _ = False"

fun obj_entries :: "json \<Rightarrow> (string \<times> json) list" where
  "obj_entries (JObj d) = d"
| "obj_entries _ = []"

end
