(* ===== verification/ExprTokens.thy ===== *)
theory ExprTokens imports PyValues begin

text \<open>
  The tokenizer of the expression language (\<open>shared/expression_core.py\<close>, \<open>Token\<close> and
  \<open>_tokenize\<close>).  A token keeps its kind and value as one constructor and the position it
  starts at.  The code indexes \<open>text[i]\<close>; the model walks the remaining text and carries \<open>i\<close>.
  Every \<open>ValueError\<close> the code raises is a constructor of \<open>expr_error\<close> with the position its
  message names.

  The lemmas: the token list always ends with the end marker and holds no other one
  (what the parser's \<open>peek\<close> relies on), positions never decrease and stay inside the text.
\<close>

datatype tok =
    LPAREN
  | RPAREN
  | LBRACKET
  | RBRACKET
  | COMMA
  | OP string
  | STRING string
  | NUMBER int
  | LISTREF string string
  | KEYWORD string
  | IDENT string
  | EOF

record token =
  tk :: tok
  tpos :: nat

datatype expr_error =
    UnterminatedString nat
  | InvalidListRef nat
  | ListRefWithoutType nat
  | InvalidNumber nat
  | UnexpectedCharacter char nat
  | ExpectedToken tok nat
  | UnexpectedToken nat
  | ExpectedField nat
  | ExpectedBracketKey nat
  | ExpectedInOrExists nat
  | ExpectedValue nat
  | RequiresOperator string nat
  | ExpectedOperator string nat
  | ExpectedListValue nat
  | ExpectedListRef nat
  | ExpressionRequired
  | NoMoreTokens
  | OutOfFuel

definition KEYWORDS :: "string list" where
  "KEYWORDS = [''and'', ''or'', ''not'', ''in'', ''contains'', ''starts_with'', ''ends_with'',
     ''exists'', ''true'', ''false'']"

definition TWO_CHAR_OPS :: "string list" where
  "TWO_CHAR_OPS = [''!='', ''!~'', ''>='', ''<='']"

definition ONE_CHAR_OPS :: "char list" where
  "ONE_CHAR_OPS = [CHR ''='', CHR ''~'', CHR ''>'', CHR ''<'']"

text \<open>
  The body of a string literal after its opening quote: a backslash takes the next character
  as it is, and a backslash that ends the text is an ordinary character.  The result is the
  content, the number of characters read with the closing quote, and the rest.
\<close>

fun scan_string :: "char \<Rightarrow> string \<Rightarrow> (string \<times> nat \<times> string) option" where
  "scan_string q [] = None"
| "scan_string q [c] = (if c \<noteq> backslash \<and> c = q then Some ([], 1, []) else None)"
| "scan_string q (c # d # r) =
     (if c = backslash then
        (case scan_string q r of None \<Rightarrow> None | Some (b, k, r') \<Rightarrow> Some (d # b, k + 2, r'))
      else if c = q then Some ([], 1, d # r)
      else
        (case scan_string q (d # r) of None \<Rightarrow> None | Some (b, k, r') \<Rightarrow> Some (c # b, k + 1, r')))"

definition list_ref_char :: "char \<Rightarrow> bool" where
  "list_ref_char c \<longleftrightarrow> py_isalnum c \<or> c \<in> set ''_.:-''"

definition word_char :: "char \<Rightarrow> bool" where
  "word_char c \<longleftrightarrow> py_isalnum c \<or> c \<in> set ''._''"

text \<open>\<open>int(text[i:j])\<close> on a run of \<open>isdigit\<close> characters, with its sign.\<close>

definition number_value :: "bool \<Rightarrow> string \<Rightarrow> int option" where
  "number_value neg ds = map_option (\<lambda>n. if neg then - n else n) (digits_to_int ds)"

definition asn_prefix :: "char \<Rightarrow> string \<Rightarrow> bool" where
  "asn_prefix c cs \<longleftrightarrow> c \<in> set ''Aa'' \<and>
     (case cs of s # d # _ \<Rightarrow> s \<in> set ''Ss'' \<and> py_isdigit d | _ \<Rightarrow> False)"

lemma scan_string_count:
  "scan_string q s = Some (b, k, r) \<Longrightarrow> k + length r = length s \<and> 0 < k"
  by (induction q s arbitrary: b k r rule: scan_string.induct)
    (force split: if_splits option.splits)+

text \<open>\<open>text[i:i + 2]\<close>, shorter at the end of the text.\<close>

definition two_chars :: "char \<Rightarrow> string \<Rightarrow> string" where
  "two_chars c cs = take 2 (c # cs)"

text \<open>
  One turn of the loop at the character \<open>c\<close> before \<open>cs\<close>: the token it appends, if any, and how
  many characters of \<open>cs\<close> it reads.
\<close>

definition next_token :: "nat \<Rightarrow> char \<Rightarrow> string \<Rightarrow> expr_error + tok option \<times> nat" where
  "next_token i c cs =
     (if py_isspace c then Inr (None, 0)
      else if c = CHR ''('' then Inr (Some LPAREN, 0)
      else if c = CHR '')'' then Inr (Some RPAREN, 0)
      else if c = CHR ''['' then Inr (Some LBRACKET, 0)
      else if c = CHR '']'' then Inr (Some RBRACKET, 0)
      else if c = CHR '','' then Inr (Some COMMA, 0)
      else if two_chars c cs \<in> set TWO_CHAR_OPS then Inr (Some (OP (two_chars c cs)), 1)
      else if c \<in> set ONE_CHAR_OPS then Inr (Some (OP [c]), 0)
      else if c = double_quote \<or> c = single_quote then
        (case scan_string c cs of
           None \<Rightarrow> Inl (UnterminatedString i)
         | Some (b, k, r) \<Rightarrow> Inr (Some (STRING b), k))
      else if py_isdigit c \<or> (c = CHR ''-'' \<and> cs \<noteq> [] \<and> py_isdigit (hd cs)) then
        (let neg = (c = CHR ''-''); ds = takeWhile py_isdigit cs
         in case number_value neg ((if neg then [] else [c]) @ ds) of
              None \<Rightarrow> Inl (InvalidNumber i)
            | Some n \<Rightarrow> Inr (Some (NUMBER n), length ds))
      else if c = CHR ''$'' then
        (let ref = takeWhile list_ref_char cs
         in if ref = [] then Inl (InvalidListRef i)
            else (case split_first ref '':'' of
                None \<Rightarrow> Inl (ListRefWithoutType i)
              | Some (ltype, lname) \<Rightarrow> Inr (Some (LISTREF ltype lname), length ref)))
      else if asn_prefix c cs then
        (let ds = takeWhile py_isdigit (tl cs)
         in Inr (Some (STRING (''AS'' @ ds)), 1 + length ds))
      else if py_isalpha c \<or> c = CHR ''_'' then
        (let word = c # takeWhile word_char cs; low = py_lower word
         in Inr (Some (if low \<in> set KEYWORDS then KEYWORD low else IDENT word), length word - 1))
      else Inl (UnexpectedCharacter c i))"

fun tokenize_from :: "nat \<Rightarrow> string \<Rightarrow> expr_error + token list" where
  "tokenize_from i [] = Inr [\<lparr>tk = EOF, tpos = i\<rparr>]"
| "tokenize_from i (c # cs) =
     (case next_token i c cs of
        Inl e \<Rightarrow> Inl e
      | Inr (t, k) \<Rightarrow>
          bind_res (tokenize_from (i + 1 + k) (drop k cs))
            (\<lambda>ts. Inr (case t of None \<Rightarrow> ts | Some v \<Rightarrow> \<lparr>tk = v, tpos = i\<rparr> # ts)))"

definition tokenize :: "string \<Rightarrow> expr_error + token list" where
  "tokenize text = tokenize_from 0 text"

section \<open>The shape of a token list\<close>

text \<open>The tokens a parser can meet: any number of real tokens, then the end marker.\<close>

definition ends_in_EOF :: "token list \<Rightarrow> bool" where
  "ends_in_EOF ts \<longleftrightarrow>
     (\<exists>us e. ts = us @ [e] \<and> tk e = EOF \<and> (\<forall>u\<in>set us. tk u \<noteq> EOF))"

lemma ends_in_EOF_single [simp]: "ends_in_EOF [\<lparr>tk = EOF, tpos = i\<rparr>]"
  by (simp add: ends_in_EOF_def)

lemma ends_in_EOF_Cons [simp]:
  "tk t \<noteq> EOF \<Longrightarrow> ends_in_EOF ts \<Longrightarrow> ends_in_EOF (t # ts)"
  unfolding ends_in_EOF_def by (metis append_Cons set_ConsD)

text \<open>The positions a token list carries ascend from \<open>lo\<close> and stay within \<open>hi\<close>.\<close>

fun positions_within :: "nat \<Rightarrow> nat \<Rightarrow> token list \<Rightarrow> bool" where
  "positions_within lo hi [] = True"
| "positions_within lo hi (t # ts) =
     (lo \<le> tpos t \<and> tpos t \<le> hi \<and> positions_within (tpos t) hi ts)"

lemma positions_within_mono:
  "positions_within lo hi ts \<Longrightarrow> lo' \<le> lo \<Longrightarrow> positions_within lo' hi ts"
  by (cases ts) auto

text \<open>A turn never appends the end marker and never reads past the end of the text.\<close>

lemma takeWhile_length_le [simp]: "length (takeWhile P xs) \<le> length xs"
  by (rule length_takeWhile_le)

lemma asn_prefix_tail: "asn_prefix c cs \<Longrightarrow> Suc (length (takeWhile py_isdigit (tl cs))) \<le> length cs"
  by (cases cs) (auto simp: asn_prefix_def length_takeWhile_le)

lemma two_char_tail: "two_chars c cs \<in> set TWO_CHAR_OPS \<Longrightarrow> Suc 0 \<le> length cs"
  by (cases cs) (auto simp: TWO_CHAR_OPS_def two_chars_def)

lemma next_token_bounds:
  "next_token i c cs = Inr (t, k) \<Longrightarrow> t \<noteq> Some EOF \<and> k \<le> length cs"
  unfolding next_token_def Let_def
  by (elim if_eq_elim)
    (auto dest: asn_prefix_tail two_char_tail scan_string_count
       split: option.split_asm prod.split_asm if_split_asm)

lemma tokenize_from_shape:
  "tokenize_from i s = Inr ts \<Longrightarrow> ends_in_EOF ts \<and> positions_within i (i + length s) ts"
proof (induction i s arbitrary: ts rule: tokenize_from.induct)
  case (1 i)
  then show ?case by auto
next
  case (2 i c cs)
  then obtain t k us where step: "next_token i c cs = Inr (t, k)"
      "tokenize_from (i + 1 + k) (drop k cs) = Inr us"
      "ts = (case t of None \<Rightarrow> us | Some v \<Rightarrow> \<lparr>tk = v, tpos = i\<rparr> # us)"
    by (auto simp: res_simps split: sum.splits)
  have k: "t \<noteq> Some EOF" "k \<le> length cs"
    using next_token_bounds [OF step(1)] by auto
  have "ends_in_EOF us \<and> positions_within (i + 1 + k) (i + 1 + k + length (drop k cs)) us"
    using "2.IH" [OF step(1) refl step(2)] .
  then have "ends_in_EOF us" "positions_within i (i + length (c # cs)) us"
    using k(2) positions_within_mono [of "i + 1 + k" _ us i] by auto
  with k(1) step(3) show ?case
    by (cases t) (auto intro: positions_within_mono)
qed

text \<open>The errors of the tokenizer are its own.\<close>

lemma next_token_error:
  "next_token i c cs = Inl e \<Longrightarrow> e \<noteq> OutOfFuel \<and> e \<noteq> NoMoreTokens"
  unfolding next_token_def Let_def
  by (elim if_eq_elim) (auto split: option.split_asm prod.split_asm if_split_asm)

lemma tokenize_from_error: "tokenize_from i s = Inl e \<Longrightarrow> e \<noteq> OutOfFuel \<and> e \<noteq> NoMoreTokens"
proof (induction i s rule: tokenize_from.induct)
  case (1 i)
  then show ?case by simp
next
  case (2 i c cs)
  show ?case
  proof (cases "next_token i c cs")
    case (Inl e')
    with "2.prems" next_token_error [OF Inl] show ?thesis by simp
  next
    case (Inr p)
    with "2.prems" have "tokenize_from (i + 1 + snd p) (drop (snd p) cs) = Inl e"
      by (cases "tokenize_from (i + 1 + snd p) (drop (snd p) cs)") (auto split: prod.splits)
    with "2.IH" [of p "fst p" "snd p"] Inr show ?thesis by simp
  qed
qed

lemma tokenize_error: "tokenize text = Inl e \<Longrightarrow> e \<noteq> OutOfFuel \<and> e \<noteq> NoMoreTokens"
  unfolding tokenize_def by (rule tokenize_from_error)

end
