(* ===== verification/ExprParser.thy ===== *)
theory ExprParser imports ExprTokens begin

text \<open>
  The recursive-descent parser of the expression language (\<open>_Parser\<close>, \<open>parse_expression\<close> and
  \<open>validate_expression\<close> of \<open>shared/expression_core.py\<close>).

  An AST node is a dict in the code; here it is \<open>ast\<close>.  Every leaf carries the flag that
  \<open>node.get("negated", False)\<close> reads, which is \<open>False\<close> where the code has no such key.  The
  parser state (\<open>tokens\<close>, \<open>pos\<close>) is the list of tokens from \<open>pos\<close> on; \<open>peek\<close> is its head.
  The mutually recursive methods spend one unit of fuel per call; \<open>parse_fuel\<close> is proved to be
  enough for every token list, so \<open>OutOfFuel\<close> is never the answer.
\<close>

datatype lit = LStr string | LInt int | LBool bool

datatype leaf =
    Compare string string lit
  | InList string string string
  | InLiterals string "lit list"
  | Exists string
  | BoolField string
  | Literal bool

datatype ast =
    Leaf leaf bool
  | And "ast list"
  | Or "ast list"
  | Not ast

type_synonym 'a parsed = "expr_error + 'a \<times> token list"

section \<open>The parser state\<close>

fun peek :: "token list \<Rightarrow> tok" where
  "peek (t # ts) = tk t"
| "peek [] = EOF"

fun peek_pos :: "token list \<Rightarrow> nat" where
  "peek_pos (t # ts) = tpos t"
| "peek_pos [] = 0"

definition is_kw :: "string \<Rightarrow> token list \<Rightarrow> bool" where
  "is_kw w ts \<longleftrightarrow> peek ts = KEYWORD w"

definition expect :: "tok \<Rightarrow> token list \<Rightarrow> expr_error + token list" where
  "expect k ts = (if peek ts = k then Inr (tl ts) else Inl (ExpectedToken k (peek_pos ts)))"

section \<open>Conditions\<close>

text \<open>The value after a comparison; only an operator symbol admits a boolean.\<close>

definition parse_value :: "bool \<Rightarrow> token list \<Rightarrow> lit parsed" where
  "parse_value allow_bool ts =
     (case peek ts of
        STRING s \<Rightarrow> Inr (LStr s, tl ts)
      | NUMBER n \<Rightarrow> Inr (LInt n, tl ts)
      | KEYWORD w \<Rightarrow>
          if allow_bool \<and> w \<in> {''true'', ''false''} then Inr (LBool (w = ''true''), tl ts)
          else Inl (ExpectedValue (peek_pos ts))
      | _ \<Rightarrow> Inl (ExpectedValue (peek_pos ts)))"

text \<open>The elements of a literal list after its opening bracket, up to the closing one.\<close>

fun parse_literals :: "token list \<Rightarrow> lit list parsed" where
  "parse_literals [] = Inl NoMoreTokens"
| "parse_literals (t # ts) =
     (case (case tk t of STRING s \<Rightarrow> Some (LStr s) | NUMBER n \<Rightarrow> Some (LInt n) | _ \<Rightarrow> None) of
        None \<Rightarrow> Inl (ExpectedListValue (tpos t))
      | Some v \<Rightarrow>
          (case ts of
             [] \<Rightarrow> Inl NoMoreTokens
           | u # us \<Rightarrow>
               if tk u = COMMA then
                 (case parse_literals us of Inl e \<Rightarrow> Inl e | Inr (vs, r) \<Rightarrow> Inr (v # vs, r))
               else (case expect RBRACKET ts of Inl e \<Rightarrow> Inl e | Inr r \<Rightarrow> Inr ([v], r))))"

definition parse_in :: "string \<Rightarrow> bool \<Rightarrow> token list \<Rightarrow> ast parsed" where
  "parse_in field negated ts =
     (case peek ts of
        LISTREF ltype lname \<Rightarrow> Inr (Leaf (InList field ltype lname) negated, tl ts)
      | LBRACKET \<Rightarrow>
          (let ts1 = tl ts
           in if peek ts1 = RBRACKET then Inr (Leaf (InLiterals field []) negated, tl ts1)
              else (case parse_literals ts1 of
                  Inl e \<Rightarrow> Inl e
                | Inr (vs, r) \<Rightarrow> Inr (Leaf (InLiterals field vs) negated, r)))
      | _ \<Rightarrow> Inl (ExpectedListRef (peek_pos ts)))"

definition bracket_field :: "string \<Rightarrow> string \<Rightarrow> string" where
  "bracket_field field key = field @ ''['' @ [double_quote] @ key @ [double_quote] @ '']''"

text \<open>The field of a condition, with its optional string key in brackets.\<close>

definition parse_field :: "token list \<Rightarrow> string parsed" where
  "parse_field ts =
     (case peek ts of
        IDENT field \<Rightarrow>
          (let ts1 = tl ts
           in if peek ts1 = LBRACKET then
                (case peek (tl ts1) of
                   STRING key \<Rightarrow>
                     (case expect RBRACKET (tl (tl ts1)) of
                        Inl e \<Rightarrow> Inl e
                      | Inr r \<Rightarrow> Inr (bracket_field field key, r))
                 | _ \<Rightarrow> Inl (ExpectedBracketKey (peek_pos (tl ts1))))
              else Inr (field, ts1))
      | _ \<Rightarrow> Inl (ExpectedField (peek_pos ts)))"

text \<open>What follows the field, \<open>negated\<close> telling whether a \<open>not\<close> was read.\<close>

definition parse_operator :: "string list \<Rightarrow> string \<Rightarrow> bool \<Rightarrow> token list \<Rightarrow> ast parsed" where
  "parse_operator bool_fields field negated ts =
     (if is_kw ''in'' ts then parse_in field negated (tl ts)
      else if is_kw ''exists'' ts then Inr (Leaf (Exists field) negated, tl ts)
      else (case peek ts of
          KEYWORD w \<Rightarrow>
            if w \<in> {''contains'', ''starts_with'', ''ends_with''} then
              (case parse_value False (tl ts) of
                 Inl e \<Rightarrow> Inl e
               | Inr (v, r) \<Rightarrow> Inr (Leaf (Compare field w v) False, r))
            else if w \<in> {''and'', ''or''} then
              (if field \<in> set bool_fields then Inr (Leaf (BoolField field) negated, ts)
               else Inl (RequiresOperator field (peek_pos ts)))
            else Inl (ExpectedOperator field (peek_pos ts))
        | EOF \<Rightarrow>
            if field \<in> set bool_fields then Inr (Leaf (BoolField field) negated, ts)
            else Inl (RequiresOperator field (peek_pos ts))
        | RPAREN \<Rightarrow>
            if field \<in> set bool_fields then Inr (Leaf (BoolField field) negated, ts)
            else Inl (RequiresOperator field (peek_pos ts))
        | OP opr \<Rightarrow>
            (case parse_value True (tl ts) of
               Inl e \<Rightarrow> Inl e
             | Inr (v, r) \<Rightarrow> Inr (Leaf (Compare field opr v) False, r))
        | _ \<Rightarrow> Inl (ExpectedOperator field (peek_pos ts))))"

definition parse_condition :: "string list \<Rightarrow> token list \<Rightarrow> ast parsed" where
  "parse_condition bool_fields ts =
     (case parse_field ts of
        Inl e \<Rightarrow> Inl e
      | Inr (field, ts1) \<Rightarrow>
          if is_kw ''not'' ts1 then
            (let ts2 = tl ts1
             in if is_kw ''in'' ts2 \<or> is_kw ''exists'' ts2 then parse_operator bool_fields field True ts2
                else Inl (ExpectedInOrExists (peek_pos ts2)))
          else parse_operator bool_fields field False ts1)"

section \<open>Boolean structure\<close>

function (sequential) parse_or :: "nat \<Rightarrow> string list \<Rightarrow> token list \<Rightarrow> ast parsed"
  and parse_or_rest :: "nat \<Rightarrow> string list \<Rightarrow> token list \<Rightarrow> ast list parsed"
  and parse_and :: "nat \<Rightarrow> string list \<Rightarrow> token list \<Rightarrow> ast parsed"
  and parse_and_rest :: "nat \<Rightarrow> string list \<Rightarrow> token list \<Rightarrow> ast list parsed"
  and parse_not :: "nat \<Rightarrow> string list \<Rightarrow> token list \<Rightarrow> ast parsed"
  and parse_primary :: "nat \<Rightarrow> string list \<Rightarrow> token list \<Rightarrow> ast parsed" where
  "parse_or 0 bf ts = Inl OutOfFuel"
| "parse_or (Suc n) bf ts =
     (case parse_and n bf ts of
        Inl e \<Rightarrow> Inl e
      | Inr (c, ts1) \<Rightarrow>
          (case parse_or_rest n bf ts1 of
             Inl e \<Rightarrow> Inl e
           | Inr (cs, ts2) \<Rightarrow> Inr (if cs = [] then c else Or (c # cs), ts2)))"
| "parse_or_rest 0 bf ts = Inl OutOfFuel"
| "parse_or_rest (Suc n) bf ts =
     (if is_kw ''or'' ts then
        (case parse_and n bf (tl ts) of
           Inl e \<Rightarrow> Inl e
         | Inr (c, ts1) \<Rightarrow>
             (case parse_or_rest n bf ts1 of
                Inl e \<Rightarrow> Inl e
              | Inr (cs, ts2) \<Rightarrow> Inr (c # cs, ts2)))
      else Inr ([], ts))"
| "parse_and 0 bf ts = Inl OutOfFuel"
| "parse_and (Suc n) bf ts =
     (case parse_not n bf ts of
        Inl e \<Rightarrow> Inl e
      | Inr (c, ts1) \<Rightarrow>
          (case parse_and_rest n bf ts1 of
             Inl e \<Rightarrow> Inl e
           | Inr (cs, ts2) \<Rightarrow> Inr (if cs = [] then c else And (c # cs), ts2)))"
| "parse_and_rest 0 bf ts = Inl OutOfFuel"
| "parse_and_rest (Suc n) bf ts =
     (if is_kw ''and'' ts then
        (case parse_not n bf (tl ts) of
           Inl e \<Rightarrow> Inl e
         | Inr (c, ts1) \<Rightarrow>
             (case parse_and_rest n bf ts1 of
                Inl e \<Rightarrow> Inl e
              | Inr (cs, ts2) \<Rightarrow> Inr (c # cs, ts2)))
      else Inr ([], ts))"
| "parse_not 0 bf ts = Inl OutOfFuel"
| "parse_not (Suc n) bf ts =
     (if is_kw ''not'' ts then
        (case parse_not n bf (tl ts) of
           Inl e \<Rightarrow> Inl e
         | Inr (c, ts1) \<Rightarrow> Inr (Not c, ts1))
      else parse_primary n bf ts)"
| "parse_primary 0 bf ts = Inl OutOfFuel"
| "parse_primary (Suc n) bf ts =
     (if peek ts = LPAREN then
        (case parse_or n bf (tl ts) of
           Inl e \<Rightarrow> Inl e
         | Inr (c, ts1) \<Rightarrow> (case expect RPAREN ts1 of Inl e \<Rightarrow> Inl e | Inr ts2 \<Rightarrow> Inr (c, ts2)))
      else if is_kw ''true'' ts \<or> is_kw ''false'' ts then
        Inr (Leaf (Literal (is_kw ''true'' ts)) False, tl ts)
      else parse_condition bf ts)"

  by pat_completeness auto
termination
  by (relation "measure (\<lambda>x. case x of
       Inl (Inl (n, _)) \<Rightarrow> n | Inl (Inr (Inl (n, _))) \<Rightarrow> n | Inl (Inr (Inr (n, _))) \<Rightarrow> n
     | Inr (Inl (n, _)) \<Rightarrow> n | Inr (Inr (Inl (n, _))) \<Rightarrow> n | Inr (Inr (Inr (n, _))) \<Rightarrow> n)") auto

definition parse_fuel :: "token list \<Rightarrow> nat" where
  "parse_fuel ts = 5 * length ts + 5"

text \<open>\<open>_Parser.parse\<close>: one expression, then the end marker.\<close>

definition parse_tokens :: "string list \<Rightarrow> token list \<Rightarrow> expr_error + ast" where
  "parse_tokens bool_fields ts =
     (case parse_or (parse_fuel ts) bool_fields ts of
        Inl e \<Rightarrow> Inl e
      | Inr (node, r) \<Rightarrow> if peek r \<noteq> EOF then Inl (UnexpectedToken (peek_pos r)) else Inr node)"

definition parse_expression :: "string list \<Rightarrow> string \<Rightarrow> expr_error + ast" where
  "parse_expression bool_fields text =
     (if strip text = [] then Inl ExpressionRequired
      else (case tokenize text of Inl e \<Rightarrow> Inl e | Inr ts \<Rightarrow> parse_tokens bool_fields ts))"

text \<open>\<open>(ok, ast, error)\<close>, with the error value in place of its message.\<close>

definition validate_expression :: "string list \<Rightarrow> string \<Rightarrow> bool \<times> ast option \<times> expr_error option" where
  "validate_expression bool_fields text =
     (if strip text = [] then (True, None, None)
      else (case parse_expression bool_fields text of
          Inr node \<Rightarrow> (True, Some node, None)
        | Inl e \<Rightarrow> (False, None, Some e)))"


section \<open>The parser consumes tokens and stays inside the list\<close>

lemma ends_in_EOF_neq_Nil: "ends_in_EOF ts \<Longrightarrow> ts \<noteq> []"
  by (auto simp: ends_in_EOF_def)

lemma ends_in_EOF_tl:
  "ends_in_EOF ts \<Longrightarrow> peek ts \<noteq> EOF \<Longrightarrow> ends_in_EOF (tl ts)"
  by (cases ts) (auto simp: ends_in_EOF_def Cons_eq_append_conv)

text \<open>
  \<open>reads ts r\<close>: \<open>r\<close> is what is left of \<open>ts\<close> after at least one token, the end marker still
  in place.
\<close>

definition reads :: "token list \<Rightarrow> token list \<Rightarrow> bool" where
  "reads ts r \<longleftrightarrow> (ends_in_EOF ts \<longrightarrow> ends_in_EOF r) \<and> length r < length ts"

lemma reads_tl [intro]: "peek ts \<noteq> EOF \<Longrightarrow> reads ts (tl ts)"
  by (cases ts) (auto simp: reads_def dest: ends_in_EOF_tl)

lemma reads_trans [trans]: "reads ts r \<Longrightarrow> reads r q \<Longrightarrow> reads ts q"
  by (auto simp: reads_def)

lemma reads_less: "reads ts r \<Longrightarrow> length r < length ts"
  by (simp add: reads_def)

lemma expect_reads: "expect k ts = Inr r \<Longrightarrow> k \<noteq> EOF \<Longrightarrow> reads ts r"
  by (auto simp: expect_def split: if_splits)

lemma is_kw_not_EOF: "is_kw w ts \<Longrightarrow> peek ts \<noteq> EOF"
  by (simp add: is_kw_def)

lemma parse_value_reads: "parse_value b ts = Inr (v, r) \<Longrightarrow> reads ts r"
  by (auto simp: parse_value_def split: tok.splits if_splits)

lemma parse_literals_reads: "parse_literals ts = Inr (vs, r) \<Longrightarrow> reads ts r"
proof (induction ts arbitrary: vs r rule: parse_literals.induct)
  case 1
  then show ?case by simp
next
  case (2 t ts)
  from "2.prems" obtain v where v: "(case tk t of STRING s \<Rightarrow> Some (LStr s) | NUMBER n \<Rightarrow> Some (LInt n)
      | _ \<Rightarrow> None) = Some v"
    by (auto split: option.splits)
  then have t: "tk t \<noteq> EOF" by auto
  then have first: "reads (t # ts) ts" using reads_tl [of "t # ts"] by simp
  show ?case
  proof (cases ts)
    case Nil
    with "2.prems" v show ?thesis by simp
  next
    case (Cons u us)
    show ?thesis
    proof (cases "tk u = COMMA")
      case True
      with "2.prems" v Cons obtain ws where "parse_literals us = Inr (ws, r)"
        by (auto split: sum.splits)
      then have "reads us r" using "2.IH" v Cons True by blast
      moreover have "reads ts us" using Cons True reads_tl [of ts] by simp
      ultimately show ?thesis using first by (blast intro: reads_trans)
    next
      case False
      with "2.prems" v Cons have "expect RBRACKET ts = Inr r" by (auto split: sum.splits)
      then have "reads ts r" by (rule expect_reads) simp
      with first show ?thesis by (rule reads_trans)
    qed
  qed
qed

lemma parse_in_reads: "parse_in f neg ts = Inr (c, r) \<Longrightarrow> reads ts r"
  by (auto simp: parse_in_def Let_def split: tok.splits if_splits sum.splits
      intro: reads_trans [OF reads_tl reads_tl] reads_trans [OF reads_tl parse_literals_reads])

lemma parse_field_reads: "parse_field ts = Inr (f, r) \<Longrightarrow> reads ts r"
proof -
  assume r: "parse_field ts = Inr (f, r)"
  then obtain g where g: "peek ts = IDENT g" by (auto simp: parse_field_def split: tok.splits)
  then have one: "reads ts (tl ts)" by auto
  show ?thesis
  proof (cases "peek (tl ts) = LBRACKET")
    case True
    with r g obtain key where key: "peek (tl (tl ts)) = STRING key"
        "expect RBRACKET (tl (tl (tl ts))) = Inr r"
      by (auto simp: parse_field_def Let_def split: tok.splits sum.splits)
    have "reads (tl ts) (tl (tl ts))" "reads (tl (tl ts)) (tl (tl (tl ts)))"
      using True key(1) by auto
    moreover have "reads (tl (tl (tl ts))) r" using key(2) by (rule expect_reads) simp
    ultimately show ?thesis using one by (blast intro: reads_trans)
  next
    case False
    with r g one show ?thesis by (simp add: parse_field_def)
  qed
qed

lemma parse_operator_reads: "parse_operator bf f neg ts = Inr (c, r) \<Longrightarrow> reads ts r \<or> r = ts"
  by (auto simp: parse_operator_def is_kw_def split: tok.splits if_splits sum.splits
      intro: reads_trans [OF reads_tl parse_value_reads] reads_trans [OF reads_tl parse_in_reads])

lemma parse_condition_reads: "parse_condition bf ts = Inr (c, r) \<Longrightarrow> reads ts r"
proof -
  assume r: "parse_condition bf ts = Inr (c, r)"
  then obtain f ts1 where f: "parse_field ts = Inr (f, ts1)"
    by (auto simp: parse_condition_def split: sum.splits)
  have one: "reads ts ts1" using f by (rule parse_field_reads)
  show ?thesis
  proof (cases "is_kw ''not'' ts1")
    case True
    with r f have "parse_operator bf f True (tl ts1) = Inr (c, r)"
      by (auto simp: parse_condition_def Let_def split: if_splits)
    then have "reads (tl ts1) r \<or> r = tl ts1" by (rule parse_operator_reads)
    with one is_kw_not_EOF [OF True] show ?thesis by (metis reads_tl reads_trans)
  next
    case False
    with r f have "parse_operator bf f False ts1 = Inr (c, r)"
      by (auto simp: parse_condition_def)
    then have "reads ts1 r \<or> r = ts1" by (rule parse_operator_reads)
    with one show ?thesis by (metis reads_trans)
  qed
qed

lemma reads_then: "reads ts q \<Longrightarrow> reads q r \<or> r = q \<Longrightarrow> reads ts r"
  by (auto intro: reads_trans)

lemma reads_kw: "is_kw w ts \<Longrightarrow> reads (tl ts) r \<Longrightarrow> reads ts r"
  by (blast intro: reads_trans dest: is_kw_not_EOF)

lemma reads_paren:
  "peek ts = LPAREN \<Longrightarrow> reads (tl ts) q \<Longrightarrow> expect RPAREN q = Inr r \<Longrightarrow> reads ts r"
  by (rule reads_trans [OF reads_tl reads_trans [OF _ expect_reads]]) auto

lemma parse_reads:
  "parse_or n bf ts = Inr (c, r) \<Longrightarrow> reads ts r"
  "parse_or_rest n bf ts = Inr (cs, r) \<Longrightarrow> reads ts r \<or> r = ts"
  "parse_and n bf ts = Inr (c, r) \<Longrightarrow> reads ts r"
  "parse_and_rest n bf ts = Inr (cs, r) \<Longrightarrow> reads ts r \<or> r = ts"
  "parse_not n bf ts = Inr (c, r) \<Longrightarrow> reads ts r"
  "parse_primary n bf ts = Inr (c, r) \<Longrightarrow> reads ts r"
proof (induction n arbitrary: bf ts c r cs)
  case 0
  {
    case 1 then show ?case by simp
  next
    case 2 then show ?case by simp
  next
    case 3 then show ?case by simp
  next
    case 4 then show ?case by simp
  next
    case 5 then show ?case by simp
  next
    case 6 then show ?case by simp
  }
next
  case (Suc n)
  {
    case 1
    then show ?case by (auto split: sum.splits dest!: Suc.IH intro: reads_then)
  next
    case 2
    then show ?case
      by (auto split: sum.splits if_splits dest!: Suc.IH intro: reads_then reads_kw)
  next
    case 3
    then show ?case by (auto split: sum.splits dest!: Suc.IH intro: reads_then)
  next
    case 4
    then show ?case
      by (auto split: sum.splits if_splits dest!: Suc.IH intro: reads_then reads_kw)
  next
    case 5
    then show ?case by (auto split: sum.splits if_splits dest!: Suc.IH intro: reads_kw)
  next
    case 6
    then show ?case
      by (auto split: sum.splits if_splits dest!: Suc.IH dest: parse_condition_reads
          dest!: is_kw_not_EOF intro: reads_paren)
  }
qed

section \<open>Enough fuel\<close>

text \<open>
  \<open>settled r\<close>: the outcome is a node or a genuine \<open>ValueError\<close>; neither the fuel nor the token
  list ran out.
\<close>

definition settled :: "expr_error + 'a \<Rightarrow> bool" where
  "settled r \<longleftrightarrow> r \<noteq> Inl OutOfFuel \<and> r \<noteq> Inl NoMoreTokens"

lemma settled_Inr [simp]: "settled (Inr x)"
  by (simp add: settled_def)

lemma settled_Inl [simp]: "settled (Inl e) \<longleftrightarrow> e \<noteq> OutOfFuel \<and> e \<noteq> NoMoreTokens"
  by (simp add: settled_def)

lemma settled_case:
  "settled r \<Longrightarrow> (\<And>x q. r = Inr (x, q) \<Longrightarrow> settled (f x q)) \<Longrightarrow>
   settled (case r of Inl e \<Rightarrow> Inl e | Inr (x, q) \<Rightarrow> f x q)"
  by (auto split: sum.split)

lemma settled_case1:
  "settled r \<Longrightarrow> (\<And>q. r = Inr q \<Longrightarrow> settled (f q)) \<Longrightarrow>
   settled (case r of Inl e \<Rightarrow> Inl e | Inr q \<Rightarrow> f q)"
  by (auto split: sum.split)

lemma expect_settled [intro!]: "settled (expect k ts)"
  by (simp add: expect_def)

lemma expect_neq [simp]: "expect k ts \<noteq> Inl OutOfFuel" "expect k ts \<noteq> Inl NoMoreTokens"
  by (simp_all add: expect_def)

lemma parse_value_settled [intro!]: "settled (parse_value b ts)"
  by (auto simp: parse_value_def split: tok.split)

lemma parse_literals_settled: "ends_in_EOF ts \<Longrightarrow> settled (parse_literals ts)"
proof (induction ts rule: parse_literals.induct)
  case 1
  then show ?case by (simp add: ends_in_EOF_def)
next
  case (2 t ts)
  show ?case
  proof (cases "case tk t of STRING s \<Rightarrow> Some (LStr s) | NUMBER n \<Rightarrow> Some (LInt n) | _ \<Rightarrow> None")
    case None
    then show ?thesis by simp
  next
    case (Some v)
    then have "tk t \<noteq> EOF" by auto
    with "2.prems" have ts: "ends_in_EOF ts" using ends_in_EOF_tl [of "t # ts"] by simp
    then obtain u us where u: "ts = u # us" by (cases ts) (auto dest: ends_in_EOF_neq_Nil)
    show ?thesis
    proof (cases "tk u = COMMA")
      case True
      with ts u have "ends_in_EOF us" using ends_in_EOF_tl [of ts] by simp
      with "2.IH" [OF Some u True] Some u True show ?thesis by (auto split: sum.split)
    next
      case False
      have "settled (expect RBRACKET ts)" ..
      with Some u False show ?thesis by (auto split: sum.split)
    qed
  qed
qed

lemma parse_in_settled: "ends_in_EOF ts \<Longrightarrow> settled (parse_in f neg ts)"
  by (auto simp: parse_in_def Let_def split: tok.split
      intro!: settled_case parse_literals_settled ends_in_EOF_tl)

lemma parse_field_settled: "settled (parse_field ts)"
  by (auto simp: parse_field_def Let_def settled_def split: tok.split sum.split)

lemma parse_operator_settled: "ends_in_EOF ts \<Longrightarrow> settled (parse_operator bf f neg ts)"
proof -
  assume ts: "ends_in_EOF ts"
  have v: "settled (case parse_value b q of Inl e \<Rightarrow> Inl e
      | Inr (v, r) \<Rightarrow> Inr (Leaf (Compare f w v) False, r))" for b q w
    by (rule settled_case [OF parse_value_settled]) simp
  show ?thesis
    by (cases "peek ts")
      (simp_all add: parse_operator_def is_kw_def v ts parse_in_settled ends_in_EOF_tl)
qed

lemma parse_condition_settled: "ends_in_EOF ts \<Longrightarrow> settled (parse_condition bf ts)"
proof -
  assume ts: "ends_in_EOF ts"
  have "settled (case parse_field ts of Inl e \<Rightarrow> Inl e | Inr (field, ts1) \<Rightarrow>
      if is_kw ''not'' ts1 then
        (let ts2 = tl ts1
         in if is_kw ''in'' ts2 \<or> is_kw ''exists'' ts2 then parse_operator bf field True ts2
            else Inl (ExpectedInOrExists (peek_pos ts2)))
      else parse_operator bf field False ts1)"
  proof (rule settled_case [OF parse_field_settled])
    fix field ts1
    assume "parse_field ts = Inr (field, ts1)"
    with ts have ts1: "ends_in_EOF ts1" using parse_field_reads by (auto simp: reads_def)
    then have "is_kw ''not'' ts1 \<Longrightarrow> ends_in_EOF (tl ts1)"
      by (rule ends_in_EOF_tl) (rule is_kw_not_EOF)
    with ts1 show "settled (if is_kw ''not'' ts1 then
        (let ts2 = tl ts1
         in if is_kw ''in'' ts2 \<or> is_kw ''exists'' ts2 then parse_operator bf field True ts2
            else Inl (ExpectedInOrExists (peek_pos ts2)))
      else parse_operator bf field False ts1)"
      by (simp add: Let_def parse_operator_settled)
  qed
  then show ?thesis by (simp add: parse_condition_def)
qed

lemma parse_settled:
  "ends_in_EOF ts \<Longrightarrow> 5 * length ts + 4 \<le> n \<Longrightarrow> settled (parse_or n bf ts)"
  "ends_in_EOF ts \<Longrightarrow> 5 * length ts + 1 \<le> n \<Longrightarrow> settled (parse_or_rest n bf ts)"
  "ends_in_EOF ts \<Longrightarrow> 5 * length ts + 3 \<le> n \<Longrightarrow> settled (parse_and n bf ts)"
  "ends_in_EOF ts \<Longrightarrow> 5 * length ts + 1 \<le> n \<Longrightarrow> settled (parse_and_rest n bf ts)"
  "ends_in_EOF ts \<Longrightarrow> 5 * length ts + 2 \<le> n \<Longrightarrow> settled (parse_not n bf ts)"
  "ends_in_EOF ts \<Longrightarrow> 5 * length ts + 1 \<le> n \<Longrightarrow> settled (parse_primary n bf ts)"
proof (induction n arbitrary: bf ts)
  case 0
  {
    case 1 then show ?case by simp
  next
    case 2 then show ?case by simp
  next
    case 3 then show ?case by simp
  next
    case 4 then show ?case by simp
  next
    case 5 then show ?case by simp
  next
    case 6 then show ?case by simp
  }
next
  case (Suc n)
  have shorter: "ends_in_EOF r \<and> 5 * length r + 4 \<le> n"
    if "reads ts r" "ends_in_EOF ts" "5 * length ts + 1 \<le> Suc n" for ts r
    using that by (simp add: reads_def)
  have tail: "ends_in_EOF (tl ts) \<and> 5 * length (tl ts) + 4 \<le> n"
    if "peek ts \<noteq> EOF" "ends_in_EOF ts" "5 * length ts + 1 \<le> Suc n" for ts
    using that by (intro shorter [of ts]) auto
  {
    case 1
    show ?case unfolding parse_or.simps
    proof (intro settled_case Suc.IH)
      fix x q assume "parse_and n bf ts = Inr (x, q)"
      then have "ends_in_EOF q \<and> 5 * length q + 4 \<le> n"
        using 1 by (intro shorter [of ts]) (auto dest: parse_reads)
      then show "ends_in_EOF q" "5 * length q + 1 \<le> n" by auto
    qed (use 1 in auto)
  next
    case 2
    show ?case
    proof (cases "is_kw ''or'' ts")
      case True
      have "settled (case parse_and n bf (tl ts) of Inl e \<Rightarrow> Inl e | Inr (c, ts1) \<Rightarrow>
          (case parse_or_rest n bf ts1 of Inl e \<Rightarrow> Inl e | Inr (cs, ts2) \<Rightarrow> Inr (c # cs, ts2)))"
      proof (intro settled_case Suc.IH)
        show tl: "ends_in_EOF (tl ts)" "5 * length (tl ts) + 3 \<le> n"
          using tail [OF is_kw_not_EOF [OF True]] 2 by auto
        fix x q assume "parse_and n bf (tl ts) = Inr (x, q)"
        then have "reads ts q" using True by (auto dest: parse_reads intro: reads_kw)
        then have "ends_in_EOF q \<and> 5 * length q + 4 \<le> n" using 2 by (intro shorter [of ts])
        then show "ends_in_EOF q" "5 * length q + 1 \<le> n" by auto
      qed auto
      with True show ?thesis by simp
    qed simp
  next
    case 3
    show ?case unfolding parse_and.simps
    proof (intro settled_case Suc.IH)
      fix x q assume "parse_not n bf ts = Inr (x, q)"
      then have "ends_in_EOF q \<and> 5 * length q + 4 \<le> n"
        using 3 by (intro shorter [of ts]) (auto dest: parse_reads)
      then show "ends_in_EOF q" "5 * length q + 1 \<le> n" by auto
    qed (use 3 in auto)
  next
    case 4
    show ?case
    proof (cases "is_kw ''and'' ts")
      case True
      have "settled (case parse_not n bf (tl ts) of Inl e \<Rightarrow> Inl e | Inr (c, ts1) \<Rightarrow>
          (case parse_and_rest n bf ts1 of Inl e \<Rightarrow> Inl e | Inr (cs, ts2) \<Rightarrow> Inr (c # cs, ts2)))"
      proof (intro settled_case Suc.IH)
        show tl: "ends_in_EOF (tl ts)" "5 * length (tl ts) + 2 \<le> n"
          using tail [OF is_kw_not_EOF [OF True]] 4 by auto
        fix x q assume "parse_not n bf (tl ts) = Inr (x, q)"
        then have "reads ts q" using True by (auto dest: parse_reads intro: reads_kw)
        then have "ends_in_EOF q \<and> 5 * length q + 4 \<le> n" using 4 by (intro shorter [of ts])
        then show "ends_in_EOF q" "5 * length q + 1 \<le> n" by auto
      qed auto
      with True show ?thesis by simp
    qed simp
  next
    case 5
    show ?case
    proof (cases "is_kw ''not'' ts")
      case True
      have "settled (parse_not n bf (tl ts))"
        using tail [OF is_kw_not_EOF [OF True]] 5 by (intro Suc.IH) auto
      with True show ?thesis by (auto split: sum.split)
    next
      case False
      with 5 show ?thesis by (simp add: Suc.IH)
    qed
  next
    case 6
    show ?case
    proof (cases "peek ts = LPAREN")
      case True
      then have "settled (parse_or n bf (tl ts))"
        using tail [of ts] 6 by (intro Suc.IH) auto
      with True show ?thesis by (auto split: sum.split)
    next
      case False
      with 6 show ?thesis by (simp add: parse_condition_settled)
    qed
  }
qed

end
