(* ===== verification/ExprGrammar.thy ===== *)
theory ExprGrammar imports ExprParser begin

text \<open>
  What the parser accepts, stated without the parser: \<open>wf_ast\<close> says which nodes the language
  has, \<open>unparse\<close> writes a node as tokens with the parentheses its precedence asks for
  (\<open>not\<close> over \<open>and\<close> over \<open>or\<close>).  The parser inverts \<open>unparse\<close> on every well-formed node,
  and every node it builds is well-formed.
\<close>

definition word_ops :: "string list" where
  "word_ops = [''contains'', ''starts_with'', ''ends_with'']"

definition symbol_ops :: "string list" where
  "symbol_ops = [''='', ''~'', ''>'', ''<'', ''!='', ''!~'', ''>='', ''<='']"

fun scalar :: "lit \<Rightarrow> bool" where
  "scalar (LBool b) = False"
| "scalar v = True"

fun wf_leaf :: "string list \<Rightarrow> leaf \<Rightarrow> bool \<Rightarrow> bool" where
  "wf_leaf bf (Compare f opr v) neg =
     (\<not> neg \<and> (opr \<in> set word_ops \<and> scalar v \<or> opr \<in> set symbol_ops))"
| "wf_leaf bf (InList f lt' ln') neg = True"
| "wf_leaf bf (InLiterals f vs) neg = list_all scalar vs"
| "wf_leaf bf (Exists f) neg = True"
| "wf_leaf bf (BoolField f) neg = (\<not> neg \<and> f \<in> set bf)"
| "wf_leaf bf (Literal b) neg = (\<not> neg)"

fun wf_ast :: "string list \<Rightarrow> ast \<Rightarrow> bool" where
  "wf_ast bf (Leaf l neg) = wf_leaf bf l neg"
| "wf_ast bf (And cs) = (2 \<le> length cs \<and> list_all (wf_ast bf) cs)"
| "wf_ast bf (Or cs) = (2 \<le> length cs \<and> list_all (wf_ast bf) cs)"
| "wf_ast bf (Not c) = wf_ast bf c"

section \<open>Nodes as tokens\<close>

fun lit_tok :: "lit \<Rightarrow> tok" where
  "lit_tok (LStr s) = STRING s"
| "lit_tok (LInt n) = NUMBER n"
| "lit_tok (LBool b) = KEYWORD (if b then ''true'' else ''false'')"

definition not_toks :: "bool \<Rightarrow> tok list" where
  "not_toks neg = (if neg then [KEYWORD ''not''] else [])"

fun leaf_toks :: "leaf \<Rightarrow> bool \<Rightarrow> tok list" where
  "leaf_toks (Compare f opr v) neg =
     [IDENT f, if opr \<in> set word_ops then KEYWORD opr else OP opr, lit_tok v]"
| "leaf_toks (InList f lt' ln') neg = IDENT f # not_toks neg @ [KEYWORD ''in'', LISTREF lt' ln']"
| "leaf_toks (InLiterals f vs) neg =
     IDENT f # not_toks neg @ [KEYWORD ''in'', LBRACKET] @
       join [COMMA] (map (\<lambda>v. [lit_tok v]) vs) @ [RBRACKET]"
| "leaf_toks (Exists f) neg = IDENT f # not_toks neg @ [KEYWORD ''exists'']"
| "leaf_toks (BoolField f) neg = [IDENT f]"
| "leaf_toks (Literal b) neg = [KEYWORD (if b then ''true'' else ''false'')]"

text \<open>\<open>unparse l n\<close>: level 0 admits a bare \<open>or\<close>, level 1 a bare \<open>and\<close>, level 2 neither.\<close>

definition parens :: "bool \<Rightarrow> tok list \<Rightarrow> tok list" where
  "parens b ts = (if b then LPAREN # ts @ [RPAREN] else ts)"

fun unparse :: "nat \<Rightarrow> ast \<Rightarrow> tok list" where
  "unparse l (Leaf lf neg) = leaf_toks lf neg"
| "unparse l (Not c) = KEYWORD ''not'' # unparse 2 c"
| "unparse l (And cs) = parens (2 \<le> l) (join [KEYWORD ''and''] (map (unparse 2) cs))"
| "unparse l (Or cs) = parens (1 \<le> l) (join [KEYWORD ''or''] (map (unparse 1) cs))"

section \<open>Reading a leaf back\<close>

text \<open>What may follow a complete condition.\<close>

definition follow :: "token list \<Rightarrow> bool" where
  "follow ts \<longleftrightarrow> peek ts \<in> {EOF, RPAREN, KEYWORD ''and'', KEYWORD ''or''}"

lemma map_tk_Cons [simp]:
  "map tk us = t # ts \<longleftrightarrow> (\<exists>u vs. us = u # vs \<and> tk u = t \<and> map tk vs = ts)"
  by (cases us) auto

lemma map_tk_append [simp]:
  "map tk us = ts1 @ ts2 \<longleftrightarrow> (\<exists>u1 u2. us = u1 @ u2 \<and> map tk u1 = ts1 \<and> map tk u2 = ts2)"
  by (auto simp: map_eq_append_conv)

lemma parse_value_lit:
  "tk u = lit_tok v \<Longrightarrow> scalar v \<or> b \<Longrightarrow> parse_value b (u # us) = Inr (v, us)"
  by (cases v) (auto simp: parse_value_def)

lemma parse_literals_toks:
  "vs \<noteq> [] \<Longrightarrow> list_all scalar vs \<Longrightarrow> map tk us = join [COMMA] (map (\<lambda>v. [lit_tok v]) vs) \<Longrightarrow>
   tk w = RBRACKET \<Longrightarrow> parse_literals (us @ w # r) = Inr (vs, r)"
proof (induction vs arbitrary: us)
  case Nil
  then show ?case by simp
next
  case (Cons v vs)
  have sc: "(case lit_tok v of STRING s \<Rightarrow> Some (LStr s) | NUMBER n \<Rightarrow> Some (LInt n) | _ \<Rightarrow> None) = Some v"
    using Cons.prems(2) by (cases v) auto
  show ?case
  proof (cases vs)
    case Nil
    with Cons.prems sc show ?thesis by (auto simp: expect_def)
  next
    case (Cons v' vs')
    with Cons.prems obtain u c us' where us: "us = u # c # us'" "tk u = lit_tok v" "tk c = COMMA"
        "map tk us' = join [COMMA] (map (\<lambda>v. [lit_tok v]) vs)"
      by auto
    have "parse_literals (us' @ w # r) = Inr (vs, r)"
      using Cons.IH [of us'] Cons.prems us(4) Cons by auto
    with us(1-3) sc show ?thesis by simp
  qed
qed

lemma parse_field_ident:
  "tk u = IDENT f \<Longrightarrow> peek us \<noteq> LBRACKET \<Longrightarrow> parse_field (u # us) = Inr (f, us)"
  by (simp add: parse_field_def)

lemma parse_in_literals:
  assumes "list_all scalar vs" "tk l = LBRACKET" "tk w = RBRACKET"
    and "map tk us = join [COMMA] (map (\<lambda>v. [lit_tok v]) vs)"
  shows "parse_in f neg (l # us @ w # r) = Inr (Leaf (InLiterals f vs) neg, r)"
proof (cases vs)
  case Nil
  with assms show ?thesis by (simp add: parse_in_def Let_def)
next
  case (Cons v vs')
  then obtain u us' where u: "us = u # us'" "tk u = lit_tok v"
    using assms(4) by (cases vs') auto
  then have "peek (us @ w # r) \<noteq> RBRACKET" by (cases v) auto
  moreover have "parse_literals (us @ w # r) = Inr (vs, r)"
    using assms Cons by (intro parse_literals_toks) auto
  ultimately show ?thesis using assms(2) by (simp add: parse_in_def Let_def)
qed

text \<open>A condition with an optional \<open>not\<close> before \<open>in\<close> or \<open>exists\<close>.\<close>

lemma parse_condition_not:
  assumes "tk u = IDENT f" "map tk ns = not_toks neg"
    and "is_kw ''in'' q \<or> is_kw ''exists'' q"
  shows "parse_condition bf (u # ns @ q) = parse_operator bf f neg q"
proof (cases neg)
  case True
  with assms obtain m where "ns = [m]" "tk m = KEYWORD ''not''" by (auto simp: not_toks_def)
  with assms(1,3) True show ?thesis
    by (auto simp: parse_condition_def parse_field_def is_kw_def Let_def)
next
  case False
  with assms have "ns = []" "peek q \<noteq> LBRACKET" "\<not> is_kw ''not'' q"
    by (auto simp: not_toks_def is_kw_def)
  with assms(1) False show ?thesis
    by (simp add: parse_condition_def parse_field_ident)
qed

lemma parse_leaf:
  assumes "wf_leaf bf lf neg" "map tk us = leaf_toks lf neg" "follow r"
    and "\<And>b. lf \<noteq> Literal b"
  shows "parse_condition bf (us @ r) = Inr (Leaf lf neg, r)"
proof (cases lf)
  case (Compare f opr v)
  with assms obtain u o' w where us: "us = [u, o', w]" "tk u = IDENT f" "tk w = lit_tok v"
      "tk o' = (if opr \<in> set word_ops then KEYWORD opr else OP opr)" "\<not> neg"
    by auto
  have "opr \<in> set word_ops \<Longrightarrow> scalar v" using assms(1) Compare by (auto simp: word_ops_def symbol_ops_def)
  with us Compare show ?thesis
    by (auto simp: parse_condition_def parse_field_def is_kw_def parse_operator_def word_ops_def
        parse_value_lit)
next
  case (InList f ltype lname)
  with assms(2) obtain u ns i l where us: "us = u # ns @ [i, l]" "tk u = IDENT f"
      "map tk ns = not_toks neg" "tk i = KEYWORD ''in''" "tk l = LISTREF ltype lname"
    by auto
  have "parse_condition bf (u # ns @ i # l # r) = parse_operator bf f neg (i # l # r)"
    using us by (intro parse_condition_not) (auto simp: is_kw_def)
  with us InList show ?thesis by (simp add: parse_operator_def is_kw_def parse_in_def)
next
  case (InLiterals f vs)
  with assms(2) obtain u ns i l ws w where us: "us = u # ns @ i # l # ws @ [w]" "tk u = IDENT f"
      "map tk ns = not_toks neg" "tk i = KEYWORD ''in''" "tk l = LBRACKET" "tk w = RBRACKET"
      "map tk ws = join [COMMA] (map (\<lambda>v. [lit_tok v]) vs)"
    by auto
  have "parse_condition bf (u # ns @ i # l # ws @ w # r) =
      parse_operator bf f neg (i # l # ws @ w # r)"
    using us by (intro parse_condition_not) (auto simp: is_kw_def)
  with us InLiterals assms(1) show ?thesis
    by (simp add: parse_operator_def is_kw_def parse_in_literals)
next
  case (Exists f)
  with assms(2) obtain u ns i where us: "us = u # ns @ [i]" "tk u = IDENT f"
      "map tk ns = not_toks neg" "tk i = KEYWORD ''exists''"
    by auto
  have "parse_condition bf (u # ns @ i # r) = parse_operator bf f neg (i # r)"
    using us by (intro parse_condition_not) (auto simp: is_kw_def)
  with us Exists show ?thesis by (simp add: parse_operator_def is_kw_def)
next
  case (BoolField f)
  with assms have "map tk us = [IDENT f]" "\<not> neg" "f \<in> set bf" by auto
  with BoolField assms(3) show ?thesis
    by (auto simp: follow_def parse_condition_def parse_field_def is_kw_def parse_operator_def)
next
  case (Literal b)
  with assms(4) show ?thesis by blast
qed

lemma leaf_not_paren: "map tk us = leaf_toks lf neg \<Longrightarrow> peek (us @ r) \<noteq> LPAREN"
  by (cases lf) auto

lemma leaf_not_not: "map tk us = leaf_toks lf neg \<Longrightarrow> \<not> is_kw ''not'' (us @ r)"
  by (cases lf) (auto simp: is_kw_def split: if_splits)

lemma leaf_not_bool:
  "map tk us = leaf_toks lf neg \<Longrightarrow> (\<And>b. lf \<noteq> Literal b) \<Longrightarrow>
   \<not> is_kw ''true'' (us @ r) \<and> \<not> is_kw ''false'' (us @ r)"
  by (cases lf) (auto simp: is_kw_def)

lemma parse_primary_leaf:
  assumes "wf_leaf bf lf neg" "map tk us = leaf_toks lf neg" "follow r"
  shows "parse_primary (Suc n) bf (us @ r) = Inr (Leaf lf neg, r)"
proof (cases "\<exists>b. lf = Literal b")
  case True
  with assms show ?thesis by (auto simp: is_kw_def split: if_splits)
next
  case False
  with assms show ?thesis by (simp add: leaf_not_paren leaf_not_bool parse_leaf)
qed

section \<open>Reading a node back\<close>

text \<open>
  \<open>reads_back bf n\<close>: at each level, with fuel for the tokens in sight, the method of that level
  reads \<open>unparse\<close> of the node and stops exactly behind it.
\<close>

definition stops :: "nat \<Rightarrow> token list \<Rightarrow> bool" where
  "stops l r \<longleftrightarrow> follow r \<and> (l \<le> 1 \<longrightarrow> \<not> is_kw ''and'' r) \<and> (l = 0 \<longrightarrow> \<not> is_kw ''or'' r)"

definition parse_level :: "nat \<Rightarrow> nat \<Rightarrow> string list \<Rightarrow> token list \<Rightarrow> ast parsed" where
  "parse_level l = (if l = 0 then parse_or else if l = 1 then parse_and else parse_not)"

definition reads_at :: "nat \<Rightarrow> string list \<Rightarrow> tok list \<Rightarrow> ast \<Rightarrow> bool" where
  "reads_at l bf toks n \<longleftrightarrow>
     (\<forall>us r fuel. map tk us = toks \<longrightarrow> stops l r \<longrightarrow> 5 * length (us @ r) + 4 - l \<le> fuel \<longrightarrow>
        parse_level l fuel bf (us @ r) = Inr (n, r))"

lemma reads_atD:
  "reads_at l bf toks n \<Longrightarrow> map tk us = toks \<Longrightarrow> stops l r \<Longrightarrow>
   5 * length (us @ r) + 4 - l \<le> fuel \<Longrightarrow> parse_level l fuel bf (us @ r) = Inr (n, r)"
  unfolding reads_at_def by blast

lemma reads_at_up:
  assumes "reads_at (Suc l) bf toks n" "l \<le> 1"
  shows "reads_at l bf toks n"
  unfolding reads_at_def
proof (intro allI impI)
  fix us r fuel
  assume us: "map tk us = toks" and r: "stops l r" and fuel: "5 * length (us @ r) + 4 - l \<le> fuel"
  have "2 \<le> fuel" using fuel assms(2) by auto
  then obtain m where m: "fuel = Suc (Suc m)" by (metis add_2_eq_Suc le_Suc_ex)
  have "stops (Suc l) r" using r by (auto simp: stops_def)
  then have "parse_level (Suc l) (Suc m) bf (us @ r) = Inr (n, r)"
    using assms us fuel m by (intro reads_atD) auto
  then show "parse_level l fuel bf (us @ r) = Inr (n, r)"
    using assms(2) r m by (auto simp: parse_level_def stops_def le_Suc_eq)
qed

lemma reads_at_0: "l \<le> 2 \<Longrightarrow> reads_at l bf toks n \<Longrightarrow> reads_at 0 bf toks n"
  using reads_at_up [of 0 bf toks n] reads_at_up [of 1 bf toks n]
  by (auto simp: le_Suc_eq numeral_2_eq_2)

lemma reads_at_parens:
  assumes "reads_at 0 bf toks n"
  shows "reads_at 2 bf (parens True toks) n"
  unfolding reads_at_def
proof (intro allI impI)
  fix us r fuel
  assume us: "map tk us = parens True toks" and r: "stops 2 r"
    and fuel: "5 * length (us @ r) + 4 - 2 \<le> fuel"
  from us obtain u ws w where u: "us = u # ws @ [w]" "tk u = LPAREN" "tk w = RPAREN" "map tk ws = toks"
    by (auto simp: parens_def)
  have "2 \<le> fuel" using fuel by auto
  then obtain m where m: "fuel = Suc (Suc m)" by (metis add_2_eq_Suc le_Suc_ex)
  have "stops 0 (w # r)" using u(3) by (simp add: stops_def follow_def is_kw_def)
  then have "parse_level 0 m bf (ws @ w # r) = Inr (n, w # r)"
    using assms u(1,4) fuel m by (intro reads_atD) auto
  then show "parse_level 2 fuel bf (us @ r) = Inr (n, r)"
    using u m by (simp add: parse_level_def is_kw_def expect_def)
qed

lemma reads_at_not:
  assumes "reads_at 2 bf toks n"
  shows "reads_at 2 bf (KEYWORD ''not'' # toks) (Not n)"
  unfolding reads_at_def
proof (intro allI impI)
  fix us r fuel
  assume us: "map tk us = KEYWORD ''not'' # toks" and r: "stops 2 r"
    and fuel: "5 * length (us @ r) + 4 - 2 \<le> fuel"
  from us obtain u ws where u: "us = u # ws" "tk u = KEYWORD ''not''" "map tk ws = toks" by auto
  obtain m where m: "fuel = Suc m" using fuel u(1) by (cases fuel) auto
  have "parse_level 2 m bf (ws @ r) = Inr (n, r)"
    using assms u r fuel m by (intro reads_atD) auto
  then show "parse_level 2 fuel bf (us @ r) = Inr (Not n, r)"
    using u m by (simp add: parse_level_def is_kw_def)
qed

lemma reads_at_leaf: "wf_leaf bf lf neg \<Longrightarrow> reads_at 2 bf (leaf_toks lf neg) (Leaf lf neg)"
  unfolding reads_at_def
proof (intro allI impI)
  fix us r fuel
  assume lf: "wf_leaf bf lf neg" "map tk us = leaf_toks lf neg" and r: "stops 2 r"
    and fuel: "5 * length (us @ r) + 4 - 2 \<le> fuel"
  have "2 \<le> fuel" using fuel by auto
  then obtain m where m: "fuel = Suc (Suc m)" by (metis add_2_eq_Suc le_Suc_ex)
  show "parse_level 2 fuel bf (us @ r) = Inr (Leaf lf neg, r)"
    using parse_primary_leaf [OF lf] r lf(2) m
    by (simp add: parse_level_def leaf_not_not stops_def)
qed

text \<open>The operands of an \<open>and\<close> or \<open>or\<close> behind the first one.\<close>

lemma join_Cons: "join sep (x # xs) = x @ concat (map (\<lambda>y. sep @ y) xs)"
  by (induction xs arbitrary: x) auto

lemma and_rest_reads:
  "list_all (\<lambda>c. reads_at 2 bf (unparse 2 c) c) cs \<Longrightarrow>
   map tk us = concat (map (\<lambda>y. [KEYWORD ''and''] @ y) (map (unparse 2) cs)) \<Longrightarrow> stops 1 r \<Longrightarrow>
   5 * length (us @ r) + 1 \<le> fuel \<Longrightarrow> parse_and_rest fuel bf (us @ r) = Inr (cs, r)"
proof (induction cs arbitrary: us fuel)
  case Nil
  then obtain m where "fuel = Suc m" by (cases fuel) auto
  with Nil show ?case by (simp add: stops_def)
next
  case (Cons c cs)
  then obtain k ws xs where us: "us = k # ws @ xs" "tk k = KEYWORD ''and''" "map tk ws = unparse 2 c"
      "map tk xs = concat (map (\<lambda>y. [KEYWORD ''and''] @ y) (map (unparse 2) cs))"
    by auto
  obtain m where m: "fuel = Suc m" using Cons.prems by (cases fuel) auto
  have "stops 2 (xs @ r)"
    using us(4) Cons.prems(3) by (cases cs) (auto simp: stops_def follow_def)
  then have first: "parse_level 2 m bf (ws @ xs @ r) = Inr (c, xs @ r)"
    using Cons.prems us m by (intro reads_atD) auto
  have "parse_and_rest m bf (xs @ r) = Inr (cs, r)"
    using Cons.prems us m by (intro Cons.IH) auto
  with first us m show ?case by (simp add: parse_level_def is_kw_def)
qed

lemma or_rest_reads:
  "list_all (\<lambda>c. reads_at 1 bf (unparse 1 c) c) cs \<Longrightarrow>
   map tk us = concat (map (\<lambda>y. [KEYWORD ''or''] @ y) (map (unparse 1) cs)) \<Longrightarrow> stops 0 r \<Longrightarrow>
   5 * length (us @ r) + 1 \<le> fuel \<Longrightarrow> parse_or_rest fuel bf (us @ r) = Inr (cs, r)"
proof (induction cs arbitrary: us fuel)
  case Nil
  then obtain m where "fuel = Suc m" by (cases fuel) auto
  with Nil show ?case by (simp add: stops_def)
next
  case (Cons c cs)
  then obtain k ws xs where us: "us = k # ws @ xs" "tk k = KEYWORD ''or''" "map tk ws = unparse 1 c"
      "map tk xs = concat (map (\<lambda>y. [KEYWORD ''or''] @ y) (map (unparse 1) cs))"
    by auto
  obtain m where m: "fuel = Suc m" using Cons.prems by (cases fuel) auto
  have "stops 1 (xs @ r)"
    using us(4) Cons.prems(3) by (cases cs) (auto simp: stops_def follow_def is_kw_def)
  then have first: "parse_level 1 m bf (ws @ xs @ r) = Inr (c, xs @ r)"
    using Cons.prems us m by (intro reads_atD) auto
  have "parse_or_rest m bf (xs @ r) = Inr (cs, r)"
    using Cons.prems us m by (intro Cons.IH) auto
  with first us m show ?case by (simp add: parse_level_def is_kw_def)
qed

lemma reads_at_and:
  assumes "2 \<le> length cs" "list_all (\<lambda>c. reads_at 2 bf (unparse 2 c) c) cs"
  shows "reads_at 1 bf (join [KEYWORD ''and''] (map (unparse 2) cs)) (And cs)"
  unfolding reads_at_def
proof (intro allI impI)
  fix us r fuel
  assume us: "map tk us = join [KEYWORD ''and''] (map (unparse 2) cs)" and r: "stops 1 r"
    and fuel: "5 * length (us @ r) + 4 - 1 \<le> fuel"
  obtain c ds where cs: "cs = c # ds" "ds \<noteq> []"
    using assms(1) by (cases cs; cases "tl cs") auto
  with us obtain ws xs where u: "us = ws @ xs" "map tk ws = unparse 2 c"
      "map tk xs = concat (map (\<lambda>y. [KEYWORD ''and''] @ y) (map (unparse 2) ds))"
    by (auto simp: join_Cons)
  obtain m where m: "fuel = Suc m" using fuel by (cases fuel) auto
  have "stops 2 (xs @ r)" using u(3) cs(2) by (cases ds) (auto simp: stops_def follow_def)
  then have "parse_level 2 m bf (ws @ xs @ r) = Inr (c, xs @ r)"
    using assms(2) cs u fuel m by (intro reads_atD) auto
  moreover have "parse_and_rest m bf (xs @ r) = Inr (ds, r)"
    using assms(2) cs u r fuel m by (intro and_rest_reads) auto
  ultimately show "parse_level 1 fuel bf (us @ r) = Inr (And cs, r)"
    using u(1) m cs by (simp add: parse_level_def)
qed

lemma reads_at_or:
  assumes "2 \<le> length cs" "list_all (\<lambda>c. reads_at 1 bf (unparse 1 c) c) cs"
  shows "reads_at 0 bf (join [KEYWORD ''or''] (map (unparse 1) cs)) (Or cs)"
  unfolding reads_at_def
proof (intro allI impI)
  fix us r fuel
  assume us: "map tk us = join [KEYWORD ''or''] (map (unparse 1) cs)" and r: "stops 0 r"
    and fuel: "5 * length (us @ r) + 4 - 0 \<le> fuel"
  obtain c ds where cs: "cs = c # ds" "ds \<noteq> []"
    using assms(1) by (cases cs; cases "tl cs") auto
  with us obtain ws xs where u: "us = ws @ xs" "map tk ws = unparse 1 c"
      "map tk xs = concat (map (\<lambda>y. [KEYWORD ''or''] @ y) (map (unparse 1) ds))"
    by (auto simp: join_Cons)
  obtain m where m: "fuel = Suc m" using fuel by (cases fuel) auto
  have "stops 1 (xs @ r)" using u(3) cs(2) by (cases ds) (auto simp: stops_def follow_def is_kw_def)
  then have "parse_level 1 m bf (ws @ xs @ r) = Inr (c, xs @ r)"
    using assms(2) cs u fuel m by (intro reads_atD) auto
  moreover have "parse_or_rest m bf (xs @ r) = Inr (ds, r)"
    using assms(2) cs u r fuel m by (intro or_rest_reads) auto
  ultimately show "parse_level 0 fuel bf (us @ r) = Inr (Or cs, r)"
    using u(1) m cs by (simp add: parse_level_def)
qed

lemma parens_False [simp]: "parens False ts = ts"
  by (simp add: parens_def)

lemma reads_at_unparse:
  "wf_ast bf n \<Longrightarrow> reads_at 2 bf (unparse 2 n) n \<and> reads_at 1 bf (unparse 1 n) n \<and>
     reads_at 0 bf (unparse 0 n) n"
proof (induction n rule: ast.induct)
  case (Leaf lf neg)
  then have "reads_at 2 bf (leaf_toks lf neg) (Leaf lf neg)" by (simp add: reads_at_leaf)
  then show ?case using reads_at_up [of 1] reads_at_0 [of 2] by (simp add: numeral_2_eq_2)
next
  case (And cs)
  then have "reads_at 1 bf (join [KEYWORD ''and''] (map (unparse 2) cs)) (And cs)"
    by (intro reads_at_and) (auto simp: list_all_iff)
  then show ?case using reads_at_up [of 0] reads_at_parens [of bf _ "And cs"] by simp
next
  case (Or cs)
  then have "reads_at 0 bf (join [KEYWORD ''or''] (map (unparse 1) cs)) (Or cs)"
    by (intro reads_at_or) (auto simp: list_all_iff)
  then show ?case using reads_at_up [of 1] reads_at_parens [of bf _ "Or cs"] by (simp add: numeral_2_eq_2)
next
  case (Not n)
  then have "reads_at 2 bf (KEYWORD ''not'' # unparse 2 n) (Not n)" by (intro reads_at_not) simp
  then show ?case using reads_at_up [of 1] reads_at_0 [of 2] by (simp add: numeral_2_eq_2)
qed

section \<open>Every node the parser builds is well-formed\<close>

definition valid_ops :: "token list \<Rightarrow> bool" where
  "valid_ops ts \<longleftrightarrow> (\<forall>t\<in>set ts. \<forall>s. tk t = OP s \<longrightarrow> s \<in> set symbol_ops)"

lemma valid_ops_tl [simp]: "valid_ops ts \<Longrightarrow> valid_ops (tl ts)"
  by (cases ts) (auto simp: valid_ops_def)

lemma valid_ops_Cons [simp]:
  "valid_ops (t # ts) \<longleftrightarrow> (\<forall>s. tk t = OP s \<longrightarrow> s \<in> set symbol_ops) \<and> valid_ops ts"
  by (auto simp: valid_ops_def)

lemma valid_ops_peek: "valid_ops ts \<Longrightarrow> peek ts = OP s \<Longrightarrow> s \<in> set symbol_ops"
  by (cases ts) auto

lemma expect_valid: "expect k ts = Inr r \<Longrightarrow> valid_ops ts \<Longrightarrow> valid_ops r"
  by (auto simp: expect_def split: if_splits)

lemma parse_value_scalar:
  "parse_value b ts = Inr (v, r) \<Longrightarrow> valid_ops ts \<Longrightarrow> (scalar v \<or> b) \<and> valid_ops r"
  by (auto simp: parse_value_def split: tok.splits if_splits)

lemma parse_literals_scalar:
  "parse_literals ts = Inr (vs, r) \<Longrightarrow> valid_ops ts \<Longrightarrow> list_all scalar vs \<and> valid_ops r"
proof (induction ts arbitrary: vs r rule: parse_literals.induct)
  case 1
  then show ?case by simp
next
  case (2 t ts)
  from "2.prems"(1) obtain v where v: "(case tk t of STRING s \<Rightarrow> Some (LStr s)
      | NUMBER n \<Rightarrow> Some (LInt n) | _ \<Rightarrow> None) = Some v"
    by (auto split: option.splits)
  then have sc: "scalar v" by (auto split: tok.splits)
  from "2.prems" v obtain u us where u: "ts = u # us" by (auto split: list.splits)
  show ?case
  proof (cases "tk u = COMMA")
    case True
    with "2.prems"(1) v u obtain ws where "parse_literals us = Inr (ws, r)" "vs = v # ws"
      by (auto split: sum.splits)
    with "2.IH" [OF v u True] "2.prems"(2) u sc show ?thesis by simp
  next
    case False
    with "2.prems" v u sc show ?thesis by (auto split: sum.splits dest: expect_valid)
  qed
qed

lemma parse_in_wf:
  "parse_in f neg ts = Inr (c, r) \<Longrightarrow> valid_ops ts \<Longrightarrow> wf_ast bf c \<and> valid_ops r"
  by (auto simp: parse_in_def Let_def split: tok.splits if_splits sum.splits
      dest!: parse_literals_scalar)

lemma parse_field_valid: "parse_field ts = Inr (f, r) \<Longrightarrow> valid_ops ts \<Longrightarrow> valid_ops r"
  by (auto simp: parse_field_def Let_def split: tok.splits if_splits sum.splits dest: expect_valid)

text \<open>The two shapes \<open>parse_operator\<close> ends in besides \<open>in\<close> and \<open>exists\<close>.\<close>

definition comparison :: "string \<Rightarrow> string \<Rightarrow> bool \<Rightarrow> token list \<Rightarrow> ast parsed" where
  "comparison f w b ts = (case parse_value b ts of
     Inl e \<Rightarrow> Inl e | Inr (v, r) \<Rightarrow> Inr (Leaf (Compare f w v) False, r))"

definition bare_field :: "string list \<Rightarrow> string \<Rightarrow> token list \<Rightarrow> ast parsed" where
  "bare_field bf f ts = (if f \<in> set bf then Inr (Leaf (BoolField f) False, ts)
     else Inl (RequiresOperator f (peek_pos ts)))"

lemma comparison_wf:
  "comparison f w b ts = Inr (c, r) \<Longrightarrow> valid_ops ts \<Longrightarrow>
   w \<in> set word_ops \<and> \<not> b \<or> w \<in> set symbol_ops \<Longrightarrow> wf_ast bf c \<and> valid_ops r"
  by (auto simp: comparison_def split: sum.split_asm dest!: parse_value_scalar)

lemma bare_field_wf:
  "bare_field bf f ts = Inr (c, r) \<Longrightarrow> valid_ops ts \<Longrightarrow> wf_ast bf c \<and> valid_ops r"
  by (auto simp: bare_field_def split: if_split_asm)

lemma parse_operator_wf:
  assumes "parse_operator bf f neg ts = Inr (c, r)" "valid_ops ts"
    and "neg \<longrightarrow> is_kw ''in'' ts \<or> is_kw ''exists'' ts"
  shows "wf_ast bf c \<and> valid_ops r"
proof (cases "is_kw ''in'' ts")
  case True
  with assms(1) have "parse_in f neg (tl ts) = Inr (c, r)" by (simp add: parse_operator_def)
  then show ?thesis by (rule parse_in_wf) (simp add: assms(2))
next
  case notin: False
  show ?thesis
  proof (cases "is_kw ''exists'' ts")
    case True
    with assms notin show ?thesis by (auto simp: parse_operator_def)
  next
    case False
    with assms(3) have neg: "\<not> neg" using notin by simp
    have opr: "parse_operator bf f neg ts = (case peek ts of
        KEYWORD w \<Rightarrow>
          if w \<in> {''contains'', ''starts_with'', ''ends_with''} then comparison f w False (tl ts)
          else if w \<in> {''and'', ''or''} then bare_field bf f ts
          else Inl (ExpectedOperator f (peek_pos ts))
      | EOF \<Rightarrow> bare_field bf f ts
      | RPAREN \<Rightarrow> bare_field bf f ts
      | OP w \<Rightarrow> comparison f w True (tl ts)
      | _ \<Rightarrow> Inl (ExpectedOperator f (peek_pos ts)))"
      by (simp only: parse_operator_def notin False if_False comparison_def bare_field_def neg)
    show ?thesis
    proof (cases "peek ts")
      case (KEYWORD w)
      note r = assms(1) [unfolded opr KEYWORD tok.case]
      consider "w \<in> {''contains'', ''starts_with'', ''ends_with''}" "comparison f w False (tl ts) = Inr (c, r)"
        | "bare_field bf f ts = Inr (c, r)"
        using r by (simp split: if_split_asm)
      then show ?thesis
      proof cases
        case 1
        then have "w \<in> set word_ops" by (simp add: word_ops_def)
        then show ?thesis by (intro comparison_wf [OF 1(2)]) (simp_all add: assms(2))
      qed (rule bare_field_wf, assumption, rule assms(2))
    next
      case (OP w)
      then have "w \<in> set symbol_ops" by (rule valid_ops_peek [OF assms(2)])
      then show ?thesis
        by (intro comparison_wf [OF assms(1) [unfolded opr OP tok.case]]) (simp_all add: assms(2))
    qed (use assms(1) [unfolded opr] assms(2) in \<open>simp_all add: bare_field_wf\<close>)
  qed
qed

lemma parse_condition_wf:
  assumes "parse_condition bf ts = Inr (c, r)" "valid_ops ts"
  shows "wf_ast bf c \<and> valid_ops r"
proof -
  obtain f ts1 where f: "parse_field ts = Inr (f, ts1)"
    using assms(1) by (auto simp: parse_condition_def split: sum.splits)
  with assms(2) have v: "valid_ops ts1" by (rule parse_field_valid [rotated])
  show ?thesis
  proof (cases "is_kw ''not'' ts1")
    case True
    with assms(1) f have opr: "parse_operator bf f True (tl ts1) = Inr (c, r)"
        "is_kw ''in'' (tl ts1) \<or> is_kw ''exists'' (tl ts1)"
      by (auto simp: parse_condition_def Let_def split: if_splits)
    show ?thesis by (rule parse_operator_wf [OF opr(1)]) (use v opr(2) in auto)
  next
    case False
    with assms(1) f have "parse_operator bf f False ts1 = Inr (c, r)"
      by (auto simp: parse_condition_def)
    then show ?thesis by (rule parse_operator_wf) (use v in auto)
  qed
qed

lemma parse_wf:
  "parse_or n bf ts = Inr (c, r) \<Longrightarrow> valid_ops ts \<Longrightarrow> wf_ast bf c \<and> valid_ops r"
  "parse_or_rest n bf ts = Inr (cs, r) \<Longrightarrow> valid_ops ts \<Longrightarrow> list_all (wf_ast bf) cs \<and> valid_ops r"
  "parse_and n bf ts = Inr (c, r) \<Longrightarrow> valid_ops ts \<Longrightarrow> wf_ast bf c \<and> valid_ops r"
  "parse_and_rest n bf ts = Inr (cs, r) \<Longrightarrow> valid_ops ts \<Longrightarrow> list_all (wf_ast bf) cs \<and> valid_ops r"
  "parse_not n bf ts = Inr (c, r) \<Longrightarrow> valid_ops ts \<Longrightarrow> wf_ast bf c \<and> valid_ops r"
  "parse_primary n bf ts = Inr (c, r) \<Longrightarrow> valid_ops ts \<Longrightarrow> wf_ast bf c \<and> valid_ops r"
proof (induction n arbitrary: ts c r cs)
  case 0
  {
    case 1 then show ?case by simp
  next
    case 2 then show ?case by simp
  next
    case 3 then show ?case by simp
  next
    case 4 then show ?case by simp
  next
    case 5 then show ?case by simp
  next
    case 6 then show ?case by simp
  }
next
  case (Suc n)
  {
    case 1
    then show ?case by (auto split: sum.splits dest!: Suc.IH simp: Suc_le_eq)
  next
    case 2
    then show ?case by (auto split: sum.splits if_splits dest!: Suc.IH)
  next
    case 3
    then show ?case by (auto split: sum.splits dest!: Suc.IH simp: Suc_le_eq)
  next
    case 4
    then show ?case by (auto split: sum.splits if_splits dest!: Suc.IH)
  next
    case 5
    then show ?case by (auto split: sum.splits if_splits dest!: Suc.IH)
  next
    case 6
    then show ?case
      by (auto split: sum.splits if_splits dest!: Suc.IH dest: parse_condition_wf expect_valid)
  }
qed

lemma next_token_op: "next_token i c cs = Inr (Some (OP s), k) \<Longrightarrow> s \<in> set symbol_ops"
  unfolding next_token_def Let_def
  by (elim if_eq_elim)
    (auto simp: TWO_CHAR_OPS_def ONE_CHAR_OPS_def symbol_ops_def
       split: option.split_asm prod.split_asm if_split_asm)

lemma tokenize_from_valid_ops: "tokenize_from i s = Inr ts \<Longrightarrow> valid_ops ts"
proof (induction i s arbitrary: ts rule: tokenize_from.induct)
  case (1 i)
  then show ?case by (auto simp: valid_ops_def)
next
  case (2 i c cs)
  then obtain t k us where step: "next_token i c cs = Inr (t, k)"
      "tokenize_from (i + 1 + k) (drop k cs) = Inr us"
      "ts = (case t of None \<Rightarrow> us | Some v \<Rightarrow> \<lparr>tk = v, tpos = i\<rparr> # us)"
    by (auto simp: res_simps split: sum.splits)
  have "valid_ops us" using "2.IH" [OF step(1) refl step(2)] .
  with step(1,3) show ?case by (cases t) (auto intro: next_token_op)
qed

section \<open>Properties\<close>


lemma parsed_node_wf:
  assumes "parse_expression bf text = Inr node"
  shows "wf_ast bf node"
proof -
  obtain ts r where "tokenize text = Inr ts" and "parse_or (parse_fuel ts) bf ts = Inr (node, r)"
    using assms by (auto simp: parse_expression_def parse_tokens_def split: if_splits sum.splits)
  then show ?thesis using tokenize_from_valid_ops parse_wf(1) by (auto simp: tokenize_def)
qed

text \<open>C32: Every node \<open>parse_expression\<close> returns is a node of the language: \<open>and\<close> and \<open>or\<close> have at
  least two children, a word operator never compares with a boolean, only \<open>in\<close> and \<open>exists\<close> carry a
  negation, and a bare field is one of the registered boolean fields.\<close>

theorem parse_expression_wf:
  assumes "parse_expression bf text = Inr node"
  shows "wf_ast bf node"
  using assms by (rule parsed_node_wf)

theorem parse_expression_wf_witness:
  "wf_ast [] (And [Leaf (Compare ''a'' ''='' (LInt 1)) False, Not (Leaf (Exists ''b'') False)])"
proof -
  have "parse_expression [] ''a = 1 and not b exists'' =
      Inr (And [Leaf (Compare ''a'' ''='' (LInt 1)) False, Not (Leaf (Exists ''b'') False)])"
    by code_simp
  then show ?thesis by (rule parse_expression_wf)
qed

text \<open>C6: The parser inverts the printer: reading back the tokens of any well-formed node, at any
  positions, gives exactly that node, so precedence and grouping are never lost.\<close>

theorem parse_unparse:
  assumes "wf_ast bf node" and "map tk ts = unparse 0 node @ [EOF]"
  shows "parse_tokens bf ts = Inr node"
proof -
  obtain us e where ts: "ts = us @ [e]" "map tk us = unparse 0 node" "tk e = EOF"
    using assms(2) by auto
  have "stops 0 [e]" using ts(3) by (simp add: stops_def follow_def is_kw_def)
  then have "parse_level 0 (parse_fuel ts) bf (us @ [e]) = Inr (node, [e])"
    using reads_at_unparse [OF assms(1)] ts(1,2)
    by (intro reads_atD) (auto simp: parse_fuel_def)
  with ts(1,3) show ?thesis by (simp add: parse_tokens_def parse_level_def)
qed

theorem parse_unparse_witness:
  "parse_tokens [] (map (\<lambda>t. \<lparr>tk = t, tpos = 7\<rparr>)
      [LPAREN, IDENT ''a'', KEYWORD ''exists'', KEYWORD ''or'', IDENT ''b'', KEYWORD ''exists'', RPAREN,
       KEYWORD ''and'', KEYWORD ''true'', EOF]) =
   Inr (And [Or [Leaf (Exists ''a'') False, Leaf (Exists ''b'') False], Leaf (Literal True) False])"
  by (rule parse_unparse) (simp_all add: parens_def not_toks_def)

end
