(* ===== verification/Runtime.thy ===== *)
theory Runtime imports PyValues begin

text \<open>
  What the Python run time supplies besides the values: the \<open>re\<close> engine and the text of
  floats.  A regular expression is its pattern with its flags.  \<open>re_finditer fl p s\<close> is what
  \<open>re.compile(p, fl).finditer(s)\<close> finds: the matches from left to right, each with the text
  that precedes it, and the text behind the last one; \<open>search\<close>, \<open>findall\<close> and \<open>sub\<close> are
  defined from it.  \<open>segments_text\<close> is the one law: the pieces make up the text.
\<close>

type_synonym segments = "(string \<times> string) list \<times> string"

record engine =
  re_compiles :: "string \<Rightarrow> bool"
  re_finditer :: "nat \<Rightarrow> string \<Rightarrow> string \<Rightarrow> segments"
  float_repr :: "real \<Rightarrow> string"
  float_parse :: "string \<Rightarrow> real"

definition IGNORECASE :: nat where "IGNORECASE = 2"

definition MULTILINE :: nat where "MULTILINE = 8"

definition segments_text :: "segments \<Rightarrow> string" where
  "segments_text p = concat (map (\<lambda>(pre, m). pre @ m) (fst p)) @ snd p"

definition finditer_ok :: "engine \<Rightarrow> bool" where
  "finditer_ok E \<longleftrightarrow> (\<forall>fl p s. segments_text (re_finditer E fl p s) = s)"

definition re_search :: "engine \<Rightarrow> string \<Rightarrow> string \<Rightarrow> bool res" where
  "re_search E p s = (if re_compiles E p then Inr (fst (re_finditer E 0 p s) \<noteq> []) else Inl RegexError)"

text \<open>\<open>len(regex.findall(s))\<close>, \<open>regex.sub(text, s)\<close> for a replacement without backslashes, and
  \<open>regex.sub(f, s)\<close> for a function called on each match in turn.\<close>

definition findall_count :: "engine \<Rightarrow> nat \<Rightarrow> string \<Rightarrow> string \<Rightarrow> nat" where
  "findall_count E fl p s = length (fst (re_finditer E fl p s))"

definition re_sub :: "engine \<Rightarrow> nat \<Rightarrow> string \<Rightarrow> string \<Rightarrow> string \<Rightarrow> string" where
  "re_sub E fl p repl s = (case re_finditer E fl p s of
     (ms, tail) \<Rightarrow> concat (map (\<lambda>(pre, m). pre @ repl) ms) @ tail)"

fun sub_matches :: "(string \<Rightarrow> 'w \<Rightarrow> string \<times> 'w) \<Rightarrow> (string \<times> string) list \<Rightarrow> 'w \<Rightarrow> string \<times> 'w" where
  "sub_matches f [] w = ([], w)"
| "sub_matches f ((pre, m) # ms) w =
     (let (t, w1) = f m w; (r, w2) = sub_matches f ms w1 in (pre @ t @ r, w2))"

definition re_sub_fn ::
  "engine \<Rightarrow> nat \<Rightarrow> string \<Rightarrow> (string \<Rightarrow> 'w \<Rightarrow> string \<times> 'w) \<Rightarrow> string \<Rightarrow> 'w \<Rightarrow> string \<times> 'w" where
  "re_sub_fn E fl p f s w = (case re_finditer E fl p s of
     (ms, tail) \<Rightarrow> (let (r, w1) = sub_matches f ms w in (r @ tail, w1)))"

lemma no_match_segments:
  assumes "finditer_ok E" "findall_count E fl p s = 0"
  shows "re_finditer E fl p s = ([], s)"
proof (cases "re_finditer E fl p s")
  case (Pair ms tail)
  have "segments_text (re_finditer E fl p s) = s" using assms(1) by (simp add: finditer_ok_def)
  with Pair assms(2) show ?thesis by (simp add: segments_text_def findall_count_def)
qed

lemma re_sub_no_match:
  "finditer_ok E \<Longrightarrow> findall_count E fl p s = 0 \<Longrightarrow> re_sub E fl p repl s = s"
  by (simp add: re_sub_def no_match_segments)

lemma re_sub_fn_no_match:
  "finditer_ok E \<Longrightarrow> findall_count E fl p s = 0 \<Longrightarrow> re_sub_fn E fl p f s w = (s, w)"
  by (simp add: re_sub_fn_def no_match_segments)

text \<open>A replacement function without effects is a plain substitution.\<close>

lemma sub_matches_const:
  "sub_matches (\<lambda>m w. (repl, w)) ms w = (concat (map (\<lambda>(pre, m). pre @ repl) ms), w)"
  by (induction ms) auto

lemma re_sub_fn_const: "re_sub_fn E fl p (\<lambda>m w. (repl, w)) s w = (re_sub E fl p repl s, w)"
  by (simp add: re_sub_fn_def re_sub_def sub_matches_const split: prod.split)

section \<open>A concrete engine\<close>

text \<open>
  For evaluation on concrete inputs: patterns are plain texts, found as substrings.
\<close>

fun literal_segments :: "nat \<Rightarrow> string \<Rightarrow> string \<Rightarrow> segments" where
  "literal_segments 0 p s = ([], s)"
| "literal_segments (Suc n) p s =
     (if p = [] then ([], s)
      else (case split_first s p of
          None \<Rightarrow> ([], s)
        | Some (pre, r) \<Rightarrow> (case literal_segments n p r of (ms, tail) \<Rightarrow> ((pre, p) # ms, tail))))"

definition literal_engine :: engine where
  "literal_engine =
     \<lparr>re_compiles = \<lambda>p. p \<noteq> ''('',
      re_finditer = \<lambda>fl p s. literal_segments (length s) p s,
      float_repr = \<lambda>r. if r = 0 then ''0.0'' else if r = 1 / 2 then ''0.5'' else ''1e+16'',
      float_parse = \<lambda>s. if s = ''0.0'' then 0 else if s = ''0.5'' then 1 / 2 else 10 ^ 16\<rparr>"

lemma literal_segments_text: "segments_text (literal_segments n p s) = s"
proof (induction n arbitrary: s)
  case 0
  then show ?case by (simp add: segments_text_def)
next
  case (Suc n)
  show ?case
  proof (cases "p = [] \<or> split_first s p = None")
    case True
    then show ?thesis by (auto simp: segments_text_def)
  next
    case False
    then obtain pre r where r: "split_first s p = Some (pre, r)" "p \<noteq> []" by auto
    have "segments_text (literal_segments n p r) = r" by (rule Suc.IH)
    with r split_first_SomeD [OF r(1)] show ?thesis
      by (auto simp: segments_text_def split: prod.split)
  qed
qed

lemma literal_engine_ok: "finditer_ok literal_engine"
  by (simp add: finditer_ok_def literal_engine_def literal_segments_text)

end
