(* ===== verification/ExprEval.thy ===== *)
theory ExprEval imports ExprGrammar Runtime begin

text \<open>
  The evaluator of the expression language (\<open>resolve_field_value\<close>, \<open>evaluate_leaf\<close> and
  \<open>evaluate\<close> of \<open>shared/expression_core.py\<close>).

  The context dict is a record: its JSON entries and the optional callable under
  \<open>"_list_resolver"\<close> (so a field named \<open>_list_resolver\<close> is not modelled as a value).
  \<open>re.search\<close>, which may raise \<open>re.error\<close>, and the text of a float come from the \<open>engine\<close>.
\<close>

record ctx =
  entries :: "json dict"
  list_resolver :: "(string \<Rightarrow> string \<Rightarrow> json \<Rightarrow> bool res) option"

section \<open>Fields\<close>

text \<open>
  The match of the bracket pattern, a run of word characters and dots, then \<open>["\<close>, a
  non-empty key without a newline, \<open>"]\<close>, and the end of the text or one final newline.
\<close>

definition base_char :: "char \<Rightarrow> bool" where
  "base_char c \<longleftrightarrow> py_isalnum c \<or> c = CHR ''_'' \<or> c = CHR ''.''"



definition bracket_open :: string where "bracket_open = [CHR ''['', double_quote]"

definition bracket_close :: string where "bracket_close = [double_quote, CHR '']'']"

definition bracket_key :: "string \<Rightarrow> string option" where
  "bracket_key r =
     (let body = (if ends_with r [newline] then butlast r else r);
          key = take (length body - 2) body
      in if ends_with body bracket_close \<and> key \<noteq> [] \<and> newline \<notin> set key then Some key else None)"

definition bracket_match :: "string \<Rightarrow> (string \<times> string) option" where
  "bracket_match field =
     (let base = takeWhile base_char field; r = dropWhile base_char field
      in if base \<noteq> [] \<and> starts_with r bracket_open
         then map_option (\<lambda>key. (base, key)) (bracket_key (drop 2 r)) else None)"

text \<open>The walk along a dotted path, from the context itself.\<close>

fun path_get :: "json \<Rightarrow> string list \<Rightarrow> json" where
  "path_get v [] = v"
| "path_get v (p # ps) = (case jget v p of None \<Rightarrow> JNull | Some w \<Rightarrow> path_get w ps)"

definition resolve_field_value :: "engine \<Rightarrow> string \<Rightarrow> ctx \<Rightarrow> json" where
  "resolve_field_value E field c =
     (case bracket_match field of
        Some (base_field, key) \<Rightarrow>
          (case dict_get (entries c) base_field (JObj []) of
             JObj d \<Rightarrow>
               (if dict_get d key JNull \<noteq> JNull
                then JStr (py_str (float_repr E) (dict_get d key (JStr ''''))) else JNull)
           | _ \<Rightarrow> JNull)
      | None \<Rightarrow>
          (case map_of (entries c) field of
             Some v \<Rightarrow> v
           | None \<Rightarrow> path_get (JObj (entries c)) (split_char (CHR ''.'') field)))"

section \<open>Leaves\<close>

definition flip :: "bool \<Rightarrow> bool \<Rightarrow> bool" where
  "flip negated result = (if negated then \<not> result else result)"

text \<open>
  A comparison whose field has the value \<open>actual\<close>: \<open>Inr None\<close> where the code returns \<open>negated\<close>,
  \<open>Inr (Some b)\<close> where it returns the result \<open>b\<close>, negated or not.
\<close>

definition compare_int :: "string \<Rightarrow> int \<Rightarrow> int \<Rightarrow> bool option" where
  "compare_int opr a b =
     (if opr = ''='' then Some (a = b)
      else if opr = ''!='' then Some (a \<noteq> b)
      else if opr = ''>'' then Some (b < a)
      else if opr = ''<'' then Some (a < b)
      else if opr = ''>='' then Some (b \<le> a)
      else if opr = ''<='' then Some (a \<le> b)
      else None)"

definition compare_str :: "engine \<Rightarrow> string \<Rightarrow> string \<Rightarrow> string \<Rightarrow> bool option res" where
  "compare_str E opr a b =
     (if opr = ''='' then Inr (Some (a = b))
      else if opr = ''!='' then Inr (Some (a \<noteq> b))
      else if opr = ''~'' then bind_res (re_search E b a) (\<lambda>m. Inr (Some m))
      else if opr = ''!~'' then bind_res (re_search E b a) (\<lambda>m. Inr (Some (\<not> m)))
      else if opr = ''contains'' then Inr (Some (contains a b))
      else if opr = ''starts_with'' then Inr (Some (starts_with a b))
      else if opr = ''ends_with'' then Inr (Some (ends_with a b))
      else Inr None)"

fun compare_value :: "engine \<Rightarrow> string \<Rightarrow> json \<Rightarrow> lit \<Rightarrow> bool option res" where
  "compare_value E opr actual (LBool b) =
     Inr (if opr = ''='' then Some (py_truthy actual = b) else None)"
| "compare_value E opr actual (LInt n) =
     Inr (case py_int actual of Inl e \<Rightarrow> None | Inr a \<Rightarrow> compare_int opr a n)"
| "compare_value E opr actual (LStr s) = compare_str E opr (py_str (float_repr E) actual) s"

fun lit_json :: "lit \<Rightarrow> json" where
  "lit_json (LStr s) = JStr s"
| "lit_json (LInt n) = JInt n"
| "lit_json (LBool b) = JBool b"

definition lit_matches :: "engine \<Rightarrow> json \<Rightarrow> lit \<Rightarrow> bool" where
  "lit_matches E actual v \<longleftrightarrow> py_eq actual (lit_json v) \<or>
     py_str (float_repr E) actual = py_str (float_repr E) (lit_json v)"

fun evaluate_leaf :: "engine \<Rightarrow> ctx \<Rightarrow> leaf \<Rightarrow> bool \<Rightarrow> bool res" where
  "evaluate_leaf E c (Literal b) negated = Inr b"
| "evaluate_leaf E c (BoolField f) negated =
     Inr (flip negated (py_truthy (resolve_field_value E f c)))"
| "evaluate_leaf E c (Exists f) negated =
     (let val = resolve_field_value E f c
      in Inr (flip negated (val \<noteq> JNull \<and> val \<noteq> JStr '''')))"
| "evaluate_leaf E c (Compare f opr expected) negated =
     (let actual = resolve_field_value E f c
      in if actual = JNull then Inr negated
         else bind_res (compare_value E opr actual expected)
                (\<lambda>r. Inr (case r of None \<Rightarrow> negated | Some b \<Rightarrow> flip negated b)))"
| "evaluate_leaf E c (InLiterals f vs) negated =
     (let actual = resolve_field_value E f c
      in Inr (if actual = JNull then negated
              else flip negated (list_ex (lit_matches E actual) vs)))"
| "evaluate_leaf E c (InList f ltype lname) negated =
     (let actual = resolve_field_value E f c
      in if actual = JNull then Inr negated
         else (case list_resolver c of
             None \<Rightarrow> Inr negated
           | Some resolver \<Rightarrow>
               bind_res (resolver ltype lname actual) (\<lambda>b. Inr (flip negated b))))"

fun evaluate :: "engine \<Rightarrow> ctx \<Rightarrow> ast \<Rightarrow> bool res" where
  "evaluate E c (And cs) = all_res (evaluate E c) cs"
| "evaluate E c (Or cs) = any_res (evaluate E c) cs"
| "evaluate E c (Not n) = bind_res (evaluate E c n) (\<lambda>b. Inr (\<not> b))"
| "evaluate E c (Leaf l negated) = evaluate_leaf E c l negated"

end
