(* ===== verification/ExprDnf.thy ===== *)
theory ExprDnf imports ExprEval begin

text \<open>
  Disjunctive normal form (\<open>to_dnf\<close> and \<open>_negate_to_dnf\<close> of \<open>shared/expression_core.py\<close>): a
  list of OR-groups, each a list of leaves with their negation flag.  \<open>dnf_evaluate\<close> says what
  a normal form means: some group all of whose terms hold.  The normal form has the truth value
  of the node, except that a negated \<open>true\<close> or \<open>false\<close> keeps its value.
\<close>

type_synonym dnf_term = "leaf \<times> bool"

text \<open>The loops that append every group of a child to every group collected so far.\<close>

definition cross :: "'a list list \<Rightarrow> 'a list list \<Rightarrow> 'a list list" where
  "cross result child_groups = concat (map (\<lambda>existing. map (\<lambda>cg. existing @ cg) child_groups) result)"

definition cross_all :: "'a list list list \<Rightarrow> 'a list list" where
  "cross_all groups = foldl cross [[]] groups"

fun to_dnf :: "ast \<Rightarrow> dnf_term list list" and negate_to_dnf :: "ast \<Rightarrow> dnf_term list list" where
  "to_dnf (Or cs) = concat (map to_dnf cs)"
| "to_dnf (And cs) = cross_all (map to_dnf cs)"
| "to_dnf (Not n) = negate_to_dnf n"
| "to_dnf (Leaf l negated) = [[(l, negated)]]"
| "negate_to_dnf (Or cs) = cross_all (map negate_to_dnf cs)"
| "negate_to_dnf (And cs) = concat (map negate_to_dnf cs)"
| "negate_to_dnf (Not n) = to_dnf n"
| "negate_to_dnf (Leaf l negated) = [[(l, \<not> negated)]]"

section \<open>The meaning of a normal form\<close>

definition term_evaluate :: "engine \<Rightarrow> ctx \<Rightarrow> dnf_term \<Rightarrow> bool res" where
  "term_evaluate E c t = evaluate_leaf E c (fst t) (snd t)"

definition dnf_evaluate :: "engine \<Rightarrow> ctx \<Rightarrow> dnf_term list list \<Rightarrow> bool res" where
  "dnf_evaluate E c groups = any_res (all_res (term_evaluate E c)) groups"

text \<open>The leaves of a node, and the positions where a literal stands under an odd number of
  negations.\<close>

fun leaves :: "ast \<Rightarrow> dnf_term set" where
  "leaves (Leaf l negated) = {(l, negated)}"
| "leaves (And cs) = \<Union> (set (map leaves cs))"
| "leaves (Or cs) = \<Union> (set (map leaves cs))"
| "leaves (Not n) = leaves n"

fun is_literal :: "leaf \<Rightarrow> bool" where
  "is_literal (Literal b) = True"
| "is_literal _ = False"

fun no_negated_literal :: "bool \<Rightarrow> ast \<Rightarrow> bool" where
  "no_negated_literal pos (Leaf l negated) = (is_literal l \<longrightarrow> pos)"
| "no_negated_literal pos (And cs) = list_all (no_negated_literal pos) cs"
| "no_negated_literal pos (Or cs) = list_all (no_negated_literal pos) cs"
| "no_negated_literal pos (Not n) = no_negated_literal (\<not> pos) n"

definition leaf_value :: "engine \<Rightarrow> ctx \<Rightarrow> dnf_term \<Rightarrow> bool" where
  "leaf_value E c t = (case term_evaluate E c t of Inr b \<Rightarrow> b | Inl _ \<Rightarrow> False)"

definition leaves_ok :: "engine \<Rightarrow> ctx \<Rightarrow> ast \<Rightarrow> bool" where
  "leaves_ok E c n \<longleftrightarrow> (\<forall>t\<in>leaves n. is_ok (term_evaluate E c t))"

text \<open>The value of a node whose leaves do not raise.\<close>

fun truth :: "(dnf_term \<Rightarrow> bool) \<Rightarrow> ast \<Rightarrow> bool" where
  "truth v (Leaf l negated) = v (l, negated)"
| "truth v (And cs) = list_all (truth v) cs"
| "truth v (Or cs) = list_ex (truth v) cs"
| "truth v (Not n) = (\<not> truth v n)"

definition dnf_truth :: "(dnf_term \<Rightarrow> bool) \<Rightarrow> dnf_term list list \<Rightarrow> bool" where
  "dnf_truth v groups = list_ex (list_all v) groups"

section \<open>Facts on the construction\<close>

lemma dnf_truth_append [simp]: "dnf_truth v (xs @ ys) \<longleftrightarrow> dnf_truth v xs \<or> dnf_truth v ys"
  by (simp add: dnf_truth_def)

lemma dnf_truth_concat: "dnf_truth v (concat gss) \<longleftrightarrow> list_ex (dnf_truth v) gss"
  by (induction gss) (auto simp: dnf_truth_def)

lemma dnf_truth_cross: "dnf_truth v (cross xs ys) \<longleftrightarrow> dnf_truth v xs \<and> dnf_truth v ys"
  by (auto simp: dnf_truth_def cross_def list_ex_iff)

lemma dnf_truth_cross_all: "dnf_truth v (cross_all gss) \<longleftrightarrow> list_all (dnf_truth v) gss"
proof -
  have "dnf_truth v (foldl cross acc gss) \<longleftrightarrow> dnf_truth v acc \<and> list_all (dnf_truth v) gss" for acc
    by (induction gss arbitrary: acc) (auto simp: dnf_truth_cross)
  then show ?thesis by (simp add: cross_all_def dnf_truth_def)
qed

lemma in_cross: "g \<in> set (cross xs ys) \<longleftrightarrow> (\<exists>x\<in>set xs. \<exists>y\<in>set ys. g = x @ y)"
  by (auto simp: cross_def)

lemma cross_all_terms:
  "g \<in> set (cross_all gss) \<Longrightarrow> t \<in> set g \<Longrightarrow> \<exists>gs\<in>set gss. \<exists>h\<in>set gs. t \<in> set h"
proof -
  have "g \<in> set (foldl cross acc gss) \<Longrightarrow> t \<in> set g \<Longrightarrow>
      (\<exists>h\<in>set acc. t \<in> set h) \<or> (\<exists>gs\<in>set gss. \<exists>h\<in>set gs. t \<in> set h)" for acc
  proof (induction gss arbitrary: acc)
    case Nil
    then show ?case by auto
  next
    case (Cons gs gss)
    then have "(\<exists>h\<in>set (cross acc gs). t \<in> set h) \<or> (\<exists>gs\<in>set gss. \<exists>h\<in>set gs. t \<in> set h)" by simp
    then show ?case by (fastforce simp: in_cross)
  qed
  then show "g \<in> set (cross_all gss) \<Longrightarrow> t \<in> set g \<Longrightarrow> ?thesis"
    by (fastforce simp: cross_all_def)
qed

text \<open>Flipping the flag of a leaf flips its value, unless it is a literal.\<close>

lemma flip_Not [simp]: "flip (\<not> n) b = (\<not> flip n b)"
  by (simp add: flip_def)

lemma evaluate_leaf_flip:
  "\<not> is_literal l \<Longrightarrow>
   evaluate_leaf E c l (\<not> n) = bind_res (evaluate_leaf E c l n) (\<lambda>b. Inr (\<not> b))"
proof (cases l)
  case (Compare f opr v)
  then show ?thesis
    by (cases "compare_value E opr (resolve_field_value E f c) v")
      (auto simp: Let_def split: option.split)
next
  case (InList f lt' ln')
  show ?thesis
  proof (cases "list_resolver c")
    case None
    with InList show ?thesis by (simp add: Let_def)
  next
    case (Some r)
    with InList show ?thesis
      by (cases "r lt' ln' (resolve_field_value E f c)") (auto simp: Let_def)
  qed
qed (auto simp: Let_def)

section \<open>The normal form has the value of the node\<close>

lemma dnf_truth_correct:
  assumes flips: "\<And>l n. \<not> is_literal l \<Longrightarrow> v (l, \<not> n) = (\<not> v (l, n))"
  shows "no_negated_literal True node \<Longrightarrow> dnf_truth v (to_dnf node) = truth v node"
    and "no_negated_literal False node \<Longrightarrow> dnf_truth v (negate_to_dnf node) = (\<not> truth v node)"
proof (induction node rule: to_dnf_negate_to_dnf.induct)
  case (1 cs)
  then show ?case by (simp add: dnf_truth_concat list_ex_iff list_all_iff)
next
  case (2 cs)
  then show ?case by (simp add: dnf_truth_cross_all list_all_iff)
next
  case (5 cs)
  then show ?case by (simp add: dnf_truth_cross_all list_all_iff list_ex_iff)
next
  case (6 cs)
  then show ?case by (simp add: dnf_truth_concat list_ex_iff list_all_iff)
qed (auto simp: dnf_truth_def flips)

lemma evaluate_truth:
  "leaves_ok E c n \<Longrightarrow> evaluate E c n = Inr (truth (leaf_value E c) n)"
proof (induction n rule: ast.induct)
  case (Leaf l negated)
  then show ?case
    by (auto simp: leaves_ok_def leaf_value_def term_evaluate_def is_ok_iff)
next
  case (And cs)
  then have "all_res (evaluate E c) cs = Inr (\<forall>x\<in>set cs. truth (leaf_value E c) x)"
    by (intro all_res_pure) (auto simp: leaves_ok_def)
  then show ?case by (simp add: list_all_iff)
next
  case (Or cs)
  then have "any_res (evaluate E c) cs = Inr (\<exists>x\<in>set cs. truth (leaf_value E c) x)"
    by (intro any_res_pure) (auto simp: leaves_ok_def)
  then show ?case by (simp add: list_ex_iff)
next
  case (Not n)
  then show ?case by (simp add: leaves_ok_def)
qed

text \<open>Every term is a leaf of the node, with its flag or the opposite one.\<close>

lemma dnf_terms_aux:
  "g \<in> set (to_dnf node) \<Longrightarrow> t \<in> set g \<Longrightarrow> \<exists>n. (fst t, n) \<in> leaves node"
  "g \<in> set (negate_to_dnf node) \<Longrightarrow> t \<in> set g \<Longrightarrow> \<exists>n. (fst t, n) \<in> leaves node"
proof (induction node arbitrary: g and g rule: to_dnf_negate_to_dnf.induct)
  case (2 cs)
  then show ?case by (fastforce dest: cross_all_terms)
next
  case (5 cs)
  then show ?case by (fastforce dest: cross_all_terms)
qed fastforce+

lemma term_ok_any_flag:
  "is_ok (term_evaluate E c (l, n)) \<Longrightarrow> is_ok (term_evaluate E c (l, m))"
proof (cases "is_literal l")
  case True
  then show ?thesis by (cases l) (auto simp: term_evaluate_def)
next
  case False
  assume ok: "is_ok (term_evaluate E c (l, n))"
  show ?thesis
  proof (cases "m = n")
    case True
    with ok show ?thesis by simp
  next
    case False
    then have "m = (\<not> n)" by simp
    with ok evaluate_leaf_flip [OF \<open>\<not> is_literal l\<close>, of E c n] show ?thesis
      by (cases "evaluate_leaf E c l n") (simp_all add: term_evaluate_def)
  qed
qed

lemma leaf_ok_any_flag:
  "leaves_ok E c node \<Longrightarrow> (l, n) \<in> leaves node \<Longrightarrow> is_ok (term_evaluate E c (l, m))"
  by (rule term_ok_any_flag [of E c l n]) (simp add: leaves_ok_def)

lemma dnf_evaluate_truth:
  assumes "leaves_ok E c node"
  shows "dnf_evaluate E c (to_dnf node) = Inr (dnf_truth (leaf_value E c) (to_dnf node))"
proof -
  have ok: "term_evaluate E c t = Inr (leaf_value E c t)"
    if "g \<in> set (to_dnf node)" "t \<in> set g" for g t
  proof -
    obtain n where "(fst t, n) \<in> leaves node" using dnf_terms_aux(1) \<open>g \<in> _\<close> \<open>t \<in> _\<close> by blast
    with assms have "is_ok (term_evaluate E c (fst t, snd t))" by (rule leaf_ok_any_flag)
    then show ?thesis by (auto simp: leaf_value_def is_ok_iff)
  qed
  have "any_res (all_res (term_evaluate E c)) (to_dnf node) =
      Inr (\<exists>g\<in>set (to_dnf node). \<forall>t\<in>set g. leaf_value E c t)"
    using ok by (intro any_res_pure all_res_pure) auto
  then show ?thesis by (simp add: dnf_evaluate_def dnf_truth_def list_ex_iff list_all_iff)
qed

lemma leaf_value_flip:
  assumes "\<not> is_literal l" "is_ok (term_evaluate E c (l, n))"
  shows "leaf_value E c (l, \<not> n) = (\<not> leaf_value E c (l, n))"
  using assms(2) evaluate_leaf_flip [OF assms(1), of E c n]
  by (cases "evaluate_leaf E c l n") (simp_all add: leaf_value_def term_evaluate_def)

section \<open>Properties\<close>

text \<open>C27: Normalising an expression does not change what it means: when no leaf raises and no
  \<open>true\<close> or \<open>false\<close> stands under an odd number of negations, some group of the normal form has
  all its terms hold exactly when the expression holds.\<close>

theorem to_dnf_correct:
  assumes "leaves_ok E c node" and "no_negated_literal True node"
  shows "dnf_evaluate E c (to_dnf node) = evaluate E c node"
proof -
  define v where "v t = (if is_ok (term_evaluate E c t) then leaf_value E c t else snd t)" for t
  have flips: "v (l, \<not> n) = (\<not> v (l, n))" if "\<not> is_literal l" for l n
    using leaf_value_flip [OF that, of E c n] term_ok_any_flag [of E c l n "\<not> n"]
      term_ok_any_flag [of E c l "\<not> n" n]
    by (auto simp: v_def)
  have leaf: "v t = leaf_value E c t" if "t \<in> leaves node" for t
    using assms(1) that by (simp add: v_def leaves_ok_def)
  have "truth v m = truth (leaf_value E c) m" if "leaves m \<subseteq> leaves node" for m
    using that
  proof (induction m rule: ast.induct)
    case (And cs)
    then have "\<And>x. x \<in> set cs \<Longrightarrow> truth v x = truth (leaf_value E c) x" by (simp add: UN_subset_iff)
    then show ?case by (simp add: list_all_iff)
  next
    case (Or cs)
    then have "\<And>x. x \<in> set cs \<Longrightarrow> truth v x = truth (leaf_value E c) x" by (simp add: UN_subset_iff)
    then show ?case by (simp add: list_ex_iff)
  qed (auto simp: leaf)
  then have "truth v node = truth (leaf_value E c) node" by simp
  moreover have "v t = leaf_value E c t" if "g \<in> set (to_dnf node)" "t \<in> set g" for g t
  proof -
    obtain n where "(fst t, n) \<in> leaves node" using dnf_terms_aux(1) \<open>g \<in> _\<close> \<open>t \<in> _\<close> by blast
    with assms(1) have "is_ok (term_evaluate E c (fst t, snd t))" by (rule leaf_ok_any_flag)
    then show ?thesis by (simp add: v_def)
  qed
  then have "dnf_truth v (to_dnf node) = dnf_truth (leaf_value E c) (to_dnf node)"
    by (auto simp: dnf_truth_def list_ex_iff list_all_iff)
  ultimately show ?thesis
    using dnf_truth_correct(1) [of v node, OF flips assms(2)] assms(1)
    by (simp add: dnf_evaluate_truth evaluate_truth)
qed

definition demo_ctx :: ctx where
  "demo_ctx = \<lparr>entries = [(''a'', JInt 3), (''b'', JStr ''x'')], list_resolver = None\<rparr>"

theorem to_dnf_correct_witness:
  "dnf_evaluate literal_engine demo_ctx
     (to_dnf (Not (And [Leaf (Compare ''a'' ''>'' (LInt 5)) False,
                        Or [Leaf (Exists ''b'') False, Leaf (Compare ''a'' ''='' (LInt 3)) False]]))) = Inr True"
proof -
  let ?n = "Not (And [Leaf (Compare ''a'' ''>'' (LInt 5)) False,
                        Or [Leaf (Exists ''b'') False, Leaf (Compare ''a'' ''='' (LInt 3)) False]])"
  have "leaves_ok literal_engine demo_ctx ?n" by code_simp
  moreover have "no_negated_literal True ?n" by simp
  ultimately have "dnf_evaluate literal_engine demo_ctx (to_dnf ?n) = evaluate literal_engine demo_ctx ?n"
    by (rule to_dnf_correct)
  also have "\<dots> = Inr True" by code_simp
  finally show ?thesis .
qed

text \<open>A negated literal keeps its value in the normal form: \<open>not true\<close> evaluates to false, its
  normal form to true, because \<open>evaluate_leaf\<close> returns the literal without looking at
  \<open>negated\<close>.\<close>

theorem to_dnf_negated_literal:
  "evaluate E c (Not (Leaf (Literal b) False)) = Inr (\<not> b) \<and>
   dnf_evaluate E c (to_dnf (Not (Leaf (Literal b) False))) = Inr b"
  by (simp add: dnf_evaluate_def term_evaluate_def)

end
