(* ===== verification/JsonText.thy ===== *)
theory JsonText imports Runtime begin

text \<open>
  \<open>json.dumps\<close> (default separators, \<open>ensure_ascii\<close>) and \<open>json.loads\<close>, which sessions, catalogs
  and the whole-text scan go through.  The text and value of a float literal come from the
  engine.  \<open>json_loads\<close> is \<open>None\<close> where the code raises; the literals \<open>NaN\<close> and \<open>Infinity\<close> and
  the escapes of code points above 255 are outside the model and count as errors too.
\<close>

section \<open>Writing\<close>

definition u_escape :: "char \<Rightarrow> string" where
  "u_escape c = [backslash, CHR ''u'', CHR ''0'', CHR ''0'',
     hex_digit (ord c div 16), hex_digit (ord c mod 16)]"

definition json_char :: "char \<Rightarrow> string" where
  "json_char c =
     (if c = double_quote \<or> c = backslash then [backslash, c]
      else if ord c = 10 then [backslash, CHR ''n'']
      else if ord c = 13 then [backslash, CHR ''r'']
      else if ord c = 9 then [backslash, CHR ''t'']
      else if ord c = 12 then [backslash, CHR ''f'']
      else if ord c = 8 then [backslash, CHR ''b'']
      else if ord c < 32 \<or> 126 < ord c then u_escape c
      else [c])"

definition json_str :: "string \<Rightarrow> string" where
  "json_str s = double_quote # concat (map json_char s) @ [double_quote]"

fun json_dumps :: "engine \<Rightarrow> json \<Rightarrow> string" where
  "json_dumps E JNull = ''null''"
| "json_dumps E (JBool b) = (if b then ''true'' else ''false'')"
| "json_dumps E (JInt i) = int_str i"
| "json_dumps E (JFloat r) = float_repr E r"
| "json_dumps E (JStr s) = json_str s"
| "json_dumps E (JList xs) = ''['' @ join '', '' (map (json_dumps E) xs) @ '']''"
| "json_dumps E (JObj d) =
     ''{'' @ join '', '' (map (\<lambda>(k, v). json_str k @ '': '' @ json_dumps E v) d) @ ''}''"

section \<open>Reading\<close>

definition json_space :: "char \<Rightarrow> bool" where
  "json_space c \<longleftrightarrow> ord c \<in> {9, 10, 13, 32}"

definition skip_ws :: "string \<Rightarrow> string" where
  "skip_ws s = dropWhile json_space s"

definition hex_val :: "char \<Rightarrow> nat option" where
  "hex_val c = (let n = ord c in
     if 48 \<le> n \<and> n \<le> 57 then Some (n - 48)
     else if 97 \<le> n \<and> n \<le> 102 then Some (n - 87)
     else if 65 \<le> n \<and> n \<le> 70 then Some (n - 55)
     else None)"

definition simple_escape :: "char \<Rightarrow> char option" where
  "simple_escape c =
     (if c = double_quote \<or> c = backslash \<or> c = CHR ''/'' then Some c
      else if c = CHR ''n'' then Some (char_of (10::nat))
      else if c = CHR ''r'' then Some (char_of (13::nat))
      else if c = CHR ''t'' then Some (char_of (9::nat))
      else if c = CHR ''f'' then Some (char_of (12::nat))
      else if c = CHR ''b'' then Some (char_of (8::nat))
      else None)"

fun read_u :: "string \<Rightarrow> (char \<times> string) option" where
  "read_u (a # b # c # d # r) =
     (if a = CHR ''0'' \<and> b = CHR ''0'' then
        (case (hex_val c, hex_val d) of
           (Some h, Some l) \<Rightarrow> Some (char_of (16 * h + l), r)
         | _ \<Rightarrow> None)
      else None)"
| "read_u _ = None"

text \<open>The characters of a string behind its opening quote.\<close>

fun read_str :: "nat \<Rightarrow> string \<Rightarrow> (string \<times> string) option" where
  "read_str 0 s = None"
| "read_str (Suc n) [] = None"
| "read_str (Suc n) (c # r) =
     (if c = double_quote then Some ([], r)
      else if c = backslash then
        (case r of
           [] \<Rightarrow> None
         | e # r1 \<Rightarrow>
             (case (if e = CHR ''u'' then read_u r1 else map_option (\<lambda>x. (x, r1)) (simple_escape e)) of
                None \<Rightarrow> None
              | Some (x, r2) \<Rightarrow> map_option (\<lambda>(b, q). (x # b, q)) (read_str n r2)))
      else if ord c < 32 then None
      else map_option (\<lambda>(b, q). (c # b, q)) (read_str n r))"

text \<open>A number: sign, integer part without leading zeros, then a fraction or exponent that makes
  it a float.\<close>

definition int_part :: "string \<Rightarrow> (string \<times> string) option" where
  "int_part s = (case s of
       [] \<Rightarrow> None
     | c # r \<Rightarrow>
         if c = CHR ''0'' then Some ([c], r)
         else if py_isdecimal c then Some (takeWhile py_isdecimal s, dropWhile py_isdecimal s)
         else None)"

definition frac_part :: "string \<Rightarrow> string \<times> string" where
  "frac_part s = (case s of
       c # r \<Rightarrow> if c = CHR ''.'' \<and> takeWhile py_isdecimal r \<noteq> []
                then (c # takeWhile py_isdecimal r, dropWhile py_isdecimal r) else ([], s)
     | [] \<Rightarrow> ([], s))"

definition exp_part :: "string \<Rightarrow> string \<times> string" where
  "exp_part s = (case s of
       c # r \<Rightarrow>
         (let sg = (case r of d # _ \<Rightarrow> if d \<in> set ''+-'' then [d] else [] | [] \<Rightarrow> []);
              ds = takeWhile py_isdecimal (drop (length sg) r)
          in if c \<in> set ''eE'' \<and> ds \<noteq> []
             then (c # sg @ ds, dropWhile py_isdecimal (drop (length sg) r)) else ([], s))
     | [] \<Rightarrow> ([], s))"

definition read_number :: "engine \<Rightarrow> string \<Rightarrow> (json \<times> string) option" where
  "read_number E s =
     (let neg = (case s of c # _ \<Rightarrow> c = CHR ''-'' | [] \<Rightarrow> False);
          s1 = (if neg then tl s else s)
      in case int_part s1 of
           None \<Rightarrow> None
         | Some (ip, s2) \<Rightarrow>
             (let (fp, s3) = frac_part s2; (ep, s4) = exp_part s3;
                  lit = (if neg then CHR ''-'' # ip else ip) @ fp @ ep
              in if fp = [] \<and> ep = [] then
                   map_option (\<lambda>n. (JInt (if neg then - n else n), s4)) (digits_to_int ip)
                 else Some (JFloat (float_parse E lit), s4)))"

definition after :: "string \<Rightarrow> string \<Rightarrow> string option" where
  "after w s = (if starts_with s w then Some (drop (length w) s) else None)"

text \<open>Reading an object, a later key replaces an earlier equal one.\<close>

fun read_value :: "engine \<Rightarrow> nat \<Rightarrow> string \<Rightarrow> (json \<times> string) option"
  and read_items :: "engine \<Rightarrow> nat \<Rightarrow> string \<Rightarrow> (json list \<times> string) option"
  and read_members :: "engine \<Rightarrow> nat \<Rightarrow> string \<Rightarrow> json dict \<Rightarrow> (json dict \<times> string) option" where
  "read_value E 0 s = None"
| "read_value E (Suc n) [] = None"
| "read_value E (Suc n) (c # r) =
     (if c = double_quote then map_option (\<lambda>(b, q). (JStr b, q)) (read_str (length r) r)
      else if c = CHR ''{'' then
        (case skip_ws r of
           [] \<Rightarrow> None
         | d # q \<Rightarrow> if d = CHR ''}'' then Some (JObj [], q)
                   else map_option (\<lambda>(m, q). (JObj m, q)) (read_members E n (d # q) []))
      else if c = CHR ''['' then
        (case skip_ws r of
           [] \<Rightarrow> None
         | d # q \<Rightarrow> if d = CHR '']'' then Some (JList [], q)
                   else map_option (\<lambda>(xs, q). (JList xs, q)) (read_items E n (d # q)))
      else if starts_with (c # r) ''null'' then Some (JNull, drop 3 r)
      else if starts_with (c # r) ''true'' then Some (JBool True, drop 3 r)
      else if starts_with (c # r) ''false'' then Some (JBool False, drop 4 r)
      else read_number E (c # r))"
| "read_items E 0 s = None"
| "read_items E (Suc n) s =
     (case read_value E n s of
        None \<Rightarrow> None
      | Some (v, q) \<Rightarrow>
          (case skip_ws q of
             [] \<Rightarrow> None
           | d # q' \<Rightarrow>
               if d = CHR '']'' then Some ([v], q')
               else if d = CHR '','' then
                 map_option (\<lambda>(vs, t). (v # vs, t)) (read_items E n (skip_ws q'))
               else None))"
| "read_members E 0 s m = None"
| "read_members E (Suc n) [] m = None"
| "read_members E (Suc n) (c # r) m =
     (if c \<noteq> double_quote then None
      else (case read_str (length r) r of
          None \<Rightarrow> None
        | Some (k, q) \<Rightarrow>
            (case skip_ws q of
               [] \<Rightarrow> None
             | d # q1 \<Rightarrow>
                 if d \<noteq> CHR '':'' then None
                 else (case read_value E n (skip_ws q1) of
                     None \<Rightarrow> None
                   | Some (v, q2) \<Rightarrow>
                       (case skip_ws q2 of
                          [] \<Rightarrow> None
                        | d2 # q3 \<Rightarrow>
                            if d2 = CHR ''}'' then Some (AList.update k v m, q3)
                            else if d2 = CHR '','' then
                              read_members E n (skip_ws q3) (AList.update k v m)
                            else None)))))"

definition json_loads :: "engine \<Rightarrow> string \<Rightarrow> json option" where
  "json_loads E s =
     (case read_value E (2 * length s + 1) (skip_ws s) of
        None \<Rightarrow> None
      | Some (v, q) \<Rightarrow> if skip_ws q = [] then Some v else None)"

end
