(* ===== verification/World.thy ===== *)
theory World imports JsonText begin

text \<open>
  The services the gateway calls, as one record of operations on an abstract world \<open>'w\<close>: the
  clock, the random identifiers and the Valkey commands.  Every command may raise; a command
  that raises may still have moved the world.  A computation on a state \<open>'s\<close> is
  \<open>'s \<Rightarrow> 'a res \<times> 's\<close>; \<open>bind_io\<close> sequences two and stops at an exception, \<open>try_io\<close> is
  \<open>try ... except Exception\<close>.

  Each module keeps a \<open>_client\<close> of its own, created and pinged at its first use and kept from
  then on: \<open>clients\<close> of the state \<open>gateway\<close> records which modules have theirs.
\<close>

section \<open>Computations that may raise\<close>

type_synonym ('s, 'a) io = "'s \<Rightarrow> 'a res \<times> 's"

definition return_io :: "'a \<Rightarrow> ('s, 'a) io" where
  "return_io x s = (Inr x, s)"

definition raise_io :: "exn \<Rightarrow> ('s, 'a) io" where
  "raise_io e s = (Inl e, s)"

definition bind_io :: "('s, 'a) io \<Rightarrow> ('a \<Rightarrow> ('s, 'b) io) \<Rightarrow> ('s, 'b) io" where
  "bind_io m f s = (case m s of (Inl e, s1) \<Rightarrow> (Inl e, s1) | (Inr x, s1) \<Rightarrow> f x s1)"

definition seq_io :: "('s, 'a) io \<Rightarrow> ('s, 'b) io \<Rightarrow> ('s, 'b) io" where
  "seq_io m n = bind_io m (\<lambda>_. n)"

definition try_io :: "('s, 'a) io \<Rightarrow> (exn \<Rightarrow> ('s, 'a) io) \<Rightarrow> ('s, 'a) io" where
  "try_io m h s = (case m s of (Inl e, s1) \<Rightarrow> h e s1 | (Inr x, s1) \<Rightarrow> (Inr x, s1))"

fun each_io :: "('a \<Rightarrow> ('s, unit) io) \<Rightarrow> 'a list \<Rightarrow> ('s, unit) io" where
  "each_io f [] = return_io ()"
| "each_io f (x # xs) = seq_io (f x) (each_io f xs)"

named_theorems io_simps "unfolding of computations"

lemmas [io_simps] = return_io_def raise_io_def bind_io_def seq_io_def try_io_def

section \<open>The services\<close>

record 'w services =
  sv_time :: "('w, real) io"
  sv_token :: "('w, string) io"
  vk_connect :: "('w, unit) io"
  vk_get :: "string \<Rightarrow> ('w, string option) io"
  vk_set :: "string \<Rightarrow> string \<Rightarrow> ('w, unit) io"
  vk_setex :: "string \<Rightarrow> int \<Rightarrow> string \<Rightarrow> ('w, unit) io"
  vk_expire :: "string \<Rightarrow> int \<Rightarrow> ('w, unit) io"
  vk_delete :: "string \<Rightarrow> ('w, unit) io"
  vk_exists :: "string \<Rightarrow> ('w, int) io"
  vk_incr :: "string \<Rightarrow> ('w, int) io"
  vk_decr :: "string \<Rightarrow> ('w, int) io"
  vk_scan :: "string \<Rightarrow> ('w, string list) io"
  vk_zremrangebyscore :: "string \<Rightarrow> real \<Rightarrow> real \<Rightarrow> ('w, unit) io"
  vk_zcard :: "string \<Rightarrow> ('w, int) io"
  vk_zadd :: "string \<Rightarrow> string \<Rightarrow> real \<Rightarrow> ('w, unit) io"

datatype module = MRatelimit | MSessions | MRevocation | MCatalog | MDlp | MHealth

record 'w gateway =
  clients :: "module list"
  world :: 'w

definition on_world :: "('w, 'a) io \<Rightarrow> (('w, 'm) gateway_scheme, 'a) io" where
  "on_world f g = (case f (world g) of (r, w) \<Rightarrow> (r, g\<lparr>world := w\<rparr>))"

lemmas [io_simps] = on_world_def

text \<open>
  \<open>_get_client\<close>, the same in every module: the cached client, or a new one if the connection
  answers a ping.  The result tells whether there is a client.
\<close>

definition get_client :: "('w, 'x) services_scheme \<Rightarrow> module \<Rightarrow> (('w, 'm) gateway_scheme, bool) io" where
  "get_client S m g =
     (if m \<in> set (clients g) then (Inr True, g)
      else (case vk_connect S (world g) of
          (Inr _, w) \<Rightarrow> (Inr True, g\<lparr>clients := m # clients g, world := w\<rparr>)
        | (Inl _, w) \<Rightarrow> (Inr False, g\<lparr>world := w\<rparr>)))"

lemma get_client_total: "\<exists>b g'. get_client S m g = (Inr b, g')"
proof (cases "m \<in> set (clients g)")
  case False
  then show ?thesis
    by (cases "vk_connect S (world g)") (auto simp: get_client_def split: sum.splits)
qed (auto simp: get_client_def)

end
