(* ===== verification/Windows.thy ===== *)
theory Windows imports Prelude begin

text \<open>
  Event logs over a sliding window of time: a log of timestamps that each new event first rids of
  the entries older than the window.  The failed logins of an address and the security events of
  a type are such logs; both interpret the locale on their own operations.

  \<open>recent w t ts\<close> are the events of \<open>ts\<close> that the window ending at \<open>t\<close> still covers.
\<close>

definition recent :: "real \<Rightarrow> real \<Rightarrow> real list \<Rightarrow> real list" where
  "recent w t ts = filter (\<lambda>x. t - w < x) ts"

lemma recent_snoc [simp]: "0 < w \<Longrightarrow> recent w t (ts @ [t]) = recent w t ts @ [t]"
  by (simp add: recent_def)

lemma recent_recent: "s \<le> t \<Longrightarrow> recent w t (recent w s ts) = recent w t ts"
  by (auto simp: recent_def intro: filter_cong)

lemma ex_split_snoc:
  "(\<exists>us t vs. ts @ [u] = us @ t # vs \<and> P us t) \<longleftrightarrow> P ts u \<or> (\<exists>us t vs. ts = us @ t # vs \<and> P us t)"
proof
  assume "\<exists>us t vs. ts @ [u] = us @ t # vs \<and> P us t"
  then obtain us t vs where eq: "ts @ [u] = us @ t # vs" and p: "P us t" by blast
  show "P ts u \<or> (\<exists>us t vs. ts = us @ t # vs \<and> P us t)"
  proof (cases vs rule: rev_cases)
    case Nil
    with eq p show ?thesis by simp
  next
    case (snoc ws x)
    with eq have "ts = us @ t # ws" by (metis append_Cons append_assoc butlast_snoc)
    with p show ?thesis by blast
  qed
next
  assume "P ts u \<or> (\<exists>us t vs. ts = us @ t # vs \<and> P us t)"
  then show "\<exists>us t vs. ts @ [u] = us @ t # vs \<and> P us t"
  proof (elim disjE exE conjE)
    assume "P ts u"
    then show ?thesis by (intro exI [of _ ts] exI [of _ u] exI [of _ "[]"]) simp
  next
    fix us t vs
    assume "ts = us @ t # vs" "P us t"
    then show ?thesis by (intro exI [of _ us] exI [of _ t] exI [of _ "vs @ [u]"]) simp
  qed
qed

locale sliding_log =
  fixes push :: "real \<Rightarrow> 's \<Rightarrow> 's" and logged :: "'s \<Rightarrow> real list" and w :: real
  assumes push_logged: "logged (push t s) = recent w t (logged s) @ [t]"
begin

definition pushes :: "real list \<Rightarrow> 's \<Rightarrow> 's" where
  "pushes ts s = fold push ts s"

lemma pushes_Nil [simp]: "pushes [] s = s"
  by (simp add: pushes_def)

lemma pushes_snoc [simp]: "pushes (ts @ [t]) s = push t (pushes ts s)"
  by (simp add: pushes_def)

text \<open>After events in the order of time, the log holds those the last window covers.\<close>

lemma logged_pushes:
  "0 < w \<Longrightarrow> logged s = [] \<Longrightarrow> sorted (ts @ [t]) \<Longrightarrow> logged (pushes (ts @ [t]) s) = recent w t (ts @ [t])"
proof (induction ts arbitrary: t rule: rev_induct)
  case Nil
  then show ?case by (simp add: pushes_def push_logged recent_def)
next
  case (snoc u ts)
  then have "logged (pushes (ts @ [u]) s) = recent w u (ts @ [u])" and "u \<le> t"
    by (auto simp: sorted_append)
  then have "recent w t (logged (pushes (ts @ [u]) s)) = recent w t (ts @ [u])"
    by (simp only: recent_recent)
  with snoc.prems(1) show ?case unfolding pushes_snoc [of "ts @ [u]"] push_logged by (simp add: recent_def)
qed

end

end
