(* ===== verification/RateLimit.thy ===== *)
theory RateLimit imports World Windows begin

text \<open>
  Rate limiting (\<open>mcp-gateway/ratelimit.py\<close>): sliding windows over Valkey sorted sets for an
  identity and tool and for an address, concurrent slots as a counter, and the per-team limits.
  The module's settings read from the environment are the record \<open>rl_env\<close>.
\<close>

definition MCP_RATE_LIMITED :: int where "MCP_RATE_LIMITED = -32029"

definition WINDOW_SECONDS :: int where "WINDOW_SECONDS = 60"

record rl_env =
  fail_closed :: bool
  default_max_ip_rpm :: int
  default_max_concurrent :: int

section \<open>The sliding window\<close>

definition window_member :: "engine \<Rightarrow> real \<Rightarrow> int \<Rightarrow> string" where
  "window_member E now count = float_repr E now @ '':'' @ int_str count"

definition sliding_window_check ::
  "engine \<Rightarrow> ('w, 'x) services_scheme \<Rightarrow> string \<Rightarrow> int \<Rightarrow> ('w, bool \<times> int) io" where
  "sliding_window_check E S key max_count =
     bind_io (sv_time S) (\<lambda>now.
     seq_io (vk_zremrangebyscore S key 0 (now - real_of_int WINDOW_SECONDS))
       (bind_io (vk_zcard S key) (\<lambda>count.
          if max_count \<le> count then return_io (False, 0)
          else seq_io (vk_zadd S key (window_member E now count) now)
                 (seq_io (vk_expire S key (WINDOW_SECONDS + 5))
                    (return_io (True, max_count - count - 1))))))"

definition rl_key :: "int \<Rightarrow> string \<Rightarrow> string" where
  "rl_key ident tool = ''mcp:rl:'' @ int_str ident @ '':'' @ tool"

definition check_rate_limit ::
  "engine \<Rightarrow> ('w, 'x) services_scheme \<Rightarrow> rl_env \<Rightarrow> int \<Rightarrow> string \<Rightarrow> int \<Rightarrow> (('w, 'm) gateway_scheme, bool \<times> int) io" where
  "check_rate_limit E S env ident tool max_rpm =
     bind_io (get_client S MRatelimit) (\<lambda>client.
       if \<not> client then return_io (if fail_closed env then (False, 0) else (True, max_rpm))
       else if max_rpm \<le> 0 then return_io (True, max_rpm)
       else try_io (on_world (sliding_window_check E S (rl_key ident tool) max_rpm))
              (\<lambda>_. return_io (if fail_closed env then (False, 0) else (True, max_rpm))))"

definition check_ip_rate_limit ::
  "engine \<Rightarrow> ('w, 'x) services_scheme \<Rightarrow> rl_env \<Rightarrow> string \<Rightarrow> int option \<Rightarrow> (('w, 'm) gateway_scheme, bool \<times> int) io" where
  "check_ip_rate_limit E S env ip max_ip_rpm =
     (let limit = or_default max_ip_rpm (default_max_ip_rpm env)
      in if limit \<le> 0 then return_io (True, limit)
         else bind_io (get_client S MRatelimit) (\<lambda>client.
           if \<not> client then return_io (if fail_closed env then (False, 0) else (True, limit))
           else try_io (on_world (sliding_window_check E S (''mcp:rl:ip:'' @ ip) limit))
                  (\<lambda>_. return_io (if fail_closed env then (False, 0) else (True, limit)))))"

section \<open>Concurrent slots\<close>

definition slot_key :: "int \<Rightarrow> string" where
  "slot_key ident = ''mcp:conc:'' @ int_str ident"

definition acquire_concurrent_slot ::
  "('w, 'x) services_scheme \<Rightarrow> rl_env \<Rightarrow> int \<Rightarrow> int option \<Rightarrow> (('w, 'm) gateway_scheme, bool) io" where
  "acquire_concurrent_slot S env ident max_concurrent =
     (let limit = or_default max_concurrent (default_max_concurrent env); key = slot_key ident
      in if limit \<le> 0 then return_io True
         else bind_io (get_client S MRatelimit) (\<lambda>client.
           if \<not> client then return_io (\<not> fail_closed env)
           else try_io (on_world
                  (bind_io (vk_incr S key) (\<lambda>count.
                   seq_io (if count = 1 then vk_expire S key 300 else return_io ())
                     (if limit < count then seq_io (vk_decr S key) (return_io False)
                      else return_io True))))
                  (\<lambda>_. return_io (\<not> fail_closed env))))"

definition release_concurrent_slot :: "('w, 'x) services_scheme \<Rightarrow> int \<Rightarrow> (('w, 'm) gateway_scheme, unit) io" where
  "release_concurrent_slot S ident =
     bind_io (get_client S MRatelimit) (\<lambda>client.
       if \<not> client then return_io ()
       else try_io (seq_io (on_world (vk_decr S (slot_key ident))) (return_io ())) (\<lambda>_. return_io ()))"

section \<open>Limits\<close>

text \<open>
  \<open>get_team_rpm\<close>: the overrides come from JSON, so their keys are texts and the second lookup,
  by the integer, never finds one.
\<close>

definition get_team_rpm :: "json dict \<Rightarrow> int \<Rightarrow> int \<Rightarrow> int res" where
  "get_team_rpm config team default_rpm =
     (case dict_get config ''team_rpm_overrides'' JNull of
        JObj overrides \<Rightarrow> py_int (dict_get overrides (int_str team) (JInt default_rpm))
      | v \<Rightarrow> if py_truthy v then Inl AttributeError else py_int (JInt default_rpm))"

definition get_rate_limit_remaining ::
  "('w, 'x) services_scheme \<Rightarrow> int \<Rightarrow> string \<Rightarrow> int \<Rightarrow> (('w, 'm) gateway_scheme, int) io" where
  "get_rate_limit_remaining S ident tool max_rpm =
     bind_io (get_client S MRatelimit) (\<lambda>client.
       if \<not> client \<or> max_rpm \<le> 0 then return_io max_rpm
       else try_io (on_world
              (bind_io (sv_time S) (\<lambda>now.
               seq_io (vk_zremrangebyscore S (rl_key ident tool) 0 (now - real_of_int WINDOW_SECONDS))
                 (bind_io (vk_zcard S (rl_key ident tool)) (\<lambda>count.
                    return_io (max 0 (max_rpm - count)))))))
              (\<lambda>_. return_io max_rpm))"

section \<open>The contract of the sorted sets\<close>

text \<open>
  What the sliding window relies on, as documented for Valkey: \<open>T\<close> is the time, \<open>Z w k\<close> the sorted
  set at key \<open>k\<close> (members and their scores) and \<open>D w k\<close> when the key expires.  Time does not go
  back; reading the clock lets a key whose expiry has passed vanish.  A key may lose its expiry
  (an emptied set is deleted).
\<close>

type_synonym zsets = "string \<Rightarrow> (string \<rightharpoonup> real)"

definition unexpired :: "(string \<rightharpoonup> real) \<Rightarrow> real option \<Rightarrow> real \<Rightarrow> (string \<rightharpoonup> real)" where
  "unexpired z d t = (if \<exists>x. d = Some x \<and> x \<le> t then Map.empty else z)"

definition keeps_expiry :: "(string \<Rightarrow> real option) \<Rightarrow> (string \<Rightarrow> real option) \<Rightarrow> bool" where
  "keeps_expiry d d' \<longleftrightarrow> (\<forall>k. d' k = d k \<or> d' k = None)"

definition zset_laws ::
  "('w, 'x) services_scheme \<Rightarrow> ('w \<Rightarrow> real) \<Rightarrow> ('w \<Rightarrow> zsets) \<Rightarrow> ('w \<Rightarrow> string \<Rightarrow> real option) \<Rightarrow> bool" where
  "zset_laws S T Z D \<longleftrightarrow>
     (\<forall>w k. 0 \<le> T w \<and> finite (dom (Z w k))) \<and>
     (\<forall>w. \<exists>w'. sv_time S w = (Inr (T w'), w') \<and> T w \<le> T w' \<and>
        (\<forall>k. Z w' k = unexpired (Z w k) (D w k) (T w')) \<and> keeps_expiry (D w) (D w')) \<and>
     (\<forall>k a b w. \<exists>w'. vk_zremrangebyscore S k a b w = (Inr (), w') \<and> T w' = T w \<and>
        Z w' = (Z w)(k := (\<lambda>x. case Z w k x of Some s \<Rightarrow> if a \<le> s \<and> s \<le> b then None else Some s | None \<Rightarrow> None)) \<and>
        keeps_expiry (D w) (D w')) \<and>
     (\<forall>k w. vk_zcard S k w = (Inr (int (card (dom (Z w k)))), w)) \<and>
     (\<forall>k m s w. \<exists>w'. vk_zadd S k m s w = (Inr (), w') \<and> T w' = T w \<and>
        Z w' = (Z w)(k := (Z w k)(m \<mapsto> s)) \<and> keeps_expiry (D w) (D w')) \<and>
     (\<forall>k n w. \<exists>w'. vk_expire S k n w = (Inr (), w') \<and> T w' = T w \<and> Z w' = Z w \<and>
        D w' = (D w)(k := Some (T w + real_of_int n)))"

section \<open>The window is kept\<close>

text \<open>Requests checked one after the other, each against the limit of its key: when each key let one
  through.\<close>

definition now_in :: "('w, 'x) services_scheme \<Rightarrow> 'w \<Rightarrow> real" where
  "now_in S w = (case fst (sv_time S w) of Inr t \<Rightarrow> t | Inl _ \<Rightarrow> 0)"

fun admitted ::
  "engine \<Rightarrow> ('w, 'x) services_scheme \<Rightarrow> (string \<Rightarrow> int) \<Rightarrow> string list \<Rightarrow> 'w \<Rightarrow> (string \<Rightarrow> real list) \<Rightarrow>
     (string \<Rightarrow> real list) \<times> 'w" where
  "admitted E S N [] w ts = (ts, w)"
| "admitted E S N (k # ks) w ts =
     (case sliding_window_check E S k (N k) w of
        (Inr (True, _), w1) \<Rightarrow> admitted E S N ks w1 (ts(k := ts k @ [now_in S w]))
      | (_, w1) \<Rightarrow> admitted E S N ks w1 ts)"

definition above :: "(string \<rightharpoonup> real) \<Rightarrow> real \<Rightarrow> string set" where
  "above z c = {x. \<exists>s. z x = Some s \<and> c < s}"

lemma above_subset: "above z c \<subseteq> dom z"
  by (auto simp: above_def)

lemma above_unexpired: "above (unexpired z d t) c = (if \<exists>x. d = Some x \<and> x \<le> t then {} else above z c)"
  by (auto simp: above_def unexpired_def)

lemma above_upd: "z m = None \<Longrightarrow> above (z(m \<mapsto> s)) c = (if c < s then insert m (above z c) else above z c)"
  by (auto simp: above_def)

text \<open>The set of a key against the times it let requests through, at time \<open>t\<close>.\<close>

definition faithful :: "engine \<Rightarrow> real set \<Rightarrow> real \<Rightarrow> (string \<rightharpoonup> real) \<Rightarrow> real option \<Rightarrow> real list \<Rightarrow> bool" where
  "faithful E St t z d ts \<longleftrightarrow>
     sorted ts \<and> (\<forall>s\<in>set ts. s \<le> t) \<and>
     (\<forall>x. d = Some x \<longrightarrow> (\<forall>s\<in>set ts. s + 65 \<le> x)) \<and>
     (\<forall>x s. z x = Some s \<longrightarrow> 0 \<le> s \<and> s \<le> t \<and> s \<in> St \<and>
        (\<exists>j. x = window_member E s j \<and> (s = t \<longrightarrow> j < int (length (recent 60 t ts))))) \<and>
     (\<forall>c\<ge>t - 60. card (above z c) = length (filter (\<lambda>s. c < s) ts))"

lemma faithful_clock:
  assumes f: "faithful E St t z d ts" and le: "t \<le> t'" and d': "d' = d \<or> d' = None"
  shows "faithful E St t' (unexpired z d t') d' ts"
proof -
  have old: "length (filter (\<lambda>s. c < s) ts) = 0" if "d = Some x" "x \<le> t'" "t' - 60 \<le> c" for x c
  proof -
    have "\<forall>s\<in>set ts. s + 65 \<le> x" using f that by (auto simp: faithful_def)
    with that show ?thesis by (fastforce simp: filter_empty_conv)
  qed
  have members: "\<exists>j. x = window_member E s j \<and> (s = t' \<longrightarrow> j < int (length (recent 60 t' ts)))"
    if "z x = Some s" for x s
  proof -
    from f that obtain j where j: "x = window_member E s j" "s = t \<longrightarrow> j < int (length (recent 60 t ts))" "s \<le> t"
      unfolding faithful_def by blast
    with le show ?thesis by (intro exI [of _ j]) (auto dest: antisym)
  qed
  show ?thesis
    unfolding faithful_def
  proof (intro conjI allI impI ballI)
    fix x s assume "unexpired z d t' x = Some s"
    then have z: "z x = Some s" by (auto simp: unexpired_def split: if_splits)
    show "0 \<le> s" and "s \<le> t'" and "s \<in> St" using f z le by (force simp: faithful_def)+
    show "\<exists>j. x = window_member E s j \<and> (s = t' \<longrightarrow> j < int (length (recent 60 t' ts)))"
      using members [OF z] .
  next
    fix c assume c: "t' - 60 \<le> c"
    then have "card (above z c) = length (filter (\<lambda>s. c < s) ts)" using f le by (auto simp: faithful_def)
    with old c show "card (above (unexpired z d t') c) = length (filter (\<lambda>s. c < s) ts)"
      by (auto simp: above_unexpired)
  qed (use f le d' in \<open>auto simp: faithful_def\<close>)
qed

lemma faithful_trim:
  assumes f: "faithful E St t z d ts" and d': "d' = d \<or> d' = None"
    and z': "z' = (\<lambda>x. case z x of Some s \<Rightarrow> if 0 \<le> s \<and> s \<le> t - 60 then None else Some s | None \<Rightarrow> None)"
  shows "faithful E St t z' d' ts" and "dom z' = above z' (t - 60)"
proof -
  have sub: "z' x = Some s \<longleftrightarrow> z x = Some s \<and> \<not> (0 \<le> s \<and> s \<le> t - 60)" for x s
    by (auto simp: z' split: option.splits if_splits)
  have "above z' c = above z c" if "t - 60 \<le> c" for c
    using that by (auto simp: above_def sub)
  with f d' show "faithful E St t z' d' ts" by (auto simp: faithful_def sub)
  have "0 \<le> s" if "z x = Some s" for x s using f that by (force simp: faithful_def)
  then show "dom z' = above z' (t - 60)" by (force simp: above_def sub dom_def)
qed

lemma colon_not_digit: "CHR '':'' \<notin> set (int_str i)"
proof -
  have "\<not> py_isdecimal CHR '':''" by (simp add: py_isdecimal_def ord_def)
  then have "CHR '':'' \<notin> set (nat_str n)" for n using nat_str_decimal by blast
  then show ?thesis by (simp add: int_str_def)
qed

lemma split_at_last:
  "c \<notin> set v \<Longrightarrow> c \<notin> set w \<Longrightarrow> x @ c # v = y @ c # w \<longleftrightarrow> x = y \<and> v = w"
  by (auto simp: append_eq_append_conv2 append_eq_Cons_conv Cons_eq_append_conv)

lemma window_member_inj:
  assumes "inj_on (float_repr E) St" and "a \<in> St" "b \<in> St" and "window_member E a i = window_member E b j"
  shows "a = b \<and> i = j"
proof -
  have "float_repr E a = float_repr E b \<and> int_str i = int_str j"
    using assms(4) split_at_last [OF colon_not_digit [of i] colon_not_digit [of j]]
    by (simp add: window_member_def)
  with assms show ?thesis by (auto dest: inj_onD)
qed

lemma faithful_add:
  assumes f: "faithful E St t z d ts" and trimmed: "dom z = above z (t - 60)" and fin: "finite (dom z)"
    and inj: "inj_on (float_repr E) St" and t: "t \<in> St" "0 \<le> t"
  shows "faithful E St t (z(window_member E t (int (card (dom z))) \<mapsto> t)) (Some (t + 65)) (ts @ [t])"
proof -
  let ?n = "card (dom z)"
  let ?m = "window_member E t (int ?n)"
  have n: "?n = length (recent 60 t ts)"
    using f trimmed by (simp add: faithful_def recent_def)
  have new: "z ?m = None"
  proof (rule ccontr)
    assume "z ?m \<noteq> None"
    then obtain s where "z ?m = Some s" by auto
    with f obtain j where s: "s \<in> St" "?m = window_member E s j" "s = t \<longrightarrow> j < int (length (recent 60 t ts))"
      unfolding faithful_def by blast
    from window_member_inj [OF inj t(1) s(1) s(2)] s(3) n show False by auto
  qed
  have len: "length (recent 60 t (ts @ [t])) = Suc (length (recent 60 t ts))"
    by simp
  show ?thesis
    unfolding faithful_def
  proof (intro conjI allI impI ballI)
    fix c assume c: "t - 60 \<le> c"
    have "?m \<notin> above z c" using new by (simp add: above_def)
    moreover have "finite (above z c)" using fin above_subset finite_subset by blast
    moreover have "card (above z c) = length (filter (\<lambda>s. c < s) ts)" using f c by (simp add: faithful_def)
    ultimately show "card (above (z(?m \<mapsto> t)) c) = length (filter (\<lambda>s. c < s) (ts @ [t]))"
      using new by (simp add: above_upd)
  next
    fix x s assume x: "(z(?m \<mapsto> t)) x = Some s"
    show "0 \<le> s" "s \<le> t" "s \<in> St" using x f t by (force simp: faithful_def split: if_splits)+
    show "\<exists>j. x = window_member E s j \<and> (s = t \<longrightarrow> j < int (length (recent 60 t (ts @ [t]))))"
    proof (cases "x = ?m")
      case True
      with x n show ?thesis unfolding len by (intro exI [of _ "int ?n"]) simp
    next
      case False
      with x have "z x = Some s" by simp
      then obtain j where "x = window_member E s j" "s = t \<longrightarrow> j < int (length (recent 60 t ts))"
        using f unfolding faithful_def by blast
      then show ?thesis unfolding len by (intro exI [of _ j]) auto
    qed
  qed (use f in \<open>auto simp: faithful_def sorted_append\<close>)
qed

definition all_faithful ::
  "engine \<Rightarrow> ('w \<Rightarrow> real) \<Rightarrow> ('w \<Rightarrow> zsets) \<Rightarrow> ('w \<Rightarrow> string \<Rightarrow> real option) \<Rightarrow> 'w \<Rightarrow> (string \<Rightarrow> real list) \<Rightarrow> bool" where
  "all_faithful E T Z D w ts \<longleftrightarrow> (\<forall>k. faithful E (range T) (T w) (Z w k) (D w k) (ts k))"

lemma sliding_window_step:
  assumes laws: "zset_laws S T Z D" and inj: "inj_on (float_repr E) (range T)"
    and ok: "all_faithful E T Z D w ts"
  shows "\<exists>b r w1. sliding_window_check E S k n w = (Inr (b, r), w1) \<and>
    (if b then all_faithful E T Z D w1 (ts(k := ts k @ [now_in S w])) \<and>
               int (length (recent 60 (now_in S w) (ts k))) < n
     else all_faithful E T Z D w1 ts)"
proof -
  obtain w1 where time: "sv_time S w = (Inr (T w1), w1)" "T w \<le> T w1"
      "\<And>k. Z w1 k = unexpired (Z w k) (D w k) (T w1)" "keeps_expiry (D w) (D w1)"
    using laws unfolding zset_laws_def by blast
  have ok1: "faithful E (range T) (T w1) (Z w1 k) (D w1 k) (ts k)" for k
    using ok time(2-4) by (auto simp: all_faithful_def keeps_expiry_def intro!: faithful_clock)
  obtain w2 where trim: "vk_zremrangebyscore S k 0 (T w1 - 60) w1 = (Inr (), w2)" "T w2 = T w1"
      "Z w2 = (Z w1)(k := (\<lambda>x. case Z w1 k x of Some s \<Rightarrow> if 0 \<le> s \<and> s \<le> T w1 - 60 then None else Some s | None \<Rightarrow> None))"
      "keeps_expiry (D w1) (D w2)"
    using laws unfolding zset_laws_def by blast
  have exp2: "D w2 k' = D w1 k' \<or> D w2 k' = None" for k' using trim(4) by (simp add: keeps_expiry_def)
  have ok2: "faithful E (range T) (T w2) (Z w2 k') (D w2 k') (ts k')" for k'
  proof (cases "k' = k")
    case True
    show ?thesis unfolding True trim(2)
      by (rule faithful_trim(1) [OF ok1 exp2]) (simp add: trim(3))
  next
    case False
    have "faithful E (range T) (T w1) (unexpired (Z w1 k') None (T w1)) (D w2 k') (ts k') \<or>
      D w2 k' = D w1 k'" using exp2 [of k'] ok1 [of k'] by (auto simp: faithful_def unexpired_def)
    with False ok1 [of k'] show ?thesis by (auto simp: trim(2,3) unexpired_def)
  qed
  have dom2: "dom (Z w2 k) = above (Z w2 k) (T w2 - 60)"
    unfolding trim(2) by (rule faithful_trim(2) [OF ok1 exp2]) (simp add: trim(3))
  have card: "vk_zcard S k w2 = (Inr (int (card (dom (Z w2 k)))), w2)" and fin: "finite (dom (Z w2 k))"
    and pos: "0 \<le> T w2"
    using laws unfolding zset_laws_def by blast+
  have now: "now_in S w = T w1" by (simp add: now_in_def time)
  show ?thesis
  proof (cases "n \<le> int (card (dom (Z w2 k)))")
    case True
    then have "sliding_window_check E S k n w = (Inr (False, 0), w2)"
      by (simp add: sliding_window_check_def io_simps time(1) trim(1) card WINDOW_SECONDS_def)
    with ok2 show ?thesis by (auto simp: all_faithful_def)
  next
    case False
    let ?m = "window_member E (T w1) (int (card (dom (Z w2 k))))"
    obtain w3 where add: "vk_zadd S k ?m (T w1) w2 = (Inr (), w3)" "T w3 = T w2"
        "Z w3 = (Z w2)(k := (Z w2 k)(?m \<mapsto> T w1))" "keeps_expiry (D w2) (D w3)"
      using laws unfolding zset_laws_def by blast
    obtain w4 where exp: "vk_expire S k 65 w3 = (Inr (), w4)" "T w4 = T w3" "Z w4 = Z w3"
        "D w4 = (D w3)(k := Some (T w3 + 65))"
      using laws unfolding zset_laws_def by (metis of_int_numeral)
    have run: "sliding_window_check E S k n w = (Inr (True, n - int (card (dom (Z w2 k))) - 1), w4)"
      using False
      by (simp add: sliding_window_check_def io_simps time(1) trim(1) card WINDOW_SECONDS_def add(1) exp(1))
    have "faithful E (range T) (T w4) (Z w4 k') (D w4 k') ((ts(k := ts k @ [T w1])) k')" for k'
    proof (cases "k' = k")
      case True
      have "faithful E (range T) (T w2) ((Z w2 k)(window_member E (T w2) (int (card (dom (Z w2 k)))) \<mapsto> T w2))
          (Some (T w2 + 65)) (ts k @ [T w2])"
        using faithful_add [OF ok2 dom2 fin inj _ pos] by blast
      then show ?thesis by (simp add: True exp add trim(2))
    next
      case False
      have "D w4 k' = D w2 k' \<or> D w4 k' = None"
        using False add(4) by (auto simp: exp(4) keeps_expiry_def)
      with False ok2 [of k'] show ?thesis by (auto simp: exp add faithful_def)
    qed
    moreover have "int (length (recent 60 (T w1) (ts k))) < n"
      using ok2 [of k] dom2 False by (simp add: faithful_def recent_def trim(2))
    ultimately show ?thesis unfolding run now by (auto simp: all_faithful_def)
  qed
qed

text \<open>Each request let through found the window behind it not yet full.\<close>

definition kept :: "int \<Rightarrow> real list \<Rightarrow> bool" where
  "kept n ts \<longleftrightarrow> (\<forall>us s vs. ts = us @ s # vs \<longrightarrow> int (length (recent 60 s (us @ [s]))) \<le> n)"

lemma kept_snoc: "kept n (ts @ [s]) \<longleftrightarrow> kept n ts \<and> int (length (recent 60 s (ts @ [s]))) \<le> n"
proof -
  have "(\<forall>us t vs. ts @ [s] = us @ t # vs \<longrightarrow> P us t) \<longleftrightarrow> P ts s \<and> (\<forall>us t vs. ts = us @ t # vs \<longrightarrow> P us t)" for P
    using ex_split_snoc [of ts s "\<lambda>us t. \<not> P us t"] by blast
  then show ?thesis by (auto simp: kept_def)
qed

lemma kept_windows:
  "kept n ts \<Longrightarrow> sorted ts \<Longrightarrow> 0 \<le> n \<Longrightarrow> int (length (filter (\<lambda>s. t - 60 < s \<and> s \<le> t) ts)) \<le> n"
proof (induction ts rule: rev_induct)
  case (snoc u ts)
  show ?case
  proof (cases "u \<le> t")
    case True
    have "filter (\<lambda>s. t - 60 < s \<and> s \<le> t) (ts @ [u]) = filter (\<lambda>s. t - 60 < s \<and> s \<le> t) (recent 60 u (ts @ [u]))"
      using True by (auto simp: recent_def intro!: filter_cong)
    then have "length (filter (\<lambda>s. t - 60 < s \<and> s \<le> t) (ts @ [u])) \<le> length (recent 60 u (ts @ [u]))"
      by (metis length_filter_le)
    with snoc.prems show ?thesis by (simp add: kept_snoc)
  next
    case False
    with snoc show ?thesis by (simp add: kept_snoc sorted_append)
  qed
qed simp

lemma admitted_kept:
  assumes laws: "zset_laws S T Z D" and inj: "inj_on (float_repr E) (range T)"
  shows "all_faithful E T Z D w ts \<Longrightarrow> \<forall>k. kept (N k) (ts k) \<Longrightarrow>
    (\<exists>w1. snd (admitted E S N ks w ts) = w1 \<and> all_faithful E T Z D w1 (fst (admitted E S N ks w ts))) \<and>
    (\<forall>k. kept (N k) (fst (admitted E S N ks w ts) k))"
proof (induction ks arbitrary: w ts)
  case (Cons k ks)
  obtain b r w1 where step: "sliding_window_check E S k (N k) w = (Inr (b, r), w1)"
    "if b then all_faithful E T Z D w1 (ts(k := ts k @ [now_in S w])) \<and>
        int (length (recent 60 (now_in S w) (ts k))) < N k else all_faithful E T Z D w1 ts"
    using sliding_window_step [OF laws inj Cons.prems(1)] by blast
  show ?case
  proof (cases b)
    case True
    let ?ts = "ts(k := ts k @ [now_in S w])"
    from True step(2) have f: "all_faithful E T Z D w1 ?ts"
      and l: "int (length (recent 60 (now_in S w) (ts k))) < N k" by (simp_all only: if_True)
    have "\<forall>k'. kept (N k') (?ts k')"
      using l Cons.prems(2) by (simp add: kept_snoc)
    note IH = Cons.IH [of w1 ?ts, OF f this]
    have "admitted E S N (k # ks) w ts = admitted E S N ks w1 ?ts" using True step(1) by simp
    then show ?thesis by (simp only: IH simp_thms)
  next
    case False
    with step Cons.IH [of w1 ts] Cons.prems(2) show ?thesis by simp
  qed
qed simp

text \<open>C8: The sliding window never overshoots: whatever sequence of requests is checked one after the
  other, on whatever keys, no key lets more than its limit through in any 60 seconds.\<close>

theorem rate_limit_bound:
  assumes "zset_laws S T Z D" and "inj_on (float_repr E) (range T)"
    and "\<forall>k. Z w k = Map.empty" and "0 \<le> N k"
  shows "int (length (filter (\<lambda>s. t - 60 < s \<and> s \<le> t) (fst (admitted E S N ks w (\<lambda>_. [])) k))) \<le> N k"
proof -
  have "all_faithful E T Z D w (\<lambda>_. [])"
    using assms(3) by (simp add: all_faithful_def faithful_def above_def)
  then have r: "all_faithful E T Z D (snd (admitted E S N ks w (\<lambda>_. []))) (fst (admitted E S N ks w (\<lambda>_. [])))"
    and "kept (N k) (fst (admitted E S N ks w (\<lambda>_. [])) k)"
    using admitted_kept [OF assms(1,2), of w "\<lambda>_. []" N ks] by (auto simp: kept_def)
  moreover from r have "sorted (fst (admitted E S N ks w (\<lambda>_. [])) k)"
    by (simp add: all_faithful_def faithful_def)
  ultimately show ?thesis using kept_windows assms(4) by blast
qed

end
