(* ===== verification/Slots.thy ===== *)
theory Slots imports RateLimit begin

text \<open>
  The concurrent slots of an identity (\<open>acquire_concurrent_slot\<close> and \<open>release_concurrent_slot\<close> of
  \<open>mcp-gateway/ratelimit.py\<close>) as a state machine.  Requests run at the same time and the code makes
  several Valkey commands per request, so a step is one command on the counter: an increment that
  is within the limit or beyond it, the decrement that takes the latter back, the release at the
  end of a request, and the expiry of the key, five minutes after the counter was last one.

  \<open>counter\<close> is the value under the key, \<open>holding\<close> the requests that run with a slot and \<open>refused\<close>
  those that have incremented the counter beyond the limit and not yet taken it back.
\<close>

record slots =
  counter :: int
  holding :: nat
  refused :: nat

definition no_slots :: slots where
  "no_slots = \<lparr>counter = 0, holding = 0, refused = 0\<rparr>"

inductive slot_step :: "int \<Rightarrow> slots \<Rightarrow> slots \<Rightarrow> bool" for limit where
  admit: "counter s + 1 \<le> limit \<Longrightarrow>
    slot_step limit s (s\<lparr>counter := counter s + 1, holding := Suc (holding s)\<rparr>)"
| refuse: "limit < counter s + 1 \<Longrightarrow>
    slot_step limit s (s\<lparr>counter := counter s + 1, refused := Suc (refused s)\<rparr>)"
| take_back: "refused s = Suc n \<Longrightarrow>
    slot_step limit s (s\<lparr>counter := counter s - 1, refused := n\<rparr>)"
| release: "holding s = Suc n \<Longrightarrow>
    slot_step limit s (s\<lparr>counter := counter s - 1, holding := n\<rparr>)"

text \<open>With the expiry of the key the counter starts again at nothing.\<close>

inductive slot_step_ttl :: "int \<Rightarrow> slots \<Rightarrow> slots \<Rightarrow> bool" for limit where
  command: "slot_step limit s t \<Longrightarrow> slot_step_ttl limit s t"
| expiry: "slot_step_ttl limit s (s\<lparr>counter := 0\<rparr>)"

inductive_cases slot_stepE: "slot_step limit s t"

inductive reachable :: "(slots \<Rightarrow> slots \<Rightarrow> bool) \<Rightarrow> slots \<Rightarrow> bool" for step where
  start: "reachable step no_slots"
| step_on: "reachable step s \<Longrightarrow> step s t \<Longrightarrow> reachable step t"

definition slots_ok :: "int \<Rightarrow> slots \<Rightarrow> bool" where
  "slots_ok limit s \<longleftrightarrow> counter s = int (holding s) + int (refused s) \<and> int (holding s) \<le> limit"

lemmas reachable_step = reachable.step_on

lemma slot_step_ok: "slot_step limit s t \<Longrightarrow> slots_ok limit s \<Longrightarrow> slots_ok limit t"
  by (erule slot_stepE) (auto simp: slots_ok_def)



lemma reachable_holding:
  "int n \<le> limit \<Longrightarrow> reachable (slot_step_ttl limit) \<lparr>counter = int n, holding = n, refused = 0\<rparr>"
proof (induction n)
  case 0
  show ?case using reachable.start [of "slot_step_ttl limit"] by (simp add: no_slots_def)
next
  case (Suc n)
  then have "reachable (slot_step_ttl limit) \<lparr>counter = int n, holding = n, refused = 0\<rparr>" by simp
  from reachable_step [OF this slot_step_ttl.command [OF slot_step.admit]] Suc.prems
  show ?case by (simp add: add.commute)
qed

text \<open>The lease is set only when the counter is one and never renewed, so it can expire while requests
  hold slots; then the counter starts again and, for every limit, one request more than the
  limit allows can hold a slot.\<close>

theorem slot_limit_broken_by_expiry:
  "\<exists>s. reachable (slot_step_ttl (int (Suc n))) s \<and> int (holding s) = int (Suc n) + 1"
proof -
  let ?s = "\<lparr>counter = int (Suc n), holding = Suc n, refused = 0\<rparr>"
  have "reachable (slot_step_ttl (int (Suc n))) ?s" by (rule reachable_holding) simp
  from reachable.step_on [OF this slot_step_ttl.expiry]
  have "reachable (slot_step_ttl (int (Suc n))) (?s\<lparr>counter := 0\<rparr>)" .
  from reachable.step_on [OF this slot_step_ttl.command [OF slot_step.admit]]
  show ?thesis by (intro exI conjI) auto
qed

section \<open>The code takes these steps\<close>

text \<open>The counters of Valkey: an increment and a decrement return the new value.\<close>

definition counter_laws :: "('w, 'x) services_scheme \<Rightarrow> ('w \<Rightarrow> string \<Rightarrow> int) \<Rightarrow> bool" where
  "counter_laws S C \<longleftrightarrow>
     (\<forall>k w. \<exists>w'. vk_incr S k w = (Inr (C w k + 1), w') \<and> C w' = (C w)(k := C w k + 1)) \<and>
     (\<forall>k w. \<exists>w'. vk_decr S k w = (Inr (C w k - 1), w') \<and> C w' = (C w)(k := C w k - 1)) \<and>
     (\<forall>k n w. \<exists>w'. vk_expire S k n w = (Inr (), w') \<and> C w' = C w)"

definition slots_of :: "('w \<Rightarrow> string \<Rightarrow> int) \<Rightarrow> int \<Rightarrow> nat \<Rightarrow> ('w, 'm) gateway_scheme \<Rightarrow> slots" where
  "slots_of C ident n g = \<lparr>counter = C (world g) (slot_key ident), holding = n, refused = 0\<rparr>"

text \<open>\<open>acquire_concurrent_slot\<close> refines the machine: with a client and a positive limit it either
  makes the step that admits a request and says so, or the two steps that refuse one, leaving
  the counter as it was.\<close>

theorem acquire_refines:
  assumes "counter_laws S C" and "MRatelimit \<in> set (clients g)" and "0 < limit"
  shows "\<exists>ok g'. acquire_concurrent_slot S env ident (Some limit) g = (Inr ok, g') \<and>
    (if ok then slot_step limit (slots_of C ident n g) (slots_of C ident (Suc n) g')
     else (\<exists>t. slot_step limit (slots_of C ident n g) t \<and> slot_step limit t (slots_of C ident n g')))"
proof -
  let ?k = "slot_key ident" and ?w = "world g"
  let ?c = "C ?w ?k"
  obtain w1 where w1: "vk_incr S ?k ?w = (Inr (?c + 1), w1)" "C w1 ?k = ?c + 1"
    using assms(1) unfolding counter_laws_def by (metis fun_upd_same)
  obtain w2 where w2: "(if ?c + 1 = 1 then vk_expire S ?k 300 else return_io ()) w1 = (Inr (), w2)" "C w2 ?k = ?c + 1"
  proof (cases "?c + 1 = 1")
    case True
    obtain w2 where "vk_expire S ?k 300 w1 = (Inr (), w2)" "C w2 = C w1"
      using assms(1) unfolding counter_laws_def by blast
    with True w1(2) that show thesis by simp
  next
    case False
    with that w1(2) show thesis by (simp add: return_io_def)
  qed
  show ?thesis
  proof (cases "limit < ?c + 1")
    case False
    have "acquire_concurrent_slot S env ident (Some limit) g = (Inr True, g\<lparr>world := w2\<rparr>)"
      using assms(2,3) w1(1) w2(1) False
      by (simp add: acquire_concurrent_slot_def or_default_def Let_def get_client_def io_simps cong: if_cong)
    moreover have "slot_step limit (slots_of C ident n g) (slots_of C ident (Suc n) (g\<lparr>world := w2\<rparr>))"
      using slot_step.admit [of "slots_of C ident n g" limit] False w2(2) by (simp add: slots_of_def)
    ultimately show ?thesis by auto
  next
    case True
    obtain w3 where w3: "vk_decr S ?k w2 = (Inr ?c, w3)" "C w3 ?k = ?c"
      using assms(1) w2(2) unfolding counter_laws_def by (metis add_diff_cancel_right' fun_upd_same)
    have "acquire_concurrent_slot S env ident (Some limit) g = (Inr False, g\<lparr>world := w3\<rparr>)"
      using assms(2,3) w1(1) w2(1) w3(1) True
      by (simp add: acquire_concurrent_slot_def or_default_def Let_def get_client_def io_simps cong: if_cong)
    moreover have "slot_step limit (slots_of C ident n g)
        \<lparr>counter = ?c + 1, holding = n, refused = 1\<rparr>"
      using slot_step.refuse [of limit "slots_of C ident n g"] True by (simp add: slots_of_def)
    moreover have "slot_step limit \<lparr>counter = ?c + 1, holding = n, refused = 1\<rparr> (slots_of C ident n (g\<lparr>world := w3\<rparr>))"
      using slot_step.take_back [of "\<lparr>counter = ?c + 1, holding = n, refused = 1\<rparr>" 0 limit] w3(2)
      by (simp add: slots_of_def)
    ultimately show ?thesis by auto
  qed
qed

text \<open>A request whose limit is switched off acquires nothing, yet its release decrements the counter:
  it ends below zero, and a later limit is overshot by that much.\<close>

theorem release_without_slot:
  assumes "counter_laws S C" and "MRatelimit \<in> set (clients g)" and "C (world g) (slot_key ident) = 0"
    and "limit \<le> 0"
  shows "\<exists>g1. seq_io (acquire_concurrent_slot S env ident (Some limit)) (release_concurrent_slot S ident) g = (Inr (), g1)
    \<and> C (world g1) (slot_key ident) = -1"
proof -
  obtain w1 where "vk_decr S (slot_key ident) (world g) = (Inr (-1), w1)" "C w1 (slot_key ident) = -1"
    using assms(1,3) unfolding counter_laws_def by (metis diff_0 fun_upd_same)
  with assms(2,4) show ?thesis
    by (simp add: acquire_concurrent_slot_def release_concurrent_slot_def or_default_def Let_def
        get_client_def io_simps)
qed

end
