(* ===== verification/Sessions.thy ===== *)
theory Sessions imports World begin

text \<open>
  The session manager (\<open>mcp-gateway/sessions.py\<close>) and the token blocklist
  (\<open>mcp-gateway/revocation.py\<close>).  A session is the JSON text of an object under
  \<open>mcp:sess:<id>\<close>; both modules share the store, so revoking an identity also deletes the
  sessions that carry its id.
\<close>

definition SESSION_TTL :: int where "SESSION_TTL = 3600"

definition SESSION_KEY_PREFIX :: string where "SESSION_KEY_PREFIX = ''mcp:sess:''"

definition session_key :: "string \<Rightarrow> string" where
  "session_key sid = SESSION_KEY_PREFIX @ sid"

section \<open>Sessions\<close>

definition session_data :: "int \<Rightarrow> int \<Rightarrow> real \<Rightarrow> json" where
  "session_data ident team now = JObj
     [(''identity_id'', JInt ident), (''team_id'', JInt team), (''created_at'', JFloat now),
      (''upstreams'', JObj [])]"

definition create_session :: "engine \<Rightarrow> ('w, 'x) services_scheme \<Rightarrow> int \<Rightarrow> int \<Rightarrow> (('w, 'm) gateway_scheme, string) io" where
  "create_session E S ident team =
     bind_io (on_world (sv_token S)) (\<lambda>sid.
     bind_io (on_world (sv_time S)) (\<lambda>now.
     bind_io (get_client S MSessions) (\<lambda>client.
       seq_io (if client
               then on_world (vk_setex S (session_key sid) SESSION_TTL
                      (json_dumps E (session_data ident team now)))
               else return_io ())
         (return_io sid))))"

text \<open>\<open>get_session\<close>: \<open>None\<close> for no id, no client, no entry, an empty entry or unreadable JSON.\<close>

definition get_session :: "engine \<Rightarrow> ('w, 'x) services_scheme \<Rightarrow> string \<Rightarrow> (('w, 'm) gateway_scheme, json option) io" where
  "get_session E S sid =
     (if sid = [] then return_io None
      else bind_io (get_client S MSessions) (\<lambda>client.
        if \<not> client then return_io None
        else bind_io (on_world (vk_get S (session_key sid))) (\<lambda>raw.
          return_io (case raw of
              None \<Rightarrow> None
            | Some s \<Rightarrow> if s = [] then None else json_loads E s))))"

definition refresh_session :: "('w, 'x) services_scheme \<Rightarrow> string \<Rightarrow> (('w, 'm) gateway_scheme, unit) io" where
  "refresh_session S sid =
     bind_io (get_client S MSessions) (\<lambda>client.
       if client then on_world (vk_expire S (session_key sid) SESSION_TTL) else return_io ())"

definition delete_session :: "('w, 'x) services_scheme \<Rightarrow> string \<Rightarrow> (('w, 'm) gateway_scheme, unit) io" where
  "delete_session S sid =
     bind_io (get_client S MSessions) (\<lambda>client.
       if client then on_world (vk_delete S (session_key sid)) else return_io ())"

text \<open>
  \<open>data.setdefault("upstreams", {})[str(server_id)] = sid\<close>; an entry that is not an object
  raises \<open>TypeError\<close>, a session that is not an object \<open>AttributeError\<close>.
\<close>

definition put_upstream :: "json \<Rightarrow> int \<Rightarrow> string \<Rightarrow> json res" where
  "put_upstream data server usid =
     (case data of
        JObj d \<Rightarrow>
          (case dict_get d ''upstreams'' (JObj []) of
             JObj u \<Rightarrow> Inr (JObj (AList.update ''upstreams''
                        (JObj (AList.update (int_str server) (JStr usid) u)) d))
           | _ \<Rightarrow> Inl TypeError)
      | _ \<Rightarrow> Inl AttributeError)"

definition set_upstream_session ::
  "engine \<Rightarrow> ('w, 'x) services_scheme \<Rightarrow> string \<Rightarrow> int \<Rightarrow> string \<Rightarrow> (('w, 'm) gateway_scheme, unit) io" where
  "set_upstream_session E S sid server usid =
     bind_io (get_client S MSessions) (\<lambda>client.
       if \<not> client then return_io ()
       else bind_io (get_session E S sid) (\<lambda>d.
         case d of
           None \<Rightarrow> return_io ()
         | Some data \<Rightarrow>
             if \<not> py_truthy data then return_io ()
             else (case put_upstream data server usid of
                 Inl e \<Rightarrow> raise_io e
               | Inr data1 \<Rightarrow> on_world (vk_setex S (session_key sid) SESSION_TTL (json_dumps E data1)))))"

text \<open>\<open>data.get("upstreams", {}).get(str(server_id))\<close>.\<close>

definition upstream_of :: "json \<Rightarrow> int \<Rightarrow> json res" where
  "upstream_of data server =
     (case data of
        JObj d \<Rightarrow>
          (case dict_get d ''upstreams'' (JObj []) of
             JObj u \<Rightarrow> Inr (dict_get u (int_str server) JNull)
           | _ \<Rightarrow> Inl AttributeError)
      | _ \<Rightarrow> Inl AttributeError)"

definition get_upstream_session ::
  "engine \<Rightarrow> ('w, 'x) services_scheme \<Rightarrow> string \<Rightarrow> int \<Rightarrow> (('w, 'm) gateway_scheme, json) io" where
  "get_upstream_session E S sid server =
     bind_io (get_session E S sid) (\<lambda>d.
       case d of
         None \<Rightarrow> return_io JNull
       | Some data \<Rightarrow>
           if \<not> py_truthy data then return_io JNull
           else (case upstream_of data server of Inl e \<Rightarrow> raise_io e | Inr v \<Rightarrow> return_io v))"

definition validate_session :: "engine \<Rightarrow> ('w, 'x) services_scheme \<Rightarrow> string \<Rightarrow> (('w, 'm) gateway_scheme, bool) io" where
  "validate_session E S sid = bind_io (get_session E S sid) (\<lambda>d. return_io (d \<noteq> None \<and> d \<noteq> Some JNull))"

section \<open>Revocation\<close>

definition jti_key :: "string \<Rightarrow> string" where
  "jti_key jti = ''mcp:rev:jti:'' @ jti"

definition identity_key :: "int \<Rightarrow> string" where
  "identity_key ident = ''mcp:rev:identity:'' @ int_str ident"

definition revoke_jti :: "('w, 'x) services_scheme \<Rightarrow> string \<Rightarrow> int \<Rightarrow> (('w, 'm) gateway_scheme, bool) io" where
  "revoke_jti S jti ttl =
     bind_io (get_client S MRevocation) (\<lambda>client.
       if \<not> client \<or> jti = [] then return_io False
       else try_io (seq_io (on_world (vk_setex S (jti_key jti) ttl ''1'')) (return_io True))
              (\<lambda>_. return_io False))"

text \<open>One session of the scan: deleted when its data carries the identity.\<close>

definition drop_session_of :: "engine \<Rightarrow> ('w, 'x) services_scheme \<Rightarrow> int \<Rightarrow> string \<Rightarrow> ('w, unit) io" where
  "drop_session_of E S ident key =
     bind_io (vk_get S key) (\<lambda>raw.
       case raw of
         None \<Rightarrow> return_io ()
       | Some s \<Rightarrow>
           if s = [] then return_io ()
           else (case json_loads E s of
               None \<Rightarrow> raise_io ValueError
             | Some data \<Rightarrow>
                 (case data of
                    JObj d \<Rightarrow>
                      if py_eq (dict_get d ''identity_id'' JNull) (JInt ident) then vk_delete S key
                      else return_io ()
                  | _ \<Rightarrow> raise_io AttributeError)))"

definition revoke_identity_sessions :: "engine \<Rightarrow> ('w, 'x) services_scheme \<Rightarrow> int \<Rightarrow> (('w, 'm) gateway_scheme, unit) io" where
  "revoke_identity_sessions E S ident =
     bind_io (get_client S MRevocation) (\<lambda>client.
       if \<not> client then return_io ()
       else try_io (on_world (bind_io (vk_scan S ''mcp:sess:*'')
                (each_io (drop_session_of E S ident))))
              (\<lambda>_. return_io ()))"

definition revoke_identity :: "engine \<Rightarrow> ('w, 'x) services_scheme \<Rightarrow> int \<Rightarrow> (('w, 'm) gateway_scheme, bool) io" where
  "revoke_identity E S ident =
     bind_io (get_client S MRevocation) (\<lambda>client.
       if \<not> client then return_io False
       else try_io
              (bind_io (on_world (sv_time S)) (\<lambda>now.
               seq_io (on_world (vk_set S (identity_key ident) (float_repr E now)))
                 (seq_io (revoke_identity_sessions E S ident) (return_io True))))
              (\<lambda>_. return_io False))"

definition is_jti_revoked :: "('w, 'x) services_scheme \<Rightarrow> string \<Rightarrow> (('w, 'm) gateway_scheme, bool) io" where
  "is_jti_revoked S jti =
     (if jti = [] then return_io False
      else bind_io (get_client S MRevocation) (\<lambda>client.
        if \<not> client then return_io False
        else try_io (bind_io (on_world (vk_exists S (jti_key jti))) (\<lambda>n. return_io (0 < n)))
               (\<lambda>_. return_io False)))"

definition is_identity_revoked :: "('w, 'x) services_scheme \<Rightarrow> int \<Rightarrow> (('w, 'm) gateway_scheme, bool) io" where
  "is_identity_revoked S ident =
     bind_io (get_client S MRevocation) (\<lambda>client.
       if \<not> client then return_io False
       else try_io (bind_io (on_world (vk_exists S (identity_key ident))) (\<lambda>n. return_io (0 < n)))
              (\<lambda>_. return_io False))"

definition is_token_valid :: "('w, 'x) services_scheme \<Rightarrow> int \<Rightarrow> string option \<Rightarrow> (('w, 'm) gateway_scheme, bool) io" where
  "is_token_valid S ident jti =
     bind_io (get_client S MRevocation) (\<lambda>client.
       if \<not> client then return_io True
       else bind_io (is_identity_revoked S ident) (\<lambda>r.
         if r then return_io False
         else (case jti of
             None \<Rightarrow> return_io True
           | Some j \<Rightarrow>
               if j = [] then return_io True
               else bind_io (is_jti_revoked S j) (\<lambda>r2. return_io (\<not> r2)))))"

end
