(* ===== verification/McpContext.thy ===== *)
theory McpContext imports ExprDnf begin

text \<open>
  The identity attached to a request (\<open>AuthContext\<close> of \<open>mcp-gateway/auth.py\<close>) and the context an
  expression is evaluated in (\<open>build_mcp_context\<close> of \<open>mcp-gateway/expression.py\<close>).  An argument
  the callers leave out has its default, the empty text or \<open>None\<close>.
\<close>

record auth_context =
  identity_id :: int
  team_id :: int
  ac_name :: string
  ac_subject :: string
  ac_kind :: string
  ac_claims :: "json dict"

record mcp_query =
  q_method :: string
  q_server :: string
  q_tool :: string
  q_resource :: string
  q_prompt :: string
  q_args :: "json option"
  q_ip_src :: string

definition no_query :: mcp_query where
  "no_query = \<lparr>q_method = [], q_server = [], q_tool = [], q_resource = [], q_prompt = [],
     q_args = None, q_ip_src = []\<rparr>"

text \<open>\<open>args or {}\<close>.\<close>

definition or_empty :: "json option \<Rightarrow> json" where
  "or_empty a = (case a of None \<Rightarrow> JObj [] | Some v \<Rightarrow> if py_truthy v then v else JObj [])"

definition build_mcp_context ::
  "engine \<Rightarrow> mcp_query \<Rightarrow> auth_context \<Rightarrow>
     (string \<Rightarrow> string \<Rightarrow> json \<Rightarrow> bool res) option \<Rightarrow> ctx" where
  "build_mcp_context E q a resolver =
     (let claims = ac_claims a;
          claim = (\<lambda>k. JStr (py_str (float_repr E) (dict_get claims k (JStr ''''))))
      in \<lparr>entries =
            [(''mcp.method'', JStr (q_method q)),
             (''mcp.server'', JStr (q_server q)),
             (''mcp.tool'', JStr (q_tool q)),
             (''mcp.resource'', JStr (q_resource q)),
             (''mcp.prompt'', JStr (q_prompt q)),
             (''mcp.identity'', JStr (ac_name a)),
             (''mcp.identity.kind'', JStr (ac_kind a)),
             (''mcp.team'', JStr (int_str (team_id a))),
             (''mcp.arg'', or_empty (q_args q)),
             (''auth.claim'', JObj claims),
             (''ip.src'', JStr (q_ip_src q))] @
            (if claims \<noteq> [] then
               [(''auth.claim.sub'', claim ''sub''),
                (''auth.claim.iss'', claim ''iss''),
                (''auth.claim.aud'', claim ''aud'')]
             else []),
          list_resolver = resolver\<rparr>)"

text \<open>The fields the language documents resolve to what the request and the identity say.\<close>

lemma bracket_match_plain: "bracket_match f = None" if "CHR ''['' \<notin> set f"
proof -
  have "\<not> starts_with (dropWhile base_char f) bracket_open"
  proof
    assume "starts_with (dropWhile base_char f) bracket_open"
    then have "CHR ''['' \<in> set (dropWhile base_char f)" by (auto simp: starts_with_iff bracket_open_def)
    with that show False by (blast dest: set_dropWhileD)
  qed
  then show ?thesis by (simp add: bracket_match_def Let_def)
qed

lemma mcp_context_fields:
  "resolve_field_value E ''mcp.tool'' (build_mcp_context E q a r) = JStr (q_tool q)"
  "resolve_field_value E ''mcp.server'' (build_mcp_context E q a r) = JStr (q_server q)"
  "resolve_field_value E ''mcp.team'' (build_mcp_context E q a r) = JStr (int_str (team_id a))"
  "resolve_field_value E ''ip.src'' (build_mcp_context E q a r) = JStr (q_ip_src q)"
  by (simp_all add: resolve_field_value_def bracket_match_plain build_mcp_context_def Let_def)

lemma list_resolver_context [simp]:
  "list_resolver (build_mcp_context E q a r) = r"
  by (simp add: build_mcp_context_def Let_def)

end
