(* ===== verification/Auth.thy ===== *)
theory Auth imports Sessions McpContext Windows begin

text \<open>
  Authentication (\<open>mcp-gateway/auth.py\<close>): personal access tokens, JWTs checked as a resource
  server, and the lockout of addresses after repeated failures.

  PyJWT, bcrypt, the HTTP fetch of a key set and \<open>datetime.fromisoformat\<close> are operations of
  \<open>auth_services\<close>: \<open>iso_utc\<close> reads a date and takes its wall-clock time as UTC, which is what
  \<open>.replace(tzinfo=utc)\<close> makes of it; \<open>signing_key\<close> is \<open>PyJWK(key).key\<close>.  The identity whose
  \<open>"_claims"\<close> the code sets is returned with the claims beside it.
\<close>

definition AUTH_FAIL_WINDOW :: real where "AUTH_FAIL_WINDOW = 60"

definition AUTH_FAIL_THRESHOLD :: nat where "AUTH_FAIL_THRESHOLD = 10"

definition AUTH_LOCKOUT_SECONDS :: real where "AUTH_LOCKOUT_SECONDS = 300"

definition JWKS_TTL :: real where "JWKS_TTL = 300"

record jwks =
  jw_keys :: json
  jw_fetched_at :: real

record auth_state =
  auth_fail_counts :: "real list dict"
  auth_lockouts :: "real dict"
  jwks_cache :: "jwks dict"

record 'w auth_gateway = "'w gateway" +
  auth_mem :: auth_state

record 'w auth_services = "'w services" +
  iso_utc :: "string \<Rightarrow> real res"
  checkpw :: "string \<Rightarrow> string \<Rightarrow> bool res"
  jwt_header :: "string \<Rightarrow> json dict res"
  jwt_payload :: "string \<Rightarrow> json dict res"
  signing_key :: "json dict \<Rightarrow> json res"
  jwt_verify :: "string \<Rightarrow> json \<Rightarrow> string option \<Rightarrow> string option \<Rightarrow> ('w, json dict) io"
  fetch_json :: "string \<Rightarrow> ('w, json dict) io"

record identity =
  i_id :: int
  i_team_id :: int
  i_name :: string
  i_subject :: "string option"
  i_kind :: string
  i_pat_hash :: "string option"
  i_pat_prefix :: "string option"
  i_jwt_issuer :: "string option"
  i_jwt_audience :: "string option"
  i_jwt_jwks_url :: "string option"
  i_enabled :: "bool option"
  i_expires_at :: "string option"

record auth_config =
  identities :: "identity list"
  jwt_issuer :: "string option"
  jwt_audience :: "string option"
  jwt_jwks_url :: "string option"

text \<open>\<open>a or b\<close> on texts that may be absent.\<close>

definition given :: "string option \<Rightarrow> bool" where
  "given x \<longleftrightarrow> x \<noteq> None \<and> x \<noteq> Some []"

definition first_given :: "string option \<Rightarrow> string option \<Rightarrow> string option" where
  "first_given x y = (if given x then x else y)"

section \<open>Lockout\<close>

definition check_brute_force :: "auth_state \<Rightarrow> real \<Rightarrow> string \<Rightarrow> unit res" where
  "check_brute_force st now ip =
     (if now < dict_get (auth_lockouts st) ip 0 then Inl (AuthError ''Too many auth failures'')
      else Inr ())"

definition record_auth_failure :: "real \<Rightarrow> string \<Rightarrow> auth_state \<Rightarrow> auth_state" where
  "record_auth_failure now ip st =
     (let failures = filter (\<lambda>t. now - AUTH_FAIL_WINDOW < t) (dict_get (auth_fail_counts st) ip []) @ [now];
          st1 = st\<lparr>auth_fail_counts := AList.update ip failures (auth_fail_counts st)\<rparr>
      in if AUTH_FAIL_THRESHOLD \<le> length failures
         then st1\<lparr>auth_lockouts := AList.update ip (now + AUTH_LOCKOUT_SECONDS) (auth_lockouts st1)\<rparr>
         else st1)"

definition record_auth_success :: "string \<Rightarrow> auth_state \<Rightarrow> auth_state" where
  "record_auth_success ip st =
     st\<lparr>auth_fail_counts := AList.delete ip (auth_fail_counts st),
       auth_lockouts := AList.delete ip (auth_lockouts st)\<rparr>"

section \<open>Personal access tokens\<close>

definition is_pat :: "string \<Rightarrow> bool" where
  "is_pat token \<longleftrightarrow> starts_with token ''mcp_'' \<and> CHR ''.'' \<in> set token"

definition parse_pat :: "string \<Rightarrow> string \<times> string" where
  "parse_pat token =
     (takeWhile (\<lambda>c. c \<noteq> CHR ''.'') token, tl (dropWhile (\<lambda>c. c \<noteq> CHR ''.'') token))"

text \<open>Whether an identity's \<open>expires_at\<close> lies in the past.\<close>

definition expired ::
  "('w, 'x) auth_services_scheme \<Rightarrow> identity \<Rightarrow> (('w, 'm) gateway_scheme, bool) io" where
  "expired S i =
     (if \<not> given (i_expires_at i) then return_io False
      else (case iso_utc S (the (i_expires_at i)) of
          Inl e \<Rightarrow> raise_io e
        | Inr t \<Rightarrow> bind_io (on_world (sv_time S)) (\<lambda>now. return_io (t < now))))"

fun verify_pat ::
  "('w, 'x) auth_services_scheme \<Rightarrow> string \<Rightarrow> string \<Rightarrow> identity list \<Rightarrow>
     (('w, 'm) gateway_scheme, identity option) io" where
  "verify_pat S prefix token [] = return_io None"
| "verify_pat S prefix token (i # is) =
     (if i_kind i \<noteq> ''pat'' then verify_pat S prefix token is
      else if i_pat_prefix i \<noteq> Some prefix then verify_pat S prefix token is
      else if \<not> or_default (i_enabled i) True then return_io None
      else bind_io (expired S i) (\<lambda>ex.
        if ex then return_io None
        else if \<not> given (i_pat_hash i) then return_io None
        else (case checkpw S token (the (i_pat_hash i)) of
            Inr True \<Rightarrow> return_io (Some i)
          | _ \<Rightarrow> verify_pat S prefix token is)))"

section \<open>JWTs\<close>

definition fetch_jwks ::
  "('w, 'x) auth_services_scheme \<Rightarrow> string \<Rightarrow> (('w, 'm) auth_gateway_scheme, jwks) io" where
  "fetch_jwks S url =
     bind_io (on_world (sv_time S)) (\<lambda>now g.
       let cached = map_of (jwks_cache (auth_mem g)) url
       in if (case cached of Some c \<Rightarrow> now - jw_fetched_at c < JWKS_TTL | None \<Rightarrow> False)
          then (Inr (the cached), g)
          else (case on_world (fetch_json S url) g of
              (Inl _, g1) \<Rightarrow>
                (case cached of
                   Some c \<Rightarrow> (Inr c, g1)
                 | None \<Rightarrow> (Inl (AuthError ''Cannot fetch JWKS''), g1))
            | (Inr data, g1) \<Rightarrow>
                (let entry = \<lparr>jw_keys = dict_get data ''keys'' (JList []), jw_fetched_at = now\<rparr>
                 in (Inr entry, g1\<lparr>auth_mem := (auth_mem g1)
                      \<lparr>jwks_cache := AList.update url entry (jwks_cache (auth_mem g1))\<rparr>\<rparr>))))"

text \<open>\<open>_get_signing_key\<close>: the first key with the token's \<open>kid\<close>, or simply the first when it has
  none.\<close>

fun find_signing_key :: "('w, 'x) auth_services_scheme \<Rightarrow> json \<Rightarrow> json list \<Rightarrow> json res" where
  "find_signing_key S kid [] = Inl (AuthError ''No matching key'')"
| "find_signing_key S kid (key # ks) =
     (case key of
        JObj d \<Rightarrow>
          if kid = JNull \<or> py_eq (dict_get d ''kid'' JNull) kid then signing_key S d
          else find_signing_key S kid ks
      | _ \<Rightarrow> if kid = JNull then Inl TypeError else Inl AttributeError)"

definition get_signing_key :: "('w, 'x) auth_services_scheme \<Rightarrow> json \<Rightarrow> json \<Rightarrow> json res" where
  "get_signing_key S keys kid =
     (if \<not> py_truthy keys then Inl (AuthError ''No keys in JWKS'')
      else (case keys of JList ks \<Rightarrow> find_signing_key S kid ks | _ \<Rightarrow> Inl TypeError))"

text \<open>Whether an identity is the target of a token: by its subject, or by its issuer.\<close>

definition claims_text :: "json dict \<Rightarrow> string \<Rightarrow> string option \<Rightarrow> bool" where
  "claims_text claims k x \<longleftrightarrow> given x \<and> dict_get claims k JNull = JStr (the x)"

definition jwt_target :: "json dict \<Rightarrow> identity \<Rightarrow> bool" where
  "jwt_target claims i \<longleftrightarrow> i_kind i = ''jwt'' \<and>
     (claims_text claims ''sub'' (i_subject i) \<or> claims_text claims ''iss'' (i_jwt_issuer i))"

definition verify_jwt ::
  "('w, 'x) auth_services_scheme \<Rightarrow> string \<Rightarrow> auth_config \<Rightarrow>
     (('w, 'm) auth_gateway_scheme, (identity \<times> json dict) option) io" where
  "verify_jwt S token cfg =
     (case (jwt_header S token, jwt_payload S token) of
        (Inr header, Inr claims) \<Rightarrow>
          (case List.find (jwt_target claims) (identities cfg) of
             None \<Rightarrow> return_io None
           | Some i \<Rightarrow>
               if \<not> or_default (i_enabled i) True then return_io None
               else bind_io (expired S i) (\<lambda>ex.
                 if ex then return_io None
                 else let url = first_given (i_jwt_jwks_url i) (jwt_jwks_url cfg);
                          issuer = first_given (i_jwt_issuer i) (jwt_issuer cfg);
                          audience = first_given (i_jwt_audience i) (jwt_audience cfg)
                 in if \<not> given url then return_io None
                    else bind_io (fetch_jwks S (the url)) (\<lambda>data.
                         bind_io (\<lambda>g. (get_signing_key S (jw_keys data) (dict_get header ''kid'' JNull), g)) (\<lambda>key.
                         try_io (bind_io (on_world (jwt_verify S token key issuer audience))
                             (\<lambda>payload. return_io (Some (i, payload))))
                           (\<lambda>_. return_io None)))))
      | _ \<Rightarrow> return_io None)"

section \<open>Authentication\<close>

definition modify_auth :: "(auth_state \<Rightarrow> auth_state) \<Rightarrow> (('w, 'm) auth_gateway_scheme, unit) io" where
  "modify_auth f g = (Inr (), g\<lparr>auth_mem := f (auth_mem g)\<rparr>)"

definition note_failure ::
  "('w, 'x) auth_services_scheme \<Rightarrow> string \<Rightarrow> (('w, 'm) auth_gateway_scheme, unit) io" where
  "note_failure S ip =
     (if ip = [] then return_io ()
      else bind_io (on_world (sv_time S)) (\<lambda>now. modify_auth (record_auth_failure now ip)))"

definition note_success :: "string \<Rightarrow> (('w, 'm) auth_gateway_scheme, unit) io" where
  "note_success ip = (if ip = [] then return_io () else modify_auth (record_auth_success ip))"

definition identity_context :: "identity \<Rightarrow> string \<Rightarrow> json dict \<Rightarrow> auth_context" where
  "identity_context i knd claims =
     \<lparr>identity_id = i_id i, team_id = i_team_id i, ac_name = i_name i,
      ac_subject = (if given (i_subject i) then the (i_subject i) else i_name i),
      ac_kind = knd, ac_claims = claims\<rparr>"

definition guard_brute_force ::
  "('w, 'x) auth_services_scheme \<Rightarrow> string \<Rightarrow> (('w, 'm) auth_gateway_scheme, unit) io" where
  "guard_brute_force S ip =
     (if ip = [] then return_io ()
      else bind_io (on_world (sv_time S)) (\<lambda>now g. (check_brute_force (auth_mem g) now ip, g)))"

definition refuse ::
  "('w, 'x) auth_services_scheme \<Rightarrow> string \<Rightarrow> string \<Rightarrow> (('w, 'm) auth_gateway_scheme, auth_context) io" where
  "refuse S ip msg = seq_io (note_failure S ip) (raise_io (AuthError msg))"

definition authenticate_pat ::
  "('w, 'x) auth_services_scheme \<Rightarrow> string \<Rightarrow> auth_config \<Rightarrow> string \<Rightarrow>
     (('w, 'm) auth_gateway_scheme, auth_context) io" where
  "authenticate_pat S token cfg ip =
     bind_io (verify_pat S (fst (parse_pat token)) token (identities cfg)) (\<lambda>ident.
       case ident of
         None \<Rightarrow> refuse S ip ''Invalid or expired PAT''
       | Some i \<Rightarrow>
           bind_io (is_token_valid S (i_id i) None) (\<lambda>ok.
             if \<not> ok then refuse S ip ''Identity revoked''
             else seq_io (note_success ip) (return_io (identity_context i ''pat'' []))))"

text \<open>\<open>jti\<close> of the claims, as \<open>is_token_valid\<close> uses it.\<close>

definition jti_of :: "engine \<Rightarrow> json dict \<Rightarrow> string option" where
  "jti_of E claims =
     (let v = dict_get claims ''jti'' JNull
      in if py_truthy v then Some (py_str (float_repr E) v) else None)"

definition authenticate_jwt ::
  "engine \<Rightarrow> ('w, 'x) auth_services_scheme \<Rightarrow> string \<Rightarrow> auth_config \<Rightarrow> string \<Rightarrow>
     (('w, 'm) auth_gateway_scheme, auth_context) io" where
  "authenticate_jwt E S token cfg ip =
     bind_io (verify_jwt S token cfg) (\<lambda>ident.
       case ident of
         None \<Rightarrow> refuse S ip ''Invalid or expired JWT''
       | Some (i, claims) \<Rightarrow>
           bind_io (is_token_valid S (i_id i) (jti_of E claims)) (\<lambda>ok.
             if \<not> ok then refuse S ip ''Token revoked''
             else seq_io (note_success ip) (return_io (identity_context i ''jwt'' claims))))"

definition authenticate ::
  "engine \<Rightarrow> ('w, 'x) auth_services_scheme \<Rightarrow> string \<Rightarrow> auth_config \<Rightarrow> string \<Rightarrow>
     (('w, 'm) auth_gateway_scheme, auth_context) io" where
  "authenticate E S token cfg ip =
     seq_io (guard_brute_force S ip)
       (if is_pat token then authenticate_pat S token cfg ip else authenticate_jwt E S token cfg ip)"

section \<open>The lockout\<close>

text \<open>The failures of one address are a sliding log of the module's state.\<close>

definition fails_at :: "string \<Rightarrow> auth_state \<Rightarrow> real list" where
  "fails_at ip st = dict_get (auth_fail_counts st) ip []"

lemma record_auth_failure_fields:
  "auth_fail_counts (record_auth_failure t ip st) =
     AList.update ip (recent AUTH_FAIL_WINDOW t (fails_at ip st) @ [t]) (auth_fail_counts st)"
  "auth_lockouts (record_auth_failure t ip st) =
     (if AUTH_FAIL_THRESHOLD \<le> length (recent AUTH_FAIL_WINDOW t (fails_at ip st) @ [t])
      then AList.update ip (t + AUTH_LOCKOUT_SECONDS) (auth_lockouts st) else auth_lockouts st)"
  by (auto simp: record_auth_failure_def Let_def fails_at_def recent_def)

interpretation fails: sliding_log "\<lambda>t. record_auth_failure t ip" "fails_at ip" AUTH_FAIL_WINDOW for ip
  by unfold_locales (simp_all add: fails_at_def record_auth_failure_fields)

text \<open>A failure at the end of \<open>ts\<close> trips the lockout when the window ending there covers enough.\<close>

definition trips :: "real list \<Rightarrow> bool" where
  "trips ts \<longleftrightarrow> ts \<noteq> [] \<and> AUTH_FAIL_THRESHOLD \<le> length (recent AUTH_FAIL_WINDOW (last ts) ts)"

definition fail_all :: "string \<Rightarrow> real list \<Rightarrow> auth_state \<Rightarrow> auth_state" where
  "fail_all ip ts st = fold (\<lambda>t. record_auth_failure t ip) ts st"

lemma fail_all_eq: "fail_all ip = fails.pushes ip"
  by (simp add: fun_eq_iff fail_all_def fails.pushes_def)

lemma lockout_snoc:
  assumes "fails_at ip st = []" and "sorted (ts @ [t])"
  shows "dict_get (auth_lockouts (fail_all ip (ts @ [t]) st)) ip d =
    (if trips (ts @ [t]) then t + AUTH_LOCKOUT_SECONDS else dict_get (auth_lockouts (fail_all ip ts st)) ip d)"
proof -
  have "fails_at ip (fail_all ip (ts @ [t]) st) = recent AUTH_FAIL_WINDOW t (ts @ [t])"
    using fails.logged_pushes [OF _ assms] by (simp add: fail_all_eq AUTH_FAIL_WINDOW_def)
  then have "recent AUTH_FAIL_WINDOW t (fails_at ip (fail_all ip ts st)) @ [t] =
      recent AUTH_FAIL_WINDOW t (ts @ [t])"
    by (simp add: fail_all_def fails_at_def [of ip "record_auth_failure _ _ _"] record_auth_failure_fields)
  then show ?thesis
    by (simp add: fail_all_def record_auth_failure_fields trips_def)
qed

text \<open>C9: Lockout: after failed logins of an address at the given times, the address is refused at a
  later time exactly when some run of at least ten of them fell into the 60 seconds ending with
  the last of that run, less than 300 seconds ago; with fewer it never is.\<close>

theorem lockout_correct:
  assumes "fails_at ip st = []" and "dict_get (auth_lockouts st) ip 0 = 0"
    and "sorted ts" and "0 \<le> now"
  shows "check_brute_force (fail_all ip ts st) now ip \<noteq> Inr () \<longleftrightarrow>
    (\<exists>us t vs. ts = us @ t # vs \<and> trips (us @ [t]) \<and> now < t + AUTH_LOCKOUT_SECONDS)"
  using assms(3)
proof (induction ts rule: rev_induct)
  case Nil
  then show ?case using assms by (simp add: check_brute_force_def fail_all_def)
next
  case (snoc u ts)
  have le: "x \<le> u" if "x \<in> set ts" for x using snoc.prems that by (auto simp: sorted_append)
  note lock = lockout_snoc [OF assms(1) snoc.prems, of 0]
  show ?case
  proof (cases "trips (ts @ [u])")
    case True
    have "t \<le> u" if "ts = us @ t # vs" for us t vs using le [of t] that by simp
    then have "now < u + AUTH_LOCKOUT_SECONDS"
      if "ts = us @ t # vs" "now < t + AUTH_LOCKOUT_SECONDS" for us t vs
      using that by fastforce
    with True lock show ?thesis unfolding ex_split_snoc by (auto simp: check_brute_force_def)
  next
    case False
    with lock have "check_brute_force (fail_all ip (ts @ [u]) st) now ip = check_brute_force (fail_all ip ts st) now ip"
      by (simp add: check_brute_force_def)
    with snoc False show ?thesis unfolding ex_split_snoc by (simp add: sorted_append)
  qed
qed

definition no_auth :: auth_state where
  "no_auth = \<lparr>auth_fail_counts = [], auth_lockouts = [], jwks_cache = []\<rparr>"

theorem lockout_correct_witness:
  "check_brute_force (fail_all ''10.0.0.1'' (replicate 10 5) no_auth) 100 ''10.0.0.1'' \<noteq> Inr ()"
proof -
  have t: "trips (replicate 9 5 @ [5])"
    by (simp add: trips_def recent_def AUTH_FAIL_WINDOW_def AUTH_FAIL_THRESHOLD_def)
  have r: "replicate 10 (5::real) = replicate 9 5 @ 5 # []" by (simp add: numeral_eq_Suc)
  show ?thesis
  proof (subst lockout_correct)
    show "\<exists>us t vs. replicate 10 5 = us @ t # vs \<and> trips (us @ [t]) \<and> 100 < t + AUTH_LOCKOUT_SECONDS"
      using t r by (intro exI [of _ "replicate 9 5"] exI [of _ 5] exI [of _ "[]"])
        (simp add: AUTH_LOCKOUT_SECONDS_def)
  qed (simp_all add: fails_at_def no_auth_def dict_get_def sorted_replicate)
qed

section \<open>Who is let in\<close>

lemma bind_io_Inr:
  "bind_io m f s = (Inr y, s2) \<longleftrightarrow> (\<exists>x s1. m s = (Inr x, s1) \<and> f x s1 = (Inr y, s2))"
  by (auto simp: bind_io_def split: prod.splits sum.splits)

lemma seq_io_Inr:
  "seq_io m n s = (Inr y, s2) \<longleftrightarrow> (\<exists>x s1. m s = (Inr x, s1) \<and> n s1 = (Inr y, s2))"
  by (simp add: seq_io_def bind_io_Inr)

lemma return_io_Inr: "return_io x s = (Inr y, s2) \<longleftrightarrow> y = x \<and> s2 = s"
  by (auto simp: return_io_def)

lemma raise_io_Inr: "raise_io e s \<noteq> (Inr y, s2)"
  by (simp add: raise_io_def)

lemmas io_Inr = bind_io_Inr seq_io_Inr return_io_Inr raise_io_Inr

text \<open>What verifying a token vouches for.\<close>

definition pat_checked :: "('w, 'x) auth_services_scheme \<Rightarrow> string \<Rightarrow> identity \<Rightarrow> bool" where
  "pat_checked S token i \<longleftrightarrow> i_kind i = ''pat'' \<and> i_pat_prefix i = Some (fst (parse_pat token)) \<and>
     given (i_pat_hash i) \<and> checkpw S token (the (i_pat_hash i)) = Inr True"

text \<open>The identity has no expiry date, or a clock reading showed it not to be over.\<close>

definition in_date :: "('w, 'x) auth_services_scheme \<Rightarrow> identity \<Rightarrow> bool" where
  "in_date S i \<longleftrightarrow> given (i_expires_at i) \<longrightarrow>
     (\<exists>t w now. iso_utc S (the (i_expires_at i)) = Inr t \<and> fst (sv_time S w) = Inr now \<and> now \<le> t)"

lemma on_world_fst: "fst (on_world f g) = fst (f (world g))"
  by (simp add: on_world_def split: prod.splits)

lemma expired_in_date: "expired S i g = (Inr False, g1) \<Longrightarrow> in_date S i"
proof -
  assume a: "expired S i g = (Inr False, g1)"
  have "\<exists>t w now. iso_utc S (the (i_expires_at i)) = Inr t \<and> fst (sv_time S w) = Inr now \<and> now \<le> t"
    if "given (i_expires_at i)"
  proof -
    from a that obtain t now g2 where "iso_utc S (the (i_expires_at i)) = Inr t"
      and w: "on_world (sv_time S) g = (Inr now, g2)" and "now \<le> t"
      by (auto simp: expired_def io_Inr split: sum.splits)
    moreover from w have "fst (sv_time S (world g)) = Inr now" by (metis fst_conv on_world_fst)
    ultimately show ?thesis by blast
  qed
  then show ?thesis by (simp add: in_date_def)
qed

lemma verify_pat_sound:
  "verify_pat S (fst (parse_pat token)) token is g = (Inr (Some i), g') \<Longrightarrow>
     i \<in> set is \<and> pat_checked S token i \<and> or_default (i_enabled i) True \<and> in_date S i"
proof (induction "is" arbitrary: g)
  case (Cons j js)
  show ?case
  proof (cases "i_kind j = ''pat'' \<and> i_pat_prefix j = Some (fst (parse_pat token))")
    case False
    then have "verify_pat S (fst (parse_pat token)) token js g = (Inr (Some i), g')"
      using Cons.prems by (auto split: if_splits)
    with Cons.IH show ?thesis by auto
  next
    case True
    with Cons.prems obtain g1 where en: "or_default (i_enabled j) True" and ex: "expired S j g = (Inr False, g1)"
      and h: "given (i_pat_hash j)"
      and r: "(case checkpw S token (the (i_pat_hash j)) of Inr True \<Rightarrow> return_io (Some j)
          | _ \<Rightarrow> verify_pat S (fst (parse_pat token)) token js) g1 = (Inr (Some i), g')"
      by (auto simp: io_Inr split: if_splits)
    show ?thesis
    proof (cases "checkpw S token (the (i_pat_hash j)) = Inr True")
      case True': True
      with r have "i = j" by (simp add: return_io_Inr)
      with True True' en ex h show ?thesis by (auto simp: pat_checked_def dest: expired_in_date)
    next
      case False
      with r have "verify_pat S (fst (parse_pat token)) token js g1 = (Inr (Some i), g')"
        by (auto split: sum.splits bool.splits)
      with Cons.IH show ?thesis by auto
    qed
  qed
qed (simp add: return_io_Inr)

definition jwt_checked ::
  "('w, 'x) auth_services_scheme \<Rightarrow> string \<Rightarrow> auth_config \<Rightarrow> identity \<Rightarrow> json dict \<Rightarrow> bool" where
  "jwt_checked S token cfg i claims \<longleftrightarrow>
     (\<exists>unverified. jwt_payload S token = Inr unverified \<and> jwt_target unverified i) \<and>
     (\<exists>key w. fst (jwt_verify S token key (first_given (i_jwt_issuer i) (jwt_issuer cfg))
        (first_given (i_jwt_audience i) (jwt_audience cfg)) w) = Inr claims)"

lemma verify_jwt_sound:
  assumes "verify_jwt S token cfg g = (Inr (Some (i, claims)), g')"
  shows "i \<in> set (identities cfg) \<and> jwt_checked S token cfg i claims \<and> or_default (i_enabled i) True \<and>
    in_date S i"
proof -
  obtain hd cl where hc: "jwt_header S token = Inr hd" "jwt_payload S token = Inr cl"
    using assms by (cases "jwt_header S token"; cases "jwt_payload S token")
      (auto simp: verify_jwt_def return_io_Inr)
  then obtain j where j: "List.find (jwt_target cl) (identities cfg) = Some j"
    using assms by (cases "List.find (jwt_target cl) (identities cfg)") (auto simp: verify_jwt_def return_io_Inr)
  let ?issuer = "first_given (i_jwt_issuer j) (jwt_issuer cfg)"
  let ?audience = "first_given (i_jwt_audience j) (jwt_audience cfg)"
  obtain g1 g2 key where en: "or_default (i_enabled j) True" and ex: "expired S j g = (Inr False, g1)"
    and t: "try_io (bind_io (on_world (jwt_verify S token key ?issuer ?audience))
        (\<lambda>payload. return_io (Some (j, payload)))) (\<lambda>_. return_io None) g2 = (Inr (Some (i, claims)), g')"
    using assms hc j by (auto simp: verify_jwt_def io_Inr Let_def split: if_splits)
  from t obtain g3 where "on_world (jwt_verify S token key ?issuer ?audience) g2 = (Inr claims, g3)" and "i = j"
    by (auto simp: try_io_def return_io_def bind_io_def split: prod.splits sum.splits)
  moreover from this have "fst (jwt_verify S token key ?issuer ?audience (world g2)) = Inr claims"
    by (metis fst_conv on_world_fst)
  moreover have "j \<in> set (identities cfg)" "jwt_target cl j" using find_SomeD [OF j] by auto
  ultimately show ?thesis using en ex hc
    by (auto simp: jwt_checked_def dest: expired_in_date)
qed


end
