(* ===== verification/Upstream.thy ===== *)
theory Upstream imports Auth begin

text \<open>
  The upstream client (\<open>mcp-gateway/upstream.py\<close>), with the SSRF filter every call goes through
  (\<open>mcp-gateway/ssrf.py\<close>): circuit breaker per server, headers, one same-origin redirect,
  parsing of JSON and event-stream bodies, tracked requests and their cancellation, and the
  paginated catalog fetch.

  \<open>up_services\<close> adds what these modules call: URL and IP-address parsing, name resolution, the
  HTTP POST, and the stdio transport of \<open>mcp-gateway/stdio_proxy.py\<close> (\<open>StdioProxy\<close>).
  Tasks are identified by numbers; \<open>task_done\<close> is \<open>task.done()\<close>.
\<close>

record ip_flags =
  ip_loopback :: bool
  ip_link_local :: bool
  ip_multicast :: bool
  ip_reserved :: bool
  ip_unspecified :: bool
  ip_private :: bool

record url_parts =
  u_scheme :: string
  u_netloc :: string
  u_hostname :: "string option"

record http_client =
  hc_verify :: bool
  hc_timeout :: real

record http_response =
  rs_status :: int
  rs_headers :: "string dict"
  rs_text :: string

record server =
  s_id :: int
  s_team_id :: int
  s_name :: string
  s_namespace :: "string option"
  s_url :: string
  s_enabled :: "bool option"
  s_transport_type :: "string option"
  s_auth_type :: "string option"
  s_auth_header :: "string option"
  s_auth_secret :: "string option"
  s_verify_tls :: "bool option"
  s_timeout_ms :: "int option"

type_synonym reply = "int \<times> json \<times> string dict"

record 'w up_services = "'w auth_services" +
  url_parse :: "string \<Rightarrow> url_parts res"
  url_join :: "string \<Rightarrow> string \<Rightarrow> string"
  ip_parse :: "string \<Rightarrow> ip_flags option"
  resolve_host :: "string \<Rightarrow> ('w, string list) io"
  http_post :: "http_client \<Rightarrow> string \<Rightarrow> json \<Rightarrow> string dict \<Rightarrow> ('w, http_response) io"
  stdio_request :: "server \<Rightarrow> json \<Rightarrow> ('w, reply) io"
  stdio_notify :: "server \<Rightarrow> json \<Rightarrow> ('w, int) io"
  stdio_initialize :: "server \<Rightarrow> ('w, string option) io"
  stdio_catalog :: "server \<Rightarrow> ('w, json dict option) io"
  current_task :: "'w \<Rightarrow> nat option"
  task_done :: "nat \<Rightarrow> 'w \<Rightarrow> bool"
  task_cancel :: "nat \<Rightarrow> ('w, unit) io"

section \<open>SSRF filter\<close>

record ssrf_env =
  allowed_ips :: "string list"
  allowed_hosts :: "string list"
  ssrf_enabled :: bool
  block_private :: bool

definition always_bad :: "ip_flags \<Rightarrow> bool" where
  "always_bad ip \<longleftrightarrow> ip_loopback ip \<or> ip_link_local ip \<or> ip_multicast ip \<or> ip_reserved ip \<or> ip_unspecified ip"

definition is_blocked_ip :: "('w, 'x) up_services_scheme \<Rightarrow> ssrf_env \<Rightarrow> string \<Rightarrow> bool" where
  "is_blocked_ip S env s =
     (if s \<in> set (allowed_ips env) then False
      else (case ip_parse S s of
          None \<Rightarrow> False
        | Some ip \<Rightarrow> block_private env \<and> ip_private ip \<or> always_bad ip))"

definition resolve_hostname :: "('w, 'x) up_services_scheme \<Rightarrow> string \<Rightarrow> ('w, string list) io" where
  "resolve_hostname S h = try_io (resolve_host S h) (\<lambda>_. return_io [])"

text \<open>\<open>is_url_safe\<close>: the verdict and, when unsafe, the reason.\<close>

definition is_url_safe ::
  "('w, 'x) up_services_scheme \<Rightarrow> ssrf_env \<Rightarrow> string list \<Rightarrow> string \<Rightarrow> ('w, bool \<times> string) io" where
  "is_url_safe S env dynamic url =
     (if \<not> ssrf_enabled env then return_io (True, ''SSRF protection disabled'')
      else (case url_parse S url of
          Inl e \<Rightarrow> return_io (False, ''Invalid URL'')
        | Inr p \<Rightarrow>
            if u_scheme p \<notin> {''http'', ''https''} then return_io (False, ''Blocked scheme: '' @ u_scheme p)
            else if \<not> given (u_hostname p) then return_io (False, ''No hostname in URL'')
            else let hostname = the (u_hostname p); low = py_lower hostname; literal = ip_parse S hostname
            in if low \<in> set (allowed_hosts env) \<or> low \<in> set dynamic then
                 (case literal of
                    Some ip \<Rightarrow>
                      if (ip_loopback ip \<or> ip_link_local ip \<or> ip_unspecified ip) \<and> low \<notin> set (allowed_ips env)
                      then return_io (False, ''Blocked IP: '' @ hostname) else return_io (True, [])
                  | None \<Rightarrow> return_io (True, []))
               else if literal \<noteq> None then
                 (if is_blocked_ip S env hostname then return_io (False, ''Blocked IP: '' @ hostname)
                  else return_io (True, []))
               else bind_io (resolve_hostname S hostname) (\<lambda>ips.
                 case List.find (is_blocked_ip S env) ips of
                   Some ip \<Rightarrow> return_io (False, ''Hostname '' @ hostname @ '' resolves to blocked IP: '' @ ip)
                 | None \<Rightarrow> return_io (True, []))))"

text \<open>\<open>update_allowed_upstreams\<close>: the lower-cased hosts of the bundle's URLs.\<close>

definition allowed_upstreams :: "('w, 'x) up_services_scheme \<Rightarrow> string list \<Rightarrow> string list" where
  "allowed_upstreams S urls = List.map_filter (\<lambda>url.
     case url_parse S url of
       Inl _ \<Rightarrow> None
     | Inr p \<Rightarrow> if given (u_hostname p) then Some (py_lower (the (u_hostname p))) else None) urls"

section \<open>Circuit breaker\<close>

record circuit =
  c_failures :: int
  c_last_failure :: real
  c_open_until :: real

record cb_env =
  cb_threshold :: int
  cb_reset :: real

type_synonym circuits = "(int \<times> circuit) list"

text \<open>\<open>_check_circuit\<close>: whether the request should proceed.\<close>

definition check_circuit :: "circuits \<Rightarrow> int \<Rightarrow> real \<Rightarrow> bool" where
  "check_circuit cs sid now =
     (case map_of cs sid of None \<Rightarrow> True | Some c \<Rightarrow> \<not> now < c_open_until c)"

definition record_upstream_success :: "int \<Rightarrow> circuits \<Rightarrow> circuits" where
  "record_upstream_success sid cs = AList.delete sid cs"

text \<open>\<open>_record_upstream_failure\<close>, which reads the clock for the failure and once more when it
  opens the circuit.\<close>

definition record_upstream_failure :: "cb_env \<Rightarrow> int \<Rightarrow> real \<Rightarrow> real \<Rightarrow> circuits \<Rightarrow> circuits" where
  "record_upstream_failure env sid now now2 cs =
     (let c = dict_get cs sid \<lparr>c_failures = 0, c_last_failure = 0, c_open_until = 0\<rparr>;
          c1 = c\<lparr>c_failures := c_failures c + 1, c_last_failure := now\<rparr>
      in AList.update sid
           (if cb_threshold env \<le> c_failures c1 then c1\<lparr>c_open_until := now2 + cb_reset env\<rparr> else c1) cs)"

definition is_circuit_open :: "circuits \<Rightarrow> int \<Rightarrow> real \<Rightarrow> bool" where
  "is_circuit_open cs sid now = (\<not> check_circuit cs sid now)"

section \<open>Requests\<close>

definition is_stdio :: "server \<Rightarrow> bool" where
  "is_stdio s \<longleftrightarrow> s_transport_type s = Some ''stdio''"

definition build_headers :: "server \<Rightarrow> string option \<Rightarrow> string dict" where
  "build_headers s usid =
     (let base = [(''Content-Type'', ''application/json''), (''Accept'', ''application/json, text/event-stream'')];
          auth_type = or_default (s_auth_type s) ''none'';
          with_auth =
            (if auth_type = ''bearer'' \<and> given (s_auth_secret s)
             then AList.update ''Authorization'' (''Bearer '' @ the (s_auth_secret s)) base
             else if auth_type = ''header'' \<and> given (s_auth_secret s)
             then AList.update (or_default (s_auth_header s) ''Authorization'') (the (s_auth_secret s)) base
             else base)
      in if given usid then AList.update ''Mcp-Session-Id'' (the usid) with_auth else with_auth)"

text \<open>\<open>headers.get\<close> of a response ignores the case of the name.\<close>

definition header :: "string dict \<Rightarrow> string \<Rightarrow> string option" where
  "header hs n = map_option snd (List.find (\<lambda>(k, v). py_lower k = py_lower n) hs)"

text \<open>\<open>text.splitlines()\<close>.\<close>

definition line_break :: "char \<Rightarrow> bool" where
  "line_break c \<longleftrightarrow> ord c \<in> {10, 11, 12, 13, 28, 29, 30, 133}"

fun splitlines :: "string \<Rightarrow> string list" where
  "splitlines [] = []"
| "splitlines (c # cs) =
     (if line_break c then
        (if ord c = 13 \<and> (case cs of d # _ \<Rightarrow> ord d = 10 | [] \<Rightarrow> False)
         then [] # splitlines (tl cs) else [] # splitlines cs)
      else (case splitlines cs of
          [] \<Rightarrow> [[c]]
        | l # ls \<Rightarrow> (c # l) # ls))"

text \<open>\<open>_parse_response_body\<close>: the last readable event of a stream, a JSON body, or the text.\<close>

definition event_data :: "string \<Rightarrow> string list" where
  "event_data s = map (\<lambda>line. strip (drop 5 line)) (filter (\<lambda>line. starts_with line ''data:'') (splitlines s))"

fun first_readable :: "engine \<Rightarrow> string list \<Rightarrow> json option" where
  "first_readable E [] = None"
| "first_readable E (raw # rs) =
     (case json_loads E raw of Some v \<Rightarrow> Some v | None \<Rightarrow> first_readable E rs)"

definition parse_response_body :: "engine \<Rightarrow> http_response \<Rightarrow> json res" where
  "parse_response_body E resp =
     (let ct = or_default (header (rs_headers resp) ''content-type'') ''''
      in if contains ct ''text/event-stream'' then
           Inr (or_default (first_readable E (rev (event_data (rs_text resp)))) (JStr (rs_text resp)))
         else if contains ct ''application/json'' then
           (case json_loads E (rs_text resp) of Some v \<Rightarrow> Inr v | None \<Rightarrow> Inl ValueError)
         else Inr (JStr (rs_text resp)))"

record up_state =
  up_circuits :: circuits
  up_clients :: "(int \<times> http_client) list"
  up_inflight :: "((string \<times> json) \<times> nat) list"
  up_dynamic :: "string list"

record 'w up_gateway = "'w auth_gateway" +
  up_mem :: up_state

definition modify_up :: "(up_state \<Rightarrow> up_state) \<Rightarrow> (('w, 'm) up_gateway_scheme, unit) io" where
  "modify_up f g = (Inr (), g\<lparr>up_mem := f (up_mem g)\<rparr>)"

text \<open>\<open>_get_client\<close>: one client per server id, with the settings of its first use.\<close>

definition get_http_client :: "server \<Rightarrow> (('w, 'm) up_gateway_scheme, http_client) io" where
  "get_http_client s g =
     (case map_of (up_clients (up_mem g)) (s_id s) of
        Some c \<Rightarrow> (Inr c, g)
      | None \<Rightarrow>
          (let c = \<lparr>hc_verify = or_default (s_verify_tls s) True,
                    hc_timeout = real_of_int (or_default (s_timeout_ms s) 30000) / 1000\<rparr>
           in (Inr c, g\<lparr>up_mem := (up_mem g)
                \<lparr>up_clients := AList.update (s_id s) c (up_clients (up_mem g))\<rparr>\<rparr>)))"

definition safe_url ::
  "('w, 'x) up_services_scheme \<Rightarrow> ssrf_env \<Rightarrow> string \<Rightarrow> (('w, 'm) up_gateway_scheme, bool \<times> string) io" where
  "safe_url S env url g = on_world (is_url_safe S env (up_dynamic (up_mem g)) url) g"

definition circuit_allows ::
  "('w, 'x) up_services_scheme \<Rightarrow> int \<Rightarrow> (('w, 'm) up_gateway_scheme, bool) io" where
  "circuit_allows S sid g =
     (if map_of (up_circuits (up_mem g)) sid = None then (Inr True, g)
      else bind_io (on_world (sv_time S)) (\<lambda>now g1.
        (Inr (check_circuit (up_circuits (up_mem g1)) sid now), g1)) g)"

definition note_up_success :: "int \<Rightarrow> (('w, 'm) up_gateway_scheme, unit) io" where
  "note_up_success sid = modify_up (\<lambda>u. u\<lparr>up_circuits := record_upstream_success sid (up_circuits u)\<rparr>)"

definition note_up_failure ::
  "('w, 'x) up_services_scheme \<Rightarrow> cb_env \<Rightarrow> int \<Rightarrow> (('w, 'm) up_gateway_scheme, unit) io" where
  "note_up_failure S env sid =
     bind_io (on_world (sv_time S)) (\<lambda>now g.
       if cb_threshold env \<le> c_failures (dict_get (up_circuits (up_mem g)) sid
            \<lparr>c_failures = 0, c_last_failure = 0, c_open_until = 0\<rparr>) + 1
       then bind_io (on_world (sv_time S)) (\<lambda>now2. modify_up (\<lambda>u.
              u\<lparr>up_circuits := record_upstream_failure env sid now now2 (up_circuits u)\<rparr>)) g
       else modify_up (\<lambda>u.
              u\<lparr>up_circuits := record_upstream_failure env sid now now (up_circuits u)\<rparr>) g)"

definition note_status ::
  "('w, 'x) up_services_scheme \<Rightarrow> cb_env \<Rightarrow> int \<Rightarrow> int \<Rightarrow> (('w, 'm) up_gateway_scheme, unit) io" where
  "note_status S env sid status =
     (if status < 500 then note_up_success sid else note_up_failure S env sid)"

text \<open>\<open>_post_with_redirect\<close> with \<open>n\<close> redirects left.\<close>

fun post_with_redirect ::
  "('w, 'x) up_services_scheme \<Rightarrow> ssrf_env \<Rightarrow> nat \<Rightarrow> http_client \<Rightarrow> string \<Rightarrow> json \<Rightarrow> string dict \<Rightarrow>
     (('w, 'm) up_gateway_scheme, http_response) io" where
  "post_with_redirect S env 0 c url body hs = on_world (http_post S c url body hs)"
| "post_with_redirect S env (Suc n) c url body hs =
     bind_io (on_world (http_post S c url body hs)) (\<lambda>resp.
       if rs_status resp \<in> {307, 308} \<and> given (header (rs_headers resp) ''location'') then
         (let new_url = url_join S url (the (header (rs_headers resp) ''location''))
          in case (url_parse S url, url_parse S new_url) of
               (Inr base, Inr target) \<Rightarrow>
                 if u_scheme base = u_scheme target \<and> u_netloc base = u_netloc target then
                   bind_io (safe_url S env new_url) (\<lambda>verdict.
                     if fst verdict then post_with_redirect S env n c new_url body hs
                     else return_io resp)
                 else return_io resp
             | (Inl e, _) \<Rightarrow> raise_io e
             | (_, Inl e) \<Rightarrow> raise_io e)
       else return_io resp)"

definition rpc :: "int \<Rightarrow> string \<Rightarrow> json \<Rightarrow> json" where
  "rpc i meth params = JObj [(''jsonrpc'', JStr ''2.0''), (''id'', JInt i), (''method'', JStr meth),
     (''params'', params)]"

definition rpc_error :: "string \<Rightarrow> json" where
  "rpc_error msg = JObj [(''jsonrpc'', JStr ''2.0''),
     (''error'', JObj [(''code'', JInt (-32000)), (''message'', JStr msg)])]"

record up_env =
  ue_ssrf :: ssrf_env
  ue_cb :: cb_env

definition initialize_body :: json where
  "initialize_body = rpc 1 ''initialize'' (JObj
     [(''protocolVersion'', JStr ''2025-11-25''), (''capabilities'', JObj []),
      (''clientInfo'', JObj [(''name'', JStr ''mcp-gateway''), (''version'', JStr ''0.1.0'')])])"

text \<open>\<open>initialize_upstream\<close>: the upstream's session id, empty for a stateless server, \<open>None\<close> on
  failure.\<close>

definition initialize_upstream ::
  "('w, 'x) up_services_scheme \<Rightarrow> up_env \<Rightarrow> server \<Rightarrow> (('w, 'm) up_gateway_scheme, string option) io" where
  "initialize_upstream S env s =
     (if is_stdio s then on_world (stdio_initialize S s)
      else bind_io (safe_url S (ue_ssrf env) (s_url s)) (\<lambda>verdict.
        if \<not> fst verdict then return_io None
        else bind_io (circuit_allows S (s_id s)) (\<lambda>closed.
          if \<not> closed then return_io None
          else bind_io (get_http_client s) (\<lambda>c.
            try_io
              (bind_io (post_with_redirect S (ue_ssrf env) 1 c (s_url s) initialize_body (build_headers s None))
                 (\<lambda>resp. seq_io (note_status S (ue_cb env) (s_id s) (rs_status resp))
                   (return_io (if rs_status resp = 200
                               then Some (or_default (header (rs_headers resp) ''Mcp-Session-Id'') '''')
                               else None))))
              (\<lambda>_. seq_io (note_up_failure S (ue_cb env) (s_id s)) (return_io None))))))"

text \<open>\<open>send_request\<close>: status, body and headers; the text of an exception is left out of the 502 body.\<close>

definition send_request ::
  "engine \<Rightarrow> ('w, 'x) up_services_scheme \<Rightarrow> up_env \<Rightarrow> server \<Rightarrow> json \<Rightarrow> string option \<Rightarrow>
     (('w, 'm) up_gateway_scheme, reply) io" where
  "send_request E S env s message usid =
     (if is_stdio s then on_world (stdio_request S s message)
      else bind_io (safe_url S (ue_ssrf env) (s_url s)) (\<lambda>verdict.
        if \<not> fst verdict then return_io (403, rpc_error (''Upstream blocked: '' @ snd verdict), [])
        else bind_io (circuit_allows S (s_id s)) (\<lambda>closed.
          if \<not> closed then return_io (503, rpc_error ''Upstream circuit breaker open'', [])
          else bind_io (get_http_client s) (\<lambda>c.
            try_io
              (bind_io (post_with_redirect S (ue_ssrf env) 1 c (s_url s) message (build_headers s usid))
                 (\<lambda>resp. case parse_response_body E resp of
                     Inl e \<Rightarrow> raise_io e
                   | Inr body \<Rightarrow> seq_io (note_status S (ue_cb env) (s_id s) (rs_status resp))
                       (return_io (rs_status resp, body, rs_headers resp))))
              (\<lambda>e. seq_io (note_up_failure S (ue_cb env) (s_id s))
                 (return_io (if e = TimeoutError then (504, rpc_error ''Upstream timeout'', [])
                             else (502, rpc_error ''Upstream error'', []))))))))"

definition send_notification ::
  "('w, 'x) up_services_scheme \<Rightarrow> up_env \<Rightarrow> server \<Rightarrow> json \<Rightarrow> string option \<Rightarrow>
     (('w, 'm) up_gateway_scheme, int) io" where
  "send_notification S env s message usid =
     (if is_stdio s then on_world (stdio_notify S s message)
      else bind_io (safe_url S (ue_ssrf env) (s_url s)) (\<lambda>verdict.
        if \<not> fst verdict then return_io 403
        else bind_io (get_http_client s) (\<lambda>c.
          try_io
            (bind_io (post_with_redirect S (ue_ssrf env) 1 c (s_url s) message (build_headers s usid))
               (\<lambda>resp. return_io (rs_status resp)))
            (\<lambda>_. return_io 502))))"

section \<open>Tracking and cancellation\<close>

definition drop_inflight :: "string \<times> json \<Rightarrow> (('w, 'm) up_gateway_scheme, unit) io" where
  "drop_inflight k = modify_up (\<lambda>u. u\<lparr>up_inflight := AList.delete k (up_inflight u)\<rparr>)"

text \<open>
  \<open>send_request_tracked\<close>: the entry is removed whether the request returns or raises.  The keys
  are pairs of the session and the client's JSON-RPC id; a list or an object as the id cannot be
  hashed.
\<close>

definition hashable :: "json \<Rightarrow> bool" where
  "hashable v = (case v of JList _ \<Rightarrow> False | JObj _ \<Rightarrow> False | _ \<Rightarrow> True)"

definition send_request_tracked ::
  "engine \<Rightarrow> ('w, 'x) up_services_scheme \<Rightarrow> up_env \<Rightarrow> string \<Rightarrow> json \<Rightarrow> server \<Rightarrow> json \<Rightarrow> string option \<Rightarrow>
     (('w, 'm) up_gateway_scheme, reply) io" where
  "send_request_tracked E S env session msg_id s message usid =
     (if \<not> hashable msg_id then raise_io TypeError
      else seq_io (\<lambda>g. (Inr (), case current_task S (world g) of
                None \<Rightarrow> g
              | Some t \<Rightarrow> g\<lparr>up_mem := (up_mem g)
                  \<lparr>up_inflight := AList.update (session, msg_id) t (up_inflight (up_mem g))\<rparr>\<rparr>))
       (\<lambda>g. case send_request E S env s message usid g of
            (r, g1) \<Rightarrow> (r, snd (drop_inflight (session, msg_id) g1))))"

definition cancel_inflight ::
  "('w, 'x) up_services_scheme \<Rightarrow> string \<Rightarrow> json \<Rightarrow> (('w, 'm) up_gateway_scheme, bool) io" where
  "cancel_inflight S session msg_id g =
     (if \<not> hashable msg_id then (Inl TypeError, g)
      else (case map_of (up_inflight (up_mem g)) (session, msg_id) of
          None \<Rightarrow> (Inr False, g)
        | Some t \<Rightarrow>
            if task_done S t (world g) then (Inr False, g)
            else seq_io (on_world (task_cancel S t))
                   (seq_io (drop_inflight (session, msg_id)) (return_io True)) g))"

section \<open>Catalog fetch\<close>

text \<open>One page of a list: \<open>None\<close> when the code gives up, else the items and the next cursor.\<close>

definition list_page :: "json \<Rightarrow> string \<Rightarrow> (json list \<times> json) option res" where
  "list_page data key =
     (case data of
        JObj d \<Rightarrow>
          if map_of d ''error'' \<noteq> None then Inr None
          else (case dict_get d ''result'' (JObj []) of
              JObj r \<Rightarrow>
                (case dict_get r key (JList []) of
                   JList xs \<Rightarrow> Inr (Some (xs, dict_get r ''nextCursor'' JNull))
                 | JObj e \<Rightarrow> Inr (Some (map (JStr \<circ> fst) e, dict_get r ''nextCursor'' JNull))
                 | JStr s \<Rightarrow> Inr (Some (map (\<lambda>c. JStr [c]) s, dict_get r ''nextCursor'' JNull))
                 | _ \<Rightarrow> Inl TypeError)
            | _ \<Rightarrow> Inl AttributeError)
      | _ \<Rightarrow> Inr None)"

definition page_body :: "int \<Rightarrow> string \<Rightarrow> json \<Rightarrow> json" where
  "page_body req_id meth cursor = rpc req_id meth
     (JObj (if py_truthy cursor then [(''cursor'', cursor)] else []))"

definition fetch_page ::
  "engine \<Rightarrow> ('w, 'x) up_services_scheme \<Rightarrow> up_env \<Rightarrow> server \<Rightarrow> http_client \<Rightarrow> string dict \<Rightarrow> string \<Rightarrow>
     string \<Rightarrow> int \<Rightarrow> json \<Rightarrow> (('w, 'm) up_gateway_scheme, (json list \<times> json) option) io" where
  "fetch_page E S env s c hs meth key req_id cursor =
     try_io
       (bind_io (post_with_redirect S (ue_ssrf env) 1 c (s_url s) (page_body req_id meth cursor) hs)
          (\<lambda>resp. seq_io (note_status S (ue_cb env) (s_id s) (rs_status resp))
             (if rs_status resp \<noteq> 200 then return_io None
              else (case parse_response_body E resp of
                  Inl e \<Rightarrow> raise_io e
                | Inr data \<Rightarrow> (\<lambda>g. (list_page data key, g))))))
       (\<lambda>_. seq_io (note_up_failure S (ue_cb env) (s_id s)) (return_io None))"

text \<open>
  The loop over the pages ends only when a page has no cursor; \<open>None\<close> is a loop that does not
  return.
\<close>

partial_function (option) fetch_pages ::
  "engine \<Rightarrow> ('w, 'x) up_services_scheme \<Rightarrow> up_env \<Rightarrow> server \<Rightarrow> http_client \<Rightarrow> string dict \<Rightarrow> string \<Rightarrow>
     string \<Rightarrow> int \<Rightarrow> json \<Rightarrow> json list \<Rightarrow> ('w, 'm) up_gateway_scheme \<Rightarrow>
     (json list option res \<times> ('w, 'm) up_gateway_scheme) option" where
  "fetch_pages E S env s c hs meth key req_id cursor items g =
     (case fetch_page E S env s c hs meth key req_id cursor g of
        (Inl e, g1) \<Rightarrow> Some (Inl e, g1)
      | (Inr None, g1) \<Rightarrow> Some (Inr None, g1)
      | (Inr (Some (xs, next_cursor)), g1) \<Rightarrow>
          if py_truthy next_cursor
          then fetch_pages E S env s c hs meth key (req_id + 1) next_cursor (items @ xs) g1
          else Some (Inr (Some (items @ xs)), g1))"

definition fetch_list ::
  "engine \<Rightarrow> ('w, 'x) up_services_scheme \<Rightarrow> up_env \<Rightarrow> server \<Rightarrow> string \<Rightarrow> string option \<Rightarrow> string \<Rightarrow>
     ('w, 'm) up_gateway_scheme \<Rightarrow> (json list option res \<times> ('w, 'm) up_gateway_scheme) option" where
  "fetch_list E S env s meth usid key g =
     (case safe_url S (ue_ssrf env) (s_url s) g of
        (Inl e, g1) \<Rightarrow> Some (Inl e, g1)
      | (Inr verdict, g1) \<Rightarrow>
          if \<not> fst verdict then Some (Inr None, g1)
          else (case get_http_client s g1 of
              (Inl e, g2) \<Rightarrow> Some (Inl e, g2)
            | (Inr c, g2) \<Rightarrow> fetch_pages E S env s c (build_headers s usid) meth key 1 JNull [] g2))"

text \<open>\<open>fetch_catalog\<close>: a list that raises counts as failed; all three failed means no catalog.\<close>

definition guarded_list ::
  "(json list option res \<times> 'g) option \<Rightarrow> (json list option \<times> 'g) option" where
  "guarded_list r = map_option (\<lambda>(x, g). (case x of Inl _ \<Rightarrow> None | Inr xs \<Rightarrow> xs, g)) r"

definition fetch_catalog ::
  "engine \<Rightarrow> ('w, 'x) up_services_scheme \<Rightarrow> up_env \<Rightarrow> server \<Rightarrow> string option \<Rightarrow>
     ('w, 'm) up_gateway_scheme \<Rightarrow> (json dict option res \<times> ('w, 'm) up_gateway_scheme) option" where
  "fetch_catalog E S env s usid g =
     (if is_stdio s then Some (on_world (stdio_catalog S s) g)
      else Option.bind (guarded_list (fetch_list E S env s ''tools/list'' usid ''tools'' g)) (\<lambda>(tools, g1).
           Option.bind (guarded_list (fetch_list E S env s ''resources/list'' usid ''resources'' g1)) (\<lambda>(resources, g2).
           Option.bind (guarded_list (fetch_list E S env s ''prompts/list'' usid ''prompts'' g2)) (\<lambda>(prompts, g3).
             if tools = None \<and> resources = None \<and> prompts = None then Some (Inr None, g3)
             else Some (bind_io (on_world (sv_time S)) (\<lambda>now. return_io (Some
                 [(''tools'', JList (or_default tools [])),
                  (''resources'', JList (or_default resources [])),
                  (''prompts'', JList (or_default prompts [])),
                  (''fetched_at'', JFloat now)])) g3)))))"

section \<open>The circuit breaker against its history\<close>

text \<open>
  The specification knows only the events: the failures of a server since its last success.
  \<open>Failed t t2\<close> carries the two readings of the clock.
\<close>

datatype cb_event = Succeeded | Failed real real

fun cb_step :: "cb_env \<Rightarrow> int \<times> cb_event \<Rightarrow> circuits \<Rightarrow> circuits" where
  "cb_step env (sid, Succeeded) cs = record_upstream_success sid cs"
| "cb_step env (sid, Failed t t2) cs = record_upstream_failure env sid t t2 cs"

fun failures_since :: "int \<Rightarrow> (int \<times> cb_event) list \<Rightarrow> real list \<Rightarrow> real list" where
  "failures_since sid [] acc = acc"
| "failures_since sid ((s, Succeeded) # es) acc = failures_since sid es (if s = sid then [] else acc)"
| "failures_since sid ((s, Failed t t2) # es) acc =
     failures_since sid es (if s = sid then acc @ [t2] else acc)"

definition spec_open :: "cb_env \<Rightarrow> real list \<Rightarrow> real \<Rightarrow> bool" where
  "spec_open env fs now \<longleftrightarrow>
     fs \<noteq> [] \<and> cb_threshold env \<le> int (length fs) \<and> now < last fs + cb_reset env"

text \<open>The abstraction relation: what the code's entry for a server holds of its history.\<close>

definition circuit_abs :: "cb_env \<Rightarrow> circuits \<Rightarrow> int \<Rightarrow> real list \<Rightarrow> bool" where
  "circuit_abs env cs sid fs \<longleftrightarrow>
     (case map_of cs sid of
        None \<Rightarrow> fs = []
      | Some c \<Rightarrow> fs \<noteq> [] \<and> c_failures c = int (length fs) \<and>
          c_open_until c = (if cb_threshold env \<le> int (length fs) then last fs + cb_reset env else 0))"

lemma circuit_abs_step:
  assumes "circuit_abs env cs sid fs"
  shows "circuit_abs env (cb_step env (s, Succeeded) cs) sid (if s = sid then [] else fs)"
    and "circuit_abs env (cb_step env (s, Failed t t2) cs) sid (if s = sid then fs @ [t2] else fs)"
  using assms
  by (auto simp: circuit_abs_def record_upstream_success_def record_upstream_failure_def dict_get_def Let_def
      split: option.splits)

lemma circuit_abs_run:
  "circuit_abs env cs sid fs \<Longrightarrow> circuit_abs env (fold (cb_step env) es cs) sid (failures_since sid es fs)"
proof (induction es arbitrary: cs fs)
  case (Cons e es)
  obtain s ev where e: "e = (s, ev)" by (cases e)
  show ?case
  proof (cases ev)
    case Succeeded
    from Cons.IH [OF circuit_abs_step(1) [OF Cons.prems, of s]] e Succeeded show ?thesis by simp
  next
    case (Failed t t2)
    from Cons.IH [OF circuit_abs_step(2) [OF Cons.prems, of s t t2]] e Failed show ?thesis by simp
  qed
qed simp

text \<open>C10: The circuit breaker refines its specification: after any history of successes and failures of
  any servers, requests to a server are refused exactly when at least the threshold of failures
  came since its last success and less than the reset time has passed since the latest of them.\<close>

theorem circuit_refines:
  assumes "0 \<le> now"
  shows "is_circuit_open (fold (cb_step env) es []) sid now \<longleftrightarrow> spec_open env (failures_since sid es []) now"
proof -
  have "circuit_abs env (fold (cb_step env) es []) sid (failures_since sid es [])"
    by (rule circuit_abs_run) (simp add: circuit_abs_def)
  then show ?thesis using assms
    by (auto simp: circuit_abs_def is_circuit_open_def check_circuit_def spec_open_def split: option.splits if_splits)
qed

theorem circuit_refines_witness:
  "is_circuit_open (fold (cb_step \<lparr>cb_threshold = 2, cb_reset = 60\<rparr>)
     [(1, Failed 10 10), (2, Succeeded), (1, Failed 20 20)] []) 1 70"
  by (subst circuit_refines) (simp_all add: spec_open_def)

section \<open>What the SSRF filter lets through\<close>

definition trusted_host :: "ssrf_env \<Rightarrow> string list \<Rightarrow> string \<Rightarrow> bool" where
  "trusted_host env dynamic h \<longleftrightarrow> py_lower h \<in> set (allowed_hosts env) \<or> py_lower h \<in> set dynamic"

definition ip_allowed :: "ssrf_env \<Rightarrow> string \<Rightarrow> bool" where
  "ip_allowed env h \<longleftrightarrow> h \<in> set (allowed_ips env) \<or> py_lower h \<in> set (allowed_ips env)"

lemma find_None: "List.find P xs = None \<longleftrightarrow> (\<forall>x\<in>set xs. \<not> P x)"
  by (induction xs) auto

lemma resolve_hostname_eq:
  "resolve_hostname S h w = (Inr (case fst (resolve_host S h w) of Inl _ \<Rightarrow> [] | Inr ips \<Rightarrow> ips), snd (resolve_host S h w))"
  by (simp add: resolve_hostname_def io_simps split: prod.split sum.split)

text \<open>C11: With the protection on, a URL that passes has the scheme http or https and a host; no host that
  is a loopback, link-local or unspecified address literal passes unless that address is in the
  allowlist, not even one the bundle registers; a literal outside the lists is in no blocked
  range, and no address a name outside the lists resolved to is.\<close>

theorem ssrf_safe:
  assumes "is_url_safe S env dynamic url w = (Inr (True, r), w')" and "ssrf_enabled env"
  shows "\<exists>p h. url_parse S url = Inr p \<and> u_scheme p \<in> {''http'', ''https''} \<and> u_hostname p = Some h \<and>
    (\<forall>ip. ip_parse S h = Some ip \<longrightarrow> ip_loopback ip \<or> ip_link_local ip \<or> ip_unspecified ip \<longrightarrow> ip_allowed env h) \<and>
    (trusted_host env dynamic h \<or>
     (if ip_parse S h \<noteq> None then \<not> is_blocked_ip S env h
      else \<forall>ips. fst (resolve_host S h w) = Inr ips \<longrightarrow> (\<forall>ip\<in>set ips. \<not> is_blocked_ip S env ip)))"
proof -
  obtain p where p: "url_parse S url = Inr p" and "u_scheme p \<in> {''http'', ''https''}"
      and "given (u_hostname p)"
    using assms by (auto simp: is_url_safe_def return_io_def split: sum.splits if_splits)
  then obtain h where h: "u_hostname p = Some h" by (auto simp: given_def)
  note rest = assms(1) [unfolded is_url_safe_def p sum.case h option.sel Let_def]
  show ?thesis
  proof (intro exI conjI)
    show "\<forall>ip. ip_parse S h = Some ip \<longrightarrow> ip_loopback ip \<or> ip_link_local ip \<or> ip_unspecified ip \<longrightarrow> ip_allowed env h"
      using rest assms(2) by (auto simp: return_io_def ip_allowed_def is_blocked_ip_def always_bad_def
          split: if_splits option.splits)
    show "trusted_host env dynamic h \<or>
     (if ip_parse S h \<noteq> None then \<not> is_blocked_ip S env h
      else \<forall>ips. fst (resolve_host S h w) = Inr ips \<longrightarrow> (\<forall>ip\<in>set ips. \<not> is_blocked_ip S env ip))"
      using rest assms(2)
      by (auto simp: return_io_def trusted_host_def bind_io_def resolve_hostname_eq find_None
          split: if_splits option.splits)
  qed fact+
qed

section \<open>Tracked requests\<close>

text \<open>However a tracked request ends, by a reply or an exception, it is no longer in flight
  afterwards, and cancelling it then does nothing and says so.\<close>

theorem tracked_request_ends:
  assumes "hashable msg_id"
  shows "\<exists>g'. snd (send_request_tracked E S env session msg_id s message usid g) = g' \<and>
    map_of (up_inflight (up_mem g')) (session, msg_id) = None \<and>
    cancel_inflight S session msg_id g' = (Inr False, g')"
  using assms
  by (simp add: send_request_tracked_def cancel_inflight_def io_simps drop_inflight_def modify_up_def
      split: prod.split)

section \<open>Pagination\<close>

lemma fetch_pages_unfold:
  "fetch_pages E S env s c hs meth key req_id cursor items g =
     (case fetch_page E S env s c hs meth key req_id cursor g of
        (Inl e, g1) \<Rightarrow> Some (Inl e, g1)
      | (Inr None, g1) \<Rightarrow> Some (Inr None, g1)
      | (Inr (Some (xs, next_cursor)), g1) \<Rightarrow>
          if py_truthy next_cursor
          then fetch_pages E S env s c hs meth key (req_id + 1) next_cursor (items @ xs) g1
          else Some (Inr (Some (items @ xs)), g1))"
  by (rule fetch_pages.simps)


lemma fetch_page_constant:
  assumes "\<And>w. http_post S c (s_url s) (page_body req_id meth cursor) hs w = (Inr page, w)"
    and "rs_status page = 200"
    and "parse_response_body E page = Inr data" "list_page data key = Inr (Some (xs, c1))"
  shows "\<exists>g1. fetch_page E S env s c hs meth key req_id cursor g = (Inr (Some (xs, c1)), g1)"
  using assms
  by (simp add: fetch_page_def io_simps numeral_eq_Suc note_status_def note_up_success_def modify_up_def)

text \<open>An upstream that answers every request for a page alike, with a page that names a next one.\<close>

definition endless_list ::
  "engine \<Rightarrow> ('w, 'x) up_services_scheme \<Rightarrow> server \<Rightarrow> http_client \<Rightarrow> string dict \<Rightarrow> string \<Rightarrow> string \<Rightarrow> bool" where
  "endless_list E S s c hs meth key \<longleftrightarrow>
     (\<exists>page data xs c1. (\<forall>req_id cursor w.
          http_post S c (s_url s) (page_body req_id meth cursor) hs w = (Inr page, w)) \<and>
        rs_status page = 200 \<and> parse_response_body E page = Inr data \<and>
        list_page data key = Inr (Some (xs, c1)) \<and> py_truthy c1)"

lemma fetch_pages_endless:
  "fetch_pages E S env s c hs meth key req_id cursor items g = Some r \<Longrightarrow> \<not> endless_list E S s c hs meth key"
proof (rule fetch_pages.raw_induct
    [where P = "\<lambda>E S env s c hs meth key req_id cursor items g r. \<not> endless_list E S s c hs meth key"])
  fix f :: "engine \<Rightarrow> ('w, 'x) up_services_scheme \<Rightarrow> up_env \<Rightarrow> server \<Rightarrow> http_client \<Rightarrow> string dict \<Rightarrow> string \<Rightarrow>
     string \<Rightarrow> int \<Rightarrow> json \<Rightarrow> json list \<Rightarrow> ('w, 'm) up_gateway_scheme \<Rightarrow>
     (json list option res \<times> ('w, 'm) up_gateway_scheme) option"
  fix E env s c hs meth key req_id cursor items r
  fix S :: "('w, 'x) up_services_scheme" and g :: "('w, 'm) up_gateway_scheme"
  assume IH: "\<And>E S env s c hs meth key req_id cursor items g r.
      f E S env s c hs meth key req_id cursor items g = Some r \<Longrightarrow> \<not> endless_list E S s c hs meth key"
    and eq: "(case fetch_page E S env s c hs meth key req_id cursor g of
        (Inl e, g1) \<Rightarrow> Some (Inl e, g1)
      | (Inr None, g1) \<Rightarrow> Some (Inr None, g1)
      | (Inr (Some (xs, next_cursor)), g1) \<Rightarrow>
          if py_truthy next_cursor
          then f E S env s c hs meth key (req_id + 1) next_cursor (items @ xs) g1
          else Some (Inr (Some (items @ xs)), g1)) = Some r"
  show "\<not> endless_list E S s c hs meth key"
  proof
    assume endless: "endless_list E S s c hs meth key"
    then obtain page data xs c1 where
      post: "\<And>req_id cursor w. http_post S c (s_url s) (page_body req_id meth cursor) hs w = (Inr page, w)"
      and page: "rs_status page = 200" "parse_response_body E page = Inr data"
        "list_page data key = Inr (Some (xs, c1))" "py_truthy c1"
      by (auto simp: endless_list_def)
    obtain g1 where "fetch_page E S env s c hs meth key req_id cursor g = (Inr (Some (xs, c1)), g1)"
      using fetch_page_constant [OF post page(1-3)] by blast
    with eq page(4) IH endless show False by auto
  qed
qed

text \<open>Fetching a list never returns when the upstream passes the SSRF filter and answers every request
  with a page that has a next cursor: the loop has no bound and does not compare cursors.\<close>

theorem fetch_list_never_returns:
  assumes "safe_url S (ue_ssrf env) (s_url s) g = (Inr (True, reason), g1)"
    and "get_http_client s g1 = (Inr c, g2)"
    and "endless_list E S s c (build_headers s usid) meth key"
  shows "fetch_list E S env s meth usid key g = None"
proof (cases "fetch_pages E S env s c (build_headers s usid) meth key 1 JNull [] g2")
  case None
  with assms show ?thesis by (simp add: fetch_list_def)
next
  case (Some r)
  from fetch_pages_endless [OF Some] assms(3) show ?thesis by simp
qed

end
