(* ===== verification/Policy.thy ===== *)
theory Policy imports McpContext begin

text \<open>
  The policy engine (\<open>mcp-gateway/policy.py\<close>): compiled policies in stable priority order, the
  first one whose expression holds decides; no policies configured means open, policies but no
  match means closed.  A policy whose evaluation raises is passed over.

  The bundle's pre-compiled \<open>expression_ast\<close> is the node the backend's parser produced; \<open>None\<close>
  when the key is absent or null.
\<close>

definition MCP_POLICY_DENIED :: int where "MCP_POLICY_DENIED = -32010"

record policy_result =
  pr_action :: string
  rule_name :: string
  skip_dlp :: bool
  skip_ratelimit :: bool

definition denied :: "policy_result \<Rightarrow> bool" where
  "denied r \<longleftrightarrow> pr_action r = ''deny''"

definition allowed :: "policy_result \<Rightarrow> bool" where
  "allowed r \<longleftrightarrow> pr_action r = ''allow''"

record raw_policy =
  rp_enabled :: "bool option"
  rp_name :: "string option"
  rp_expression :: "string option"
  rp_expression_ast :: "ast option"
  rp_priority :: "int option"
  rp_action :: "string option"
  rp_log :: "bool option"
  rp_no_log :: "bool option"

record policy =
  p_name :: string
  p_priority :: int
  p_ast :: ast
  p_action :: string
  p_log :: bool
  p_no_log :: bool

section \<open>Loading\<close>

text \<open>The expression of a policy: its AST, or its text parsed; \<open>Inr None\<close> when parsing fails.\<close>

definition policy_ast :: "raw_policy \<Rightarrow> ast option res" where
  "policy_ast p =
     (case rp_expression_ast p of
        Some a \<Rightarrow> Inr (Some a)
      | None \<Rightarrow>
          (case rp_expression p of
             None \<Rightarrow> Inl KeyError
           | Some s \<Rightarrow> Inr (case parse_expression [] s of Inl _ \<Rightarrow> None | Inr a \<Rightarrow> Some a)))"

definition compile_policy :: "raw_policy \<Rightarrow> policy option res" where
  "compile_policy p =
     (if \<not> or_default (rp_enabled p) True then Inr None
      else bind_res (policy_ast p) (\<lambda>a.
        case a of
          None \<Rightarrow> Inr None
        | Some node \<Rightarrow>
            (case rp_name p of
               None \<Rightarrow> Inl KeyError
             | Some n \<Rightarrow> Inr (Some
                 \<lparr>p_name = n,
                  p_priority = or_default (rp_priority p) 0,
                  p_ast = node,
                  p_action = or_default (rp_action p) ''allow'',
                  p_log = or_default (rp_log p) True,
                  p_no_log = or_default (rp_no_log p) False\<rparr>))))"

definition compile_policies :: "raw_policy list \<Rightarrow> policy list res" where
  "compile_policies raw = bind_res (collect compile_policy raw) (\<lambda>ps. Inr (sort_key p_priority ps))"

definition load_policies ::
  "raw_policy list option \<Rightarrow> policy rule_module \<Rightarrow> unit res \<times> policy rule_module" where
  "load_policies = load_rules compile_policies"

section \<open>Evaluation\<close>

definition policy_decision :: "policy \<Rightarrow> policy_result" where
  "policy_decision p = \<lparr>pr_action = p_action p, rule_name = p_name p,
     skip_dlp = (p_action p = ''skip_dlp''), skip_ratelimit = (p_action p = ''skip_ratelimit'')\<rparr>"

definition default_result :: "string \<Rightarrow> string \<Rightarrow> policy_result" where
  "default_result action name =
     \<lparr>pr_action = action, rule_name = name, skip_dlp = False, skip_ratelimit = False\<rparr>"

fun first_match :: "engine \<Rightarrow> ctx \<Rightarrow> policy list \<Rightarrow> policy_result" where
  "first_match E c [] = default_result ''deny'' ''<default: no match>''"
| "first_match E c (p # ps) =
     (case evaluate E c (p_ast p) of
        Inr True \<Rightarrow> policy_decision p
      | _ \<Rightarrow> first_match E c ps)"

definition evaluate_policy :: "engine \<Rightarrow> policy rule_module \<Rightarrow> ctx \<Rightarrow> policy_result" where
  "evaluate_policy E m c =
     (if \<not> has_configured m then default_result ''allow'' ''<default: no policies>''
      else first_match E c (compiled_rules m))"

text \<open>The wrappers of the request handlers; none of them passes a list resolver.\<close>

definition check_access :: "engine \<Rightarrow> policy rule_module \<Rightarrow> auth_context \<Rightarrow> mcp_query \<Rightarrow> policy_result" where
  "check_access E m a q = evaluate_policy E m (build_mcp_context E q a None)"

definition check_tool_access ::
  "engine \<Rightarrow> policy rule_module \<Rightarrow> string \<Rightarrow> string \<Rightarrow> string \<Rightarrow> auth_context \<Rightarrow> json option \<Rightarrow> string \<Rightarrow>
     policy_result" where
  "check_tool_access E m meth tool_name namespace a args ip =
     check_access E m a (no_query\<lparr>q_method := meth, q_tool := tool_name, q_server := namespace,
       q_args := args, q_ip_src := ip\<rparr>)"

definition check_resource_access ::
  "engine \<Rightarrow> policy rule_module \<Rightarrow> string \<Rightarrow> string \<Rightarrow> string \<Rightarrow> auth_context \<Rightarrow> string \<Rightarrow> policy_result" where
  "check_resource_access E m meth uri namespace a ip =
     check_access E m a (no_query\<lparr>q_method := meth, q_resource := uri, q_server := namespace,
       q_ip_src := ip\<rparr>)"

definition check_prompt_access ::
  "engine \<Rightarrow> policy rule_module \<Rightarrow> string \<Rightarrow> string \<Rightarrow> string \<Rightarrow> auth_context \<Rightarrow> string \<Rightarrow> policy_result" where
  "check_prompt_access E m meth prompt_name namespace a ip =
     check_access E m a (no_query\<lparr>q_method := meth, q_prompt := prompt_name, q_server := namespace,
       q_ip_src := ip\<rparr>)"

definition visible :: "policy_result \<Rightarrow> bool" where
  "visible r \<longleftrightarrow> allowed r \<or> pr_action r \<in> {''skip_dlp'', ''skip_ratelimit''}"

text \<open>A list item is a JSON object; \<open>item.get(key, "")\<close> where the value is a text.\<close>

definition item_text :: "json dict \<Rightarrow> string \<Rightarrow> string" where
  "item_text item k = (case dict_get item k (JStr '''') of JStr s \<Rightarrow> s | _ \<Rightarrow> [])"

definition filter_tool_list ::
  "engine \<Rightarrow> policy rule_module \<Rightarrow> json dict list \<Rightarrow> string \<Rightarrow> auth_context \<Rightarrow> string \<Rightarrow> json dict list" where
  "filter_tool_list E m tools namespace a ip =
     filter (\<lambda>t. visible (check_access E m a (no_query\<lparr>q_method := ''tools/call'',
       q_tool := item_text t ''name'', q_server := namespace, q_ip_src := ip\<rparr>))) tools"

definition filter_resource_list ::
  "engine \<Rightarrow> policy rule_module \<Rightarrow> json dict list \<Rightarrow> string \<Rightarrow> auth_context \<Rightarrow> string \<Rightarrow> json dict list" where
  "filter_resource_list E m resources namespace a ip =
     filter (\<lambda>r. visible (check_access E m a (no_query\<lparr>q_method := ''resources/read'',
       q_resource := item_text r ''uri'', q_server := namespace, q_ip_src := ip\<rparr>))) resources"

definition filter_prompt_list ::
  "engine \<Rightarrow> policy rule_module \<Rightarrow> json dict list \<Rightarrow> string \<Rightarrow> auth_context \<Rightarrow> string \<Rightarrow> json dict list" where
  "filter_prompt_list E m prompts namespace a ip =
     filter (\<lambda>p. visible (check_access E m a (no_query\<lparr>q_method := ''prompts/get'',
       q_prompt := item_text p ''name'', q_server := namespace, q_ip_src := ip\<rparr>))) prompts"

section \<open>First match\<close>

abbreviation holds :: "engine \<Rightarrow> ctx \<Rightarrow> policy \<Rightarrow> bool" where
  "holds E c p \<equiv> evaluate E c (p_ast p) = Inr True"

lemma first_match_find:
  "first_match E c ps =
     (case List.find (holds E c) ps of
        None \<Rightarrow> default_result ''deny'' ''<default: no match>''
      | Some p \<Rightarrow> policy_decision p)"
  by (induction ps) (auto split: sum.split bool.split)

lemma find_None_all: "List.find P xs = None \<longleftrightarrow> (\<forall>x\<in>set xs. \<not> P x)"
  by (auto simp: find_None_iff)

lemma find_sorted_least:
  assumes "sorted (map f xs)" "List.find P xs = Some x" "y \<in> set xs" "P y"
  shows "f x \<le> f y"
proof -
  obtain us vs where "xs = us @ x # vs" "\<forall>u\<in>set us. \<not> P u"
    using find_first [OF assms(2)] by blast
  with assms(1,3,4) show ?thesis by (auto simp: sorted_append)
qed

lemma find_filter: "List.find P xs = Some x \<Longrightarrow> Q x \<Longrightarrow> List.find P (filter Q xs) = Some x"
  by (induction xs) (auto split: if_splits)

text \<open>The loaded policies, as \<open>load_policies\<close> leaves them.\<close>

definition loaded_from :: "raw_policy list \<Rightarrow> policy rule_module \<Rightarrow> bool" where
  "loaded_from raw m \<longleftrightarrow> has_configured m = (raw \<noteq> []) \<and>
     (\<exists>ps. collect compile_policy raw = Inr ps \<and> compiled_rules m = sort_key p_priority ps)"

lemma load_policies_loaded:
  "load_policies (Some raw) m0 = (Inr (), m) \<Longrightarrow> loaded_from raw m"
  by (auto simp: load_policies_def load_rules_def loaded_from_def or_default_def Let_def
      compile_policies_def res_simps split: sum.splits)

lemma loaded_policy:
  "loaded_from raw m \<Longrightarrow> p \<in> set (compiled_rules m) \<longleftrightarrow> (\<exists>r\<in>set raw. compile_policy r = Inr (Some p))"
  by (auto simp: loaded_from_def collect_in)

section \<open>Properties\<close>

text \<open>C4: First match wins: with policies configured, the decision is the action of a policy of the
  bundle whose expression holds, none of the policies that hold has a smaller priority, and among
  those of the same priority it is the first one in the bundle; when no policy holds, the
  request is denied.  A policy whose expression raises never decides.\<close>

theorem first_match_wins:
  assumes "load_policies (Some raw) m0 = (Inr (), m)" and "raw \<noteq> []"
  shows "(\<exists>ps p. collect compile_policy raw = Inr ps \<and> p \<in> set ps \<and> holds E c p \<and>
            (\<forall>q\<in>set ps. holds E c q \<longrightarrow> p_priority p \<le> p_priority q) \<and>
            List.find (holds E c) (filter (\<lambda>q. p_priority q = p_priority p) ps) = Some p \<and>
            evaluate_policy E m c = policy_decision p) \<or>
         (\<exists>ps. collect compile_policy raw = Inr ps \<and> (\<forall>q\<in>set ps. \<not> holds E c q) \<and>
            evaluate_policy E m c = default_result ''deny'' ''<default: no match>'')"
proof -
  obtain ps where ps: "collect compile_policy raw = Inr ps" "compiled_rules m = sort_key p_priority ps"
      "has_configured m"
    using load_policies_loaded [OF assms(1)] assms(2) by (auto simp: loaded_from_def)
  have ev: "evaluate_policy E m c = (case List.find (holds E c) (sort_key p_priority ps) of
      None \<Rightarrow> default_result ''deny'' ''<default: no match>'' | Some p \<Rightarrow> policy_decision p)"
    using ps by (simp add: evaluate_policy_def first_match_find)
  show ?thesis
  proof (cases "List.find (holds E c) (sort_key p_priority ps)")
    case None
    then have "\<forall>q\<in>set ps. \<not> holds E c q" by (simp add: find_None_all)
    with ps(1) ev None show ?thesis by auto
  next
    case (Some p)
    have "\<forall>q\<in>set ps. holds E c q \<longrightarrow> p_priority p \<le> p_priority q"
      using find_sorted_least [OF sorted_sort_key Some] by simp
    moreover have "List.find (holds E c) (filter (\<lambda>q. p_priority q = p_priority p) ps) = Some p"
      using find_filter [OF Some, of "\<lambda>q. p_priority q = p_priority p"] by (simp add: sort_key_stable)
    moreover have "p \<in> set ps" "holds E c p" using find_SomeD [OF Some] by auto
    ultimately show ?thesis using ps(1) ev Some by auto
  qed
qed

definition demo_raw_policy :: "string \<Rightarrow> ast \<Rightarrow> int \<Rightarrow> string \<Rightarrow> raw_policy" where
  "demo_raw_policy n a i action = \<lparr>rp_enabled = None, rp_name = Some n, rp_expression = None,
     rp_expression_ast = Some a, rp_priority = Some i, rp_action = Some action,
     rp_log = None, rp_no_log = None\<rparr>"

definition demo_policy :: "string \<Rightarrow> ast \<Rightarrow> int \<Rightarrow> string \<Rightarrow> policy" where
  "demo_policy n a i action = \<lparr>p_name = n, p_priority = i, p_ast = a, p_action = action,
     p_log = True, p_no_log = False\<rparr>"

definition demo_raw_policies :: "raw_policy list" where
  "demo_raw_policies =
     [demo_raw_policy ''all'' (Leaf (Literal True) False) 9 ''deny'',
      demo_raw_policy ''tool'' (Leaf (Compare ''mcp.tool'' ''='' (LStr ''t'')) False) 1 ''allow'']"

definition demo_policies :: "policy rule_module" where
  "demo_policies = \<lparr>compiled_rules =
     [demo_policy ''tool'' (Leaf (Compare ''mcp.tool'' ''='' (LStr ''t'')) False) 1 ''allow'',
      demo_policy ''all'' (Leaf (Literal True) False) 9 ''deny''], has_configured = True\<rparr>"

definition demo_auth :: auth_context where
  "demo_auth = \<lparr>identity_id = 1, team_id = 1, ac_name = ''a'', ac_subject = ''a'', ac_kind = ''pat'',
     ac_claims = []\<rparr>"

lemma demo_policies_loaded: "load_policies (Some demo_raw_policies)
    \<lparr>compiled_rules = [], has_configured = False\<rparr> = (Inr (), demo_policies)"
  by (simp add: load_policies_def load_rules_def or_default_def compile_policies_def demo_raw_policies_def
      demo_raw_policy_def compile_policy_def policy_ast_def demo_policies_def demo_policy_def)

definition demo_query_ctx :: ctx where
  "demo_query_ctx = build_mcp_context literal_engine (no_query\<lparr>q_tool := ''t''\<rparr>) demo_auth None"

lemma demo_allowed: "pr_action (evaluate_policy literal_engine demo_policies demo_query_ctx) = ''allow''"
  by code_simp

theorem first_match_wins_witness:
  "\<exists>p. holds literal_engine demo_query_ctx p \<and>
     evaluate_policy literal_engine demo_policies demo_query_ctx = policy_decision p"
proof -
  have "demo_raw_policies \<noteq> []" by (simp add: demo_raw_policies_def)
  from first_match_wins [OF demo_policies_loaded this, of literal_engine demo_query_ctx]
  show ?thesis
  proof (elim disjE exE conjE)
    fix ps p
    assume "holds literal_engine demo_query_ctx p"
      "evaluate_policy literal_engine demo_policies demo_query_ctx = policy_decision p"
    then show ?thesis by (intro exI conjI)
  next
    assume "evaluate_policy literal_engine demo_policies demo_query_ctx =
        default_result ''deny'' ''<default: no match>''"
    with demo_allowed show ?thesis by (simp add: default_result_def)
  qed
qed

text \<open>C5: The engine fails closed: once the bundle has a policy, a request is let through only by an
  enabled policy of the bundle, with a valid expression that holds, whose own action is not
  \<open>deny\<close>; only a bundle without any policy leaves the gateway open.\<close>

theorem policy_fails_closed:
  assumes "load_policies (Some raw) m0 = (Inr (), m)" and "\<not> denied (evaluate_policy E m c)"
  shows "raw = [] \<or> (\<exists>r\<in>set raw. \<exists>p. or_default (rp_enabled r) True \<and>
     compile_policy r = Inr (Some p) \<and> holds E c p \<and> p_action p \<noteq> ''deny'')"
proof (cases "raw = []")
  case False
  note loaded = load_policies_loaded [OF assms(1)]
  then have conf: "has_configured m" using False by (simp add: loaded_from_def)
  obtain p where p: "List.find (holds E c) (compiled_rules m) = Some p" "p_action p \<noteq> ''deny''"
    using assms(2) conf
    by (auto simp: evaluate_policy_def first_match_find denied_def default_result_def
        policy_decision_def split: option.splits)
  then have "p \<in> set (compiled_rules m)" "holds E c p" using find_SomeD by fastforce+
  moreover from this(1) obtain r where "r \<in> set raw" "compile_policy r = Inr (Some p)"
    using loaded_policy [OF loaded] by blast
  moreover from this(2) have "or_default (rp_enabled r) True"
    by (auto simp: compile_policy_def split: if_splits)
  ultimately show ?thesis using p(2) by blast
qed simp

theorem policy_fails_closed_witness:
  "\<exists>r\<in>set demo_raw_policies. \<exists>p. compile_policy r = Inr (Some p) \<and> holds literal_engine demo_query_ctx p"
proof -
  have "\<not> denied (evaluate_policy literal_engine demo_policies demo_query_ctx)"
    using demo_allowed by (simp add: denied_def)
  from policy_fails_closed [OF demo_policies_loaded this] show ?thesis
    by (auto simp: demo_raw_policies_def)
qed

text \<open>Listing and calling agree: when every policy action is one of the four documented ones, a
  tool stays in the filtered list exactly when calling it without arguments is not denied.\<close>

theorem tool_list_matches_calls:
  assumes "\<forall>p\<in>set (compiled_rules m). p_action p \<in> {''allow'', ''deny'', ''skip_dlp'', ''skip_ratelimit''}"
  shows "filter_tool_list E m tools ns a ip =
     filter (\<lambda>t. \<not> denied (check_tool_access E m ''tools/call'' (item_text t ''name'') ns a None ip)) tools"
proof -
  have "visible (evaluate_policy E m c) \<longleftrightarrow> \<not> denied (evaluate_policy E m c)" for c
  proof (cases "has_configured m")
    case True
    then show ?thesis using assms
      by (auto simp: evaluate_policy_def first_match_find visible_def denied_def allowed_def
          default_result_def policy_decision_def split: option.split dest!: find_SomeD)
  qed (simp add: evaluate_policy_def visible_def denied_def allowed_def default_result_def)
  then show ?thesis
    by (simp add: filter_tool_list_def check_access_def check_tool_access_def no_query_def)
qed

theorem tool_list_matches_calls_witness:
  "filter_tool_list literal_engine demo_policies [[(''name'', JStr ''t'')], [(''name'', JStr ''u'')]] ''ns'' demo_auth [] =
     [[(''name'', JStr ''t'')]]"
proof -
  let ?tools = "[[(''name'', JStr ''t'')], [(''name'', JStr ''u'')]]"
  have "filter_tool_list literal_engine demo_policies ?tools ''ns'' demo_auth [] =
      filter (\<lambda>t. \<not> denied (check_tool_access literal_engine demo_policies ''tools/call''
        (item_text t ''name'') ''ns'' demo_auth None [])) ?tools"
    by (rule tool_list_matches_calls) (simp add: demo_policies_def demo_policy_def)
  also have "\<dots> = [[(''name'', JStr ''t'')]]" by code_simp
  finally show ?thesis .
qed

text \<open>A list reference never matches in the gateway: no handler passes a list resolver, so
  \<open>field in $type:name\<close> is false and \<open>field not in $type:name\<close> true whatever the lists hold.\<close>

theorem list_reference_never_matches:
  "evaluate E (build_mcp_context E q a None) (Leaf (InList f ltype lname) negated) = Inr negated"
  by (simp add: Let_def)

end
