(* ===== verification/ScanWalk.thy ===== *)
theory ScanWalk imports JsonText begin

text \<open>
  What the DLP engine and the guardrails share: the direction filter, the recursive walk over
  the strings of a JSON value (\<open>_scan_json_strings\<close> of both modules) and the whole-text scan
  (\<open>_scan_all_text\<close>).  A scanner of one text maps the text and a state (the world its
  tokenizer writes to) to the new text, its hits and the state.  The walk threads that state
  and the two variables it closes over, \<open>any_block\<close> and \<open>all_hits\<close>.

  The locale \<open>text_scanner\<close> states what a text scanner promises: a scan that blocks or hits
  nothing leaves the text as it was.  The lemmas in it hold for both engines, which interpret
  it on their own \<open>_scan_text\<close>.
\<close>

definition matches_direction :: "string \<Rightarrow> string \<Rightarrow> bool" where
  "matches_direction rule_direction scan_direction \<longleftrightarrow>
     rule_direction = ''both'' \<or> rule_direction = scan_direction"

type_synonym ('h, 'w) scanner = "string \<Rightarrow> 'w \<Rightarrow> string \<times> 'h list \<times> 'w"

record ('h, 'w) walk_state =
  any_block :: bool
  all_hits :: "'h list"
  outer :: 'w

fun walk :: "('h, 'w) scanner \<Rightarrow> ('h \<Rightarrow> bool) \<Rightarrow> json \<Rightarrow> ('h, 'w) walk_state \<Rightarrow>
    json \<times> ('h, 'w) walk_state"
  and walk_list :: "('h, 'w) scanner \<Rightarrow> ('h \<Rightarrow> bool) \<Rightarrow> json list \<Rightarrow> ('h, 'w) walk_state \<Rightarrow>
    json list \<times> ('h, 'w) walk_state"
  and walk_dict :: "('h, 'w) scanner \<Rightarrow> ('h \<Rightarrow> bool) \<Rightarrow> (string \<times> json) list \<Rightarrow>
    ('h, 'w) walk_state \<Rightarrow> (string \<times> json) list \<times> ('h, 'w) walk_state" where
  "walk sc blk (JStr s) st =
     (if any_block st then (JStr s, st)
      else (case sc s (outer st) of (t, hits, w) \<Rightarrow>
        (JStr t, \<lparr>any_block = list_ex blk hits, all_hits = all_hits st @ hits, outer = w\<rparr>)))"
| "walk sc blk (JList xs) st =
     (if any_block st then (JList xs, st)
      else (case walk_list sc blk xs st of (ys, st1) \<Rightarrow> (JList ys, st1)))"
| "walk sc blk (JObj d) st =
     (if any_block st then (JObj d, st)
      else (case walk_dict sc blk d st of (e, st1) \<Rightarrow> (JObj e, st1)))"
| "walk sc blk v st = (v, st)"
| "walk_list sc blk [] st = ([], st)"
| "walk_list sc blk (x # xs) st =
     (case walk sc blk x st of (y, st1) \<Rightarrow>
        (case walk_list sc blk xs st1 of (ys, st2) \<Rightarrow> (y # ys, st2)))"
| "walk_dict sc blk [] st = ([], st)"
| "walk_dict sc blk ((k, x) # d) st =
     (case walk sc blk x st of (y, st1) \<Rightarrow>
        (case walk_dict sc blk d st1 of (e, st2) \<Rightarrow> ((k, y) # e, st2)))"

definition scan_strings :: "('h, 'w) scanner \<Rightarrow> ('h \<Rightarrow> bool) \<Rightarrow> json \<Rightarrow> 'w \<Rightarrow> json \<times> 'h list \<times> 'w" where
  "scan_strings sc blk obj w =
     (case walk sc blk obj \<lparr>any_block = False, all_hits = [], outer = w\<rparr> of
        (modified, st) \<Rightarrow> (if any_block st then obj else modified, all_hits st, outer st))"

definition scan_whole :: "engine \<Rightarrow> ('h, 'w) scanner \<Rightarrow> ('h \<Rightarrow> bool) \<Rightarrow> json \<Rightarrow> 'w \<Rightarrow> json \<times> 'h list \<times> 'w" where
  "scan_whole E sc blk data w =
     (let text = json_dumps E data
      in case sc text w of (modified, hits, w1) \<Rightarrow>
           if list_ex blk hits then (data, hits, w1)
           else if modified = text then (data, hits, w1)
           else (case json_loads E modified of
               Some v \<Rightarrow> (v, hits, w1)
             | None \<Rightarrow> (data, hits, w1)))"

section \<open>Same shape\<close>

text \<open>\<open>same_shape v w\<close>: \<open>w\<close> differs from \<open>v\<close> in the text of strings only.\<close>

fun same_shape :: "json \<Rightarrow> json \<Rightarrow> bool" where
  "same_shape (JStr s) w = (\<exists>t. w = JStr t)"
| "same_shape (JList xs) w = (\<exists>ys. w = JList ys \<and> list_all2 same_shape xs ys)"
| "same_shape (JObj d) w =
     (\<exists>e. w = JObj e \<and> list_all2 (\<lambda>(k, x) (l, y). k = l \<and> same_shape x y) d e)"
| "same_shape v w = (w = v)"

text \<open>The strings a walk visits, in order; the keys of an object are not among them.\<close>

fun texts :: "json \<Rightarrow> string list" where
  "texts (JStr s) = [s]"
| "texts (JList xs) = concat (map texts xs)"
| "texts (JObj d) = concat (map (\<lambda>(k, v). texts v) d)"
| "texts v = []"

lemma same_shape_refl [simp]: "same_shape v v"
  by (induction v) (auto simp: list_all2_same)

text \<open>After a block the walk only copies.\<close>

lemma walk_blocked:
  "any_block st \<longrightarrow> walk sc blk v st = (v, st)"
  "any_block st \<longrightarrow> walk_list sc blk vs st = (vs, st)"
  "any_block st \<longrightarrow> walk_dict sc blk d st = (d, st)"
  by (induction v and vs and d rule: json_induct_all) auto

text \<open>The walk keeps the shape of the value.\<close>

lemma walk_shape:
  "same_shape v (fst (walk sc blk v st))"
  "list_all2 same_shape vs (fst (walk_list sc blk vs st))"
  "list_all2 (\<lambda>(k, x) (l, y). k = l \<and> same_shape x y) d (fst (walk_dict sc blk d st))"
  by (induction v and vs and d arbitrary: st and st and st rule: json_induct_all)
    (simp_all add: case_prod_unfold list_all2_same)

lemma scan_strings_shape: "same_shape obj (fst (scan_strings sc blk obj w))"
  by (simp add: scan_strings_def case_prod_unfold walk_shape)

lemma list_ex_concat_map: "list_ex P (concat (map f xs)) = list_ex (\<lambda>x. list_ex P (f x)) xs"
  by (induction xs) auto

section \<open>The contract of a text scanner\<close>

text \<open>
  \<open>det s\<close> tells whether scanning the text \<open>s\<close> finds something to block; this must not depend on
  the state the scanner threads.
\<close>

locale text_scanner =
  fixes sc :: "('h, 'w) scanner" and blk :: "'h \<Rightarrow> bool" and det :: "string \<Rightarrow> bool"
  assumes detects: "list_ex blk (fst (snd (sc s w))) = det s"
    and clean_keeps: "fst (snd (sc s w)) = [] \<Longrightarrow> sc s w = (s, [], w)"
begin

lemma walk_detects:
  "any_block (snd (walk sc blk v st)) \<longleftrightarrow> any_block st \<or> list_ex det (texts v)"
  "any_block (snd (walk_list sc blk vs st)) \<longleftrightarrow>
     any_block st \<or> list_ex (\<lambda>v. list_ex det (texts v)) vs"
  "any_block (snd (walk_dict sc blk d st)) \<longleftrightarrow>
     any_block st \<or> list_ex (\<lambda>kv. list_ex det (texts (snd kv))) d"
  by (induction v and vs and d arbitrary: st and st and st rule: json_induct_all)
    (simp_all add: case_prod_unfold detects list_ex_concat_map)

text \<open>The flag is set exactly when a blocking hit was collected.\<close>

lemma walk_flag:
  "any_block st = list_ex blk (all_hits st) \<Longrightarrow>
     any_block (snd (walk sc blk v st)) = list_ex blk (all_hits (snd (walk sc blk v st)))"
  "any_block st = list_ex blk (all_hits st) \<Longrightarrow>
     any_block (snd (walk_list sc blk vs st)) = list_ex blk (all_hits (snd (walk_list sc blk vs st)))"
  "any_block st = list_ex blk (all_hits st) \<Longrightarrow>
     any_block (snd (walk_dict sc blk d st)) = list_ex blk (all_hits (snd (walk_dict sc blk d st)))"
  by (induction v and vs and d arbitrary: st and st and st rule: json_induct_all)
    (auto simp: case_prod_unfold)

text \<open>Blocked exactly when some visited text is detected, and then the value is the original.\<close>

lemma scan_strings_blocks:
  "list_ex blk (fst (snd (scan_strings sc blk obj w))) = list_ex det (texts obj)"
  by (simp add: scan_strings_def case_prod_unfold walk_flag(1) [symmetric] walk_detects(1))

lemma scan_strings_blocked:
  "list_ex det (texts obj) \<Longrightarrow> fst (scan_strings sc blk obj w) = obj"
  by (simp add: scan_strings_def case_prod_unfold walk_detects(1))

text \<open>A walk that collects no hit changes nothing, not even the state it threads.\<close>

lemma walk_clean:
  "all_hits (snd (walk sc blk v st)) = [] \<Longrightarrow>
     fst (walk sc blk v st) = v \<and> outer (snd (walk sc blk v st)) = outer st \<and> all_hits st = []"
  "all_hits (snd (walk_list sc blk vs st)) = [] \<Longrightarrow>
     fst (walk_list sc blk vs st) = vs \<and> outer (snd (walk_list sc blk vs st)) = outer st \<and> all_hits st = []"
  "all_hits (snd (walk_dict sc blk d st)) = [] \<Longrightarrow>
     fst (walk_dict sc blk d st) = d \<and> outer (snd (walk_dict sc blk d st)) = outer st \<and> all_hits st = []"
proof (induction v and vs and d arbitrary: st and st and st rule: json_induct_all)
  case (5 s)
  then show ?case using clean_keeps [of s "outer st"] by (auto simp: case_prod_unfold split: if_splits)
next
  case (9 x xs)
  let ?st = "snd (walk sc blk x st)"
  have "all_hits (snd (walk_list sc blk xs ?st)) = []"
    using "9.prems" by (simp add: case_prod_unfold)
  from "9.IH"(2) [OF this] have tl: "fst (walk_list sc blk xs ?st) = xs"
      "outer (snd (walk_list sc blk xs ?st)) = outer ?st" "all_hits ?st = []" by auto
  from "9.IH"(1) [OF tl(3)] tl show ?case by (simp add: case_prod_unfold)
next
  case (11 k x d)
  let ?st = "snd (walk sc blk x st)"
  have "all_hits (snd (walk_dict sc blk d ?st)) = []"
    using "11.prems" by (simp add: case_prod_unfold)
  from "11.IH"(2) [OF this] have tl: "fst (walk_dict sc blk d ?st) = d"
      "outer (snd (walk_dict sc blk d ?st)) = outer ?st" "all_hits ?st = []" by auto
  from "11.IH"(1) [OF tl(3)] tl show ?case by (simp add: case_prod_unfold)
next
  case (6 xs)
  from "6.prems" "6.IH" [of st] show ?case
    by (cases "any_block st") (simp_all add: case_prod_unfold)
next
  case (7 d)
  from "7.prems" "7.IH" [of st] show ?case
    by (cases "any_block st") (simp_all add: case_prod_unfold)
qed simp_all

lemma scan_strings_clean:
  "fst (snd (scan_strings sc blk obj w)) = [] \<Longrightarrow> scan_strings sc blk obj w = (obj, [], w)"
  using walk_clean(1) [of obj "\<lparr>any_block = False, all_hits = [], outer = w\<rparr>"]
  by (auto simp: scan_strings_def case_prod_unfold)

lemma scan_whole_blocks:
  "list_ex blk (fst (snd (scan_whole E sc blk data w))) = det (json_dumps E data)"
  using detects [of "json_dumps E data" w]
  by (simp add: scan_whole_def case_prod_unfold Let_def split: option.split)

lemma scan_whole_blocked:
  "det (json_dumps E data) \<Longrightarrow> fst (scan_whole E sc blk data w) = data"
  using detects [of "json_dumps E data" w] by (simp add: scan_whole_def case_prod_unfold Let_def)

lemma scan_whole_clean:
  "fst (snd (scan_whole E sc blk data w)) = [] \<Longrightarrow> scan_whole E sc blk data w = (data, [], w)"
  using clean_keeps [of "json_dumps E data" w]
  by (auto simp: scan_whole_def case_prod_unfold Let_def split: if_splits option.splits)

end

end
