(* ===== verification/Dlp.thy ===== *)
theory Dlp imports ScanWalk begin

text \<open>
  The DLP engine (\<open>shared/dlp_core.py\<close>) and its gateway module (\<open>mcp-gateway/dlp.py\<close>).

  A rule of the config bundle is \<open>dlp_raw\<close>, an absent key being \<open>None\<close>; a compiled rule is
  \<open>dlp_rule\<close>, its regex the pattern, always compiled with \<open>IGNORECASE\<close>.  \<open>MAX_SCAN_LENGTH\<close>
  comes from the environment and is an argument.  The tokenizer callback is an optional
  function that threads the world it writes to.

  The lemmas: compilation keeps the enabled rules with a known, valid, unsuspicious pattern, in
  stable priority order; a scan blocks exactly when a blocking rule matches within the
  scanned prefix, blocked data is returned untouched, and a scan without hits is the identity.
\<close>

text \<open>Patterns are written with a backquote for each backslash.\<close>

definition regex :: "string \<Rightarrow> string" where
  "regex s = map (\<lambda>c. if c = CHR ''`'' then backslash else c) s"

definition DETECTORS :: "string dict" where
  "DETECTORS = [
     (''email'', regex ''`b[A-Za-z0-9._%+-]+@[A-Za-z0-9.-]+`.[A-Z|a-z]{2,}`b''),
     (''phone'', regex ''`b(?:`+?1[-.`s]?)?`(?`d{3}`)?[-.`s]?`d{3}[-.`s]?`d{4}`b''),
     (''ssn'', regex ''`b`d{3}-`d{2}-`d{4}`b''),
     (''credit_card'', regex ''`b(?:`d[ -]*?){13,19}`b''),
     (''ip'', regex ''`b(?:(?:25[0-5]|2[0-4][0-9]|[01]?[0-9][0-9]?)`.){3}(?:25[0-5]|2[0-4][0-9]|[01]?[0-9][0-9]?)`b''),
     (''aws_key'', regex ''`bAKIA[0-9A-Z]{16}`b''),
     (''private_key'', regex ''-----BEGIN (?:RSA |EC |OPENSSH |DSA |PGP )?PRIVATE KEY-----''),
     (''github_token'', regex ''`bgh[pousr]_[A-Za-z0-9]{36}`b''),
     (''slack_token'', regex ''`bxox[baprs]-[A-Za-z0-9-]+`b'')]"

definition get_detector_pattern :: "string \<Rightarrow> string option \<Rightarrow> string option" where
  "get_detector_pattern detector find_regex =
     (if detector = ''custom'' then find_regex else map_of DETECTORS detector)"

section \<open>Compiling rules\<close>

text \<open>
  The two suspicious shapes, searched within a line: an opening parenthesis, later a quantifier,
  later a closing parenthesis directly followed by a quantifier; and an opening parenthesis,
  later a bar, later a closing parenthesis.
\<close>

definition quantifier :: "char \<Rightarrow> bool" where
  "quantifier c \<longleftrightarrow> c = CHR ''+'' \<or> c = CHR ''*''"

fun closed_quantified :: "string \<Rightarrow> bool" where
  "closed_quantified (c # d # r) = (c = CHR '')'' \<and> quantifier d \<or> closed_quantified (d # r))"
| "closed_quantified _ = False"

definition behind :: "(char \<Rightarrow> bool) \<Rightarrow> string \<Rightarrow> string" where
  "behind P s = tl (dropWhile (\<lambda>c. \<not> P c) s)"

definition nested_quantifier :: "string \<Rightarrow> bool" where
  "nested_quantifier line = closed_quantified (behind quantifier (behind (\<lambda>c. c = CHR ''('') line))"

definition grouped_alternation :: "string \<Rightarrow> bool" where
  "grouped_alternation line =
     (CHR '')'' \<in> set (behind (\<lambda>c. c = CHR ''|'') (behind (\<lambda>c. c = CHR ''('') line)))"

definition dlp_redos :: "string \<Rightarrow> bool" where
  "dlp_redos p \<longleftrightarrow> list_ex (\<lambda>line. nested_quantifier line \<or> grouped_alternation line)
     (split_char newline p)"

record dlp_raw =
  dr_enabled :: "bool option"
  dr_name :: "string option"
  dr_detector :: "string option"
  dr_find_regex :: "string option"
  dr_priority :: "int option"
  dr_direction :: "string option"
  dr_action :: "string option"
  dr_token_prefix :: "string option"
  dr_token_ttl :: "int option"
  dr_apply_to :: "string option"

record dlp_rule =
  d_name :: string
  d_priority :: int
  d_direction :: string
  d_detector :: string
  d_regex :: string
  d_action :: string
  d_token_prefix :: string
  d_token_ttl :: int
  d_apply_to :: string

text \<open>One turn of the loop: no rule where the code continues with the next one.\<close>

definition compile_dlp_rule :: "engine \<Rightarrow> bool \<Rightarrow> dlp_raw \<Rightarrow> dlp_rule option res" where
  "compile_dlp_rule E redos_check r =
     (if \<not> or_default (dr_enabled r) True then Inr None
      else let detector = or_default (dr_detector r) ''custom''
      in case get_detector_pattern detector (dr_find_regex r) of
           None \<Rightarrow> Inr None
         | Some pattern \<Rightarrow>
             if \<not> re_compiles E pattern then Inr None
             else if redos_check \<and> dlp_redos pattern then Inr None
             else (case dr_name r of
                 None \<Rightarrow> Inl KeyError
               | Some name \<Rightarrow> Inr (Some
                   \<lparr>d_name = name,
                    d_priority = or_default (dr_priority r) 0,
                    d_direction = or_default (dr_direction r) ''both'',
                    d_detector = detector,
                    d_regex = pattern,
                    d_action = or_default (dr_action r) ''block'',
                    d_token_prefix = or_default (dr_token_prefix r) ''tok_'',
                    d_token_ttl = or_default (dr_token_ttl r) 3600,
                    d_apply_to = or_default (dr_apply_to r) ''json_strings''\<rparr>)))"

definition compile_dlp_rules :: "engine \<Rightarrow> bool \<Rightarrow> dlp_raw list \<Rightarrow> dlp_rule list res" where
  "compile_dlp_rules E redos_check raw =
     bind_res (collect (compile_dlp_rule E redos_check) raw) (\<lambda>rs. Inr (sort_key d_priority rs))"

section \<open>Scanning\<close>

record dlp_hit =
  dh_rule :: string
  dh_detector :: string
  dh_action :: string
  dh_count :: nat

type_synonym 'w tokenizer = "string \<Rightarrow> string \<Rightarrow> int \<Rightarrow> 'w \<Rightarrow> string \<times> 'w"

definition dlp_blocking :: "dlp_hit \<Rightarrow> bool" where
  "dlp_blocking h \<longleftrightarrow> dh_action h = ''block''"

definition redacted :: string where "redacted = ''[REDACTED]''"

text \<open>The loop over the rules, with the modified text, the hits and \<open>any_block\<close>.\<close>

fun dlp_scan_loop ::
  "engine \<Rightarrow> string \<Rightarrow> string \<Rightarrow> 'w tokenizer option \<Rightarrow> dlp_rule list \<Rightarrow> string \<Rightarrow> 'w \<Rightarrow>
     string \<times> dlp_hit list \<times> bool \<times> 'w" where
  "dlp_scan_loop E scan_text dir tok [] modified w = (modified, [], False, w)"
| "dlp_scan_loop E scan_text dir tok (r # rs) modified w =
     (if \<not> matches_direction (d_direction r) dir then dlp_scan_loop E scan_text dir tok rs modified w
      else let count = findall_count E IGNORECASE (d_regex r) scan_text;
               hit = \<lparr>dh_rule = d_name r, dh_detector = d_detector r, dh_action = d_action r, dh_count = count\<rparr>
      in if count = 0 then dlp_scan_loop E scan_text dir tok rs modified w
         else if d_action r = ''block'' then (modified, [hit], True, w)
         else if d_action r = ''redact'' then
           (case dlp_scan_loop E scan_text dir tok rs
                   (re_sub E IGNORECASE (d_regex r) redacted modified) w of
              (m, hs, b, w1) \<Rightarrow> (m, hit # hs, b, w1))
         else if d_action r = ''tokenize'' then
           (let (m0, w0) = (case tok of
                   Some fn \<Rightarrow> re_sub_fn E IGNORECASE (d_regex r)
                       (\<lambda>m. fn m (d_token_prefix r) (d_token_ttl r)) modified w
                 | None \<Rightarrow> (re_sub E IGNORECASE (d_regex r) redacted modified, w))
            in case dlp_scan_loop E scan_text dir tok rs m0 w0 of
                 (m, hs, b, w1) \<Rightarrow> (m, hit # hs, b, w1))
         else dlp_scan_loop E scan_text dir tok rs modified w)"

definition dlp_scan_text ::
  "engine \<Rightarrow> nat \<Rightarrow> dlp_rule list \<Rightarrow> string \<Rightarrow> 'w tokenizer option \<Rightarrow> (dlp_hit, 'w) scanner" where
  "dlp_scan_text E maxlen rules dir tok text w =
     (case dlp_scan_loop E (take maxlen text) dir tok rules text w of
        (modified, hits, any, w1) \<Rightarrow> (if any then text else modified, hits, w1))"

definition dlp_scan_json_strings ::
  "engine \<Rightarrow> nat \<Rightarrow> json \<Rightarrow> dlp_rule list \<Rightarrow> string \<Rightarrow> 'w tokenizer option \<Rightarrow> 'w \<Rightarrow>
     json \<times> dlp_hit list \<times> 'w" where
  "dlp_scan_json_strings E maxlen obj rules dir tok =
     scan_strings (dlp_scan_text E maxlen rules dir tok) dlp_blocking obj"

definition dlp_scan_all_text ::
  "engine \<Rightarrow> nat \<Rightarrow> json \<Rightarrow> dlp_rule list \<Rightarrow> string \<Rightarrow> 'w tokenizer option \<Rightarrow> 'w \<Rightarrow>
     json \<times> dlp_hit list \<times> 'w" where
  "dlp_scan_all_text E maxlen data rules dir tok =
     scan_whole E (dlp_scan_text E maxlen rules dir tok) dlp_blocking data"

record dlp_result =
  dres_blocked :: bool
  dres_modified :: bool
  dres_hits :: "dlp_hit list"
  dres_data :: json

definition dlp_untouched :: "json \<Rightarrow> dlp_result" where
  "dlp_untouched data = \<lparr>dres_blocked = False, dres_modified = False, dres_hits = [], dres_data = data\<rparr>"

text \<open>\<open>scan_request\<close> and \<open>scan_response\<close> differ in the direction only.\<close>

definition dlp_scan ::
  "engine \<Rightarrow> nat \<Rightarrow> string \<Rightarrow> json \<Rightarrow> dlp_rule list \<Rightarrow> 'w tokenizer option \<Rightarrow> 'w \<Rightarrow> dlp_result \<times> 'w" where
  "dlp_scan E maxlen dir data rules tok w =
     (if rules = [] then (dlp_untouched data, w)
      else let applicable = filter (\<lambda>r. matches_direction (d_direction r) dir) rules
      in if applicable = [] then (dlp_untouched data, w)
         else let apply_to = (if list_ex (\<lambda>r. d_apply_to r = ''all_text'') applicable then ''all_text''
                              else d_apply_to (hd applicable))
         in case (if apply_to = ''all_text''
                  then dlp_scan_all_text E maxlen data applicable dir tok w
                  else dlp_scan_json_strings E maxlen data applicable dir tok w) of
              (modified, hits, w1) \<Rightarrow>
                (\<lparr>dres_blocked = list_ex dlp_blocking hits,
                  dres_modified = (\<not> py_eq modified data),
                  dres_hits = hits, dres_data = modified\<rparr>, w1))"

definition dlp_scan_request ::
  "engine \<Rightarrow> nat \<Rightarrow> json \<Rightarrow> dlp_rule list \<Rightarrow> 'w tokenizer option \<Rightarrow> 'w \<Rightarrow> dlp_result \<times> 'w" where
  "dlp_scan_request E maxlen params rules tok w = dlp_scan E maxlen ''request'' params rules tok w"

definition dlp_scan_response ::
  "engine \<Rightarrow> nat \<Rightarrow> json \<Rightarrow> dlp_rule list \<Rightarrow> 'w tokenizer option \<Rightarrow> 'w \<Rightarrow> dlp_result \<times> 'w" where
  "dlp_scan_response E maxlen body rules tok w = dlp_scan E maxlen ''response'' body rules tok w"

section \<open>What compilation yields\<close>

definition usable_pattern :: "engine \<Rightarrow> bool \<Rightarrow> dlp_raw \<Rightarrow> string \<Rightarrow> bool" where
  "usable_pattern E redos_check r p \<longleftrightarrow>
     or_default (dr_enabled r) True \<and>
     get_detector_pattern (or_default (dr_detector r) ''custom'') (dr_find_regex r) = Some p \<and>
     re_compiles E p \<and> \<not> (redos_check \<and> dlp_redos p)"

lemma compile_dlp_rule_Some:
  "compile_dlp_rule E chk r = Inr (Some d) \<longleftrightarrow>
     (\<exists>p name. usable_pattern E chk r p \<and> dr_name r = Some name \<and>
        d = \<lparr>d_name = name, d_priority = or_default (dr_priority r) 0,
             d_direction = or_default (dr_direction r) ''both'',
             d_detector = or_default (dr_detector r) ''custom'', d_regex = p,
             d_action = or_default (dr_action r) ''block'',
             d_token_prefix = or_default (dr_token_prefix r) ''tok_'',
             d_token_ttl = or_default (dr_token_ttl r) 3600,
             d_apply_to = or_default (dr_apply_to r) ''json_strings''\<rparr>)"
  by (auto simp: compile_dlp_rule_def usable_pattern_def Let_def split: option.splits)

lemma builtin_redos:
  "map fst (filter (\<lambda>(n, p). dlp_redos p) DETECTORS) = [''ip'', ''private_key'']"
  by code_simp

section \<open>The text scanner keeps its contract\<close>

definition dlp_matches :: "engine \<Rightarrow> nat \<Rightarrow> string \<Rightarrow> string \<Rightarrow> dlp_rule \<Rightarrow> bool" where
  "dlp_matches E maxlen dir text r \<longleftrightarrow> matches_direction (d_direction r) dir \<and>
     0 < findall_count E IGNORECASE (d_regex r) (take maxlen text)"

definition dlp_detects :: "engine \<Rightarrow> nat \<Rightarrow> dlp_rule list \<Rightarrow> string \<Rightarrow> string \<Rightarrow> bool" where
  "dlp_detects E maxlen rules dir text \<longleftrightarrow>
     list_ex (\<lambda>r. dlp_matches E maxlen dir text r \<and> d_action r = ''block'') rules"

lemma dlp_scan_loop_hits:
  "case dlp_scan_loop E (take maxlen s) dir tok rules m w of (m', hits, b, w') \<Rightarrow>
     list_ex dlp_blocking hits = b \<and> b = dlp_detects E maxlen rules dir s \<and>
     (hits = [] \<longrightarrow> m' = m \<and> w' = w)"
proof (induction rules arbitrary: m w)
  case Nil
  then show ?case by (simp add: dlp_detects_def)
next
  case (Cons r rs)
  show ?case
    using Cons.IH [of m w] Cons.IH [of "re_sub E IGNORECASE (d_regex r) redacted m" w]
      Cons.IH [of "fst (re_sub_fn E IGNORECASE (d_regex r)
        (\<lambda>x. the tok x (d_token_prefix r) (d_token_ttl r)) m w)"
        "snd (re_sub_fn E IGNORECASE (d_regex r)
        (\<lambda>x. the tok x (d_token_prefix r) (d_token_ttl r)) m w)"]
    by (auto simp: dlp_detects_def dlp_matches_def dlp_blocking_def case_prod_unfold Let_def
        split: option.splits)
qed

interpretation dlp: text_scanner "dlp_scan_text E maxlen rules dir tok" dlp_blocking
  "dlp_detects E maxlen rules dir" for E maxlen rules dir tok
proof
  fix s w
  note loop = dlp_scan_loop_hits [where E = E and maxlen = maxlen and s = s and dir = dir and tok = tok
    and rules = rules and m = s and w = w]
  show "list_ex dlp_blocking (fst (snd (dlp_scan_text E maxlen rules dir tok s w))) =
      dlp_detects E maxlen rules dir s"
    using loop by (simp add: dlp_scan_text_def case_prod_unfold)
  show "fst (snd (dlp_scan_text E maxlen rules dir tok s w)) = [] \<Longrightarrow>
      dlp_scan_text E maxlen rules dir tok s w = (s, [], w)"
    using loop by (auto simp: dlp_scan_text_def case_prod_unfold)
qed

section \<open>Properties\<close>

text \<open>What a scan looks at: the string values, or the whole serialised value.\<close>

definition dlp_scanned :: "engine \<Rightarrow> string \<Rightarrow> dlp_rule list \<Rightarrow> json \<Rightarrow> string list" where
  "dlp_scanned E dir rules data =
     (if list_ex (\<lambda>r. d_apply_to r = ''all_text'') (filter (\<lambda>r. matches_direction (d_direction r) dir) rules)
      then [json_dumps E data] else texts data)"

lemma list_ex_filter: "list_ex P (filter Q xs) = list_ex (\<lambda>x. Q x \<and> P x) xs"
  by (induction xs) auto

lemma dlp_detects_filter [simp]:
  "dlp_detects E maxlen (filter (\<lambda>r. matches_direction (d_direction r) dir) rules) dir =
   dlp_detects E maxlen rules dir"
  by (intro ext) (auto simp: dlp_detects_def dlp_matches_def list_ex_filter list_ex_iff)

lemma no_applicable_no_detection:
  "filter (\<lambda>r. matches_direction (d_direction r) dir) rules = [] \<Longrightarrow> \<not> dlp_detects E maxlen rules dir s"
  by (auto simp: dlp_detects_def dlp_matches_def list_ex_iff filter_empty_conv)

lemma apply_to_all_text:
  "(if list_ex (\<lambda>r. d_apply_to r = ''all_text'') rs then ''all_text'' else d_apply_to (hd rs)) = ''all_text''
     \<longleftrightarrow> list_ex (\<lambda>r. d_apply_to r = ''all_text'') rs" if "rs \<noteq> []"
  using that by (cases rs) auto

lemma dlp_scan_cases:
  "dlp_scan E maxlen dir data rules tok w =
     (let rs = filter (\<lambda>r. matches_direction (d_direction r) dir) rules;
          sc = dlp_scan_text E maxlen rs dir tok;
          (v, hits, w1) = (if list_ex (\<lambda>r. d_apply_to r = ''all_text'') rs
             then scan_whole E sc dlp_blocking data w else scan_strings sc dlp_blocking data w)
      in if rs = [] then (dlp_untouched data, w)
         else (\<lparr>dres_blocked = list_ex dlp_blocking hits, dres_modified = (\<not> py_eq v data),
                dres_hits = hits, dres_data = v\<rparr>, w1))"
  by (cases "rules = []")
    (auto simp: dlp_scan_def apply_to_all_text dlp_scan_all_text_def dlp_scan_json_strings_def Let_def
      simp del: not_None_eq)

text \<open>C7: The DLP engine blocks exactly when a rule that blocks in this direction matches within the
  scanned prefix of one of the texts it looks at, and blocked data is handed back as it came.\<close>

theorem dlp_scan_blocks_iff:
  "case dlp_scan E maxlen dir data rules tok w of (res, w') \<Rightarrow>
     (dres_blocked res \<longleftrightarrow> list_ex (dlp_detects E maxlen rules dir) (dlp_scanned E dir rules data)) \<and>
     (dres_blocked res \<longrightarrow> dres_data res = data)"
proof (cases "filter (\<lambda>r. matches_direction (d_direction r) dir) rules = []")
  case True
  then show ?thesis
    using no_applicable_no_detection [OF True]
    by (simp add: dlp_scan_cases Let_def dlp_untouched_def list_ex_iff case_prod_unfold)
next
  case False
  then show ?thesis
    by (simp add: dlp_scan_cases Let_def dlp_scanned_def case_prod_unfold dlp.scan_whole_blocks
        dlp.scan_strings_blocks dlp.scan_whole_blocked dlp.scan_strings_blocked)
qed

definition demo_dlp_rule :: "string \<Rightarrow> string \<Rightarrow> dlp_rule" where
  "demo_dlp_rule pattern action = \<lparr>d_name = ''r'', d_priority = 0, d_direction = ''both'',
     d_detector = ''custom'', d_regex = pattern, d_action = action, d_token_prefix = ''tok_'',
     d_token_ttl = 60, d_apply_to = ''json_strings''\<rparr>"

theorem dlp_scan_blocks_iff_witness:
  "dres_data (fst (dlp_scan literal_engine 100 ''request'' (JObj [(''a'', JStr ''my secret'')])
     [demo_dlp_rule ''secret'' ''block''] None ())) = JObj [(''a'', JStr ''my secret'')]"
proof -
  let ?r = "dlp_scan literal_engine 100 ''request'' (JObj [(''a'', JStr ''my secret'')])
     [demo_dlp_rule ''secret'' ''block''] None ()"
  have "dres_blocked (fst ?r)" by code_simp
  then show ?thesis
    using dlp_scan_blocks_iff [where E = literal_engine and maxlen = 100 and dir = "''request''" and data = "JObj [(''a'', JStr ''my secret'')]"
        and rules = "[demo_dlp_rule ''secret'' ''block'']" and tok = None and w = "()"]
    by (simp only: case_prod_unfold simp_thms)
qed

text \<open>A DLP scan without hits leaves the data and the world alone: nothing is rewritten and no
  token is stored.\<close>

theorem dlp_scan_clean:
  assumes "dres_hits (fst (dlp_scan E maxlen dir data rules tok w)) = []"
  shows "dres_data (fst (dlp_scan E maxlen dir data rules tok w)) = data \<and>
         snd (dlp_scan E maxlen dir data rules tok w) = w"
proof (cases "filter (\<lambda>r. matches_direction (d_direction r) dir) rules = []")
  case True
  then show ?thesis by (simp add: dlp_scan_cases Let_def dlp_untouched_def case_prod_unfold)
next
  case False
  with assms show ?thesis
    by (auto simp: dlp_scan_cases Let_def case_prod_unfold dlp.scan_whole_clean
        dlp.scan_strings_clean split: if_splits)
qed

theorem dlp_scan_clean_witness:
  "dres_data (fst (dlp_scan literal_engine 100 ''request'' (JObj [(''a'', JStr ''hello'')])
     [demo_dlp_rule ''secret'' ''redact''] None ())) = JObj [(''a'', JStr ''hello'')]"
proof -
  have "dres_hits (fst (dlp_scan literal_engine 100 ''request'' (JObj [(''a'', JStr ''hello'')])
     [demo_dlp_rule ''secret'' ''redact''] None ())) = []" by code_simp
  from dlp_scan_clean [OF this] show ?thesis by simp
qed

text \<open>With the ReDoS check on, as the gateway calls it, no rule ever uses the built-in \<open>ip\<close> or
  \<open>private_key\<close> detector: their own patterns look suspicious and the rule is skipped.\<close>

theorem dlp_builtin_never_active:
  assumes "dr_detector r = Some detector" and "detector \<in> {''ip'', ''private_key''}"
  shows "compile_dlp_rule E True r = Inr None"
proof -
  have "detector \<noteq> ''custom''" using assms(2) by auto
  have "list_all (\<lambda>d. case map_of DETECTORS d of Some p \<Rightarrow> dlp_redos p | None \<Rightarrow> False)
      [''ip'', ''private_key'']" by code_simp
  with assms(2) obtain p where "map_of DETECTORS detector = Some p" "dlp_redos p"
    by (auto split: option.splits)
  with assms(1) \<open>detector \<noteq> ''custom''\<close> show ?thesis
    by (simp add: compile_dlp_rule_def Let_def or_default_def get_detector_pattern_def)
qed

theorem dlp_builtin_never_active_witness:
  "compile_dlp_rule literal_engine True
     \<lparr>dr_enabled = Some True, dr_name = Some ''block private keys'', dr_detector = Some ''private_key'',
      dr_find_regex = None, dr_priority = Some 1, dr_direction = None, dr_action = Some ''block'',
      dr_token_prefix = None, dr_token_ttl = None, dr_apply_to = None\<rparr> = Inr None"
  by (rule dlp_builtin_never_active [of _ "''private_key''"]) simp_all

text \<open>Compilation keeps exactly the enabled rules with a known, valid and unsuspicious pattern,
  sorted by priority, rules of equal priority in the order of the bundle.\<close>

theorem compile_dlp_rules_correct:
  assumes "compile_dlp_rules E chk raw = Inr rs"
  shows "sorted (map d_priority rs) \<and>
    set (map d_name rs) = {n. \<exists>r p. r \<in> set raw \<and> usable_pattern E chk r p \<and> dr_name r = Some n} \<and>
    (\<forall>k. \<exists>ds. collect (compile_dlp_rule E chk) raw = Inr ds \<and>
       filter (\<lambda>d. d_priority d = k) rs = filter (\<lambda>d. d_priority d = k) ds)"
proof -
  obtain ds where ds: "collect (compile_dlp_rule E chk) raw = Inr ds" "rs = sort_key d_priority ds"
    using assms by (auto simp: compile_dlp_rules_def res_simps)
  have "n \<in> d_name ` set ds \<longleftrightarrow>
      (\<exists>r p. r \<in> set raw \<and> usable_pattern E chk r p \<and> dr_name r = Some n)" for n
    by (force simp: image_iff collect_in [OF ds(1)] compile_dlp_rule_Some)
  then have "set (map d_name rs) =
      {n. \<exists>r p. r \<in> set raw \<and> usable_pattern E chk r p \<and> dr_name r = Some n}"
    by (simp add: ds(2) set_eq_iff)
  then show ?thesis using ds by (simp add: sort_key_stable)
qed

definition demo_dlp_raw :: "string \<Rightarrow> int \<Rightarrow> dlp_raw" where
  "demo_dlp_raw n p = \<lparr>dr_enabled = None, dr_name = Some n, dr_detector = Some ''ssn'',
     dr_find_regex = None, dr_priority = Some p, dr_direction = None, dr_action = None,
     dr_token_prefix = None, dr_token_ttl = None, dr_apply_to = None\<rparr>"

theorem compile_dlp_rules_correct_witness:
  "\<exists>rs. compile_dlp_rules literal_engine True [demo_dlp_raw ''b'' 2, demo_dlp_raw ''a'' 1] = Inr rs \<and>
     map d_name rs = [''a'', ''b''] \<and> sorted (map d_priority rs)"
proof -
  let ?raw = "[demo_dlp_raw ''b'' 2, demo_dlp_raw ''a'' 1]"
  have "case get_detector_pattern ''ssn'' None of
      Some p \<Rightarrow> re_compiles literal_engine p \<and> \<not> dlp_redos p | None \<Rightarrow> False" by code_simp
  then obtain p where "get_detector_pattern ''ssn'' None = Some p" "re_compiles literal_engine p"
      "\<not> dlp_redos p" by (cases "get_detector_pattern ''ssn'' None") simp_all
  then obtain d where d: "compile_dlp_rule literal_engine True (demo_dlp_raw n i) = Inr (Some (d n i))"
      "d_name (d n i) = n" "d_priority (d n i) = i" for n i
    by (simp add: compile_dlp_rule_Some usable_pattern_def demo_dlp_raw_def or_default_def)
  let ?d1 = "d ''b'' 2" and ?d2 = "d ''a'' 1"
  have rs: "compile_dlp_rules literal_engine True ?raw = Inr [?d2, ?d1]" "map d_name [?d2, ?d1] = [''a'', ''b'']"
    by (simp_all add: compile_dlp_rules_def d)
  have "sorted (map d_priority [?d2, ?d1])"
    using compile_dlp_rules_correct [OF rs(1)] by (rule conjunct1)
  with rs show ?thesis by (intro exI conjI)
qed

end
