(* ===== verification/Guardrails.thy ===== *)
theory Guardrails imports Dlp begin

text \<open>
  The guardrails engine (\<open>shared/guardrails_core.py\<close>) and the rule state of its gateway module
  (\<open>mcp-gateway/guardrails.py\<close>).  Patterns are compiled with \<open>IGNORECASE | MULTILINE\<close>; the walk
  over JSON strings is the one of \<open>ScanWalk\<close>, instantiated with this engine's text scanner,
  which keeps the same contract as the DLP one.

  A pattern that fails to compile and also looks suspicious makes the loop pop a regex it never
  appended; the model keeps that: it removes the regex of an earlier pattern, or raises
  \<open>IndexError\<close> when there is none.
\<close>

definition gr_flags :: nat where "gr_flags = IGNORECASE + MULTILINE"

definition BUILTIN_PACKS :: "string list dict" where
  "BUILTIN_PACKS = [
     (''builtin:jailbreak_v1'', map regex [
        ''`bignore`s+(?:all`s+)?(?:previous|prior|above)`s+instructions?`b'',
        ''`bDAN`b.*`bdo`s+anything`s+now`b'',
        ''`byou`s+are`s+(?:now|a)`s+(?:DAN|freed|unrestricted)`b'',
        ''`bjailbreak`b'',
        ''`bdeveloper`s+mode`b'',
        ''`bact`s+as`s+(?:if`s+you`s+(?:are|have)`s+no`s+(?:rules|restrictions))`b'',
        ''`bpretend`s+(?:that`s+)?you`s+(?:have`s+no|don'?t`s+have`s+(?:any`s+)?(?:rules|restrictions|guidelines))`b'',
        ''`bSTAN`b.*`bstrive`s+to`s+avoid`s+norms`b'',
        ''`bevil`s+mode`b'',
        ''`bgod`s+mode`b'',
        ''`bun(?:censored|filtered|restricted)`s+mode`b'',
        ''`bAIM`b.*`balways`s+intelligent`s+and`s+machiavellian`b'']),
     (''builtin:instruction_override'', map regex [
        ''`bignore`s+(?:all`s+)?(?:previous|prior|above)`s+(?:instructions?|prompts?|rules?|directives?)`b'',
        ''`bdisregard`s+(?:all`s+)?(?:previous|prior|above)`s+(?:instructions?|prompts?|rules?)`b'',
        ''`bforget`s+(?:everything|all`s+(?:previous|prior)`s+(?:instructions?|rules?))`b'',
        ''`byou`s+are`s+now`s+(?:in`s+)?(?:a`s+)?(?:different|new)`s+mode`b'',
        ''`bfrom`s+now`s+on[,`s]+you`s+(?:are|will|must|should)`b'',
        ''`boverride`s+(?:your|the)`s+(?:system|safety|content)`s+(?:prompt|instructions?|rules?)`b'',
        ''`bnew`s+instructions?`s*:`s*`b'',
        ''`bsystem`s+prompt`s*:`s*`b'',
        ''`breveal`s+(?:your|the)`s+(?:system|initial)`s+prompt`b'',
        ''`bshow`s+me`s+your`s+(?:system|initial)`s+(?:prompt|instructions?)`b'']),
     (''builtin:obfuscation'', map regex [
        ''[A-Za-z0-9+/]{40,}={0,2}'',
        ''``u[0-9a-fA-F]{4}``u[0-9a-fA-F]{4}``u[0-9a-fA-F]{4}'',
        ''`brot13`b'',
        ''`bbase64`s*(?:decode|encoded)`b'',
        ''``x[0-9a-fA-F]{2}``x[0-9a-fA-F]{2}``x[0-9a-fA-F]{2}''])]"

definition get_pack_patterns :: "string \<Rightarrow> string option \<Rightarrow> string list" where
  "get_pack_patterns pack find_regex =
     (if pack = ''custom'' then
        (case find_regex of None \<Rightarrow> [] | Some p \<Rightarrow> if p = [] then [] else [p])
      else dict_get BUILTIN_PACKS pack [])"

section \<open>Compiling rules\<close>

text \<open>
  Both suspicious shapes stay inside one group: an opening parenthesis, a character \<open>P\<close> before
  the next closing one, and a quantifier directly behind that.
\<close>

fun quantified_group :: "(char \<Rightarrow> bool) \<Rightarrow> string \<Rightarrow> bool" where
  "quantified_group P [] = False"
| "quantified_group P (c # cs) =
     (c = CHR ''('' \<and> list_ex P (takeWhile (\<lambda>x. x \<noteq> CHR '')'') cs) \<and>
        (case dropWhile (\<lambda>x. x \<noteq> CHR '')'') cs of _ # q # _ \<Rightarrow> quantifier q | _ \<Rightarrow> False)
      \<or> quantified_group P cs)"

definition gr_redos :: "string \<Rightarrow> bool" where
  "gr_redos p \<longleftrightarrow> quantified_group quantifier p \<or> quantified_group (\<lambda>c. c = CHR ''|'') p"

record gr_raw =
  g_enabled :: "bool option"
  g_name :: "string option"
  g_pack :: "string option"
  g_find_regex :: "string option"
  g_priority :: "int option"
  g_direction :: "string option"
  g_action :: "string option"

record gr_rule =
  gr_name :: string
  gr_priority :: int
  gr_direction :: string
  gr_pack :: string
  gr_regexes :: "string list"
  gr_action :: string

text \<open>The loop over the patterns of a pack, with the list \<open>regexes\<close> it builds.\<close>

fun gr_compile_patterns :: "engine \<Rightarrow> bool \<Rightarrow> string list \<Rightarrow> string list \<Rightarrow> string list res" where
  "gr_compile_patterns E redos_check [] regexes = Inr regexes"
| "gr_compile_patterns E redos_check (p # ps) regexes =
     (let regexes1 = (if re_compiles E p then regexes @ [p] else regexes)
      in if redos_check \<and> gr_redos p then
           (if regexes1 = [] then Inl IndexError
            else gr_compile_patterns E redos_check ps (butlast regexes1))
         else gr_compile_patterns E redos_check ps regexes1)"

definition compile_guardrail :: "engine \<Rightarrow> bool \<Rightarrow> gr_raw \<Rightarrow> gr_rule option res" where
  "compile_guardrail E redos_check r =
     (if \<not> or_default (g_enabled r) True then Inr None
      else let pack = or_default (g_pack r) ''custom'';
               patterns = get_pack_patterns pack (g_find_regex r)
      in if patterns = [] then Inr None
         else bind_res (gr_compile_patterns E redos_check patterns []) (\<lambda>regexes.
           if regexes = [] then Inr None
           else (case g_name r of
               None \<Rightarrow> Inl KeyError
             | Some name \<Rightarrow> Inr (Some
                 \<lparr>gr_name = name,
                  gr_priority = or_default (g_priority r) 0,
                  gr_direction = or_default (g_direction r) ''both'',
                  gr_pack = pack,
                  gr_regexes = regexes,
                  gr_action = or_default (g_action r) ''block''\<rparr>))))"

definition compile_guardrails :: "engine \<Rightarrow> bool \<Rightarrow> gr_raw list \<Rightarrow> gr_rule list res" where
  "compile_guardrails E redos_check raw =
     bind_res (collect (compile_guardrail E redos_check) raw) (\<lambda>rs. Inr (sort_key gr_priority rs))"

section \<open>Scanning\<close>

record gr_hit =
  gh_rule :: string
  gh_pack :: string
  gh_action :: string
  gh_count :: nat

definition gr_blocking :: "gr_hit \<Rightarrow> bool" where
  "gr_blocking h \<longleftrightarrow> gh_action h = ''block''"

definition filtered :: string where "filtered = ''[FILTERED]''"

definition total_matches :: "engine \<Rightarrow> gr_rule \<Rightarrow> string \<Rightarrow> nat" where
  "total_matches E r scan_text = sum_list (map (\<lambda>p. findall_count E gr_flags p scan_text) (gr_regexes r))"

fun gr_scan_loop ::
  "engine \<Rightarrow> string \<Rightarrow> string \<Rightarrow> gr_rule list \<Rightarrow> string \<Rightarrow> string \<times> gr_hit list \<times> bool" where
  "gr_scan_loop E scan_text dir [] modified = (modified, [], False)"
| "gr_scan_loop E scan_text dir (r # rs) modified =
     (if \<not> matches_direction (gr_direction r) dir then gr_scan_loop E scan_text dir rs modified
      else let count = total_matches E r scan_text;
               hit = \<lparr>gh_rule = gr_name r, gh_pack = gr_pack r, gh_action = gr_action r, gh_count = count\<rparr>
      in if count = 0 then gr_scan_loop E scan_text dir rs modified
         else if gr_action r = ''block'' then (modified, [hit], True)
         else if gr_action r = ''redact'' then
           (case gr_scan_loop E scan_text dir rs
                   (foldl (\<lambda>m p. re_sub E gr_flags p filtered m) modified (gr_regexes r)) of
              (m, hs, b) \<Rightarrow> (m, hit # hs, b))
         else if gr_action r = ''log'' then
           (case gr_scan_loop E scan_text dir rs modified of (m, hs, b) \<Rightarrow> (m, hit # hs, b))
         else gr_scan_loop E scan_text dir rs modified)"

definition gr_scan_text :: "engine \<Rightarrow> nat \<Rightarrow> gr_rule list \<Rightarrow> string \<Rightarrow> (gr_hit, unit) scanner" where
  "gr_scan_text E maxlen rules dir text u =
     (case gr_scan_loop E (take maxlen text) dir rules text of
        (modified, hits, any) \<Rightarrow> (if any then text else modified, hits, u))"

definition gr_scan_json_strings ::
  "engine \<Rightarrow> nat \<Rightarrow> json \<Rightarrow> gr_rule list \<Rightarrow> string \<Rightarrow> json \<times> gr_hit list" where
  "gr_scan_json_strings E maxlen obj rules dir =
     (case scan_strings (gr_scan_text E maxlen rules dir) gr_blocking obj () of
        (v, hits, _) \<Rightarrow> (v, hits))"

definition gr_scan_all_text ::
  "engine \<Rightarrow> nat \<Rightarrow> json \<Rightarrow> gr_rule list \<Rightarrow> string \<Rightarrow> json \<times> gr_hit list" where
  "gr_scan_all_text E maxlen data rules dir =
     (case scan_whole E (gr_scan_text E maxlen rules dir) gr_blocking data () of
        (v, hits, _) \<Rightarrow> (v, hits))"

record gr_result =
  gres_blocked :: bool
  gres_modified :: bool
  gres_hits :: "gr_hit list"
  gres_data :: json

definition gr_untouched :: "json \<Rightarrow> gr_result" where
  "gr_untouched data = \<lparr>gres_blocked = False, gres_modified = False, gres_hits = [], gres_data = data\<rparr>"

definition gr_scanned :: "engine \<Rightarrow> nat \<Rightarrow> string \<Rightarrow> json \<Rightarrow> gr_rule list \<Rightarrow> gr_result" where
  "gr_scanned E maxlen dir data applicable =
     (case gr_scan_json_strings E maxlen data applicable dir of (modified, hits) \<Rightarrow>
        \<lparr>gres_blocked = list_ex gr_blocking hits, gres_modified = (\<not> py_eq modified data),
         gres_hits = hits, gres_data = modified\<rparr>)"

definition gr_scan_request :: "engine \<Rightarrow> nat \<Rightarrow> json \<Rightarrow> gr_rule list \<Rightarrow> gr_result" where
  "gr_scan_request E maxlen params rules =
     (if rules = [] then gr_untouched params
      else let applicable = filter (\<lambda>r. matches_direction (gr_direction r) ''request'') rules
      in if applicable = [] then gr_untouched params
         else gr_scanned E maxlen ''request'' params applicable)"

text \<open>A response that is not an object is not scanned.\<close>

definition gr_scan_response :: "engine \<Rightarrow> nat \<Rightarrow> json \<Rightarrow> gr_rule list \<Rightarrow> gr_result" where
  "gr_scan_response E maxlen body rules =
     (if rules = [] then gr_untouched body
      else let applicable = filter (\<lambda>r. matches_direction (gr_direction r) ''response'') rules
      in if applicable = [] then gr_untouched body
         else if is_obj body then gr_scanned E maxlen ''response'' body applicable
         else gr_untouched body)"

section \<open>The gateway's rule state\<close>

definition load_dlp_rules ::
  "engine \<Rightarrow> dlp_raw list option \<Rightarrow> dlp_rule rule_module \<Rightarrow> unit res \<times> dlp_rule rule_module" where
  "load_dlp_rules E = load_rules (compile_dlp_rules E True)"

definition load_guardrails ::
  "engine \<Rightarrow> gr_raw list option \<Rightarrow> gr_rule rule_module \<Rightarrow> unit res \<times> gr_rule rule_module" where
  "load_guardrails E = load_rules (compile_guardrails E True)"

definition has_dlp_rules :: "dlp_rule rule_module \<Rightarrow> bool" where
  "has_dlp_rules m \<longleftrightarrow> has_configured m \<and> compiled_rules m \<noteq> []"

definition has_guardrails :: "gr_rule rule_module \<Rightarrow> bool" where
  "has_guardrails m \<longleftrightarrow> has_configured m \<and> compiled_rules m \<noteq> []"

section \<open>The text scanner keeps its contract\<close>

definition gr_detects :: "engine \<Rightarrow> nat \<Rightarrow> gr_rule list \<Rightarrow> string \<Rightarrow> string \<Rightarrow> bool" where
  "gr_detects E maxlen rules dir text \<longleftrightarrow>
     list_ex (\<lambda>r. matches_direction (gr_direction r) dir \<and> gr_action r = ''block'' \<and>
       list_ex (\<lambda>p. 0 < findall_count E gr_flags p (take maxlen text)) (gr_regexes r)) rules"

lemma sum_list_pos_iff: "0 < sum_list (map f xs) \<longleftrightarrow> list_ex (\<lambda>x. 0 < (f x :: nat)) xs"
  by (induction xs) auto

lemma total_matches_pos:
  "0 < total_matches E r s \<longleftrightarrow> list_ex (\<lambda>p. 0 < findall_count E gr_flags p s) (gr_regexes r)"
  by (simp add: total_matches_def sum_list_pos_iff)

lemma gr_scan_loop_hits:
  "case gr_scan_loop E (take maxlen s) dir rules m of (m', hits, b) \<Rightarrow>
     list_ex gr_blocking hits = b \<and> b = gr_detects E maxlen rules dir s \<and> (hits = [] \<longrightarrow> m' = m)"
proof (induction rules arbitrary: m)
  case Nil
  then show ?case by (simp add: gr_detects_def)
next
  case (Cons r rs)
  let ?n = "total_matches E r (take maxlen s)"
  have det: "gr_detects E maxlen (r # rs) dir s \<longleftrightarrow>
      matches_direction (gr_direction r) dir \<and> gr_action r = ''block'' \<and> 0 < ?n \<or>
      gr_detects E maxlen rs dir s"
    by (simp add: gr_detects_def total_matches_pos)
  note IH = Cons.IH [of m] Cons.IH [of "foldl (\<lambda>m p. re_sub E gr_flags p filtered m) m (gr_regexes r)"]
  show ?case
  proof (cases "matches_direction (gr_direction r) dir \<and> 0 < ?n")
    case False
    with IH(1) det show ?thesis by (simp add: Let_def)
  next
    case True
    with IH det show ?thesis
      by (simp add: Let_def case_prod_unfold gr_blocking_def)
  qed
qed

interpretation gr: text_scanner "gr_scan_text E maxlen rules dir" gr_blocking
  "gr_detects E maxlen rules dir" for E maxlen rules dir
proof
  fix s w
  note loop = gr_scan_loop_hits [where E = E and maxlen = maxlen and s = s and dir = dir
    and rules = rules and m = s]
  show "list_ex gr_blocking (fst (snd (gr_scan_text E maxlen rules dir s w))) =
      gr_detects E maxlen rules dir s"
    using loop by (simp add: gr_scan_text_def case_prod_unfold)
  show "fst (snd (gr_scan_text E maxlen rules dir s w)) = [] \<Longrightarrow>
      gr_scan_text E maxlen rules dir s w = (s, [], w)"
    using loop by (auto simp: gr_scan_text_def case_prod_unfold)
qed

lemma gr_detects_filter [simp]:
  "gr_detects E maxlen (filter (\<lambda>r. matches_direction (gr_direction r) dir) rules) dir =
   gr_detects E maxlen rules dir"
  by (intro ext) (auto simp: gr_detects_def list_ex_filter list_ex_iff)

lemma gr_not_applicable:
  "filter (\<lambda>r. matches_direction (gr_direction r) dir) rules = [] \<Longrightarrow> \<not> gr_detects E maxlen rules dir s"
  by (auto simp: gr_detects_def list_ex_iff filter_empty_conv)

lemma gr_scanned_spec:
  "gres_blocked (gr_scanned E maxlen dir data rs) = list_ex (gr_detects E maxlen rs dir) (texts data)"
  "gres_blocked (gr_scanned E maxlen dir data rs) \<Longrightarrow> gres_data (gr_scanned E maxlen dir data rs) = data"
  "same_shape data (gres_data (gr_scanned E maxlen dir data rs))"
  by (simp_all add: gr_scanned_def gr_scan_json_strings_def case_prod_unfold gr.scan_strings_blocks
      gr.scan_strings_blocked scan_strings_shape)

lemma builtin_packs_ok:
  "list_all (\<lambda>(pk, ps). pk \<noteq> ''custom'' \<and> ps \<noteq> [] \<and> list_all (\<lambda>p. \<not> gr_redos p) ps) BUILTIN_PACKS"
  by code_simp

section \<open>Properties\<close>

text \<open>A guardrail scan of a request blocks exactly when some string value has, within the scanned
  prefix, a match of a blocking rule that applies to requests; blocked parameters come back as they
  were, and whatever the scan rewrites, the structure and the keys stay.\<close>

theorem gr_scan_request_blocks_iff:
  "(gres_blocked (gr_scan_request E maxlen params rules) \<longleftrightarrow>
      list_ex (gr_detects E maxlen rules ''request'') (texts params)) \<and>
   (gres_blocked (gr_scan_request E maxlen params rules) \<longrightarrow>
      gres_data (gr_scan_request E maxlen params rules) = params) \<and>
   same_shape params (gres_data (gr_scan_request E maxlen params rules))"
proof (cases "filter (\<lambda>r. matches_direction (gr_direction r) ''request'') rules = []")
  case True
  then show ?thesis using gr_not_applicable [OF True]
    by (simp add: gr_scan_request_def gr_untouched_def list_ex_iff)
next
  case False
  then have "rules \<noteq> []" by auto
  with False show ?thesis by (simp add: gr_scan_request_def gr_scanned_spec Let_def)
qed

definition demo_gr_rule :: "string \<Rightarrow> gr_rule" where
  "demo_gr_rule p = \<lparr>gr_name = ''g'', gr_priority = 0, gr_direction = ''both'', gr_pack = ''custom'',
     gr_regexes = [p], gr_action = ''block''\<rparr>"

theorem gr_scan_request_blocks_iff_witness:
  "gres_data (gr_scan_request literal_engine 100 (JList [JStr ''jailbreak now'']) [demo_gr_rule ''jailbreak'']) =
     JList [JStr ''jailbreak now'']"
proof -
  have "gres_blocked (gr_scan_request literal_engine 100 (JList [JStr ''jailbreak now''])
      [demo_gr_rule ''jailbreak''])" by code_simp
  then show ?thesis
    using gr_scan_request_blocks_iff [of literal_engine 100 "JList [JStr ''jailbreak now'']"
        "[demo_gr_rule ''jailbreak'']"] by (simp only: simp_thms)
qed

text \<open>Every pattern of a built-in pack survives compilation with the ReDoS check on: an enabled,
  named rule on a built-in pack gets all the patterns of the pack that the engine accepts.\<close>

theorem builtin_pack_complete:
  assumes "pack \<in> set (map fst BUILTIN_PACKS)" "or_default (g_enabled r) True"
    and "g_pack r = Some pack" "g_name r = Some n" "\<And>p. p \<in> set (dict_get BUILTIN_PACKS pack []) \<Longrightarrow> re_compiles E p"
  shows "\<exists>c. compile_guardrail E True r = Inr (Some c) \<and> gr_regexes c = dict_get BUILTIN_PACKS pack []"
proof -
  obtain ps where ps: "map_of BUILTIN_PACKS pack = Some ps"
    using assms(1) by (metis map_of_eq_None_iff list.set_map not_None_eq)
  have "case (pack, ps) of (pk, ps) \<Rightarrow>
      pk \<noteq> ''custom'' \<and> ps \<noteq> [] \<and> list_all (\<lambda>p. \<not> gr_redos p) ps"
    using map_of_SomeD [OF ps] by (rule bspec [OF builtin_packs_ok [unfolded list_all_iff [of _ BUILTIN_PACKS]]])
  then have pk: "pack \<noteq> ''custom''" "dict_get BUILTIN_PACKS pack [] \<noteq> []"
      "\<And>p. p \<in> set (dict_get BUILTIN_PACKS pack []) \<Longrightarrow> \<not> gr_redos p"
    by (simp_all add: dict_get_def ps list_all_iff)
  have "gr_compile_patterns E True ps acc = Inr (acc @ ps)"
    if "\<And>p. p \<in> set ps \<Longrightarrow> \<not> gr_redos p \<and> re_compiles E p" for ps acc
    using that by (induction ps arbitrary: acc) auto
  then have "gr_compile_patterns E True (dict_get BUILTIN_PACKS pack []) [] =
      Inr (dict_get BUILTIN_PACKS pack [])"
    using pk(3) assms(5) by simp
  with assms(2-4) pk(1,2) show ?thesis
    by (simp add: compile_guardrail_def Let_def or_default_def get_pack_patterns_def)
qed

theorem builtin_pack_complete_witness:
  "\<exists>c. compile_guardrail literal_engine True
     \<lparr>g_enabled = None, g_name = Some ''obf'', g_pack = Some ''builtin:obfuscation'', g_find_regex = None,
      g_priority = None, g_direction = None, g_action = None\<rparr> = Inr (Some c) \<and>
     length (gr_regexes c) = 5"
proof -
  let ?r = "\<lparr>g_enabled = None, g_name = Some ''obf'', g_pack = Some ''builtin:obfuscation'',
      g_find_regex = None, g_priority = None, g_direction = None, g_action = None\<rparr>"
  have ok: "list_all (re_compiles literal_engine) (dict_get BUILTIN_PACKS ''builtin:obfuscation'' [])"
    and pk: "''builtin:obfuscation'' \<in> set (map fst BUILTIN_PACKS)"
    and five: "length (dict_get BUILTIN_PACKS ''builtin:obfuscation'' []) = 5"
    by code_simp+
  have "\<exists>c. compile_guardrail literal_engine True ?r = Inr (Some c) \<and>
      gr_regexes c = dict_get BUILTIN_PACKS ''builtin:obfuscation'' []"
    by (rule builtin_pack_complete [OF pk]) (use ok in \<open>simp_all only: list_all_iff or_default_def
        gr_raw.simps option.case simp_thms\<close>)
  then obtain c where "compile_guardrail literal_engine True ?r = Inr (Some c)"
      "gr_regexes c = dict_get BUILTIN_PACKS ''builtin:obfuscation'' []" by (elim exE conjE)
  then show ?thesis by (intro exI [of _ c] conjI) (simp_all only: five)
qed

text \<open>A custom pattern that does not compile and looks suspicious makes the compilation raise
  \<open>IndexError\<close> instead of skipping the pattern: the loop pops from the still empty list.\<close>

theorem bad_custom_pattern_raises:
  assumes "or_default (g_enabled r) True" "or_default (g_pack r) ''custom'' = ''custom''"
    and "g_find_regex r = Some p" "p \<noteq> []" "\<not> re_compiles E p" "gr_redos p"
  shows "compile_guardrail E True r = Inl IndexError"
  using assms by (simp add: compile_guardrail_def get_pack_patterns_def)

theorem bad_custom_pattern_raises_witness:
  "compile_guardrail (literal_engine\<lparr>re_compiles := \<lambda>p. False\<rparr>) True
     \<lparr>g_enabled = None, g_name = Some ''n'', g_pack = None, g_find_regex = Some ''(a+)+('',
      g_priority = None, g_direction = None, g_action = None\<rparr> = Inl IndexError"
proof -
  have "gr_redos ''(a+)+(''" by code_simp
  then show ?thesis
    by (intro bad_custom_pattern_raises [where p = "''(a+)+(''"]) (simp_all add: or_default_def)
qed

end
