(* ===== verification/Skills.thy ===== *)
theory Skills imports Policy begin

text \<open>
  The skills engine (\<open>mcp-gateway/skills.py\<close>): published skills are served as virtual prompts
  \<open>skill__<name>\<close>.  A skill of the bundle is \<open>raw_skill\<close>; fields that are only handed on are JSON
  values, \<open>JNull\<close> when the key is absent.  The responses are the JSON objects the code builds.
\<close>

definition SKILL_NAMESPACE :: string where "SKILL_NAMESPACE = ''skill''"

record raw_skill =
  rs_id :: json
  rs_team_id :: json
  rs_name :: "string option"
  rs_description :: json
  rs_enabled :: "bool option"
  rs_enable_when :: "string option"
  rs_enable_when_ast :: "ast option"
  rs_tags :: "json option"
  rs_published_version_id :: json
  rs_published_body :: json
  rs_published_frontmatter :: json
  rs_published_files :: "json dict list option"

record skill =
  sk_id :: json
  sk_team_id :: json
  sk_name :: string
  sk_description :: json
  sk_enabled :: bool
  sk_enable_when :: "string option"
  sk_enable_when_ast :: "ast option"
  sk_tags :: json
  sk_published_version_id :: json
  sk_published_body :: json
  sk_published_frontmatter :: json
  sk_published_files :: "json dict list option"

text \<open>A condition that does not parse leaves the skill without a condition.\<close>

definition skill_condition :: "raw_skill \<Rightarrow> ast option" where
  "skill_condition s =
     (case (rs_enable_when s, rs_enable_when_ast s) of
        (Some w, None) \<Rightarrow>
          (if w = [] then None
           else (case parse_expression [] w of Inl _ \<Rightarrow> None | Inr a \<Rightarrow> Some a))
      | (_, a) \<Rightarrow> a)"

definition compile_skill :: "raw_skill \<Rightarrow> skill option res" where
  "compile_skill s =
     (if \<not> or_default (rs_enabled s) True then Inr None
      else (case rs_name s of
          None \<Rightarrow> Inl KeyError
        | Some n \<Rightarrow> Inr (Some
            \<lparr>sk_id = rs_id s, sk_team_id = rs_team_id s, sk_name = n,
             sk_description = rs_description s, sk_enabled = or_default (rs_enabled s) True,
             sk_enable_when = rs_enable_when s, sk_enable_when_ast = skill_condition s,
             sk_tags = or_default (rs_tags s) (JList []),
             sk_published_version_id = rs_published_version_id s,
             sk_published_body = rs_published_body s,
             sk_published_frontmatter = rs_published_frontmatter s,
             sk_published_files = rs_published_files s\<rparr>)))"

definition load_skills ::
  "raw_skill list option \<Rightarrow> skill rule_module \<Rightarrow> unit res \<times> skill rule_module" where
  "load_skills = load_rules (collect compile_skill)"

definition has_skills :: "skill rule_module \<Rightarrow> bool" where
  "has_skills m \<longleftrightarrow> has_configured m \<and> compiled_rules m \<noteq> []"

text \<open>Whether a loaded skill is offered to an identity.\<close>

definition skill_enabled :: "engine \<Rightarrow> auth_context \<Rightarrow> skill \<Rightarrow> bool" where
  "skill_enabled E a s \<longleftrightarrow>
     sk_enabled s \<and> py_truthy (sk_published_version_id s) \<and>
     (case sk_enable_when_ast s of
        None \<Rightarrow> True
      | Some node \<Rightarrow>
          evaluate E (build_mcp_context E
            (no_query\<lparr>q_method := ''prompts/list'', q_server := SKILL_NAMESPACE\<rparr>) a None) node = Inr True)"

definition get_enabled_skills :: "engine \<Rightarrow> skill rule_module \<Rightarrow> auth_context \<Rightarrow> skill list" where
  "get_enabled_skills E m a = filter (skill_enabled E a) (compiled_rules m)"

definition get_skill_by_name :: "skill rule_module \<Rightarrow> string \<Rightarrow> skill option" where
  "get_skill_by_name m n = List.find (\<lambda>s. sk_name s = n) (compiled_rules m)"

section \<open>Prompts\<close>

definition skill_prompt_name :: "string \<Rightarrow> string" where
  "skill_prompt_name n = SKILL_NAMESPACE @ ''__'' @ n"

definition or_else :: "json \<Rightarrow> json \<Rightarrow> json" where
  "or_else v d = (if py_truthy v then v else d)"

definition build_prompt_entry :: "skill \<Rightarrow> json dict" where
  "build_prompt_entry s =
     [(''name'', JStr (skill_prompt_name (sk_name s))),
      (''description'', or_else (sk_description s) (JStr (''Skill: '' @ sk_name s))),
      (''arguments'', JList []),
      (''_meta'', JObj
        [(''mcp_server'', JStr SKILL_NAMESPACE),
         (''mcp_original_name'', JStr (sk_name s)),
         (''mcp_skill'', JBool True),
         (''tags'', sk_tags s)])]"

definition skill_file_message :: "engine \<Rightarrow> skill \<Rightarrow> json dict \<Rightarrow> json" where
  "skill_file_message E s f = JObj
     [(''role'', JStr ''user''),
      (''content'', JObj
        [(''type'', JStr ''resource''),
         (''resource'', JObj
           [(''uri'', JStr (''skill://'' @ sk_name s @ ''/'' @
               py_str (float_repr E) (dict_get f ''path'' (JStr ''file'')))),
            (''mimeType'', dict_get f ''media_type'' (JStr ''application/octet-stream'')),
            (''blob'', dict_get f ''content_b64'' (JStr ''''))])])]"

definition render_skill_prompt :: "engine \<Rightarrow> skill \<Rightarrow> json dict" where
  "render_skill_prompt E s =
     (let body = or_else (sk_published_body s) (JStr '''');
          frontmatter = or_else (sk_published_frontmatter s) (JObj []);
          files = or_default (sk_published_files s) [];
          main = [(''role'', JStr ''user''),
                  (''content'', JObj [(''type'', JStr ''text''), (''text'', body)])] @
                 (if py_truthy frontmatter
                  then [(''_meta'', JObj [(''frontmatter'', frontmatter)])] else []);
          attached = filter (\<lambda>f. py_truthy (dict_get f ''content_b64'' (JStr ''''))) files
      in [(''jsonrpc'', JStr ''2.0''),
          (''result'', JObj [(''messages'',
             JList (JObj main # map (skill_file_message E s) attached))])])"

section \<open>Properties\<close>

lemma compile_skill_condition:
  "compile_skill s = Inr (Some k) \<Longrightarrow>
     sk_enable_when_ast k = skill_condition s \<and> sk_enabled k \<and> or_default (rs_enabled s) True \<and>
     rs_name s = Some (sk_name k) \<and> sk_published_version_id k = rs_published_version_id s"
  by (auto simp: compile_skill_def split: if_splits option.splits)

text \<open>The condition on a skill of the bundle, before any loading.\<close>

definition offered :: "engine \<Rightarrow> auth_context \<Rightarrow> raw_skill \<Rightarrow> bool" where
  "offered E a s \<longleftrightarrow> or_default (rs_enabled s) True \<and> py_truthy (rs_published_version_id s) \<and>
     (case skill_condition s of
        None \<Rightarrow> True
      | Some node \<Rightarrow>
          evaluate E (build_mcp_context E
            (no_query\<lparr>q_method := ''prompts/list'', q_server := SKILL_NAMESPACE\<rparr>) a None) node = Inr True)"

text \<open>After loading, an identity is offered exactly the enabled, named and published skills of the
  bundle whose \<open>enable_when\<close> holds for it; a condition that raises hides the skill, but a
  condition that does not parse is dropped and offers the skill to everyone.\<close>

theorem enabled_skills_correct:
  assumes "load_skills (Some raw) m0 = (Inr (), m)"
  shows "sk_name ` set (get_enabled_skills E m a) = {n. \<exists>s\<in>set raw. rs_name s = Some n \<and> offered E a s}"
proof -
  have "collect compile_skill raw = Inr (compiled_rules m)"
    using assms by (auto simp: load_skills_def load_rules_def or_default_def Let_def split: sum.splits)
  note k = collect_in [OF this]
  have same: "skill_enabled E a x = offered E a s" if "compile_skill s = Inr (Some x)" for s x
    using compile_skill_condition [OF that] by (simp add: skill_enabled_def offered_def)
  have mk: "\<exists>x. compile_skill s = Inr (Some x) \<and> sk_name x = n"
    if "rs_name s = Some n" "offered E a s" for s n
    using that by (simp add: compile_skill_def offered_def)
  have "n \<in> sk_name ` set (get_enabled_skills E m a) \<longleftrightarrow>
      (\<exists>s\<in>set raw. rs_name s = Some n \<and> offered E a s)" for n
  proof
    assume "n \<in> sk_name ` set (get_enabled_skills E m a)"
    then obtain x s where "n = sk_name x" "skill_enabled E a x" "s \<in> set raw" "compile_skill s = Inr (Some x)"
      by (auto simp: get_enabled_skills_def k)
    then show "\<exists>s\<in>set raw. rs_name s = Some n \<and> offered E a s"
      using same compile_skill_condition by blast
  next
    assume "\<exists>s\<in>set raw. rs_name s = Some n \<and> offered E a s"
    then obtain s x where "s \<in> set raw" "compile_skill s = Inr (Some x)" "sk_name x = n" "offered E a s"
      using mk by blast
    with same show "n \<in> sk_name ` set (get_enabled_skills E m a)"
      by (auto simp: get_enabled_skills_def k intro!: rev_image_eqI [of x])
  qed
  then show ?thesis by (auto simp del: image_iff)
qed

definition demo_skill :: raw_skill where
  "demo_skill = \<lparr>rs_id = JInt 1, rs_team_id = JInt 1, rs_name = Some ''s'', rs_description = JNull,
     rs_enabled = None, rs_enable_when = Some ''mcp.team = = 3'', rs_enable_when_ast = None,
     rs_tags = None, rs_published_version_id = JInt 7, rs_published_body = JStr ''body'',
     rs_published_frontmatter = JNull, rs_published_files = None\<rparr>"

theorem enabled_skills_correct_witness:
  "\<exists>m. load_skills (Some [demo_skill]) \<lparr>compiled_rules = [], has_configured = False\<rparr> = (Inr (), m) \<and>
     sk_name ` set (get_enabled_skills literal_engine m demo_auth) = {''s''}"
proof -
  have cond: "skill_condition demo_skill = None" by code_simp
  obtain m where m: "load_skills (Some [demo_skill]) \<lparr>compiled_rules = [], has_configured = False\<rparr> = (Inr (), m)"
    by (simp add: load_skills_def load_rules_def or_default_def compile_skill_def demo_skill_def)
  show ?thesis
  proof (intro exI conjI)
    show "sk_name ` set (get_enabled_skills literal_engine m demo_auth) = {''s''}"
      unfolding enabled_skills_correct [OF m] using cond
      by (auto simp: demo_skill_def or_default_def offered_def)
  qed (rule m)
qed

end
