(* ===== verification/ConfigLoader.thy ===== *)
theory ConfigLoader imports Upstream Policy Guardrails Skills "HOL-Library.List_Lexorder" begin

text \<open>
  The config bundle: how the backend signs and writes it (\<open>_sign_bundle\<close> and
  \<open>write_config_bundle\<close> of \<open>backend/app/services/mcp_config.py\<close>) and how the gateway loads it
  (\<open>mcp-gateway/config_loader.py\<close>).  The file's bytes are a string of byte values; reading and
  the modification time are operations of \<open>cfg_services\<close>, as are Fernet, HMAC-SHA256 and the
  UTF-8 decoder.

  The gateway's view of the bundle as records (servers, identities, policies, rules, skills) is
  read off the JSON object by the \<open>*_of\<close> functions: a key that is absent, null or of another
  type is \<open>None\<close>.
\<close>

record cfg_env =
  signing_key_env :: string
  encryption_key_env :: string

record 'w cfg_services = "'w up_services" +
  cfg_getmtime :: "('w, real) io"
  cfg_read :: "('w, string) io"
  fernet_decrypt :: "string \<Rightarrow> string \<Rightarrow> string res"
  hmac_hex :: "string \<Rightarrow> string \<Rightarrow> string"
  utf8_decode :: "string \<Rightarrow> string res"

record cfg_state =
  cfg_config :: "json dict"
  cfg_mtime :: real

record 'w cfg_gateway = "'w up_gateway" +
  cfg_mem :: cfg_state

section \<open>The writer\<close>

text \<open>\<open>json.dumps(..., sort_keys=True)\<close>, in one line and with \<open>indent=2\<close>.\<close>

fun sort_keys :: "json \<Rightarrow> json" where
  "sort_keys (JObj d) = JObj (sort_key fst (map (\<lambda>(k, v). (k, sort_keys v)) d))"
| "sort_keys (JList xs) = JList (map sort_keys xs)"
| "sort_keys v = v"

definition indent :: "nat \<Rightarrow> string" where
  "indent n = newline # replicate (2 * n) CHR '' ''"

fun dumps_indent :: "engine \<Rightarrow> nat \<Rightarrow> json \<Rightarrow> string" where
  "dumps_indent E n (JObj d) =
     (if d = [] then ''{}''
      else ''{'' @ indent (n + 1) @
        join ('','' @ indent (n + 1)) (map (\<lambda>(k, v). json_str k @ '': '' @ dumps_indent E (n + 1) v) d) @
        indent n @ ''}'')"
| "dumps_indent E n (JList xs) =
     (if xs = [] then ''[]''
      else ''['' @ indent (n + 1) @ join ('','' @ indent (n + 1)) (map (dumps_indent E (n + 1)) xs) @
        indent n @ '']'')"
| "dumps_indent E n v = json_dumps E v"

definition sign_bundle :: "engine \<Rightarrow> (string \<Rightarrow> string \<Rightarrow> string) \<Rightarrow> string \<Rightarrow> json dict \<Rightarrow> json dict" where
  "sign_bundle E hmac key bundle =
     (if key = [] then bundle
      else AList.update ''_signature'' (JStr (hmac key (json_dumps E (sort_keys (JObj bundle))))) bundle)"

definition bundle_plaintext ::
  "engine \<Rightarrow> (string \<Rightarrow> string \<Rightarrow> string) \<Rightarrow> string \<Rightarrow> json dict \<Rightarrow> string" where
  "bundle_plaintext E hmac key bundle =
     dumps_indent E 0 (sort_keys (JObj (sign_bundle E hmac key bundle)))"

section \<open>The loader\<close>

definition verify_signature ::
  "('w, 'x) cfg_services_scheme \<Rightarrow> cfg_env \<Rightarrow> string \<Rightarrow> string \<Rightarrow> bool" where
  "verify_signature S env raw signature =
     (if signing_key_env env = [] then True
      else hmac_hex S (signing_key_env env) raw = signature)"

definition decrypt_bundle_bytes :: "('w, 'x) cfg_services_scheme \<Rightarrow> cfg_env \<Rightarrow> string \<Rightarrow> string" where
  "decrypt_bundle_bytes S env raw =
     (if encryption_key_env env = [] then raw
      else (case fernet_decrypt S (encryption_key_env env) raw of Inr p \<Rightarrow> p | Inl _ \<Rightarrow> raw))"

definition signature_mark :: string where
  "signature_mark = double_quote # ''_signature'' @ [double_quote]"

text \<open>The bytes the signature is checked against.\<close>

definition signed_part :: "string \<Rightarrow> string" where
  "signed_part s =
     (if contains s signature_mark then
        (case split_first s (signature_mark @ [CHR '':'', double_quote]) of
           Some (before, _) \<Rightarrow> before
         | None \<Rightarrow> s)
      else s)"

definition servers_of :: "json dict \<Rightarrow> json list" where
  "servers_of c = (case dict_get c ''servers'' (JList []) of JList xs \<Rightarrow> xs | _ \<Rightarrow> [])"

definition str_of :: "json \<Rightarrow> string option" where
  "str_of v = (case v of JStr s \<Rightarrow> Some s | _ \<Rightarrow> None)"

definition server_urls :: "json dict \<Rightarrow> string list" where
  "server_urls c = map (\<lambda>s. or_default (str_of (jget_or_null s ''url'')) '''') (servers_of c)"

definition set_config :: "json dict \<Rightarrow> ('w, 'm) cfg_gateway_scheme \<Rightarrow> ('w, 'm) cfg_gateway_scheme" where
  "set_config c g = g\<lparr>cfg_mem := (cfg_mem g)\<lparr>cfg_config := c\<rparr>\<rparr>"

definition accept_config ::
  "('w, 'x) cfg_services_scheme \<Rightarrow> real \<Rightarrow> json dict \<Rightarrow> ('w, 'm) cfg_gateway_scheme \<Rightarrow>
     ('w, 'm) cfg_gateway_scheme" where
  "accept_config S mtime c g =
     g\<lparr>cfg_mem := (cfg_mem g)\<lparr>cfg_mtime := mtime\<rparr>,
       up_mem := (up_mem g)\<lparr>up_dynamic := allowed_upstreams S (server_urls c)\<rparr>\<rparr>"

text \<open>
  The body of the lock: \<open>_config\<close> is assigned as soon as the JSON is read, the signature is
  checked afterwards, and every way out returns \<open>_config\<close>.
\<close>

definition reload_config ::
  "engine \<Rightarrow> ('w, 'x) cfg_services_scheme \<Rightarrow> cfg_env \<Rightarrow> real \<Rightarrow> (('w, 'm) cfg_gateway_scheme, unit) io" where
  "reload_config E S env mtime g =
     (case on_world (cfg_read S) g of
        (Inl _, g1) \<Rightarrow> (Inr (), g1)
      | (Inr raw, g1) \<Rightarrow>
          (let decrypted = decrypt_bundle_bytes S env raw
           in case utf8_decode S decrypted of
                Inl e \<Rightarrow> (Inl e, g1)
              | Inr txt \<Rightarrow>
                  (case json_loads E txt of
                     Some (JObj c) \<Rightarrow>
                       (if signing_key_env env = [] then (Inr (), accept_config S mtime c (set_config c g1))
                        else let signature = or_default (str_of (dict_get c ''_signature'' (JStr ''''))) '''';
                                 c1 = AList.delete ''_signature'' c;
                                 g2 = set_config c1 g1
                        in if verify_signature S env (signed_part decrypted) signature
                           then (Inr (), accept_config S mtime c1 g2)
                           else (Inr (), g2))
                   | Some _ \<Rightarrow> (Inl AttributeError, g1)
                   | None \<Rightarrow> (Inr (), g1))))"

definition load_config ::
  "engine \<Rightarrow> ('w, 'x) cfg_services_scheme \<Rightarrow> cfg_env \<Rightarrow> (('w, 'm) cfg_gateway_scheme, json dict) io" where
  "load_config E S env g =
     (case on_world (cfg_getmtime S) g of
        (Inl _, g1) \<Rightarrow> (Inr (cfg_config (cfg_mem g1)), g1)
      | (Inr mtime, g1) \<Rightarrow>
          (if mtime \<noteq> cfg_mtime (cfg_mem g1) \<or> cfg_config (cfg_mem g1) = [] then
             (case reload_config E S env mtime g1 of
                (Inl e, g2) \<Rightarrow> (Inl e, g2)
              | (Inr _, g2) \<Rightarrow> (Inr (cfg_config (cfg_mem g2)), g2))
           else (Inr (cfg_config (cfg_mem g1)), g1)))"

definition get_config ::
  "engine \<Rightarrow> ('w, 'x) cfg_services_scheme \<Rightarrow> cfg_env \<Rightarrow> (('w, 'm) cfg_gateway_scheme, json dict) io" where
  "get_config E S env = load_config E S env"

section \<open>Reading the bundle\<close>

definition bool_of :: "json \<Rightarrow> bool option" where
  "bool_of v = (case v of JBool b \<Rightarrow> Some b | _ \<Rightarrow> None)"

definition int_of :: "json \<Rightarrow> int option" where
  "int_of v = (case v of JInt i \<Rightarrow> Some i | _ \<Rightarrow> None)"

definition server_of :: "json \<Rightarrow> server" where
  "server_of v =
     (let s = (\<lambda>k. str_of (jget_or_null v k)); b = (\<lambda>k. bool_of (jget_or_null v k)); i = (\<lambda>k. int_of (jget_or_null v k))
      in \<lparr>s_id = or_default (i ''id'') 0, s_team_id = or_default (i ''team_id'') 0,
          s_name = or_default (s ''name'') '''', s_namespace = s ''namespace'',
          s_url = or_default (s ''url'') '''', s_enabled = b ''enabled'',
          s_transport_type = s ''transport_type'', s_auth_type = s ''auth_type'',
          s_auth_header = s ''auth_header'', s_auth_secret = s ''auth_secret'',
          s_verify_tls = b ''verify_tls'', s_timeout_ms = i ''timeout_ms''\<rparr>)"

definition config_servers :: "json dict \<Rightarrow> server list" where
  "config_servers c = map server_of (servers_of c)"

definition is_configured :: "json dict \<Rightarrow> bool" where
  "is_configured c \<longleftrightarrow> 0 < length (config_servers c)"

definition enabled_servers :: "json dict \<Rightarrow> server list" where
  "enabled_servers c = filter (\<lambda>s. or_default (s_enabled s) True) (config_servers c)"

definition server_by_namespace :: "json dict \<Rightarrow> string \<Rightarrow> server option" where
  "server_by_namespace c ns = List.find (\<lambda>s. s_namespace s = Some ns) (enabled_servers c)"

definition team_servers :: "json dict \<Rightarrow> int \<Rightarrow> server list" where
  "team_servers c team = filter (\<lambda>s. s_team_id s = team) (enabled_servers c)"

definition server_by_id :: "json dict \<Rightarrow> int \<Rightarrow> server option" where
  "server_by_id c sid = List.find (\<lambda>s. s_id s = sid) (enabled_servers c)"

definition allowed_origins :: "json dict \<Rightarrow> string list" where
  "allowed_origins c =
     (case dict_get c ''allowed_origins'' (JList []) of
        JList xs \<Rightarrow> List.map_filter str_of xs | _ \<Rightarrow> [])"

text \<open>\<open>check_origin\<close>: requests without an \<open>Origin\<close> come from non-browser clients.\<close>

definition check_origin :: "json dict \<Rightarrow> string \<Rightarrow> bool" where
  "check_origin c origin = (origin = [] \<or> origin \<in> set (allowed_origins c))"

end
