(* ===== verification/JsonReader.thy ===== *)
theory JsonReader imports ConfigLoader "HOL-Library.Multiset" begin

text \<open>
  \<open>json.loads\<close> against the grammar of JSON texts.  \<open>value_text v s\<close> says that \<open>s\<close> is a text of the
  value \<open>v\<close>, with white space of any kind between the tokens; the reader accepts every such text
  and returns the value.  The compact form of \<open>json.dumps\<close> (sessions, catalogs) and the indented
  one of the config bundle are both such texts.

  \<open>json_ok\<close> is what survives the trip: keys of an object are distinct, integers stay within the
  4300 digits Python reads, and floats have a text that reads back, which \<open>repr\<close> guarantees.
\<close>

section \<open>Characters and strings\<close>

lemma hex_val_digit: "d < 16 \<Longrightarrow> hex_val (hex_digit d) = Some d"
  by (auto simp: hex_val_def hex_digit_def ord_def Let_def)

lemma read_u_escape: "read_u (drop 2 (u_escape c) @ r) = Some (c, r)"
proof -
  have "ord c < 256" by (simp add: ord_def)
  then have "ord c div 16 < 16" "ord c mod 16 < 16" by simp_all
  then show ?thesis by (simp add: u_escape_def hex_val_digit ord_def)
qed

lemma char_of_ord_id: "char_of (ord c) = c"
  by (simp add: ord_def)

lemma simple_escape_of:
  assumes "ord c \<in> {8, 9, 10, 12, 13} \<or> c = double_quote \<or> c = backslash"
  shows "json_char c = [backslash, json_char c ! 1] \<and> json_char c ! 1 \<noteq> CHR ''u'' \<and>
    simple_escape (json_char c ! 1) = Some c"
proof -
  consider "c = double_quote" | "c = backslash" | "c = char_of (8::nat)" | "c = char_of (9::nat)"
    | "c = char_of (10::nat)" | "c = char_of (12::nat)" | "c = char_of (13::nat)"
    using assms char_of_ord_id [of c] by auto
  then show ?thesis by cases (simp_all only:, code_simp+)
qed

lemma read_str_char:
  assumes "read_str n r = Some (s, q)"
  shows "read_str (Suc n) (json_char c @ r) = Some (c # s, q)"
proof (cases "ord c \<in> {8, 9, 10, 12, 13} \<or> c = double_quote \<or> c = backslash")
  case True
  then obtain e where "json_char c = [backslash, e]" "e \<noteq> CHR ''u''" "simple_escape e = Some c"
    using simple_escape_of by blast
  with assms show ?thesis by (simp add: backslash_def double_quote_def)
next
  case False
  show ?thesis
  proof (cases "ord c < 32 \<or> 126 < ord c")
    case True
    with False have "json_char c = backslash # CHR ''u'' # drop 2 (u_escape c)"
      by (auto simp: json_char_def u_escape_def)
    with assms read_u_escape [of c r] show ?thesis by (simp add: backslash_def double_quote_def)
  next
    case c: False
    with False have "json_char c = [c]" by (auto simp: json_char_def)
    with False c assms show ?thesis by simp
  qed
qed

lemma json_char_pos: "0 < length (json_char c)"
  by (auto simp: json_char_def u_escape_def)

lemma read_str_body:
  "length s < n \<Longrightarrow> read_str n (concat (map json_char s) @ double_quote # q) = Some (s, q)"
proof (induction s arbitrary: n)
  case Nil
  then show ?case by (cases n) simp_all
next
  case (Cons c s)
  then obtain m where "n = Suc m" "length s < m" by (cases n) auto
  with read_str_char [OF Cons.IH] show ?case by simp
qed

lemma body_length: "length s \<le> length (concat (map json_char s))"
proof (induction s)
  case (Cons c s)
  with json_char_pos [of c] show ?case by (simp del: length_greater_0_conv)
qed simp

lemma read_str_json:
  "length (concat (map json_char s)) < n \<Longrightarrow>
     read_str n (concat (map json_char s) @ double_quote # q) = Some (s, q)"
  using body_length [of s] by (intro read_str_body) simp

section \<open>Numbers\<close>

definition ends_number :: "string \<Rightarrow> bool" where
  "ends_number q = (case q of [] \<Rightarrow> True | c # _ \<Rightarrow> c \<in> set '',]}'' \<or> json_space c)"

lemma ends_number_head:
  assumes "ends_number (c # q)"
  shows "\<not> py_isdecimal c" "c \<noteq> CHR ''.''" "c \<noteq> CHR ''e''" "c \<noteq> CHR ''E''"
  using assms by (auto simp: ends_number_def json_space_def py_isdecimal_def ord_def)

lemma takeWhile_digits:
  assumes "\<And>c. c \<in> set s \<Longrightarrow> py_isdecimal c" and "ends_number q"
  shows "takeWhile py_isdecimal (s @ q) = s" "dropWhile py_isdecimal (s @ q) = q"
  using assms ends_number_head by (cases q; simp add: takeWhile_append dropWhile_append)+

lemma number_tail:
  assumes "ends_number q"
  shows "frac_part q = ([], q)" "exp_part q = ([], q)"
  using assms ends_number_head by (cases q; simp add: frac_part_def exp_part_def)+

lemma nat_str_zero: "nat_str n = CHR ''0'' # r \<Longrightarrow> n = 0 \<and> r = []"
proof (induction n arbitrary: r rule: nat_str.induct)
  case (1 n)
  show ?case
  proof (cases "n < 10")
    case True
    with "1.prems" have "digit_char n = CHR ''0''" "r = []" by (simp_all add: nat_str.simps [of n])
    moreover have "digit_val CHR ''0'' = 0" by (simp add: digit_val_def ord_def)
    ultimately show ?thesis using digit_val_char [OF True] by simp
  next
    case False
    with "1.prems" obtain r' where "nat_str (n div 10) = CHR ''0'' # r'"
      by (cases "nat_str (n div 10)") (auto simp: nat_str.simps [of n])
    with False "1.IH" show ?thesis by fastforce
  qed
qed

lemma int_part_nat_str:
  assumes "ends_number q"
  shows "int_part (nat_str n @ q) = Some (nat_str n, q)"
proof (cases "nat_str n")
  case (Cons c r)
  show ?thesis
  proof (cases "c = CHR ''0''")
    case True
    with Cons nat_str_zero [where n = n and r = r] have "r = []" by simp
    with Cons True show ?thesis by (simp add: int_part_def)
  next
    case False
    have "py_isdecimal c" using nat_str_decimal [of c n] Cons by simp
    with False Cons takeWhile_digits [OF nat_str_decimal [of _ n] assms] show ?thesis by (simp add: int_part_def)
  qed
qed simp

definition int_fits :: "int \<Rightarrow> bool" where
  "int_fits i \<longleftrightarrow> length (nat_str (nat \<bar>i\<bar>)) \<le> 4300"

lemma digits_to_int_nat_str:
  "length (nat_str n) \<le> 4300 \<Longrightarrow> digits_to_int (nat_str n) = Some (int n)"
  using int_digits_decimal [of "nat_str n", OF _ nat_str_decimal] by (simp add: digits_to_int_def)

lemma nat_str_head: "nat_str n = c # r \<Longrightarrow> c \<noteq> CHR ''-''"
  using nat_str_decimal [of c n] decimal_not_minus [of c] by simp

lemma read_number_int:
  assumes "int_fits i" and "ends_number q"
  shows "read_number E (int_str i @ q) = Some (JInt i, q)"
proof (cases "i < 0")
  case True
  with assms show ?thesis
    by (simp add: int_str_def int_fits_def read_number_def int_part_nat_str number_tail digits_to_int_nat_str)
next
  case False
  obtain c r where c: "nat_str (nat i) = c # r" by (cases "nat_str (nat i)") simp_all
  with False assms int_part_nat_str [OF assms(2), of "nat i"] nat_str_head [OF c] show ?thesis
    by (simp add: int_str_def int_fits_def read_number_def number_tail digits_to_int_nat_str [of "nat i", unfolded c])
qed

section \<open>The texts of a value\<close>

definition white :: "string \<Rightarrow> bool" where
  "white w \<longleftrightarrow> list_all json_space w"

definition reads_back :: "engine \<Rightarrow> real \<Rightarrow> bool" where
  "reads_back E r \<longleftrightarrow>
     (\<exists>c cs. float_repr E r = c # cs \<and> (py_isdecimal c \<or> c = CHR ''-'')) \<and>
     (\<forall>q. ends_number q \<longrightarrow> read_number E (float_repr E r @ q) = Some (JFloat r, q))"

inductive value_text :: "engine \<Rightarrow> json \<Rightarrow> string \<Rightarrow> bool"
  and items_text :: "engine \<Rightarrow> json list \<Rightarrow> string \<Rightarrow> bool"
  and members_text :: "engine \<Rightarrow> json dict \<Rightarrow> string \<Rightarrow> bool" for E where
  text_null: "value_text E JNull ''null''"
| text_bool: "value_text E (JBool b) (if b then ''true'' else ''false'')"
| text_int: "int_fits i \<Longrightarrow> value_text E (JInt i) (int_str i)"
| text_float: "reads_back E r \<Longrightarrow> value_text E (JFloat r) (float_repr E r)"
| text_str: "value_text E (JStr s) (json_str s)"
| text_nil: "white w \<Longrightarrow> value_text E (JList []) (''['' @ w @ '']'')"
| text_list: "white w \<Longrightarrow> items_text E xs t \<Longrightarrow> value_text E (JList xs) (''['' @ w @ t)"
| text_empty: "white w \<Longrightarrow> value_text E (JObj []) (''{'' @ w @ ''}'')"
| text_obj: "white w \<Longrightarrow> distinct (map fst d) \<Longrightarrow> members_text E d t \<Longrightarrow> value_text E (JObj d) (''{'' @ w @ t)"
| item_last: "value_text E v s \<Longrightarrow> white w \<Longrightarrow> items_text E [v] (s @ w @ '']'')"
| item_more: "value_text E v s \<Longrightarrow> white w \<Longrightarrow> white w1 \<Longrightarrow> items_text E vs t \<Longrightarrow>
    items_text E (v # vs) (s @ w @ '','' @ w1 @ t)"
| member_last: "white w \<Longrightarrow> white w1 \<Longrightarrow> value_text E v s \<Longrightarrow> white w2 \<Longrightarrow>
    members_text E [(k, v)] (json_str k @ w @ '':'' @ w1 @ s @ w2 @ ''}'')"
| member_more: "white w \<Longrightarrow> white w1 \<Longrightarrow> value_text E v s \<Longrightarrow> white w2 \<Longrightarrow> white w3 \<Longrightarrow> members_text E d t \<Longrightarrow>
    members_text E ((k, v) # d) (json_str k @ w @ '':'' @ w1 @ s @ w2 @ '','' @ w3 @ t)"

lemmas text_induct = value_text_items_text_members_text.inducts

section \<open>Reading them\<close>

lemma skip_white: "white w \<Longrightarrow> skip_ws (w @ s) = skip_ws s"
  by (induction w) (auto simp: white_def skip_ws_def)

lemma skip_none: "\<not> json_space c \<Longrightarrow> skip_ws (c # s) = c # s"
  by (simp add: skip_ws_def)

lemma ends_number_white: "white w \<Longrightarrow> c \<in> set '',]}'' \<Longrightarrow> ends_number (w @ c # q)"
  by (cases w) (auto simp: ends_number_def white_def)

lemma json_str_append: "json_str s @ q = double_quote # concat (map json_char s) @ double_quote # q"
  by (simp add: json_str_def)

lemma double_quote_eq: "double_quote = CHR 0x22"
  by code_simp

text \<open>The first character of a value: no white space and no closing bracket.\<close>

definition head_ok :: "char \<Rightarrow> bool" where
  "head_ok c \<longleftrightarrow> \<not> json_space c \<and> c \<notin> set '']},:''"

lemma number_head:
  assumes "py_isdecimal c \<or> c = CHR ''-''"
  shows "head_ok c \<and> c \<noteq> double_quote \<and> c \<notin> set ''{[ntf''"
  using assms by (auto simp: head_ok_def json_space_def py_isdecimal_def ord_def double_quote_eq)

lemma int_str_head: "\<exists>c r. int_str i = c # r \<and> (py_isdecimal c \<or> c = CHR ''-'')"
proof (cases "i < 0")
  case False
  obtain c r where "nat_str (nat i) = c # r" by (cases "nat_str (nat i)") simp_all
  with False nat_str_decimal [of c "nat i"] show ?thesis by (simp add: int_str_def)
qed (simp add: int_str_def)

lemma value_text_head:
  assumes "value_text E v s"
  shows "\<exists>c r. s = c # r \<and> head_ok c"
  using assms
proof (cases rule: value_text.cases)
  case (text_int i)
  then show ?thesis using int_str_head [of i] number_head by blast
next
  case (text_float r)
  then show ?thesis using number_head unfolding reads_back_def by blast
qed (simp_all add: json_str_def head_ok_def json_space_def double_quote_eq ord_def)

lemma read_value_number:
  assumes "py_isdecimal c \<or> c = CHR ''-''"
  shows "read_value E (Suc n) (c # r) = read_number E (c # r)"
  using number_head [OF assms] by simp

lemma items_text_head:
  assumes "items_text E xs t"
  shows "\<exists>c r. t = c # r \<and> head_ok c"
  using assms by cases (auto dest: value_text_head)

lemma members_text_head:
  assumes "members_text E d t"
  shows "\<exists>r. t = double_quote # r"
  using assms by cases (auto simp: json_str_def)

lemma head_ok_facts:
  assumes "head_ok c"
  shows "skip_ws (c # r) = c # r" "c \<noteq> CHR '']''" "c \<noteq> CHR ''}''"
  using assms by (auto simp: head_ok_def skip_none)

lemma closing_facts:
  "skip_ws (CHR '']'' # r) = CHR '']'' # r" "skip_ws (CHR ''}'' # r) = CHR ''}'' # r"
  "skip_ws (CHR '','' # r) = CHR '','' # r" "skip_ws (CHR '':'' # r) = CHR '':'' # r"
  "skip_ws (double_quote # r) = double_quote # r" "skip_ws (CHR 0x22 # r) = CHR 0x22 # r"
  by (simp_all add: skip_ws_def json_space_def ord_def double_quote_eq)

lemmas reading = skip_white closing_facts double_quote_eq

text \<open>The reader on one token of an array or object.\<close>

lemma read_list:
  assumes "white w" "items_text E xs t" "read_items E n (t @ q) = Some (xs, q)"
  shows "read_value E (Suc n) (CHR ''['' # w @ t @ q) = Some (JList xs, q)"
  using items_text_head [OF assms(2)] assms(1,3)
  by (auto simp: skip_white head_ok_facts double_quote_eq)

lemma read_obj:
  assumes "white w" "members_text E d t" "read_members E n (t @ q) [] = Some (d, q)"
  shows "read_value E (Suc n) (CHR ''{'' # w @ t @ q) = Some (JObj d, q)"
  using members_text_head [OF assms(2)] assms(1,3) by (auto simp: reading)

lemma read_member:
  assumes "white w" "white w1" "value_text E v s"
    and "read_value E n (s @ q) = Some (v, q)"
  shows "read_members E (Suc n) (json_str k @ w @ '':'' @ w1 @ s @ q) m =
    (case skip_ws q of
       [] \<Rightarrow> None
     | d # q3 \<Rightarrow>
         if d = CHR ''}'' then Some (AList.update k v m, q3)
         else if d = CHR '','' then read_members E n (skip_ws q3) (AList.update k v m)
         else None)"
proof -
  obtain c r where s: "s = c # r" "head_ok c" using value_text_head [OF assms(3)] by blast
  then have "skip_ws (w1 @ s @ q) = s @ q" using assms(2) by (simp add: skip_white head_ok_facts)
  with assms(1,4) show ?thesis
    by (simp add: json_str_append read_str_json skip_white closing_facts del: read_str.simps)
qed

definition put_all :: "json dict \<Rightarrow> json dict \<Rightarrow> json dict" where
  "put_all m d = foldl (\<lambda>m (k, v). AList.update k v m) m d"

lemma update_new: "k \<notin> fst ` set m \<Longrightarrow> AList.update k v m = m @ [(k, v)]"
  by (induction m) auto

lemma put_all_distinct: "distinct (map fst (m @ d)) \<Longrightarrow> put_all m d = m @ d"
proof (induction d arbitrary: m)
  case (Cons p d)
  obtain k v where p: "p = (k, v)" by (cases p)
  with Cons.prems have "k \<notin> fst ` set m" "distinct (map fst ((m @ [(k, v)]) @ d))" by auto
  with Cons.IH [of "m @ [(k, v)]"] p show ?case by (simp add: put_all_def update_new)
qed (simp add: put_all_def)

lemma put_all_Nil: "distinct (map fst d) \<Longrightarrow> put_all [] d = d"
  using put_all_distinct [of "[]" d] by simp

lemma text_read:
  "value_text E v s \<Longrightarrow> \<forall>n q. length s \<le> n \<longrightarrow> ends_number q \<longrightarrow> read_value E n (s @ q) = Some (v, q)"
  "items_text E xs t \<Longrightarrow> \<forall>n q. length t \<le> n \<longrightarrow> read_items E n (t @ q) = Some (xs, q)"
  "members_text E d t' \<Longrightarrow> \<forall>n q m. length t' \<le> n \<longrightarrow> read_members E n (t' @ q) m = Some (put_all m d, q)"
proof (induction rule: text_induct)
  case text_null
  show ?case
  proof (intro allI impI)
    fix n :: nat and q assume "length ''null'' \<le> n"
    then obtain m where "n = Suc m" by (cases n) auto
    then show "read_value E n (''null'' @ q) = Some (JNull, q)" by (simp add: double_quote_eq)
  qed
next
  case (text_bool b)
  show ?case
  proof (intro allI impI)
    fix n :: nat and q assume "length (if b then ''true'' else ''false'') \<le> n"
    then obtain m where "n = Suc m" by (cases n) (auto split: if_splits)
    then show "read_value E n ((if b then ''true'' else ''false'') @ q) = Some (JBool b, q)"
      by (simp add: double_quote_eq)
  qed
next
  case (text_int i)
  show ?case
  proof (intro allI impI)
    fix n q assume n: "length (int_str i) \<le> n" and q: "ends_number q"
    obtain c r where c: "int_str i = c # r" "py_isdecimal c \<or> c = CHR ''-''" using int_str_head by blast
    with n obtain m where "n = Suc m" by (cases n) auto
    with c read_value_number [OF c(2), of E m "r @ q"] read_number_int [OF text_int q, of E]
    show "read_value E n (int_str i @ q) = Some (JInt i, q)" by simp
  qed
next
  case (text_float r)
  show ?case
  proof (intro allI impI)
    fix n q assume n: "length (float_repr E r) \<le> n" and q: "ends_number q"
    obtain c cs where c: "float_repr E r = c # cs" "py_isdecimal c \<or> c = CHR ''-''"
      using text_float unfolding reads_back_def by blast
    with n obtain m where "n = Suc m" by (cases n) auto
    moreover have "read_number E (float_repr E r @ q) = Some (JFloat r, q)"
      using text_float q unfolding reads_back_def by blast
    ultimately show "read_value E n (float_repr E r @ q) = Some (JFloat r, q)"
      using c read_value_number [OF c(2), of E m "cs @ q"] by simp
  qed
next
  case (text_str s)
  show ?case
  proof (intro allI impI)
    fix n q assume "length (json_str s) \<le> n"
    then obtain m where "n = Suc m" by (cases n) (auto simp: json_str_def)
    then show "read_value E n (json_str s @ q) = Some (JStr s, q)"
      by (simp add: json_str_append read_str_json del: read_str.simps)
  qed
next
  case (text_nil w)
  show ?case
  proof (intro allI impI)
    fix n q assume "length (''['' @ w @ '']'') \<le> n"
    then obtain m where "n = Suc m" by (cases n) auto
    with text_nil show "read_value E n ((''['' @ w @ '']'') @ q) = Some (JList [], q)" by (simp add: reading)
  qed
next
  case (text_empty w)
  show ?case
  proof (intro allI impI)
    fix n q assume "length (''{'' @ w @ ''}'') \<le> n"
    then obtain m where "n = Suc m" by (cases n) auto
    with text_empty show "read_value E n ((''{'' @ w @ ''}'') @ q) = Some (JObj [], q)" by (simp add: reading)
  qed
next
  case (text_list w xs t)
  show ?case
  proof (intro allI impI)
    fix n q assume "length (''['' @ w @ t) \<le> n"
    then obtain m where m: "n = Suc m" "length t \<le> m" by (cases n) auto
    with text_list have "read_items E m (t @ q) = Some (xs, q)" by blast
    with read_list [OF \<open>white w\<close> \<open>items_text E xs t\<close>] m show "read_value E n ((''['' @ w @ t) @ q) = Some (JList xs, q)" by simp
  qed
next
  case (text_obj w d t)
  show ?case
  proof (intro allI impI)
    fix n q assume "length (''{'' @ w @ t) \<le> n"
    then obtain m where m: "n = Suc m" "length t \<le> m" by (cases n) auto
    with text_obj have "read_members E m (t @ q) [] = Some (d, q)" by (simp add: put_all_Nil)
    with read_obj [OF \<open>white w\<close> \<open>members_text E d t\<close>] m show "read_value E n ((''{'' @ w @ t) @ q) = Some (JObj d, q)" by simp
  qed
next
  case (item_last v s w)
  show ?case
  proof (intro allI impI)
    fix n q assume "length (s @ w @ '']'') \<le> n"
    then obtain m where m: "n = Suc m" "length s \<le> m" by (cases n) auto
    with item_last have "read_value E m (s @ w @ CHR '']'' # q) = Some (v, w @ CHR '']'' # q)"
      by (simp add: ends_number_white)
    with m \<open>white w\<close> show "read_items E n ((s @ w @ '']'') @ q) = Some ([v], q)" by (simp add: reading)
  qed
next
  case (item_more v s w w1 vs t)
  obtain c r where t: "t = c # r" "head_ok c" using items_text_head [OF \<open>items_text E vs t\<close>] by blast
  show ?case
  proof (intro allI impI)
    fix n q assume "length (s @ w @ '','' @ w1 @ t) \<le> n"
    then obtain m where m: "n = Suc m" "length s \<le> m" "length t \<le> m" by (cases n) auto
    with item_more have "read_value E m (s @ w @ CHR '','' # w1 @ t @ q) = Some (v, w @ CHR '','' # w1 @ t @ q)"
      by (simp add: ends_number_white)
    moreover have "skip_ws (w1 @ t @ q) = t @ q" using t \<open>white w1\<close> by (simp add: skip_white head_ok_facts)
    moreover have "read_items E m (t @ q) = Some (vs, q)" using item_more m(3) by blast
    ultimately show "read_items E n ((s @ w @ '','' @ w1 @ t) @ q) = Some (v # vs, q)"
      using m(1) \<open>white w\<close> by (simp add: skip_white closing_facts)
  qed
next
  case (member_last w w1 v s w2 k)
  show ?case
  proof (intro allI impI)
    fix n q m assume "length (json_str k @ w @ '':'' @ w1 @ s @ w2 @ ''}'') \<le> n"
    then obtain l where l: "n = Suc l" "length s \<le> l" by (cases n) auto
    with member_last have "read_value E l (s @ w2 @ CHR ''}'' # q) = Some (v, w2 @ CHR ''}'' # q)"
      by (simp add: ends_number_white)
    from read_member [OF \<open>white w\<close> \<open>white w1\<close> \<open>value_text E v s\<close> this, of k m] l(1) \<open>white w2\<close>
    show "read_members E n ((json_str k @ w @ '':'' @ w1 @ s @ w2 @ ''}'') @ q) m = Some (put_all m [(k, v)], q)"
      by (simp add: skip_white closing_facts put_all_def)
  qed
next
  case (member_more w w1 v s w2 w3 d t k)
  obtain r where t: "t = double_quote # r" using members_text_head [OF \<open>members_text E d t\<close>] by blast
  show ?case
  proof (intro allI impI)
    fix n q m assume "length (json_str k @ w @ '':'' @ w1 @ s @ w2 @ '','' @ w3 @ t) \<le> n"
    then obtain l where l: "n = Suc l" "length s \<le> l" "length t \<le> l" by (cases n) auto
    with member_more have "read_value E l (s @ w2 @ CHR '','' # w3 @ t @ q) = Some (v, w2 @ CHR '','' # w3 @ t @ q)"
      by (simp add: ends_number_white)
    note step = read_member [OF \<open>white w\<close> \<open>white w1\<close> \<open>value_text E v s\<close> this, of k m]
    have "skip_ws (w3 @ t @ q) = t @ q" using t \<open>white w3\<close> by (simp add: skip_white closing_facts)
    moreover have "read_members E l (t @ q) (AList.update k v m) = Some (put_all (AList.update k v m) d, q)"
      using member_more l(3) by blast
    ultimately show "read_members E n ((json_str k @ w @ '':'' @ w1 @ s @ w2 @ '','' @ w3 @ t) @ q) m =
        Some (put_all m ((k, v) # d), q)"
      using step l(1) \<open>white w2\<close> by (simp add: skip_white closing_facts put_all_def)
  qed
qed

text \<open>The reader accepts every text of a value, with white space around it.\<close>

lemma json_loads_text:
  assumes "value_text E v s" and "white w" "white w1"
  shows "json_loads E (w @ s @ w1) = Some v"
proof -
  obtain c r where s: "s = c # r" "head_ok c" using value_text_head [OF assms(1)] by blast
  have "ends_number w1" using assms(3) by (cases w1) (auto simp: ends_number_def white_def)
  with text_read(1) [OF assms(1)] have "read_value E (2 * length (w @ s @ w1) + 1) (s @ w1) = Some (v, w1)" by simp
  moreover have "skip_ws (w @ s @ w1) = s @ w1" using s assms(2) by (simp add: skip_white head_ok_facts)
  moreover have "skip_ws w1 = []" using assms(3) skip_white [of w1 "[]"] by (simp add: skip_ws_def)
  ultimately show ?thesis by (simp add: json_loads_def)
qed

section \<open>The writers\<close>

fun json_ok :: "engine \<Rightarrow> json \<Rightarrow> bool" where
  "json_ok E (JInt i) = int_fits i"
| "json_ok E (JFloat r) = reads_back E r"
| "json_ok E (JList xs) = list_all (json_ok E) xs"
| "json_ok E (JObj d) = (distinct (map fst d) \<and> list_all (\<lambda>(k, v). json_ok E v) d)"
| "json_ok E v = True"

lemma white_simps [simp]: "white []" "white (c # w) \<longleftrightarrow> json_space c \<and> white w" "white (v @ w) \<longleftrightarrow> white v \<and> white w"
  by (simp_all add: white_def)

lemma json_space_simps [simp]: "json_space CHR '' ''" "json_space newline"
  by code_simp+

lemma white_indent [simp]: "white (indent n)"
  by (simp add: indent_def white_def list_all_iff)

lemma items_join:
  "(\<And>x. x \<in> set xs \<Longrightarrow> value_text E x (f x)) \<Longrightarrow> xs \<noteq> [] \<Longrightarrow> white w \<Longrightarrow> white w1 \<Longrightarrow>
     items_text E xs (join (CHR '','' # w1) (map f xs) @ w @ '']'')"
proof (induction xs)
  case (Cons x xs)
  then have x: "value_text E x (f x)" by simp
  show ?case
  proof (cases xs)
    case Nil
    with Cons.prems x item_last [OF x, of w] show ?thesis by simp
  next
    case (Cons y ys)
    with Cons.IH Cons.prems item_more [OF x, of "[]" w1 xs "join (CHR '','' # w1) (map f xs) @ w @ '']''"]
    show ?thesis by simp
  qed
qed simp

definition member_str :: "(json \<Rightarrow> string) \<Rightarrow> string \<times> json \<Rightarrow> string" where
  "member_str f p = json_str (fst p) @ '': '' @ f (snd p)"

lemma members_join:
  "(\<And>k v. (k, v) \<in> set d \<Longrightarrow> value_text E v (f v)) \<Longrightarrow> d \<noteq> [] \<Longrightarrow> white w \<Longrightarrow> white w1 \<Longrightarrow>
     members_text E d (join (CHR '','' # w1) (map (member_str f) d) @ w @ ''}'')"
proof (induction d)
  case (Cons p d)
  obtain k v where p: "p = (k, v)" by (cases p)
  then have x: "value_text E v (f v)" using Cons.prems(1) [of k v] by simp
  show ?case
  proof (cases d)
    case Nil
    with Cons.prems p member_last [of "[]" "'' ''", OF _ _ x, of w k] show ?thesis by (simp add: member_str_def)
  next
    case (Cons y ys)
    have w: "white w" "white w1" using Cons.prems by simp_all
    have "value_text E v' (f v')" if "(k', v') \<in> set d" for k' v'
      using Cons.prems(1) [of k' v'] that by simp
    with w Cons.IH Cons have "members_text E d (join (CHR '','' # w1) (map (member_str f) d) @ w @ ''}'')" by simp
    from member_more [of "[]" "'' ''", OF _ _ x _ w(2) this, of "[]" k] p Cons
    show ?thesis by (simp add: member_str_def [of f "(k, v)"])
  qed
qed simp

lemma dumps_text: "json_ok E v \<Longrightarrow> value_text E v (json_dumps E v)"
proof (induction v rule: json_ok.induct)
  case (3 E xs)
  show ?case
  proof (cases "xs = []")
    case True
    then show ?thesis using text_nil [of "[]" E] by simp
  next
    case False
    with 3 have "items_text E xs (join (CHR '','' # '' '') (map (json_dumps E) xs) @ [] @ '']'')"
      by (intro items_join) (auto simp: list_all_iff)
    from text_list [OF _ this, of "[]"] show ?thesis by simp
  qed
next
  case (4 E d)
  have m: "map (\<lambda>(k, v). json_str k @ '': '' @ json_dumps E v) d = map (member_str (json_dumps E)) d"
    by (auto simp: member_str_def)
  show ?case
  proof (cases "d = []")
    case True
    then show ?thesis using text_empty [of "[]" E] by simp
  next
    case False
    with 4 have "members_text E d (join (CHR '','' # '' '') (map (member_str (json_dumps E)) d) @ [] @ ''}'')"
      by (intro members_join) (auto simp: list_all_iff)
    from text_obj [OF _ _ this, of "[]"] "4.prems" show ?thesis unfolding json_dumps.simps m by simp
  qed
qed (auto intro: value_text_items_text_members_text.intros text_bool [of E True for E, simplified]
    text_bool [of E False for E, simplified])

lemma dumps_indent_text: "json_ok E v \<Longrightarrow> value_text E v (dumps_indent E n v)"
proof (induction E n v rule: dumps_indent.induct)
  case (1 E n d)
  have m: "map (\<lambda>(k, v). json_str k @ '': '' @ dumps_indent E (n + 1) v) d = map (member_str (dumps_indent E (n + 1))) d"
    by (auto simp: member_str_def)
  show ?case
  proof (cases "d = []")
    case True
    then show ?thesis using text_empty [of "[]" E] by simp
  next
    case False
    with 1 have "members_text E d (join (CHR '','' # indent (n + 1)) (map (member_str (dumps_indent E (n + 1))) d) @
        indent n @ ''}'')"
      by (intro members_join) (auto simp: list_all_iff)
    from text_obj [OF _ _ this, of "indent (n + 1)"] "1.prems" False show ?thesis unfolding dumps_indent.simps m by simp
  qed
next
  case (2 E n xs)
  show ?case
  proof (cases "xs = []")
    case True
    then show ?thesis using text_nil [of "[]" E] by simp
  next
    case False
    with 2 have "items_text E xs (join (CHR '','' # indent (n + 1)) (map (dumps_indent E (n + 1)) xs) @ indent n @ '']'')"
      by (intro items_join) (auto simp: list_all_iff)
    from text_list [OF _ this, of "indent (n + 1)"] False show ?thesis by simp
  qed
qed (simp_all add: dumps_text del: json_dumps.simps)

section \<open>Round trips\<close>


lemma reads_back_half: "reads_back literal_engine (1 / 2)"
  by (auto simp: reads_back_def literal_engine_def py_isdecimal_def read_number_def int_part_def frac_part_def
      number_tail takeWhile_digits [of "''5''", simplified] Let_def ord_def)


lemma json_ok_sort_keys: "json_ok E v \<Longrightarrow> json_ok E (sort_keys v)"
proof (induction E v rule: json_ok.induct)
  case (4 E d)
  have "distinct (map fst (map (\<lambda>(k, v). (k, sort_keys v)) d))"
    using "4.prems" by (simp add: case_prod_unfold o_def)
  then have "distinct (map fst (sort_key fst (map (\<lambda>(k, v). (k, sort_keys v)) d)))"
    by (metis mset_map mset_sort mset_eq_imp_distinct_iff)
  with 4 show ?case by (auto simp: list_all_iff)
qed (auto simp: list_all_iff)

text \<open>The gateway reads the bundle the backend writes: the indented text of the signed and sorted bundle
  is read back as that bundle.\<close>

theorem bundle_round_trip:
  assumes "json_ok E (JObj (sign_bundle E hmac key bundle))"
  shows "json_loads E (bundle_plaintext E hmac key bundle) = Some (sort_keys (JObj (sign_bundle E hmac key bundle)))"
  using json_loads_text [OF dumps_indent_text [OF json_ok_sort_keys [OF assms]], of "[]" "[]"]
  by (simp add: bundle_plaintext_def)

theorem bundle_round_trip_witness:
  "json_loads literal_engine (bundle_plaintext literal_engine (\<lambda>k s. k) ''key'' [(''version'', JInt 1)]) =
     Some (JObj [(''_signature'', JStr ''key''), (''version'', JInt 1)])"
proof -
  have "int_fits 1" by code_simp
  then have "json_ok literal_engine (JObj (sign_bundle literal_engine (\<lambda>k s. k) ''key'' [(''version'', JInt 1)]))"
    by (simp add: sign_bundle_def)
  moreover have "sort_keys (JObj (sign_bundle literal_engine (\<lambda>k s. k) ''key'' [(''version'', JInt 1)])) =
      JObj [(''_signature'', JStr ''key''), (''version'', JInt 1)]"
    by code_simp
  ultimately show ?thesis using bundle_round_trip by metis
qed

end
