(* ===== verification/Revocation.thy ===== *)
theory Revocation imports Sessions begin

text \<open>
  What a revocation achieves (\<open>mcp-gateway/revocation.py\<close>), over a store that keeps its contract
  \<open>kv_laws\<close>: \<open>K w k\<close> is the text under key \<open>k\<close>, and reading the clock does not change it (an
  identity's mark is stored without an expiry).
\<close>

definition kv_laws :: "('w, 'x) services_scheme \<Rightarrow> ('w \<Rightarrow> (string \<rightharpoonup> string)) \<Rightarrow> bool" where
  "kv_laws S K \<longleftrightarrow>
     (\<forall>w. \<exists>t w'. sv_time S w = (Inr t, w') \<and> K w' = K w) \<and>
     (\<forall>k w. vk_get S k w = (Inr (K w k), w)) \<and>
     (\<forall>k v w. \<exists>w'. vk_set S k v w = (Inr (), w') \<and> K w' = (K w)(k \<mapsto> v)) \<and>
     (\<forall>k n v w. \<exists>w'. vk_setex S k n v w = (Inr (), w') \<and> K w' = (K w)(k \<mapsto> v)) \<and>
     (\<forall>k w. \<exists>w'. vk_delete S k w = (Inr (), w') \<and> K w' = (K w)(k := None)) \<and>
     (\<forall>k w. vk_exists S k w = (Inr (if K w k = None then 0 else 1), w)) \<and>
     (\<forall>p w. \<exists>ks. vk_scan S p w = (Inr ks, w) \<and> (\<forall>k\<in>set ks. starts_with k (butlast p)))"

lemma kv_reads:
  assumes "kv_laws S K"
  shows "vk_get S k w = (Inr (K w k), w)" and "vk_exists S k w = (Inr (if K w k = None then 0 else 1), w)"
  using assms by (auto simp: kv_laws_def)

text \<open>Two stores that agree on everything but the sessions.\<close>

definition same_marks :: "(string \<rightharpoonup> string) \<Rightarrow> (string \<rightharpoonup> string) \<Rightarrow> bool" where
  "same_marks m m' \<longleftrightarrow> (\<forall>k. \<not> starts_with k SESSION_KEY_PREFIX \<longrightarrow> m' k = m k)"

lemma drop_session_marks:
  assumes laws: "kv_laws S K" and key: "starts_with k SESSION_KEY_PREFIX"
  shows "same_marks (K w) (K (snd (drop_session_of E S i k w)))"
proof -
  obtain w' where d: "vk_delete S k w = (Inr (), w')" "K w' = (K w)(k := None)"
    using laws unfolding kv_laws_def by blast
  have "K w' k' = K w k'" if "\<not> starts_with k' SESSION_KEY_PREFIX" for k'
    using d(2) key that by auto
  then show ?thesis
    by (auto simp: drop_session_of_def same_marks_def io_simps kv_reads [OF laws] d(1)
        split: option.splits json.splits)
qed

lemma drop_sessions_marks:
  assumes "kv_laws S K" and "\<forall>k\<in>set ks. starts_with k SESSION_KEY_PREFIX"
  shows "same_marks (K w) (K (snd (each_io (drop_session_of E S i) ks w)))"
  using assms(2)
proof (induction ks arbitrary: w)
  case Nil
  then show ?case by (simp add: return_io_def same_marks_def)
next
  case (Cons k ks)
  obtain r w1 where r: "drop_session_of E S i k w = (r, w1)" by fastforce
  with drop_session_marks [OF assms(1), of k w E i] Cons.prems have 1: "same_marks (K w) (K w1)" by simp
  with Cons.IH [of w1] Cons.prems r show ?case
    by (cases r) (auto simp: seq_io_def bind_io_def same_marks_def)
qed

lemma key_prefixes:
  "\<not> starts_with (identity_key i) SESSION_KEY_PREFIX" "\<not> starts_with (jti_key j) SESSION_KEY_PREFIX"
  by (simp_all add: identity_key_def jti_key_def SESSION_KEY_PREFIX_def)

lemma identity_key_inj: "identity_key i = identity_key j \<longleftrightarrow> i = j"
  by (simp add: identity_key_def)

lemma jti_not_identity: "jti_key j \<noteq> identity_key i"
  by (simp add: identity_key_def jti_key_def)

lemma revoke_identity_run:
  fixes g :: "('w, 'm) gateway_scheme"
  assumes laws: "kv_laws S K" and client: "MRevocation \<in> set (clients g)"
  shows "\<exists>(g1 :: ('w, 'm) gateway_scheme) v. revoke_identity E S i g = (Inr True, g1) \<and> clients g1 = clients g \<and>
    same_marks ((K (world g))(identity_key i \<mapsto> v)) (K (world g1))"
proof -
  obtain t w1 where t: "sv_time S (world g) = (Inr t, w1)" "K w1 = K (world g)"
    using laws unfolding kv_laws_def by blast
  obtain w2 where w2: "vk_set S (identity_key i) (float_repr E t) w1 = (Inr (), w2)"
      "K w2 = (K w1)(identity_key i \<mapsto> float_repr E t)"
    using laws unfolding kv_laws_def by blast
  obtain ks where ks: "vk_scan S ''mcp:sess:*'' w2 = (Inr ks, w2)" "\<forall>k\<in>set ks. starts_with k SESSION_KEY_PREFIX"
    using laws unfolding kv_laws_def SESSION_KEY_PREFIX_def by (metis butlast_snoc append_Cons append_Nil)
  obtain r w3 where w3: "each_io (drop_session_of E S i) ks w2 = (r, w3)" by fastforce
  have "same_marks (K w2) (K w3)" using drop_sessions_marks [OF laws ks(2), of w2 E i] w3 by simp
  moreover have "revoke_identity E S i g = (Inr True, g\<lparr>world := w3\<rparr>)"
    using client
    by (cases r) (simp_all add: revoke_identity_def revoke_identity_sessions_def get_client_def io_simps t w2 ks w3)
  ultimately show ?thesis using t w2 by auto
qed

lemma is_token_valid_marks:
  assumes "kv_laws S K" and "MRevocation \<in> set (clients g)"
  shows "is_token_valid S i jti g =
    (Inr (K (world g) (identity_key i) = None \<and>
      (case jti of None \<Rightarrow> True | Some t \<Rightarrow> t = [] \<or> K (world g) (jti_key t) = None)), g)"
  using assms(2)
  by (auto simp: is_token_valid_def is_identity_revoked_def is_jti_revoked_def get_client_def io_simps
      kv_reads [OF assms(1)] split: option.splits)

text \<open>C28: Revoking an identity takes effect at once and only on it: no token of the identity is valid
  afterwards, whatever its id, and the validity of every other identity's tokens is unchanged.\<close>

theorem revoked_identity_refused:
  fixes g :: "('w, 'm) gateway_scheme"
  assumes "kv_laws S K" and "MRevocation \<in> set (clients g)"
  shows "\<exists>g1 :: ('w, 'm) gateway_scheme. revoke_identity E S i g = (Inr True, g1) \<and>
    (\<forall>j jti. fst (is_token_valid S j jti g1) = (if j = i then Inr False else fst (is_token_valid S j jti g)))"
proof -
  obtain g1 :: "('w, 'm) gateway_scheme" and v where r: "revoke_identity E S i g = (Inr True, g1)" "clients g1 = clients g"
    "same_marks ((K (world g))(identity_key i \<mapsto> v)) (K (world g1))"
    using revoke_identity_run [OF assms] by blast
  have marks: "K (world g1) (identity_key j) = (if j = i then Some v else K (world g) (identity_key j))"
      "K (world g1) (jti_key t) = K (world g) (jti_key t)" for j t
    using r(3) by (auto simp: same_marks_def key_prefixes identity_key_inj jti_not_identity)
  have "MRevocation \<in> set (clients g1)" using assms(2) r(2) by simp
  then have "fst (is_token_valid S j jti g1) = (if j = i then Inr False else fst (is_token_valid S j jti g))" for j jti
    using assms(2) by (simp add: is_token_valid_marks [OF assms(1)] marks cong: option.case_cong)
  with r(1) show ?thesis by blast
qed

text \<open>Revocation fails open: without a connection to the store every token counts as valid.\<close>

lemma revocation_fails_open:
  assumes "fst (vk_connect S (world g)) = Inl e" and "MRevocation \<notin> set (clients g)"
  shows "fst (is_token_valid S i jti g) = Inr True"
proof -
  obtain w1 where "vk_connect S (world g) = (Inl e, w1)" using assms(1) by (metis prod.collapse)
  with assms(2) show ?thesis by (simp add: is_token_valid_def get_client_def io_simps)
qed

end
