(* ===== verification/App.thy ===== *)
theory App imports ConfigLoader begin

text \<open>
  The state of the whole gateway process: the modules' variables modelled elsewhere, the compiled
  rules, the catalog cache, the alert counters and the event log, and the services these use on
  top of the others (random identifiers, the clock as text, the log file, webhooks, SHA-256).

  The bundle's lists of policies, rules and skills are read off the JSON object by the
  \<open>*_of\<close> functions, as the servers are in \<open>ConfigLoader\<close>: a field that is absent, null or of
  another type is \<open>None\<close>.
\<close>

record alert_state =
  al_counters :: "real list dict"
  al_last :: "real dict"

record log_state =
  log_path :: "string option"
  log_payloads :: bool

record catalog_state =
  cat_cache :: "(int \<times> json) list"
  cat_hashes :: "(int \<times> string) list"
  cat_changed :: "int list"

record app_state =
  st_alerts :: alert_state
  st_log :: log_state
  st_catalog :: catalog_state
  st_policies :: "policy rule_module"
  st_dlp :: "dlp_rule rule_module"
  st_guardrails :: "gr_rule rule_module"
  st_skills :: "skill rule_module"

record 'w app_gateway = "'w cfg_gateway" +
  app_mem :: app_state

record 'w app_services = "'w cfg_services" +
  sv_uuid_hex :: "('w, string) io"
  sv_utc_iso :: "('w, string) io"
  append_line :: "string \<Rightarrow> string \<Rightarrow> ('w, unit) io"
  spawn_webhook :: "json \<Rightarrow> ('w, unit) io"
  sha256_hex :: "string \<Rightarrow> string"

definition modify_app :: "(app_state \<Rightarrow> app_state) \<Rightarrow> (('w, 'm) app_gateway_scheme, unit) io" where
  "modify_app f g = (Inr (), g\<lparr>app_mem := f (app_mem g)\<rparr>)"

definition query :: "('s \<Rightarrow> 'a) \<Rightarrow> ('s, 'a) io" where
  "query f g = (Inr (f g), g)"

lemmas [io_simps] = modify_app_def query_def

section \<open>Reading the rules of the bundle\<close>

definition list_of :: "json \<Rightarrow> json list option" where
  "list_of v = (case v of JList xs \<Rightarrow> Some xs | _ \<Rightarrow> None)"

definition str_at :: "json \<Rightarrow> string \<Rightarrow> string option" where
  "str_at v k = str_of (jget_or_null v k)"

definition int_at :: "json \<Rightarrow> string \<Rightarrow> int option" where
  "int_at v k = int_of (jget_or_null v k)"

definition bool_at :: "json \<Rightarrow> string \<Rightarrow> bool option" where
  "bool_at v k = bool_of (jget_or_null v k)"

definition list_at :: "json \<Rightarrow> string \<Rightarrow> json list option" where
  "list_at v k = list_of (jget_or_null v k)"

text \<open>The JSON form of an expression's node, to a given depth.\<close>

definition lit_of :: "json \<Rightarrow> lit option" where
  "lit_of v = (case v of JStr s \<Rightarrow> Some (LStr s) | JInt i \<Rightarrow> Some (LInt i) | JBool b \<Rightarrow> Some (LBool b)
     | _ \<Rightarrow> None)"

definition leaf_of :: "json \<Rightarrow> leaf option" where
  "leaf_of v =
     (let t = or_default (str_at v ''type'') ''''; f = or_default (str_at v ''field'') ''''
      in if t = ''compare'' then
           map_option (Compare f (or_default (str_at v ''op'') '''')) (lit_of (jget_or_null v ''value''))
         else if t = ''in_list'' then
           Some (InList f (or_default (str_at v ''list_type'') '''') (or_default (str_at v ''list_name'') ''''))
         else if t = ''in_literals'' then
           Some (InLiterals f (List.map_filter lit_of (or_default (list_at v ''values'') [])))
         else if t = ''exists'' then Some (Exists f)
         else if t = ''bool_field'' then Some (BoolField f)
         else if t = ''literal'' then Some (Literal (or_default (bool_at v ''value'') False))
         else None)"

fun all_some :: "'a option list \<Rightarrow> 'a list option" where
  "all_some [] = Some []"
| "all_some (None # xs) = None"
| "all_some (Some x # xs) = map_option ((#) x) (all_some xs)"

fun node_of :: "nat \<Rightarrow> json \<Rightarrow> ast option" where
  "node_of 0 v = None"
| "node_of (Suc n) v =
     (let t = str_at v ''type''
      in if t = Some ''and'' then map_option And (all_some (map (node_of n) (or_default (list_at v ''children'') [])))
         else if t = Some ''or'' then map_option Or (all_some (map (node_of n) (or_default (list_at v ''children'') [])))
         else if t = Some ''not'' then map_option Not (node_of n (jget_or_null v ''child''))
         else map_option (\<lambda>l. Leaf l (or_default (bool_at v ''negated'') False)) (leaf_of v))"

fun json_depth :: "json \<Rightarrow> nat" where
  "json_depth (JList xs) = Suc (foldr (\<lambda>x. max (json_depth x)) xs 0)"
| "json_depth (JObj d) = Suc (foldr (\<lambda>(k, x). max (json_depth x)) d 0)"
| "json_depth v = 1"

definition ast_of :: "json \<Rightarrow> ast option" where
  "ast_of v = node_of (json_depth v) v"

definition raw_policy_of :: "json \<Rightarrow> raw_policy" where
  "raw_policy_of v =
     \<lparr>rp_enabled = bool_at v ''enabled'', rp_name = str_at v ''name'',
      rp_expression = str_at v ''expression'', rp_expression_ast = ast_of (jget_or_null v ''expression_ast''),
      rp_priority = int_at v ''priority'', rp_action = str_at v ''action'',
      rp_log = bool_at v ''log'', rp_no_log = bool_at v ''no_log''\<rparr>"

definition dlp_raw_of :: "json \<Rightarrow> dlp_raw" where
  "dlp_raw_of v =
     \<lparr>dr_enabled = bool_at v ''enabled'', dr_name = str_at v ''name'', dr_detector = str_at v ''detector'',
      dr_find_regex = str_at v ''find_regex'', dr_priority = int_at v ''priority'',
      dr_direction = str_at v ''direction'', dr_action = str_at v ''action'',
      dr_token_prefix = str_at v ''token_prefix'', dr_token_ttl = int_at v ''token_ttl'',
      dr_apply_to = str_at v ''apply_to''\<rparr>"

definition gr_raw_of :: "json \<Rightarrow> gr_raw" where
  "gr_raw_of v =
     \<lparr>g_enabled = bool_at v ''enabled'', g_name = str_at v ''name'', g_pack = str_at v ''pack'',
      g_find_regex = str_at v ''find_regex'', g_priority = int_at v ''priority'',
      g_direction = str_at v ''direction'', g_action = str_at v ''action''\<rparr>"

definition raw_skill_of :: "json \<Rightarrow> raw_skill" where
  "raw_skill_of v =
     \<lparr>rs_id = jget_or_null v ''id'', rs_team_id = jget_or_null v ''team_id'', rs_name = str_at v ''name'',
      rs_description = jget_or_null v ''description'', rs_enabled = bool_at v ''enabled'',
      rs_enable_when = str_at v ''enable_when'', rs_enable_when_ast = ast_of (jget_or_null v ''enable_when_ast''),
      rs_tags = jget v ''tags'', rs_published_version_id = jget_or_null v ''published_version_id'',
      rs_published_body = jget_or_null v ''published_body'',
      rs_published_frontmatter = jget_or_null v ''published_frontmatter'',
      rs_published_files = map_option (map obj_entries) (list_at v ''published_files'')\<rparr>"

definition rules_at :: "(json \<Rightarrow> 'r) \<Rightarrow> json dict \<Rightarrow> string \<Rightarrow> 'r list option" where
  "rules_at f c k = map_option (map f) (list_at (JObj c) k)"

section \<open>Alerts\<close>

text \<open>
  \<open>mcp-gateway/alerting.py\<close>: the timestamps of each event type within the window; when they
  reach the type's threshold and the cooldown since the last alert has passed, a webhook is
  scheduled.  \<open>send_alert\<close> writes the log line in any case; only the webhook is modelled (the dash
  of its text has a code point above 255 and is written as a hyphen).
\<close>

record alert_env =
  al_thresholds :: "int dict"
  al_window :: int
  al_cooldown :: int
  al_webhook_url :: string

definition alert_message :: "alert_env \<Rightarrow> string \<Rightarrow> int \<Rightarrow> int \<Rightarrow> string" where
  "alert_message env event_type n threshold =
     ''MCP Gateway Alert: '' @ event_type @ '' threshold exceeded - '' @ int_str n @ '' events in '' @
     int_str (al_window env) @ ''s (threshold: '' @ int_str threshold @ '')''"

definition send_alert ::
  "('w, 'x) app_services_scheme \<Rightarrow> alert_env \<Rightarrow> string \<Rightarrow> int \<Rightarrow> int \<Rightarrow> ('w, unit) io" where
  "send_alert S env event_type n threshold =
     (if al_webhook_url env = [] then return_io ()
      else bind_io (sv_time S) (\<lambda>now. try_io (spawn_webhook S (JObj
        [(''text'', JStr (alert_message env event_type n threshold)), (''event_type'', JStr event_type),
         (''count'', JInt n), (''threshold'', JInt threshold), (''window_seconds'', JInt (al_window env)),
         (''timestamp'', JFloat now)])) (\<lambda>_. return_io ())))"

text \<open>The counters after an event at \<open>now\<close>, and whether it raises an alert.\<close>

definition count_event :: "alert_env \<Rightarrow> string \<Rightarrow> real \<Rightarrow> alert_state \<Rightarrow> alert_state" where
  "count_event env t now st =
     st\<lparr>al_counters := AList.update t
        (filter (\<lambda>x. now - real_of_int (al_window env) < x) (dict_get (al_counters st) t []) @ [now])
        (al_counters st)\<rparr>"

definition alert_due :: "alert_env \<Rightarrow> string \<Rightarrow> int \<Rightarrow> real \<Rightarrow> alert_state \<Rightarrow> bool" where
  "alert_due env t threshold now st \<longleftrightarrow>
     threshold \<le> int (length (dict_get (al_counters st) t [])) \<and>
     real_of_int (al_cooldown env) < now - dict_get (al_last st) t 0"

definition mark_alert :: "string \<Rightarrow> real \<Rightarrow> alert_state \<Rightarrow> alert_state" where
  "mark_alert t now st = st\<lparr>al_last := AList.update t now (al_last st)\<rparr>"

definition record_alert ::
  "('w, 'x) app_services_scheme \<Rightarrow> alert_env \<Rightarrow> string \<Rightarrow> (('w, 'm) app_gateway_scheme, unit) io" where
  "record_alert S env t =
     (let threshold = dict_get (al_thresholds env) t 0
      in if threshold \<le> 0 then return_io ()
         else bind_io (on_world (sv_time S)) (\<lambda>now.
           seq_io (modify_app (\<lambda>a. a\<lparr>st_alerts := count_event env t now (st_alerts a)\<rparr>))
             (bind_io (query (\<lambda>g. st_alerts (app_mem g))) (\<lambda>al.
                if alert_due env t threshold now al
                then seq_io (on_world (send_alert S env t (int (length (dict_get (al_counters al) t []))) threshold))
                       (modify_app (\<lambda>a. a\<lparr>st_alerts := mark_alert t now (st_alerts a)\<rparr>))
                else return_io ()))))"

section \<open>Alerts as a machine\<close>

text \<open>The timestamps of one type of event are a sliding log.\<close>

interpretation alerts: sliding_log "count_event env t" "\<lambda>st. dict_get (al_counters st) t []"
  "real_of_int (al_window env)" for env t
  by unfold_locales (simp add: count_event_def recent_def)

text \<open>One event of type \<open>t\<close> at \<open>now\<close>: whether it raises an alert, and the state afterwards.\<close>

definition alert_step :: "alert_env \<Rightarrow> string \<Rightarrow> real \<Rightarrow> alert_state \<Rightarrow> bool \<times> alert_state" where
  "alert_step env t now st =
     (let threshold = dict_get (al_thresholds env) t 0; st1 = count_event env t now st
      in if threshold \<le> 0 then (False, st)
         else if alert_due env t threshold now st1 then (True, mark_alert t now st1) else (False, st1))"

fun alert_times :: "alert_env \<Rightarrow> string \<Rightarrow> real list \<Rightarrow> alert_state \<Rightarrow> real list" where
  "alert_times env t [] st = []"
| "alert_times env t (now # ts) st =
     (case alert_step env t now st of (fired, st1) \<Rightarrow>
        (if fired then [now] else []) @ alert_times env t ts st1)"

text \<open>The code of \<open>record_event\<close> refines this machine: with a clock that never raises, it changes the
  alert state as one step at the clock's time and nothing else of the process; outside it only
  reads the clock, unless an alert fires and a webhook is configured.\<close>

theorem record_alert_refines:
  assumes clock: "\<And>w. \<exists>x w'. sv_time S w = (Inr x, w')"
    and now: "sv_time S (world g) = (Inr now, w1)"
  shows "fst (record_alert S env t g) = Inr () \<and>
    app_mem (snd (record_alert S env t g)) =
      (app_mem g)\<lparr>st_alerts := snd (alert_step env t now (st_alerts (app_mem g)))\<rparr> \<and>
    (fst (alert_step env t now (st_alerts (app_mem g))) \<and> al_webhook_url env \<noteq> [] \<or>
      world (snd (record_alert S env t g)) = (if dict_get (al_thresholds env) t 0 \<le> 0 then world g else w1))"
proof -
  have sent: "\<exists>w2. send_alert S env t n thr w = (Inr (), w2) \<and> (al_webhook_url env = [] \<longrightarrow> w2 = w)" for n thr w
  proof -
    obtain x w' where "sv_time S w = (Inr x, w')" using clock by blast
    then show ?thesis by (auto simp: send_alert_def io_simps split: prod.split sum.split)
  qed
  show ?thesis
  proof (cases "dict_get (al_thresholds env) t 0 \<le> 0")
    case True
    then show ?thesis by (simp add: record_alert_def alert_step_def io_simps Let_def)
  next
    case False
    let ?st1 = "count_event env t now (st_alerts (app_mem g))"
    show ?thesis
    proof (cases "alert_due env t (dict_get (al_thresholds env) t 0) now ?st1")
      case True
      obtain w2 where "send_alert S env t (int (length (dict_get (al_counters ?st1) t [])))
          (dict_get (al_thresholds env) t 0) w1 = (Inr (), w2)" "al_webhook_url env = [] \<longrightarrow> w2 = w1"
        using sent by blast
      with True False now show ?thesis
        by (simp add: record_alert_def alert_step_def io_simps Let_def)
    next
      case no: False
      with False now show ?thesis
        by (simp add: record_alert_def alert_step_def io_simps Let_def)
    qed
  qed
qed

lemma alert_step_fired:
  "fst (alert_step env t now st) \<Longrightarrow>
     real_of_int (al_cooldown env) < now - dict_get (al_last st) t 0 \<and>
     dict_get (al_last (snd (alert_step env t now st))) t 0 = now"
  by (auto simp: alert_step_def alert_due_def mark_alert_def count_event_def Let_def split: if_splits)

lemma alert_step_quiet:
  "\<not> fst (alert_step env t now st) \<Longrightarrow> al_last (snd (alert_step env t now st)) = al_last st"
  by (auto simp: alert_step_def count_event_def Let_def split: if_splits)

text \<open>However many events of a type come in and whenever, two alerts in a row for it are more than
  the cooldown apart, and the first comes more than a cooldown after the last one before.\<close>

theorem alerts_spaced:
  "successively (\<lambda>x y. real_of_int (al_cooldown env) < y - x)
     (dict_get (al_last st) t 0 # alert_times env t ts st)"
proof (induction ts arbitrary: st)
  case (Cons now ts)
  let ?r = "alert_step env t now st"
  from Cons.IH [of "snd ?r"] show ?case
    using alert_step_fired [of env t now st] alert_step_quiet [of env t now st]
    by (cases "fst ?r") (auto simp: case_prod_unfold successively_Cons)
qed simp

definition after_events :: "alert_env \<Rightarrow> string \<Rightarrow> real list \<Rightarrow> alert_state \<Rightarrow> alert_state" where
  "after_events env t ts st = fold (\<lambda>now a. snd (alert_step env t now a)) ts st"

lemma after_events_counters:
  "0 < dict_get (al_thresholds env) t 0 \<Longrightarrow>
     dict_get (al_counters (after_events env t ts st)) t [] = dict_get (al_counters (alerts.pushes env t ts st)) t []"
  by (induction ts rule: rev_induct)
    (simp_all add: after_events_def alerts.pushes_def alert_step_def mark_alert_def count_event_def Let_def)

text \<open>An event raises an alert exactly when, with itself, at least the threshold of events of its
  type fell into the window ending with it and the last alert is more than the cooldown ago.\<close>

theorem alert_fires_iff:
  assumes "0 < al_window env" and "0 < dict_get (al_thresholds env) t 0"
    and "dict_get (al_counters st) t [] = []" and "sorted (ts @ [now])"
  shows "fst (alert_step env t now (after_events env t ts st)) \<longleftrightarrow>
    dict_get (al_thresholds env) t 0 \<le> int (length (recent (real_of_int (al_window env)) now (ts @ [now]))) \<and>
    real_of_int (al_cooldown env) < now - dict_get (al_last (after_events env t ts st)) t 0"
proof -
  have "dict_get (al_counters (count_event env t now (alerts.pushes env t ts st))) t [] =
      recent (real_of_int (al_window env)) now (ts @ [now])"
    using alerts.logged_pushes [of env st t ts now] assms by simp
  then have "dict_get (al_counters (count_event env t now (after_events env t ts st))) t [] =
      recent (real_of_int (al_window env)) now (ts @ [now])"
    using after_events_counters [OF assms(2), of ts st] by (simp add: count_event_def)
  moreover have "al_last (count_event env t now st') = al_last st'" for st'
    by (simp add: count_event_def)
  ultimately show ?thesis using assms(2)
    by (simp add: alert_step_def alert_due_def Let_def)
qed

definition demo_alert_env :: alert_env where
  "demo_alert_env = \<lparr>al_thresholds = [(''policy_denied'', 2)], al_window = 60, al_cooldown = 300,
     al_webhook_url = []\<rparr>"

definition no_alerts :: alert_state where
  "no_alerts = \<lparr>al_counters = [], al_last = []\<rparr>"

theorem alert_fires_iff_witness:
  "fst (alert_step demo_alert_env ''policy_denied'' 1010 (after_events demo_alert_env ''policy_denied'' [1000] no_alerts))"
proof -
  have "al_last (after_events demo_alert_env ''policy_denied'' [1000] no_alerts) = []"
    by (simp add: after_events_def alert_step_def alert_due_def count_event_def mark_alert_def
        demo_alert_env_def no_alerts_def dict_get_def Let_def)
  then show ?thesis
    by (subst alert_fires_iff) (simp_all add: demo_alert_env_def no_alerts_def dict_get_def recent_def)
qed

end
