(* ===== verification/Events.thy ===== *)
theory Events imports App begin

text \<open>
  The event log (\<open>mcp-gateway/events.py\<close>): one JSON line per call.  The environment's path and
  payload switch are the record \<open>log_env\<close>; appending a line, which creates the directory, is the
  operation \<open>append_line\<close>.
\<close>

record log_env =
  env_log_path :: string
  env_log_payloads :: bool

text \<open>
  \<open>_get_log_path\<close>: the first call reads the environment.  Its assignment to \<open>_log_payloads\<close>
  binds a local variable, the function declaring only \<open>_log_path\<close> global.
\<close>

definition get_log_path :: "log_env \<Rightarrow> log_state \<Rightarrow> string \<times> log_state" where
  "get_log_path env st =
     (case log_path st of
        Some p \<Rightarrow> (p, st)
      | None \<Rightarrow> (env_log_path env, st\<lparr>log_path := Some (env_log_path env)\<rparr>))"

definition is_log_payloads :: "log_env \<Rightarrow> log_state \<Rightarrow> bool \<times> log_state" where
  "is_log_payloads env st =
     (let st1 = (if log_path st = None then snd (get_log_path env st) else st)
      in (log_payloads st1, st1))"

definition generate_request_id :: "('w, 'x) app_services_scheme \<Rightarrow> (('w, 'm) app_gateway_scheme, string) io" where
  "generate_request_id S = bind_io (on_world (sv_uuid_hex S)) (\<lambda>h. return_io (take 16 h))"

section \<open>Names\<close>

fun name_of_entry :: "json list \<Rightarrow> int \<Rightarrow> json" where
  "name_of_entry [] i = JNull"
| "name_of_entry (x # xs) i =
     (case x of
        JObj d \<Rightarrow> if py_eq (dict_get d ''id'' JNull) (JInt i) then dict_get d ''name'' JNull
                  else name_of_entry xs i
      | _ \<Rightarrow> JNull)"

text \<open>\<open>_lookup_name\<close>: every exception gives no name, also one from reloading the bundle.\<close>

definition lookup_name ::
  "engine \<Rightarrow> ('w, 'x) app_services_scheme \<Rightarrow> cfg_env \<Rightarrow> string \<Rightarrow> int option \<Rightarrow>
     (('w, 'm) app_gateway_scheme, json) io" where
  "lookup_name E S cenv collection entity =
     (case entity of
        None \<Rightarrow> return_io JNull
      | Some i \<Rightarrow> try_io
          (bind_io (get_config E S cenv) (\<lambda>c.
             return_io (case dict_get c collection (JList []) of
                 JList xs \<Rightarrow> name_of_entry xs i
               | _ \<Rightarrow> JNull)))
          (\<lambda>_. return_io JNull))"

section \<open>Events\<close>

record event =
  ev_request_id :: string
  ev_session_id :: string
  ev_identity :: "int option"
  ev_team :: "int option"
  ev_server :: "int option"
  ev_method :: string
  ev_tool :: "string option"
  ev_resource :: "string option"
  ev_prompt :: "string option"
  ev_action :: string
  ev_status :: string
  ev_latency :: "int option"
  ev_error :: "string option"
  ev_bytes_in :: "int option"
  ev_bytes_out :: "int option"
  ev_dlp :: "dlp_hit list option"
  ev_guardrail :: "gr_hit list option"
  ev_params :: "json option"
  ev_result :: "json option"

definition opt_str :: "string option \<Rightarrow> json" where
  "opt_str x = (case x of None \<Rightarrow> JNull | Some s \<Rightarrow> JStr s)"

definition opt_int :: "int option \<Rightarrow> json" where
  "opt_int x = (case x of None \<Rightarrow> JNull | Some i \<Rightarrow> JInt i)"

definition dlp_hit_json :: "dlp_hit \<Rightarrow> json" where
  "dlp_hit_json h = JObj [(''rule'', JStr (dh_rule h)), (''detector'', JStr (dh_detector h)),
     (''action'', JStr (dh_action h)), (''count'', JInt (int (dh_count h)))]"

definition gr_hit_json :: "gr_hit \<Rightarrow> json" where
  "gr_hit_json h = JObj [(''rule'', JStr (gh_rule h)), (''pack'', JStr (gh_pack h)),
     (''action'', JStr (gh_action h)), (''count'', JInt (int (gh_count h)))]"

definition opt_hits :: "('h \<Rightarrow> json) \<Rightarrow> 'h list option \<Rightarrow> json" where
  "opt_hits f x = (case x of None \<Rightarrow> JNull | Some hs \<Rightarrow> JList (map f hs))"

definition event_json :: "string \<Rightarrow> json \<Rightarrow> json \<Rightarrow> json \<Rightarrow> event \<Rightarrow> json dict" where
  "event_json ts iname tname sname e =
     [(''ts'', JStr ts), (''request_id'', JStr (ev_request_id e)), (''session_id'', JStr (ev_session_id e)),
      (''identity_id'', opt_int (ev_identity e)), (''identity_name'', iname),
      (''team_id'', opt_int (ev_team e)), (''team_name'', tname),
      (''server_id'', opt_int (ev_server e)), (''server_name'', sname),
      (''method'', JStr (ev_method e)), (''tool'', opt_str (ev_tool e)),
      (''resource_uri'', opt_str (ev_resource e)), (''prompt'', opt_str (ev_prompt e)),
      (''action'', JStr (ev_action e)), (''status'', JStr (ev_status e)),
      (''latency_ms'', opt_int (ev_latency e)), (''error'', opt_str (ev_error e)),
      (''bytes_in'', opt_int (ev_bytes_in e)), (''bytes_out'', opt_int (ev_bytes_out e)),
      (''dlp_hits'', opt_hits dlp_hit_json (ev_dlp e)),
      (''guardrail_hits'', opt_hits gr_hit_json (ev_guardrail e))]"

definition payload_entry :: "engine \<Rightarrow> string \<Rightarrow> json option \<Rightarrow> json dict" where
  "payload_entry E k v =
     (case v of None \<Rightarrow> [] | Some p \<Rightarrow> [(k, JStr (take 4096 (json_dumps E p)))])"

definition event_line :: "engine \<Rightarrow> bool \<Rightarrow> json dict \<Rightarrow> event \<Rightarrow> string" where
  "event_line E payloads base e =
     json_dumps E (JObj (base @ (if payloads
       then payload_entry E ''params'' (ev_params e) @ payload_entry E ''result'' (ev_result e) else []))) @
     [newline]"

definition on_log :: "(log_state \<Rightarrow> 'a \<times> log_state) \<Rightarrow> (('w, 'm) app_gateway_scheme, 'a) io" where
  "on_log f g = (let (x, st) = f (st_log (app_mem g))
                 in (Inr x, g\<lparr>app_mem := (app_mem g)\<lparr>st_log := st\<rparr>\<rparr>))"

definition log_event ::
  "engine \<Rightarrow> ('w, 'x) app_services_scheme \<Rightarrow> cfg_env \<Rightarrow> log_env \<Rightarrow> event \<Rightarrow>
     (('w, 'm) app_gateway_scheme, unit) io" where
  "log_event E S cenv env e =
     bind_io (on_log (get_log_path env)) (\<lambda>path.
     bind_io (lookup_name E S cenv ''identities'' (ev_identity e)) (\<lambda>iname.
     bind_io (lookup_name E S cenv ''teams'' (ev_team e)) (\<lambda>tname.
     bind_io (lookup_name E S cenv ''servers'' (ev_server e)) (\<lambda>sname.
     bind_io (on_world (sv_utc_iso S)) (\<lambda>ts.
     bind_io (on_log (is_log_payloads env)) (\<lambda>payloads.
       try_io (on_world (append_line S path
           (event_line E payloads (event_json ts iname tname sname e) e)))
         (\<lambda>_. return_io ())))))))"

end
