(* ===== verification/Catalog.thy ===== *)
theory Catalog imports App begin

text \<open>
  The catalogs of the upstream servers (\<open>mcp-gateway/catalog.py\<close>): a cache in memory in front of
  Valkey, a hash per server to notice changes, and the worker that refreshes every enabled
  server.  \<open>_get_valkey\<close> opens a connection at every call.  A catalog is a JSON value; what the
  worker stores is the object \<open>fetch_catalog\<close> returns.

  \<open>packaged\<close> tells whether the modules were imported as a package: the one import without a
  fallback, in \<open>_refresh_one\<close>, fails when they were not.
\<close>

definition CATALOG_TTL :: int where "CATALOG_TTL = 7200"

definition catalog_key :: "int \<Rightarrow> string" where
  "catalog_key sid = ''mcp:catalog:'' @ int_str sid"

definition catalog_hash_key :: "int \<Rightarrow> string" where
  "catalog_hash_key sid = ''mcp:catalog_hash:'' @ int_str sid"

definition get_valkey :: "('w, 'x) services_scheme \<Rightarrow> (('w, 'm) gateway_scheme, bool) io" where
  "get_valkey S = try_io (seq_io (on_world (vk_connect S)) (return_io True)) (\<lambda>_. return_io False)"

definition modify_catalog :: "(catalog_state \<Rightarrow> catalog_state) \<Rightarrow> (('w, 'm) app_gateway_scheme, unit) io" where
  "modify_catalog f = modify_app (\<lambda>a. a\<lparr>st_catalog := f (st_catalog a)\<rparr>)"

section \<open>Storing and reading\<close>

definition compute_hash :: "engine \<Rightarrow> (string \<Rightarrow> string) \<Rightarrow> json \<Rightarrow> string" where
  "compute_hash E sha c = take 16 (sha (json_dumps E (sort_keys c)))"

text \<open>The change of the process's variables: a server whose hash was known and differs is marked
  as changed.\<close>

definition put_catalog :: "int \<Rightarrow> json \<Rightarrow> string option \<Rightarrow> string \<Rightarrow> catalog_state \<Rightarrow> catalog_state" where
  "put_catalog sid c old_hash new_hash st =
     st\<lparr>cat_cache := AList.update sid c (cat_cache st),
       cat_changed := (if given old_hash \<and> old_hash \<noteq> Some new_hash then List.insert sid (cat_changed st)
                       else cat_changed st),
       cat_hashes := AList.update sid new_hash (cat_hashes st)\<rparr>"

definition store_catalog ::
  "engine \<Rightarrow> ('w, 'x) app_services_scheme \<Rightarrow> int \<Rightarrow> json \<Rightarrow> (('w, 'm) app_gateway_scheme, unit) io" where
  "store_catalog E S sid c =
     (let new_hash = compute_hash E (sha256_hex S) c
      in bind_io (query (\<lambda>g. map_of (cat_hashes (st_catalog (app_mem g))) sid)) (\<lambda>old_hash.
         bind_io (get_valkey S) (\<lambda>client.
           seq_io (if client
                   then seq_io (on_world (vk_setex S (catalog_key sid) CATALOG_TTL (json_dumps E c)))
                          (on_world (vk_setex S (catalog_hash_key sid) CATALOG_TTL new_hash))
                   else return_io ())
             (modify_catalog (put_catalog sid c old_hash new_hash)))))"

definition get_catalog ::
  "engine \<Rightarrow> ('w, 'x) app_services_scheme \<Rightarrow> int \<Rightarrow> (('w, 'm) app_gateway_scheme, json option) io" where
  "get_catalog E S sid =
     bind_io (query (\<lambda>g. map_of (cat_cache (st_catalog (app_mem g))) sid)) (\<lambda>cached.
       case cached of
         Some c \<Rightarrow> return_io (Some c)
       | None \<Rightarrow> bind_io (get_valkey S) (\<lambda>client.
           if \<not> client then return_io None
           else bind_io (on_world (vk_get S (catalog_key sid))) (\<lambda>raw.
             if \<not> given raw then return_io None
             else (case json_loads E (the raw) of
                 None \<Rightarrow> return_io None
               | Some c \<Rightarrow> seq_io (modify_catalog (\<lambda>st. st\<lparr>cat_cache := AList.update sid c (cat_cache st)\<rparr>))
                             (return_io (Some c))))))"

fun get_all_catalogs ::
  "engine \<Rightarrow> ('w, 'x) app_services_scheme \<Rightarrow> server list \<Rightarrow>
     (('w, 'm) app_gateway_scheme, (int \<times> json) list) io" where
  "get_all_catalogs E S [] = return_io []"
| "get_all_catalogs E S (s # ss) =
     bind_io (get_catalog E S (s_id s)) (\<lambda>c.
     bind_io (get_all_catalogs E S ss) (\<lambda>r.
       return_io (case c of
           Some v \<Rightarrow> if py_truthy v \<and> s_id s \<notin> fst ` set r then (s_id s, v) # r else r
         | None \<Rightarrow> r)))"

definition pop_changed_servers :: "(('w, 'm) app_gateway_scheme, int list) io" where
  "pop_changed_servers =
     bind_io (query (\<lambda>g. cat_changed (st_catalog (app_mem g)))) (\<lambda>changed.
       seq_io (modify_catalog (\<lambda>st. st\<lparr>cat_changed := []\<rparr>)) (return_io changed))"

definition clear_catalog ::
  "('w, 'x) app_services_scheme \<Rightarrow> int \<Rightarrow> (('w, 'm) app_gateway_scheme, unit) io" where
  "clear_catalog S sid =
     seq_io (modify_catalog (\<lambda>st. st\<lparr>cat_cache := AList.delete sid (cat_cache st),
               cat_hashes := AList.delete sid (cat_hashes st)\<rparr>))
       (bind_io (get_valkey S) (\<lambda>client.
          if client then seq_io (on_world (vk_delete S (catalog_key sid)))
                           (on_world (vk_delete S (catalog_hash_key sid)))
          else return_io ()))"

definition clear_all_catalogs :: "(('w, 'm) app_gateway_scheme, unit) io" where
  "clear_all_catalogs = modify_catalog (\<lambda>st. st\<lparr>cat_cache := [], cat_hashes := [], cat_changed := []\<rparr>)"

section \<open>The worker\<close>

definition catalog_session_key :: "int \<Rightarrow> string" where
  "catalog_session_key sid = ''catalog:'' @ int_str sid"

text \<open>
  The session id of the upstream: the one stored under the synthetic key, or a new one from
  \<open>initialize\<close>, which is then stored under a session of its own.  \<open>None\<close> when the refresh ends
  here with the catalog cleared.
\<close>

definition remember_upstream ::
  "engine \<Rightarrow> ('w, 'x) app_services_scheme \<Rightarrow> bool \<Rightarrow> server \<Rightarrow> string \<Rightarrow> (('w, 'm) app_gateway_scheme, unit) io" where
  "remember_upstream E S packaged s usid =
     (if \<not> packaged then raise_io ImportError
      else try_io (bind_io (create_session E S 0 (s_team_id s)) (\<lambda>synthetic.
             set_upstream_session E S synthetic (s_id s) usid))
           (\<lambda>_. return_io ()))"

definition catalog_upstream ::
  "engine \<Rightarrow> ('w, 'x) app_services_scheme \<Rightarrow> up_env \<Rightarrow> bool \<Rightarrow> server \<Rightarrow>
     (('w, 'm) app_gateway_scheme, string option) io" where
  "catalog_upstream E S env packaged s =
     bind_io (get_upstream_session E S (catalog_session_key (s_id s)) (s_id s)) (\<lambda>known.
       if py_truthy known then return_io (str_of known)
       else bind_io (try_io (initialize_upstream S env s) (\<lambda>_. return_io None)) (\<lambda>usid.
         case usid of
           None \<Rightarrow> seq_io (clear_catalog S (s_id s)) (return_io None)
         | Some u \<Rightarrow> if u = [] then return_io (Some u)
                     else seq_io (remember_upstream E S packaged s u) (return_io (Some u))))"

text \<open>\<open>None\<close> is a fetch that does not return.\<close>

definition refresh_one ::
  "engine \<Rightarrow> ('w, 'x) app_services_scheme \<Rightarrow> up_env \<Rightarrow> bool \<Rightarrow> server \<Rightarrow>
     ('w, 'm) app_gateway_scheme \<Rightarrow> (unit res \<times> ('w, 'm) app_gateway_scheme) option" where
  "refresh_one E S env packaged s g =
     (case catalog_upstream E S env packaged s g of
        (Inl e, g1) \<Rightarrow> Some (Inl e, g1)
      | (Inr None, g1) \<Rightarrow> Some (Inr (), g1)
      | (Inr (Some u), g1) \<Rightarrow>
          map_option (\<lambda>(r, g2). case r of
              Inr (Some c) \<Rightarrow> (if c = [] then clear_catalog S (s_id s) g2
                              else store_catalog E S (s_id s) (JObj c) g2)
            | _ \<Rightarrow> clear_catalog S (s_id s) g2)
            (fetch_catalog E S env s (Some u) g1))"

fun each_server ::
  "(server \<Rightarrow> 'g \<Rightarrow> (unit res \<times> 'g) option) \<Rightarrow> server list \<Rightarrow> 'g \<Rightarrow> (unit res \<times> 'g) option" where
  "each_server f [] g = Some (Inr (), g)"
| "each_server f (s # ss) g = Option.bind (f s g) (\<lambda>(_, g1). each_server f ss g1)"

text \<open>
  \<open>refresh_all\<close>: \<open>gather\<close> interleaves the refreshes and drops their exceptions; the model runs
  them in the order of the list.
\<close>

definition refresh_all ::
  "engine \<Rightarrow> ('w, 'x) app_services_scheme \<Rightarrow> cfg_env \<Rightarrow> up_env \<Rightarrow> bool \<Rightarrow>
     ('w, 'm) app_gateway_scheme \<Rightarrow> (unit res \<times> ('w, 'm) app_gateway_scheme) option" where
  "refresh_all E S cenv env packaged g =
     (case get_config E S cenv g of
        (Inl e, g1) \<Rightarrow> Some (Inl e, g1)
      | (Inr c, g1) \<Rightarrow>
          (let servers = enabled_servers c; live = map s_id servers
           in case each_io (clear_catalog S)
                  (filter (\<lambda>sid. sid \<notin> set live) (map fst (cat_cache (st_catalog (app_mem g1))))) g1 of
                (Inl e, g2) \<Rightarrow> Some (Inl e, g2)
              | (Inr _, g2) \<Rightarrow> each_server (refresh_one E S env packaged) servers g2))"

end
