(* ===== verification/Uris.thy ===== *)
theory Uris imports PyValues JsonText begin

text \<open>
  Names and URIs of the virtual registry (\<open>mcp-gateway/protocol.py\<close>): tools and prompts carry
  their server's namespace as a prefix, resources are wrapped as
  \<open>mcp://<namespace>/<quoted uri>\<close>.

  \<open>urllib.parse.quote\<close> and \<open>unquote\<close> go through UTF-8: a code point below 128 is one byte, the
  others of the model's range two.  Escapes that decode to a code point above 255, or to none,
  are outside that range; \<open>unquote\<close> reads each of their bytes as a question mark.
\<close>

section \<open>Quoting\<close>

definition unreserved :: "char \<Rightarrow> bool" where
  "unreserved c \<longleftrightarrow> (let n = ord c in
     (48 \<le> n \<and> n \<le> 57) \<or> (65 \<le> n \<and> n \<le> 90) \<or> (97 \<le> n \<and> n \<le> 122) \<or> n \<in> {45, 46, 95, 126})"

definition utf8_bytes :: "char \<Rightarrow> nat list" where
  "utf8_bytes c = (if ord c < 128 then [ord c] else [192 + ord c div 64, 128 + ord c mod 64])"

definition hex_upper :: "nat \<Rightarrow> char" where
  "hex_upper d = (if d < 10 then char_of (48 + d) else char_of (55 + d))"

definition percent :: "nat \<Rightarrow> string" where
  "percent b = [CHR ''%'', hex_upper (b div 16), hex_upper (b mod 16)]"

definition quote_char :: "char \<Rightarrow> string" where
  "quote_char c = (if unreserved c then [c] else concat (map percent (utf8_bytes c)))"

definition quote :: "string \<Rightarrow> string" where
  "quote s = concat (map quote_char s)"

section \<open>Unquoting\<close>

text \<open>A text as bytes, where it is ASCII or an escape, and code points.\<close>

datatype unit_of_text = Byte nat | Point char

fun escapes :: "string \<Rightarrow> unit_of_text list" where
  "escapes (c # a # b # r) =
     (if c = CHR ''%'' then
        (case (hex_val a, hex_val b) of
           (Some h, Some l) \<Rightarrow> Byte (16 * h + l) # escapes r
         | _ \<Rightarrow> Byte (ord c) # escapes (a # b # r))
      else (if ord c < 128 then Byte (ord c) else Point c) # escapes (a # b # r))"
| "escapes (c # r) = (if ord c < 128 then Byte (ord c) else Point c) # escapes r"
| "escapes [] = []"

fun decode_units :: "unit_of_text list \<Rightarrow> string" where
  "decode_units [] = []"
| "decode_units (Point c # r) = c # decode_units r"
| "decode_units (Byte b # r) =
     (if b < 128 then char_of b # decode_units r
      else (case r of
          Byte b2 # r2 \<Rightarrow>
            if b \<in> {194, 195} \<and> 128 \<le> b2 \<and> b2 < 192
            then char_of ((b - 192) * 64 + (b2 - 128)) # decode_units r2
            else CHR ''?'' # decode_units r
        | _ \<Rightarrow> CHR ''?'' # decode_units r))"

definition unquote :: "string \<Rightarrow> string" where
  "unquote s = decode_units (escapes s)"

lemma ord_less [simp]: "ord c < 256"
  by (simp add: ord_def)

lemma char_of_ord [simp]: "char_of (ord c) = c"
  by (simp add: ord_def)

lemma hex_val_upper: "d < 16 \<Longrightarrow> hex_val (hex_upper d) = Some d"
  by (auto simp: hex_val_def hex_upper_def ord_def Let_def)

lemma escapes_percent [simp]: "b < 256 \<Longrightarrow> escapes (percent b @ r) = Byte b # escapes r"
  by (simp add: percent_def hex_val_upper)

lemma escapes_unreserved: "unreserved c \<Longrightarrow> escapes (c # r) = Byte (ord c) # escapes r"
  by (cases r rule: list.exhaust; cases "tl r") (auto simp: unreserved_def Let_def ord_def)

lemma unquote_quote_char: "decode_units (escapes (quote_char c @ r)) = c # decode_units (escapes r)"
proof (cases "ord c < 128")
  case True
  then show ?thesis
    by (cases "unreserved c") (simp_all add: quote_char_def escapes_unreserved utf8_bytes_def)
next
  case False
  then have res: "\<not> unreserved c" by (auto simp: unreserved_def Let_def)
  have m: "128 + ord c mod 64 < 256" "128 + ord c mod 64 < 192" "ord c mod 64 < 64"
    using mod_less_divisor [of 64 "ord c"] by linarith+
  have split: "64 * (ord c div 64) + ord c mod 64 = ord c" by simp
  have "ord c div 64 = 2 \<or> ord c div 64 = 3"
  proof -
    have "2 \<le> ord c div 64" using False split m(3) by linarith
    moreover have "ord c div 64 \<le> 3" using ord_less [of c] split by linarith
    ultimately show ?thesis by linarith
  qed
  then show ?thesis
  proof
    assume d: "ord c div 64 = 2"
    then have "128 + ord c mod 64 = ord c" using split by simp
    then have "char_of (128 + ord c mod 64) = c" by simp
    then show ?thesis using False res m d by (simp add: quote_char_def utf8_bytes_def)
  next
    assume d: "ord c div 64 = 3"
    then have "192 + ord c mod 64 = ord c" using split by simp
    then have "char_of (192 + ord c mod 64) = c" by simp
    then show ?thesis using False res m d by (simp add: quote_char_def utf8_bytes_def)
  qed
qed

lemma unquote_quote [simp]: "unquote (quote s) = s"
  by (induction s) (simp_all add: unquote_def quote_def unquote_quote_char escapes.simps)

section \<open>Names\<close>

definition prefix_tool_name :: "string \<Rightarrow> string \<Rightarrow> string" where
  "prefix_tool_name namespace n = namespace @ ''__'' @ n"

definition wrap_resource_uri :: "string \<Rightarrow> string \<Rightarrow> string" where
  "wrap_resource_uri namespace uri = ''mcp://'' @ namespace @ ''/'' @ quote uri"

text \<open>The namespace is \<open>None\<close> when the URI is not wrapped.\<close>

definition unwrap_resource_uri :: "string \<Rightarrow> string option \<times> string" where
  "unwrap_resource_uri w =
     (if \<not> starts_with w ''mcp://'' then (None, w)
      else case split_first (drop 6 w) ''/'' of
          None \<Rightarrow> (None, w)
        | Some (namespace, r) \<Rightarrow> (Some namespace, unquote r))"

text \<open>\<open>name.split("__", 1)\<close>.\<close>

definition split_prefix :: "string \<Rightarrow> (string \<times> string) option" where
  "split_prefix n = split_first n ''__''"

lemma split_first_char: "c \<notin> set a \<Longrightarrow> split_first (a @ c # b) [c] = Some (a, b)"
  by (induction a) auto

text \<open>Unwrapping a wrapped resource URI gives back the namespace and the upstream's URI, whatever
  characters it holds, as long as the namespace has no slash.\<close>

theorem unwrap_wrap:
  "CHR ''/'' \<notin> set namespace \<Longrightarrow>
     unwrap_resource_uri (wrap_resource_uri namespace uri) = (Some namespace, uri)"
  by (simp add: unwrap_resource_uri_def wrap_resource_uri_def split_first_char)

theorem unwrap_wrap_witness:
  "unwrap_resource_uri (wrap_resource_uri ''jira'' ''file:///a b?x=%41'') = (Some ''jira'', ''file:///a b?x=%41'')"
  by (rule unwrap_wrap) simp

text \<open>
  Whether a prefixed name splits back: the namespace must not hold the separator, nor end in an
  underscore, which would move the split to the left.
\<close>

definition splits_back :: "string \<Rightarrow> bool" where
  "splits_back namespace \<longleftrightarrow> \<not> contains (namespace @ ''_'') ''__''"

lemma starts_with_append_self [simp]: "starts_with (p @ s) p"
  by (simp add: starts_with_iff)

lemma split_first_prefix:
  "\<not> contains (a @ ''_'') ''__'' \<Longrightarrow> split_first (a @ ''__'' @ b) ''__'' = Some (a, b)"
proof (induction a)
  case (Cons c a)
  have "\<not> starts_with (c # a @ ''__'' @ b) ''__''"
    using Cons.prems by (cases a) auto
  moreover have "split_first (a @ ''__'' @ b) ''__'' = Some (a, b)"
    using Cons by auto
  ultimately show ?case by simp
qed simp

text \<open>Splitting the advertised name of a tool or prompt gives back its namespace and original
  name exactly when the namespace neither holds two underscores in a row nor ends in one;
  otherwise the call is routed to a different namespace or name.\<close>

theorem split_prefix_roundtrip:
  "split_prefix (prefix_tool_name namespace n) = Some (namespace, n) \<longleftrightarrow> splits_back namespace"
proof
  assume a: "split_prefix (prefix_tool_name namespace n) = Some (namespace, n)"
  have first: "split_first s sep = Some (u, v) \<Longrightarrow> sep \<noteq> [] \<Longrightarrow> \<not> contains (u @ butlast sep) sep"
    for s sep u v :: string
  proof (induction s arbitrary: u)
    case Nil
    then show ?case by auto
  next
    case (Cons c s)
    show ?case
    proof (cases "starts_with (c # s) sep")
      case True
      with Cons.prems have "u = []" by simp
      moreover have "\<not> contains (butlast sep) sep"
        using Cons.prems(2) by (cases sep) (auto simp: contains_iff dest!: arg_cong [of _ _ length])
      ultimately show ?thesis by simp
    next
      case False
      with Cons.prems obtain u1 where u: "u = c # u1" "split_first s sep = Some (u1, v)" by auto
      with Cons.prems have s: "s = u1 @ sep @ v" by (simp add: split_first_SomeD)
      have "\<not> starts_with (c # u1 @ butlast sep) sep"
      proof
        assume "starts_with (c # u1 @ butlast sep) sep"
        then obtain r where "c # u1 @ butlast sep = sep @ r" by (auto simp: starts_with_iff)
        then have "c # s = sep @ (r @ last sep # v)"
          using s Cons.prems(2) by (metis append_butlast_last_id append_Cons append.assoc append_Nil)
        with False show False by (simp add: starts_with_iff)
      qed
      with Cons.IH [OF u(2) Cons.prems(2)] u(1) show ?thesis by simp
    qed
  qed
  from first [of "prefix_tool_name namespace n" "''__''" namespace n] a show "splits_back namespace"
    by (simp add: splits_back_def split_prefix_def)
next
  assume "splits_back namespace"
  then show "split_prefix (prefix_tool_name namespace n) = Some (namespace, n)"
    unfolding split_prefix_def prefix_tool_name_def splits_back_def by (rule split_first_prefix)
qed

end
