(* ===== verification/Protocol.thy ===== *)
theory Protocol imports Events Catalog Uris RateLimit begin

text \<open>
  The protocol handler (\<open>mcp-gateway/protocol.py\<close>), first part: settings read from the bundle,
  responses, the merged lists, \<open>initialize\<close> and notifications.  The routed calls and the
  endpoint itself are in \<open>RouteCall\<close>.

  A request is its headers, the client's address and the body; a response its status, content
  and headers.  An exception that leaves a handler (the framework answers 500) is \<open>Inl\<close>.

  The list handlers write into the \<open>_meta\<close> object of an item that has one, and the item of the
  cached catalog shares that object: \<open>prefix_item\<close> and its kin return the item of the response
  and the cached item afterwards, and \<open>write_back\<close> puts the latter into the cache (after the
  whole list, so an item that raises leaves the cache unmarked here).
\<close>

definition PROTOCOL_VERSION :: string where "PROTOCOL_VERSION = ''2025-11-25''"
definition JSONRPC_PARSE_ERROR :: int where "JSONRPC_PARSE_ERROR = -32700"
definition JSONRPC_INVALID_REQUEST :: int where "JSONRPC_INVALID_REQUEST = -32600"
definition JSONRPC_METHOD_NOT_FOUND :: int where "JSONRPC_METHOD_NOT_FOUND = -32601"
definition MCP_GATEWAY_ERROR :: int where "MCP_GATEWAY_ERROR = -32000"
definition MCP_RESOURCE_NOT_SUPPORTED :: int where "MCP_RESOURCE_NOT_SUPPORTED = -32001"

record proto_env =
  pe_cfg :: cfg_env
  pe_up :: up_env
  pe_rl :: rl_env
  pe_log :: log_env
  pe_alert :: alert_env
  pe_dlp_scan :: nat
  pe_gr_scan :: nat

datatype content = NoContent | Json json | Plain string

record response =
  resp_status :: int
  resp_content :: content
  resp_headers :: "string dict"

record request =
  rq_headers :: "string dict"
  rq_client :: "string option"
  rq_body :: "string res"

definition lift_res :: "'a res \<Rightarrow> ('s, 'a) io" where
  "lift_res r s = (r, s)"

definition finally_io :: "('s, 'a) io \<Rightarrow> ('s, unit) io \<Rightarrow> ('s, 'a) io" where
  "finally_io m f s = (case m s of (r, s1) \<Rightarrow>
     (case f s1 of (Inl e, s2) \<Rightarrow> (Inl e, s2) | (Inr _, s2) \<Rightarrow> (r, s2)))"

lemmas [io_simps] = lift_res_def finally_io_def

section \<open>Settings\<close>

definition int_setting :: "json dict \<Rightarrow> string \<Rightarrow> int \<Rightarrow> int res" where
  "int_setting c k d = (if c = [] then Inr d else py_int (dict_get c k (JInt d)))"

definition get_default_rpm ::
  "engine \<Rightarrow> ('w, 'x) cfg_services_scheme \<Rightarrow> proto_env \<Rightarrow> (('w, 'm) cfg_gateway_scheme, int) io" where
  "get_default_rpm E S env =
     bind_io (get_config E S (pe_cfg env)) (\<lambda>c. lift_res (int_setting c ''default_rpm'' 600))"

definition get_per_ip_limit ::
  "engine \<Rightarrow> ('w, 'x) cfg_services_scheme \<Rightarrow> proto_env \<Rightarrow> (('w, 'm) cfg_gateway_scheme, int) io" where
  "get_per_ip_limit E S env =
     bind_io (get_config E S (pe_cfg env)) (\<lambda>c.
       lift_res (int_setting c ''per_ip_limit'' (default_max_ip_rpm (pe_rl env))))"

definition get_concurrent_limit ::
  "engine \<Rightarrow> ('w, 'x) cfg_services_scheme \<Rightarrow> proto_env \<Rightarrow> (('w, 'm) cfg_gateway_scheme, int) io" where
  "get_concurrent_limit E S env =
     bind_io (get_config E S (pe_cfg env)) (\<lambda>c.
       lift_res (int_setting c ''concurrent_limit'' (default_max_concurrent (pe_rl env))))"

definition get_max_body_bytes :: "json dict \<Rightarrow> int res" where
  "get_max_body_bytes c = py_int (dict_get c ''max_body_bytes'' (JInt 1048576))"

section \<open>Loading the rules\<close>

text \<open>The four \<open>_ensure_*_loaded\<close>: the rules are compiled again from the current bundle when it has
  the key.\<close>

definition ensure_loaded ::
  "engine \<Rightarrow> ('w, 'x) cfg_services_scheme \<Rightarrow> proto_env \<Rightarrow> string \<Rightarrow>
     (json list \<Rightarrow> app_state \<Rightarrow> unit res \<times> app_state) \<Rightarrow> (('w, 'm) app_gateway_scheme, unit) io" where
  "ensure_loaded E S env key load =
     bind_io (get_config E S (pe_cfg env)) (\<lambda>c.
       case map_of c key of
         None \<Rightarrow> return_io ()
       | Some v \<Rightarrow>
           (case list_of v of
              None \<Rightarrow> raise_io TypeError
            | Some xs \<Rightarrow> (\<lambda>g. case load xs (app_mem g) of (r, a) \<Rightarrow> (r, g\<lparr>app_mem := a\<rparr>))))"

definition ensure_policies_loaded ::
  "engine \<Rightarrow> ('w, 'x) cfg_services_scheme \<Rightarrow> proto_env \<Rightarrow> (('w, 'm) app_gateway_scheme, unit) io" where
  "ensure_policies_loaded E S env = ensure_loaded E S env ''policies'' (\<lambda>xs a.
     case load_policies (Some (map raw_policy_of xs)) (st_policies a) of (r, m) \<Rightarrow> (r, a\<lparr>st_policies := m\<rparr>))"

definition ensure_dlp_loaded ::
  "engine \<Rightarrow> ('w, 'x) cfg_services_scheme \<Rightarrow> proto_env \<Rightarrow> (('w, 'm) app_gateway_scheme, unit) io" where
  "ensure_dlp_loaded E S env = ensure_loaded E S env ''dlp_rules'' (\<lambda>xs a.
     case load_dlp_rules E (Some (map dlp_raw_of xs)) (st_dlp a) of (r, m) \<Rightarrow> (r, a\<lparr>st_dlp := m\<rparr>))"

definition ensure_guardrails_loaded ::
  "engine \<Rightarrow> ('w, 'x) cfg_services_scheme \<Rightarrow> proto_env \<Rightarrow> (('w, 'm) app_gateway_scheme, unit) io" where
  "ensure_guardrails_loaded E S env = ensure_loaded E S env ''guardrails'' (\<lambda>xs a.
     case load_guardrails E (Some (map gr_raw_of xs)) (st_guardrails a) of
       (r, m) \<Rightarrow> (r, a\<lparr>st_guardrails := m\<rparr>))"

definition ensure_skills_loaded ::
  "engine \<Rightarrow> ('w, 'x) cfg_services_scheme \<Rightarrow> proto_env \<Rightarrow> (('w, 'm) app_gateway_scheme, unit) io" where
  "ensure_skills_loaded E S env = ensure_loaded E S env ''skills'' (\<lambda>xs a.
     case load_skills (Some (map raw_skill_of xs)) (st_skills a) of (r, m) \<Rightarrow> (r, a\<lparr>st_skills := m\<rparr>))"

section \<open>Responses\<close>

definition json_response :: "int \<Rightarrow> json \<Rightarrow> response" where
  "json_response status v = \<lparr>resp_status = status, resp_content = Json v, resp_headers = []\<rparr>"

definition result_response :: "json \<Rightarrow> json \<Rightarrow> response" where
  "result_response msg_id v = json_response 200
     (JObj [(''jsonrpc'', JStr ''2.0''), (''id'', msg_id), (''result'', v)])"

definition error_response :: "json \<Rightarrow> int \<Rightarrow> string \<Rightarrow> int \<Rightarrow> response" where
  "error_response msg_id code msg status = json_response status
     (JObj [(''jsonrpc'', JStr ''2.0''), (''id'', msg_id),
            (''error'', JObj [(''code'', JInt code), (''message'', JStr msg)])])"

definition unauthorized_response :: "string \<Rightarrow> response" where
  "unauthorized_response url =
     (error_response JNull (-32000) ''Unauthorized'' 401)\<lparr>resp_headers := [(''WWW-Authenticate'',
        ''Bearer realm='' @ [double_quote] @ ''mcp'' @ [double_quote] @ '', resource_metadata='' @
        [double_quote] @ url @ [double_quote])]\<rparr>"

definition request_header :: "request \<Rightarrow> string \<Rightarrow> string \<Rightarrow> string" where
  "request_header rq n d = or_default (header (rq_headers rq) n) d"

definition resource_metadata_url :: "request \<Rightarrow> string" where
  "resource_metadata_url rq = request_header rq ''x-forwarded-proto'' ''https'' @ ''://'' @
     request_header rq ''host'' '''' @ ''/.well-known/oauth-protected-resource''"

definition is_notification :: "json dict \<Rightarrow> bool" where
  "is_notification d \<longleftrightarrow> map_of d ''id'' = None"

definition is_response :: "json dict \<Rightarrow> bool" where
  "is_response d \<longleftrightarrow> map_of d ''method'' = None \<and> (map_of d ''result'' \<noteq> None \<or> map_of d ''error'' \<noteq> None)"

section \<open>Items of the lists\<close>

definition namespace_of :: "server \<Rightarrow> string" where
  "namespace_of s = or_default (s_namespace s) (s_name s)"

text \<open>\<open>prefixed["_meta"] = prefixed.get("_meta", {})\<close> and the keys written into it: the item of the
  response, and the cached one, which shares a \<open>_meta\<close> it already had.\<close>

definition mark_meta :: "json dict \<Rightarrow> json dict \<Rightarrow> json dict \<Rightarrow> (json dict \<times> json) res" where
  "mark_meta marks item prefixed =
     (case dict_get item ''_meta'' (JObj []) of
        JObj m \<Rightarrow>
          (let m1 = foldl (\<lambda>d (k, v). AList.update k v d) m marks
           in Inr (AList.update ''_meta'' (JObj m1) prefixed,
                   JObj (if map_of item ''_meta'' = None then item else AList.update ''_meta'' (JObj m1) item)))
      | _ \<Rightarrow> Inl TypeError)"

definition prefix_item :: "engine \<Rightarrow> string \<Rightarrow> string \<Rightarrow> json \<Rightarrow> (json dict \<times> json) res" where
  "prefix_item E namespace field item =
     (case item of
        JObj d \<Rightarrow>
          (let original = dict_get d field (JStr '''')
           in mark_meta [(''mcp_server'', JStr namespace), (''mcp_original_name'', original)] d
                (AList.update field (JStr (prefix_tool_name namespace (py_str (float_repr E) original))) d))
      | _ \<Rightarrow> Inl TypeError)"

definition prefix_list_items ::
  "engine \<Rightarrow> json list \<Rightarrow> string \<Rightarrow> string \<Rightarrow> (json dict \<times> json) list res" where
  "prefix_list_items E items namespace field = each_res (prefix_item E namespace field) items"

definition wrap_item :: "string \<Rightarrow> json \<Rightarrow> (json dict \<times> json) res" where
  "wrap_item namespace item =
     (case item of
        JObj d \<Rightarrow>
          (case dict_get d ''uri'' (JStr '''') of
             JStr uri \<Rightarrow> mark_meta [(''mcp_server'', JStr namespace), (''mcp_original_uri'', JStr uri)] d
                          (AList.update ''uri'' (JStr (wrap_resource_uri namespace uri)) d)
           | _ \<Rightarrow> Inl TypeError)
      | _ \<Rightarrow> Inl TypeError)"

text \<open>An item without a template is passed over: no item of the response, the cached one as it was.\<close>

definition wrap_template :: "string \<Rightarrow> json \<Rightarrow> (json dict option \<times> json) res" where
  "wrap_template namespace item =
     (case item of
        JObj d \<Rightarrow>
          (case map_of d ''uriTemplate'' of
             None \<Rightarrow> Inr (None, item)
           | Some (JStr t) \<Rightarrow>
               map_sum id (\<lambda>(p, c). (Some p, c))
                 (mark_meta [(''mcp_server'', JStr namespace)] d
                   (AList.update ''uriTemplate'' (JStr (wrap_resource_uri namespace t)) d))
           | _ \<Rightarrow> Inl TypeError)
      | _ \<Rightarrow> Inl TypeError)"

definition server_items :: "json \<Rightarrow> string \<Rightarrow> json list res" where
  "server_items catalog key =
     (case catalog of
        JObj d \<Rightarrow> (case dict_get d key (JList []) of JList xs \<Rightarrow> Inr xs | _ \<Rightarrow> Inl TypeError)
      | _ \<Rightarrow> Inl AttributeError)"

definition write_back :: "int \<Rightarrow> string \<Rightarrow> json list \<Rightarrow> (('w, 'm) app_gateway_scheme, unit) io" where
  "write_back sid key items = modify_catalog (\<lambda>st.
     case map_of (cat_cache st) sid of
       Some (JObj d) \<Rightarrow>
         (if map_of d key = None then st
          else st\<lparr>cat_cache := AList.update sid (JObj (AList.update key (JList items) d)) (cat_cache st)\<rparr>)
     | _ \<Rightarrow> st)"

section \<open>The merged lists\<close>

definition get_team_servers ::
  "engine \<Rightarrow> ('w, 'x) cfg_services_scheme \<Rightarrow> proto_env \<Rightarrow> int \<Rightarrow> (('w, 'm) cfg_gateway_scheme, server list) io" where
  "get_team_servers E S env team =
     bind_io (get_config E S (pe_cfg env)) (\<lambda>c. return_io (team_servers c team))"

definition missing_catalog :: "server \<Rightarrow> json" where
  "missing_catalog s = JObj [(''server'', opt_str (s_namespace s)), (''error'', JStr ''catalog not available'')]"

text \<open>The loop over the servers, with what one server contributes; items and warnings.\<close>

fun merge_servers ::
  "engine \<Rightarrow> ('w, 'x) app_services_scheme \<Rightarrow> (server \<Rightarrow> json \<Rightarrow> (('w, 'm) app_gateway_scheme, json list) io) \<Rightarrow>
     server list \<Rightarrow> (('w, 'm) app_gateway_scheme, json list \<times> json list) io" where
  "merge_servers E S f [] = return_io ([], [])"
| "merge_servers E S f (s # ss) =
     bind_io (get_catalog E S (s_id s)) (\<lambda>c.
       case c of
         None \<Rightarrow> bind_io (merge_servers E S f ss) (\<lambda>r. return_io (fst r, missing_catalog s # snd r))
       | Some catalog \<Rightarrow>
           bind_io (f s catalog) (\<lambda>items.
           bind_io (merge_servers E S f ss) (\<lambda>r. return_io (items @ fst r, snd r))))"

definition list_response :: "json \<Rightarrow> string \<Rightarrow> json list \<Rightarrow> json list \<Rightarrow> response" where
  "list_response msg_id key items warnings = result_response msg_id
     (JObj ((key, JList items) #
        (if warnings = [] then [] else [(''_meta'', JObj [(''warnings'', JList warnings)])])))"

definition server_tools ::
  "engine \<Rightarrow> auth_context \<Rightarrow> server \<Rightarrow> json \<Rightarrow> (('w, 'm) app_gateway_scheme, json list) io" where
  "server_tools E a s catalog =
     bind_io (lift_res (server_items catalog ''tools'')) (\<lambda>xs.
     bind_io (lift_res (prefix_list_items E xs (namespace_of s) ''name'')) (\<lambda>ps.
     seq_io (write_back (s_id s) ''tools'' (map snd ps))
       (bind_io (query (\<lambda>g. st_policies (app_mem g))) (\<lambda>m.
          return_io (map JObj (filter_tool_list E m (map fst ps) (namespace_of s) a ''''))))))"

definition server_resources ::
  "engine \<Rightarrow> auth_context \<Rightarrow> server \<Rightarrow> json \<Rightarrow> (('w, 'm) app_gateway_scheme, json list) io" where
  "server_resources E a s catalog =
     bind_io (lift_res (server_items catalog ''resources'')) (\<lambda>xs.
     bind_io (lift_res (each_res (wrap_item (namespace_of s)) xs)) (\<lambda>ps.
     seq_io (write_back (s_id s) ''resources'' (map snd ps))
       (bind_io (query (\<lambda>g. st_policies (app_mem g))) (\<lambda>m.
          return_io (map JObj (filter_resource_list E m (map fst ps) (namespace_of s) a ''''))))))"

definition server_templates ::
  "server \<Rightarrow> json \<Rightarrow> (('w, 'm) app_gateway_scheme, json list) io" where
  "server_templates s catalog =
     bind_io (lift_res (server_items catalog ''resources'')) (\<lambda>xs.
     bind_io (lift_res (each_res (wrap_template (namespace_of s)) xs)) (\<lambda>ps.
     seq_io (write_back (s_id s) ''resources'' (map snd ps))
       (return_io (map JObj (List.map_filter fst ps)))))"

definition server_prompts ::
  "engine \<Rightarrow> auth_context \<Rightarrow> server \<Rightarrow> json \<Rightarrow> (('w, 'm) app_gateway_scheme, json list) io" where
  "server_prompts E a s catalog =
     bind_io (lift_res (server_items catalog ''prompts'')) (\<lambda>xs.
     bind_io (lift_res (prefix_list_items E xs (namespace_of s) ''name'')) (\<lambda>ps.
     seq_io (write_back (s_id s) ''prompts'' (map snd ps))
       (bind_io (query (\<lambda>g. st_policies (app_mem g))) (\<lambda>m.
          return_io (map JObj (filter_prompt_list E m (map fst ps) (namespace_of s) a ''''))))))"

definition handle_tools_list ::
  "engine \<Rightarrow> ('w, 'x) app_services_scheme \<Rightarrow> proto_env \<Rightarrow> auth_context \<Rightarrow> json \<Rightarrow>
     (('w, 'm) app_gateway_scheme, response) io" where
  "handle_tools_list E S env a msg_id =
     seq_io (ensure_policies_loaded E S env)
       (bind_io (get_team_servers E S env (team_id a)) (\<lambda>servers.
        bind_io (merge_servers E S (server_tools E a) servers) (\<lambda>r.
          return_io (list_response msg_id ''tools'' (fst r) (snd r)))))"

definition handle_resources_list ::
  "engine \<Rightarrow> ('w, 'x) app_services_scheme \<Rightarrow> proto_env \<Rightarrow> auth_context \<Rightarrow> json \<Rightarrow>
     (('w, 'm) app_gateway_scheme, response) io" where
  "handle_resources_list E S env a msg_id =
     seq_io (ensure_policies_loaded E S env)
       (bind_io (get_team_servers E S env (team_id a)) (\<lambda>servers.
        bind_io (merge_servers E S (server_resources E a) servers) (\<lambda>r.
          return_io (list_response msg_id ''resources'' (fst r) (snd r)))))"

definition handle_resources_templates_list ::
  "engine \<Rightarrow> ('w, 'x) app_services_scheme \<Rightarrow> proto_env \<Rightarrow> auth_context \<Rightarrow> json \<Rightarrow>
     (('w, 'm) app_gateway_scheme, response) io" where
  "handle_resources_templates_list E S env a msg_id =
     bind_io (get_team_servers E S env (team_id a)) (\<lambda>servers.
     bind_io (merge_servers E S server_templates servers) (\<lambda>r.
       return_io (list_response msg_id ''resourceTemplates'' (fst r) (snd r))))"

definition skill_prompts :: "engine \<Rightarrow> skill rule_module \<Rightarrow> auth_context \<Rightarrow> json list" where
  "skill_prompts E m a =
     (if has_skills m then map (JObj \<circ> build_prompt_entry) (get_enabled_skills E m a) else [])"

definition handle_prompts_list ::
  "engine \<Rightarrow> ('w, 'x) app_services_scheme \<Rightarrow> proto_env \<Rightarrow> auth_context \<Rightarrow> json \<Rightarrow>
     (('w, 'm) app_gateway_scheme, response) io" where
  "handle_prompts_list E S env a msg_id =
     seq_io (ensure_policies_loaded E S env)
       (seq_io (ensure_skills_loaded E S env)
         (bind_io (get_team_servers E S env (team_id a)) (\<lambda>servers.
          bind_io (merge_servers E S (server_prompts E a) servers) (\<lambda>r.
          bind_io (query (\<lambda>g. st_skills (app_mem g))) (\<lambda>m.
            return_io (list_response msg_id ''prompts'' (fst r @ skill_prompts E m a) (snd r)))))))"

section \<open>Initialize\<close>

record capabilities =
  cap_tools :: bool
  cap_resources :: bool
  cap_prompts :: bool

definition catalog_has :: "json option \<Rightarrow> string \<Rightarrow> bool" where
  "catalog_has c k \<longleftrightarrow> (case c of Some v \<Rightarrow> py_truthy (jget_or_null v k) | None \<Rightarrow> False)"

fun init_servers ::
  "engine \<Rightarrow> ('w, 'x) app_services_scheme \<Rightarrow> proto_env \<Rightarrow> string \<Rightarrow> server list \<Rightarrow> capabilities \<Rightarrow>
     (('w, 'm) app_gateway_scheme, capabilities) io" where
  "init_servers E S env sid [] caps = return_io caps"
| "init_servers E S env sid (s # ss) caps =
     bind_io (initialize_upstream S (pe_up env) s) (\<lambda>usid.
     seq_io (case usid of None \<Rightarrow> return_io () | Some u \<Rightarrow> set_upstream_session E S sid (s_id s) u)
       (bind_io (get_catalog E S (s_id s)) (\<lambda>c.
          init_servers E S env sid ss
            \<lparr>cap_tools = (cap_tools caps \<or> catalog_has c ''tools''),
             cap_resources = (cap_resources caps \<or> catalog_has c ''resources''),
             cap_prompts = (cap_prompts caps \<or> catalog_has c ''prompts'')\<rparr>)))"

definition capabilities_json :: "capabilities \<Rightarrow> json" where
  "capabilities_json caps = JObj
     ((if cap_tools caps then [(''tools'', JObj [(''listChanged'', JBool True)])] else []) @
      (if cap_resources caps
       then [(''resources'', JObj [(''listChanged'', JBool True), (''subscribe'', JBool False)])] else []) @
      (if cap_prompts caps then [(''prompts'', JObj [(''listChanged'', JBool True)])] else []) @
      [(''logging'', JObj [])])"

definition initialize_result :: "capabilities \<Rightarrow> json" where
  "initialize_result caps = JObj
     [(''protocolVersion'', JStr PROTOCOL_VERSION), (''capabilities'', capabilities_json caps),
      (''serverInfo'', JObj [(''name'', JStr ''mcp-gateway''), (''version'', JStr ''0.2.0'')])]"

text \<open>The client's \<open>protocolVersion\<close> is only logged, but \<open>params\<close> must be an object.\<close>

definition handle_initialize ::
  "engine \<Rightarrow> ('w, 'x) app_services_scheme \<Rightarrow> proto_env \<Rightarrow> auth_context \<Rightarrow> json \<Rightarrow> json \<Rightarrow>
     (('w, 'm) app_gateway_scheme, response) io" where
  "handle_initialize E S env a params msg_id =
     (if \<not> is_obj params then raise_io AttributeError
      else bind_io (create_session E S (identity_id a) (team_id a)) (\<lambda>sid.
           bind_io (get_team_servers E S env (team_id a)) (\<lambda>servers.
           bind_io (init_servers E S env sid servers
               \<lparr>cap_tools = False, cap_resources = False, cap_prompts = False\<rparr>) (\<lambda>caps.
             return_io ((result_response msg_id (initialize_result caps))
               \<lparr>resp_headers := [(''Mcp-Session-Id'', sid)]\<rparr>)))))"

section \<open>Notifications\<close>

fun notify_servers ::
  "engine \<Rightarrow> ('w, 'x) app_services_scheme \<Rightarrow> proto_env \<Rightarrow> string \<Rightarrow> json \<Rightarrow> server list \<Rightarrow>
     (('w, 'm) app_gateway_scheme, unit) io" where
  "notify_servers E S env sid message [] = return_io ()"
| "notify_servers E S env sid message (s # ss) =
     bind_io (get_upstream_session E S sid (s_id s)) (\<lambda>usid.
     seq_io (send_notification S (pe_up env) s message (str_of usid))
       (notify_servers E S env sid message ss))"

text \<open>\<open>notifications/initialized\<close> and every other notification fan out the same way.\<close>

definition handle_notification ::
  "engine \<Rightarrow> ('w, 'x) app_services_scheme \<Rightarrow> proto_env \<Rightarrow> string \<Rightarrow> json \<Rightarrow> json \<Rightarrow> auth_context \<Rightarrow>
     (('w, 'm) app_gateway_scheme, unit) io" where
  "handle_notification E S env sid meth params a =
     (if meth = JStr ''notifications/cancelled'' then
        (case params of
           JObj d \<Rightarrow>
             (if dict_get d ''requestId'' JNull = JNull then return_io ()
              else seq_io (cancel_inflight S sid (dict_get d ''requestId'' JNull)) (return_io ()))
         | _ \<Rightarrow> raise_io AttributeError)
      else bind_io (get_team_servers E S env (team_id a)) (\<lambda>servers.
             notify_servers E S env sid
               (JObj [(''jsonrpc'', JStr ''2.0''), (''method'', meth), (''params'', params)]) servers))"

end
