(* ===== verification/RouteCall.thy ===== *)
theory RouteCall imports Protocol begin

text \<open>
  The protocol handler (\<open>mcp-gateway/protocol.py\<close>), second part: \<open>_route_call\<close> with its gates in
  order (policy, rate limit, DLP, guardrails, concurrent slot), the upstream call and the scans
  of its response, and the endpoint \<open>handle_mcp_post\<close>; also the tokenizer of
  \<open>mcp-gateway/dlp.py\<close>.

  A gate yields \<open>Inl\<close> a response that ends the call or \<open>Inr\<close> what the next one uses.  An
  upstream body is JSON or text, never bytes, so the size check on bytes has no counterpart.
\<close>

section \<open>Tokens\<close>

definition token_key :: "string \<Rightarrow> string" where
  "token_key t = ''mcp:tok:'' @ t"

text \<open>\<open>_tokenize_value\<close>: the stored token, or the redaction text.\<close>

definition tokenize_value :: "('w, 'x) app_services_scheme \<Rightarrow> ('w, 'm) app_gateway_scheme tokenizer" where
  "tokenize_value S v prefix ttl g =
     (case bind_io (on_world (sv_uuid_hex S)) (\<lambda>h.
           bind_io (get_client S MDlp) (\<lambda>client.
             if client then seq_io (on_world (vk_setex S (token_key (prefix @ take 24 h)) ttl v))
                              (return_io (prefix @ take 24 h))
             else return_io redacted)) g of
        (Inr t, g1) \<Rightarrow> (t, g1)
      | (Inl _, g1) \<Rightarrow> (redacted, g1))"

definition detokenize_value ::
  "('w, 'x) app_services_scheme \<Rightarrow> string \<Rightarrow> (('w, 'm) gateway_scheme, string option) io" where
  "detokenize_value S t =
     bind_io (get_client S MDlp) (\<lambda>client.
       if \<not> client then return_io None
       else try_io (on_world (vk_get S (token_key t))) (\<lambda>_. return_io None))"

section \<open>The target of a call\<close>

datatype kind = KTool | KResource | KPrompt

definition kind_name :: "kind \<Rightarrow> string" where
  "kind_name k = (case k of KTool \<Rightarrow> ''tool'' | KResource \<Rightarrow> ''resource'' | KPrompt \<Rightarrow> ''prompt'')"

record call =
  cl_session :: string
  cl_auth :: auth_context
  cl_method :: string
  cl_kind :: kind
  cl_msg_id :: json
  cl_name :: string
  cl_namespace :: string
  cl_original :: string

text \<open>The namespace and original name; \<open>None\<close> when the name carries no namespace.\<close>

definition call_target :: "kind \<Rightarrow> string \<Rightarrow> (string \<times> string) option" where
  "call_target k n =
     (if k = KResource then
        (case unwrap_resource_uri n of
           (Some namespace, original) \<Rightarrow> Some (namespace, original)
         | (None, _) \<Rightarrow> split_prefix n)
      else split_prefix n)"

definition missing_namespace :: "kind \<Rightarrow> string" where
  "missing_namespace k =
     (if k = KResource then ''Missing namespace in resource URI''
      else ''Missing namespace prefix in '' @ kind_name k @ '' name'')"

text \<open>
  \<open>params.get("name") or params.get("uri") or ""\<close>.  Of the other JSON values a list or an object
  without the element \<open>"__"\<close> counts as a name without a namespace; everything else raises.
\<close>

definition call_name :: "json dict \<Rightarrow> json" where
  "call_name d = or_else (dict_get d ''name'' JNull) (or_else (dict_get d ''uri'' JNull) (JStr ''''))"

definition resolve_name :: "kind \<Rightarrow> json \<Rightarrow> (string \<times> string \<times> string) option res" where
  "resolve_name k v =
     (case v of
        JStr n \<Rightarrow> Inr (map_option (\<lambda>(namespace, original). (n, namespace, original)) (call_target k n))
      | JList xs \<Rightarrow> if k = KResource \<or> JStr ''__'' \<in> set xs then Inl AttributeError else Inr None
      | JObj d \<Rightarrow> if k = KResource \<or> map_of d ''__'' \<noteq> None then Inl AttributeError else Inr None
      | _ \<Rightarrow> if k = KResource then Inl AttributeError else Inl TypeError)"

section \<open>Gates\<close>

definition gate :: "('s, response + 'a) io \<Rightarrow> ('a \<Rightarrow> ('s, response) io) \<Rightarrow> ('s, response) io" where
  "gate m f = bind_io m (\<lambda>x. case x of Inl r \<Rightarrow> return_io r | Inr v \<Rightarrow> f v)"

text \<open>The fields of an event that name the call.\<close>

definition call_event :: "call \<Rightarrow> int option \<Rightarrow> string \<Rightarrow> event" where
  "call_event c sid req_id =
     \<lparr>ev_request_id = req_id, ev_session_id = cl_session c,
      ev_identity = Some (identity_id (cl_auth c)), ev_team = Some (team_id (cl_auth c)),
      ev_server = sid, ev_method = cl_method c,
      ev_tool = (if cl_kind c = KTool then Some (cl_name c) else None),
      ev_resource = (if cl_kind c = KResource then Some (cl_name c) else None),
      ev_prompt = (if cl_kind c = KPrompt then Some (cl_name c) else None),
      ev_action = ''allow'', ev_status = ''ok'', ev_latency = None, ev_error = None,
      ev_bytes_in = None, ev_bytes_out = None, ev_dlp = None, ev_guardrail = None,
      ev_params = None, ev_result = None\<rparr>"

text \<open>Alert, event and error response of a call that is stopped.\<close>

definition stop_call ::
  "engine \<Rightarrow> ('w, 'x) app_services_scheme \<Rightarrow> proto_env \<Rightarrow> string option \<Rightarrow> event \<Rightarrow> response \<Rightarrow>
     (('w, 'm) app_gateway_scheme, response + 'a) io" where
  "stop_call E S env alert e r =
     seq_io (case alert of None \<Rightarrow> return_io () | Some t \<Rightarrow> record_alert S (pe_alert env) t)
       (seq_io (log_event E S (pe_cfg env) (pe_log env) e) (return_io (Inl r)))"

definition call_error :: "call \<Rightarrow> int \<Rightarrow> string \<Rightarrow> response" where
  "call_error c code msg = error_response (cl_msg_id c) code msg 200"

text \<open>Policy: the decision and the request id.\<close>

definition check_call :: "engine \<Rightarrow> policy rule_module \<Rightarrow> call \<Rightarrow> json dict \<Rightarrow> policy_result" where
  "check_call E m c params =
     (case cl_kind c of
        KTool \<Rightarrow> check_tool_access E m (cl_method c) (cl_name c) (cl_namespace c) (cl_auth c)
            (case dict_get params ''arguments'' JNull of JNull \<Rightarrow> None | v \<Rightarrow> Some v) ''''
      | KResource \<Rightarrow> check_resource_access E m (cl_method c) (cl_name c) (cl_namespace c) (cl_auth c) ''''
      | KPrompt \<Rightarrow> check_prompt_access E m (cl_method c) (cl_name c) (cl_namespace c) (cl_auth c) '''')"

definition policy_gate ::
  "engine \<Rightarrow> ('w, 'x) app_services_scheme \<Rightarrow> proto_env \<Rightarrow> call \<Rightarrow> server \<Rightarrow> json dict \<Rightarrow>
     (('w, 'm) app_gateway_scheme, response + policy_result \<times> string) io" where
  "policy_gate E S env c s params =
     seq_io (ensure_policies_loaded E S env)
       (bind_io (query (\<lambda>g. check_call E (st_policies (app_mem g)) c params)) (\<lambda>pr.
        bind_io (generate_request_id S) (\<lambda>req_id.
          if denied pr
          then stop_call E S env (Some ''policy_denied'')
                 ((call_event c (Some (s_id s)) req_id)\<lparr>ev_action := ''deny'', ev_status := ''policy_denied'',
                    ev_error := Some (''Policy denied: '' @ rule_name pr)\<rparr>)
                 (call_error c MCP_POLICY_DENIED (''Policy denied: '' @ rule_name pr))
          else return_io (Inr (pr, req_id)))))"

definition rate_gate ::
  "engine \<Rightarrow> ('w, 'x) app_services_scheme \<Rightarrow> proto_env \<Rightarrow> call \<Rightarrow> server \<Rightarrow> string \<Rightarrow> policy_result \<Rightarrow>
     (('w, 'm) app_gateway_scheme, response + unit) io" where
  "rate_gate E S env c s req_id pr =
     (if skip_ratelimit pr then return_io (Inr ())
      else bind_io (get_config E S (pe_cfg env)) (\<lambda>config.
           bind_io (get_default_rpm E S env) (\<lambda>default_rpm.
           bind_io (lift_res (get_team_rpm config (team_id (cl_auth c)) default_rpm)) (\<lambda>max_rpm.
           bind_io (check_rate_limit E S (pe_rl env) (identity_id (cl_auth c)) (cl_name c) max_rpm) (\<lambda>r.
             if fst r then return_io (Inr ())
             else stop_call E S env (Some ''rate_limited'')
                    ((call_event c (Some (s_id s)) req_id)\<lparr>ev_action := ''rate_limited'',
                       ev_status := ''rate_limited'',
                       ev_error := Some (''Rate limit exceeded for '' @ cl_name c)\<rparr>)
                    (call_error c MCP_RATE_LIMITED (''Rate limit exceeded for '' @ cl_name c)))))))"

definition run_dlp ::
  "engine \<Rightarrow> ('w, 'x) app_services_scheme \<Rightarrow> proto_env \<Rightarrow> string \<Rightarrow> json \<Rightarrow>
     (('w, 'm) app_gateway_scheme, dlp_result) io" where
  "run_dlp E S env dir v g =
     (case dlp_scan E (pe_dlp_scan env) dir v (compiled_rules (st_dlp (app_mem g)))
           (Some (tokenize_value S)) g of (r, g1) \<Rightarrow> (Inr r, g1))"

definition MCP_DLP_BLOCKED :: int where "MCP_DLP_BLOCKED = -32050"

definition MCP_GUARDRAIL_BLOCKED :: int where "MCP_GUARDRAIL_BLOCKED = -32051"

definition dlp_request_gate ::
  "engine \<Rightarrow> ('w, 'x) app_services_scheme \<Rightarrow> proto_env \<Rightarrow> call \<Rightarrow> server \<Rightarrow> string \<Rightarrow> policy_result \<Rightarrow> json \<Rightarrow>
     (('w, 'm) app_gateway_scheme, response + json \<times> dlp_hit list) io" where
  "dlp_request_gate E S env c s req_id pr params =
     (if skip_dlp pr then return_io (Inr (params, []))
      else seq_io (ensure_dlp_loaded E S env)
        (bind_io (query (\<lambda>g. has_dlp_rules (st_dlp (app_mem g)))) (\<lambda>has.
          if \<not> has then return_io (Inr (params, []))
          else bind_io (run_dlp E S env ''request'' params) (\<lambda>scan.
            if dres_blocked scan
            then (let rule = dh_rule (hd (dres_hits scan))
                  in stop_call E S env (Some ''dlp_blocked'')
                       ((call_event c (Some (s_id s)) req_id)\<lparr>ev_action := ''dlp_blocked'',
                          ev_status := ''dlp_blocked'', ev_error := Some (''DLP blocked: '' @ rule),
                          ev_dlp := Some (dres_hits scan)\<rparr>)
                       (call_error c MCP_DLP_BLOCKED (''DLP blocked: '' @ rule)))
            else return_io (Inr (if dres_modified scan then (dres_data scan, dres_hits scan)
                                 else (params, [])))))))"

definition guardrail_request_gate ::
  "engine \<Rightarrow> ('w, 'x) app_services_scheme \<Rightarrow> proto_env \<Rightarrow> call \<Rightarrow> server \<Rightarrow> string \<Rightarrow> json \<Rightarrow>
     (('w, 'm) app_gateway_scheme, response + json \<times> gr_hit list) io" where
  "guardrail_request_gate E S env c s req_id params =
     seq_io (ensure_guardrails_loaded E S env)
       (bind_io (query (\<lambda>g. st_guardrails (app_mem g))) (\<lambda>m.
          if \<not> has_guardrails m then return_io (Inr (params, []))
          else let scan = gr_scan_request E (pe_gr_scan env) params (compiled_rules m)
          in if gres_blocked scan
             then (let rule = gh_rule (hd (gres_hits scan))
                   in stop_call E S env (Some ''guardrail_blocked'')
                        ((call_event c (Some (s_id s)) req_id)\<lparr>ev_action := ''guardrail_blocked'',
                           ev_status := ''guardrail_blocked'', ev_error := Some (''Guardrail blocked: '' @ rule),
                           ev_guardrail := Some (gres_hits scan)\<rparr>)
                        (call_error c MCP_GUARDRAIL_BLOCKED (''Guardrail blocked: '' @ rule)))
             else return_io (Inr (if gres_modified scan then (gres_data scan, gres_hits scan)
                                  else (params, [])))))"

definition slot_gate ::
  "engine \<Rightarrow> ('w, 'x) app_services_scheme \<Rightarrow> proto_env \<Rightarrow> call \<Rightarrow> server \<Rightarrow> string \<Rightarrow>
     (('w, 'm) app_gateway_scheme, response + unit) io" where
  "slot_gate E S env c s req_id =
     bind_io (get_concurrent_limit E S env) (\<lambda>limit.
     bind_io (acquire_concurrent_slot S (pe_rl env) (identity_id (cl_auth c)) (Some limit)) (\<lambda>ok.
       if ok then return_io (Inr ())
       else stop_call E S env None
              ((call_event c (Some (s_id s)) req_id)\<lparr>ev_action := ''rate_limited'',
                 ev_status := ''concurrent_limit'',
                 ev_error := Some (''Concurrent request limit exceeded for identity '' @
                   int_str (identity_id (cl_auth c)))\<rparr>)
              (call_error c MCP_RATE_LIMITED ''Concurrent request limit exceeded'')))"

section \<open>The upstream call\<close>

definition forward_params :: "string \<Rightarrow> json dict \<Rightarrow> json dict" where
  "forward_params original d =
     (let d1 = (if map_of d ''name'' = None then d else AList.update ''name'' (JStr original) d)
      in if map_of d1 ''uri'' = None then d1 else AList.update ''uri'' (JStr original) d1)"

definition upstream_body :: "call \<Rightarrow> json dict \<Rightarrow> json" where
  "upstream_body c d = JObj [(''jsonrpc'', JStr ''2.0''), (''id'', JInt 1), (''method'', JStr (cl_method c)),
     (''params'', JObj (forward_params (cl_original c) d))]"

text \<open>Status, body and latency; \<open>dict(params)\<close> raises outside of the \<open>try\<close> that releases the slot.\<close>

definition forward_call ::
  "engine \<Rightarrow> ('w, 'x) app_services_scheme \<Rightarrow> proto_env \<Rightarrow> call \<Rightarrow> server \<Rightarrow> json \<Rightarrow> string option \<Rightarrow>
     (('w, 'm) app_gateway_scheme, int \<times> json \<times> int) io" where
  "forward_call E S env c s params usid =
     (case params of
        JObj d \<Rightarrow>
          bind_io (on_world (sv_time S)) (\<lambda>t0.
          bind_io (finally_io
              (send_request_tracked E S (pe_up env) (cl_session c) (cl_msg_id c) s (upstream_body c d) usid)
              (release_concurrent_slot S (identity_id (cl_auth c)))) (\<lambda>reply.
          bind_io (on_world (sv_time S)) (\<lambda>t1.
            return_io (fst reply, fst (snd reply),
              (let ms = (t1 - t0) * 1000 in if ms < 0 then \<lceil>ms\<rceil> else \<lfloor>ms\<rfloor>)))))
      | _ \<Rightarrow> raise_io TypeError)"

definition size_gate ::
  "engine \<Rightarrow> ('w, 'x) app_services_scheme \<Rightarrow> proto_env \<Rightarrow> call \<Rightarrow> server \<Rightarrow> string \<Rightarrow> int \<Rightarrow> json \<Rightarrow>
     (('w, 'm) app_gateway_scheme, response + unit) io" where
  "size_gate E S env c s req_id latency body =
     bind_io (get_config E S (pe_cfg env)) (\<lambda>config.
     bind_io (lift_res (get_max_body_bytes config)) (\<lambda>limit.
       case body of
         JStr t \<Rightarrow>
           (if 0 < limit \<and> limit < int (length t)
            then stop_call E S env None
                   ((call_event c (Some (s_id s)) req_id)\<lparr>ev_action := ''block'',
                      ev_status := ''response_too_large'',
                      ev_error := Some (''Upstream response too large ('' @ int_str (int (length t)) @ '' > '' @
                        int_str limit @ '' bytes)''), ev_latency := Some latency\<rparr>)
                   (call_error c MCP_GATEWAY_ERROR ''Upstream response too large'')
            else return_io (Inr ()))
       | _ \<Rightarrow> return_io (Inr ())))"

definition dlp_response_gate ::
  "engine \<Rightarrow> ('w, 'x) app_services_scheme \<Rightarrow> proto_env \<Rightarrow> call \<Rightarrow> server \<Rightarrow> string \<Rightarrow> policy_result \<Rightarrow> int \<Rightarrow>
     json \<Rightarrow> dlp_hit list \<Rightarrow> (('w, 'm) app_gateway_scheme, response + json \<times> dlp_hit list) io" where
  "dlp_response_gate E S env c s req_id pr latency body hits =
     bind_io (query (\<lambda>g. has_dlp_rules (st_dlp (app_mem g)))) (\<lambda>has.
       if skip_dlp pr \<or> \<not> has \<or> \<not> is_obj body then return_io (Inr (body, hits))
       else bind_io (run_dlp E S env ''response'' body) (\<lambda>scan.
         if dres_blocked scan
         then (let rule = dh_rule (hd (dres_hits scan))
               in stop_call E S env (Some ''dlp_blocked'')
                    ((call_event c (Some (s_id s)) req_id)\<lparr>ev_action := ''dlp_blocked'',
                       ev_status := ''dlp_blocked_response'',
                       ev_error := Some (''DLP blocked in response: '' @ rule), ev_latency := Some latency,
                       ev_dlp := Some (hits @ dres_hits scan)\<rparr>)
                    (call_error c MCP_DLP_BLOCKED (''DLP blocked in response: '' @ rule)))
         else return_io (Inr (if dres_modified scan then (dres_data scan, hits @ dres_hits scan)
                              else (body, hits)))))"

definition guardrail_response_gate ::
  "engine \<Rightarrow> ('w, 'x) app_services_scheme \<Rightarrow> proto_env \<Rightarrow> call \<Rightarrow> server \<Rightarrow> string \<Rightarrow> int \<Rightarrow> json \<Rightarrow>
     gr_hit list \<Rightarrow> (('w, 'm) app_gateway_scheme, response + json \<times> gr_hit list) io" where
  "guardrail_response_gate E S env c s req_id latency body hits =
     bind_io (query (\<lambda>g. st_guardrails (app_mem g))) (\<lambda>m.
       if \<not> has_guardrails m \<or> \<not> is_obj body then return_io (Inr (body, hits))
       else let scan = gr_scan_response E (pe_gr_scan env) body (compiled_rules m)
       in if gres_blocked scan
          then (let rule = gh_rule (hd (gres_hits scan))
                in stop_call E S env (Some ''guardrail_blocked'')
                     ((call_event c (Some (s_id s)) req_id)\<lparr>ev_action := ''guardrail_blocked'',
                        ev_status := ''guardrail_blocked_response'',
                        ev_error := Some (''Guardrail blocked in response: '' @ rule),
                        ev_latency := Some latency, ev_guardrail := Some (hits @ gres_hits scan)\<rparr>)
                     (call_error c MCP_GUARDRAIL_BLOCKED (''Guardrail blocked in response: '' @ rule)))
          else return_io (Inr (if gres_modified scan then (gres_data scan, hits @ gres_hits scan)
                               else (body, hits))))"

text \<open>The response to the client: an object carries the client's id, a text goes as it is.\<close>

definition final_response :: "json \<Rightarrow> int \<Rightarrow> json \<Rightarrow> response res" where
  "final_response msg_id status body =
     (case body of
        JObj d \<Rightarrow> Inr (json_response status (JObj (AList.update ''id'' msg_id d)))
      | JStr t \<Rightarrow> Inr \<lparr>resp_status = status, resp_content = Plain t, resp_headers = []\<rparr>
      | JNull \<Rightarrow> Inr \<lparr>resp_status = status, resp_content = Plain [], resp_headers = []\<rparr>
      | _ \<Rightarrow> Inl AttributeError)"

definition finish_call ::
  "engine \<Rightarrow> ('w, 'x) app_services_scheme \<Rightarrow> proto_env \<Rightarrow> call \<Rightarrow> server \<Rightarrow> string \<Rightarrow> int \<Rightarrow> int \<Rightarrow> json \<Rightarrow>
     dlp_hit list \<Rightarrow> gr_hit list \<Rightarrow> (('w, 'm) app_gateway_scheme, response) io" where
  "finish_call E S env c s req_id status latency body dhits ghits =
     seq_io (log_event E S (pe_cfg env) (pe_log env)
         ((call_event c (Some (s_id s)) req_id)\<lparr>
            ev_status := (if status = 200 then ''ok'' else ''upstream_error''),
            ev_latency := Some latency,
            ev_bytes_out := (case body of JStr t \<Rightarrow> Some (int (length t)) | _ \<Rightarrow> None),
            ev_dlp := (if dhits = [] then None else Some dhits),
            ev_guardrail := (if ghits = [] then None else Some ghits)\<rparr>))
       (lift_res (final_response (cl_msg_id c) status body))"

definition call_upstream ::
  "engine \<Rightarrow> ('w, 'x) app_services_scheme \<Rightarrow> proto_env \<Rightarrow> call \<Rightarrow> server \<Rightarrow> string \<Rightarrow> policy_result \<Rightarrow>
     json \<Rightarrow> dlp_hit list \<Rightarrow> gr_hit list \<Rightarrow> (('w, 'm) app_gateway_scheme, response) io" where
  "call_upstream E S env c s req_id pr params dhits ghits =
     bind_io (get_upstream_session E S (cl_session c) (s_id s)) (\<lambda>usid.
     gate (slot_gate E S env c s req_id) (\<lambda>_.
     bind_io (forward_call E S env c s params (str_of usid)) (\<lambda>r.
     gate (size_gate E S env c s req_id (snd (snd r)) (fst (snd r))) (\<lambda>_.
     gate (dlp_response_gate E S env c s req_id pr (snd (snd r)) (fst (snd r)) dhits) (\<lambda>d.
     gate (guardrail_response_gate E S env c s req_id (snd (snd r)) (fst d) ghits) (\<lambda>gr.
       finish_call E S env c s req_id (fst r) (snd (snd r)) (fst gr) (snd d) (snd gr)))))))"

section \<open>Routing\<close>

text \<open>A skill is rendered here, whatever its condition, its team and the policies say.\<close>

definition skill_call ::
  "engine \<Rightarrow> ('w, 'x) app_services_scheme \<Rightarrow> proto_env \<Rightarrow> call \<Rightarrow> (('w, 'm) app_gateway_scheme, response) io" where
  "skill_call E S env c =
     seq_io (ensure_skills_loaded E S env)
       (bind_io (query (\<lambda>g. get_skill_by_name (st_skills (app_mem g)) (cl_original c))) (\<lambda>sk.
          case sk of
            None \<Rightarrow> return_io (call_error c JSONRPC_METHOD_NOT_FOUND (''Unknown skill: '' @ cl_original c))
          | Some s \<Rightarrow>
              if \<not> py_truthy (sk_published_version_id s)
              then return_io (call_error c JSONRPC_METHOD_NOT_FOUND (''Skill not published: '' @ cl_original c))
              else bind_io (generate_request_id S) (\<lambda>req_id.
                seq_io (log_event E S (pe_cfg env) (pe_log env)
                    ((call_event c None req_id)\<lparr>ev_tool := None, ev_resource := None,
                       ev_prompt := Some (cl_name c), ev_latency := Some 0\<rparr>))
                  (return_io (json_response 200
                     (JObj (AList.update ''id'' (cl_msg_id c) (render_skill_prompt E s))))))))"

definition server_call ::
  "engine \<Rightarrow> ('w, 'x) app_services_scheme \<Rightarrow> proto_env \<Rightarrow> call \<Rightarrow> server \<Rightarrow> json dict \<Rightarrow>
     (('w, 'm) app_gateway_scheme, response) io" where
  "server_call E S env c s params =
     gate (policy_gate E S env c s params) (\<lambda>p.
     gate (rate_gate E S env c s (snd p) (fst p)) (\<lambda>_.
     gate (dlp_request_gate E S env c s (snd p) (fst p) (JObj params)) (\<lambda>d.
     gate (guardrail_request_gate E S env c s (snd p) (fst d)) (\<lambda>gr.
       call_upstream E S env c s (snd p) (fst p) (fst gr) (snd d) (snd gr)))))"

definition unknown_namespace :: "call \<Rightarrow> response" where
  "unknown_namespace c = call_error c JSONRPC_METHOD_NOT_FOUND (''Unknown namespace: '' @ cl_namespace c)"

definition route_call ::
  "engine \<Rightarrow> ('w, 'x) app_services_scheme \<Rightarrow> proto_env \<Rightarrow> string \<Rightarrow> auth_context \<Rightarrow> string \<Rightarrow> json \<Rightarrow> json \<Rightarrow>
     kind \<Rightarrow> (('w, 'm) app_gateway_scheme, response) io" where
  "route_call E S env sid a meth params msg_id k =
     (case params of
        JObj d \<Rightarrow>
          bind_io (lift_res (resolve_name k (call_name d))) (\<lambda>target.
            case target of
              None \<Rightarrow> return_io (error_response msg_id JSONRPC_METHOD_NOT_FOUND (missing_namespace k) 200)
            | Some (n, namespace, original) \<Rightarrow>
                (let c = \<lparr>cl_session = sid, cl_auth = a, cl_method = meth, cl_kind = k, cl_msg_id = msg_id,
                          cl_name = n, cl_namespace = namespace, cl_original = original\<rparr>
                 in bind_io (get_config E S (pe_cfg env)) (\<lambda>config.
                      if namespace = SKILL_NAMESPACE \<and> k = KPrompt then skill_call E S env c
                      else (case server_by_namespace config namespace of
                          None \<Rightarrow> return_io (unknown_namespace c)
                        | Some s \<Rightarrow>
                            if s_team_id s \<noteq> team_id a then return_io (unknown_namespace c)
                            else server_call E S env c s d))))
      | _ \<Rightarrow> raise_io AttributeError)"

section \<open>The endpoint\<close>

definition identity_of :: "json \<Rightarrow> identity" where
  "identity_of v =
     \<lparr>i_id = or_default (int_at v ''id'') 0, i_team_id = or_default (int_at v ''team_id'') 0,
      i_name = or_default (str_at v ''name'') [], i_subject = str_at v ''subject'',
      i_kind = or_default (str_at v ''kind'') [], i_pat_hash = str_at v ''pat_hash'',
      i_pat_prefix = str_at v ''pat_prefix'', i_jwt_issuer = str_at v ''jwt_issuer'',
      i_jwt_audience = str_at v ''jwt_audience'', i_jwt_jwks_url = str_at v ''jwt_jwks_url'',
      i_enabled = bool_at v ''enabled'', i_expires_at = str_at v ''expires_at''\<rparr>"

definition auth_config_of :: "json dict \<Rightarrow> auth_config" where
  "auth_config_of c =
     \<lparr>identities = or_default (rules_at identity_of c ''identities'') [],
      jwt_issuer = str_at (JObj c) ''jwt_issuer'', jwt_audience = str_at (JObj c) ''jwt_audience'',
      jwt_jwks_url = str_at (JObj c) ''jwt_jwks_url''\<rparr>"

text \<open>
  The address: the first of \<open>X-Forwarded-For\<close>, else the peer, but nothing at all when the server
  knows no peer (the conditional expression binds weaker than \<open>or\<close>).
\<close>

definition client_ip :: "request \<Rightarrow> string" where
  "client_ip rq =
     (case rq_client rq of
        None \<Rightarrow> []
      | Some host \<Rightarrow>
          (let first = strip (hd (split_char CHR '','' (request_header rq ''x-forwarded-for'' '''')))
           in if first \<noteq> [] then first else host))"

definition bearer :: string where "bearer = ''Bearer ''"

text \<open>\<open>authenticate\<close> with its \<open>AuthError\<close> turned into \<open>None\<close>.\<close>

definition try_authenticate ::
  "engine \<Rightarrow> ('w, 'x) app_services_scheme \<Rightarrow> proto_env \<Rightarrow> string \<Rightarrow> json dict \<Rightarrow> string \<Rightarrow>
     (('w, 'm) app_gateway_scheme, auth_context option) io" where
  "try_authenticate E S env token config ip =
     try_io (bind_io (authenticate E S token (auth_config_of config) ip) (\<lambda>a. return_io (Some a)))
       (\<lambda>e. case e of
          AuthError _ \<Rightarrow> seq_io (record_alert S (pe_alert env) ''auth_failed'') (return_io None)
        | _ \<Rightarrow> raise_io e)"

definition too_large :: "int \<Rightarrow> int \<Rightarrow> response" where
  "too_large n limit = error_response JNull JSONRPC_PARSE_ERROR
     (''Request body too large ('' @ int_str n @ '' > '' @ int_str limit @ '' bytes)'') 413"

text \<open>Reading the message: an error response, or the object.\<close>

definition read_message ::
  "engine \<Rightarrow> ('w, 'x) cfg_services_scheme \<Rightarrow> request \<Rightarrow> json dict \<Rightarrow> (response + json dict) res" where
  "read_message E S rq config =
     (case py_int_of_str (request_header rq ''content-length'' ''0'') of
        None \<Rightarrow> Inl ValueError
      | Some n \<Rightarrow> bind_res (get_max_body_bytes config) (\<lambda>limit.
          if 0 < limit \<and> limit < n then Inr (Inl (too_large n limit))
          else (case rq_body rq of
              Inl _ \<Rightarrow> Inr (Inl (error_response JNull JSONRPC_PARSE_ERROR ''Failed to read request body'' 400))
            | Inr raw \<Rightarrow>
                if 0 < limit \<and> limit < int (length raw) then Inr (Inl (too_large (int (length raw)) limit))
                else (case (case utf8_decode S raw of Inl _ \<Rightarrow> None | Inr t \<Rightarrow> json_loads E t) of
                    None \<Rightarrow> Inr (Inl (error_response JNull JSONRPC_PARSE_ERROR ''Parse error'' 400))
                  | Some (JObj d) \<Rightarrow> Inr (Inr d)
                  | Some _ \<Rightarrow> Inr (Inl (error_response JNull JSONRPC_INVALID_REQUEST ''Invalid Request'' 400))))))"

text \<open>The session of a request: an error response, or the session refreshed.\<close>

definition session_gate ::
  "engine \<Rightarrow> ('w, 'x) app_services_scheme \<Rightarrow> string option \<Rightarrow> auth_context \<Rightarrow> json \<Rightarrow>
     (('w, 'm) app_gateway_scheme, response + string) io" where
  "session_gate E S sid a msg_id =
     (let invalid = error_response msg_id MCP_GATEWAY_ERROR
            ''Invalid or missing session. Call initialize first.'' 400
      in if \<not> given sid then return_io (Inl invalid)
         else bind_io (validate_session E S (the sid)) (\<lambda>valid.
           if \<not> valid then return_io (Inl invalid)
           else bind_io (get_session E S (the sid)) (\<lambda>d.
             case d of
               None \<Rightarrow> seq_io (refresh_session S (the sid)) (return_io (Inr (the sid)))
             | Some data \<Rightarrow>
                 if \<not> py_truthy data then seq_io (refresh_session S (the sid)) (return_io (Inr (the sid)))
                 else if \<not> is_obj data then raise_io AttributeError
                 else if \<not> py_eq (jget_or_null data ''identity_id'') (JInt (identity_id a))
                 then return_io (Inl (error_response msg_id MCP_GATEWAY_ERROR ''Session identity mismatch'' 403))
                 else bind_io (is_token_valid S (identity_id a) None) (\<lambda>ok.
                   if \<not> ok
                   then return_io (Inl (error_response msg_id MCP_GATEWAY_ERROR ''Identity has been revoked'' 403))
                   else seq_io (refresh_session S (the sid)) (return_io (Inr (the sid)))))))"

definition dispatch ::
  "engine \<Rightarrow> ('w, 'x) app_services_scheme \<Rightarrow> proto_env \<Rightarrow> string \<Rightarrow> auth_context \<Rightarrow> json \<Rightarrow> json \<Rightarrow> json \<Rightarrow>
     (('w, 'm) app_gateway_scheme, response) io" where
  "dispatch E S env sid a meth params msg_id =
     (if meth = JStr ''ping'' \<or> meth = JStr ''logging/setLevel'' then return_io (result_response msg_id (JObj []))
      else if meth = JStr ''tools/list'' then handle_tools_list E S env a msg_id
      else if meth = JStr ''resources/list'' then handle_resources_list E S env a msg_id
      else if meth = JStr ''resources/templates/list'' then handle_resources_templates_list E S env a msg_id
      else if meth = JStr ''prompts/list'' then handle_prompts_list E S env a msg_id
      else if meth = JStr ''resources/subscribe'' then return_io (error_response msg_id
        MCP_RESOURCE_NOT_SUPPORTED ''resources/subscribe is not supported in v1'' 200)
      else if meth = JStr ''tools/call'' then route_call E S env sid a ''tools/call'' params msg_id KTool
      else if meth = JStr ''resources/read'' then route_call E S env sid a ''resources/read'' params msg_id KResource
      else if meth = JStr ''prompts/get'' then route_call E S env sid a ''prompts/get'' params msg_id KPrompt
      else return_io (error_response msg_id JSONRPC_METHOD_NOT_FOUND
        (''Method not found: '' @ py_str (float_repr E) meth) 200))"

definition accepted :: response where
  "accepted = \<lparr>resp_status = 202, resp_content = NoContent, resp_headers = []\<rparr>"

text \<open>What happens to a message of an authenticated client.\<close>

definition handle_message ::
  "engine \<Rightarrow> ('w, 'x) app_services_scheme \<Rightarrow> proto_env \<Rightarrow> request \<Rightarrow> auth_context \<Rightarrow> json dict \<Rightarrow>
     (('w, 'm) app_gateway_scheme, response) io" where
  "handle_message E S env rq a body =
     (let msg_id = dict_get body ''id'' JNull; meth = dict_get body ''method'' JNull;
          params = dict_get body ''params'' (JObj []); sid = header (rq_headers rq) ''mcp-session-id''
      in if is_notification body \<or> is_response body then
           seq_io (if given sid \<and> py_truthy meth
                   then handle_notification E S env (the sid) meth params a else return_io ())
             (return_io accepted)
         else if \<not> py_truthy meth
         then return_io (error_response msg_id JSONRPC_INVALID_REQUEST ''Invalid Request'' 400)
         else if meth = JStr ''initialize'' then handle_initialize E S env a params msg_id
         else gate (session_gate E S sid a msg_id) (\<lambda>session. dispatch E S env session a meth params msg_id))"

definition handle_mcp_post ::
  "engine \<Rightarrow> ('w, 'x) app_services_scheme \<Rightarrow> proto_env \<Rightarrow> request \<Rightarrow> (('w, 'm) app_gateway_scheme, response) io" where
  "handle_mcp_post E S env rq =
     bind_io (get_config E S (pe_cfg env)) (\<lambda>config0.
       if \<not> is_configured config0
       then return_io (error_response JNull MCP_GATEWAY_ERROR ''MCP gateway disabled or not configured'' 503)
       else bind_io (get_config E S (pe_cfg env)) (\<lambda>config1.
         if \<not> check_origin config1 (request_header rq ''origin'' '''')
         then return_io (error_response JNull MCP_GATEWAY_ERROR ''Invalid Origin'' 403)
         else bind_io (get_per_ip_limit E S env) (\<lambda>limit.
           bind_io (check_ip_rate_limit E S (pe_rl env) (client_ip rq) (Some limit)) (\<lambda>ip_ok.
             if \<not> fst ip_ok then return_io (error_response JNull MCP_RATE_LIMITED ''IP rate limit exceeded'' 200)
             else let auth_header = request_header rq ''authorization'' ''''
             in if \<not> starts_with auth_header bearer
                then return_io (unauthorized_response (resource_metadata_url rq))
                else bind_io (get_config E S (pe_cfg env)) (\<lambda>config.
                  bind_io (try_authenticate E S env (drop 7 auth_header) config (client_ip rq)) (\<lambda>who.
                    case who of
                      None \<Rightarrow> return_io (unauthorized_response (resource_metadata_url rq))
                    | Some a \<Rightarrow>
                        gate (lift_res (read_message E S rq config)) (handle_message E S env rq a)))))))"

definition handle_mcp_get :: response where
  "handle_mcp_get = (error_response JNull MCP_GATEWAY_ERROR ''SSE not supported in v1'' 405)
     \<lparr>resp_headers := [(''Allow'', ''POST'')]\<rparr>"

end
