(* ===== verification/Merging.thy ===== *)
theory Merging imports RouteCall begin

text \<open>
  What the merged lists contain.  The list handlers of \<open>mcp-gateway/protocol.py\<close> share a loop over
  the servers of the team; the locale \<open>list_section\<close> states what the loop asks of the part a
  server contributes: it leaves the policies alone, and every item it returns belongs to the
  server.  Tools, resources, templates and prompts interpret it.
\<close>

abbreviation policies_of :: "('w, 'm) app_gateway_scheme \<Rightarrow> policy rule_module" where
  "policies_of g \<equiv> st_policies (app_mem g)"

named_theorems policies_kept "operations that leave the policies alone"

lemma get_config_app [policies_kept]:
  "get_config E S env g = (r, g1) \<Longrightarrow> app_mem g1 = app_mem g"
  by (auto simp: get_config_def load_config_def reload_config_def on_world_def accept_config_def set_config_def
      Let_def split: prod.splits sum.splits option.splits json.splits if_splits)

lemma get_catalog_policies: "policies_of (snd (get_catalog E S sid g)) = policies_of g"
  by (auto simp: get_catalog_def get_valkey_def modify_catalog_def io_simps
      split: prod.splits sum.splits option.splits)

lemma write_back_policies: "policies_of (snd (write_back sid k xs g)) = policies_of g"
  by (auto simp: write_back_def modify_catalog_def modify_app_def split: option.splits json.splits)

section \<open>The loop\<close>

locale list_section =
  fixes f :: "server \<Rightarrow> json \<Rightarrow> (('w, 'm) app_gateway_scheme, json list) io"
    and own :: "policy rule_module \<Rightarrow> server \<Rightarrow> json \<Rightarrow> bool"
  assumes kept: "policies_of (snd (f s c g)) = policies_of g"
    and owned: "f s c g = (Inr items, g1) \<Longrightarrow> x \<in> set items \<Longrightarrow> own (policies_of g) s x"
begin

lemma merged:
  "merge_servers E S f ss g = (Inr r, g1) \<Longrightarrow>
     (\<forall>x\<in>set (fst r). \<exists>s\<in>set ss. own (policies_of g) s x) \<and>
     (\<forall>x\<in>set (snd r). \<exists>s\<in>set ss. x = missing_catalog s)"
proof (induction ss arbitrary: g r g1)
  case Nil
  then show ?case by (auto simp: return_io_def)
next
  case (Cons s ss)
  obtain cat g2 where c: "get_catalog E S (s_id s) g = (Inr cat, g2)"
    using Cons.prems by (auto simp: bind_io_def split: prod.splits sum.splits)
  then have p2: "policies_of g2 = policies_of g" using get_catalog_policies [of E S "s_id s" g] by simp
  show ?case
  proof (cases cat)
    case None
    with Cons.prems c obtain r2 where m: "merge_servers E S f ss g2 = (Inr r2, g1)"
        "r = (fst r2, missing_catalog s # snd r2)"
      by (auto simp: bind_io_def return_io_def split: prod.splits sum.splits)
    from Cons.IH [OF m(1)] m(2) p2 show ?thesis by auto
  next
    case (Some v)
    with Cons.prems c obtain items g3 r2 where f: "f s v g2 = (Inr items, g3)"
        and m: "merge_servers E S f ss g3 = (Inr r2, g1)" "r = (items @ fst r2, snd r2)"
      by (auto simp: bind_io_def return_io_def split: prod.splits sum.splits)
    have p3: "policies_of g3 = policies_of g" using kept [of s v g2] f p2 by simp
    from Cons.IH [OF m(1)] m(2) p2 p3 owned [OF f] show ?thesis by auto
  qed
qed

end

section \<open>The four sections\<close>

text \<open>An item that names the server's namespace, and that the policies let the identity see.\<close>

definition named_by :: "server \<Rightarrow> json \<Rightarrow> json dict \<Rightarrow> bool" where
  "named_by s x d \<longleftrightarrow> x = JObj d \<and> (\<exists>n. dict_get d ''name'' JNull = JStr (prefix_tool_name (namespace_of s) n))"

definition wrapped_by :: "string \<Rightarrow> server \<Rightarrow> json \<Rightarrow> json dict \<Rightarrow> bool" where
  "wrapped_by k s x d \<longleftrightarrow> x = JObj d \<and> (\<exists>u. dict_get d k JNull = JStr (wrap_resource_uri (namespace_of s) u))"

definition tool_of :: "engine \<Rightarrow> auth_context \<Rightarrow> policy rule_module \<Rightarrow> server \<Rightarrow> json \<Rightarrow> bool" where
  "tool_of E a m s x \<longleftrightarrow> (\<exists>d. named_by s x d \<and> visible (check_access E m a (no_query\<lparr>q_method := ''tools/call'',
     q_tool := item_text d ''name'', q_server := namespace_of s, q_ip_src := ''''\<rparr>)))"

definition resource_of :: "engine \<Rightarrow> auth_context \<Rightarrow> policy rule_module \<Rightarrow> server \<Rightarrow> json \<Rightarrow> bool" where
  "resource_of E a m s x \<longleftrightarrow> (\<exists>d. wrapped_by ''uri'' s x d \<and>
     visible (check_access E m a (no_query\<lparr>q_method := ''resources/read'',
       q_resource := item_text d ''uri'', q_server := namespace_of s, q_ip_src := ''''\<rparr>)))"

definition prompt_of :: "engine \<Rightarrow> auth_context \<Rightarrow> policy rule_module \<Rightarrow> server \<Rightarrow> json \<Rightarrow> bool" where
  "prompt_of E a m s x \<longleftrightarrow> (\<exists>d. named_by s x d \<and> visible (check_access E m a (no_query\<lparr>q_method := ''prompts/get'',
     q_prompt := item_text d ''name'', q_server := namespace_of s, q_ip_src := ''''\<rparr>)))"


lemma mark_meta_fields:
  "mark_meta marks item prefixed = Inr (d, c) \<Longrightarrow> k \<noteq> ''_meta'' \<Longrightarrow> dict_get d k v = dict_get prefixed k v"
  by (auto simp: mark_meta_def Let_def split: json.splits)

lemma prefix_item_named:
  "prefix_item E (namespace_of s) ''name'' x = Inr (d, c) \<Longrightarrow> named_by s (JObj d) d"
  by (auto simp: prefix_item_def named_by_def Let_def mark_meta_fields split: json.splits)

lemma wrap_item_wrapped: "wrap_item (namespace_of s) x = Inr (d, c) \<Longrightarrow> wrapped_by ''uri'' s (JObj d) d"
  by (auto simp: wrap_item_def wrapped_by_def mark_meta_fields split: json.splits)

lemma wrap_template_wrapped:
  "wrap_template (namespace_of s) x = Inr (Some d, c) \<Longrightarrow> wrapped_by ''uriTemplate'' s (JObj d) d"
  by (auto simp: wrap_template_def wrapped_by_def mark_meta_fields map_sum_def
      split: json.splits option.splits sum.splits)

lemma in_map_fst: "x \<in> set (map fst ps) \<Longrightarrow> \<exists>c. (x, c) \<in> set ps"
  by force

text \<open>The four share their shape: read the items, mark them, write the cached ones back, filter.\<close>

definition section_of ::
  "'i res \<Rightarrow> ('i \<Rightarrow> 'p res) \<Rightarrow> ('p \<Rightarrow> json list) \<Rightarrow> ('p \<Rightarrow> policy rule_module \<Rightarrow> json list) \<Rightarrow> int \<Rightarrow> string \<Rightarrow>
     (('w, 'm) app_gateway_scheme, json list) io" where
  "section_of A B W C sid k =
     bind_io (lift_res A) (\<lambda>xs.
     bind_io (lift_res (B xs)) (\<lambda>ps.
     seq_io (write_back sid k (W ps)) (bind_io (query policies_of) (\<lambda>m. return_io (C ps m)))))"

lemma section_of_ok:
  assumes "A = Inr xs" and "B xs = Inr ps"
  shows "\<exists>g1. section_of A B W C sid k g = (Inr (C ps (policies_of g)), g1) \<and> policies_of g1 = policies_of g"
proof -
  obtain g1 where "write_back sid k (W ps) g = (Inr (), g1)"
    by (simp add: write_back_def modify_catalog_def modify_app_def)
  moreover from this write_back_policies [of sid k "W ps" g] have "policies_of g1 = policies_of g" by simp
  ultimately show ?thesis using assms by (simp add: section_of_def io_simps)
qed

lemma section_of_run:
  "(\<exists>e. section_of A B W C sid k g = (Inl e, g)) \<or>
   (\<exists>xs ps g1. A = Inr xs \<and> B xs = Inr ps \<and> section_of A B W C sid k g = (Inr (C ps (policies_of g)), g1) \<and>
      policies_of g1 = policies_of g)"
proof (cases A)
  case (Inr xs)
  then show ?thesis
    using section_of_ok [of A xs B _ W C sid k g] by (cases "B xs") (auto simp: section_of_def io_simps)
qed (simp add: section_of_def io_simps)

lemma section_of_kept: "policies_of (snd (section_of A B W C sid k g)) = policies_of g"
  using section_of_run [of A B W C sid k g] by auto

lemma section_of_items:
  "section_of A B W C sid k g = (Inr items, g1) \<Longrightarrow>
     \<exists>xs ps. A = Inr xs \<and> B xs = Inr ps \<and> items = C ps (policies_of g)"
  using section_of_run [of A B W C sid k g] by auto

lemma query_unused: "bind_io (query h) (\<lambda>_. m) = m"
  by (simp add: fun_eq_iff bind_io_def query_def)

lemma sections:
  "server_tools E a s c = section_of (server_items c ''tools'')
     (\<lambda>xs. prefix_list_items E xs (namespace_of s) ''name'') (map snd)
     (\<lambda>ps m. map JObj (filter_tool_list E m (map fst ps) (namespace_of s) a '''')) (s_id s) ''tools''"
  "server_resources E a s c = section_of (server_items c ''resources'')
     (each_res (wrap_item (namespace_of s))) (map snd)
     (\<lambda>ps m. map JObj (filter_resource_list E m (map fst ps) (namespace_of s) a '''')) (s_id s) ''resources''"
  "server_templates s c = section_of (server_items c ''resources'')
     (each_res (wrap_template (namespace_of s))) (map snd)
     (\<lambda>ps m. map JObj (List.map_filter fst ps)) (s_id s) ''resources''"
  "server_prompts E a s c = section_of (server_items c ''prompts'')
     (\<lambda>xs. prefix_list_items E xs (namespace_of s) ''name'') (map snd)
     (\<lambda>ps m. map JObj (filter_prompt_list E m (map fst ps) (namespace_of s) a '''')) (s_id s) ''prompts''"
  by (simp_all add: server_tools_def server_resources_def server_templates_def server_prompts_def
      section_of_def query_unused)

lemma prefixed_named:
  "prefix_list_items E xs (namespace_of s) ''name'' = Inr ps \<Longrightarrow> (d, c) \<in> set ps \<Longrightarrow> named_by s (JObj d) d"
  by (auto simp: prefix_list_items_def dest!: each_res_in intro: prefix_item_named)

lemma wrapped_listed:
  "each_res (wrap_item (namespace_of s)) xs = Inr ps \<Longrightarrow> (d, c) \<in> set ps \<Longrightarrow> wrapped_by ''uri'' s (JObj d) d"
  by (drule (1) each_res_in) (auto intro: wrap_item_wrapped)

lemma templates_listed:
  "each_res (wrap_template (namespace_of s)) xs = Inr ps \<Longrightarrow> (Some d, c) \<in> set ps \<Longrightarrow>
     wrapped_by ''uriTemplate'' s (JObj d) d"
  by (drule (1) each_res_in) (auto intro: wrap_template_wrapped)

interpretation tools: list_section "server_tools E a" "tool_of E a" for E a
proof
  show "server_tools E a s c g = (Inr items, g1) \<Longrightarrow> x \<in> set items \<Longrightarrow> tool_of E a (policies_of g) s x" for s c g items g1 x
    unfolding sections tool_of_def
    by (fastforce simp: filter_tool_list_def dest!: section_of_items intro: prefixed_named)
qed (simp add: sections section_of_kept)

interpretation prompts: list_section "server_prompts E a" "prompt_of E a" for E a
proof
  show "server_prompts E a s c g = (Inr items, g1) \<Longrightarrow> x \<in> set items \<Longrightarrow> prompt_of E a (policies_of g) s x" for s c g items g1 x
    unfolding sections prompt_of_def
    by (fastforce simp: filter_prompt_list_def dest!: section_of_items intro: prefixed_named)
qed (simp add: sections section_of_kept)

interpretation resources: list_section "server_resources E a" "resource_of E a" for E a
proof
  show "server_resources E a s c g = (Inr items, g1) \<Longrightarrow> x \<in> set items \<Longrightarrow> resource_of E a (policies_of g) s x"
    for s c g items g1 x
    unfolding sections resource_of_def
    by (fastforce simp: filter_resource_list_def dest!: section_of_items intro: wrapped_listed)
qed (simp add: sections section_of_kept)

interpretation templates: list_section server_templates "\<lambda>m s x. \<exists>d. wrapped_by ''uriTemplate'' s x d"
proof
  show "server_templates s c g = (Inr items, g1) \<Longrightarrow> x \<in> set items \<Longrightarrow> \<exists>d. wrapped_by ''uriTemplate'' s x d"
    for s c g items g1 x
    unfolding sections
    by (fastforce simp: List.map_filter_def dest!: section_of_items intro: templates_listed)
qed (simp add: sections section_of_kept)

section \<open>The lists\<close>

text \<open>C12: Tool lists respect teams and policies: every listed tool comes from an enabled server of the
  identity's team, carries that server's namespace as a prefix, and is visible to the identity
  under the policies loaded for the request; every warning names a server of the team.\<close>

theorem tools_list_confined:
  fixes g :: "('w, 'm) app_gateway_scheme"
  assumes "handle_tools_list E S env a msg_id g = (Inr r, g')"
  shows "\<exists>config (g1 :: ('w, 'm) app_gateway_scheme) items warnings.
    r = list_response msg_id ''tools'' items warnings \<and>
    get_config E S (pe_cfg env) (snd (ensure_policies_loaded E S env g)) = (Inr config, g1) \<and>
    (\<forall>x\<in>set items. \<exists>s\<in>set (team_servers config (team_id a)).
       tool_of E a (policies_of (snd (ensure_policies_loaded E S env g))) s x) \<and>
    (\<forall>x\<in>set warnings. \<exists>s\<in>set (team_servers config (team_id a)). x = missing_catalog s)"
proof -
  let ?g = "snd (ensure_policies_loaded E S env g)"
  obtain config g1 l g2 where c: "get_config E S (pe_cfg env) ?g = (Inr config, g1)"
      and m: "merge_servers E S (server_tools E a) (team_servers config (team_id a)) g1 = (Inr l, g2)"
      and r: "r = list_response msg_id ''tools'' (fst l) (snd l)"
    using assms by (auto simp: handle_tools_list_def get_team_servers_def io_simps split: prod.splits sum.splits)
  have "app_mem g1 = app_mem ?g" by (rule get_config_app [OF c])
  with tools.merged [OF m] have "\<forall>x\<in>set (fst l). \<exists>s\<in>set (team_servers config (team_id a)).
       tool_of E a (policies_of ?g) s x" by simp
  with c r tools.merged [OF m] show ?thesis by (intro exI [of _ config] exI [of _ g1] exI conjI) blast+
qed

text \<open>The merged list of prompts of the servers has the same guarantees, and what follows them are the
  skills offered to the identity: the skills are not checked against policies or teams.\<close>

lemma prompts_list_confined:
  fixes g :: "('w, 'm) app_gateway_scheme"
  assumes "handle_prompts_list E S env a msg_id g = (Inr r, g')"
  shows "\<exists>config (g1 :: ('w, 'm) app_gateway_scheme) items warnings g2.
    r = list_response msg_id ''prompts'' (items @ skill_prompts E (st_skills (app_mem g')) a) warnings \<and>
    g2 = snd (seq_io (ensure_policies_loaded E S env) (ensure_skills_loaded E S env) g) \<and>
    get_config E S (pe_cfg env) g2 = (Inr config, g1) \<and>
    (\<forall>x\<in>set items. \<exists>s\<in>set (team_servers config (team_id a)). prompt_of E a (policies_of g2) s x)"
proof -
  let ?g = "snd (seq_io (ensure_policies_loaded E S env) (ensure_skills_loaded E S env) g)"
  obtain config g1 l where c: "get_config E S (pe_cfg env) ?g = (Inr config, g1)"
      and m: "merge_servers E S (server_prompts E a) (team_servers config (team_id a)) g1 = (Inr l, g')"
      and r: "r = list_response msg_id ''prompts'' (fst l @ skill_prompts E (st_skills (app_mem g')) a) (snd l)"
    using assms by (auto simp: handle_prompts_list_def get_team_servers_def io_simps split: prod.splits sum.splits)
  have "app_mem g1 = app_mem ?g" by (rule get_config_app [OF c])
  with prompts.merged [OF m] have "\<forall>x\<in>set (fst l). \<exists>s\<in>set (team_servers config (team_id a)).
       prompt_of E a (policies_of ?g) s x" by simp
  with c r show ?thesis by (intro exI [of _ config] exI [of _ g1] exI conjI) simp_all
qed

end
