(* ===== verification/Demo.thy ===== *)
theory Demo imports Slots App begin

text \<open>
  A concrete world for the theorems about the services: a store in memory with a clock that ticks
  at every reading, sorted sets with expiries, counters and texts, and an upstream that answers
  every request with the same page.  On it the contracts of the services hold and the
  hypotheses of the theorems are met.
\<close>

section \<open>The world\<close>

record mem =
  m_now :: nat
  m_texts :: "(string \<times> string) list"
  m_counters :: "(string \<times> int) list"
  m_sets :: "(string \<times> (string \<times> real) list) list"
  m_expiries :: "(string \<times> real) list"
  m_lines :: "string list"

definition empty_mem :: mem where
  "empty_mem = \<lparr>m_now = 100, m_texts = [], m_counters = [], m_sets = [], m_expiries = [], m_lines = []\<rparr>"

definition mem_set :: "mem \<Rightarrow> string \<Rightarrow> (string \<rightharpoonup> real)" where
  "mem_set w k = map_of (dict_get (m_sets w) k [])"

definition mem_counter :: "mem \<Rightarrow> string \<Rightarrow> int" where
  "mem_counter w k = dict_get (m_counters w) k 0"

definition mem_expiry :: "mem \<Rightarrow> string \<Rightarrow> real option" where
  "mem_expiry w = map_of (m_expiries w)"

definition mem_time :: "mem \<Rightarrow> real" where
  "mem_time w = real (m_now w)"

definition alive :: "mem \<Rightarrow> nat \<Rightarrow> string \<Rightarrow> bool" where
  "alive w t k = (case map_of (m_expiries w) k of None \<Rightarrow> True | Some x \<Rightarrow> real t < x)"

definition tick :: "(mem, real) io" where
  "tick w = (let t = Suc (m_now w)
     in (Inr (real t), w\<lparr>m_now := t, m_sets := filter (\<lambda>(k, _). alive w t k) (m_sets w)\<rparr>))"

definition step_counter :: "int \<Rightarrow> string \<Rightarrow> (mem, int) io" where
  "step_counter d k w = (let n = mem_counter w k + d
     in (Inr n, w\<lparr>m_counters := AList.update k n (m_counters w)\<rparr>))"

definition update_set :: "string \<Rightarrow> ((string \<times> real) list \<Rightarrow> (string \<times> real) list) \<Rightarrow> (mem, unit) io" where
  "update_set k f w = (Inr (), w\<lparr>m_sets := AList.update k (f (dict_get (m_sets w) k [])) (m_sets w)\<rparr>)"

definition drop_scores :: "real \<Rightarrow> real \<Rightarrow> (string \<times> real) list \<Rightarrow> (string \<times> real) list" where
  "drop_scores a b z =
     filter (\<lambda>(m, _). case map_of z m of Some s \<Rightarrow> \<not> (a \<le> s \<and> s \<le> b) | None \<Rightarrow> True) z"

definition page :: http_response where
  "page = \<lparr>rs_status = 200, rs_headers = [(''content-type'', ''application/json'')],
     rs_text = json_dumps literal_engine (JObj [(''result'', JObj
       [(''tools'', JList []), (''nextCursor'', JStr ''more'')])])\<rparr>"

definition last_page :: http_response where
  "last_page = page\<lparr>rs_text := json_dumps literal_engine (JObj [(''result'', JObj [(''tools'', JList [])])])\<rparr>"

definition demo_services :: "mem app_services" where
  "demo_services =
     \<lparr>sv_time = tick, sv_token = return_io ''s1'', vk_connect = return_io (),
      vk_get = (\<lambda>k w. (Inr (map_of (m_texts w) k), w)),
      vk_set = (\<lambda>k v w. (Inr (), w\<lparr>m_texts := AList.update k v (m_texts w)\<rparr>)),
      vk_setex = (\<lambda>k n v w. (Inr (), w\<lparr>m_texts := AList.update k v (m_texts w)\<rparr>)),
      vk_expire = (\<lambda>k n w. (Inr (), w\<lparr>m_expiries := AList.update k (mem_time w + real_of_int n) (m_expiries w)\<rparr>)),
      vk_delete = (\<lambda>k w. (Inr (), w\<lparr>m_texts := AList.delete k (m_texts w)\<rparr>)),
      vk_exists = (\<lambda>k w. (Inr (if map_of (m_texts w) k = None then 0 else 1), w)),
      vk_incr = step_counter 1, vk_decr = step_counter (-1),
      vk_scan = (\<lambda>p w. (Inr (filter (\<lambda>k. starts_with k (butlast p)) (map fst (m_texts w))), w)),
      vk_zremrangebyscore = (\<lambda>k a b. update_set k (drop_scores a b)),
      vk_zcard = (\<lambda>k w. (Inr (int (card (fst ` set (dict_get (m_sets w) k [])))), w)),
      vk_zadd = (\<lambda>k m s. update_set k (AList.update m s)),
      iso_utc = (\<lambda>s. Inl ValueError), checkpw = (\<lambda>t h. Inr (t = h)),
      jwt_header = (\<lambda>t. Inl ValueError), jwt_payload = (\<lambda>t. Inl ValueError),
      signing_key = (\<lambda>d. Inl ValueError), jwt_verify = (\<lambda>t k i a. raise_io ValueError),
      fetch_json = (\<lambda>u. raise_io ValueError),
      url_parse = (\<lambda>u. Inr \<lparr>u_scheme = ''https'', u_netloc = u, u_hostname = Some u\<rparr>),
      url_join = (\<lambda>u v. v), ip_parse = (\<lambda>s. None), resolve_host = (\<lambda>h. return_io [''192.0.2.1'']),
      http_post = (\<lambda>c u b hs. return_io page),
      stdio_request = (\<lambda>s m. raise_io ValueError), stdio_notify = (\<lambda>s m. return_io 202),
      stdio_initialize = (\<lambda>s. return_io None), stdio_catalog = (\<lambda>s. return_io None),
      current_task = (\<lambda>w. Some 0), task_done = (\<lambda>t w. False), task_cancel = (\<lambda>t. return_io ()),
      cfg_getmtime = return_io 1, cfg_read = raise_io ValueError,
      fernet_decrypt = (\<lambda>k s. Inl ValueError), hmac_hex = (\<lambda>k s. k @ s), utf8_decode = (\<lambda>s. Inr s),
      sv_uuid_hex = return_io ''00112233445566778899aabbccddeeff'', sv_utc_iso = return_io ''2025-01-01T00:00:00Z'',
      append_line = (\<lambda>p l w. (Inr (), w\<lparr>m_lines := m_lines w @ [l]\<rparr>)), spawn_webhook = (\<lambda>v. return_io ()),
      sha256_hex = (\<lambda>s. s)\<rparr>"

definition demo_state :: "mem app_gateway" where
  "demo_state =
     \<lparr>clients = [MRatelimit, MSessions, MRevocation], world = empty_mem,
      auth_mem = \<lparr>auth_fail_counts = [], auth_lockouts = [], jwks_cache = []\<rparr>,
      up_mem = \<lparr>up_circuits = [], up_clients = [], up_inflight = [], up_dynamic = []\<rparr>,
      cfg_mem = \<lparr>cfg_config = [], cfg_mtime = 0\<rparr>,
      app_mem =
        \<lparr>st_alerts = no_alerts, st_log = \<lparr>log_path = None, log_payloads = False\<rparr>,
         st_catalog = \<lparr>cat_cache = [], cat_hashes = [], cat_changed = []\<rparr>,
         st_policies = \<lparr>compiled_rules = [], has_configured = False\<rparr>,
         st_dlp = \<lparr>compiled_rules = [], has_configured = False\<rparr>,
         st_guardrails = \<lparr>compiled_rules = [], has_configured = False\<rparr>,
         st_skills = \<lparr>compiled_rules = [], has_configured = False\<rparr>\<rparr>\<rparr>"

section \<open>The contracts hold\<close>

lemma map_of_filter_key: "map_of (filter (\<lambda>(k, _). P k) xs) k = (if P k then map_of xs k else None)"
  by (induction xs) auto

lemma demo_counters: "counter_laws demo_services mem_counter"
  by (auto simp: counter_laws_def demo_services_def step_counter_def mem_counter_def Let_def fun_eq_iff
      dict_get_def)

lemma mem_set_drop:
  "mem_set (w\<lparr>m_sets := AList.update k (drop_scores a b (dict_get (m_sets w) k [])) (m_sets w)\<rparr>) =
     (mem_set w)(k := (\<lambda>x. case mem_set w k x of
        Some s \<Rightarrow> if a \<le> s \<and> s \<le> b then None else Some s | None \<Rightarrow> None))"
  by (auto simp: mem_set_def drop_scores_def map_of_filter_key fun_eq_iff split: option.splits)

lemma mem_set_add:
  "mem_set (w\<lparr>m_sets := AList.update k (AList.update m s (dict_get (m_sets w) k [])) (m_sets w)\<rparr>) =
     (mem_set w)(k := (mem_set w k)(m \<mapsto> s))"
  by (auto simp: mem_set_def fun_eq_iff update_conv')

lemma mem_set_tick:
  "mem_set (w\<lparr>m_now := t, m_sets := filter (\<lambda>(k, _). alive w t k) (m_sets w)\<rparr>) k =
     unexpired (mem_set w k) (mem_expiry w k) (real t)"
  by (auto simp: mem_set_def mem_expiry_def unexpired_def alive_def dict_get_def map_of_filter_key
      split: option.splits)

lemma demo_zsets: "zset_laws demo_services mem_time mem_set mem_expiry"
  unfolding zset_laws_def
proof (intro conjI allI)
  fix w k a b m s and n :: int
  show "0 \<le> mem_time w" by (simp add: mem_time_def)
  show "finite (dom (mem_set w k))" by (simp add: mem_set_def finite_dom_map_of)
  show "\<exists>w'. sv_time demo_services w = (Inr (mem_time w'), w') \<and> mem_time w \<le> mem_time w' \<and>
      (\<forall>k. mem_set w' k = unexpired (mem_set w k) (mem_expiry w k) (mem_time w')) \<and>
      keeps_expiry (mem_expiry w) (mem_expiry w')"
    by (simp add: demo_services_def tick_def Let_def mem_set_tick mem_time_def keeps_expiry_def mem_expiry_def)
  show "\<exists>w'. vk_zremrangebyscore demo_services k a b w = (Inr (), w') \<and> mem_time w' = mem_time w \<and>
      mem_set w' = (mem_set w)(k := (\<lambda>x. case mem_set w k x of
        Some s \<Rightarrow> if a \<le> s \<and> s \<le> b then None else Some s | None \<Rightarrow> None)) \<and>
      keeps_expiry (mem_expiry w) (mem_expiry w')"
    using mem_set_drop [where w = w and k = k]
    by (simp add: demo_services_def update_set_def mem_time_def keeps_expiry_def mem_expiry_def)
  show "vk_zcard demo_services k w = (Inr (int (card (dom (mem_set w k)))), w)"
    by (simp add: demo_services_def mem_set_def dom_map_of_conv_image_fst)
  show "\<exists>w'. vk_zadd demo_services k m s w = (Inr (), w') \<and> mem_time w' = mem_time w \<and>
      mem_set w' = (mem_set w)(k := (mem_set w k)(m \<mapsto> s)) \<and> keeps_expiry (mem_expiry w) (mem_expiry w')"
    using mem_set_add [where w = w and k = k]
    by (simp add: demo_services_def update_set_def mem_time_def keeps_expiry_def mem_expiry_def)
  show "\<exists>w'. vk_expire demo_services k n w = (Inr (), w') \<and> mem_time w' = mem_time w \<and> mem_set w' = mem_set w \<and>
      mem_expiry w' = (mem_expiry w)(k := Some (mem_time w + real_of_int n))"
    by (simp add: demo_services_def mem_time_def mem_expiry_def mem_set_def fun_eq_iff)
qed

definition demo_engine :: engine where
  "demo_engine = literal_engine\<lparr>float_repr := \<lambda>r. int_str \<lfloor>r\<rfloor>\<rparr>"

lemma demo_float_repr: "inj_on (float_repr demo_engine) (range mem_time)"
  by (auto simp: inj_on_def demo_engine_def mem_time_def)

definition demo_rl :: rl_env where
  "demo_rl = \<lparr>fail_closed = True, default_max_ip_rpm = 300, default_max_concurrent = 0\<rparr>"

section \<open>The theorems on this world\<close>

theorem rate_limit_bound_witness:
  "int (length (filter (\<lambda>s. 110 - 60 < s \<and> s \<le> 110)
     (fst (admitted demo_engine demo_services (\<lambda>_. 2) [''a'', ''b'', ''a'', ''a''] empty_mem (\<lambda>_. [])) ''a''))) \<le> 2"
  by (rule rate_limit_bound [OF demo_zsets demo_float_repr, of empty_mem "\<lambda>_. 2" "''a''"])
    (simp_all add: mem_set_def empty_mem_def fun_eq_iff dict_get_def)

theorem acquire_refines_witness:
  "\<exists>g'. acquire_concurrent_slot demo_services demo_rl 7 (Some 1) demo_state = (Inr True, g') \<and>
     slot_step 1 (slots_of mem_counter 7 0 demo_state) (slots_of mem_counter 7 1 g')"
proof -
  have "fst (acquire_concurrent_slot demo_services demo_rl 7 (Some 1) demo_state) = Inr True"
    by (simp add: acquire_concurrent_slot_def io_simps get_client_def demo_state_def demo_services_def
        or_default_def Let_def step_counter_def mem_counter_def empty_mem_def dict_get_def)
  then show ?thesis
    using acquire_refines [OF demo_counters, of demo_state 1 demo_rl 7 0] by (auto simp: demo_state_def)
qed

theorem release_without_slot_witness:
  "\<exists>g1. seq_io (acquire_concurrent_slot demo_services demo_rl 7 (Some 0))
     (release_concurrent_slot demo_services 7) demo_state = (Inr (), g1) \<and>
     mem_counter (world g1) (slot_key 7) = -1"
  by (rule release_without_slot [OF demo_counters])
    (simp_all add: demo_state_def empty_mem_def mem_counter_def dict_get_def)

theorem record_alert_refines_witness:
  "app_mem (snd (record_alert demo_services demo_alert_env ''policy_denied'' demo_state)) =
     (app_mem demo_state)\<lparr>st_alerts := snd (alert_step demo_alert_env ''policy_denied'' 101 no_alerts)\<rparr>"
proof -
  have "\<exists>x w'. sv_time demo_services w = (Inr x, w')" for w
    by (simp add: demo_services_def tick_def Let_def)
  moreover have "sv_time demo_services (world demo_state) = (Inr 101, empty_mem\<lparr>m_now := 101\<rparr>)"
    by (simp add: demo_services_def demo_state_def tick_def empty_mem_def)
  ultimately show ?thesis
    using record_alert_refines [where S = demo_services and g = demo_state and now = 101] by (simp add: demo_state_def)
qed

definition demo_identity :: identity where
  "demo_identity = \<lparr>i_id = 7, i_team_id = 1, i_name = ''ci'', i_subject = None, i_kind = ''pat'',
     i_pat_hash = Some ''mcp_ab.secret'', i_pat_prefix = Some ''mcp_ab'', i_jwt_issuer = None,
     i_jwt_audience = None, i_jwt_jwks_url = None, i_enabled = None, i_expires_at = None\<rparr>"

definition demo_auth_config :: auth_config where
  "demo_auth_config = \<lparr>identities = [demo_identity], jwt_issuer = None, jwt_audience = None, jwt_jwks_url = None\<rparr>"

lemma demo_authenticated:
  "fst (authenticate demo_engine demo_services ''mcp_ab.secret'' demo_auth_config ''10.0.0.1'' demo_state) =
     Inr (identity_context demo_identity ''pat'' [])"
  by (simp add: authenticate_def guard_brute_force_def io_simps demo_services_def tick_def Let_def
      check_brute_force_def demo_state_def empty_mem_def dict_get_def is_pat_def starts_with.simps
      authenticate_pat_def parse_pat_def demo_auth_config_def demo_identity_def or_default_def expired_def
      given_def is_token_valid_def get_client_def is_identity_revoked_def note_success_def modify_auth_def
      record_auth_success_def identity_key_def)


definition demo_ssrf :: ssrf_env where
  "demo_ssrf = \<lparr>allowed_ips = [], allowed_hosts = [], ssrf_enabled = True, block_private = True\<rparr>"

definition demo_up :: up_env where
  "demo_up = \<lparr>ue_ssrf = demo_ssrf, ue_cb = \<lparr>cb_threshold = 5, cb_reset = 30\<rparr>\<rparr>"

definition demo_server :: server where
  "demo_server = \<lparr>s_id = 3, s_team_id = 1, s_name = ''git'', s_namespace = Some ''git'', s_url = ''mcp.test'',
     s_enabled = None, s_transport_type = None, s_auth_type = None, s_auth_header = None, s_auth_secret = None,
     s_verify_tls = None, s_timeout_ms = None\<rparr>"

lemma demo_url_safe: "is_url_safe demo_services demo_ssrf [] ''mcp.test'' w = (Inr (True, []), w)"
  by (simp add: is_url_safe_def demo_services_def demo_ssrf_def given_def resolve_hostname_def io_simps
      is_blocked_ip_def Let_def)

theorem ssrf_safe_witness:
  "\<exists>p h. url_parse demo_services ''mcp.test'' = Inr p \<and> u_hostname p = Some h \<and> u_scheme p \<in> {''http'', ''https''}"
proof -
  have "ssrf_enabled demo_ssrf" by (simp add: demo_ssrf_def)
  from ssrf_safe [OF demo_url_safe this] show ?thesis by blast
qed

theorem tracked_request_ends_witness:
  "fst (cancel_inflight demo_services ''s1'' (JInt 4)
     (snd (send_request_tracked demo_engine demo_services demo_up ''s1'' (JInt 4) demo_server JNull None demo_state))) =
     Inr False"
  using tracked_request_ends [of "JInt 4" demo_engine demo_services demo_up "''s1''" demo_server JNull None demo_state]
  by (auto simp: hashable_def)

text \<open>An upstream whose list has one page, and one whose list never ends.\<close>

definition one_page_services :: "mem app_services" where
  "one_page_services = demo_services\<lparr>http_post := \<lambda>c u b hs. return_io last_page\<rparr>"

lemma last_page_data:
  "parse_response_body demo_engine last_page = Inr (JObj [(''result'', JObj [(''tools'', JList [])])])"
  by code_simp

lemma page_data:
  "parse_response_body demo_engine page =
     Inr (JObj [(''result'', JObj [(''tools'', JList []), (''nextCursor'', JStr ''more'')])])"
  by code_simp


theorem fetch_list_never_returns_witness:
  "fetch_list demo_engine demo_services demo_up demo_server ''tools/list'' None ''tools'' demo_state = None"
proof (rule fetch_list_never_returns)
  show "safe_url demo_services (ue_ssrf demo_up) (s_url demo_server) demo_state = (Inr (True, []), demo_state)"
    using demo_url_safe by (simp add: safe_url_def on_world_def demo_up_def demo_server_def demo_state_def)
  show "get_http_client demo_server demo_state =
      (Inr \<lparr>hc_verify = True, hc_timeout = 30\<rparr>, snd (get_http_client demo_server demo_state))"
    by (simp add: get_http_client_def demo_state_def demo_server_def or_default_def Let_def)
  show "endless_list demo_engine demo_services demo_server \<lparr>hc_verify = True, hc_timeout = 30\<rparr>
      (build_headers demo_server None) ''tools/list'' ''tools''"
    unfolding endless_list_def
  proof (intro exI conjI allI)
    show "parse_response_body demo_engine page =
        Inr (JObj [(''result'', JObj [(''tools'', JList []), (''nextCursor'', JStr ''more'')])])"
      by (rule page_data)
    show "list_page (JObj [(''result'', JObj [(''tools'', JList []), (''nextCursor'', JStr ''more'')])]) ''tools'' =
        Inr (Some ([], JStr ''more''))"
      by (simp add: list_page_def dict_get_def)
  qed (simp_all add: demo_services_def return_io_def page_def)
qed

end
