(* ===== verification/Mediation.thy ===== *)
theory Mediation imports RouteCall Demo begin

text \<open>
  What the gateway guarantees as a whole: whether and when anything of an upstream server can
  reach a client.  \<open>with_upstreams U S\<close> is the service record \<open>S\<close> with the upstream servers of
  \<open>U\<close>: an operation whose outcome is the same for every \<open>U\<close> has not asked a server anything.
\<close>

section \<open>Exchanging the upstream servers\<close>

definition with_upstreams ::
  "('w, 'x) up_services_scheme \<Rightarrow> ('w, 'x) up_services_scheme \<Rightarrow> ('w, 'x) up_services_scheme" where
  "with_upstreams U S = S\<lparr>http_post := http_post U, stdio_request := stdio_request U,
     stdio_notify := stdio_notify U, stdio_initialize := stdio_initialize U, stdio_catalog := stdio_catalog U\<rparr>"

lemma base_fields_apart [simp]:
  "sv_time (with_upstreams U S) = sv_time S"
  "sv_token (with_upstreams U S) = sv_token S"
  "vk_connect (with_upstreams U S) = vk_connect S"
  "vk_get (with_upstreams U S) = vk_get S"
  "vk_set (with_upstreams U S) = vk_set S"
  "vk_setex (with_upstreams U S) = vk_setex S"
  "vk_expire (with_upstreams U S) = vk_expire S"
  "vk_delete (with_upstreams U S) = vk_delete S"
  "vk_exists (with_upstreams U S) = vk_exists S"
  "vk_incr (with_upstreams U S) = vk_incr S"
  "vk_decr (with_upstreams U S) = vk_decr S"
  "vk_scan (with_upstreams U S) = vk_scan S"
  "vk_zremrangebyscore (with_upstreams U S) = vk_zremrangebyscore S"
  "vk_zcard (with_upstreams U S) = vk_zcard S"
  "vk_zadd (with_upstreams U S) = vk_zadd S"
  by (simp_all add: with_upstreams_def)

lemma auth_fields_apart [simp]:
  "iso_utc (with_upstreams U S) = iso_utc S"
  "checkpw (with_upstreams U S) = checkpw S"
  "jwt_header (with_upstreams U S) = jwt_header S"
  "jwt_payload (with_upstreams U S) = jwt_payload S"
  "signing_key (with_upstreams U S) = signing_key S"
  "jwt_verify (with_upstreams U S) = jwt_verify S"
  "fetch_json (with_upstreams U S) = fetch_json S"
  by (simp_all add: with_upstreams_def)

lemma up_fields_apart [simp]:
  "url_parse (with_upstreams U S) = url_parse S"
  "url_join (with_upstreams U S) = url_join S"
  "ip_parse (with_upstreams U S) = ip_parse S"
  "resolve_host (with_upstreams U S) = resolve_host S"
  "current_task (with_upstreams U S) = current_task S"
  "task_done (with_upstreams U S) = task_done S"
  "task_cancel (with_upstreams U S) = task_cancel S"
  by (simp_all add: with_upstreams_def)

lemma cfg_fields_apart [simp]:
  "cfg_getmtime (with_upstreams U S) = cfg_getmtime S"
  "cfg_read (with_upstreams U S) = cfg_read S"
  "fernet_decrypt (with_upstreams U S) = fernet_decrypt S"
  "hmac_hex (with_upstreams U S) = hmac_hex S"
  "utf8_decode (with_upstreams U S) = utf8_decode S"
  by (simp_all add: with_upstreams_def)

lemma app_fields_apart [simp]:
  "sv_uuid_hex (with_upstreams U S) = sv_uuid_hex S"
  "sv_utc_iso (with_upstreams U S) = sv_utc_iso S"
  "append_line (with_upstreams U S) = append_line S"
  "spawn_webhook (with_upstreams U S) = spawn_webhook S"
  "sha256_hex (with_upstreams U S) = sha256_hex S"
  by (simp_all add: with_upstreams_def)

lemmas deep = if_cong option.case_cong sum.case_cong json.case_cong prod.case_cong bool.case_cong
  exn.case_cong

named_theorems apart "operations that do not ask an upstream server"

lemma get_client_apart [apart]: "get_client (with_upstreams U S) m = get_client S m"
  by (simp add: fun_eq_iff get_client_def)

lemma reload_config_apart [apart]: "reload_config E (with_upstreams U S) env t = reload_config E S env t"
  by (simp add: fun_eq_iff reload_config_def decrypt_bundle_bytes_def verify_signature_def
      accept_config_def allowed_upstreams_def Let_def cong: deep)

lemma get_config_apart [apart]: "get_config E (with_upstreams U S) env = get_config E S env"
  by (simp add: fun_eq_iff get_config_def load_config_def apart cong: deep)

lemma ensure_loaded_apart [apart]: "ensure_loaded E (with_upstreams U S) env k f = ensure_loaded E S env k f"
  by (simp add: ensure_loaded_def apart cong: deep)

lemmas ensure_defs = ensure_policies_loaded_def ensure_dlp_loaded_def ensure_guardrails_loaded_def
  ensure_skills_loaded_def

lemma ensure_apart [apart]:
  "ensure_policies_loaded E (with_upstreams U S) env = ensure_policies_loaded E S env"
  "ensure_dlp_loaded E (with_upstreams U S) env = ensure_dlp_loaded E S env"
  "ensure_guardrails_loaded E (with_upstreams U S) env = ensure_guardrails_loaded E S env"
  "ensure_skills_loaded E (with_upstreams U S) env = ensure_skills_loaded E S env"
  by (simp_all add: ensure_defs apart cong: deep)

lemma record_alert_apart [apart]: "record_alert (with_upstreams U S) env t = record_alert S env t"
  by (simp add: record_alert_def send_alert_def fun_eq_iff cong: deep)

lemma lookup_name_apart [apart]: "lookup_name E (with_upstreams U S) cenv c x = lookup_name E S cenv c x"
  by (simp add: lookup_name_def apart cong: deep)

lemma log_event_apart [apart]: "log_event E (with_upstreams U S) cenv env e = log_event E S cenv env e"
  by (simp add: log_event_def apart cong: deep)

lemma stop_call_apart [apart]: "stop_call E (with_upstreams U S) env a e r = stop_call E S env a e r"
  by (simp add: stop_call_def apart cong: deep)

lemma generate_request_id_apart [apart]: "generate_request_id (with_upstreams U S) = generate_request_id S"
  by (simp add: generate_request_id_def)

lemma policy_gate_apart [apart]: "policy_gate E (with_upstreams U S) env c s d = policy_gate E S env c s d"
  by (simp add: policy_gate_def apart cong: deep)

lemma limits_apart [apart]:
  "get_default_rpm E (with_upstreams U S) env = get_default_rpm E S env"
  "get_per_ip_limit E (with_upstreams U S) env = get_per_ip_limit E S env"
  "get_concurrent_limit E (with_upstreams U S) env = get_concurrent_limit E S env"
  by (simp_all add: get_default_rpm_def get_per_ip_limit_def get_concurrent_limit_def apart cong: deep)

lemma sliding_window_apart [apart]:
  "sliding_window_check E (with_upstreams U S) k n = sliding_window_check E S k n"
  by (simp add: sliding_window_check_def cong: deep)

lemma rate_limit_apart [apart]:
  "check_rate_limit E (with_upstreams U S) rl i t n = check_rate_limit E S rl i t n"
  "check_ip_rate_limit E (with_upstreams U S) rl ip m = check_ip_rate_limit E S rl ip m"
  by (simp_all add: check_rate_limit_def check_ip_rate_limit_def apart cong: deep)

lemma rate_gate_apart [apart]: "rate_gate E (with_upstreams U S) env c s r p = rate_gate E S env c s r p"
  by (simp add: rate_gate_def apart cong: deep)

lemma tokenize_apart [apart]: "tokenize_value (with_upstreams U S) = tokenize_value S"
  by (simp add: fun_eq_iff tokenize_value_def apart cong: deep)

lemma dlp_gate_apart [apart]:
  "dlp_request_gate E (with_upstreams U S) env c s r p v = dlp_request_gate E S env c s r p v"
  by (simp add: dlp_request_gate_def run_dlp_def [abs_def] apart cong: deep)

lemma guardrail_gate_apart [apart]:
  "guardrail_request_gate E (with_upstreams U S) env c s r v = guardrail_request_gate E S env c s r v"
  by (simp add: guardrail_request_gate_def apart cong: deep)

lemma get_session_apart [apart]: "get_session E (with_upstreams U S) sid = get_session E S sid"
  by (simp add: get_session_def apart cong: deep)

lemma get_upstream_session_apart [apart]:
  "get_upstream_session E (with_upstreams U S) sid n = get_upstream_session E S sid n"
  by (simp add: get_upstream_session_def apart cong: deep)

lemma acquire_slot_apart [apart]:
  "acquire_concurrent_slot (with_upstreams U S) rl i l = acquire_concurrent_slot S rl i l"
  by (simp add: acquire_concurrent_slot_def apart cong: deep)

lemma slot_gate_apart [apart]: "slot_gate E (with_upstreams U S) env c s r = slot_gate E S env c s r"
  by (simp add: slot_gate_def apart cong: deep)

lemma skill_call_apart [apart]: "skill_call E (with_upstreams U S) env c = skill_call E S env c"
  by (simp add: skill_call_def apart cong: deep)

section \<open>A call reaches a server only through the gates\<close>

text \<open>The gate lets the call pass, with a value and in a state for which \<open>P\<close> holds.\<close>

definition opens :: "('s, response + 'a) io \<Rightarrow> ('a \<Rightarrow> 's \<Rightarrow> bool) \<Rightarrow> 's \<Rightarrow> bool" where
  "opens m P g = (case m g of (Inr (Inr v), g1) \<Rightarrow> P v g1 | _ \<Rightarrow> False)"

definition yields :: "('s, 'a) io \<Rightarrow> ('a \<Rightarrow> 's \<Rightarrow> bool) \<Rightarrow> 's \<Rightarrow> bool" where
  "yields m P g = (case m g of (Inr v, g1) \<Rightarrow> P v g1 | _ \<Rightarrow> False)"

text \<open>All the gates of a call to a server, in the order of the code.\<close>

definition cleared ::
  "engine \<Rightarrow> ('w, 'x) app_services_scheme \<Rightarrow> proto_env \<Rightarrow> call \<Rightarrow> server \<Rightarrow> json dict \<Rightarrow>
     ('w, 'm) app_gateway_scheme \<Rightarrow> bool" where
  "cleared E S env c s d =
     opens (policy_gate E S env c s d) (\<lambda>p.
     opens (rate_gate E S env c s (snd p) (fst p)) (\<lambda>_.
     opens (dlp_request_gate E S env c s (snd p) (fst p) (JObj d)) (\<lambda>q.
     opens (guardrail_request_gate E S env c s (snd p) (fst q)) (\<lambda>_.
     yields (get_upstream_session E S (cl_session c) (s_id s)) (\<lambda>_.
     opens (slot_gate E S env c s (snd p)) (\<lambda>_ _. True))))))"

lemma gate_agrees:
  "\<not> opens m P g \<Longrightarrow> (\<And>v g1. \<not> P v g1 \<Longrightarrow> f v g1 = f' v g1) \<Longrightarrow> gate m f g = gate m f' g"
  by (auto simp: opens_def gate_def bind_io_def return_io_def split: prod.splits sum.splits)

lemma bind_agrees:
  "\<not> yields m P g \<Longrightarrow> (\<And>v g1. \<not> P v g1 \<Longrightarrow> f v g1 = f' v g1) \<Longrightarrow> bind_io m f g = bind_io m f' g"
  by (auto simp: yields_def bind_io_def split: prod.splits sum.splits)

lemma not_cleared_apart:
  assumes "\<not> cleared E S env c s d g"
  shows "server_call E (with_upstreams U S) env c s d g = server_call E S env c s d g"
  unfolding server_call_def call_upstream_def apart
  by (rule gate_agrees [OF assms [unfolded cleared_def]], (erule gate_agrees bind_agrees)+) simp

lemma opens_weaken: "opens m P g \<Longrightarrow> (\<And>v g1. m g = (Inr (Inr v), g1) \<Longrightarrow> P v g1 \<Longrightarrow> Q) \<Longrightarrow> Q"
  by (auto simp: opens_def split: prod.splits sum.splits)

lemma policy_gate_passed:
  assumes "policy_gate E S env c s d g = (Inr (Inr v), g1)"
  shows "\<not> denied (check_call E (st_policies (app_mem (snd (ensure_policies_loaded E S env g)))) c d)"
  using assms
  by (auto simp: policy_gate_def stop_call_def io_simps split: prod.splits sum.splits if_splits)

lemma cleared_policy:
  "cleared E S env c s d g \<Longrightarrow>
     \<not> denied (check_call E (st_policies (app_mem (snd (ensure_policies_loaded E S env g)))) c d)"
  unfolding cleared_def by (erule opens_weaken) (rule policy_gate_passed)

definition call_to :: "string \<Rightarrow> auth_context \<Rightarrow> string \<Rightarrow> kind \<Rightarrow> json \<Rightarrow> string \<times> string \<times> string \<Rightarrow> call" where
  "call_to sid a meth k msg_id t =
     \<lparr>cl_session = sid, cl_auth = a, cl_method = meth, cl_kind = k, cl_msg_id = msg_id,
      cl_name = fst t, cl_namespace = fst (snd t), cl_original = snd (snd t)\<rparr>"

text \<open>C1: Complete mediation of calls: when the outcome of a call depends on an upstream server at all, the
  name resolved to an enabled server of the identity's own team, the policies loaded at that
  moment did not deny the call, and the rate limit, the DLP and guardrail scans of the request
  and the concurrency limit let it pass, in this order.\<close>

theorem complete_mediation:
  assumes "route_call E (with_upstreams U S) env sid a meth params msg_id k g \<noteq>
    route_call E S env sid a meth params msg_id k g"
  shows "\<exists>d t config g1 s. params = JObj d \<and> resolve_name k (call_name d) = Inr (Some t) \<and>
    get_config E S (pe_cfg env) g = (Inr config, g1) \<and>
    server_by_namespace config (fst (snd t)) = Some s \<and> s_team_id s = team_id a \<and>
    \<not> denied (check_call E (st_policies (app_mem (snd (ensure_policies_loaded E S env g1))))
       (call_to sid a meth k msg_id t) d) \<and>
    cleared E S env (call_to sid a meth k msg_id t) s d g1"
proof -
  obtain d where d: "params = JObj d" using assms by (cases params) (auto simp: route_call_def)
  obtain n ns orig where t: "resolve_name k (call_name d) = Inr (Some (n, ns, orig))"
    using assms by (auto simp: route_call_def d io_simps split: sum.splits option.splits)
  let ?c = "call_to sid a meth k msg_id (n, ns, orig)"
  obtain config g1 where c: "get_config E S (pe_cfg env) g = (Inr config, g1)"
    using assms by (auto simp: route_call_def d t io_simps Let_def apart split: prod.splits sum.splits)
  have routed: "route_call E S' env sid a meth params msg_id k g =
      (if ns = SKILL_NAMESPACE \<and> k = KPrompt then skill_call E S' env ?c g1
       else case server_by_namespace config ns of
         None \<Rightarrow> (Inr (unknown_namespace ?c), g1)
       | Some s \<Rightarrow> if s_team_id s \<noteq> team_id a then (Inr (unknown_namespace ?c), g1)
           else server_call E S' env ?c s d g1)" if "get_config E S' (pe_cfg env) g = (Inr config, g1)" for S'
    using that by (simp add: route_call_def d t lift_res_def bind_io_def return_io_def call_to_def Let_def
        split: option.split)
  note r = routed [OF c] routed [OF c [folded get_config_apart [of E U S "pe_cfg env"]]]
  obtain s where s: "server_by_namespace config ns = Some s" "s_team_id s = team_id a"
    using assms unfolding r by (auto simp: apart split: option.splits if_splits)
  have "cleared E S env ?c s d g1"
    using assms not_cleared_apart [of E S env ?c s d g1 U] unfolding r by (auto simp: apart s split: if_splits)
  with d t c s cleared_policy show ?thesis by fastforce
qed

section \<open>Nothing happens before authentication\<close>

lemma expired_apart [apart]: "expired (with_upstreams U S) i = expired S i"
  by (simp add: expired_def cong: deep)

lemma verify_pat_apart [apart]: "verify_pat (with_upstreams U S) p t is = verify_pat S p t is"
  by (induction "is") (simp_all add: apart cong: deep)

lemma revoked_apart [apart]:
  "is_jti_revoked (with_upstreams U S) j = is_jti_revoked S j"
  "is_identity_revoked (with_upstreams U S) i = is_identity_revoked S i"
  by (simp_all add: is_jti_revoked_def is_identity_revoked_def apart cong: deep)

lemma is_token_valid_apart [apart]: "is_token_valid (with_upstreams U S) i j = is_token_valid S i j"
  by (simp add: is_token_valid_def apart cong: deep)

lemma refuse_apart [apart]: "refuse (with_upstreams U S) ip msg = refuse S ip msg"
  by (simp add: refuse_def note_failure_def cong: deep)

lemma find_signing_key_apart [apart]: "find_signing_key (with_upstreams U S) kid ks = find_signing_key S kid ks"
  by (induction ks) (simp_all cong: deep)

lemma signing_apart [apart]:
  "fetch_jwks (with_upstreams U S) url = fetch_jwks S url"
  "get_signing_key (with_upstreams U S) keys kid = get_signing_key S keys kid"
  by (simp_all add: fetch_jwks_def get_signing_key_def apart cong: deep)

lemma verify_jwt_apart [apart]: "verify_jwt (with_upstreams U S) t cfg = verify_jwt S t cfg"
  by (simp add: verify_jwt_def apart cong: deep)

lemma authenticate_by_apart [apart]:
  "authenticate_pat (with_upstreams U S) t cfg ip = authenticate_pat S t cfg ip"
  "authenticate_jwt E (with_upstreams U S) t cfg ip = authenticate_jwt E S t cfg ip"
  by (simp_all add: authenticate_pat_def authenticate_jwt_def apart cong: deep)

lemma authenticate_apart [apart]: "authenticate E (with_upstreams U S) t cfg ip = authenticate E S t cfg ip"
  by (simp add: authenticate_def guard_brute_force_def apart cong: deep)

lemma try_authenticate_apart [apart]:
  "try_authenticate E (with_upstreams U S) env t c ip = try_authenticate E S env t c ip"
  by (simp add: try_authenticate_def apart cong: deep)

lemma read_message_apart [apart]: "read_message E (with_upstreams U S) rq c = read_message E S rq c"
  by (simp add: read_message_def cong: deep)

text \<open>The way of a request to its identity.\<close>

definition identified ::
  "engine \<Rightarrow> ('w, 'x) app_services_scheme \<Rightarrow> proto_env \<Rightarrow> request \<Rightarrow> ('w, 'm) app_gateway_scheme \<Rightarrow> bool" where
  "identified E S env rq =
     yields (get_config E S (pe_cfg env)) (\<lambda>c0 g0. is_configured c0 \<and>
     yields (get_config E S (pe_cfg env)) (\<lambda>c1 g1. check_origin c1 (request_header rq ''origin'' '''') \<and>
     yields (get_per_ip_limit E S env) (\<lambda>limit.
     yields (check_ip_rate_limit E S (pe_rl env) (client_ip rq) (Some limit)) (\<lambda>ok g3. fst ok \<and>
     yields (get_config E S (pe_cfg env)) (\<lambda>c g4. \<exists>token.
       request_header rq ''authorization'' '''' = bearer @ token \<and>
       yields (authenticate E S token (auth_config_of c) (client_ip rq)) (\<lambda>_ _. True) g4) g3)) g1) g0)"

lemma differs_yields:
  "bind_io m f g \<noteq> bind_io m f' g \<Longrightarrow> (\<And>v g1. f v g1 \<noteq> f' v g1 \<Longrightarrow> P v g1) \<Longrightarrow> yields m P g"
  by (auto simp: yields_def bind_io_def split: prod.splits sum.splits)

lemma differs_if: "(if b then p else f) g \<noteq> (if b then p else f') g \<Longrightarrow> \<not> b \<and> f g \<noteq> f' g"
  by (simp split: if_splits)

lemma try_authenticate_some:
  "yields (try_authenticate E S env t c ip) (\<lambda>who _. who \<noteq> None) g \<Longrightarrow>
     yields (authenticate E S t (auth_config_of c) ip) (\<lambda>_ _. True) g"
  by (auto simp: yields_def try_authenticate_def io_simps split: prod.splits sum.splits exn.splits)

lemma bearer_token: "starts_with h bearer \<Longrightarrow> h = bearer @ drop 7 h"
  by (auto simp: starts_with_iff bearer_def)

text \<open>C2: Complete mediation of the endpoint: when the outcome of a request depends on an upstream server at
  all, the gateway is configured, the origin is allowed, the address is within its limit and the
  request carries a bearer token for which \<open>authenticate\<close> returned an identity.\<close>

theorem endpoint_mediation:
  assumes "handle_mcp_post E (with_upstreams U S) env rq g \<noteq> handle_mcp_post E S env rq g"
  shows "identified E S env rq g"
  unfolding identified_def
  apply (rule differs_yields [OF assms [unfolded handle_mcp_post_def apart Let_def]])
  apply (drule differs_if, elim conjE, intro conjI, simp)
  apply (erule differs_yields, drule differs_if, elim conjE, intro conjI, simp)
  apply (erule differs_yields)
  apply (erule differs_yields, drule differs_if, elim conjE, intro conjI, simp)
  apply (drule differs_if, elim conjE, erule differs_yields)
  apply (rule exI, rule conjI, erule bearer_token [OF notnotD])
  apply (rule try_authenticate_some, erule differs_yields)
  apply (auto split: option.splits)
  done

end
