(* ===== verification/Scenario.thy ===== *)
theory Scenario imports Mediation Merging Revocation begin

text \<open>
  A gateway with one server and one identity on the concrete world of \<open>Demo\<close>, and the theorems
  about calls, requests, lists and revocations on it.  The bundle switches the limits off.
\<close>

definition demo_bundle :: "json dict" where
  "demo_bundle =
     [(''servers'', JList [JObj [(''id'', JInt 3), (''team_id'', JInt 1), (''name'', JStr ''git''),
         (''namespace'', JStr ''git''), (''transport_type'', JStr ''stdio'')]]),
      (''identities'', JList [JObj [(''id'', JInt 7), (''team_id'', JInt 1), (''name'', JStr ''ci''),
         (''kind'', JStr ''pat''), (''pat_hash'', JStr ''mcp_ab.secret''), (''pat_prefix'', JStr ''mcp_ab'')]]),
      (''default_rpm'', JInt 0), (''per_ip_limit'', JInt 0), (''concurrent_limit'', JInt 0)]"

definition running :: "mem app_gateway" where
  "running = demo_state\<lparr>cfg_mem := \<lparr>cfg_config = demo_bundle, cfg_mtime = 1\<rparr>\<rparr>"

definition demo_env :: proto_env where
  "demo_env = \<lparr>pe_cfg = \<lparr>signing_key_env = [], encryption_key_env = []\<rparr>, pe_up = demo_up, pe_rl = demo_rl,
     pe_log = \<lparr>env_log_path = ''events.log'', env_log_payloads = True\<rparr>, pe_alert = demo_alert_env,
     pe_dlp_scan = 1000, pe_gr_scan = 1000\<rparr>"

definition demo_params :: "json dict" where
  "demo_params = [(''name'', JStr ''git__status'')]"

definition demo_context :: auth_context where
  "demo_context = identity_context demo_identity ''pat'' []"

definition git :: server where
  "git = server_of (JObj [(''id'', JInt 3), (''team_id'', JInt 1), (''name'', JStr ''git''),
     (''namespace'', JStr ''git''), (''transport_type'', JStr ''stdio'')])"

definition demo_call :: call where
  "demo_call = call_to [] demo_context ''tools/call'' KTool (JInt 1) (''git__status'', ''git'', ''status'')"

text \<open>An upstream server that fails in the given way.\<close>

definition failing :: "exn \<Rightarrow> mem app_services" where
  "failing e = demo_services\<lparr>stdio_request := \<lambda>s m. raise_io e, stdio_notify := \<lambda>s m. raise_io e\<rparr>"

lemma failing_eq: "with_upstreams (failing e) demo_services = failing e"
  by (simp add: with_upstreams_def failing_def demo_services_def)

lemma team_of_context: "team_id demo_context = 1"
  by (simp add: demo_context_def identity_context_def demo_identity_def)

section \<open>A call\<close>

lemma demo_config_at:
  "get_config E demo_services cenv (running\<lparr>world := w\<rparr>) = (Inr demo_bundle, running\<lparr>world := w\<rparr>)"
  by (simp add: get_config_def load_config_def on_world_def demo_services_def return_io_def running_def
      demo_state_def demo_bundle_def)

lemma demo_config: "get_config E demo_services cenv running = (Inr demo_bundle, running)"
  using demo_config_at [of E cenv "world running"] by simp

lemma demo_bundle_gets:
  "map_of demo_bundle ''policies'' = None" "map_of demo_bundle ''dlp_rules'' = None"
  "map_of demo_bundle ''guardrails'' = None" "map_of demo_bundle ''skills'' = None"
  "dict_get demo_bundle ''team_rpm_overrides'' v = v" "dict_get demo_bundle ''default_rpm'' v = JInt 0"
  "dict_get demo_bundle ''per_ip_limit'' v = JInt 0" "dict_get demo_bundle ''concurrent_limit'' v = JInt 0"
  "dict_get demo_bundle ''allowed_origins'' v = v" "dict_get demo_bundle ''max_body_bytes'' v = v"
  "demo_bundle \<noteq> []"
  by (simp_all add: demo_bundle_def dict_get_def)

lemma demo_ensured:
  "ensure_policies_loaded E demo_services demo_env running = (Inr (), running)"
  "ensure_dlp_loaded E demo_services demo_env running = (Inr (), running)"
  "ensure_guardrails_loaded E demo_services demo_env running = (Inr (), running)"
  by (simp_all add: ensure_defs ensure_loaded_def io_simps demo_config demo_bundle_gets)

lemma running_fields:
  "st_policies (app_mem running) = \<lparr>compiled_rules = [], has_configured = False\<rparr>"
  "st_dlp (app_mem running) = \<lparr>compiled_rules = [], has_configured = False\<rparr>"
  "st_guardrails (app_mem running) = \<lparr>compiled_rules = [], has_configured = False\<rparr>"
  "clients running = [MRatelimit, MSessions, MRevocation]" "world running = empty_mem"
  by (simp_all add: running_def demo_state_def)

lemma demo_fields:
  "sv_time demo_services = tick" "vk_decr demo_services = step_counter (-1)"
  "current_task demo_services = (\<lambda>w. Some 0)" "vk_connect demo_services = return_io ()"
  "checkpw demo_services = (\<lambda>t h. Inr (t = h))"
  "vk_exists demo_services = (\<lambda>k w. (Inr (if map_of (m_texts w) k = None then 0 else 1), w))"
  "vk_get demo_services = (\<lambda>k w. (Inr (map_of (m_texts w) k), w))"
  by (simp_all add: demo_services_def)

lemma demo_request_id:
  "generate_request_id demo_services running = (Inr ''0011223344556677'', running)"
  by (simp add: generate_request_id_def io_simps demo_services_def)

lemma demo_policy_gate:
  "\<exists>pr r. policy_gate E demo_services demo_env demo_call git demo_params running = (Inr (Inr (pr, r)), running) \<and>
     \<not> skip_ratelimit pr"
proof -
  have "check_call E \<lparr>compiled_rules = [], has_configured = False\<rparr> demo_call demo_params =
      default_result ''allow'' ''<default: no policies>''"
    by (simp add: check_call_def demo_call_def call_to_def check_tool_access_def check_access_def evaluate_policy_def)
  then show ?thesis
    by (simp add: policy_gate_def demo_ensured io_simps demo_request_id running_fields denied_def
        default_result_def)
qed

lemma demo_rate_gate:
  "\<not> skip_ratelimit pr \<Longrightarrow> rate_gate E demo_services demo_env demo_call git r pr running = (Inr (Inr ()), running)"
  by (simp add: rate_gate_def io_simps demo_config get_default_rpm_def int_setting_def demo_bundle_gets get_team_rpm_def
      check_rate_limit_def get_client_def running_fields)

lemma demo_scan_gates:
  "dlp_request_gate E demo_services demo_env demo_call git r pr v running = (Inr (Inr (v, [])), running)"
  "guardrail_request_gate E demo_services demo_env demo_call git r v running = (Inr (Inr (v, [])), running)"
  by (simp_all add: dlp_request_gate_def guardrail_request_gate_def io_simps demo_ensured running_fields
      has_dlp_rules_def has_guardrails_def)

lemma demo_session:
  "get_upstream_session E demo_services [] n running = (Inr JNull, running)"
  by (simp add: get_upstream_session_def get_session_def io_simps)

lemma demo_slot_gate:
  "slot_gate E demo_services demo_env demo_call git r running = (Inr (Inr ()), running)"
  by (simp add: slot_gate_def get_concurrent_limit_def int_setting_def acquire_concurrent_slot_def io_simps demo_config
      demo_bundle_gets or_default_def)

text \<open>With an upstream server that raises, the call raises.\<close>

lemma demo_forward:
  assumes "\<And>s m. stdio_request U s m = raise_io e"
  shows "fst (forward_call E (with_upstreams U demo_services) demo_env demo_call git (JObj d) usid running) = Inl e"
proof -
  have "stdio_request (with_upstreams U S) = stdio_request U" for S :: "mem app_services"
    by (simp add: with_upstreams_def)
  moreover have "is_stdio git" by code_simp
  moreover have "cl_msg_id demo_call = JInt 1" by (simp add: demo_call_def call_to_def)
  ultimately show ?thesis using assms
    by (simp add: forward_call_def io_simps send_request_tracked_def hashable_def send_request_def
        release_concurrent_slot_def apart get_client_def drop_inflight_def modify_up_def demo_fields running_fields
        tick_def Let_def step_counter_def)
qed

lemma demo_server_call:
  assumes "\<And>s m. stdio_request U s m = raise_io e"
  shows "fst (server_call E (with_upstreams U demo_services) demo_env demo_call git demo_params running) = Inl e"
proof -
  obtain pr r where "policy_gate E demo_services demo_env demo_call git demo_params running = (Inr (Inr (pr, r)), running)"
      "\<not> skip_ratelimit pr"
    using demo_policy_gate by blast
  moreover obtain g' where "forward_call E (with_upstreams U demo_services) demo_env demo_call git (JObj demo_params)
      None running = (Inl e, g')"
    using demo_forward [OF assms] by (metis prod.collapse)
  moreover have "cl_session demo_call = []" by (simp add: demo_call_def call_to_def)
  ultimately show ?thesis
    by (simp add: server_call_def call_upstream_def apart gate_def io_simps demo_rate_gate demo_scan_gates
        demo_session demo_slot_gate str_of_def)
qed

lemma demo_route:
  assumes "\<And>s m. stdio_request U s m = raise_io e"
  shows "fst (route_call E (with_upstreams U demo_services) demo_env [] demo_context ''tools/call'' (JObj demo_params)
    (JInt 1) KTool running) = Inl e"
proof -
  have "resolve_name KTool (call_name demo_params) = Inr (Some (''git__status'', ''git'', ''status''))" by code_simp
  moreover have "server_by_namespace demo_bundle ''git'' = Some git" by code_simp
  moreover have "s_team_id git = 1" by code_simp
  moreover have "demo_call = \<lparr>cl_session = [], cl_auth = demo_context, cl_method = ''tools/call'', cl_kind = KTool,
      cl_msg_id = JInt 1, cl_name = ''git__status'', cl_namespace = ''git'', cl_original = ''status''\<rparr>"
    by (simp add: demo_call_def call_to_def)
  ultimately show ?thesis using demo_server_call [OF assms, of E]
    by (simp add: route_call_def io_simps Let_def SKILL_NAMESPACE_def team_of_context apart demo_config)
qed

lemma with_own_upstreams: "with_upstreams demo_services demo_services = demo_services"
  by (simp add: with_upstreams_def demo_services_def)

theorem complete_mediation_witness:
  "\<exists>c s (g1 :: mem app_gateway). s_team_id s = 1 \<and> cleared demo_engine demo_services demo_env c s demo_params g1"
proof -
  have "fst (route_call demo_engine (with_upstreams (failing KeyError) demo_services) demo_env [] demo_context
      ''tools/call'' (JObj demo_params) (JInt 1) KTool running) = Inl KeyError"
    by (rule demo_route) (simp add: failing_def)
  moreover have "fst (route_call demo_engine demo_services demo_env [] demo_context ''tools/call'' (JObj demo_params)
      (JInt 1) KTool running) = Inl ValueError"
    using demo_route [of demo_services ValueError demo_engine] by (simp add: with_own_upstreams) (simp add: demo_services_def)
  ultimately have "route_call demo_engine (with_upstreams (failing KeyError) demo_services) demo_env [] demo_context
      ''tools/call'' (JObj demo_params) (JInt 1) KTool running \<noteq>
    route_call demo_engine demo_services demo_env [] demo_context ''tools/call'' (JObj demo_params) (JInt 1) KTool running"
    by auto
  from complete_mediation [OF this] obtain d t s and g1 :: "mem app_gateway"
    where "JObj demo_params = JObj d" "s_team_id s = team_id demo_context"
    and "cleared demo_engine demo_services demo_env
      (call_to [] demo_context ''tools/call'' KTool (JInt 1) t) s d g1"
    by (elim exE conjE) (rule that)
  then show ?thesis using team_of_context by (intro exI conjI) simp_all
qed

section \<open>A request\<close>

text \<open>A notification, which is passed on to the servers of the team.\<close>

definition demo_request :: request where
  "demo_request =
     \<lparr>rq_headers = [(''Authorization'', bearer @ ''mcp_ab.secret''), (''Mcp-Session-Id'', ''s1'')],
      rq_client = Some ''10.0.0.1'', rq_body = Inr (json_dumps literal_engine (JObj [(''method'', JStr ''m'')]))\<rparr>"

definition after_login :: "mem app_gateway" where
  "after_login = running\<lparr>world := empty_mem\<lparr>m_now := 101\<rparr>\<rparr>"

lemma demo_headers:
  "request_header demo_request ''origin'' '''' = ''''" "client_ip demo_request = ''10.0.0.1''"
  "request_header demo_request ''authorization'' '''' = bearer @ ''mcp_ab.secret''"
  "header (rq_headers demo_request) ''mcp-session-id'' = Some ''s1''"
  by code_simp+

lemma demo_message:
  "read_message demo_engine demo_services demo_request demo_bundle = Inr (Inr [(''method'', JStr ''m'')])"
  by code_simp

lemma demo_login:
  "authenticate demo_engine demo_services ''mcp_ab.secret'' (auth_config_of demo_bundle) ''10.0.0.1'' running =
     (Inr demo_context, after_login)"
proof -
  have "auth_config_of demo_bundle = demo_auth_config" by code_simp
  then show ?thesis
    by (simp add: authenticate_def guard_brute_force_def io_simps demo_fields tick_def Let_def running_def demo_state_def
        after_login_def check_brute_force_def empty_mem_def dict_get_def is_pat_def authenticate_pat_def parse_pat_def
        demo_auth_config_def demo_identity_def or_default_def expired_def given_def is_token_valid_def get_client_def
        is_identity_revoked_def note_success_def modify_auth_def record_auth_success_def identity_key_def demo_context_def)
qed

lemma demo_notified:
  assumes "\<And>s m. stdio_notify U s m = (\<lambda>w. (r, w))"
  shows "fst (handle_mcp_post demo_engine (with_upstreams U demo_services) demo_env demo_request running) =
    (case r of Inl e \<Rightarrow> Inl e | Inr _ \<Rightarrow> Inr accepted)"
proof -
  have sent: "fst (handle_message demo_engine (with_upstreams U demo_services) demo_env demo_request demo_context
      [(''method'', JStr ''m'')] after_login) = (case r of Inl e \<Rightarrow> Inl e | Inr _ \<Rightarrow> Inr accepted)"
  proof -
    have "stdio_notify (with_upstreams U S) = stdio_notify U" for S :: "mem app_services"
      by (simp add: with_upstreams_def)
    moreover have "team_servers demo_bundle 1 = [git]" by code_simp
    moreover have "is_stdio git" by code_simp
    moreover have "get_config demo_engine demo_services cenv after_login = (Inr demo_bundle, after_login)" for cenv
      unfolding after_login_def by (rule demo_config_at)
    moreover have "get_upstream_session demo_engine demo_services ''s1'' n after_login = (Inr JNull, after_login)" for n
      by (simp add: get_upstream_session_def get_session_def io_simps get_client_def after_login_def running_fields
          demo_fields empty_mem_def)
    ultimately show ?thesis using assms
      by (simp add: handle_message_def demo_headers given_def is_notification_def dict_get_def Let_def
          handle_notification_def get_team_servers_def apart io_simps team_of_context send_notification_def
          split: sum.split)
  qed
  have "is_configured demo_bundle" "check_origin demo_bundle []" "starts_with (bearer @ ''mcp_ab.secret'') bearer"
    "drop 7 (bearer @ ''mcp_ab.secret'') = ''mcp_ab.secret''"
    by code_simp+
  moreover have "get_per_ip_limit demo_engine demo_services demo_env running = (Inr 0, running)"
    by (simp add: get_per_ip_limit_def io_simps demo_config int_setting_def demo_bundle_gets)
  moreover have "check_ip_rate_limit demo_engine demo_services rl ip (Some 0) running = (Inr (True, 0), running)" for rl ip
    by (simp add: check_ip_rate_limit_def or_default_def return_io_def)
  moreover have "try_authenticate demo_engine demo_services demo_env ''mcp_ab.secret'' demo_bundle ''10.0.0.1'' running =
      (Inr (Some demo_context), after_login)"
    by (simp add: try_authenticate_def io_simps demo_login)
  ultimately show ?thesis using sent
    by (simp add: handle_mcp_post_def apart gate_def io_simps demo_config demo_headers demo_message Let_def)
qed

theorem endpoint_mediation_witness:
  "identified demo_engine demo_services demo_env demo_request running"
proof (rule endpoint_mediation)
  have "fst (handle_mcp_post demo_engine (with_upstreams (failing KeyError) demo_services) demo_env demo_request running) =
      Inl KeyError"
    using demo_notified [of "failing KeyError" "Inl KeyError"] by (simp add: failing_def raise_io_def fun_eq_iff)
  moreover have "fst (handle_mcp_post demo_engine demo_services demo_env demo_request running) = Inr accepted"
    using demo_notified [of demo_services "Inr 202", unfolded with_own_upstreams]
    by (simp add: demo_services_def return_io_def fun_eq_iff)
  ultimately show "handle_mcp_post demo_engine (with_upstreams (failing KeyError) demo_services) demo_env demo_request
      running \<noteq> handle_mcp_post demo_engine demo_services demo_env demo_request running"
    by auto
qed

section \<open>Lists and revocation\<close>

definition with_tools :: "mem app_gateway" where
  "with_tools = running\<lparr>app_mem := (app_mem running)\<lparr>st_catalog :=
     \<lparr>cat_cache = [(3, JObj [(''tools'', JList [JObj [(''name'', JStr ''status'')]])])], cat_hashes = [], cat_changed = []\<rparr>\<rparr>\<rparr>"

definition demo_tool :: json where
  "demo_tool = JObj [(''name'', JStr ''git__status''),
     (''_meta'', JObj [(''mcp_server'', JStr ''git''), (''mcp_original_name'', JStr ''status'')])]"

lemma demo_tools_listed:
  "fst (handle_tools_list demo_engine demo_services demo_env demo_context (JInt 1) with_tools) =
     Inr (list_response (JInt 1) ''tools'' [demo_tool] [])"
proof -
  have "get_config demo_engine demo_services cenv with_tools = (Inr demo_bundle, with_tools)" for cenv
    by (simp add: get_config_def load_config_def on_world_def demo_services_def return_io_def with_tools_def running_def
        demo_state_def demo_bundle_def)
  moreover have "team_servers demo_bundle 1 = [git]" by code_simp
  moreover have "get_catalog demo_engine demo_services (s_id git) with_tools =
      (Inr (Some (JObj [(''tools'', JList [JObj [(''name'', JStr ''status'')]])])), with_tools)"
    by (simp add: get_catalog_def io_simps with_tools_def git_def server_of_def int_of_def jget_or_null_def or_default_def Let_def)
  moreover have "each_res (prefix_item demo_engine (namespace_of git) ''name'') [JObj [(''name'', JStr ''status'')]] =
      Inr [([(''name'', JStr ''git__status''), (''_meta'', JObj [(''mcp_server'', JStr ''git''),
        (''mcp_original_name'', JStr ''status'')])], JObj [(''name'', JStr ''status'')])]"
    by code_simp
  moreover have "\<exists>g1. server_tools demo_engine demo_context git
      (JObj [(''tools'', JList [JObj [(''name'', JStr ''status'')]])]) with_tools = (Inr [demo_tool], g1)"
  proof -
    have "filter_tool_list demo_engine \<lparr>compiled_rules = [], has_configured = False\<rparr> ts n a ip = ts" for ts n a ip
      by (simp add: filter_tool_list_def check_access_def evaluate_policy_def default_result_def visible_def allowed_def)
    moreover have "policies_of with_tools = \<lparr>compiled_rules = [], has_configured = False\<rparr>"
      by (simp add: with_tools_def running_fields)
    moreover have "server_items (JObj [(''tools'', JList [JObj [(''name'', JStr ''status'')]])]) ''tools'' =
        Inr [JObj [(''name'', JStr ''status'')]]"
      by (simp add: server_items_def dict_get_def)
    moreover note section_of_ok [where B = "each_res (prefix_item demo_engine (namespace_of git) ''name'')",
      OF this \<open>each_res _ _ = _\<close>, of "map snd"
      "\<lambda>ps m. map JObj (filter_tool_list demo_engine m (map fst ps) (namespace_of git) demo_context '''')"
      "s_id git" "''tools''" with_tools]
    ultimately show ?thesis unfolding sections prefix_list_items_def by (auto simp: demo_tool_def)
  qed
  ultimately show ?thesis
    by (auto simp: handle_tools_list_def io_simps ensure_defs ensure_loaded_def demo_bundle_gets get_team_servers_def
        team_of_context)
qed

theorem tools_list_confined_witness:
  "\<exists>m s. s_team_id s = 1 \<and> tool_of demo_engine demo_context m s demo_tool"
proof -
  have inj: "list_response i k xs [] = list_response i k ys ws \<longleftrightarrow> xs = ys \<and> ws = []" for i k xs ys ws
    by (auto simp: list_response_def result_response_def json_response_def)
  obtain g' where "handle_tools_list demo_engine demo_services demo_env demo_context (JInt 1) with_tools =
      (Inr (list_response (JInt 1) ''tools'' [demo_tool] []), g')"
    using demo_tools_listed by (metis prod.collapse)
  from tools_list_confined [OF this, unfolded inj] obtain config m items where "items = [demo_tool]" and
      "\<forall>x\<in>set items. \<exists>s\<in>set (team_servers config (team_id demo_context)). tool_of demo_engine demo_context m s x"
    by metis
  then show ?thesis by (auto simp: team_servers_def team_of_context)
qed

lemma demo_kv: "kv_laws demo_services (\<lambda>w. map_of (m_texts w))"
  by (auto simp: kv_laws_def demo_services_def tick_def Let_def fun_eq_iff)

theorem revoked_identity_refused_witness:
  "\<exists>g1. revoke_identity demo_engine demo_services 7 running = (Inr True, g1) \<and>
     fst (is_token_valid demo_services 7 None g1) = Inr False"
proof -
  have "MRevocation \<in> set (clients running)" by (simp add: running_fields)
  from revoked_identity_refused [OF demo_kv this, of demo_engine 7] show ?thesis by auto
qed

end
