(* ===== verification/Texts.thy ===== *)
theory Texts imports PyValues begin

text \<open>
  The string operations of the backend's configuration writers: \<open>str.replace\<close>,
  \<open>str.strip(chars)\<close>, \<open>re.sub\<close> of a character class, splitting at a separator, the
  character classes their patterns name, and \<open>os.path.join\<close>.  The lemmas say which characters
  a result can hold.
\<close>

section \<open>Characters\<close>

definition ascii_upper :: "char \<Rightarrow> bool" where
  "ascii_upper c \<longleftrightarrow> 65 \<le> ord c \<and> ord c \<le> 90"

definition ascii_lower :: "char \<Rightarrow> bool" where
  "ascii_lower c \<longleftrightarrow> 97 \<le> ord c \<and> ord c \<le> 122"

definition ascii_alnum :: "char \<Rightarrow> bool" where
  "ascii_alnum c \<longleftrightarrow> ascii_upper c \<or> ascii_lower c \<or> py_isdecimal c"

definition return_char :: char where "return_char = char_of (13::nat)"

definition backquote :: char where "backquote = char_of (96::nat)"

section \<open>Replacing and stripping\<close>

text \<open>\<open>re.sub\<close> of a class of characters by a text, and \<open>s.strip(chars)\<close>.\<close>

definition sub_chars :: "(char \<Rightarrow> bool) \<Rightarrow> string \<Rightarrow> string \<Rightarrow> string" where
  "sub_chars cls repl s = concat (map (\<lambda>c. if cls c then repl else [c]) s)"

definition strip_chars :: "(char \<Rightarrow> bool) \<Rightarrow> string \<Rightarrow> string" where
  "strip_chars cls s = rev (dropWhile cls (rev (dropWhile cls s)))"

definition or_text :: "string \<Rightarrow> string \<Rightarrow> string" where
  "or_text s dflt = (if s = [] then dflt else s)"

text \<open>\<open>s.replace(old, new)\<close> for a non-empty \<open>old\<close> (the empty one is left alone).\<close>

function str_replace :: "string \<Rightarrow> string \<Rightarrow> string \<Rightarrow> string" where
  "str_replace [] old new = []"
| "str_replace (c # cs) old new =
     (if old \<noteq> [] \<and> starts_with (c # cs) old then new @ str_replace (drop (length old) (c # cs)) old new
      else c # str_replace cs old new)"
  by pat_completeness auto
termination by (relation "measure (\<lambda>(s, old, new). length s)") auto

text \<open>\<open>s.split(sep)\<close> for a non-empty separator.\<close>

function str_split :: "string \<Rightarrow> string \<Rightarrow> string list" where
  "str_split sep s =
     (if sep = [] then [s]
      else (case split_first s sep of None \<Rightarrow> [s] | Some (a, b) \<Rightarrow> a # str_split sep b))"
  by pat_completeness auto
termination
  by (relation "measure (\<lambda>(sep, s). length s)") (auto dest!: split_first_SomeD)

declare str_split.simps [simp del]

text \<open>\<open>os.path.join(a, b)\<close>.\<close>

definition path_join :: "string \<Rightarrow> string \<Rightarrow> string" where
  "path_join a b =
     (if starts_with b ''/'' then b
      else if a = [] \<or> ends_with a ''/'' then a @ b
      else a @ ''/'' @ b)"

text \<open>\<open>os.path.dirname(p)\<close>.\<close>

definition path_dirname :: "string \<Rightarrow> string" where
  "path_dirname p =
     (let h = rev (dropWhile (\<lambda>c. c \<noteq> CHR ''/'') (rev p))
      in if list_all (\<lambda>c. c = CHR ''/'') h then h else rev (dropWhile (\<lambda>c. c = CHR ''/'') (rev h)))"

text \<open>\<open>re.escape(s)\<close>, \<open>s.upper()\<close> (micro and y-umlaut, whose capitals lie outside the range, are kept) and \<open>s.isdigit()\<close>.\<close>

definition re_special :: "char \<Rightarrow> bool" where
  "re_special c \<longleftrightarrow> c \<in> set ''()[]{}?*+-|^$.&~# '' \<or> c = backslash \<or> 9 \<le> ord c \<and> ord c \<le> 13"

definition re_escape :: "string \<Rightarrow> string" where
  "re_escape s = concat (map (\<lambda>c. if re_special c then [backslash, c] else [c]) s)"

definition py_upper :: "string \<Rightarrow> string" where
  "py_upper s = concat (map (\<lambda>c. let n = ord c in
     if n = 223 then ''SS''
     else if (97 \<le> n \<and> n \<le> 122) \<or> (224 \<le> n \<and> n \<le> 254 \<and> n \<noteq> 247) then [char_of (n - 32)] else [c]) s)"

definition str_isdigit :: "string \<Rightarrow> bool" where
  "str_isdigit s \<longleftrightarrow> s \<noteq> [] \<and> list_all py_isdigit s"

section \<open>What a result holds\<close>

lemma sub_chars_set: "set (sub_chars cls repl s) \<subseteq> set repl \<union> {c \<in> set s. \<not> cls c}"
  by (auto simp: sub_chars_def)

lemma sub_chars_delete: "sub_chars cls [] s = filter (\<lambda>c. \<not> cls c) s"
  by (induction s) (auto simp: sub_chars_def)

lemma strip_chars_set: "set (strip_chars cls s) \<subseteq> set s"
proof -
  have "set (dropWhile cls xs) \<subseteq> set xs" for xs using set_dropWhileD by fast
  then show ?thesis unfolding strip_chars_def by (metis set_rev subset_trans)
qed

lemma strip_strip_chars: "strip s = strip_chars py_isspace s"
  by (simp add: strip_def lstrip_def strip_chars_def)

lemma strip_set: "set (strip s) \<subseteq> set s"
  by (simp add: strip_strip_chars strip_chars_set)

lemma strip_chars_ends:
  assumes "strip_chars cls s \<noteq> []"
  shows "\<not> cls (hd (strip_chars cls s)) \<and> \<not> cls (last (strip_chars cls s))"
proof -
  let ?l = "dropWhile cls s"
  let ?r = "dropWhile cls (rev ?l)"
  have r: "?r \<noteq> []" using assms by (simp add: strip_chars_def)
  have last: "\<not> cls (hd ?r)" using r by (rule hd_dropWhile)
  obtain p where p: "rev ?l = p @ ?r" by (metis takeWhile_dropWhile_id)
  have l: "?l \<noteq> []" using r p by (cases ?l) auto
  have "\<not> cls (hd ?l)" using l by (rule hd_dropWhile)
  moreover have "hd ?l = last ?r" using p r l by (metis hd_rev last_appendR rev_rev_ident last_rev)
  ultimately show ?thesis using last r by (simp add: strip_chars_def hd_rev last_rev)
qed

lemma str_split_none: "\<not> contains s sep \<Longrightarrow> str_split sep s = [s]"
  by (simp add: str_split.simps [of sep s] split_first_None_iff [symmetric])

lemma str_replace_set: "set (str_replace s old new) \<subseteq> set s \<union> set new"
proof (induction s old new rule: str_replace.induct)
  case (2 c cs old new)
  have "set (drop (length old) (c # cs)) \<subseteq> set (c # cs)" by (rule set_drop_subset)
  with 2 show ?case by (auto split: if_splits)
qed simp

lemma list_allD: "list_all P xs \<Longrightarrow> x \<in> set xs \<Longrightarrow> P x"
  by (simp add: list_all_iff)

text \<open>Words joined by a separator they do not contain come apart again.\<close>

lemma split_char_word: "d \<notin> set w \<Longrightarrow> split_char d (w @ d # s) = w # split_char d s"
  by (induction w) auto

lemma split_char_id: "d \<notin> set w \<Longrightarrow> split_char d w = [w]"
  by (induction w) auto

lemma split_char_join:
  "ws \<noteq> [] \<Longrightarrow> (\<And>w. w \<in> set ws \<Longrightarrow> d \<notin> set w) \<Longrightarrow> split_char d (join [d] ws) = ws"
proof (induction ws)
  case (Cons w ws)
  then show ?case by (cases ws) (simp_all add: split_char_word split_char_id)
qed simp

end
