(* ===== verification/Haproxy.thy ===== *)
theory Haproxy imports Texts begin

text \<open>
  The helpers every writer of the HAProxy configuration uses
  (\<open>backend/app/services/haproxy.py\<close>): the functions that clean names, tokens, regexes,
  header values and query strings before they enter the configuration, the names of its
  sections, conditions of backend rules, extra options, the Lua literals and the error
  files.  What the code does for values that are not texts (\<open>str(value)\<close> first) is left out:
  the columns are texts.
\<close>

section \<open>Cleaning values\<close>

definition name_char :: "char \<Rightarrow> bool" where
  "name_char c \<longleftrightarrow> ascii_alnum c \<or> c \<in> set ''_.:-''"

definition path_name_char :: "char \<Rightarrow> bool" where
  "path_name_char c \<longleftrightarrow> ascii_alnum c \<or> c \<in> set ''_.-''"

definition token_bad :: "char \<Rightarrow> bool" where
  "token_bad c \<longleftrightarrow> c \<in> {return_char, newline, backquote, backslash} \<or> c \<in> set '';#|&$''"

definition line_bad :: "char \<Rightarrow> bool" where
  "line_bad c \<longleftrightarrow> c \<in> {return_char, newline, CHR '';''}"

definition query_bad :: "char \<Rightarrow> bool" where
  "query_bad c \<longleftrightarrow>
     c \<in> {return_char, newline, double_quote, single_quote, backquote, backslash} \<or> c \<in> set '';#|$''"

definition safe_name :: "string \<Rightarrow> string" where
  "safe_name name =
     or_text (strip_chars (\<lambda>c. c = CHR ''_'') (sub_chars (\<lambda>c. \<not> name_char c) ''_'' name)) ''unnamed''"

definition safe_path_name :: "string \<Rightarrow> string" where
  "safe_path_name name =
     or_text (strip (strip_chars (\<lambda>c. c \<in> set ''_.-'')
       (sub_chars (\<lambda>c. \<not> path_name_char c) ''_'' name))) ''unnamed''"

definition safe_token :: "string \<Rightarrow> string" where
  "safe_token s = strip (sub_chars token_bad [] s)"

definition safe_regex :: "string \<Rightarrow> string" where
  "safe_regex s = strip (sub_chars line_bad [] s)"

definition safe_fcgi_param_value :: "string \<Rightarrow> string" where
  "safe_fcgi_param_value s = strip (sub_chars line_bad [] s)"

definition safe_query :: "string \<Rightarrow> string" where
  "safe_query s =
     strip (strip_chars (\<lambda>c. c \<in> set ''&+'')
       (sub_chars py_isspace ''+'' (sub_chars query_bad [] s)))"

definition header_bad :: "char \<Rightarrow> bool" where
  "header_bad c \<longleftrightarrow> c \<in> {return_char, newline, backquote, backslash} \<or> c \<in> set ''#|&$''"

definition safe_header_value :: "string \<Rightarrow> string" where
  "safe_header_value s =
     [double_quote] @ str_replace (strip (sub_chars header_bad [] s)) [double_quote] [single_quote]
       @ [double_quote]"

section \<open>Section names\<close>

text \<open>
  The search for a free suffix ends because \<open>used\<close> is finite and the candidates differ.
\<close>

definition suffixed :: "string \<Rightarrow> nat \<Rightarrow> string" where
  "suffixed base i = base @ ''_'' @ nat_str i"

lemma suffixed_inj [simp]: "suffixed base i = suffixed base j \<longleftrightarrow> i = j"
  by (simp add: suffixed_def)

lemma finite_taken: "finite {j. suffixed base j \<in> set used}"
  by (rule finite_imageD [of "suffixed base"]) (auto intro: finite_subset [of _ "set used"] inj_onI)

function free_suffix :: "string \<Rightarrow> string list \<Rightarrow> nat \<Rightarrow> string" where
  "free_suffix base used i =
     (if suffixed base i \<notin> set used then suffixed base i else free_suffix base used (Suc i))"
  by pat_completeness auto
termination
proof (relation "measure (\<lambda>(base, used, i). card {j. i \<le> j \<and> suffixed base j \<in> set used})")
  fix base used and i :: nat
  assume "\<not> suffixed base i \<notin> set used"
  then have "{j. Suc i \<le> j \<and> suffixed base j \<in> set used} \<subset> {j. i \<le> j \<and> suffixed base j \<in> set used}"
    by (auto simp: psubset_eq Suc_le_eq)
  moreover have "finite {j. i \<le> j \<and> suffixed base j \<in> set used}"
    by (rule finite_subset [OF _ finite_taken]) auto
  ultimately show "((base, used, Suc i), base, used, i)
      \<in> measure (\<lambda>(base, used, i). card {j. i \<le> j \<and> suffixed base j \<in> set used})"
    by (simp add: psubset_card_mono)
qed simp

declare free_suffix.simps [simp del]

text \<open>\<open>_unique_section_name\<close>: the name, which the caller's set \<open>used\<close> then holds.\<close>

definition unique_section_name :: "string \<Rightarrow> string list \<Rightarrow> string option \<Rightarrow> string" where
  "unique_section_name base used sfx =
     (if base \<notin> set used then base
      else let candidate = base @ ''_'' @ (case sfx of None \<Rightarrow> [] | Some s \<Rightarrow> s)
           in if sfx \<noteq> None \<and> sfx \<noteq> Some [] \<and> \<not> ends_with base (''_'' @ the sfx) \<and> candidate \<notin> set used
              then candidate else free_suffix base used 2)"

record named_row =
  row_id :: int
  row_name :: string
  row_enabled :: bool

text \<open>One loop of \<open>_get_section_names\<close>: the names given, and the names in use after it.\<close>

fun name_rows :: "string option \<Rightarrow> named_row list \<Rightarrow> string list \<Rightarrow> (int \<times> string) list \<times> string list" where
  "name_rows sfx [] used = ([], used)"
| "name_rows sfx (r # rs) used =
     (let n = unique_section_name (safe_name (row_name r)) used sfx; (ns, used') = name_rows sfx rs (n # used)
      in ((row_id r, n) # ns, used'))"

definition get_section_names ::
  "named_row list \<Rightarrow> named_row list \<Rightarrow> (int \<times> string) list \<times> (int \<times> string) list \<times> string \<times> string" where
  "get_section_names listeners backends =
     (let (fs, used) = name_rows None (filter row_enabled listeners) [];
          stats_name = unique_section_name ''stats'' used None;
          (bs, used2) = name_rows (Some ''be'') backends (stats_name # used);
          coraza_name = unique_section_name ''coraza-spoa'' used2 (Some ''be'')
      in (fs, bs, stats_name, coraza_name))"

section \<open>Conditions of backend rules and extra options\<close>

definition safe_opt :: "string option \<Rightarrow> string" where
  "safe_opt v = (case v of None \<Rightarrow> [] | Some s \<Rightarrow> s)"

definition haproxy_action :: "string option \<Rightarrow> string" where
  "haproxy_action action =
     (if action = None \<or> action = Some [] \<or> action = Some ''block'' then ''deny''
      else if action = Some ''log'' then ''set-log-level notice''
      else safe_token (the action))"

definition backend_condition_expression ::
  "string \<Rightarrow> string option \<Rightarrow> string \<Rightarrow> string option \<Rightarrow> string" where
  "backend_condition_expression condition_type condition_name operator v =
     (let op0 = safe_token operator;
          opr = (if op0 = ''eq'' then ''str'' else op0);
          name = safe_token (safe_opt condition_name);
          value = (if opr = ''reg'' then safe_regex (safe_opt v) else safe_token (safe_opt v));
          named = (\<lambda>f. if name = [] then f else f @ ''('' @ name @ '')'');
          fetch = (if condition_type = ''host'' then ''req.hdr(host)''
                   else if condition_type = ''hdr'' then named ''req.hdr''
                   else if condition_type = ''cookie'' then named ''req.cook''
                   else if condition_type = ''url_param'' then named ''url_param''
                   else ''path'')
      in if condition_type = ''src'' then (if value = [] then ''src -m found'' else ''src '' @ value)
         else if opr = ''found'' then fetch @ '' -m found''
         else if opr \<in> {''eq'', ''len''} then
           (if value = [] then fetch @ '' -m found'' else fetch @ '' -m '' @ opr @ '' '' @ value)
         else if opr = ''reg'' then fetch @ '' -m reg '' @ value
         else if opr \<in> {''beg'', ''end'', ''sub'', ''dir''} then fetch @ '' -m '' @ opr @ '' '' @ value
         else fetch @ '' -m beg '' @ value)"

text \<open>An option of a listener or backend: a JSON object with texts (or values made texts).\<close>

record haproxy_option =
  opt_enabled :: bool
  opt_directive :: string
  opt_value :: string
  opt_target :: string

definition rstrip :: "string \<Rightarrow> string" where
  "rstrip s = rev (dropWhile py_isspace (rev s))"

fun render_haproxy_options :: "haproxy_option list \<Rightarrow> string \<Rightarrow> string list \<times> string list" where
  "render_haproxy_options [] sc = ([], [])"
| "render_haproxy_options (o1 # os) sc =
     (let (binds, sections) = render_haproxy_options os sc;
          directive = safe_token (opt_directive o1); value = safe_token (opt_value o1)
      in if \<not> opt_enabled o1 then (binds, sections)
         else if directive = [] then (binds, sections)
         else if sc = ''listener'' \<and> opt_target o1 = ''bind''
           then (strip (directive @ '' '' @ value) # binds, sections)
         else (binds, rstrip (''    '' @ directive @ '' '' @ value) # sections))"

section \<open>Lua literals and error files\<close>

definition escape_lua_string :: "string \<Rightarrow> string" where
  "escape_lua_string s =
     str_replace (str_replace (str_replace (str_replace s
       [backslash] [backslash, backslash])
       [double_quote] [backslash, double_quote])
       [newline] [backslash, CHR ''n''])
       [return_char] [backslash, CHR ''r'']"

text \<open>
  \<open>_TEMPLATE_RE.sub\<close>: \<open>{{ name }}\<close> with white space around a non-empty run of word characters.
\<close>

definition template_word :: "char \<Rightarrow> bool" where
  "template_word c \<longleftrightarrow> py_isalnum c \<or> c = CHR ''_''"

definition template_match :: "string \<Rightarrow> (string \<times> string) option" where
  "template_match s =
     (if \<not> starts_with s ''{{'' then None
      else let r = lstrip (drop 2 s); name = takeWhile template_word r;
               r2 = lstrip (dropWhile template_word r)
           in if name \<noteq> [] \<and> starts_with r2 ''}}'' then Some (name, drop 2 r2) else None)"

lemma length_lstrip_le: "length (lstrip s) \<le> length s"
  by (simp add: lstrip_def length_dropWhile_le)

lemma template_match_shorter: "template_match s = Some (name, r) \<Longrightarrow> length r < length s"
proof (auto simp: template_match_def Let_def split: if_splits)
  let ?d = "lstrip (drop 2 s)"
  have "length (lstrip (dropWhile template_word ?d)) \<le> length ?d"
    by (meson length_dropWhile_le length_lstrip_le le_trans)
  also have "\<dots> \<le> length s - 2" using length_lstrip_le [of "drop 2 s"] by simp
  finally show "length (lstrip (dropWhile template_word ?d)) - 2 < length s"
    if "starts_with s ''{{''" using that by (auto simp: starts_with_iff)
qed

function sub_template :: "(string \<Rightarrow> string) \<Rightarrow> string \<Rightarrow> string" where
  "sub_template f [] = []"
| "sub_template f (c # cs) =
     (case template_match (c # cs) of
        Some (name, r) \<Rightarrow> f name @ sub_template f r
      | None \<Rightarrow> c # sub_template f cs)"
  by pat_completeness auto
termination by (relation "measure (\<lambda>(f, s). length s)") (auto dest: template_match_shorter)

text \<open>\<open>re.sub(r"%(?!\[)", "%%", content)\<close>.\<close>

fun double_percent :: "string \<Rightarrow> string" where
  "double_percent [] = []"
| "double_percent (c # cs) =
     (if c = CHR ''%'' \<and> \<not> starts_with cs ''['' then ''%%'' else [c]) @ double_percent cs"

definition ERROR_TEMPLATE_VARS :: "(string \<times> string) list" where
  "ERROR_TEMPLATE_VARS =
     [(''request_id'', ''unique-id''),
      (''waf_unique_id'', ''var(txn.coraza.id)''),
      (''client_ip'', ''src''),
      (''client_port'', ''src_port''),
      (''frontend_ip'', ''dst''),
      (''frontend_port'', ''dst_port''),
      (''method'', ''method''),
      (''uri'', ''url''),
      (''path'', ''path''),
      (''query'', ''query''),
      (''host'', ''req.hdr(host)''),
      (''user_agent'', ''req.fhdr('' @ [double_quote] @ ''user-agent'' @ [double_quote] @ '')''),
      (''referer'', ''req.hdr('' @ [double_quote] @ ''referer'' @ [double_quote] @ '')''),
      (''timestamp'', ''date''),
      (''timeout'', ''var(txn.timeout)''),
      (''haproxy_server'', ''srv_name''),
      (''backend_name'', ''be_name''),
      (''frontend_name'', ''fe_name''),
      (''rate_limit_window'', ''var(txn.rate_limit_window)''),
      (''rate_limit_duration'', ''var(txn.rate_limit_duration)'')]"

definition template_fetch :: "string \<Rightarrow> string" where
  "template_fetch name =
     ''%['' @ dict_get ERROR_TEMPLATE_VARS name (''var(txn.'' @ name @ '')'') @ '']''"

text \<open>The text \<open>_write_error_file\<close> writes.\<close>

definition error_file_text :: "string \<Rightarrow> string" where
  "error_file_text content =
     (let c1 = str_replace content [return_char] [];
          c2 = double_percent (sub_template template_fetch c1)
      in if ends_with c2 [newline] then c2 else c2 @ [newline])"

section \<open>Keys of rate limits\<close>

text \<open>
  What the writers ask of their surroundings: which GeoIP engine the running HAProxy has, which
  files exist, and the settings.
\<close>

record hap_env =
  geoip_lua :: bool
  geoip2 :: bool
  file_exists :: "string \<Rightarrow> bool"
  abspath :: "string \<Rightarrow> string"
  geoip_db_path :: string
  asn_db_path :: string
  country_map_path :: string
  asn_map_path :: string
  lists_dir :: string
  config_path :: string
  challenge_page :: string
  rules_block_status :: int

definition quoted :: "string \<Rightarrow> string" where
  "quoted s = [double_quote] @ s @ [double_quote]"

definition given_header :: "string option \<Rightarrow> string \<Rightarrow> string" where
  "given_header h dflt = (if h = None \<or> h = Some [] then dflt else safe_token (the h))"

definition rate_key_track_expr :: "hap_env \<Rightarrow> string \<Rightarrow> string option \<Rightarrow> string" where
  "rate_key_track_expr env rate_key rate_header =
     (let rk = safe_token (or_text rate_key ''src'')
      in if rk = ''user_id'' then ''req.hdr('' @ given_header rate_header ''X-User-ID'' @ '')''
         else if rk = ''header'' then ''req.hdr('' @ given_header rate_header ''X-API-Key'' @ '')''
         else if rk = ''path'' then ''path''
         else if rk = ''asn'' then
           (if geoip_lua env then ''src,lua.geoip2-lookup-asn('' @ quoted ''autonomous_system_number'' @ '')''
            else if geoip2 env \<and> file_exists env (asn_db_path env)
              then ''src,geoip2('' @ abspath env (asn_db_path env) @ '',autonomous_system_number)''
            else if file_exists env (asn_map_path env)
              then ''src,map_ip('' @ abspath env (asn_map_path env) @ '')''
            else ''src'')
         else ''src'')"

section \<open>The challenge redirect\<close>

definition VARNISH_GUARD :: string where
  "VARNISH_GUARD = ''!{ var(txn.is_varnish_fetch) -m found }''"

definition COOKIE_VALID :: string where
  "COOKIE_VALID = ''{ var(txn.captcha_cookie_valid) -m found }''"

text \<open>An \<open>http-request\<close> line with a condition.\<close>

definition request_line :: "string \<Rightarrow> string \<Rightarrow> string" where
  "request_line act condition = ''    http-request '' @ act @ '' if '' @ condition"

text \<open>\<open>_emit_challenge_redirect\<close>: the lines appended.\<close>

definition challenge_redirect :: "string \<Rightarrow> string \<Rightarrow> int option \<Rightarrow> string \<Rightarrow> string \<Rightarrow> string list" where
  "challenge_redirect condition0 challenge_url rule_id rule_type rule_name =
     (let condition = condition0 @ '' '' @ VARNISH_GUARD;
          safe = (if rule_name = [] then ''-'' else str_replace (safe_token rule_name) '' '' ''_'')
      in [request_line ''allow'' (COOKIE_VALID @ '' '' @ condition),
          ''    http-request set-var(txn.captcha_request_id) unique-id'',
          ''    http-request set-var(txn.captcha_scheme) str(https) if { ssl_fc }'',
          ''    http-request set-var(txn.captcha_scheme) str(http) unless { ssl_fc }'',
          ''    http-request set-var-fmt(txn.captcha_redirect) %[var(txn.captcha_scheme)]://%[req.hdr(host)]%[pathq]'',
          request_line (''lua.captcha_store_ctx '' @ int_str (or_default rule_id 0) @ '' '' @ rule_type @ '' '' @ safe)
            condition,
          request_line (''redirect location '' @ challenge_url @ ''?cid=%[var(txn.captcha_cid_token)] code 302'')
            condition])"

section \<open>Section names differ\<close>

lemma free_suffix_free: "free_suffix base used i \<notin> set used"
proof (induction base used i rule: free_suffix.induct)
  case (1 base used i)
  then show ?case by (cases "suffixed base i \<in> set used") (simp_all add: free_suffix.simps [of base used i])
qed

lemma unique_section_name_free: "unique_section_name base used sfx \<notin> set used"
  by (auto simp: unique_section_name_def Let_def free_suffix_free)

lemma name_rows_used: "set (snd (name_rows sfx rs used)) = set (map snd (fst (name_rows sfx rs used))) \<union> set used"
proof (induction rs arbitrary: used)
  case (Cons r rs)
  let ?n = "unique_section_name (safe_name (row_name r)) used sfx"
  show ?case using Cons.IH [of "?n # used"] by (auto simp: Let_def case_prod_beta simp del: set_map)
qed simp

lemma name_rows_distinct:
  "distinct (map snd (fst (name_rows sfx rs used))) \<and> set (map snd (fst (name_rows sfx rs used))) \<inter> set used = {}"
proof (induction rs arbitrary: used)
  case (Cons r rs)
  let ?n = "unique_section_name (safe_name (row_name r)) used sfx"
  show ?case
    using Cons.IH [of "?n # used"] unique_section_name_free [of "safe_name (row_name r)" used sfx]
    by (auto simp: Let_def case_prod_beta simp del: set_map)
qed simp

text \<open>Whatever the listeners and backends are called, the sections of the configuration all have
  different names.\<close>

theorem section_names_distinct:
  "case get_section_names listeners backends of (fs, bs, stats_name, coraza_name) \<Rightarrow>
     distinct (map snd fs @ stats_name # map snd bs @ [coraza_name])"
proof -
  let ?f = "name_rows None (filter row_enabled listeners) []"
  let ?stats = "unique_section_name ''stats'' (snd ?f) None"
  let ?b = "name_rows (Some ''be'') backends (?stats # snd ?f)"
  let ?coraza = "unique_section_name ''coraza-spoa'' (snd ?b) (Some ''be'')"
  have "get_section_names listeners backends = (fst ?f, fst ?b, ?stats, ?coraza)"
    by (simp add: get_section_names_def case_prod_beta Let_def)
  moreover have "distinct (map snd (fst ?f))" using name_rows_distinct by blast
  moreover have "?stats \<notin> set (snd ?f)" by (rule unique_section_name_free)
  moreover have "distinct (map snd (fst ?b)) \<and> set (map snd (fst ?b)) \<inter> set (?stats # snd ?f) = {}"
    by (rule name_rows_distinct)
  moreover have "?coraza \<notin> set (snd ?b)" by (rule unique_section_name_free)
  ultimately show ?thesis by (auto simp: name_rows_used)
qed

section \<open>Cleaned values stay on their line\<close>

lemma dropped_not_in: "cls c \<Longrightarrow> c \<notin> set (strip (sub_chars cls [] s))"
  using strip_set [of "sub_chars cls [] s"] by (auto simp: sub_chars_delete)

definition one_line :: "string \<Rightarrow> bool" where
  "one_line s \<longleftrightarrow> newline \<notin> set s \<and> return_char \<notin> set s"

lemma one_line_subset: "set t \<subseteq> set s \<Longrightarrow> one_line s \<Longrightarrow> one_line t"
  by (auto simp: one_line_def)

lemma one_line_strip [intro]: "one_line s \<Longrightarrow> one_line (strip s)"
  by (rule one_line_subset [OF strip_set])

lemma one_line_strip_chars [intro]: "one_line s \<Longrightarrow> one_line (strip_chars p s)"
  by (rule one_line_subset [OF strip_chars_set])

lemma one_line_or_text [intro]: "one_line s \<Longrightarrow> one_line d \<Longrightarrow> one_line (or_text s d)"
  by (simp add: or_text_def)

lemma one_line_sub: "cls newline \<Longrightarrow> cls return_char \<Longrightarrow> one_line repl \<Longrightarrow> one_line (sub_chars cls repl s)"
  using sub_chars_set [of cls repl s] by (auto simp: one_line_def)

lemma one_line_literals: "one_line []" "one_line ''_''" "one_line ''+''" "one_line ''unnamed''"
  by (code_simp)+

lemma breaks_cleaned:
  "\<not> name_char newline" "\<not> name_char return_char" "\<not> path_name_char newline" "\<not> path_name_char return_char"
  "token_bad newline" "token_bad return_char" "line_bad newline" "line_bad return_char"
  "py_isspace newline" "py_isspace return_char" "header_bad newline" "header_bad return_char"
  by (code_simp)+

lemmas one_line_intros = one_line_or_text one_line_strip one_line_strip_chars one_line_sub

lemma cleaned_one_line:
  "one_line (safe_name s)" "one_line (safe_path_name s)" "one_line (safe_token s)" "one_line (safe_regex s)"
  "one_line (safe_fcgi_param_value s)" "one_line (safe_query s)"
  unfolding safe_name_def safe_path_name_def safe_token_def safe_regex_def safe_fcgi_param_value_def safe_query_def
  by (intro one_line_intros; simp only: breaks_cleaned one_line_literals not_False_eq_True)+

text \<open>Nothing the cleaning functions return can leave its line of the configuration: no name, path,
  token, regex, parameter or query string holds a line break, whatever it was made of, and a header
  value is in addition one quoted text.\<close>

theorem cleaned_values_one_line:
  "one_line (safe_name s) \<and> one_line (safe_path_name s) \<and> one_line (safe_token s) \<and> one_line (safe_regex s) \<and>
   one_line (safe_fcgi_param_value s) \<and> one_line (safe_query s) \<and>
   (\<exists>body. safe_header_value s = quoted body \<and> one_line body \<and> double_quote \<notin> set body \<and> backslash \<notin> set body)"
proof -
  let ?h = "strip (sub_chars header_bad [] s)"
  let ?body = "str_replace ?h [double_quote] [single_quote]"
  have "one_line ?h" by (intro one_line_strip one_line_sub breaks_cleaned one_line_literals)
  moreover have "backslash \<notin> set ?h" by (rule dropped_not_in) code_simp
  moreover have "double_quote \<notin> set (str_replace t [double_quote] [single_quote])" for t
  proof (induction t "[double_quote]" "[single_quote]" rule: str_replace.induct)
    case (2 c cs)
    have "double_quote \<noteq> single_quote" by code_simp
    with 2 show ?case by auto
  qed simp
  moreover have "newline \<noteq> single_quote" "return_char \<noteq> single_quote" "backslash \<noteq> single_quote" by code_simp+
  ultimately have "safe_header_value s = quoted ?body \<and> one_line ?body \<and> double_quote \<notin> set ?body \<and> backslash \<notin> set ?body"
    using str_replace_set [of ?h "[double_quote]" "[single_quote]"]
    by (auto simp: safe_header_value_def quoted_def one_line_def)
  with cleaned_one_line show ?thesis by blast
qed

end
