(* ===== verification/SecRules.thy ===== *)
theory SecRules imports ExprDnf Haproxy begin

text \<open>
  The compiler from expressions to HAProxy conditions
  (\<open>backend/app/services/security_rules.py\<close>): the field tables, the resolution of a field to a
  sample fetch, the translation of a leaf to an anonymous ACL, and of an expression, through its
  normal form, to the text after \<open>if\<close>.  What it reads of the database (which rule sets and lists
  exist) is \<open>sec_db\<close>; the settings and the file system are \<open>hap_env\<close>.  Every error the code
  raises here is a \<open>ValueError\<close>.
\<close>

section \<open>Fields\<close>

datatype phase = Request | Response

datatype vkind = KString | KInt | KBool | KIp | KGeoip | KJa4

definition FIELD_MAP :: "(string \<times> string \<times> phase \<times> vkind) list" where
  "FIELD_MAP =
     [(''http.request.method'', ''method'', Request, KString),
      (''http.request.uri.path'', ''path'', Request, KString),
      (''http.request.uri'', ''url'', Request, KString),
      (''http.request.full_uri'', ''base'', Request, KString),
      (''http.request.uri.query'', ''url_query'', Request, KString),
      (''http.host'', ''req.hdr(host)'', Request, KString),
      (''http.request.user_agent'', ''req.fhdr(user-agent)'', Request, KString),
      (''http.request.referer'', ''req.hdr(referer)'', Request, KString),
      (''http.request.version'', ''req.ver'', Request, KString),
      (''http.request.tls.cipher'', ''ssl_fc_cipher'', Request, KString),
      (''http.request.tls.version'', ''ssl_fc_protocol'', Request, KString),
      (''ip.src'', ''src'', Request, KIp),
      (''ip.geoip.country'', ''src,geoip2({geo_db},country.iso_code)'', Request, KGeoip),
      (''ip.geoip.asnum'', ''src,geoip2({asn_db},autonomous_system_number)'', Request, KString),
      (''ip.geoip.continent'', ''src,geoip2({geo_db},continent.code)'', Request, KGeoip),
      (''ip.geoip.city'', ''src,geoip2({geo_db},city.names.en)'', Request, KGeoip),
      (''ip.geoip.region'', ''src,geoip2({geo_db},subdivisions.0.iso_code)'', Request, KGeoip),
      (''ip.geoip.postal_code'', ''src,geoip2({geo_db},postal.code)'', Request, KGeoip),
      (''ip.geoip.timezone'', ''src,geoip2({geo_db},location.time_zone)'', Request, KGeoip),
      (''ip.geoip.latitude'', ''src,geoip2({geo_db},location.latitude)'', Request, KInt),
      (''ip.geoip.longitude'', ''src,geoip2({geo_db},location.longitude)'', Request, KInt),
      (''ip.beacon_trusted'', ''src,table_http_req_cnt(beacon_trust_table)'', Request, KInt),
      (''http.request.ja4'', ''lua.ja4_fp'', Request, KJa4),
      (''http.response.status_code'', ''status'', Response, KInt),
      (''http.request.fingerprint'', ''var(txn.req_fp.full)'', Response, KString),
      (''http.request.fingerprint.content_type'', ''var(txn.req_fp.ctype)'', Request, KString),
      (''http.request.fingerprint.param_keys'', ''var(txn.req_fp.param_keys)'', Request, KString),
      (''http.request.fingerprint.param_types'', ''var(txn.req_fp.param_types)'', Request, KString),
      (''http.request.fingerprint.param_lens'', ''var(txn.req_fp.param_lens)'', Request, KString),
      (''http.request.fingerprint.path_depth'', ''var(txn.req_fp.path_depth)'', Request, KInt),
      (''http.request.fingerprint.header_count'', ''var(txn.req_fp.hdr_count)'', Request, KInt),
      (''http.request.fingerprint.header_list'', ''var(txn.req_fp.hdr_list)'', Request, KString),
      (''http.request.fingerprint.auth_type'', ''var(txn.req_fp.auth_type)'', Request, KString),
      (''http.request.fingerprint.body_depth'', ''var(txn.req_fp.body_depth)'', Request, KInt),
      (''http.response.fingerprint.status'', ''var(txn.req_fp.status)'', Response, KInt),
      (''http.response.fingerprint.body_bytes'', ''var(txn.req_fp.body_bytes)'', Response, KInt),
      (''graphql.operation'', ''var(txn.gql_operation)'', Request, KString),
      (''graphql.depth'', ''var(txn.gql_depth)'', Request, KInt),
      (''graphql.complexity'', ''var(txn.gql_complexity)'', Request, KInt),
      (''graphql.field_count'', ''var(txn.gql_field_count)'', Request, KInt),
      (''graphql.alias_count'', ''var(txn.gql_alias_count)'', Request, KInt),
      (''graphql.fragment_count'', ''var(txn.gql_fragment_count)'', Request, KInt),
      (''graphql.query_hash'', ''var(txn.gql_query_hash)'', Request, KString),
      (''graphql.valid'', ''var(txn.gql_valid)'', Request, KBool),
      (''api.schema_valid'', ''var(txn.api_schema_valid)'', Request, KBool),
      (''api.schema_errors'', ''var(txn.api_schema_errors)'', Request, KString),
      (''auth.valid'', ''var(txn.auth_valid)'', Request, KBool),
      (''auth.type'', ''var(txn.auth_type)'', Request, KString),
      (''auth.error'', ''var(txn.auth_error)'', Request, KString),
      (''auth.claim.sub'', ''var(txn.auth.claim_sub)'', Request, KString),
      (''auth.claim.iss'', ''var(txn.auth.claim_iss)'', Request, KString),
      (''auth.claim.aud'', ''var(txn.auth.claim_aud)'', Request, KString),
      (''api.profile_anomaly'', ''var(txn.api.profile_anomaly)'', Request, KBool),
      (''risk.score'', ''var(txn.risk.score)'', Request, KInt),
      (''risk.rules_hit'', ''var(txn.risk.rules_hit)'', Request, KString),
      (''risk.rules_hit_count'', ''var(txn.risk.rules_hit_count)'', Request, KInt),
      (''risk.hit_density'', ''var(txn.risk.hit_density)'', Request, KInt),
      (''http.request.fingerprint.cipher_count'', ''var(txn.risk_fp.cipher_count)'', Request, KInt),
      (''http.request.fingerprint.ext_count'', ''var(txn.risk_fp.ext_count)'', Request, KInt),
      (''http.request.user_agent_length'', ''var(txn.risk_fp.ua_len)'', Request, KInt),
      (''http.request.hour'', ''var(txn.risk_fp.req_hour)'', Request, KInt),
      (''http.request.uri_length'', ''var(txn.risk_fp.uri_length)'', Request, KInt),
      (''http.request.param_count'', ''var(txn.risk_fp.param_count)'', Request, KInt),
      (''http.request.version_numeric'', ''var(txn.risk_fp.version_numeric)'', Request, KInt),
      (''http.request.alpn'', ''ssl_fc_alpn'', Request, KString)]"

definition BRACKET_FIELDS :: "(string \<times> string) list" where
  "BRACKET_FIELDS =
     [(''http.request.headers'', ''req.hdr({key})''),
      (''http.request.cookies'', ''req.cook({key})''),
      (''http.request.uri.query'', ''url_query''),
      (''http.response.headers'', ''res.hdr({key})''),
      (''auth.claim'', ''var(txn.auth.claim_{key})'')]"

definition BOOL_FIELDS :: "(string \<times> string) list" where
  "BOOL_FIELDS =
     [(''http.request.tls'', ''ssl_fc''),
      (''http.request.scheme'', ''ssl_fc''),
      (''http.request.keep_alive'', ''var(txn.risk_fp.keep_alive)''),
      (''http.request.geo_lang_mismatch'', ''var(txn.risk_fp.geo_lang_mismatch)''),
      (''http.request.geoip.timezone_mismatch'', ''var(txn.risk_fp.tz_mismatch)'')]"

definition GEOIP_LUA_FIELDS :: "(string \<times> string \<times> phase \<times> vkind) list" where
  "GEOIP_LUA_FIELDS =
     [(''ip.geoip.country'', (''src,lua.geoip2-lookup-city('' @ [double_quote] @ ''country'' @ [double_quote] @ '','' @ [double_quote] @ ''iso_code'' @ [double_quote] @ '')''), Request, KString),
      (''ip.geoip.asnum'', (''src,lua.geoip2-lookup-asn('' @ [double_quote] @ ''autonomous_system_number'' @ [double_quote] @ '')''), Request, KString),
      (''ip.geoip.continent'', (''src,lua.geoip2-lookup-city('' @ [double_quote] @ ''continent'' @ [double_quote] @ '','' @ [double_quote] @ ''code'' @ [double_quote] @ '')''), Request, KString),
      (''ip.geoip.city'', (''src,lua.geoip2-lookup-city('' @ [double_quote] @ ''city'' @ [double_quote] @ '','' @ [double_quote] @ ''names'' @ [double_quote] @ '','' @ [double_quote] @ ''en'' @ [double_quote] @ '')''), Request, KString),
      (''ip.geoip.region'', (''src,lua.geoip2-lookup-city('' @ [double_quote] @ ''subdivisions'' @ [double_quote] @ '','' @ [double_quote] @ ''0'' @ [double_quote] @ '','' @ [double_quote] @ ''iso_code'' @ [double_quote] @ '')''), Request, KString),
      (''ip.geoip.postal_code'', (''src,lua.geoip2-lookup-city('' @ [double_quote] @ ''postal'' @ [double_quote] @ '','' @ [double_quote] @ ''code'' @ [double_quote] @ '')''), Request, KString),
      (''ip.geoip.timezone'', (''src,lua.geoip2-lookup-city('' @ [double_quote] @ ''location'' @ [double_quote] @ '','' @ [double_quote] @ ''time_zone'' @ [double_quote] @ '')''), Request, KString),
      (''ip.geoip.latitude'', (''src,lua.geoip2-lookup-city('' @ [double_quote] @ ''location'' @ [double_quote] @ '','' @ [double_quote] @ ''latitude'' @ [double_quote] @ '')''), Request, KString),
      (''ip.geoip.longitude'', (''src,lua.geoip2-lookup-city('' @ [double_quote] @ ''location'' @ [double_quote] @ '','' @ [double_quote] @ ''longitude'' @ [double_quote] @ '')''), Request, KString)]"

definition SKIP_ACTIONS :: "(string \<times> string list) list" where
  "SKIP_ACTIONS =
     [(''skip_rules'', []),
      (''skip_rules_ratelimit'', [''skip_ratelimit'']),
      (''skip_rules_waf'', [''skip_waf'']),
      (''skip_all'', [''skip_ratelimit'', ''skip_waf''])]"

text \<open>\<open>_build_bool_fields_set\<close>.\<close>

definition BOOL_FIELDS_SET :: "string list" where
  "BOOL_FIELDS_SET =
     map fst BOOL_FIELDS @ map fst (filter (\<lambda>(f, fetch, ph, k). k = KBool) FIELD_MAP)"

definition parse_rule_expression :: "string \<Rightarrow> expr_error + ast" where
  "parse_rule_expression text = parse_expression BOOL_FIELDS_SET text"

definition JA4_FETCH :: string where "JA4_FETCH = ''lua.ja4_fp''"

text \<open>What the compiler asks of the database.\<close>

record sec_db =
  risk_slugs :: "string list"
  list_names :: "(string \<times> string) list"

definition haproxy_quoted_key :: "string \<Rightarrow> string" where
  "haproxy_quoted_key key =
     (let safe = sub_chars (\<lambda>c. \<not> (ascii_alnum c \<or> c = CHR ''_'' \<or> c = CHR ''-'')) [] key
      in if safe = [] then py_lower key else py_lower safe)"

type_synonym resolved = "string \<times> phase \<times> vkind \<times> string option"

definition QUERY_PARAM :: string where "QUERY_PARAM = ''__query_param__''"

text \<open>The three tiers of the GeoIP fields.\<close>

definition resolve_geoip :: "hap_env \<Rightarrow> string \<Rightarrow> string \<Rightarrow> phase \<Rightarrow> vkind \<Rightarrow> resolved res" where
  "resolve_geoip env field tpl ph k =
     (if geoip_lua env \<and> map_of GEOIP_LUA_FIELDS field \<noteq> None
      then (case the (map_of GEOIP_LUA_FIELDS field) of (f, p, v) \<Rightarrow> Inr (f, p, v, None))
      else if geoip2 env then
        (let geo = contains tpl ''{geo_db}'';
             path = abspath env (if geo then geoip_db_path env else asn_db_path env)
         in if \<not> file_exists env path then Inl ValueError
            else Inr (str_replace tpl (if geo then ''{geo_db}'' else ''{asn_db}'') path, ph, k, None))
      else if field = ''ip.geoip.country''
        then Inr (''src,map_ip('' @ abspath env (country_map_path env) @ '')'', ph, k, None)
      else if field = ''ip.geoip.asnum''
        then Inr (''src,map_ip('' @ abspath env (asn_map_path env) @ '')'', ph, k, None)
      else Inl ValueError)"

definition resolve_bracket :: "string \<Rightarrow> string \<Rightarrow> resolved res" where
  "resolve_bracket base key =
     (case map_of BRACKET_FIELDS base of
        None \<Rightarrow> Inl ValueError
      | Some tpl \<Rightarrow>
          if base = ''http.request.uri.query'' then Inr (QUERY_PARAM, Request, KString, Some key)
          else Inr (str_replace tpl ''{key}'' (haproxy_quoted_key key),
                 if starts_with base ''http.response'' then Response else Request, KString, None))"

definition resolve_field :: "hap_env \<Rightarrow> string \<Rightarrow> resolved res" where
  "resolve_field env field =
     (case bracket_match field of
        Some (base, key) \<Rightarrow> resolve_bracket base key
      | None \<Rightarrow>
          (case map_of FIELD_MAP field of
             Some (tpl, ph, k) \<Rightarrow>
               if contains tpl ''{geo_db}'' \<or> contains tpl ''{asn_db}'' then resolve_geoip env field tpl ph k
               else Inr (tpl, ph, k, None)
           | None \<Rightarrow>
               (case map_of BOOL_FIELDS field of
                  Some fetch \<Rightarrow> Inr (fetch, Request, KBool, None)
                | None \<Rightarrow> Inl ValueError)))"

section \<open>Values\<close>

definition braced :: "string \<Rightarrow> string" where
  "braced s = ''{ '' @ s @ '' }''"

definition bang :: "bool \<Rightarrow> string \<Rightarrow> string" where
  "bang n c = (if n then ''!'' @ c else c)"

definition bool_fetch_cond :: "string \<Rightarrow> string \<Rightarrow> string" where
  "bool_fetch_cond fetch field =
     (if starts_with fetch ''var('' then
        (if starts_with field ''graphql.'' \<or> starts_with field ''api.'' \<or> starts_with field ''auth.valid''
         then braced (fetch @ '' -m bool'') else braced (fetch @ '' -m str 1''))
      else braced fetch)"

definition plain_char :: "char \<Rightarrow> bool" where
  "plain_char c \<longleftrightarrow> ascii_alnum c \<or> c \<in> set ''_./:-''"

text \<open>The pattern's \<open>$\<close> also matches before a final newline.\<close>

definition plain_text :: "string \<Rightarrow> bool" where
  "plain_text s \<longleftrightarrow>
     (let body = (if ends_with s [newline] then butlast s else s) in body \<noteq> [] \<and> list_all plain_char body)"

definition escape_quoted :: "string \<Rightarrow> string" where
  "escape_quoted s =
     str_replace (str_replace s [backslash] [backslash, backslash]) [double_quote] [backslash, double_quote]"

definition haproxy_string_value :: "string \<Rightarrow> string" where
  "haproxy_string_value v = (if plain_text v then v else quoted (escape_quoted v))"

section \<open>Leaves\<close>

text \<open>A comparison with a text; \<open>None\<close> for an operator that has no translation.\<close>

definition str_cond :: "bool \<Rightarrow> string \<Rightarrow> string \<Rightarrow> string \<Rightarrow> string option" where
  "str_cond is_method fetch opr v =
     (let eq = (if is_method then ''method '' else fetch @ '' -m str '')
      in if opr = ''='' then Some (braced (eq @ haproxy_string_value v))
         else if opr = ''!='' then Some (''!'' @ braced (eq @ haproxy_string_value v))
         else if opr = ''~'' then Some (braced (fetch @ '' -m reg '' @ quoted (escape_quoted v)))
         else if opr = ''!~'' then Some (''!'' @ braced (fetch @ '' -m reg '' @ quoted (escape_quoted v)))
         else if opr = ''contains'' then Some (braced (fetch @ '' -m sub '' @ haproxy_string_value v))
         else if opr = ''starts_with'' then Some (braced (fetch @ '' -m beg '' @ haproxy_string_value v))
         else if opr = ''ends_with'' then Some (braced (fetch @ '' -m end '' @ haproxy_string_value v))
         else None)"

definition int_cond :: "string \<Rightarrow> string \<Rightarrow> int \<Rightarrow> string option" where
  "int_cond fetch opr i =
     (if opr = ''='' then Some (braced (fetch @ '' -m int '' @ int_str i))
      else if opr = ''!='' then Some (''!'' @ braced (fetch @ '' -m int '' @ int_str i))
      else if opr = ''>'' then Some (braced (fetch @ '' -m int gt '' @ int_str i))
      else if opr = ''<'' then Some (braced (fetch @ '' -m int lt '' @ int_str i))
      else if opr = ''>='' then Some (braced (fetch @ '' -m int ge '' @ int_str i))
      else if opr = ''<='' then Some (braced (fetch @ '' -m int le '' @ int_str i))
      else None)"

definition bool_cond :: "string \<Rightarrow> string \<Rightarrow> string \<Rightarrow> bool \<Rightarrow> string option" where
  "bool_cond fetch field opr b =
     (if opr = ''='' then Some (bang (\<not> b) (bool_fetch_cond fetch field)) else None)"

definition or_value_error :: "'a option \<Rightarrow> 'a res" where
  "or_value_error x = (case x of None \<Rightarrow> Inl ValueError | Some v \<Rightarrow> Inr v)"

text \<open>
  \<open>_resolve_risk_ruleset_field\<close>: the field of a rule set, \<open>risk.\<close>, the slug and one of four
  suffixes, and its fetch.
\<close>

definition slug_ok :: "string \<Rightarrow> bool" where
  "slug_ok s \<longleftrightarrow> s \<noteq> [] \<and> (ascii_lower (hd s) \<or> hd s = CHR ''_'') \<and>
     list_all (\<lambda>c. ascii_lower c \<or> py_isdecimal c \<or> c = CHR ''_'') s"

definition risk_slug :: "string \<Rightarrow> string \<Rightarrow> string option" where
  "risk_slug sfx field =
     (let body = (if ends_with field [newline] then butlast field else field);
          slug = take (length body - 5 - length sfx) (drop 5 body)
      in if starts_with body ''risk.'' \<and> ends_with body sfx \<and> slug_ok slug then Some slug else None)"

definition RISK_SUFFIXES :: "string list" where
  "RISK_SUFFIXES = [''.score'', ''.rules_hit'', ''.rules_hit_count'', ''.hit_density'']"

fun risk_field :: "sec_db \<Rightarrow> string \<Rightarrow> string list \<Rightarrow> string option res" where
  "risk_field db field [] = Inr None"
| "risk_field db field (sfx # sfxs) =
     (case risk_slug sfx field of
        Some slug \<Rightarrow>
          if slug \<in> set (risk_slugs db) then Inr (Some (''var(txn.risk.'' @ slug @ sfx @ '')'')) else Inl ValueError
      | None \<Rightarrow> risk_field db field sfxs)"

definition resolve_risk_ruleset_field :: "sec_db \<Rightarrow> string \<Rightarrow> string option res" where
  "resolve_risk_ruleset_field db field =
     (if field = [] then Inr None else risk_field db field RISK_SUFFIXES)"

text \<open>
  The leaves that such a field admits; \<open>None\<close> for those that go on to the static tables,
  \<open>Some None\<close> for an operator that raises.
\<close>

fun risk_leaf :: "string \<Rightarrow> leaf \<Rightarrow> bool \<Rightarrow> string option option" where
  "risk_leaf fetch (BoolField f) negated = Some (Some (bang negated (bool_fetch_cond fetch f)))"
| "risk_leaf fetch (Exists f) negated = Some (Some (bang negated (braced (fetch @ '' -m found''))))"
| "risk_leaf fetch (Compare f opr v) negated =
     Some (map_option (bang negated)
       (case v of
          LBool b \<Rightarrow> bool_cond fetch f opr b
        | LStr s \<Rightarrow> str_cond False fetch opr s
        | LInt i \<Rightarrow> int_cond fetch opr i))"
| "risk_leaf fetch _ negated = None"

fun leaf_field :: "leaf \<Rightarrow> string option" where
  "leaf_field (Compare f opr v) = Some f"
| "leaf_field (InList f t n) = Some f"
| "leaf_field (InLiterals f vs) = Some f"
| "leaf_field (Exists f) = Some f"
| "leaf_field (BoolField f) = Some f"
| "leaf_field (Literal b) = None"

text \<open>A list's file; the list must exist.\<close>

definition LIST_TYPES :: "string list" where
  "LIST_TYPES = [''network'', ''asn'', ''geo'', ''ja4'', ''pattern'']"

definition file_char :: "char \<Rightarrow> bool" where
  "file_char c \<longleftrightarrow> ascii_alnum c \<or> c \<in> set ''_.-''"

definition safe_filename :: "string \<Rightarrow> string" where
  "safe_filename name =
     (let cleaned = or_text (strip_chars (\<lambda>c. c = CHR ''.'' \<or> c = CHR ''_'')
                      (sub_chars (\<lambda>c. \<not> file_char c) ''_'' name)) ''unnamed''
      in if cleaned = ''.'' \<or> cleaned = ''..'' then ''unnamed'' else cleaned)"

definition resolve_list_path :: "hap_env \<Rightarrow> sec_db \<Rightarrow> string \<Rightarrow> string \<Rightarrow> string res" where
  "resolve_list_path env db list_type list_name =
     (if list_type \<notin> set LIST_TYPES then Inl ValueError
      else if (list_type, list_name) \<notin> set (list_names db) then Inl ValueError
      else Inr (abspath env (path_join (path_join (lists_dir env) list_type)
                  (safe_filename list_name @ ''.lst''))))"

definition list_cond :: "string \<Rightarrow> vkind \<Rightarrow> string \<Rightarrow> string \<Rightarrow> string option" where
  "list_cond fetch k list_type path =
     (if list_type = ''asn'' then Some (braced (fetch @ '' -m str -f '' @ path))
      else if list_type = ''geo'' then Some (braced (fetch @ '' -f '' @ path))
      else if list_type = ''ja4'' then Some (braced (JA4_FETCH @ '' -f '' @ path))
      else if list_type = ''network'' then Some (braced (fetch @ '' -f '' @ path))
      else if list_type = ''pattern'' \<and> k = KString then Some (braced (fetch @ '' -m reg -f '' @ path))
      else None)"

fun lit_text :: "lit \<Rightarrow> string" where
  "lit_text (LStr s) = haproxy_string_value s"
| "lit_text (LInt i) = int_str i"
| "lit_text (LBool b) = (if b then ''True'' else ''False'')"

fun is_text :: "lit \<Rightarrow> bool" where
  "is_text (LStr s) = True"
| "is_text _ = False"

definition literals_cond :: "string \<Rightarrow> lit list \<Rightarrow> string option" where
  "literals_cond fetch vs =
     (if vs = [] then None
      else if list_all is_text vs then Some (braced (fetch @ '' -m str '' @ join '' '' (map lit_text vs)))
      else if list_all (\<lambda>v. \<not> is_text v) vs
        then Some (braced (fetch @ '' -m int '' @ join '' '' (map lit_text vs)))
      else None)"

definition scheme_cond :: "string \<Rightarrow> lit \<Rightarrow> string option" where
  "scheme_cond opr v =
     (case v of
        LStr s \<Rightarrow>
          if opr \<noteq> ''='' then None
          else if py_lower s = ''https'' then Some ''{ ssl_fc }''
          else if py_lower s = ''http'' then Some ''{ !ssl_fc }''
          else None
      | _ \<Rightarrow> None)"

definition query_cond :: "string \<Rightarrow> string \<Rightarrow> lit \<Rightarrow> string option" where
  "query_cond key opr v =
     (case (opr = ''='', v) of
        (True, LStr s) \<Rightarrow>
          Some (braced (''url_query -m reg '' @ quoted (''(^|&)'' @ re_escape key @ ''='' @ re_escape s @ ''($|&)'')))
      | _ \<Rightarrow>
          if opr = ''exists'' then Some (braced (''url_query -m reg '' @ quoted (''(^|&)'' @ re_escape key @ ''='')))
          else None)"

text \<open>
  A comparison of a field of the static tables.  A negated \<open>!=\<close> or \<open>!~\<close> is left as it is.
\<close>

definition NEGATABLE_STR :: "string list" where
  "NEGATABLE_STR = [''='', ''~'', ''contains'', ''starts_with'', ''ends_with'']"

definition NEGATABLE_INT :: "string list" where
  "NEGATABLE_INT = [''='', ''>'', ''<'', ''>='', ''<='']"

definition compare_cond :: "resolved \<Rightarrow> string \<Rightarrow> string \<Rightarrow> lit \<Rightarrow> bool \<Rightarrow> string option" where
  "compare_cond r field opr v negated =
     (case r of (fetch, ph, k, bracket) \<Rightarrow>
        if field = ''http.request.scheme'' then map_option (bang negated) (scheme_cond opr v)
        else if fetch = QUERY_PARAM
          then map_option (bang negated) (query_cond (case bracket of None \<Rightarrow> [] | Some b \<Rightarrow> b) opr v)
        else (case v of
            LBool b \<Rightarrow> map_option (bang negated) (bool_cond fetch field opr b)
          | LStr s \<Rightarrow>
              map_option (bang (negated \<and> opr \<in> set NEGATABLE_STR)) (str_cond (fetch = ''method'') fetch opr s)
          | LInt i \<Rightarrow>
              map_option (bang (negated \<and> opr \<in> set NEGATABLE_INT)) (int_cond fetch opr i)))"

fun static_leaf :: "hap_env \<Rightarrow> sec_db \<Rightarrow> leaf \<Rightarrow> bool \<Rightarrow> string res" where
  "static_leaf env db (BoolField f) negated =
     bind_res (resolve_field env f) (\<lambda>(fetch, _). Inr (bang negated (bool_fetch_cond fetch f)))"
| "static_leaf env db (Exists f) negated =
     bind_res (resolve_field env f) (\<lambda>(fetch, _). Inr (bang negated (braced (fetch @ '' -m found''))))"
| "static_leaf env db (Compare f opr v) negated =
     bind_res (resolve_field env f) (\<lambda>r. or_value_error (compare_cond r f opr v negated))"
| "static_leaf env db (InLiterals f vs) negated =
     bind_res (resolve_field env f) (\<lambda>(fetch, _).
       or_value_error (map_option (bang negated) (literals_cond fetch vs)))"
| "static_leaf env db (InList f t n) negated =
     bind_res (resolve_field env f) (\<lambda>(fetch, ph, k, _).
       bind_res (resolve_list_path env db t n) (\<lambda>path.
         or_value_error (map_option (bang negated) (list_cond fetch k t path))))"
| "static_leaf env db (Literal b) negated = Inl ValueError"

definition translate_leaf :: "hap_env \<Rightarrow> sec_db \<Rightarrow> dnf_term \<Rightarrow> string res" where
  "translate_leaf env db t =
     (let (l, negated) = t
      in bind_res (resolve_risk_ruleset_field db (case leaf_field l of None \<Rightarrow> [] | Some f \<Rightarrow> f)) (\<lambda>risk.
         case (case risk of None \<Rightarrow> None | Some fetch \<Rightarrow> risk_leaf fetch l negated) of
           Some c \<Rightarrow> or_value_error c
         | None \<Rightarrow> static_leaf env db l negated))"

section \<open>Expressions\<close>

definition leaf_phase :: "hap_env \<Rightarrow> leaf \<Rightarrow> phase res" where
  "leaf_phase env l =
     bind_res (resolve_field env (case leaf_field l of None \<Rightarrow> [] | Some f \<Rightarrow> f)) (\<lambda>(_, ph, _). Inr ph)"

text \<open>The loops over children stop at the first of the response phase.\<close>

fun determine_phase :: "hap_env \<Rightarrow> ast \<Rightarrow> phase res" where
  "determine_phase env (And cs) =
     map_sum id (\<lambda>b. if b then Response else Request)
       (any_res (\<lambda>c. map_sum id (\<lambda>p. p = Response) (determine_phase env c)) cs)"
| "determine_phase env (Or cs) =
     map_sum id (\<lambda>b. if b then Response else Request)
       (any_res (\<lambda>c. map_sum id (\<lambda>p. p = Response) (determine_phase env c)) cs)"
| "determine_phase env (Not c) = determine_phase env c"
| "determine_phase env (Leaf l negated) = leaf_phase env l"

definition translate_groups :: "hap_env \<Rightarrow> sec_db \<Rightarrow> ast \<Rightarrow> string list list res" where
  "translate_groups env db node = each_res (each_res (translate_leaf env db)) (to_dnf node)"

definition condition_text :: "string list list \<Rightarrow> string" where
  "condition_text groups = join '' or '' (map (join '' '') groups)"

definition translate :: "hap_env \<Rightarrow> sec_db \<Rightarrow> ast \<Rightarrow> (string \<times> phase) res" where
  "translate env db node =
     bind_res (determine_phase env node) (\<lambda>ph.
     bind_res (translate_groups env db node) (\<lambda>groups. Inr (condition_text groups, ph)))"

section \<open>Validation\<close>

text \<open>\<open>validate_expression\<close>: whether the text is accepted, and its node; the message is left out.\<close>

definition validate_rule_expression :: "hap_env \<Rightarrow> sec_db option \<Rightarrow> string \<Rightarrow> bool \<times> ast option" where
  "validate_rule_expression env db text =
     (if strip text = [] then (True, None)
      else (case parse_rule_expression text of
          Inl e \<Rightarrow> (False, None)
        | Inr node \<Rightarrow>
            (case db of
               None \<Rightarrow> (True, Some node)
             | Some d \<Rightarrow> (case translate env d node of Inl e \<Rightarrow> (False, None) | Inr c \<Rightarrow> (True, Some node)))))"

end
