(* ===== verification/SecEmit.thy ===== *)
theory SecEmit imports SecRules begin

text \<open>
  The emission of security rules (\<open>emit_security_rules\<close> and what it calls, of
  \<open>backend/app/services/security_rules.py\<close>): which rules a listener has, the guard that makes them
  first-match-wins, and the \<open>http-request\<close> and \<open>http-response\<close> lines of each action; then the
  reordering of rules and the queries for rules that use JA4 or a list.

  A row of the rules table is \<open>sec_rule\<close>, with \<open>expression_ast\<close> the stored node.  The rows are in
  the order the database returns them where the code does not ask for one, so rules of equal
  priority keep that order.  Emission yields the lines and the error files it writes.
\<close>

record sec_rule =
  sr_id :: int
  sr_name :: string
  sr_enabled :: bool
  sr_priority :: int
  sr_listener_ids :: "int list option"
  sr_expression :: string
  sr_ast :: "ast option"
  sr_action :: string
  sr_log :: bool
  sr_no_log :: bool
  sr_status :: "int option"
  sr_redirect_url :: "string option"
  sr_redirect_code :: "int option"
  sr_error_page :: "int option"

record error_page =
  ep_code :: int
  ep_content :: string
  ep_type :: string

record hap_listener =
  lst_id :: int
  lst_name :: string
  force_https :: bool
  ssl_on :: bool

type_synonym emitted = "string list \<times> (string \<times> string) list"

definition append_emitted :: "emitted \<Rightarrow> emitted \<Rightarrow> emitted" where
  "append_emitted a b = (fst a @ fst b, snd a @ snd b)"

section \<open>Guards\<close>

definition DONE_GUARD :: string where "DONE_GUARD = ''!{ var(txn.sec.done) -m found }''"

definition API_ARMOR_VARS :: "string list" where
  "API_ARMOR_VARS = [''var(txn.gql_'', ''var(txn.api_'', ''var(txn.auth_'', ''var(txn.api.profile_anomaly'']"

definition api_armor_var :: "string \<Rightarrow> bool" where
  "api_armor_var condition = list_ex (contains condition) API_ARMOR_VARS"

definition api_armor_guarded_condition :: "string \<Rightarrow> string" where
  "api_armor_guarded_condition condition =
     join '' or '' (map (\<lambda>g. ''is_api_armor '' @ g @ '' '' @ DONE_GUARD) (str_split '' or '' condition))"

definition guarded_condition :: "string \<Rightarrow> string" where
  "guarded_condition condition =
     (if api_armor_var condition then api_armor_guarded_condition condition
      else condition @ '' '' @ DONE_GUARD)"

definition log_bad :: "char \<Rightarrow> bool" where
  "log_bad c \<longleftrightarrow> c \<in> {return_char, newline, CHR '';'', backslash, double_quote, single_quote}"

definition safe_log_value :: "string \<Rightarrow> string" where
  "safe_log_value v = quoted (sub_chars log_bad [] v)"

section \<open>The rules of a listener\<close>

definition applies_to :: "int \<Rightarrow> sec_rule \<Rightarrow> bool" where
  "applies_to lid r \<longleftrightarrow> (case or_default (sr_listener_ids r) [] of [] \<Rightarrow> True | ids \<Rightarrow> lid \<in> set ids)"

definition rules_for_listener :: "sec_rule list \<Rightarrow> int \<Rightarrow> sec_rule list" where
  "rules_for_listener rules lid =
     filter (applies_to lid) (sort_key sr_priority (filter sr_enabled rules))"

section \<open>Lines\<close>

definition or_zero :: "int option \<Rightarrow> int \<Rightarrow> int" where
  "or_zero x dflt = (if x = None \<or> x = Some 0 then dflt else the x)"

definition given_text :: "string option \<Rightarrow> string \<Rightarrow> string" where
  "given_text x dflt = (if x = None \<or> x = Some [] then dflt else the x)"

definition response_line :: "string \<Rightarrow> string \<Rightarrow> string" where
  "response_line act condition = ''    http-response '' @ act @ '' if '' @ condition"

text \<open>The lines about logging, the same in both phases.\<close>

definition log_lines :: "(string \<Rightarrow> string \<Rightarrow> string) \<Rightarrow> sec_rule \<Rightarrow> string \<Rightarrow> string list" where
  "log_lines line r condition =
     (if sr_no_log r then [line ''set-log-level silent'' condition] else []) @
     (if sr_log r then
        [line (''set-var(txn.sec.action) str('' @ sr_action r @ '')'') condition,
         line (''set-var(txn.action) str('' @ sr_action r @ '')'') condition,
         line (''set-var(txn.sec.rule) str('' @ safe_log_value (sr_name r) @ '')'') condition]
      else [])"

definition deny_action :: "int \<Rightarrow> string" where
  "deny_action status = ''deny deny_status '' @ int_str status @ '' default-errorfiles''"

definition redirect_action :: "sec_rule \<Rightarrow> string" where
  "redirect_action r =
     ''redirect location '' @ given_text (sr_redirect_url r) ''/'' @ '' code '' @ int_str (or_zero (sr_redirect_code r) 302)"

definition done_action :: string where "done_action = ''set-var(txn.sec.done) bool(1)''"

text \<open>\<open>os.path.dirname\<close> and \<open>_resolve_error_page\<close>: the file's path, its type and its text.\<close>

definition resolve_error_page ::
  "hap_env \<Rightarrow> (int \<rightharpoonup> error_page) \<Rightarrow> sec_rule \<Rightarrow> int \<Rightarrow> hap_listener \<Rightarrow> (string \<times> string \<times> string) option" where
  "resolve_error_page env pages r pid listener =
     (case pages pid of
        None \<Rightarrow> None
      | Some ep \<Rightarrow>
          let dir = path_join (path_join (path_join (path_dirname (config_path env)) ''errorfiles'')
                      ''security-rules'') (safe_path_name (lst_name listener));
              path = path_join dir (''sr'' @ int_str (sr_id r) @ ''_'' @ int_str (ep_code ep) @ ''.http'')
          in Some (path, or_text (safe_token (ep_type ep)) ''text/html'', error_file_text (ep_content ep)))"

definition custom_response ::
  "hap_env \<Rightarrow> (int \<rightharpoonup> error_page) \<Rightarrow> sec_rule \<Rightarrow> string \<Rightarrow> hap_listener \<Rightarrow> emitted" where
  "custom_response env pages r guarded listener =
     (let status = or_zero (sr_status r) (rules_block_status env);
          fallback = ([request_line (deny_action status) guarded], [])
      in case sr_error_page r of
           None \<Rightarrow> fallback
         | Some pid \<Rightarrow>
             if pid = 0 then fallback
             else (case resolve_error_page env pages r pid listener of
                 None \<Rightarrow> fallback
               | Some (path, content_type, content) \<Rightarrow>
                   ([request_line (''return status '' @ int_str status @ '' content-type '' @ quoted content_type @
                       '' lf-file '' @ path) guarded], [(path, content)])))"

definition emit_request_action ::
  "hap_env \<Rightarrow> (int \<rightharpoonup> error_page) \<Rightarrow> sec_rule \<Rightarrow> string \<Rightarrow> hap_listener \<Rightarrow> emitted" where
  "emit_request_action env pages r guarded listener =
     (if sr_action r = ''block'' then
        ([request_line (deny_action (or_zero (sr_status r) (rules_block_status env))) guarded], [])
      else if sr_action r = ''allow'' then ([request_line done_action guarded], [])
      else if sr_action r = ''redirect'' then ([request_line (redirect_action r) guarded], [])
      else if sr_action r = ''challenge'' then
        (challenge_redirect guarded (safe_token (given_text (sr_redirect_url r) (challenge_page env)))
           (Some (sr_id r)) ''security'' (sr_name r) @ [request_line done_action guarded], [])
      else if sr_action r = ''custom_response'' then custom_response env pages r guarded listener
      else (map (\<lambda>flag. request_line (''set-var(txn.sec.'' @ flag @ '') bool(1)'') guarded)
              (dict_get SKIP_ACTIONS (sr_action r) []) @ [request_line done_action guarded], []))"

definition emit_request_rule ::
  "hap_env \<Rightarrow> (int \<rightharpoonup> error_page) \<Rightarrow> sec_rule \<Rightarrow> string \<Rightarrow> hap_listener \<Rightarrow> emitted" where
  "emit_request_rule env pages r condition listener =
     (let guarded = guarded_condition condition
      in append_emitted (log_lines request_line r guarded, [])
           (emit_request_action env pages r guarded listener))"

definition emit_response_rule :: "hap_env \<Rightarrow> sec_rule \<Rightarrow> string \<Rightarrow> emitted" where
  "emit_response_rule env r condition =
     (let source = response_line ''set-var(txn.status_source) str(haproxy)'' condition
      in (log_lines response_line r condition @
          (if sr_action r = ''block'' then
             [source, response_line (deny_action (or_zero (sr_status r) (rules_block_status env))) condition]
           else if sr_action r = ''redirect'' then [source, response_line (redirect_action r) condition]
           else []), []))"

definition compile_rule :: "hap_env \<Rightarrow> sec_db \<Rightarrow> sec_rule \<Rightarrow> (string \<times> phase) option" where
  "compile_rule env db r =
     (case parse_rule_expression (sr_expression r) of
        Inl e \<Rightarrow> None
      | Inr node \<Rightarrow> (case translate env db node of Inl e \<Rightarrow> None | Inr c \<Rightarrow> Some c))"

text \<open>One turn of the loop of \<open>emit_security_rules\<close>.\<close>

definition emit_rule ::
  "hap_env \<Rightarrow> sec_db \<Rightarrow> (int \<rightharpoonup> error_page) \<Rightarrow> hap_listener \<Rightarrow> sec_rule \<Rightarrow> emitted" where
  "emit_rule env db pages listener r =
     (case compile_rule env db r of
        None \<Rightarrow> ([], [])
      | Some (condition, ph) \<Rightarrow>
          if ph = Response \<and> map_of SKIP_ACTIONS (sr_action r) \<noteq> None then ([], [])
          else if force_https listener \<and> \<not> ssl_on listener \<and> sr_action r = ''challenge'' then ([], [])
          else if ph = Response then emit_response_rule env r condition
          else emit_request_rule env pages r condition listener)"

definition emit_security_rules ::
  "hap_env \<Rightarrow> sec_db \<Rightarrow> (int \<rightharpoonup> error_page) \<Rightarrow> sec_rule list \<Rightarrow> hap_listener \<Rightarrow> emitted" where
  "emit_security_rules env db pages rules listener =
     foldl append_emitted ([], []) (map (emit_rule env db pages listener) (rules_for_listener rules (lst_id listener)))"

section \<open>Maintenance\<close>

text \<open>\<open>reorder_rules\<close>: the turn numbered \<open>n\<close> gives its rule the priority \<open>n\<close>.\<close>

fun reorder_from :: "int \<Rightarrow> int list \<Rightarrow> sec_rule list \<Rightarrow> sec_rule list" where
  "reorder_from n [] rules = rules"
| "reorder_from n (i # ids) rules =
     reorder_from (n + 1) ids (map (\<lambda>r. if sr_id r = i then r\<lparr>sr_priority := n\<rparr> else r) rules)"

definition reorder_rules :: "sec_rule list \<Rightarrow> int list \<Rightarrow> sec_rule list" where
  "reorder_rules rules ids = reorder_from 0 ids rules"

definition JA4_FIELD :: string where "JA4_FIELD = ''http.request.ja4''"

fun ast_references_field :: "ast \<Rightarrow> string \<Rightarrow> bool" where
  "ast_references_field (And cs) field = list_ex (\<lambda>c. ast_references_field c field) cs"
| "ast_references_field (Or cs) field = list_ex (\<lambda>c. ast_references_field c field) cs"
| "ast_references_field (Not c) field = ast_references_field c field"
| "ast_references_field (Leaf l negated) field = (leaf_field l = Some field)"

definition rules_referencing_ja4 :: "sec_rule list \<Rightarrow> sec_rule list" where
  "rules_referencing_ja4 rules =
     filter (\<lambda>r. (\<exists>a\<in>set_option (sr_ast r). ast_references_field a JA4_FIELD) \<or>
                 contains (sr_expression r) JA4_FIELD) (filter sr_enabled rules)"

fun ast_references_list :: "ast \<Rightarrow> string \<Rightarrow> string \<Rightarrow> bool" where
  "ast_references_list (And cs) t n = list_ex (\<lambda>c. ast_references_list c t n) cs"
| "ast_references_list (Or cs) t n = list_ex (\<lambda>c. ast_references_list c t n) cs"
| "ast_references_list (Not c) t n = ast_references_list c t n"
| "ast_references_list (Leaf l negated) t n =
     (case l of InList f lt' ln' \<Rightarrow> lt' = t \<and> ln' = n | _ \<Rightarrow> False)"

definition rules_referencing_list :: "sec_rule list \<Rightarrow> string \<Rightarrow> string \<Rightarrow> sec_rule list" where
  "rules_referencing_list rules t n =
     filter (\<lambda>r. \<exists>a\<in>set_option (sr_ast r). ast_references_list a t n) rules"

end
