(* ===== verification/Conditions.thy ===== *)
theory Conditions imports SecEmit begin

text \<open>
  What the emitted conditions mean.  HAProxy is outside the program: a condition's value is a
  parameter \<open>holds\<close>, and \<open>condition_language\<close> states what HAProxy documents of the texts after
  \<open>if\<close>: terms stand side by side for \<open>and\<close>, \<open>or\<close> between groups binds least, \<open>!\<close> negates the
  term it stands before, and \<open>{ ... }\<close> is an anonymous ACL whose value depends on the text between
  the braces only (\<open>acl\<close>).  It is stated for texts that its reader takes as written: no brace, no
  comment, escape or variable character, and balanced quotes.  \<open>read_condition\<close> is a concrete
  function with these laws.
\<close>

datatype hterm = Anon nat string | Named string

fun term_text :: "hterm \<Rightarrow> string" where
  "term_text (Anon n b) = replicate n (CHR ''!'') @ braced b"
| "term_text (Named a) = a"

fun term_value :: "(string \<Rightarrow> bool) \<Rightarrow> hterm \<Rightarrow> bool" where
  "term_value acl (Anon n b) = (acl b \<noteq> odd n)"
| "term_value acl (Named a) = acl a"

definition clean_char :: "char \<Rightarrow> bool" where
  "clean_char c \<longleftrightarrow> c \<notin> {newline, return_char, backslash, single_quote} \<and> c \<notin> set ''{}#$''"

definition word_acl_char :: "char \<Rightarrow> bool" where
  "word_acl_char c \<longleftrightarrow> ascii_alnum c \<or> c = CHR ''_''"

fun clean_term :: "hterm \<Rightarrow> bool" where
  "clean_term (Anon n b) = (list_all clean_char b \<and> even (length (filter (\<lambda>c. c = double_quote) b)))"
| "clean_term (Named a) = (a \<noteq> [] \<and> a \<noteq> ''or'' \<and> list_all word_acl_char a)"

definition groups_text :: "hterm list list \<Rightarrow> string" where
  "groups_text gs = condition_text (map (map term_text) gs)"

definition groups_value :: "(string \<Rightarrow> bool) \<Rightarrow> hterm list list \<Rightarrow> bool" where
  "groups_value acl gs \<longleftrightarrow> list_ex (list_all (term_value acl)) gs"

definition clean_groups :: "hterm list list \<Rightarrow> bool" where
  "clean_groups gs \<longleftrightarrow> gs \<noteq> [] \<and> list_all (\<lambda>g. g \<noteq> [] \<and> list_all clean_term g) gs"

definition condition_language :: "(string \<Rightarrow> bool) \<Rightarrow> (string \<Rightarrow> bool) \<Rightarrow> bool" where
  "condition_language holds acl \<longleftrightarrow>
     (\<forall>gs. clean_groups gs \<longrightarrow> holds (groups_text gs) = groups_value acl gs)"

section \<open>A reader with these laws\<close>

definition inner :: "string \<Rightarrow> string" where
  "inner s = butlast (tl s)"

function read_condition :: "(string \<Rightarrow> bool) \<Rightarrow> bool \<Rightarrow> bool \<Rightarrow> string \<Rightarrow> bool" where
  "read_condition acl neg al [] = al"
| "read_condition acl neg al (c # cs) =
     (if c = CHR '' '' then read_condition acl neg al cs
      else if c = CHR ''!'' then read_condition acl (\<not> neg) al cs
      else if c = CHR ''{'' then
        read_condition acl False (al \<and> acl (inner (takeWhile (\<lambda>d. d \<noteq> CHR ''}'') cs)) \<noteq> neg)
          (tl (dropWhile (\<lambda>d. d \<noteq> CHR ''}'') cs))
      else
        (let word = takeWhile (\<lambda>d. d \<noteq> CHR '' '') (c # cs); r = dropWhile (\<lambda>d. d \<noteq> CHR '' '') cs
         in if word = ''or'' then al \<or> read_condition acl False True r
            else read_condition acl False (al \<and> acl word \<noteq> neg) r))"
  by pat_completeness auto
termination
  by (relation "measure (\<lambda>(acl, neg, al, s). length s)")
     (auto simp: length_dropWhile_le less_Suc_eq_le intro: le_trans [OF diff_le_self])

declare read_condition.simps(2) [simp del]

lemmas read_simps = read_condition.simps(2)

lemma read_bangs:
  "read_condition acl neg al (replicate n (CHR ''!'') @ s) = read_condition acl (neg \<noteq> odd n) al s"
proof (induction n arbitrary: neg)
  case (Suc n)
  have "read_condition acl neg al (replicate (Suc n) (CHR ''!'') @ s) =
      read_condition acl ((\<not> neg) \<noteq> odd n) al s"
    using Suc.IH [of "\<not> neg"] by (simp add: read_simps)
  moreover have "((\<not> neg) \<noteq> odd n) = (neg \<noteq> odd (Suc n))" by auto
  ultimately show ?case by (simp only:)
qed simp

lemma takeWhile_until: "list_all P xs \<Longrightarrow> \<not> P y \<Longrightarrow> takeWhile P (xs @ y # ys) = xs"
  by (induction xs) auto

lemma dropWhile_until: "list_all P xs \<Longrightarrow> \<not> P y \<Longrightarrow> dropWhile P (xs @ y # ys) = y # ys"
  by (induction xs) auto

lemma read_braced:
  assumes "list_all clean_char b"
  shows "read_condition acl neg al (braced b @ r) = read_condition acl False (al \<and> acl b \<noteq> neg) r"
proof -
  let ?p = "\<lambda>d. d \<noteq> CHR ''}''"
  have "list_all ?p ('' '' @ b @ '' '')"
    using assms by (auto simp: list_all_iff clean_char_def)
  then have "takeWhile ?p (('' '' @ b @ '' '') @ CHR ''}'' # r) = '' '' @ b @ '' ''"
    and "dropWhile ?p (('' '' @ b @ '' '') @ CHR ''}'' # r) = CHR ''}'' # r"
    by (rule takeWhile_until, simp) (rule dropWhile_until, fact, simp)
  then show ?thesis by (simp add: braced_def read_simps inner_def)
qed

definition at_break :: "string \<Rightarrow> bool" where
  "at_break r \<longleftrightarrow> r = [] \<or> starts_with r '' ''"

lemma read_word:
  assumes "clean_term (Named a)" "at_break r"
  shows "read_condition acl False al (a @ r) = read_condition acl False (al \<and> acl a) r"
proof -
  obtain c cs where a: "a = c # cs" using assms(1) by (cases a) auto
  let ?p = "\<lambda>d. d \<noteq> CHR '' ''"
  have w: "word_acl_char d \<Longrightarrow> d \<noteq> CHR '' '' \<and> d \<noteq> CHR ''!'' \<and> d \<noteq> CHR ''{''" for d
    by (auto simp: word_acl_char_def ascii_alnum_def ascii_upper_def ascii_lower_def py_isdecimal_def ord_def)
  have all: "list_all ?p (c # cs)" and c: "c \<noteq> CHR '' ''" "c \<noteq> CHR ''!''" "c \<noteq> CHR ''{''"
    using assms(1) w by (auto simp: a list_all_iff)
  have "takeWhile ?p ((c # cs) @ r) = c # cs \<and> dropWhile ?p (cs @ r) = r"
  proof (cases r)
    case Nil
    with all show ?thesis by (simp add: takeWhile_eq_all_conv list_all_iff)
  next
    case (Cons d r')
    with assms(2) have "r = CHR '' '' # r'" by (auto simp: at_break_def)
    then show ?thesis
      using takeWhile_until [OF all, of "CHR '' ''" r'] dropWhile_until [of ?p cs "CHR '' ''" r'] all by simp
  qed
  with c assms(1) show ?thesis by (auto simp: a read_simps Let_def)
qed

lemma read_term:
  assumes "clean_term t" "at_break r"
  shows "read_condition acl False al (term_text t @ r) = read_condition acl False (al \<and> term_value acl t) r"
proof (cases t)
  case (Anon n b)
  with assms(1) show ?thesis by (simp add: read_bangs read_braced)
next
  case (Named a)
  with assms show ?thesis by (simp del: clean_term.simps add: read_word)
qed

lemma read_space: "read_condition acl neg al ('' '' @ s) = read_condition acl neg al s"
  by (simp add: read_simps)

lemma read_group:
  assumes "g \<noteq> []" "list_all clean_term g" "at_break r"
  shows "read_condition acl False al (join '' '' (map term_text g) @ r) =
    read_condition acl False (al \<and> list_all (term_value acl) g) r"
  using assms(1,2)
proof (induction g arbitrary: al rule: induct_list012)
  case (2 t)
  then show ?case using read_term [OF _ assms(3)] by simp
next
  case (3 t u g)
  have "at_break ('' '' @ join '' '' (map term_text (u # g)) @ r)" by (simp add: at_break_def)
  with 3 show ?case using read_term [of t] read_space by (simp add: conj_assoc)
qed simp

lemma read_or: "read_condition acl False al ('' or '' @ s) = (al \<or> read_condition acl False True s)"
  by (simp add: read_simps)

lemma read_groups:
  assumes "clean_groups gs"
  shows "read_condition acl False True (groups_text gs) = groups_value acl gs"
  using assms
proof (induction gs rule: induct_list012)
  case (2 g)
  then show ?case using read_group [of g "[]" acl True]
    by (simp add: clean_groups_def groups_text_def condition_text_def groups_value_def at_break_def)
next
  case (3 g h gs)
  have "at_break ('' or '' @ groups_text (h # gs))" by (simp add: at_break_def)
  with 3 show ?case
    using read_group [of g "'' or '' @ groups_text (h # gs)" acl True] read_or
    by (simp add: clean_groups_def groups_text_def condition_text_def groups_value_def)
qed (simp add: clean_groups_def)

lemma reader_language: "condition_language (read_condition acl False True) acl"
  by (simp add: condition_language_def read_groups)

section \<open>The shape of a translated leaf\<close>

text \<open>Any translation is an ACL in braces after some marks of negation, which \<open>term_of\<close> reads off.\<close>

definition term_of :: "string \<Rightarrow> hterm" where
  "term_of s =
     (let n = length (takeWhile (\<lambda>c. c = CHR ''!'') s); r = drop n s
      in Anon n (drop 2 (take (length r - 2) r)))"

definition acl_text :: "string \<Rightarrow> bool" where
  "acl_text s \<longleftrightarrow> (\<exists>n b. s = replicate n (CHR ''!'') @ braced b)"

lemma takeWhile_bangs: "c \<noteq> CHR ''!'' \<Longrightarrow>
   takeWhile (\<lambda>c. c = CHR ''!'') (replicate n (CHR ''!'') @ c # s) = replicate n (CHR ''!'')"
  by (induction n) auto

lemma term_of_text [simp]: "term_of (replicate n (CHR ''!'') @ braced b) = Anon n b"
  by (simp add: term_of_def braced_def takeWhile_bangs)

lemma term_of_bang: "acl_text s \<Longrightarrow> term_value acl (term_of (CHR ''!'' # s)) = (\<not> term_value acl (term_of s))"
proof -
  assume "acl_text s"
  then obtain n b where s: "s = replicate n (CHR ''!'') @ braced b" by (auto simp: acl_text_def)
  then have "CHR ''!'' # s = replicate (Suc n) (CHR ''!'') @ braced b" by simp
  then have "term_of (CHR ''!'' # s) = Anon (Suc n) b" by (simp only: term_of_text)
  with s show ?thesis by simp
qed

lemma term_text_of: "acl_text s \<Longrightarrow> term_text (term_of s) = s"
  by (auto simp: acl_text_def)

lemma acl_text_braced [intro, simp]: "acl_text (braced b)"
proof -
  have "braced b = replicate 0 (CHR ''!'') @ braced b" by simp
  then show ?thesis unfolding acl_text_def by blast
qed

lemma acl_text_bang [intro, simp]: "acl_text s \<Longrightarrow> acl_text (CHR ''!'' # s)"
proof (unfold acl_text_def, elim exE)
  fix n b assume "s = replicate n (CHR ''!'') @ braced b"
  then have "CHR ''!'' # s = replicate (Suc n) (CHR ''!'') @ braced b" by simp
  then show "\<exists>n b. CHR ''!'' # s = replicate n (CHR ''!'') @ braced b" by blast
qed

lemma acl_text_bang_if [simp]: "acl_text s \<Longrightarrow> acl_text (bang n s)"
  by (simp add: bang_def)

lemma acl_text_scheme [simp]: "acl_text ''{ ssl_fc }''" "acl_text ''{ !ssl_fc }''"
  using acl_text_braced [of "''ssl_fc''"] acl_text_braced [of "''!ssl_fc''"] by (simp_all add: braced_def)

lemma acl_text_bool [simp]: "acl_text (bool_fetch_cond fetch f)"
  by (simp add: bool_fetch_cond_def)

named_theorems acl_conds "the conditions of the kinds of leaves"

lemma acl_text_str [acl_conds]: "str_cond m fetch opr v = Some c \<Longrightarrow> acl_text c"
  by (auto simp: str_cond_def Let_def split: if_splits)

lemma acl_text_int [acl_conds]: "int_cond fetch opr i = Some c \<Longrightarrow> acl_text c"
  by (auto simp: int_cond_def split: if_splits)

lemma acl_text_bool_cond [acl_conds]: "bool_cond fetch f opr b = Some c \<Longrightarrow> acl_text c"
  by (auto simp: bool_cond_def split: if_splits)

lemma acl_text_scheme_cond [acl_conds]: "scheme_cond opr v = Some c \<Longrightarrow> acl_text c"
  by (auto simp: scheme_cond_def split: lit.splits if_splits)

lemma acl_text_query [acl_conds]: "query_cond key opr v = Some c \<Longrightarrow> acl_text c"
  by (auto simp: query_cond_def split: lit.splits if_splits bool.splits)

lemma acl_text_literals [acl_conds]: "literals_cond fetch vs = Some c \<Longrightarrow> acl_text c"
  by (auto simp: literals_cond_def split: if_splits)

lemma acl_text_list [acl_conds]: "list_cond fetch k t path = Some c \<Longrightarrow> acl_text c"
  by (auto simp: list_cond_def split: if_splits)

text \<open>
  What a negation does to a leaf's translation: a mark in front, except on the operators \<open>!=\<close>
  and \<open>!~\<close> of the static fields.
\<close>

fun negation_kept :: "leaf \<Rightarrow> bool" where
  "negation_kept (Compare f opr v) = (opr \<noteq> ''!='' \<and> opr \<noteq> ''!~'')"
| "negation_kept _ = True"

lemma str_cond_negatable: "str_cond m fetch opr v = Some c \<Longrightarrow> opr \<noteq> ''!='' \<Longrightarrow> opr \<noteq> ''!~'' \<Longrightarrow> opr \<in> set NEGATABLE_STR"
  by (auto simp: str_cond_def NEGATABLE_STR_def Let_def split: if_splits)

lemma int_cond_negatable: "int_cond fetch opr i = Some c \<Longrightarrow> opr \<noteq> ''!='' \<Longrightarrow> opr \<in> set NEGATABLE_INT"
  by (auto simp: int_cond_def NEGATABLE_INT_def split: if_splits)

lemma or_value_error_Inr [simp]: "or_value_error x = Inr y \<longleftrightarrow> x = Some y"
  by (auto simp: or_value_error_def split: option.splits)

lemma compare_cond_flip:
  assumes "compare_cond r f opr v n = Some c" "n \<longrightarrow> opr \<noteq> ''!='' \<and> opr \<noteq> ''!~''"
  shows "\<exists>p. compare_cond r f opr v False = Some p \<and> acl_text p \<and> c = bang n p"
  using assms unfolding compare_cond_def
  by (auto simp: bang_def acl_conds split: prod.splits if_splits lit.splits
      dest: str_cond_negatable int_cond_negatable)

lemma static_leaf_flip:
  assumes "static_leaf env db l n = Inr c" "n \<longrightarrow> negation_kept l"
  shows "\<exists>p. static_leaf env db l False = Inr p \<and> acl_text p \<and> c = bang n p"
  using assms
proof (cases l)
  case (Compare f opr v)
  with assms obtain r where "resolve_field env f = Inr r" "compare_cond r f opr v n = Some c"
    by (auto simp: res_simps)
  with Compare assms(2) compare_cond_flip [of r f opr v n c] show ?thesis by auto
qed (auto simp: res_simps bang_def acl_conds split: prod.splits)

lemma risk_leaf_flip:
  assumes "risk_leaf fetch l n = Some (Some c)"
  shows "\<exists>p. risk_leaf fetch l False = Some (Some p) \<and> acl_text p \<and> c = bang n p"
  using assms by (cases l) (auto simp: bang_def acl_conds split: lit.splits)

lemma risk_leaf_defined: "risk_leaf fetch l n = None \<longleftrightarrow> risk_leaf fetch l m = None"
  by (cases l) auto

lemma translate_leaf_flip:
  assumes "translate_leaf env db (l, n) = Inr c" "n \<longrightarrow> negation_kept l"
  shows "\<exists>p. translate_leaf env db (l, False) = Inr p \<and> acl_text p \<and> c = bang n p"
proof -
  obtain risk where risk: "resolve_risk_ruleset_field db (case leaf_field l of None \<Rightarrow> [] | Some f \<Rightarrow> f) = Inr risk"
    using assms(1) by (auto simp: translate_leaf_def res_simps)
  consider (static) "(case risk of None \<Rightarrow> None | Some fetch \<Rightarrow> risk_leaf fetch l n) = None"
    | (dynamic) fetch x where "risk = Some fetch" "risk_leaf fetch l n = Some x"
    by (cases risk) (auto split: option.splits)
  then show ?thesis
  proof cases
    case static
    then have "(case risk of None \<Rightarrow> None | Some fetch \<Rightarrow> risk_leaf fetch l False) = None"
      using risk_leaf_defined [of _ l n False] by (auto split: option.splits)
    with static risk assms static_leaf_flip [of env db l n c] show ?thesis by (auto simp: translate_leaf_def)
  next
    case dynamic
    with risk assms(1) have "risk_leaf fetch l n = Some (Some c)" by (simp add: translate_leaf_def)
    with risk_leaf_flip [OF this] dynamic(1) risk show ?thesis by (auto simp: translate_leaf_def)
  qed
qed

section \<open>The compiled condition\<close>

text \<open>The value of a leaf is that of its translation without negation.\<close>

definition leaf_holds :: "(string \<Rightarrow> bool) \<Rightarrow> hap_env \<Rightarrow> sec_db \<Rightarrow> leaf \<Rightarrow> bool" where
  "leaf_holds acl env db l =
     (case translate_leaf env db (l, False) of Inl e \<Rightarrow> False | Inr s \<Rightarrow> term_value acl (term_of s))"

definition term_holds :: "(string \<Rightarrow> bool) \<Rightarrow> hap_env \<Rightarrow> sec_db \<Rightarrow> dnf_term \<Rightarrow> bool" where
  "term_holds acl env db t \<longleftrightarrow> leaf_holds acl env db (fst t) \<noteq> snd t"

definition negations_kept :: "ast \<Rightarrow> bool" where
  "negations_kept node \<longleftrightarrow> list_all (list_all (\<lambda>(l, n). n \<longrightarrow> negation_kept l)) (to_dnf node)"

lemma translate_leaf_value:
  assumes "translate_leaf env db (l, n) = Inr c" "n \<longrightarrow> negation_kept l"
  shows "acl_text c \<and> term_value acl (term_of c) = term_holds acl env db (l, n)"
proof -
  obtain p where p: "translate_leaf env db (l, False) = Inr p" "acl_text p" "c = bang n p"
    using translate_leaf_flip [OF assms] by auto
  then show ?thesis by (auto simp: term_holds_def leaf_holds_def bang_def term_of_bang)
qed

lemma dnf_truth_flip:
  assumes "\<And>l n. v (l, \<not> n) = (\<not> v (l, n))"
  shows "dnf_truth v (to_dnf node) = truth v node"
    and "dnf_truth v (negate_to_dnf node) = (\<not> truth v node)"
proof (induction node rule: to_dnf_negate_to_dnf.induct)
  case (1 cs)
  then show ?case by (simp add: dnf_truth_concat list_ex_iff)
next
  case (2 cs)
  then show ?case by (simp add: dnf_truth_cross_all list_all_iff)
next
  case (5 cs)
  then show ?case by (simp add: dnf_truth_cross_all list_all_iff list_ex_iff)
next
  case (6 cs)
  then show ?case by (simp add: dnf_truth_concat list_ex_iff list_all_iff)
qed (auto simp: dnf_truth_def assms)

text \<open>A well-formed node has a normal form of at least one group, and no group is empty.\<close>

definition proper_groups :: "'a list list \<Rightarrow> bool" where
  "proper_groups gs \<longleftrightarrow> gs \<noteq> [] \<and> [] \<notin> set gs"

lemma proper_cross: "proper_groups xs \<or> xs = [[]] \<Longrightarrow> proper_groups ys \<Longrightarrow> proper_groups (cross xs ys)"
proof -
  assume xs: "proper_groups xs \<or> xs = [[]]" and ys: "proper_groups ys"
  have "cross xs ys \<noteq> []" using xs ys by (cases xs; cases ys) (auto simp: proper_groups_def cross_def)
  with xs ys show ?thesis by (auto simp: proper_groups_def in_cross)
qed

lemma proper_cross_all:
  assumes "gss \<noteq> []" "list_all proper_groups gss"
  shows "proper_groups (cross_all gss)"
proof -
  have *: "proper_groups acc \<Longrightarrow> list_all proper_groups gss \<Longrightarrow> proper_groups (foldl cross acc gss)"
    for acc :: "'a list list" and gss
    by (induction gss arbitrary: acc) (auto intro: proper_cross)
  show ?thesis
    using assms by (cases gss) (auto simp: cross_all_def intro!: * intro: proper_cross)
qed

lemma proper_concat:
  "gss \<noteq> [] \<Longrightarrow> list_all proper_groups gss \<Longrightarrow> proper_groups (concat gss)"
  by (cases gss) (auto simp: proper_groups_def list_all_iff)

lemma proper_dnf:
  "wf_ast bf node \<Longrightarrow> proper_groups (to_dnf node)"
  "wf_ast bf node \<Longrightarrow> proper_groups (negate_to_dnf node)"
proof (induction node rule: to_dnf_negate_to_dnf.induct)
  case (1 cs)
  then show ?case by (auto intro!: proper_concat simp: list_all_iff)
next
  case (2 cs)
  then show ?case by (auto intro!: proper_cross_all simp: list_all_iff)
next
  case (5 cs)
  then show ?case by (auto intro!: proper_cross_all simp: list_all_iff)
next
  case (6 cs)
  then show ?case by (auto intro!: proper_concat simp: list_all_iff)
qed (auto simp: proper_groups_def)

definition clean_texts :: "string list list \<Rightarrow> bool" where
  "clean_texts groups \<longleftrightarrow> list_all (list_all (clean_term \<circ> term_of)) groups"

lemma translate_groups_value:
  assumes "list_all2 (list_all2 (\<lambda>t s. translate_leaf env db t = Inr s)) dnf groups"
    and "list_all (list_all (\<lambda>(l, n). n \<longrightarrow> negation_kept l)) dnf"
  shows "groups_value acl (map (map term_of) groups) = dnf_truth (term_holds acl env db) dnf \<and>
    list_all (list_all acl_text) groups"
  using assms
proof (induction dnf groups rule: list_all2_induct)
  case (Cons g dnf ss groups)
  have flags: "list_all (\<lambda>(l, n). n \<longrightarrow> negation_kept l) g" using Cons.prems by simp
  have "list_all (term_value acl) (map term_of ss) = list_all (term_holds acl env db) g \<and> list_all acl_text ss"
    using Cons.hyps(1) flags
    by (induction g ss rule: list_all2_induct) (auto dest: translate_leaf_value)
  with Cons show ?case by (auto simp: groups_value_def dnf_truth_def)
qed (simp add: groups_value_def dnf_truth_def)

lemma map_term_text_of: "list_all (list_all acl_text) groups \<Longrightarrow> map (map term_text) (map (map term_of) groups) = groups"
  by (induction groups) (auto simp: list_all_iff map_idI term_text_of)

lemma list_all2_proper:
  "list_all2 (list_all2 P) xs ys \<Longrightarrow> proper_groups xs \<Longrightarrow> proper_groups ys"
proof -
  assume all2: "list_all2 (list_all2 P) xs ys" and "proper_groups xs"
  have "[] \<in> set ys \<Longrightarrow> [] \<in> set xs" using all2 by (induction xs ys rule: list_all2_induct) auto
  with \<open>proper_groups xs\<close> all2 show ?thesis by (auto simp: proper_groups_def)
qed


section \<open>Guards\<close>

lemma condition_text_snoc:
  "groups_text (gs @ [g]) @ '' '' @ term_text t = groups_text (gs @ [g @ [t]])" if "g \<noteq> []"
proof -
  have j: "join sep (xs @ [x]) @ y = join sep (xs @ [x @ y])" for sep :: string and xs x y
    by (induction xs rule: induct_list012) auto
  have k: "xs \<noteq> [] \<Longrightarrow> join '' '' (xs @ [y]) = join '' '' xs @ '' '' @ y" for xs y
    by (induction xs rule: induct_list012) auto
  show ?thesis using that k [of "map term_text g" "term_text t"] by (simp add: groups_text_def condition_text_def j)
qed

lemma condition_text_front:
  "term_text t @ '' '' @ groups_text (g # gs) = groups_text ((t # g) # gs)" if "g \<noteq> []"
  using that by (cases g; cases gs) (simp_all add: groups_text_def condition_text_def)

definition DONE_ACL :: string where "DONE_ACL = ''var(txn.sec.done) -m found''"

definition VARNISH_ACL :: string where "VARNISH_ACL = ''var(txn.is_varnish_fetch) -m found''"

definition COOKIE_ACL :: string where "COOKIE_ACL = ''var(txn.captcha_cookie_valid) -m found''"

lemma guard_texts:
  "DONE_GUARD = term_text (Anon 1 DONE_ACL)" "VARNISH_GUARD = term_text (Anon 1 VARNISH_ACL)"
  "COOKIE_VALID = term_text (Anon 0 COOKIE_ACL)"
  by (simp_all add: DONE_GUARD_def VARNISH_GUARD_def COOKIE_VALID_def DONE_ACL_def VARNISH_ACL_def
      COOKIE_ACL_def braced_def)

lemma guard_clean [simp]: "clean_term (Anon n DONE_ACL)" "clean_term (Anon n VARNISH_ACL)"
  "clean_term (Anon n COOKIE_ACL)"
  by (unfold clean_term.simps) (code_simp+)

lemma clean_groups_snoc: "clean_groups (gs @ [g @ [t]]) \<longleftrightarrow> clean_term t \<and> list_all clean_term g \<and>
    list_all (\<lambda>g. g \<noteq> [] \<and> list_all clean_term g) gs"
  by (auto simp: clean_groups_def)

lemma languageD: "condition_language holds acl \<Longrightarrow> clean_groups gs \<Longrightarrow> holds (groups_text gs) = groups_value acl gs"
  by (simp add: condition_language_def)


text \<open>A challenge rule whose condition has more than one group can be passed without solving
  the challenge: the line that lets requests with a valid cookie through holds, cookie or not, for
  every request in the last group.\<close>

theorem challenge_bypassed:
  assumes "condition_language holds acl" "clean_groups (h # gs @ [g])"
    and "\<not> api_armor_var (groups_text (h # gs @ [g]))"
    and "list_all (term_value acl) g" "\<not> acl DONE_ACL" "\<not> acl VARNISH_ACL"
  shows "\<exists>allow. hd (challenge_redirect (guarded_condition (groups_text (h # gs @ [g]))) url rid ty name) =
      request_line ''allow'' allow \<and> holds allow"
proof -
  let ?last = "g @ [Anon 1 DONE_ACL, Anon 1 VARNISH_ACL]"
  let ?gs = "(Anon 0 COOKIE_ACL # h) # gs @ [?last]"
  have ne: "g \<noteq> []" "h \<noteq> []" using assms(2) by (simp_all add: clean_groups_def)
  have "guarded_condition (groups_text (h # gs @ [g])) = groups_text ((h # gs) @ [g @ [Anon 1 DONE_ACL]])"
    using assms(3) condition_text_snoc [OF ne(1), of "h # gs" "Anon 1 DONE_ACL"]
    by (simp add: guarded_condition_def guard_texts del: term_text.simps)
  then have "guarded_condition (groups_text (h # gs @ [g])) @ '' '' @ VARNISH_GUARD =
      groups_text ((h # gs) @ [(g @ [Anon 1 DONE_ACL]) @ [Anon 1 VARNISH_ACL]])"
    using condition_text_snoc [of "g @ [Anon 1 DONE_ACL]" "h # gs" "Anon 1 VARNISH_ACL"]
    by (simp add: guard_texts del: term_text.simps)
  then have "COOKIE_VALID @ '' '' @ guarded_condition (groups_text (h # gs @ [g])) @ '' '' @ VARNISH_GUARD =
      groups_text ?gs"
    using condition_text_front [OF ne(2), of "Anon 0 COOKIE_ACL" "gs @ [?last]"]
    by (simp add: guard_texts del: term_text.simps)
  then have "hd (challenge_redirect (guarded_condition (groups_text (h # gs @ [g]))) url rid ty name) =
      request_line ''allow'' (groups_text ?gs)"
    by (simp add: challenge_redirect_def Let_def)
  moreover have "clean_groups ?gs"
    using assms(2) by (simp add: clean_groups_def del: clean_term.simps)
  then have "holds (groups_text ?gs)"
    using assms(4-6) by (simp add: languageD [OF assms(1)] groups_value_def)
  ultimately show ?thesis by blast
qed

section \<open>The guard of API Armor conditions\<close>

abbreviation (input) or_sep :: string where "or_sep \<equiv> '' or ''"

lemma split_first_group:
  assumes "\<not> contains g or_sep" "g = [] \<or> last g = CHR ''}''"
  shows "split_first (g @ or_sep @ r) or_sep = Some (g, r)"
  using assms
proof (induction g)
  case (Cons c cs)
  have "\<not> starts_with (c # cs @ or_sep @ r) or_sep"
  proof
    assume st: "starts_with (c # cs @ or_sep @ r) or_sep"
    consider "cs = []" | d where "cs = [d]" | d e where "cs = [d, e]" | d e f us where "cs = d # e # f # us"
      by (metis list.exhaust)
    then show False
    proof cases
      case 4
      with st Cons.prems(1) show False by simp
    qed (use st Cons.prems(2) in auto)
  qed
  moreover have "split_first (cs @ or_sep @ r) or_sep = Some (cs, r)"
    using Cons by (cases cs) auto
  ultimately show ?case by simp
qed simp

lemma split_groups:
  "gs \<noteq> [] \<Longrightarrow> list_all (\<lambda>g. \<not> contains g or_sep \<and> last g = CHR ''}'') gs \<Longrightarrow>
   str_split or_sep (join or_sep gs) = gs"
proof (induction gs rule: induct_list012)
  case (2 g)
  then show ?case by (simp add: str_split_none)
next
  case (3 g h gs)
  then have "split_first (g @ or_sep @ join or_sep (h # gs)) or_sep = Some (g, join or_sep (h # gs))"
    by (intro split_first_group) simp_all
  with 3 show ?case by (simp add: str_split.simps [of or_sep])
qed simp

text \<open>The texts of the groups, all of anonymous ACLs, with \<open>or\<close> nowhere inside.\<close>

definition separable :: "hterm list list \<Rightarrow> bool" where
  "separable gs \<longleftrightarrow> list_all (\<lambda>g. list_all (\<lambda>t. \<not> (\<exists>a. t = Named a)) g \<and>
     \<not> contains (join '' '' (map term_text g)) or_sep) gs"

lemma last_group_text:
  assumes "g \<noteq> []" "list_all (\<lambda>t. \<not> (\<exists>a. t = Named a)) g"
  shows "last (join '' '' (map term_text g)) = CHR ''}'' \<and> join '' '' (map term_text g) \<noteq> []"
  using assms
proof (induction g rule: induct_list012)
  case (2 t)
  then show ?case by (cases t) (simp_all add: braced_def)
next
  case (3 t u g)
  then show ?case by simp
qed simp

lemma armor_group:
  assumes "g \<noteq> []"
  shows "''is_api_armor '' @ join '' '' (map term_text g) @ '' '' @ DONE_GUARD =
    join '' '' (map term_text (Named ''is_api_armor'' # g @ [Anon 1 DONE_ACL]))"
  using condition_text_snoc [OF assms, of "[]" "Anon 1 DONE_ACL"]
    condition_text_front [of "g @ [Anon 1 DONE_ACL]" "Named ''is_api_armor''" "[]"] assms
  by (simp add: groups_text_def condition_text_def guard_texts del: term_text.simps(1))

text \<open>For API Armor conditions the guard is joined to every group: such a rule fires exactly when
  its condition holds, the request is API Armor traffic and no earlier rule has decided, as long as
  no value in it contains \<open>or\<close> between spaces.\<close>

theorem api_armor_guard_binds_groups:
  assumes "condition_language holds acl" "clean_groups gs" "separable gs"
    and "api_armor_var (groups_text gs)"
  shows "holds (guarded_condition (groups_text gs)) =
    (acl ''is_api_armor'' \<and> groups_value acl gs \<and> \<not> acl DONE_ACL)"
proof -
  let ?texts = "map (join '' '' \<circ> map term_text) gs"
  let ?armor = "\<lambda>g. Named ''is_api_armor'' # g @ [Anon 1 DONE_ACL]"
  have ne: "gs \<noteq> []" "\<And>g. g \<in> set gs \<Longrightarrow> g \<noteq> []"
    using assms(2) by (auto simp: clean_groups_def list_all_iff)
  have texts: "groups_text hs = join or_sep (map (join '' '' \<circ> map term_text) hs)" for hs
    by (simp add: groups_text_def condition_text_def)
  have split: "str_split or_sep (join or_sep ?texts) = ?texts"
    using ne assms(3) last_group_text by (intro split_groups) (auto simp: separable_def list_all_iff)
  have guards: "map (\<lambda>g. ''is_api_armor '' @ g @ '' '' @ DONE_GUARD) ?texts =
      map (join '' '' \<circ> map term_text) (map ?armor gs)"
    using ne(2) armor_group by (simp del: term_text.simps append.simps)
  have "guarded_condition (groups_text gs) = groups_text (map ?armor gs)"
    unfolding guarded_condition_def api_armor_guarded_condition_def if_P [OF assms(4)]
    unfolding texts split guards ..
  moreover have "clean_groups (map ?armor gs)"
  proof -
    have "clean_term (Named ''is_api_armor'')" by code_simp
    with assms(2) show ?thesis by (auto simp: clean_groups_def list_all_iff simp del: clean_term.simps)
  qed
  ultimately show ?thesis
    using ne(1) by (auto simp: languageD [OF assms(1)] groups_value_def list_ex_iff)
qed

end
