(* ===== verification/SecScenario.thy ===== *)
theory SecScenario imports Conditions begin

text \<open>
  The compiler of security rules on concrete expressions: the witnesses of the properties of
  \<open>Conditions\<close>, and the expressions it accepts but does not compile to what they mean.
\<close>

definition demo_hap :: hap_env where
  "demo_hap = \<lparr>geoip_lua = False, geoip2 = False, file_exists = (\<lambda>p. False),
     abspath = (\<lambda>p. if starts_with p ''/'' then p else ''/app/'' @ p),
     geoip_db_path = ''data/GeoLite2-Country.mmdb'', asn_db_path = ''data/GeoLite2-ASN.mmdb'',
     country_map_path = ''data/geo_country.map'', asn_map_path = ''data/geo_asn.map'',
     lists_dir = ''data/lists'', config_path = ''/etc/haproxy/haproxy.cfg'',
     challenge_page = ''/_cap/challenge'', rules_block_status = 403\<rparr>"

definition demo_db :: sec_db where
  "demo_db = \<lparr>risk_slugs = [''bot''], list_names = [(''network'', ''office'')]\<rparr>"

text \<open>A request: a POST over TLS to one host, not from the office, which no rule has decided yet.\<close>

definition demo_acl :: "string \<Rightarrow> bool" where
  "demo_acl b \<longleftrightarrow> b \<in> {''req.hdr(host) -m str shop.example'', ''method POST'', ''ssl_fc'', ''is_api_armor'',
     ''var(txn.gql_depth) -m int gt 5''}"

definition demo_holds :: "string \<Rightarrow> bool" where
  "demo_holds = read_condition demo_acl False True"

lemma demo_language: "condition_language demo_holds demo_acl"
  by (simp add: demo_holds_def reader_language)

definition demo_expression :: string where
  "demo_expression = ''http.host = '' @ quoted ''shop.example'' @
     '' and not (ip.src in $network:office or http.request.method = '' @ quoted ''GET'' @ '')''"

definition demo_groups :: "string list list" where
  "demo_groups = [[''{ req.hdr(host) -m str shop.example }'', ''!{ src -f /app/data/lists/network/office.lst }'',
     ''!{ method GET }'']]"

definition demo_node :: ast where
  "demo_node = And [Leaf (Compare ''http.host'' ''='' (LStr ''shop.example'')) False,
     Not (Or [Leaf (InList ''ip.src'' ''network'' ''office'') False,
              Leaf (Compare ''http.request.method'' ''='' (LStr ''GET'')) False])]"


text \<open>Either of two hosts, for the guard that binds the last one only.\<close>

definition two_hosts :: "hterm list list" where
  "two_hosts = [[Anon 0 ''req.hdr(host) -m str a.example''], [Anon 0 ''req.hdr(host) -m str shop.example'']]"


theorem challenge_bypassed_witness:
  "\<exists>allow. hd (challenge_redirect (guarded_condition (groups_text two_hosts)) ''/c'' None ''security'' ''r'') =
     request_line ''allow'' allow \<and> demo_holds allow"
proof -
  have "clean_groups two_hosts" "\<not> api_armor_var (groups_text two_hosts)"
    "\<not> demo_acl DONE_ACL" "\<not> demo_acl VARNISH_ACL" by code_simp+
  with challenge_bypassed [OF demo_language, of "hd two_hosts" "[]" "last two_hosts" "''/c''" None "''security''" "''r''"]
  show ?thesis by (simp add: two_hosts_def demo_acl_def)
qed

theorem api_armor_guard_binds_groups_witness:
  "demo_holds (guarded_condition (groups_text
     [[Anon 0 ''ssl_fc'', Anon 1 ''src 10.0.0.1''], [Anon 0 ''var(txn.gql_depth) -m int gt 5'']]))"
proof -
  let ?gs = "[[Anon 0 ''ssl_fc'', Anon 1 ''src 10.0.0.1''], [Anon 0 ''var(txn.gql_depth) -m int gt 5'']]"
  have "clean_groups ?gs" "separable ?gs" "api_armor_var (groups_text ?gs)"
    "demo_acl ''is_api_armor''" "\<not> demo_acl DONE_ACL" "groups_value demo_acl ?gs"
    by (code_simp, simp add: separable_def braced_def, code_simp+)
  then show ?thesis using api_armor_guard_binds_groups [OF demo_language, of ?gs] by simp
qed

section \<open>Expressions compiled to something else\<close>

lemma host_field: "resolve_field env ''http.host'' = Inr (''req.hdr(host)'', Request, KString, None)"
  unfolding resolve_field_def by code_simp

lemma no_risk_field:
  assumes "map (\<lambda>s. risk_slug s f) RISK_SUFFIXES = [None, None, None, None]"
  shows "resolve_risk_ruleset_field db f = Inr None"
  using assms by (simp add: resolve_risk_ruleset_field_def RISK_SUFFIXES_def)

lemma host_translation:
  "translate env db (Leaf (Compare ''http.host'' opr (LStr v)) n) =
     (case compare_cond (''req.hdr(host)'', Request, KString, None) ''http.host'' opr (LStr v) n of
        None \<Rightarrow> Inl ValueError | Some c \<Rightarrow> Inr (c, Request))"
proof -
  have "resolve_risk_ruleset_field db ''http.host'' = Inr None" by (rule no_risk_field) code_simp
  then show ?thesis
    by (simp add: translate_def translate_groups_def translate_leaf_def leaf_phase_def host_field
        or_value_error_def condition_text_def split: option.split)
qed

text \<open>A negation before \<open>!=\<close> is lost: the condition compiled from \<open>not (http.host != v)\<close> is that of
  \<open>http.host != v\<close>, whatever the value.\<close>

theorem negated_inequality_lost:
  "translate_groups env db (Not (Leaf (Compare ''http.host'' ''!='' (LStr v)) False)) =
   translate_groups env db (Leaf (Compare ''http.host'' ''!='' (LStr v)) False)"
proof -
  have "resolve_risk_ruleset_field db ''http.host'' = Inr None" by (rule no_risk_field) code_simp
  then show ?thesis
    by (simp add: translate_groups_def translate_leaf_def host_field compare_cond_def NEGATABLE_STR_def
        QUERY_PARAM_def)
qed

text \<open>No expression on the field of a rule set compiles, whether the rule set exists or not, because
  the phase of an expression is looked up in the static tables only.\<close>

theorem risk_field_never_compiles:
  assumes "slug_ok slug" "sfx \<in> set RISK_SUFFIXES"
  shows "translate env db (Leaf (Compare (''risk.'' @ slug @ sfx) opr v) n) = Inl ValueError"
proof -
  let ?f = "''risk.'' @ slug @ sfx"
  have sfx: "CHR ''.'' \<in> set sfx"
    using assms(2) by (auto simp: RISK_SUFFIXES_def)
  have keys: "list_all (\<lambda>k. starts_with k ''risk.'' \<longrightarrow> CHR ''.'' \<notin> set (drop 5 k))
      (map fst FIELD_MAP @ map fst BOOL_FIELDS)" by code_simp
  have "?f \<notin> set (map fst FIELD_MAP @ map fst BOOL_FIELDS)"
  proof
    assume "?f \<in> set (map fst FIELD_MAP @ map fst BOOL_FIELDS)"
    from list_allD [OF keys this] sfx show False by simp
  qed
  then have "map_of FIELD_MAP ?f = None" "map_of BOOL_FIELDS ?f = None"
    by (auto simp: map_of_eq_None_iff)
  moreover have "bracket_match ?f = None"
  proof (rule ccontr)
    assume "bracket_match ?f \<noteq> None"
    then have "bracket_open \<noteq> [] \<and> starts_with (dropWhile base_char ?f) bracket_open"
      by (auto simp: bracket_match_def Let_def bracket_open_def split: if_splits)
    then have "double_quote \<in> set (dropWhile base_char ?f)"
      by (auto simp: starts_with_iff bracket_open_def)
    then have "double_quote \<in> set ?f" using set_dropWhileD by fast
    moreover have "double_quote \<notin> set slug"
    proof
      assume "double_quote \<in> set slug"
      with assms(1) have "ascii_lower double_quote \<or> py_isdecimal double_quote \<or> double_quote = CHR ''_''"
        by (auto simp: slug_ok_def list_all_iff)
      moreover have "\<not> (ascii_lower double_quote \<or> py_isdecimal double_quote \<or> double_quote = CHR ''_'')"
        by code_simp
      ultimately show False by contradiction
    qed
    moreover have "double_quote \<notin> set ''risk.''" by code_simp
    moreover have "list_all (\<lambda>s. double_quote \<notin> set s) RISK_SUFFIXES" by code_simp
    then have "double_quote \<notin> set sfx" using assms(2) by (rule list_allD)
    ultimately show False unfolding set_append by blast
  qed
  ultimately show ?thesis by (simp add: translate_def leaf_phase_def resolve_field_def)
qed

theorem risk_field_never_compiles_witness:
  "translate demo_hap demo_db (Leaf (Compare ''risk.bot.score'' ''>'' (LInt 50)) False) = Inl ValueError"
proof -
  have "slug_ok ''bot''" by code_simp
  then show ?thesis using risk_field_never_compiles [of "''bot''" "''.score''"] by (simp add: RISK_SUFFIXES_def)
qed

text \<open>A test that a query parameter exists compiles to the placeholder of query parameters, which
  is no fetch of HAProxy; the branch for it stands under the comparisons.\<close>

theorem query_exists_placeholder:
  "translate env db (Leaf (Exists (''http.request.uri.query['' @ quoted ''id'' @ '']'')) False) =
   Inr (''{ __query_param__ -m found }'', Request)"
proof -
  let ?f = "''http.request.uri.query['' @ quoted ''id'' @ '']''"
  have "bracket_match ?f = Some (''http.request.uri.query'', ''id'')" by code_simp
  moreover have "resolve_bracket ''http.request.uri.query'' ''id'' = Inr (QUERY_PARAM, Request, KString, Some ''id'')"
    by code_simp
  ultimately have "resolve_field env ?f = Inr (QUERY_PARAM, Request, KString, Some ''id'')"
    by (simp add: resolve_field_def)
  moreover have "resolve_risk_ruleset_field db ?f = Inr None" by (rule no_risk_field) code_simp
  ultimately show ?thesis
    by (simp add: translate_def translate_groups_def translate_leaf_def leaf_phase_def bang_def braced_def
        QUERY_PARAM_def condition_text_def)
qed


lemma str_replace_keeps:
  "c \<in> set s \<Longrightarrow> c \<noteq> d \<Longrightarrow> c \<in> set (str_replace s [d] new)"
  by (induction s "[d]" new rule: str_replace.induct) auto

text \<open>A line break in a text of an expression reaches the compiled condition as it is, so that the
  line written for the rule becomes two lines of the configuration.\<close>

theorem line_break_kept:
  assumes "newline \<in> set v"
  shows "\<exists>cond. translate env db (Leaf (Compare ''http.host'' ''='' (LStr v)) False) = Inr (cond, Request) \<and>
    newline \<in> set cond"
proof -
  have "newline \<noteq> backslash" "newline \<noteq> double_quote" by code_simp+
  then have "newline \<in> set (escape_quoted v)"
    unfolding escape_quoted_def by (intro str_replace_keeps assms)
  then have "newline \<in> set (haproxy_string_value v)"
    using assms by (simp add: haproxy_string_value_def quoted_def)
  then show ?thesis
    by (simp add: host_translation compare_cond_def str_cond_def NEGATABLE_STR_def QUERY_PARAM_def bang_def
        braced_def)
qed

theorem line_break_kept_witness:
  "\<exists>cond. translate demo_hap demo_db (Leaf (Compare ''http.host'' ''='' (LStr [CHR ''a'', newline])) False) =
     Inr (cond, Request) \<and> newline \<in> set cond"
  by (rule line_break_kept) simp

end
