(* ===== verification/RiskScoring.thy ===== *)
theory RiskScoring imports SecEmit begin

text \<open>
  Risk scoring (\<open>backend/app/services/risk_scoring.py\<close>): the category of a rule, the slugs that
  name rule sets in HAProxy variables, the operations on rule sets, the lines emitted for a
  listener, the Lua data file, the rules that depend on optional modules, and the seeding of the
  baseline.

  The tables are \<open>risk_db\<close>; a new row gets the id \<open>fresh ids\<close>, where \<open>ids\<close> are those in the table.
  Descriptions are left out.
\<close>

section \<open>Rows\<close>

record risk_ruleset =
  rs_id :: int
  rs_name :: string
  rs_slug :: string
  rs_enabled :: bool
  rs_priority :: int

record risk_rule =
  rr_id :: int
  rr_name :: string
  rr_enabled :: bool
  rr_priority :: int
  rr_listener_ids :: "int list option"
  rr_expression :: string
  rr_ast :: "ast option"
  rr_points :: int
  rr_category :: "string option"
  rr_log :: bool
  rr_ruleset_id :: int

record risk_list =
  rl_type :: string
  rl_name :: string
  rl_entries :: "string list"

record risk_db =
  db_rulesets :: "risk_ruleset list"
  db_rules :: "risk_rule list"
  db_lists :: "risk_list list"

section \<open>Categories\<close>

definition FIELD_CATEGORIES :: "(string \<times> string) list" where
  "FIELD_CATEGORIES =
     [(''http.request.version_numeric'', ''protocol''),
      (''http.request.version'', ''protocol''),
      (''http.request.tls'', ''protocol''),
      (''http.request.tls.version'', ''protocol''),
      (''http.request.tls.cipher'', ''protocol''),
      (''http.request.keep_alive'', ''protocol''),
      (''http.request.fingerprint.cipher_count'', ''protocol''),
      (''http.request.fingerprint.ext_count'', ''protocol''),
      (''http.request.alpn'', ''protocol''),
      (''http.request.fingerprint.header_count'', ''headers''),
      (''http.request.fingerprint.header_list'', ''headers''),
      (''http.request.user_agent_length'', ''headers''),
      (''http.request.headers'', ''headers''),
      (''http.request.user_agent'', ''headers''),
      (''http.request.referer'', ''headers''),
      (''http.request.geo_lang_mismatch'', ''geo''),
      (''http.request.geoip.timezone_mismatch'', ''geo''),
      (''http.request.hour'', ''geo''),
      (''ip.geoip.country'', ''geo''),
      (''ip.geoip.continent'', ''geo''),
      (''ip.geoip.city'', ''geo''),
      (''ip.geoip.region'', ''geo''),
      (''ip.geoip.timezone'', ''geo''),
      (''http.request.fingerprint.path_depth'', ''behavioral''),
      (''http.request.uri_length'', ''behavioral''),
      (''http.request.param_count'', ''behavioral''),
      (''http.request.fingerprint.body_depth'', ''behavioral''),
      (''http.request.uri.path'', ''behavioral''),
      (''http.request.uri'', ''behavioral''),
      (''http.request.full_uri'', ''behavioral''),
      (''http.request.fingerprint.param_keys'', ''behavioral''),
      (''http.request.fingerprint.param_types'', ''behavioral''),
      (''http.request.fingerprint.param_lens'', ''behavioral''),
      (''auth.valid'', ''trust''),
      (''auth.type'', ''trust''),
      (''ip.src'', ''list''),
      (''ip.geoip.asnum'', ''list''),
      (''http.request.ja4'', ''list''),
      (''ip.beacon_trusted'', ''trust'')]"

fun collect_fields :: "ast \<Rightarrow> string list" where
  "collect_fields (And cs) = concat (map collect_fields cs)"
| "collect_fields (Or cs) = concat (map collect_fields cs)"
| "collect_fields (Not c) = collect_fields c"
| "collect_fields (Leaf l negated) =
     (case leaf_field l of None \<Rightarrow> [] | Some f \<Rightarrow> if f = [] then [] else [f])"

fun has_in_list :: "ast \<Rightarrow> bool" where
  "has_in_list (And cs) = list_ex has_in_list cs"
| "has_in_list (Or cs) = list_ex has_in_list cs"
| "has_in_list (Not c) = has_in_list c"
| "has_in_list (Leaf l negated) = (case l of InList f t n \<Rightarrow> True | _ \<Rightarrow> False)"

definition CATEGORY_BRACKETS :: "string list" where
  "CATEGORY_BRACKETS = [''http.request.headers'', ''http.request.cookies'', ''auth.claim'']"

fun fields_category :: "string list \<Rightarrow> string" where
  "fields_category [] = ''custom''"
| "fields_category (f # fs) =
     (case map_of FIELD_CATEGORIES f of
        Some c \<Rightarrow> c
      | None \<Rightarrow>
          (case List.find (starts_with f) CATEGORY_BRACKETS of
             Some b \<Rightarrow> dict_get FIELD_CATEGORIES b ''custom''
           | None \<Rightarrow> fields_category fs))"

definition derive_category :: "ast option \<Rightarrow> int \<Rightarrow> string" where
  "derive_category node points =
     (if points < 0 then ''trust''
      else (case node of
          None \<Rightarrow> ''custom''
        | Some a \<Rightarrow> if has_in_list a then ''list'' else fields_category (collect_fields a)))"

definition VALID_CATEGORIES :: "string list" where
  "VALID_CATEGORIES = [''protocol'', ''headers'', ''geo'', ''behavioral'', ''list'', ''trust'', ''custom'']"

section \<open>Slugs\<close>

text \<open>\<open>re.sub("[class]+", repl, s)\<close>.\<close>

function sub_runs :: "(char \<Rightarrow> bool) \<Rightarrow> string \<Rightarrow> string \<Rightarrow> string" where
  "sub_runs cls repl [] = []"
| "sub_runs cls repl (c # cs) =
     (if cls c then repl @ sub_runs cls repl (dropWhile cls cs) else c # sub_runs cls repl cs)"
  by pat_completeness auto
termination
  by (relation "measure (\<lambda>(cls, repl, s). length s)") (auto simp: length_dropWhile_le less_Suc_eq_le)

definition slugify_ruleset_name :: "string \<Rightarrow> string" where
  "slugify_ruleset_name name =
     (let slug = py_lower (strip_chars (\<lambda>c. c = CHR ''_'') (sub_runs (\<lambda>c. \<not> ascii_alnum c) ''_'' name))
      in if slug = [] then ''ruleset'' else if py_isdigit (hd slug) then ''rs_'' @ slug else slug)"

text \<open>\<open>validate_slug\<close>; the pattern's \<open>$\<close> also matches before a final newline.\<close>

definition validate_slug :: "string \<Rightarrow> bool" where
  "validate_slug slug = slug_ok (if ends_with slug [newline] then butlast slug else slug)"

section \<open>Rule sets\<close>

definition top_priority :: "int list \<Rightarrow> int" where
  "top_priority ps = (if ps = [] then 0 else Max (set ps) + 1)"

definition free_slug :: "string \<Rightarrow> string list \<Rightarrow> string" where
  "free_slug base taken = (if base \<notin> set taken then base else free_suffix base taken 2)"

definition create_ruleset :: "(int list \<Rightarrow> int) \<Rightarrow> string \<Rightarrow> risk_ruleset list \<Rightarrow> risk_ruleset \<times> risk_ruleset list" where
  "create_ruleset fresh name rsets =
     (let r = \<lparr>rs_id = fresh (map rs_id rsets), rs_name = name,
               rs_slug = free_slug (slugify_ruleset_name name) (map rs_slug rsets),
               rs_enabled = True, rs_priority = top_priority (map rs_priority rsets)\<rparr>
      in (r, rsets @ [r]))"

definition find_ruleset :: "int \<Rightarrow> risk_ruleset list \<Rightarrow> risk_ruleset option" where
  "find_ruleset i rsets = List.find (\<lambda>r. rs_id r = i) rsets"

definition set_ruleset :: "risk_ruleset \<Rightarrow> risk_ruleset list \<Rightarrow> risk_ruleset list" where
  "set_ruleset r rsets = map (\<lambda>x. if rs_id x = rs_id r then r else x) rsets"

definition rename_ruleset :: "string \<Rightarrow> risk_ruleset \<Rightarrow> risk_ruleset list \<Rightarrow> risk_ruleset res" where
  "rename_ruleset name r rsets =
     (let new_slug = slugify_ruleset_name name
      in if rs_slug r = ''default'' then Inr (r\<lparr>rs_name := name\<rparr>)
         else if \<exists>x\<in>set rsets. rs_slug x = new_slug \<and> rs_id x \<noteq> rs_id r then Inl ValueError
         else Inr (r\<lparr>rs_name := name, rs_slug := new_slug\<rparr>))"

definition renamed :: "string option \<Rightarrow> risk_ruleset \<Rightarrow> risk_ruleset list \<Rightarrow> risk_ruleset res" where
  "renamed name r rsets =
     (if name = None \<or> name = Some (rs_name r) then Inr r else rename_ruleset (the name) r rsets)"

definition switched :: "bool option \<Rightarrow> risk_ruleset \<Rightarrow> risk_ruleset" where
  "switched enabled r = (case enabled of None \<Rightarrow> r | Some b \<Rightarrow> r\<lparr>rs_enabled := b\<rparr>)"

definition update_ruleset ::
  "int \<Rightarrow> string option \<Rightarrow> bool option \<Rightarrow> risk_ruleset list \<Rightarrow> risk_ruleset list res" where
  "update_ruleset i name enabled rsets =
     (case find_ruleset i rsets of
        None \<Rightarrow> Inl ValueError
      | Some r \<Rightarrow> bind_res (renamed name r rsets) (\<lambda>r1. Inr (set_ruleset (switched enabled r1) rsets)))"

text \<open>\<open>delete_ruleset\<close>, with its rules.\<close>

definition delete_ruleset :: "int \<Rightarrow> bool \<Rightarrow> risk_db \<Rightarrow> risk_db res" where
  "delete_ruleset i force db =
     (case find_ruleset i (db_rulesets db) of
        None \<Rightarrow> Inl ValueError
      | Some r \<Rightarrow>
          if rs_slug r = ''default'' \<and> \<not> force then Inl ValueError
          else Inr (db\<lparr>db_rulesets := filter (\<lambda>x. rs_id x \<noteq> i) (db_rulesets db),
                       db_rules := filter (\<lambda>x. rr_ruleset_id x \<noteq> i) (db_rules db)\<rparr>))"

section \<open>Expressions\<close>

definition sec_db_of :: "risk_db \<Rightarrow> sec_db" where
  "sec_db_of db = \<lparr>risk_slugs = map rs_slug (db_rulesets db),
     list_names = map (\<lambda>l. (rl_type l, rl_name l)) (db_lists db)\<rparr>"

definition validate_risk_expression :: "hap_env \<Rightarrow> sec_db option \<Rightarrow> string \<Rightarrow> bool \<times> ast option" where
  "validate_risk_expression env db text =
     (if strip text = [] then (True, None)
      else (case parse_rule_expression text of
          Inl e \<Rightarrow> (False, None)
        | Inr node \<Rightarrow>
            (case (case db of
                     Some d \<Rightarrow> map_sum id snd (translate env d node)
                   | None \<Rightarrow> determine_phase env node) of
               Inl e \<Rightarrow> (False, None)
             | Inr ph \<Rightarrow> if ph = Response then (False, None) else (True, Some node))))"

section \<open>The rules of a listener and their lines\<close>

definition risk_applies_to :: "int \<Rightarrow> risk_rule \<Rightarrow> bool" where
  "risk_applies_to lid r \<longleftrightarrow> (case or_default (rr_listener_ids r) [] of [] \<Rightarrow> True | ids \<Rightarrow> lid \<in> set ids)"

definition risk_rules_for_listener :: "risk_rule list \<Rightarrow> int \<Rightarrow> risk_rule list" where
  "risk_rules_for_listener rules lid =
     filter (risk_applies_to lid) (sort_key rr_priority (filter rr_enabled rules))"

fun reorder_risk_from :: "int \<Rightarrow> int list \<Rightarrow> risk_rule list \<Rightarrow> risk_rule list" where
  "reorder_risk_from n [] rules = rules"
| "reorder_risk_from n (i # ids) rules =
     reorder_risk_from (n + 1) ids (map (\<lambda>r. if rr_id r = i then r\<lparr>rr_priority := n\<rparr> else r) rules)"

definition reorder_risk_rules :: "risk_rule list \<Rightarrow> int list \<Rightarrow> risk_rule list" where
  "reorder_risk_rules rules ids = reorder_risk_from 0 ids rules"

definition match_flag :: "int \<Rightarrow> string" where
  "match_flag i = ''set-var(txn.risk.match_'' @ int_str i @ '') bool(1)''"

definition guarded_line :: "string \<Rightarrow> string \<Rightarrow> string" where
  "guarded_line act guard = (if guard = [] then ''    http-request '' @ act else request_line act guard)"

definition match_line :: "hap_env \<Rightarrow> sec_db \<Rightarrow> string \<Rightarrow> risk_rule \<Rightarrow> string option" where
  "match_line env db guard r =
     (case parse_rule_expression (rr_expression r) of
        Inl e \<Rightarrow> None
      | Inr node \<Rightarrow>
          (case translate env db node of
             Inl e \<Rightarrow> None
           | Inr (condition, ph) \<Rightarrow>
               if ph = Response then None
               else Some (request_line (match_flag (rr_id r))
                      (condition @ (if guard = [] then [] else '' '' @ guard)))))"

definition emit_risk_scoring :: "hap_env \<Rightarrow> sec_db \<Rightarrow> risk_rule list \<Rightarrow> int \<Rightarrow> string \<Rightarrow> string list" where
  "emit_risk_scoring env db rules lid guard =
     (let rs = risk_rules_for_listener rules lid
      in [''    # Risk Scoring Phase 1: derive metadata fields (Lua)'',
          guarded_line ''lua.risk_capture'' guard] @
         (if rs = [] then
            [''    # Risk Scoring Phase 3: compute score (no rules configured)'',
             guarded_line ''lua.risk_compute'' guard]
          else
            [''    # Risk Scoring Phase 2: per-rule match flags''] @
            List.map_filter (match_line env db guard) rs @
            [''    # Risk Scoring Phase 3: compute score from match flags (Lua)'',
             guarded_line ''lua.risk_compute'' guard]))"

section \<open>The data file of the Lua action\<close>

definition safe_lua_string :: "string \<Rightarrow> string" where
  "safe_lua_string v =
     quoted (str_replace (str_replace (escape_quoted v) [newline] '' '') [return_char] [])"

definition risk_rules_data_path :: "hap_env \<Rightarrow> string" where
  "risk_rules_data_path env =
     (let parent = path_dirname (rev (dropWhile (\<lambda>c. c = CHR ''/'') (rev (lists_dir env))))
      in path_join (or_text parent ''data'') ''risk_rules_data.lua'')"

definition lua_bool :: "bool \<Rightarrow> string" where
  "lua_bool b = (if b then ''true'' else ''false'')"

definition rule_data :: "risk_ruleset list \<Rightarrow> risk_rule \<Rightarrow> string" where
  "rule_data rsets r =
     ''        { id = '' @ int_str (rr_id r) @ '', ruleset = '' @
       safe_lua_string (dict_get (map (\<lambda>s. (rs_id s, rs_slug s)) rsets) (rr_ruleset_id r) ''default'') @
     '', points = '' @ int_str (rr_points r) @ '', name = '' @ safe_lua_string (rr_name r) @ '', log = '' @
     lua_bool (rr_log r) @ '', enabled = '' @ lua_bool (rr_enabled r) @ '' },''"

definition generate_risk_rules_data :: "risk_db \<Rightarrow> string" where
  "generate_risk_rules_data db =
     (let rsets = sort_key rs_priority (filter rs_enabled (db_rulesets db));
          rules = filter (\<lambda>r. rr_ruleset_id r \<in> set (map rs_id rsets)) (sort_key rr_priority (db_rules db))
      in join [newline]
           ([''-- Auto-generated by haproxy.py. Do not edit; regenerated on each config write.'', ''return {'',
             ''    rulesets = { '' @ join '', '' (map (safe_lua_string \<circ> rs_slug) rsets) @ '' },'',
             ''    rules = {''] @ map (rule_data rsets) rules @ [''    },'', ''}'']) @ [newline])"

section \<open>Rules that depend on optional modules\<close>

definition REQ_FP_RISK_FIELDS :: "string list" where
  "REQ_FP_RISK_FIELDS =
     [''http.request.fingerprint.body_depth'',
      ''http.request.fingerprint.cipher_count'',
      ''http.request.fingerprint.ext_count'',
      ''http.request.fingerprint.header_count'',
      ''http.request.fingerprint.header_list'',
      ''http.request.fingerprint.param_keys'',
      ''http.request.fingerprint.param_lens'',
      ''http.request.fingerprint.param_types'',
      ''http.request.fingerprint.path_depth'',
      ''http.request.geo_lang_mismatch'',
      ''http.request.geoip.timezone_mismatch'',
      ''http.request.hour'',
      ''http.request.keep_alive'',
      ''http.request.param_count'',
      ''http.request.uri_length'',
      ''http.request.user_agent_length'',
      ''http.request.version_numeric'']"

definition JA4_RISK_FIELDS :: "string list" where
  "JA4_RISK_FIELDS =
     [''http.request.fingerprint.cipher_count'', ''http.request.fingerprint.ext_count'', ''http.request.ja4'']"

fun ast_references_any_field :: "string list \<Rightarrow> ast \<Rightarrow> bool" where
  "ast_references_any_field fs (And cs) = list_ex (ast_references_any_field fs) cs"
| "ast_references_any_field fs (Or cs) = list_ex (ast_references_any_field fs) cs"
| "ast_references_any_field fs (Not c) = ast_references_any_field fs c"
| "ast_references_any_field fs (Leaf l negated) =
     (let field = safe_opt (leaf_field l)
      in field \<in> set fs \<or> list_ex (\<lambda>f. starts_with field (f @ ''['') \<or> starts_with field (f @ ''.'')) fs)"

definition rules_referencing :: "string list \<Rightarrow> risk_rule list \<Rightarrow> risk_rule list" where
  "rules_referencing fs rules =
     filter (\<lambda>r. (\<exists>a\<in>set_option (rr_ast r). ast_references_any_field fs a) \<or>
                 list_ex (contains (rr_expression r)) fs) (filter rr_enabled rules)"

definition rules_referencing_req_fp :: "risk_rule list \<Rightarrow> risk_rule list" where
  "rules_referencing_req_fp = rules_referencing REQ_FP_RISK_FIELDS"

definition rules_referencing_ja4_fields :: "risk_rule list \<Rightarrow> risk_rule list" where
  "rules_referencing_ja4_fields = rules_referencing JA4_RISK_FIELDS"

section \<open>The baseline\<close>

text \<open>Name and slug of a rule set; slug, name, expression, points, category and log flag of a rule;
  name, type and entries of a list.\<close>

definition BASELINE_RULESETS :: "(string \<times> string) list" where
  "BASELINE_RULESETS = [(''Default'', ''default'')]"

type_synonym baseline_rule = "string \<times> string \<times> string \<times> int \<times> string \<times> bool"

definition BASELINE_RULES :: "baseline_rule list" where
  "BASELINE_RULES =
     [(''default'', ''HTTP/1.0 protocol'',
        ''http.request.version_numeric < 11'', 5, ''protocol'', True),
      (''default'', ''TLS 1.0 or 1.1'',
        (''http.request.tls.version ~ '' @ [double_quote] @ ''(?i)TLSv1'' @ [backslash] @ ''.[01]'' @ [double_quote]), 8, ''protocol'', True),
      (''default'', ''High-risk country'',
        ''ip.geoip.country in $geo:high_risk_countries'', 15, ''list'', True),
      (''default'', ''IP in blocklist'',
        ''ip.src in $network:ip_blocklist'', 85, ''list'', True),
      (''default'', ''Datacenter ASN'',
        ''ip.geoip.asnum in $asn:datacenter_asns'', 25, ''list'', True),
      (''default'', ''Known bot JA4'',
        ''http.request.ja4 in $ja4:known_bot_ja4'', 30, ''list'', True),
      (''default'', ''Deep path'',
        ''http.request.fingerprint.path_depth > 4'', 3, ''behavioral'', True),
      (''default'', ''Very deep path'',
        ''http.request.fingerprint.path_depth > 8'', 8, ''behavioral'', True),
      (''default'', ''Long URI'',
        ''http.request.uri_length > 1024'', 5, ''behavioral'', True),
      (''default'', ''High param count'',
        ''http.request.param_count > 20'', 5, ''behavioral'', True),
      (''default'', ''Deep JSON body'',
        ''http.request.fingerprint.body_depth > 10'', 5, ''behavioral'', True),
      (''default'', ''Geo/Lang mismatch'',
        ''http.request.geo_lang_mismatch'', 8, ''geo'', True),
      (''default'', ''Timezone mismatch'',
        ''http.request.geoip.timezone_mismatch'', 8, ''geo'', True),
      (''default'', ''Off-hours request'',
        ''http.request.hour < 5'', 3, ''geo'', True),
      (''default'', ''Valid auth'',
        ''auth.valid'', -15, ''trust'', True),
      (''default'', ''HTTP/2+'',
        ''http.request.version_numeric >= 20'', -5, ''trust'', True),
      (''default'', ''Beacon-trusted IP'',
        ''ip.beacon_trusted > 0'', -15, ''trust'', True)]"

definition BASELINE_LISTS :: "(string \<times> string \<times> string list) list" where
  "BASELINE_LISTS =
     [(''high_risk_countries'', ''geo'',
        [''RU'', ''CN'', ''KP'', ''IR'', ''SY'', ''BY'', ''VE'', ''UA'']),
      (''datacenter_asns'', ''asn'',
        [''AS14618'', ''AS15169'', ''AS8075'', ''AS16509'', ''AS13335'', ''AS24940'', ''AS14061'', ''AS16276'', ''AS49505'', ''AS63949'']),
      (''known_bot_ja4'', ''ja4'',
        [''t13d000000_000000000000_000000000000'', ''t13d1516h2_8daaf6152771_b186095e22b6'']),
      (''ip_blocklist'', ''network'',
        [])]"

text \<open>One turn of each loop of \<open>seed_baseline_rules\<close>, over the database, the ids of the rule sets by
  slug and the counters (rules, lists, rule sets, skipped).\<close>

record seed_counts =
  n_rules :: nat
  n_lists :: nat
  n_rulesets :: nat
  n_skipped :: nat

record seed_state =
  sd_db :: risk_db
  sd_slugs :: "(string \<times> int) list"
  sd_counters :: "(int \<times> int) list"
  sd_counts :: seed_counts

definition skip_one :: "seed_state \<Rightarrow> seed_state" where
  "skip_one s = s\<lparr>sd_counts := (sd_counts s)\<lparr>n_skipped := n_skipped (sd_counts s) + 1\<rparr>\<rparr>"

definition seed_ruleset :: "(int list \<Rightarrow> int) \<Rightarrow> seed_state \<Rightarrow> string \<times> string \<Rightarrow> seed_state" where
  "seed_ruleset fresh s row =
     (let (name, slug) = row; rsets = db_rulesets (sd_db s)
      in case List.find (\<lambda>r. rs_slug r = slug) rsets of
           Some r \<Rightarrow> skip_one (s\<lparr>sd_slugs := AList.update slug (rs_id r) (sd_slugs s)\<rparr>)
         | None \<Rightarrow>
             let i = fresh (map rs_id rsets);
                 r = \<lparr>rs_id = i, rs_name = name, rs_slug = slug, rs_enabled = True,
                      rs_priority = top_priority (map rs_priority rsets)\<rparr>
             in s\<lparr>sd_db := (sd_db s)\<lparr>db_rulesets := rsets @ [r]\<rparr>,
                  sd_slugs := AList.update slug i (sd_slugs s),
                  sd_counts := (sd_counts s)\<lparr>n_rulesets := n_rulesets (sd_counts s) + 1\<rparr>\<rparr>)"

definition known_type :: "string \<Rightarrow> bool" where
  "known_type t \<longleftrightarrow> t \<in> {''geo'', ''asn'', ''ja4'', ''network''}"

definition seed_list :: "seed_state \<Rightarrow> string \<times> string \<times> string list \<Rightarrow> seed_state" where
  "seed_list s row =
     (let (name, list_type, es) = row; lists = db_lists (sd_db s)
      in if \<not> known_type list_type then s
         else if \<exists>l\<in>set lists. rl_type l = list_type \<and> rl_name l = name then skip_one s
         else s\<lparr>sd_db := (sd_db s)\<lparr>db_lists := lists @ [\<lparr>rl_type = list_type, rl_name = name, rl_entries = es\<rparr>]\<rparr>,
                sd_counts := (sd_counts s)\<lparr>n_lists := n_lists (sd_counts s) + 1\<rparr>\<rparr>)"

definition seed_counter :: "risk_rule list \<Rightarrow> (int \<times> int) list \<Rightarrow> int \<Rightarrow> (int \<times> int) list" where
  "seed_counter rules counters i =
     AList.update i (top_priority (map rr_priority (filter (\<lambda>r. rr_ruleset_id r = i) rules))) counters"

definition seed_rule :: "(int list \<Rightarrow> int) \<Rightarrow> string list \<Rightarrow> seed_state \<Rightarrow> baseline_rule \<Rightarrow> seed_state" where
  "seed_rule fresh existing_names s row =
     (let (slug, name, expression, points, category, log_flag) = row; rules = db_rules (sd_db s)
      in if name \<in> set existing_names then skip_one s
         else (case map_of (sd_slugs s) slug of
             None \<Rightarrow> skip_one s
           | Some i \<Rightarrow>
               let pri = dict_get (sd_counters s) i 0;
                   r = \<lparr>rr_id = fresh (map rr_id rules), rr_name = name, rr_enabled = True, rr_priority = pri,
                        rr_listener_ids = Some [], rr_expression = expression,
                        rr_ast = (case parse_rule_expression expression of Inl e \<Rightarrow> None | Inr a \<Rightarrow> Some a),
                        rr_points = points, rr_category = Some category, rr_log = log_flag, rr_ruleset_id = i\<rparr>
               in s\<lparr>sd_db := (sd_db s)\<lparr>db_rules := rules @ [r]\<rparr>,
                    sd_counters := AList.update i (pri + 1) (sd_counters s),
                    sd_counts := (sd_counts s)\<lparr>n_rules := n_rules (sd_counts s) + 1\<rparr>\<rparr>))"

definition seed_baseline_rules :: "(int list \<Rightarrow> int) \<Rightarrow> risk_db \<Rightarrow> risk_db \<times> seed_counts" where
  "seed_baseline_rules fresh db =
     (let s0 = \<lparr>sd_db = db, sd_slugs = [], sd_counters = [],
                sd_counts = \<lparr>n_rules = 0, n_lists = 0, n_rulesets = 0, n_skipped = 0\<rparr>\<rparr>;
          s1 = foldl (seed_ruleset fresh) s0 BASELINE_RULESETS;
          s2 = foldl seed_list s1 BASELINE_LISTS;
          names = map rr_name (db_rules db);
          s3 = s2\<lparr>sd_counters := foldl (seed_counter (db_rules db)) [] (map snd (sd_slugs s2))\<rparr>;
          s4 = foldl (seed_rule fresh names) s3 BASELINE_RULES
      in (sd_db s4, sd_counts s4))"

section \<open>Slugs are valid\<close>

lemma sub_runs_set: "set (sub_runs cls repl s) \<subseteq> set repl \<union> {c \<in> set s. \<not> cls c}"
proof (induction cls repl s rule: sub_runs.induct)
  case (2 cls repl c cs)
  have "set (dropWhile cls cs) \<subseteq> set cs" using set_dropWhileD by fast
  with 2 show ?case by (auto split: if_splits)
qed simp

lemma lower_alnum: "ascii_alnum c \<Longrightarrow> ascii_lower (py_lower_char c) \<or> py_isdecimal (py_lower_char c)"
  by (auto simp: ascii_alnum_def ascii_upper_def ascii_lower_def py_lower_char_def py_isdecimal_def ord_def Let_def)

lemma decimal_isdigit: "py_isdecimal c \<Longrightarrow> py_isdigit c"
  by (simp add: py_isdigit_def)

lemma digit_not_lower: "ascii_lower c \<Longrightarrow> \<not> py_isdigit c"
  by (auto simp: ascii_lower_def py_isdigit_def py_isdecimal_def)

lemma lower_underscore: "py_lower_char (CHR ''_'') = CHR ''_''"
  by code_simp

lemma slugify_slug_ok: "slug_ok (slugify_ruleset_name name)"
proof -
  let ?u = "\<lambda>c. c = CHR ''_''"
  let ?t = "strip_chars ?u (sub_runs (\<lambda>c. \<not> ascii_alnum c) ''_'' name)"
  define slug where "slug = py_lower ?t"
  have t: "c = CHR ''_'' \<or> ascii_alnum c" if "c \<in> set ?t" for c
    using that strip_chars_set [of ?u] sub_runs_set [of "\<lambda>c. \<not> ascii_alnum c" "''_''" name] by fastforce
  have chars: "ascii_lower c \<or> py_isdecimal c \<or> c = CHR ''_''" if "c \<in> set slug" for c
    using that t lower_alnum lower_underscore by (auto simp: slug_def py_lower_def)
  have hd: "ascii_lower (hd slug) \<or> py_isdecimal (hd slug)" if "slug \<noteq> []"
  proof -
    have ne: "?t \<noteq> []" using that by (auto simp: slug_def py_lower_def)
    then have "hd ?t \<noteq> CHR ''_''" using strip_chars_ends [of ?u] by blast
    then have "ascii_alnum (hd ?t)" using t [of "hd ?t"] ne by simp
    then show ?thesis using lower_alnum [of "hd ?t"] ne by (simp add: slug_def py_lower_def hd_map)
  qed
  have name: "slugify_ruleset_name name =
      (if slug = [] then ''ruleset'' else if py_isdigit (hd slug) then ''rs_'' @ slug else slug)"
    by (simp add: slugify_ruleset_name_def slug_def)
  have literal: "slug_ok ''ruleset''" "ascii_lower (CHR ''r'')" "ascii_lower (CHR ''s'')" by code_simp+
  show ?thesis
    using chars hd literal decimal_isdigit unfolding name slug_ok_def by (auto simp: list_all_iff)
qed

lemma slug_no_newline: "slug_ok s \<Longrightarrow> \<not> ends_with s [newline]"
proof
  assume "slug_ok s" "ends_with s [newline]"
  then have "newline \<in> set s" by (simp add: ends_with_iff) auto
  with \<open>slug_ok s\<close> have "ascii_lower newline \<or> py_isdecimal newline \<or> newline = CHR ''_''"
    by (auto simp: slug_ok_def list_all_iff)
  moreover have "\<not> (ascii_lower newline \<or> py_isdecimal newline \<or> newline = CHR ''_'')" by code_simp
  ultimately show False by contradiction
qed

text \<open>Whatever a rule set is called, its slug is a valid segment of an HAProxy variable: it begins
  with a lower-case letter or an underscore and holds only those and digits.\<close>

theorem slugify_valid: "slug_ok (slugify_ruleset_name name) \<and> validate_slug (slugify_ruleset_name name)"
  using slugify_slug_ok slug_no_newline [OF slugify_slug_ok] by (simp add: validate_slug_def)

section \<open>The rule sets stay well-formed\<close>

datatype ruleset_op =
    Create string
  | Update int "string option" "bool option"
  | Delete int bool
  | Seed

text \<open>What an operation leaves of the database; one that raises leaves it as it was.\<close>

fun run_op :: "(int list \<Rightarrow> int) \<Rightarrow> risk_db \<Rightarrow> ruleset_op \<Rightarrow> risk_db" where
  "run_op fresh db (Create name) = db\<lparr>db_rulesets := snd (create_ruleset fresh name (db_rulesets db))\<rparr>"
| "run_op fresh db (Update i name enabled) =
     (case update_ruleset i name enabled (db_rulesets db) of Inl e \<Rightarrow> db | Inr rs \<Rightarrow> db\<lparr>db_rulesets := rs\<rparr>)"
| "run_op fresh db (Delete i force) = (case delete_ruleset i force db of Inl e \<Rightarrow> db | Inr db' \<Rightarrow> db')"
| "run_op fresh db Seed = fst (seed_baseline_rules fresh db)"

definition rulesets_ok :: "risk_ruleset list \<Rightarrow> bool" where
  "rulesets_ok rs \<longleftrightarrow> distinct (map rs_id rs) \<and> distinct (map rs_slug rs) \<and> list_all (slug_ok \<circ> rs_slug) rs"

definition has_default :: "risk_ruleset list \<Rightarrow> bool" where
  "has_default rs \<longleftrightarrow> list_ex (\<lambda>r. rs_slug r = ''default'') rs"

lemma slug_ok_suffixed: "slug_ok s \<Longrightarrow> slug_ok (suffixed s i)"
  by (auto simp: slug_ok_def suffixed_def list_all_iff dest: nat_str_decimal)

lemma free_suffix_form: "\<exists>j. free_suffix base taken i = suffixed base j"
proof (induction base taken i rule: free_suffix.induct)
  case (1 base used i)
  then show ?case by (cases "suffixed base i \<in> set used") (auto simp: free_suffix.simps [of base used i])
qed

lemma free_slug_ok: "slug_ok base \<Longrightarrow> slug_ok (free_slug base taken) \<and> free_slug base taken \<notin> set taken"
  using free_suffix_form [of base taken 2] free_suffix_free slug_ok_suffixed by (auto simp: free_slug_def)

lemma rulesets_ok_snoc:
  "rulesets_ok (rs @ [r]) \<longleftrightarrow> rulesets_ok rs \<and> rs_id r \<notin> set (map rs_id rs) \<and> rs_slug r \<notin> set (map rs_slug rs) \<and>
     slug_ok (rs_slug r)"
  by (auto simp: rulesets_ok_def)

lemma create_ok:
  "rulesets_ok rs \<Longrightarrow> fresh (map rs_id rs) \<notin> set (map rs_id rs) \<Longrightarrow> rulesets_ok (snd (create_ruleset fresh name rs))"
  using free_slug_ok [OF slugify_slug_ok, of name "map rs_slug rs"]
  by (simp add: create_ruleset_def Let_def rulesets_ok_snoc)

lemma rename_keeps:
  assumes "renamed name r rs = Inr r1"
  shows "rs_id r1 = rs_id r \<and> (rs_slug r1 = rs_slug r \<or> rs_slug r \<noteq> ''default'' \<and>
    slug_ok (rs_slug r1) \<and> (\<forall>x\<in>set rs. rs_slug x = rs_slug r1 \<longrightarrow> rs_id x = rs_id r))"
  using assms slugify_slug_ok by (auto simp: renamed_def rename_ruleset_def Let_def split: if_splits)

lemma set_ruleset_ok:
  assumes ok: "rulesets_ok rs" and r: "r \<in> set rs" and id: "rs_id r1 = rs_id r"
    and slug: "rs_slug r1 = rs_slug r \<or> slug_ok (rs_slug r1) \<and> (\<forall>x\<in>set rs. rs_slug x = rs_slug r1 \<longrightarrow> rs_id x = rs_id r)"
  shows "rulesets_ok (set_ruleset r1 rs)"
proof -
  let ?f = "\<lambda>x. if rs_id x = rs_id r1 then r1 else x"
  have inj_id: "inj_on rs_id (set rs)" and inj_slug: "inj_on rs_slug (set rs)" and dist: "distinct rs"
    using ok by (auto simp: rulesets_ok_def distinct_map)
  have same: "x = r" if "x \<in> set rs" "rs_id x = rs_id r1" for x
    using that r id inj_id by (auto dest: inj_onD)
  have "map rs_id (map ?f rs) = map rs_id rs" by auto
  then have "distinct (map rs_id (map ?f rs))" using ok unfolding rulesets_ok_def by (simp only:)
  moreover have "inj_on (rs_slug \<circ> ?f) (set rs)"
  proof (rule inj_onI)
    have clash: "rs_id y = rs_id r1" if "y \<in> set rs" "rs_slug y = rs_slug r1" for y
      using slug
    proof
      assume "rs_slug r1 = rs_slug r"
      with that have "y = r" using inj_onD [OF inj_slug] r by metis
      then show ?thesis using id by simp
    next
      assume "slug_ok (rs_slug r1) \<and> (\<forall>x\<in>set rs. rs_slug x = rs_slug r1 \<longrightarrow> rs_id x = rs_id r)"
      with that id show ?thesis by simp
    qed
    fix x y assume x: "x \<in> set rs" and y: "y \<in> set rs" and eq: "(rs_slug \<circ> ?f) x = (rs_slug \<circ> ?f) y"
    consider "rs_id x = rs_id r1 \<and> rs_id y = rs_id r1" | "rs_id x \<noteq> rs_id r1 \<and> rs_id y \<noteq> rs_id r1"
      using eq clash [OF x] clash [OF y] by fastforce
    then show "x = y"
    proof cases
      case 1
      then have "x = r" "y = r" using same x y by auto
      then show ?thesis by simp
    next
      case 2
      with eq have "rs_slug x = rs_slug y" by simp
      with inj_slug x y show ?thesis by (simp add: inj_on_def)
    qed
  qed
  moreover have "list_all (slug_ok \<circ> rs_slug) (map ?f rs)"
    using ok slug r by (auto simp: rulesets_ok_def list_all_iff)
  ultimately show ?thesis
    using dist unfolding rulesets_ok_def set_ruleset_def map_map distinct_map by blast
qed

lemma find_ruleset_in: "find_ruleset i rs = Some r \<Longrightarrow> r \<in> set rs \<and> rs_id r = i"
  using find_SomeD by (force simp: find_ruleset_def)

lemma update_keeps:
  assumes "update_ruleset i name enabled rs = Inr rs'" "rulesets_ok rs"
  shows "rulesets_ok rs' \<and> (has_default rs \<longrightarrow> has_default rs')"
proof -
  obtain r where r: "find_ruleset i rs = Some r" using assms(1) by (auto simp: update_ruleset_def split: option.splits)
  obtain r1 where r1: "renamed name r rs = Inr r1" and rs': "rs' = set_ruleset (switched enabled r1) rs"
    using assms(1) r by (auto simp: update_ruleset_def res_simps)
  let ?r2 = "switched enabled r1"
  note kept = rename_keeps [OF r1]
  have r2: "rs_id ?r2 = rs_id r" "rs_slug ?r2 = rs_slug r1" using kept by (simp_all add: switched_def split: option.split)
  have "rulesets_ok rs'"
    unfolding rs' using assms(2) find_ruleset_in [OF r] kept r2 by (intro set_ruleset_ok) auto
  moreover have "has_default rs'" if def: "has_default rs"
  proof -
    obtain x where x: "x \<in> set rs" "rs_slug x = ''default''" using def by (auto simp: has_default_def list_ex_iff)
    have "rs_slug (if rs_id x = rs_id ?r2 then ?r2 else x) = ''default''"
    proof (cases "rs_id x = rs_id r")
      case True
      then have "x = r" using assms(2) x(1) find_ruleset_in [OF r] by (auto simp: rulesets_ok_def distinct_map inj_on_def)
      with x kept r2 show ?thesis by simp
    qed (use x r2 in simp)
    moreover have "(if rs_id x = rs_id ?r2 then ?r2 else x) \<in> set rs'"
      using x(1) by (auto simp: rs' set_ruleset_def)
    ultimately show ?thesis unfolding has_default_def list_ex_iff by blast
  qed
  ultimately show ?thesis by blast
qed

lemma delete_keeps:
  assumes "delete_ruleset i force db = Inr db'" "rulesets_ok (db_rulesets db)"
  shows "rulesets_ok (db_rulesets db') \<and> (\<not> force \<longrightarrow> has_default (db_rulesets db) \<longrightarrow> has_default (db_rulesets db'))"
proof -
  obtain r where r: "find_ruleset i (db_rulesets db) = Some r" and kept: "rs_slug r = ''default'' \<longrightarrow> force"
    and db': "db_rulesets db' = filter (\<lambda>x. rs_id x \<noteq> i) (db_rulesets db)"
    using assms(1) by (auto simp: delete_ruleset_def split: option.splits if_splits)
  have "rulesets_ok (db_rulesets db')"
    using assms(2) by (auto simp: db' rulesets_ok_def distinct_map_filter list_all_iff)
  moreover have "has_default (db_rulesets db')" if def: "\<not> force" "has_default (db_rulesets db)"
  proof -
    obtain x where x: "x \<in> set (db_rulesets db)" "rs_slug x = ''default''"
      using def(2) unfolding has_default_def list_ex_iff by blast
    have "rs_id x \<noteq> i"
    proof
      assume "rs_id x = i"
      then have "x = r" using assms(2) x(1) find_ruleset_in [OF r] by (auto simp: rulesets_ok_def distinct_map inj_on_def)
      with kept def(1) x show False by simp
    qed
    with x have "x \<in> set (db_rulesets db')" by (simp add: db')
    with x show ?thesis unfolding has_default_def list_ex_iff by blast
  qed
  ultimately show ?thesis by blast
qed

text \<open>Only the first loop of the seeding touches the rule sets.\<close>

lemma seed_lists_rulesets: "db_rulesets (sd_db (foldl seed_list s rows)) = db_rulesets (sd_db s)"
  by (induction rows arbitrary: s) (auto simp: seed_list_def skip_one_def Let_def split: prod.split)

lemma seed_rules_rulesets: "db_rulesets (sd_db (foldl (seed_rule fresh names) s rows)) = db_rulesets (sd_db s)"
  by (induction rows arbitrary: s) (auto simp: seed_rule_def skip_one_def Let_def split: prod.split option.split)

definition seed_start :: "risk_db \<Rightarrow> seed_state" where
  "seed_start db = \<lparr>sd_db = db, sd_slugs = [], sd_counters = [],
     sd_counts = \<lparr>n_rules = 0, n_lists = 0, n_rulesets = 0, n_skipped = 0\<rparr>\<rparr>"

lemma seed_rulesets:
  "db_rulesets (fst (seed_baseline_rules fresh db)) =
    (if has_default (db_rulesets db) then db_rulesets db
     else db_rulesets db @ [\<lparr>rs_id = fresh (map rs_id (db_rulesets db)), rs_name = ''Default'', rs_slug = ''default'',
       rs_enabled = True, rs_priority = top_priority (map rs_priority (db_rulesets db))\<rparr>])"
proof -
  have "List.find (\<lambda>r. rs_slug r = ''default'') rs = None \<longleftrightarrow> \<not> has_default rs" for rs
    by (auto simp: has_default_def find_None_iff list_ex_iff)
  then show ?thesis
    by (auto simp: seed_baseline_rules_def Let_def seed_lists_rulesets seed_rules_rulesets BASELINE_RULESETS_def
        seed_ruleset_def skip_one_def split: option.split) (metis option.distinct(1))+
qed

lemma run_op_keeps:
  assumes "rulesets_ok (db_rulesets db)" "\<And>ids. fresh ids \<notin> set ids"
  shows "rulesets_ok (db_rulesets (run_op fresh db op)) \<and>
    ((\<forall>i. op \<noteq> Delete i True) \<longrightarrow> has_default (db_rulesets db) \<longrightarrow> has_default (db_rulesets (run_op fresh db op)))"
proof (cases op)
  case (Create name)
  with assms(1) create_ok [of "db_rulesets db" fresh name] assms(2) [of "map rs_id (db_rulesets db)"] show ?thesis
    by (simp add: create_ruleset_def Let_def has_default_def)
next
  case (Update i name enabled)
  with assms(1) update_keeps [of i name enabled "db_rulesets db"] show ?thesis by (auto split: sum.split)
next
  case (Delete i force)
  with assms(1) delete_keeps [of i force db] show ?thesis by (auto split: sum.split)
next
  case Seed
  have "slug_ok ''default''" by code_simp
  with Seed assms(1) assms(2) [of "map rs_id (db_rulesets db)"] show ?thesis
    by (auto simp: seed_rulesets rulesets_ok_snoc has_default_def list_ex_iff)
qed

text \<open>C36: However rule sets are created, renamed, switched, deleted and seeded, their slugs stay valid
  and different, and once there is a default rule set, it stays until one is deleted by force.\<close>

theorem rulesets_stay_ok:
  assumes "rulesets_ok (db_rulesets db)" "\<And>ids. fresh ids \<notin> set ids"
  shows "rulesets_ok (db_rulesets (foldl (run_op fresh) db ops)) \<and>
    (list_all (\<lambda>op. case op of Delete i force \<Rightarrow> \<not> force | _ \<Rightarrow> True) ops \<longrightarrow> has_default (db_rulesets db) \<longrightarrow>
      has_default (db_rulesets (foldl (run_op fresh) db ops)))"
  using assms(1)
proof (induction ops arbitrary: db)
  case (Cons op ops)
  have "list_all (\<lambda>op. case op of Delete i force \<Rightarrow> \<not> force | _ \<Rightarrow> True) [op] \<Longrightarrow> \<forall>i. op \<noteq> Delete i True"
    by (auto split: ruleset_op.splits)
  with run_op_keeps [OF Cons.prems assms(2), of op] Cons.IH [of "run_op fresh db op"] show ?case by auto
qed simp

definition next_id :: "int list \<Rightarrow> int" where
  "next_id ids = (if ids = [] then 1 else Max (set ids) + 1)"

lemma next_id_fresh: "next_id ids \<notin> set ids"
proof
  assume "next_id ids \<in> set ids"
  then have "ids \<noteq> []" "next_id ids \<le> Max (set ids)" by auto
  then show False by (simp add: next_id_def)
qed

definition empty_risk_db :: risk_db where
  "empty_risk_db = \<lparr>db_rulesets = [], db_rules = [], db_lists = []\<rparr>"

theorem rulesets_stay_ok_witness:
  "rulesets_ok (db_rulesets (foldl (run_op next_id) empty_risk_db
     [Seed, Create ''Mobile apps'', Create ''mobile-apps'', Update 1 (Some ''mobile apps'') None, Delete 0 False]))"
proof -
  have "rulesets_ok (db_rulesets empty_risk_db)" by (simp add: rulesets_ok_def empty_risk_db_def)
  from rulesets_stay_ok [OF this next_id_fresh] show ?thesis by blast
qed

end
