(* ===== verification/RiskBaseline.thy ===== *)
theory RiskBaseline imports RiskScoring begin

text \<open>
  The baseline of risk scoring: seeding it twice is seeding it once.
\<close>

section \<open>Seeding twice\<close>

definition skips :: "nat \<Rightarrow> seed_state \<Rightarrow> seed_state" where
  "skips n s = s\<lparr>sd_counts := (sd_counts s)\<lparr>n_skipped := n_skipped (sd_counts s) + n\<rparr>\<rparr>"

lemma skip_one_skips: "skip_one s = skips 1 s"
  by (simp add: skip_one_def skips_def)

lemma skips_skips [simp]: "skips m (skips n s) = skips (n + m) s"
  by (simp add: skips_def)

lemma skips_fields [simp]: "sd_db (skips n s) = sd_db s" "sd_slugs (skips n s) = sd_slugs s"
  "sd_counters (skips n s) = sd_counters s"
  by (simp_all add: skips_def)

text \<open>The lists: the loop adds what is missing and nothing else.\<close>

definition list_key :: "risk_list \<Rightarrow> string \<times> string" where
  "list_key l = (rl_name l, rl_type l)"

lemma list_present:
  "(\<exists>l\<in>set ls. rl_type l = t \<and> rl_name l = name) \<longleftrightarrow> (name, t) \<in> set (map list_key ls)"
  by (auto simp: list_key_def)

lemma seed_list_keys:
  "set (map list_key (db_lists (sd_db (seed_list s (name, t, es))))) =
    (if known_type t then insert (name, t) (set (map list_key (db_lists (sd_db s))))
     else set (map list_key (db_lists (sd_db s))))"
proof (cases "(name, t) \<in> set (map list_key (db_lists (sd_db s)))")
  case True
  then show ?thesis by (simp add: seed_list_def list_present skip_one_def insert_absorb del: set_map)
next
  case False
  then have "seed_list s (name, t, es) = (if \<not> known_type t then s else
      s\<lparr>sd_db := (sd_db s)\<lparr>db_lists := db_lists (sd_db s) @ [\<lparr>rl_type = t, rl_name = name, rl_entries = es\<rparr>]\<rparr>,
        sd_counts := (sd_counts s)\<lparr>n_lists := n_lists (sd_counts s) + 1\<rparr>\<rparr>)"
    unfolding seed_list_def Let_def list_present by simp
  then show ?thesis by (simp add: list_key_def)
qed

lemma seed_lists_keys:
  "set (map list_key (db_lists (sd_db (foldl seed_list s rows)))) =
    set (map list_key (db_lists (sd_db s))) \<union>
    (\<lambda>row. (fst row, fst (snd row))) ` {row \<in> set rows. known_type (fst (snd row))}"
proof (induction rows arbitrary: s)
  case (Cons row rows)
  obtain name t es where row: "row = (name, t, es)" by (cases row)
  have split: "{r \<in> set (row # rows). known_type (fst (snd r))} =
      (if known_type t then insert row else id) {r \<in> set rows. known_type (fst (snd r))}"
    by (auto simp: row)
  show ?case unfolding split foldl.simps Cons.IH by (simp add: row seed_list_keys del: set_map)
qed simp

lemma seed_lists_again:
  assumes "\<forall>row\<in>set rows. known_type (fst (snd row)) \<and>
    (fst row, fst (snd row)) \<in> set (map list_key (db_lists (sd_db s)))"
  shows "foldl seed_list s rows = skips (length rows) s"
  using assms
proof (induction rows arbitrary: s)
  case (Cons row rows)
  obtain name t es where row: "row = (name, t, es)" by (cases row)
  have "(name, t) \<in> set (map list_key (db_lists (sd_db s)))" "known_type t"
    using Cons.prems by (simp_all only: row fst_conv snd_conv list.set insert_iff ball_simps)
  then have "seed_list s row = skips 1 s"
    by (simp add: seed_list_def row skip_one_skips list_present del: set_map)
  with Cons show ?case by simp
qed (simp add: skips_def)

text \<open>The rules, likewise by name, for rows whose rule set was found.\<close>

lemma seed_rule_names:
  "set (map rr_name (db_rules (sd_db (seed_rule fresh names s row)))) \<supseteq>
    set (map rr_name (db_rules (sd_db s))) \<and> sd_slugs (seed_rule fresh names s row) = sd_slugs s"
  by (cases row) (auto simp: seed_rule_def skip_one_def Let_def split: option.split)

lemma seed_rules_names:
  assumes "\<forall>row\<in>set rows. map_of (sd_slugs s) (fst row) \<noteq> None"
  shows "set names \<union> set (map rr_name (db_rules (sd_db (foldl (seed_rule fresh names) s rows)))) \<supseteq>
    set names \<union> set (map rr_name (db_rules (sd_db s))) \<union> (\<lambda>row. fst (snd row)) ` set rows"
  using assms
proof (induction rows arbitrary: s)
  case (Cons row rows)
  let ?s1 = "seed_rule fresh names s row"
  have keep: "set (map rr_name (db_rules (sd_db s))) \<subseteq> set (map rr_name (db_rules (sd_db ?s1)))"
    and slugs: "sd_slugs ?s1 = sd_slugs s" using seed_rule_names by blast+
  have "fst (snd row) \<in> set names \<union> set (map rr_name (db_rules (sd_db ?s1)))"
    using Cons.prems by (cases row) (auto simp: seed_rule_def skip_one_def Let_def split: option.split)
  moreover have "\<forall>row\<in>set rows. map_of (sd_slugs ?s1) (fst row) \<noteq> None"
    using Cons.prems by (simp add: slugs)
  note Cons.IH [OF this]
  ultimately show ?case using keep by (simp only: foldl.simps list.set image_insert) blast
qed simp

lemma seed_rules_again:
  assumes "\<forall>row\<in>set rows. fst (snd row) \<in> set names"
  shows "foldl (seed_rule fresh names) s rows = skips (length rows) s"
  using assms
proof (induction rows arbitrary: s)
  case (Cons row rows)
  then have "seed_rule fresh names s row = skips 1 s"
    by (cases row) (simp add: seed_rule_def skip_one_skips)
  with Cons show ?case by simp
qed (simp add: skips_def)

lemma seed_rules_keep:
  "set (map rr_name (db_rules (sd_db s))) \<subseteq> set (map rr_name (db_rules (sd_db (foldl (seed_rule fresh names) s rows))))"
proof (induction rows arbitrary: s)
  case (Cons row rows)
  show ?case unfolding foldl.simps by (rule subset_trans [OF conjunct1 [OF seed_rule_names] Cons.IH])
qed simp

lemma seed_lists_other:
  "db_rules (sd_db (foldl seed_list s rows)) = db_rules (sd_db s) \<and> sd_slugs (foldl seed_list s rows) = sd_slugs s"
  by (induction rows arbitrary: s) (auto simp: seed_list_def skip_one_def Let_def split: prod.split)

lemma seed_rules_lists:
  "db_lists (sd_db (foldl (seed_rule fresh names) s rows)) = db_lists (sd_db s)"
  by (induction rows arbitrary: s) (auto simp: seed_rule_def skip_one_def Let_def split: prod.split option.split)

lemma seed_ruleset_start:
  "db_rules (sd_db (foldl (seed_ruleset fresh) (seed_start db) BASELINE_RULESETS)) = db_rules db \<and>
   db_lists (sd_db (foldl (seed_ruleset fresh) (seed_start db) BASELINE_RULESETS)) = db_lists db \<and>
   map fst (sd_slugs (foldl (seed_ruleset fresh) (seed_start db) BASELINE_RULESETS)) = [''default'']"
  by (simp add: BASELINE_RULESETS_def seed_ruleset_def seed_start_def skip_one_def Let_def split: option.split)

text \<open>What the database holds after a seeding.\<close>

definition seeded :: "risk_db \<Rightarrow> bool" where
  "seeded db \<longleftrightarrow> has_default (db_rulesets db) \<and>
     (\<forall>row\<in>set BASELINE_LISTS. (fst row, fst (snd row)) \<in> set (map list_key (db_lists db))) \<and>
     (\<forall>row\<in>set BASELINE_RULES. fst (snd row) \<in> set (map rr_name (db_rules db)))"

lemma seed_phases:
  "seed_baseline_rules fresh db =
    (let s2 = foldl seed_list (foldl (seed_ruleset fresh) (seed_start db) BASELINE_RULESETS) BASELINE_LISTS;
         s4 = foldl (seed_rule fresh (map rr_name (db_rules db)))
           (s2\<lparr>sd_counters := foldl (seed_counter (db_rules db)) [] (map snd (sd_slugs s2))\<rparr>) BASELINE_RULES
     in (sd_db s4, sd_counts s4))"
  by (simp add: seed_baseline_rules_def seed_start_def Let_def)

lemma baseline_shape:
  "list_all (\<lambda>row. known_type (fst (snd row))) BASELINE_LISTS" "list_all (\<lambda>row. fst row = ''default'') BASELINE_RULES"
  by (simp_all add: BASELINE_LISTS_def BASELINE_RULES_def known_type_def)

lemma seeded_after: "seeded (fst (seed_baseline_rules fresh db))"
proof -
  let ?s1 = "foldl (seed_ruleset fresh) (seed_start db) BASELINE_RULESETS"
  let ?s2 = "foldl seed_list ?s1 BASELINE_LISTS"
  let ?s3 = "?s2\<lparr>sd_counters := foldl (seed_counter (db_rules db)) [] (map snd (sd_slugs ?s2))\<rparr>"
  let ?s4 = "foldl (seed_rule fresh (map rr_name (db_rules db))) ?s3 BASELINE_RULES"
  have db: "fst (seed_baseline_rules fresh db) = sd_db ?s4" by (simp add: seed_phases Let_def)
  have "has_default (db_rulesets (sd_db ?s4))"
    unfolding db [symmetric] seed_rulesets by (auto simp: has_default_def)
  moreover have "(fst row, fst (snd row)) \<in> set (map list_key (db_lists (sd_db ?s4)))"
    if "row \<in> set BASELINE_LISTS" for row
  proof -
    have "known_type (fst (snd row))" using list_allD [OF baseline_shape(1) that] .
    with that have "(fst row, fst (snd row)) \<in> set (map list_key (db_lists (sd_db ?s2)))"
      unfolding seed_lists_keys by blast
    then show ?thesis by (simp add: seed_rules_lists del: set_map)
  qed
  moreover have "fst (snd row) \<in> set (map rr_name (db_rules (sd_db ?s4)))" if "row \<in> set BASELINE_RULES" for row
  proof -
    have slugs: "map fst (sd_slugs ?s3) = [''default'']" using seed_ruleset_start seed_lists_other by simp
    have "\<forall>row\<in>set BASELINE_RULES. map_of (sd_slugs ?s3) (fst row) \<noteq> None"
    proof
      fix row assume "row \<in> set BASELINE_RULES"
      then have "fst row = ''default''" by (rule list_allD [OF baseline_shape(2)])
      then show "map_of (sd_slugs ?s3) (fst row) \<noteq> None" using slugs by (simp add: map_of_eq_None_iff flip: set_map)
    qed
    from seed_rules_names [OF this, of "map rr_name (db_rules db)" fresh] that
    have "fst (snd row) \<in> set (map rr_name (db_rules db)) \<union> set (map rr_name (db_rules (sd_db ?s4)))" by blast
    moreover have "db_rules (sd_db ?s3) = db_rules db" using seed_ruleset_start seed_lists_other by simp
    then have "set (map rr_name (db_rules db)) \<subseteq> set (map rr_name (db_rules (sd_db ?s4)))"
      using seed_rules_keep by metis
    ultimately show ?thesis by blast
  qed
  ultimately show ?thesis unfolding db seeded_def by blast
qed

text \<open>Seeding the baseline again changes nothing and counts every row of it as skipped.\<close>

theorem seed_idempotent:
  "let db1 = fst (seed_baseline_rules fresh db)
   in seed_baseline_rules fresh db1 = (db1, \<lparr>n_rules = 0, n_lists = 0, n_rulesets = 0, n_skipped = 22\<rparr>)"
proof -
  define db1 where "db1 = fst (seed_baseline_rules fresh db)"
  have ok: "seeded db1" unfolding db1_def by (rule seeded_after)
  let ?s1 = "foldl (seed_ruleset fresh) (seed_start db1) BASELINE_RULESETS"
  obtain r where "List.find (\<lambda>r. rs_slug r = ''default'') (db_rulesets db1) = Some r"
    using ok by (cases "List.find (\<lambda>r. rs_slug r = ''default'') (db_rulesets db1)")
      (auto simp: seeded_def has_default_def find_None_iff list_ex_iff)
  then have s1: "?s1 = skips 1 ((seed_start db1)\<lparr>sd_slugs := [(''default'', rs_id r)]\<rparr>)"
    by (simp add: BASELINE_RULESETS_def seed_ruleset_def seed_start_def skip_one_skips)
  have lists: "foldl seed_list ?s1 BASELINE_LISTS = skips (length BASELINE_LISTS) ?s1"
  proof (rule seed_lists_again, intro ballI conjI)
    fix row assume row: "row \<in> set BASELINE_LISTS"
    show "known_type (fst (snd row))" using list_allD [OF baseline_shape(1) row] .
    show "(fst row, fst (snd row)) \<in> set (map list_key (db_lists (sd_db ?s1)))"
      using ok row unfolding s1 by (simp add: seeded_def seed_start_def del: set_map)
  qed
  have rules: "foldl (seed_rule fresh (map rr_name (db_rules db1))) s BASELINE_RULES = skips (length BASELINE_RULES) s" for s
    using ok by (intro seed_rules_again) (simp add: seeded_def del: set_map)
  have "length BASELINE_LISTS = 4" "length BASELINE_RULES = 17"
    by (simp_all add: BASELINE_LISTS_def BASELINE_RULES_def)
  then have "seed_baseline_rules fresh db1 = (db1, \<lparr>n_rules = 0, n_lists = 0, n_rulesets = 0, n_skipped = 22\<rparr>)"
    unfolding seed_phases Let_def s1 lists [unfolded s1] rules by (simp add: skips_def seed_start_def)
  then show ?thesis by (simp add: db1_def Let_def)
qed

end
