(* ===== verification/Settings.thy ===== *)
theory Settings imports Texts begin

text \<open>
  The settings table of the backend (\<open>backend/app/services/settings.py\<close>): a value of the table wins
  over the attribute of the process's settings object, which wins over the caller's default.

  The table is a map from keys to values that may be null; \<open>attrs k\<close> is the text of the attribute
  \<open>k\<close>, \<open>None\<close> where there is none or it is \<open>None\<close>.  The keys are ASCII.
\<close>

type_synonym settings_table = "string \<rightharpoonup> string option"

definition upper_key :: "string \<Rightarrow> string" where
  "upper_key s = map (\<lambda>c. if ascii_lower c then char_of (ord c - 32) else c) s"

definition get_setting ::
  "(string \<Rightarrow> string option) \<Rightarrow> settings_table \<Rightarrow> string \<Rightarrow> string option \<Rightarrow> string option" where
  "get_setting attrs tbl key dflt =
     (case tbl key of
        Some (Some v) \<Rightarrow> Some v
      | _ \<Rightarrow> (case attrs (upper_key key) of Some v \<Rightarrow> Some v | None \<Rightarrow> dflt))"

definition set_setting :: "settings_table \<Rightarrow> string \<Rightarrow> string option \<Rightarrow> settings_table" where
  "set_setting tbl key v = tbl(key \<mapsto> v)"

text \<open>A written value is read back; other keys are not touched.\<close>

lemma get_set [simp]:
  "get_setting attrs (set_setting tbl k (Some v)) k' dflt =
     (if k' = k then Some v else get_setting attrs tbl k' dflt)"
  by (simp add: get_setting_def set_setting_def)

definition optional_set :: "settings_table \<Rightarrow> string \<Rightarrow> string option \<Rightarrow> settings_table" where
  "optional_set tbl key v = (case v of None \<Rightarrow> tbl | Some s \<Rightarrow> set_setting tbl key (Some s))"

lemma get_optional_set [simp]:
  "get_setting attrs (optional_set tbl k v) k' dflt =
     (if k' = k \<and> v \<noteq> None then v else get_setting attrs tbl k' dflt)"
  by (auto simp: optional_set_def split: option.split)

text \<open>\<open>text in ("true", "1", "yes")\<close> after \<open>lower\<close>, \<open>str(bool)\<close> and its lower case, and \<open>int(text)\<close>.\<close>

definition text_true :: "string \<Rightarrow> bool" where
  "text_true s \<longleftrightarrow> py_lower s \<in> set [''true'', ''1'', ''yes'']"

definition bool_text :: "bool \<Rightarrow> string" where
  "bool_text b = (if b then ''True'' else ''False'')"

definition int_of_text :: "string \<Rightarrow> int res" where
  "int_of_text s = (case py_int_of_str s of None \<Rightarrow> Inl ValueError | Some i \<Rightarrow> Inr i)"

lemma text_true_bool [simp]: "text_true (py_lower (bool_text b)) = b" "text_true (bool_text b) = b"
proof -
  have "text_true (py_lower ''True'')" "text_true ''True''" "\<not> text_true (py_lower ''False'')" "\<not> text_true ''False''"
    by code_simp+
  then show "text_true (py_lower (bool_text b)) = b" "text_true (bool_text b) = b"
    by (cases b; simp add: bool_text_def)+
qed

text \<open>Comma-separated lists: \<open>[p.strip() for p in s.split(",") if p.strip()]\<close>.\<close>

definition comma_list :: "string \<Rightarrow> string list" where
  "comma_list s = filter (\<lambda>w. w \<noteq> []) (map strip (split_char CHR '','' s))"

end
