(* ===== verification/McpBundle.thy ===== *)
theory McpBundle imports RouteCall JsonReader Settings begin

text \<open>
  The backend's side of the config bundle (\<open>backend/app/services/mcp_config.py\<close>,
  \<open>settings.py\<close> and \<open>mcp_secrets.py\<close>): the dicts it builds from the rows, the whole bundle, its
  two files, the redacted text used for diffs and the copy of the applied bundle.

  A row of a table is a dict from its columns to JSON values (a \<open>datetime\<close> by its ISO text), read
  with \<open>column\<close>; the tables are in the order of their ids, as the queries ask.  Fernet, AES-GCM,
  SHA-256, UTF-8, \<open>urlparse\<close> and the settings of the process are fields of \<open>bundle_env\<close>.  Files
  are a map from paths to bytes; writing a temporary file and renaming it is one write.

  \<open>signed_bundle_never_verifies\<close> puts the writer and the gateway's loader together: what the
  backend signs is not what the gateway checks.  \<open>applied_text_stable\<close> shows that the text of an
  applied bundle is what change detection computes.
\<close>

section \<open>Rows and surroundings\<close>

type_synonym row = "json dict"

definition column :: "row \<Rightarrow> string \<Rightarrow> json" where
  "column r k = dict_get r k JNull"

definition columns :: "string list \<Rightarrow> row \<Rightarrow> json dict" where
  "columns ks r = map (\<lambda>k. (k, column r k)) ks"

record mcp_db =
  md_servers :: "row list"
  md_replicas :: "row list"
  md_identities :: "row list"
  md_teams :: "row list"
  md_policies :: "row list"
  md_dlp_rules :: "row list"
  md_guardrails :: "row list"
  md_skills :: "row list"
  md_versions :: "row list"
  md_settings :: settings_table

record bundle_env =
  be_getenv :: "string \<Rightarrow> string option"
  be_setting :: "string \<Rightarrow> string option"
  be_refresh_seconds :: int
  be_fernet_encrypt :: "string \<Rightarrow> string"
  be_fernet_decrypt :: "string \<Rightarrow> string option"
  be_aesgcm_encrypt :: "string \<Rightarrow> string"
  be_sha256_hex :: "string \<Rightarrow> string"
  be_hmac_hex :: "string \<Rightarrow> string \<Rightarrow> string"
  be_utf8 :: "string \<Rightarrow> string"
  be_utf8_decode :: "string \<Rightarrow> string option"
  be_utf8_replace :: "string \<Rightarrow> string"
  be_urlparse_path :: "string \<Rightarrow> string res"

text \<open>\<open>rows_enabled\<close> is the filter \<open>enabled == True\<close> of the queries.\<close>

definition rows_enabled :: "row list \<Rightarrow> row list" where
  "rows_enabled rs = filter (\<lambda>r. column r ''enabled'' = JBool True) rs"

definition str_column :: "row \<Rightarrow> string \<Rightarrow> string option" where
  "str_column r k = str_of (column r k)"

section \<open>Settings\<close>

text \<open>\<open>get_setting\<close> with a default, on the settings table of the database.\<close>

definition db_setting :: "bundle_env \<Rightarrow> mcp_db \<Rightarrow> string \<Rightarrow> string \<Rightarrow> string" where
  "db_setting be db key dflt =
     or_default (get_setting (be_setting be) (md_settings db) key (Some dflt)) dflt"

definition config_setting :: "bundle_env \<Rightarrow> string \<Rightarrow> string" where
  "config_setting be key = or_default (be_setting be key) ''''"

section \<open>Secrets\<close>

definition has_secrets_key :: "bundle_env \<Rightarrow> bool" where
  "has_secrets_key be \<longleftrightarrow>
     config_setting be ''MCP_SECRETS_KEY'' \<noteq> [] \<or> or_default (be_getenv be ''MCP_SECRETS_KEY'') '''' \<noteq> []"

text \<open>\<open>None\<close> is the \<open>RuntimeError\<close> without a key or the \<open>ValueError\<close> of a bad ciphertext; every
  caller handles both alike.\<close>

definition decrypt_secret :: "bundle_env \<Rightarrow> string \<Rightarrow> string option" where
  "decrypt_secret be ciphertext =
     (if has_secrets_key be
      then (case be_fernet_decrypt be (be_utf8 be ciphertext) of None \<Rightarrow> None | Some p \<Rightarrow> be_utf8_decode be p)
      else None)"

definition opt_json :: "string option \<Rightarrow> json" where
  "opt_json x = (case x of None \<Rightarrow> JNull | Some s \<Rightarrow> JStr s)"

text \<open>A ciphertext column, empty or absent ones give \<open>None\<close>.\<close>

definition open_column :: "bundle_env \<Rightarrow> row \<Rightarrow> string \<Rightarrow> json" where
  "open_column be r k =
     (case str_column r k of
        Some c \<Rightarrow> if c = [] then JNull else opt_json (decrypt_secret be c)
      | None \<Rightarrow> JNull)"

definition hex_char :: "char \<Rightarrow> bool" where
  "hex_char c \<longleftrightarrow> c \<in> set ''0123456789abcdef''"

definition mask_token :: "string \<Rightarrow> bool" where
  "mask_token s \<longleftrightarrow>
     starts_with s ''***'' \<and> ends_with s ''***'' \<and> 14 \<le> length s \<and>
     (let inner = take (length s - 6) (drop 3 s) in length inner = 8 \<and> list_all hex_char inner)"

definition mask_secret :: "bundle_env \<Rightarrow> json \<Rightarrow> json" where
  "mask_secret be v =
     (case v of
        JStr s \<Rightarrow> if s = [] \<or> mask_token s then v
                  else JStr (''***'' @ take 8 (be_sha256_hex be (be_utf8 be s)) @ ''***'')
      | _ \<Rightarrow> v)"

section \<open>Redaction\<close>

text \<open>The loops replace the values of present keys, so that every key keeps its place.\<close>

definition secret_keys :: "string list" where
  "secret_keys = [''auth_secret'', ''oauth_client_secret'', ''oauth_access_token'', ''oauth_refresh_token'']"

definition redact_server :: "bundle_env \<Rightarrow> json dict \<Rightarrow> json dict" where
  "redact_server be d =
     map (\<lambda>(k, v).
       if k \<in> set secret_keys then (k, mask_secret be v)
       else if k = ''env_vars'' then
         (case v of JObj e \<Rightarrow> (k, JObj (map (\<lambda>(n, x). (n, mask_secret be x)) e)) | _ \<Rightarrow> (k, v))
       else (k, v)) d"

text \<open>\<open>None\<close> where the code raises because something is not a dict.\<close>

definition redact_servers :: "bundle_env \<Rightarrow> json \<Rightarrow> json option" where
  "redact_servers be v =
     (case v of
        JList xs \<Rightarrow>
          (if list_all is_obj xs then Some (JList (map (\<lambda>x. JObj (redact_server be (obj_entries x))) xs)) else None)
      | JObj d \<Rightarrow> (if d = [] then Some v else None)
      | JStr s \<Rightarrow> (if s = [] then Some v else None)
      | _ \<Rightarrow> None)"

definition redact_bundle :: "bundle_env \<Rightarrow> json \<Rightarrow> json option" where
  "redact_bundle be bundle =
     (case bundle of
        JObj d \<Rightarrow>
          map_option (\<lambda>ss. JObj (map (\<lambda>(k, v). if k = ''servers'' then (k, ss) else (k, v)) d))
            (redact_servers be (dict_get d ''servers'' (JList [])))
      | _ \<Rightarrow> None)"

section \<open>The dicts of the bundle\<close>

text \<open>
  The stored environment of a server: values that are texts are opened, or kept where they cannot
  be; what is not JSON is dropped, what is JSON but not an object makes \<open>.items()\<close> raise.
\<close>

definition env_value :: "bundle_env \<Rightarrow> json \<Rightarrow> json" where
  "env_value be v =
     (case v of
        JStr s \<Rightarrow> if s = [] then v else JStr (or_default (decrypt_secret be s) s)
      | _ \<Rightarrow> v)"

definition server_env :: "engine \<Rightarrow> bundle_env \<Rightarrow> row \<Rightarrow> json res" where
  "server_env E be r =
     (case str_column r ''env_vars_json'' of
        None \<Rightarrow> Inr (JObj [])
      | Some s \<Rightarrow>
          if s = [] then Inr (JObj [])
          else (case json_loads E s of
                  None \<Rightarrow> Inr (JObj [])
                | Some (JObj d) \<Rightarrow> Inr (JObj (map (\<lambda>(k, v). (k, env_value be v)) d))
                | Some _ \<Rightarrow> Inl AttributeError))"

definition server_args :: "engine \<Rightarrow> row \<Rightarrow> json" where
  "server_args E r =
     (case str_column r ''args_json'' of
        None \<Rightarrow> JList []
      | Some s \<Rightarrow> if s = [] then JList [] else or_default (json_loads E s) (JList []))"

text \<open>With replicas, the gateway is sent to the internal frontend.\<close>

definition server_url :: "bundle_env \<Rightarrow> row \<Rightarrow> nat \<Rightarrow> json res" where
  "server_url be r replicas =
     (case str_column r ''url'' of
        None \<Rightarrow> Inr (column r ''url'')
      | Some u \<Rightarrow>
          if 0 < replicas \<and> u \<noteq> [] then
            bind_res (be_urlparse_path be u)
              (\<lambda>path. Inr (JStr (''http://haproxy:'' @ config_setting be ''MCP_UPSTREAM_PORT'' @ ''/mcp-up/'' @
                or_default (str_column r ''namespace'') '''' @ or_text path ''/'')))
          else Inr (JStr u))"

definition or_json :: "json \<Rightarrow> json \<Rightarrow> json" where
  "or_json v dflt = (if py_truthy v then v else dflt)"

definition build_server_dict :: "engine \<Rightarrow> bundle_env \<Rightarrow> row \<Rightarrow> row list \<Rightarrow> json res" where
  "build_server_dict E be r replicas =
     bind_res (server_env E be r) (\<lambda>env_vars.
     bind_res (server_url be r (length replicas)) (\<lambda>url.
       Inr (JObj (
         columns [''id'', ''team_id'', ''name'', ''namespace'', ''display_name'', ''description''] r @
         [(''url'', url), (''original_url'', column r ''url'')] @
         columns [''enabled'', ''verify_tls'', ''auth_type'', ''auth_header''] r @
         [(''auth_secret'', if column r ''auth_type'' = JStr ''none'' then JNull else open_column be r ''auth_secret_enc'')] @
         columns [''timeout_ms'', ''max_body_bytes''] r @
         [(''has_replicas'', JBool (0 < length replicas)), (''replica_count'', JInt (int (length replicas))),
          (''transport_type'', or_json (column r ''transport_type'') (JStr ''streamable_http'')),
          (''command'', column r ''command''), (''args'', server_args E r), (''env_vars'', env_vars)] @
         columns [''package_manager'', ''source_package_name'', ''installed_version''] r @
         [(''oauth_enabled'', or_json (column r ''oauth_enabled'') (JBool False)),
          (''oauth_client_id'', column r ''oauth_client_id''),
          (''oauth_client_secret'', open_column be r ''oauth_client_secret_enc''),
          (''oauth_scopes'', column r ''oauth_scopes''),
          (''oauth_auth_status'', or_json (column r ''oauth_auth_status'') (JStr ''not_configured'')),
          (''oauth_access_token'', open_column be r ''oauth_token_enc''),
          (''oauth_refresh_token'', open_column be r ''oauth_refresh_token_enc'')] @
         columns [''oauth_token_expires_at'', ''oauth_auth_server_metadata_url'',
           ''oauth_protected_resource_metadata_url''] r))))"

definition build_identity_dict :: "row \<Rightarrow> json" where
  "build_identity_dict r = JObj (columns
     [''id'', ''team_id'', ''name'', ''description'', ''subject'', ''kind'', ''pat_hash'', ''pat_prefix'',
      ''jwt_issuer'', ''jwt_audience'', ''jwt_jwks_url'', ''enabled'', ''expires_at'', ''idp_source'',
      ''idp_external_id'', ''idp_user_info''] r)"

definition build_policy_dict :: "row \<Rightarrow> json" where
  "build_policy_dict r = JObj (columns
     [''id'', ''team_id'', ''name'', ''enabled'', ''priority'', ''expression'', ''expression_ast'', ''action'',
      ''log'', ''no_log''] r)"

definition build_dlp_rule_dict :: "row \<Rightarrow> json" where
  "build_dlp_rule_dict r = JObj (columns
     [''id'', ''team_id'', ''name'', ''enabled'', ''priority'', ''direction'', ''detector'', ''find_regex'',
      ''action'', ''token_prefix'', ''token_ttl'', ''apply_to''] r)"

definition build_guardrail_dict :: "row \<Rightarrow> json" where
  "build_guardrail_dict r = JObj (columns
     [''id'', ''team_id'', ''name'', ''enabled'', ''priority'', ''direction'', ''pack'', ''find_regex'', ''action''] r)"

definition build_skill_dict :: "row \<Rightarrow> row option \<Rightarrow> json" where
  "build_skill_dict r version = JObj (
     columns [''id'', ''team_id'', ''name'', ''description'', ''enabled'', ''enable_when'', ''enable_when_ast'',
       ''tags'', ''published_version_id''] r @
     (case version of
        None \<Rightarrow> [(''published_body'', JNull), (''published_frontmatter'', JNull), (''published_files'', JNull)]
      | Some v \<Rightarrow> [(''published_body'', column v ''body''), (''published_frontmatter'', column v ''frontmatter''),
                  (''published_files'', column v ''files'')]))"

definition server_replicas :: "mcp_db \<Rightarrow> row \<Rightarrow> row list" where
  "server_replicas db r = filter (\<lambda>p. column p ''server_id'' = column r ''id'') (rows_enabled (md_replicas db))"

definition published_version :: "mcp_db \<Rightarrow> row \<Rightarrow> row option" where
  "published_version db r =
     (if py_truthy (column r ''published_version_id'')
      then List.find (\<lambda>v. column v ''id'' = column r ''published_version_id'') (md_versions db)
      else None)"

definition get_multi_replica_servers :: "mcp_db \<Rightarrow> row list" where
  "get_multi_replica_servers db = filter (\<lambda>r. 0 < length (server_replicas db r)) (rows_enabled (md_servers db))"

section \<open>The bundle\<close>

definition auth0_url :: "bundle_env \<Rightarrow> string \<Rightarrow> string" where
  "auth0_url be path =
     (let dom = config_setting be ''AUTH0_DOMAIN'' in if dom \<noteq> [] then ''https://'' @ dom @ path else [])"

definition auth0_issuer :: "bundle_env \<Rightarrow> string" where
  "auth0_issuer be = auth0_url be ''/''"

definition auth0_audience :: "bundle_env \<Rightarrow> string" where
  "auth0_audience be =
     or_text (config_setting be ''AUTH0_MCP_AUDIENCE'') (config_setting be ''AUTH0_CLIENT_ID'')"

definition auth0_jwks_url :: "bundle_env \<Rightarrow> string" where
  "auth0_jwks_url be = auth0_url be ''/.well-known/jwks.json''"

definition team_id_text :: "row \<Rightarrow> string" where
  "team_id_text t = int_str (or_default (int_of (column t ''id'')) 0)"

definition build_team_rpm_overrides :: "bundle_env \<Rightarrow> mcp_db \<Rightarrow> row list \<Rightarrow> json dict" where
  "build_team_rpm_overrides be db teams =
     fold (\<lambda>t d. let v = db_setting be db (''mcp_team_rpm_'' @ team_id_text t) '''' in
              if v = [] then d
              else (case py_int_of_str v of None \<Rightarrow> d | Some i \<Rightarrow> AList.update (team_id_text t) (JInt i) d))
       teams []"

definition origins_of_text :: "string \<Rightarrow> string list" where
  "origins_of_text s = sort (comma_list s)"

definition build_config_bundle :: "engine \<Rightarrow> bundle_env \<Rightarrow> mcp_db \<Rightarrow> json dict res" where
  "build_config_bundle E be db =
     bind_res (each_res (\<lambda>r. build_server_dict E be r (server_replicas db r)) (rows_enabled (md_servers db)))
       (\<lambda>servers.
     bind_res (int_of_text (db_setting be db ''mcp_per_ip_limit'' (or_default (be_getenv be ''MCP_MAX_IP_RPM'') ''0'')))
       (\<lambda>per_ip.
     bind_res (int_of_text (db_setting be db ''mcp_concurrent_limit'' (or_default (be_getenv be ''MCP_MAX_CONCURRENT'') ''0'')))
       (\<lambda>concurrent.
     bind_res (int_of_text (db_setting be db ''mcp_default_rpm'' (config_setting be ''MCP_DEFAULT_RPM'')))
       (\<lambda>rpm. Inr [
         (''servers'', JList servers),
         (''identities'', JList (map build_identity_dict (rows_enabled (md_identities db)))),
         (''teams'', JList (map (\<lambda>t. JObj (columns [''id'', ''name'', ''slug''] t)) (md_teams db))),
         (''policies'', JList (map build_policy_dict (rows_enabled (md_policies db)))),
         (''dlp_rules'', JList (map build_dlp_rule_dict (rows_enabled (md_dlp_rules db)))),
         (''guardrails'', JList (map build_guardrail_dict (rows_enabled (md_guardrails db)))),
         (''skills'', JList (map (\<lambda>r. build_skill_dict r (published_version db r)) (rows_enabled (md_skills db)))),
         (''jwt_issuer'', JStr (db_setting be db ''mcp_jwt_issuer''
            (or_text (config_setting be ''MCP_JWT_ISSUER'') (auth0_issuer be)))),
         (''jwt_audience'', JStr (db_setting be db ''mcp_jwt_audience''
            (or_text (config_setting be ''MCP_JWT_AUDIENCE'') (auth0_audience be)))),
         (''jwt_jwks_url'', JStr (db_setting be db ''mcp_jwt_jwks_url''
            (or_text (config_setting be ''MCP_JWT_JWKS_URL'') (auth0_jwks_url be)))),
         (''allowed_origins'', JList (map JStr (origins_of_text
            (db_setting be db ''mcp_allowed_origins'' (config_setting be ''MCP_ALLOWED_ORIGINS''))))),
         (''log_payloads'', JBool (py_lower (db_setting be db ''mcp_log_payloads''
            (config_setting be ''MCP_LOG_PAYLOADS'')) \<in> set [''true'', ''1'', ''yes''])),
         (''default_rpm'', JInt rpm), (''per_ip_limit'', JInt per_ip), (''concurrent_limit'', JInt concurrent),
         (''catalog_refresh_seconds'', JInt (be_refresh_seconds be)),
         (''team_rpm_overrides'', JObj (build_team_rpm_overrides be db (md_teams db)))]))))"

section \<open>The files\<close>

type_synonym file_map = "string \<rightharpoonup> string"

definition mcp_config_path :: "bundle_env \<Rightarrow> string" where
  "mcp_config_path be = config_setting be ''MCP_CONFIG_PATH''"

definition encrypt_bundle_bytes :: "bundle_env \<Rightarrow> string \<Rightarrow> string" where
  "encrypt_bundle_bytes be p = (if has_secrets_key be then be_fernet_encrypt be p else p)"

definition signed_bundle :: "engine \<Rightarrow> bundle_env \<Rightarrow> json dict \<Rightarrow> json dict" where
  "signed_bundle E be bundle =
     sign_bundle E (be_hmac_hex be) (or_default (be_getenv be ''MCP_CONFIG_SIGNING_KEY'') '''') bundle"

definition sorted_text :: "engine \<Rightarrow> json \<Rightarrow> string" where
  "sorted_text E v = dumps_indent E 0 (sort_keys v)"

text \<open>The Fernet file for the Python gateway and the envelope for the Rust gateway beside it.\<close>

definition write_config_bundle :: "engine \<Rightarrow> bundle_env \<Rightarrow> mcp_db \<Rightarrow> file_map \<Rightarrow> file_map res" where
  "write_config_bundle E be db files =
     bind_res (build_config_bundle E be db) (\<lambda>b.
       (let plain = be_utf8 be (sorted_text E (JObj (signed_bundle E be b)));
            path = mcp_config_path be;
            rust = path_join (path_dirname path) ''config.bundle.json''
        in Inr (files(path \<mapsto> encrypt_bundle_bytes be plain,
                      rust \<mapsto> (if has_secrets_key be then be_aesgcm_encrypt be plain else plain)))))"

text \<open>\<open>_redact_bundle\<close> is total on what the builder makes; where it raises, so does the caller.\<close>

definition generate_mcp_bundle_text :: "engine \<Rightarrow> bundle_env \<Rightarrow> mcp_db \<Rightarrow> string res" where
  "generate_mcp_bundle_text E be db =
     bind_res (build_config_bundle E be db) (\<lambda>b.
       (case redact_bundle be (JObj (signed_bundle E be b)) of
          None \<Rightarrow> Inl AttributeError
        | Some v \<Rightarrow> Inr (sorted_text E v)))"

definition applied_path :: "bundle_env \<Rightarrow> string" where
  "applied_path be = mcp_config_path be @ ''.applied''"

definition read_applied_mcp_bundle :: "engine \<Rightarrow> bundle_env \<Rightarrow> file_map \<Rightarrow> string" where
  "read_applied_mcp_bundle E be files =
     (case files (applied_path be) of
        None \<Rightarrow> ''''
      | Some raw \<Rightarrow>
          (let opened = (if has_secrets_key be
                         then (case be_fernet_decrypt be raw of None \<Rightarrow> None | Some p \<Rightarrow> be_utf8_decode be p)
                         else None);
               body = or_default opened (be_utf8_replace be raw)
           in case json_loads E body of
                None \<Rightarrow> body
              | Some v \<Rightarrow> (case redact_bundle be v of None \<Rightarrow> body | Some w \<Rightarrow> sorted_text E w)))"

definition write_applied_mcp_bundle ::
  "engine \<Rightarrow> bundle_env \<Rightarrow> mcp_db \<Rightarrow> file_map \<Rightarrow> file_map res" where
  "write_applied_mcp_bundle E be db files =
     bind_res (generate_mcp_bundle_text E be db) (\<lambda>t. Inr (files(applied_path be \<mapsto> be_utf8 be t)))"

section \<open>Sorting keys\<close>

lemma sort_keys_str [simp]: "sort_keys v = JStr s \<longleftrightarrow> v = JStr s"
  by (cases v) simp_all

lemma sort_keys_idem [simp]: "sort_keys (sort_keys v) = sort_keys v"
proof (induction v rule: sort_keys.induct)
  case (1 d)
  let ?s = "map (\<lambda>(k, v). (k, sort_keys v))"
  have "?s (sort_key fst (?s d)) = sort_key fst (?s d)"
    using 1 by (intro map_idI) (auto simp: case_prod_unfold)
  moreover have "sort_key fst (sort_key fst xs) = sort_key fst xs" for xs :: "json dict"
    by (rule sort_key_id_if_sorted) simp
  ultimately show ?case by simp
qed (auto simp: o_def)

lemma sort_keys_entries:
  "set (sort_key fst (map (\<lambda>(k, v). (k, sort_keys v)) d)) = (\<lambda>(k, v). (k, sort_keys v)) ` set d"
  by simp

lemma delete_sorted_update:
  fixes k :: string and d :: "json dict"
  assumes "k \<notin> fst ` set d"
  shows "AList.delete k (sort_key fst (AList.update k v d)) = sort_key fst d"
proof -
  have "AList.delete k xs = filter (\<lambda>p. fst p \<noteq> k) xs" for xs :: "(string \<times> json) list"
    by (induction xs) auto
  moreover have "filter (\<lambda>p. fst p \<noteq> k) d = d" using assms by (auto simp: filter_id_conv)
  ultimately show ?thesis using assms by (simp add: filter_sort update_new)
qed

section \<open>The signature is over other bytes\<close>

text \<open>An indented text has a line break behind its opening brace, and so has the part of it in
  front of any mark that starts with a quote; the signed text has none.\<close>

lemma signed_part_head:
  "\<exists>r. signed_part (CHR ''{'' # newline # s) = CHR ''{'' # newline # r"
proof (cases "split_first (CHR ''{'' # newline # s) (signature_mark @ [CHR '':'', double_quote])")
  case (Some p)
  obtain a b where p: "p = (a, b)" by (cases p)
  have eq: "CHR ''{'' # newline # s = a @ (signature_mark @ [CHR '':'', double_quote]) @ b"
    using split_first_SomeD Some p by metis
  have dq: "double_quote \<noteq> CHR ''{''" "double_quote \<noteq> newline" by code_simp+
  obtain x y r where "a = x # y # r"
    using eq dq unfolding signature_mark_def by (cases a; cases "tl a") auto
  with eq have "a = CHR ''{'' # newline # r" by simp
  with Some p show ?thesis by (auto simp: signed_part_def)
qed (auto simp: signed_part_def)

lemma sorted_text_head: "d \<noteq> [] \<Longrightarrow> \<exists>r. sorted_text E (JObj d) = CHR ''{'' # newline # r"
proof -
  assume "d \<noteq> []"
  then have "sort_key fst (map (\<lambda>(k, v). (k, sort_keys v)) d) \<noteq> []"
    by (metis (no_types, lifting) length_0_conv length_map length_sort)
  then show ?thesis by (simp add: sorted_text_def indent_def)
qed

lemma payload_head: "\<nexists>r. json_dumps E (JObj d) = CHR ''{'' # newline # r"
proof -
  have "double_quote \<noteq> newline" "CHR ''}'' \<noteq> newline" by code_simp+
  then show ?thesis
    by (cases d rule: list.exhaust; cases "tl d") (auto simp: json_str_def)
qed

lemma signed_part_not_payload:
  assumes "d \<noteq> []"
  shows "signed_part (sorted_text E (JObj d)) \<noteq> json_dumps E (JObj e)"
proof -
  obtain r where "sorted_text E (JObj d) = CHR ''{'' # newline # r" using sorted_text_head [OF assms] by blast
  with signed_part_head payload_head show ?thesis by metis
qed

lemma bundle_keys:
  assumes "build_config_bundle E be db = Inr c"
  shows "c \<noteq> []" "''_signature'' \<notin> fst ` set c"
  using assms by (auto simp: build_config_bundle_def res_simps)

lemma map_of_only_key: "map_of (filter (\<lambda>p. fst p = k) xs) k = map_of xs k"
  by (induction xs) auto

lemma sorted_signed:
  assumes "''_signature'' \<notin> fst ` set c" and False: "key \<noteq> []"
  shows "\<exists>d. sort_keys (JObj (sign_bundle E hmac key c)) = JObj d \<and>
     JObj (AList.delete ''_signature'' d) = sort_keys (JObj c) \<and>
     dict_get d ''_signature'' v = JStr (hmac key (json_dumps E (sort_keys (JObj c))))"
proof -
  let ?c = "map (\<lambda>(k, v). (k, sort_keys v)) c"
  let ?sig = "JStr (hmac key (json_dumps E (sort_keys (JObj c))))"
  let ?d = "sort_key fst (AList.update ''_signature'' ?sig ?c)"
  have c: "''_signature'' \<notin> fst ` set ?c" using assms by force
  then have d: "?d = sort_key fst (?c @ [(''_signature'', ?sig)])" by (simp only: update_new [OF c])
  have "sort_keys (JObj (sign_bundle E hmac key c)) = JObj ?d"
    using False assms d by (simp add: sign_bundle_def update_new)
  moreover have "JObj (AList.delete ''_signature'' ?d) = sort_keys (JObj c)"
    using delete_sorted_update [OF c, of ?sig] by simp
  moreover have "dict_get ?d ''_signature'' v = ?sig"
  proof -
    have "filter (\<lambda>p. fst p = ''_signature'') ?d = sort_key fst (filter (\<lambda>p. fst p = ''_signature'') (?c @ [(''_signature'', ?sig)]))"
      unfolding d by (rule filter_sort)
    moreover have "filter (\<lambda>p. fst p = ''_signature'') ?c = []"
      unfolding filter_empty_conv using c by (metis imageI)
    then have "sort_key fst (filter (\<lambda>p. fst p = ''_signature'') (?c @ [(''_signature'', ?sig)])) = [(''_signature'', ?sig)]"
      by (simp only: filter_append) simp
    ultimately have "map_of (filter (\<lambda>p. fst p = ''_signature'') ?d) ''_signature'' = Some ?sig" by simp
    then show ?thesis by (simp only: map_of_only_key dict_get_def option.case)
  qed
  ultimately show ?thesis by blast
qed

text \<open>The bundle with its keys sorted, as the gateway reads it.\<close>

definition sorted_bundle :: "json dict \<Rightarrow> json dict" where
  "sorted_bundle c = obj_entries (sort_keys (JObj c))"

text \<open>C37: With a signing key the backend's bundle never passes the gateway's check: the gateway hashes the
  indented text, the backend hashed one line, and the two texts differ.  Unless their HMACs collide, a reload
  replaces the configuration all the same, but keeps the old modification time (so that every later call reads
  the file again) and the old allowlist of upstreams.\<close>

theorem signed_bundle_never_verifies:
  assumes "build_config_bundle E be db = Inr c" and "json_ok E (JObj c)"
    and "be_getenv be ''MCP_CONFIG_SIGNING_KEY'' = Some (signing_key_env env)" "signing_key_env env \<noteq> []"
    and "be_hmac_hex be = hmac_hex S"
    and "plain = sorted_text E (JObj (signed_bundle E be c))"
    and "on_world (cfg_read S) g = (Inr raw, g1)" "decrypt_bundle_bytes S env raw = plain"
    and "utf8_decode S plain = Inr plain"
  shows "signed_part plain \<noteq> json_dumps E (JObj (sorted_bundle c)) \<and>
    (hmac_hex S (signing_key_env env) (signed_part plain) \<noteq>
       hmac_hex S (signing_key_env env) (json_dumps E (JObj (sorted_bundle c))) \<longrightarrow>
     reload_config E S env mtime g = (Inr (), set_config (sorted_bundle c) g1))"
proof
  note keys = bundle_keys [OF assms(1)]
  let ?key = "signing_key_env env"
  have sb: "JObj (sorted_bundle c) = sort_keys (JObj c)" by (simp add: sorted_bundle_def)
  have signed: "signed_bundle E be c = sign_bundle E (hmac_hex S) ?key c"
    using assms by (simp add: signed_bundle_def or_default_def)
  obtain d where d: "sort_keys (JObj (sign_bundle E (hmac_hex S) ?key c)) = JObj d"
    "JObj (AList.delete ''_signature'' d) = sort_keys (JObj c)"
    "dict_get d ''_signature'' (JStr '''') = JStr (hmac_hex S ?key (json_dumps E (sort_keys (JObj c))))"
    using sorted_signed [OF keys(2) assms(4)] by blast
  have plain: "plain = bundle_plaintext E (hmac_hex S) ?key c"
    using assms(6) signed by (simp add: sorted_text_def bundle_plaintext_def)
  have "sign_bundle E (hmac_hex S) ?key c \<noteq> []" using keys by (simp add: sign_bundle_def update_new)
  then show "signed_part plain \<noteq> json_dumps E (JObj (sorted_bundle c))"
    using signed_part_not_payload assms(6) signed by metis
  have "json_ok E (JObj (sign_bundle E (hmac_hex S) ?key c))"
    using assms(2,4) keys(2) by (auto simp: sign_bundle_def update_new list_all_iff)
  from json_loads_text [OF dumps_indent_text [OF json_ok_sort_keys [OF this]] white_simps(1) white_simps(1), of 0]
  have "json_loads E plain = Some (JObj d)"
    by (simp only: plain bundle_plaintext_def d(1) append_Nil append_Nil2)
  then show "hmac_hex S ?key (signed_part plain) \<noteq> hmac_hex S ?key (json_dumps E (JObj (sorted_bundle c))) \<longrightarrow>
     reload_config E S env mtime g = (Inr (), set_config (sorted_bundle c) g1)"
    using assms(4,7-9) d(2,3) sb
    by (auto simp: reload_config_def verify_signature_def or_default_def str_of_def Let_def)
qed

section \<open>What the gateway reads\<close>

text \<open>Sorting the keys keeps every entry.\<close>

lemma map_of_sorted:
  fixes d :: "json dict"
  assumes "distinct (map fst d)"
  shows "map_of (sort_key fst (map (\<lambda>(k, v). (k, sort_keys v)) d)) k = map_option sort_keys (map_of d k)"
proof -
  let ?m = "map (\<lambda>(k, v). (k, sort_keys v)) d"
  have "map fst ?m = map fst d" by auto
  with assms have "distinct (map fst ?m)" by (simp only:)
  moreover from this have "distinct (map fst (sort_key fst ?m))"
    by (metis mset_map mset_sort mset_eq_imp_distinct_iff)
  ultimately have "map_of (sort_key fst ?m) = map_of ?m" by (simp add: map_of_inject_set)
  then show ?thesis by (simp add: map_of_map)
qed

lemma jget_sorted:
  assumes "distinct (map fst d)"
  shows "jget_or_null (sort_keys (JObj d)) k = sort_keys (jget_or_null (JObj d) k)"
  using map_of_sorted [OF assms, of k] by (simp add: jget_or_null_def split: option.split)

lemma atoms_sorted [simp]:
  "str_of (sort_keys v) = str_of v" "int_of (sort_keys v) = int_of v" "bool_of (sort_keys v) = bool_of v"
  by (cases v; simp add: str_of_def int_of_def bool_of_def)+

lemma server_of_sorted:
  "distinct (map fst d) \<Longrightarrow> server_of (sort_keys (JObj d)) = server_of (JObj d)"
  by (simp only: server_of_def Let_def jget_sorted atoms_sorted)

definition server_seen :: "engine \<Rightarrow> bundle_env \<Rightarrow> mcp_db \<Rightarrow> row \<Rightarrow> server \<Rightarrow> bool" where
  "server_seen E be db r s \<longleftrightarrow>
     s_id s = or_default (int_of (column r ''id'')) 0 \<and>
     s_team_id s = or_default (int_of (column r ''team_id'')) 0 \<and>
     s_name s = or_default (str_column r ''name'') '''' \<and>
     s_namespace s = str_column r ''namespace'' \<and>
     Inr (s_url s) = bind_res (server_url be r (length (server_replicas db r))) (\<lambda>u. Inr (or_default (str_of u) '''')) \<and>
     s_enabled s = Some True \<and>
     s_auth_type s = str_column r ''auth_type'' \<and>
     s_auth_secret s = (if column r ''auth_type'' = JStr ''none'' then None
                        else str_of (open_column be r ''auth_secret_enc'')) \<and>
     s_verify_tls s = bool_of (column r ''verify_tls'') \<and>
     s_timeout_ms s = int_of (column r ''timeout_ms'')"

lemma built_server_seen:
  assumes "build_server_dict E be r (server_replicas db r) = Inr v" and "column r ''enabled'' = JBool True"
  shows "server_seen E be db r (server_of v) \<and> (\<exists>d. v = JObj d \<and> distinct (map fst d))"
proof -
  obtain ev u where u: "server_env E be r = Inr ev" "server_url be r (length (server_replicas db r)) = Inr u"
    using assms(1) by (auto simp: build_server_dict_def res_simps)
  show ?thesis
    using assms u
    by (auto simp: build_server_dict_def server_seen_def server_of_def columns_def jget_or_null_def str_column_def
        str_of_def int_of_def bool_of_def Let_def)
qed


section \<open>Policies, DLP rules and guardrails have no team\<close>

definition reassign :: "(row \<Rightarrow> json) \<Rightarrow> row list \<Rightarrow> row list" where
  "reassign f rs = map (\<lambda>r. AList.update ''team_id'' (f r) r) rs"

definition reassign_teams :: "(row \<Rightarrow> json) \<Rightarrow> mcp_db \<Rightarrow> mcp_db" where
  "reassign_teams f db =
     db\<lparr>md_policies := reassign f (md_policies db), md_dlp_rules := reassign f (md_dlp_rules db),
        md_guardrails := reassign f (md_guardrails db)\<rparr>"

lemma column_reassigned [simp]:
  "k \<noteq> ''team_id'' \<Longrightarrow> column (AList.update ''team_id'' t r) k = column r k"
  by (simp add: column_def)

lemma reassigned_rules:
  "map raw_policy_of (map build_policy_dict (rows_enabled (reassign f rs))) =
     map raw_policy_of (map build_policy_dict (rows_enabled rs))"
  "map dlp_raw_of (map build_dlp_rule_dict (rows_enabled (reassign f rs))) =
     map dlp_raw_of (map build_dlp_rule_dict (rows_enabled rs))"
  "map gr_raw_of (map build_guardrail_dict (rows_enabled (reassign f rs))) =
     map gr_raw_of (map build_guardrail_dict (rows_enabled rs))"
  by (induction rs)
    (simp_all add: reassign_def rows_enabled_def build_policy_dict_def build_dlp_rule_dict_def build_guardrail_dict_def
      columns_def raw_policy_of_def dlp_raw_of_def gr_raw_of_def str_at_def bool_at_def int_at_def jget_or_null_def)

definition bundle_list :: "json dict \<Rightarrow> string \<Rightarrow> json list" where
  "bundle_list c k = (case dict_get c k (JList []) of JList xs \<Rightarrow> xs | _ \<Rightarrow> [])"

text \<open>Moving policies, DLP rules and guardrails to other teams changes nothing the gateway loads: every one of
  them applies to the requests of all teams.\<close>

theorem rules_have_no_team:
  assumes "build_config_bundle E be db = Inr c" and "build_config_bundle E be (reassign_teams f db) = Inr c'"
  shows "map raw_policy_of (bundle_list c' ''policies'') = map raw_policy_of (bundle_list c ''policies'') \<and>
     map dlp_raw_of (bundle_list c' ''dlp_rules'') = map dlp_raw_of (bundle_list c ''dlp_rules'') \<and>
     map gr_raw_of (bundle_list c' ''guardrails'') = map gr_raw_of (bundle_list c ''guardrails'')"
  using assms reassigned_rules [of f "md_policies db"] reassigned_rules [of f "md_dlp_rules db"]
    reassigned_rules [of f "md_guardrails db"]
  by (auto simp: build_config_bundle_def reassign_teams_def res_simps bundle_list_def dict_get_def)

section \<open>Change detection\<close>

definition masked :: "bundle_env \<Rightarrow> json \<Rightarrow> bool" where
  "masked be v \<longleftrightarrow> mask_secret be v = v"

definition entry_masked :: "bundle_env \<Rightarrow> string \<Rightarrow> json \<Rightarrow> bool" where
  "entry_masked be k x \<longleftrightarrow>
     (k \<in> set secret_keys \<longrightarrow> masked be x) \<and>
     (k = ''env_vars'' \<longrightarrow> (case x of JObj e \<Rightarrow> list_all (\<lambda>(n, y). masked be y) e | _ \<Rightarrow> True))"

fun server_masked :: "bundle_env \<Rightarrow> json \<Rightarrow> bool" where
  "server_masked be (JObj d) = list_all (\<lambda>(k, x). entry_masked be k x) d"
| "server_masked be v = False"

definition servers_masked :: "bundle_env \<Rightarrow> json \<Rightarrow> bool" where
  "servers_masked be v \<longleftrightarrow>
     (\<exists>xs. v = JList xs \<and> (\<forall>x \<in> set xs. server_masked be x)) \<or> v = JObj [] \<or> v = JStr []"

definition bundle_masked :: "bundle_env \<Rightarrow> json \<Rightarrow> bool" where
  "bundle_masked be v \<longleftrightarrow>
     (\<exists>d. v = JObj d \<and> distinct (map fst d) \<and> (\<forall>(k, x) \<in> set d. k = ''servers'' \<longrightarrow> servers_masked be x))"

lemma maskedD: "masked be v \<Longrightarrow> mask_secret be v = v"
  by (simp add: masked_def)

lemma map_masked: "list_all (\<lambda>(n, y). masked be y) e \<Longrightarrow> map (\<lambda>(n, x). (n, mask_secret be x)) e = e"
  by (induction e) (auto simp: masked_def)

lemma redact_masked: "list_all (\<lambda>(k, x). entry_masked be k x) d \<Longrightarrow> redact_server be d = d"
proof (induction d)
  case (Cons p d)
  obtain k x where p: "p = (k, x)" by (cases p)
  with Cons.prems have "entry_masked be k x" by simp
  then show ?case
    using Cons p map_masked [of be] maskedD [of be] by (cases x) (auto simp: redact_server_def entry_masked_def)
qed (simp add: redact_server_def)

lemma server_masked_fixed: "server_masked be v \<Longrightarrow> is_obj v"
  "server_masked be v \<Longrightarrow> JObj (redact_server be (obj_entries v)) = v"
  by (cases v; simp add: redact_masked)+

lemma bundle_masked_fixed:
  assumes "bundle_masked be v"
  shows "redact_bundle be v = Some v"
proof -
  obtain d where v: "v = JObj d" "distinct (map fst d)" "\<And>x. (''servers'', x) \<in> set d \<Longrightarrow> servers_masked be x"
    using assms unfolding bundle_masked_def by blast
  have fixed: "redact_servers be x = Some x" if "servers_masked be x" for x
    using that server_masked_fixed(1) [of be] server_masked_fixed(2) [of be]
    by (auto simp: servers_masked_def redact_servers_def list_all_iff intro!: map_idI)
  show ?thesis
  proof (cases "map_of d ''servers''")
    case None
    then have "''servers'' \<notin> fst ` set d" by (simp add: map_of_eq_None_iff)
    then have "map (\<lambda>(k, x). if k = ''servers'' then (k, JList []) else (k, x)) d = d" by (intro map_idI) force
    with None v show ?thesis by (simp add: redact_bundle_def dict_get_def redact_servers_def)
  next
    case (Some s)
    then have "redact_servers be s = Some s" using v(3) fixed map_of_SomeD by metis
    moreover have "x = s" if "(''servers'', x) \<in> set d" for x
      using that Some v(2) map_of_is_SomeI by fastforce
    then have "map (\<lambda>(k, x). if k = ''servers'' then (k, s) else (k, x)) d = d" by (intro map_idI) auto
    ultimately show ?thesis using Some v(1) by (simp add: redact_bundle_def dict_get_def)
  qed
qed

lemma masked_sorted: "masked be v \<Longrightarrow> masked be (sort_keys v)"
  by (cases v) (auto simp: masked_def mask_secret_def)

lemma entry_masked_sorted: "entry_masked be k v \<Longrightarrow> entry_masked be k (sort_keys v)"
  using masked_sorted [of be v] masked_sorted [of be] by (cases v) (auto simp: entry_masked_def list_all_iff)

lemma server_masked_sorted: "server_masked be v \<Longrightarrow> server_masked be (sort_keys v)"
  using entry_masked_sorted by (cases v) (auto simp: list_all_iff)

lemma bundle_masked_sorted: "bundle_masked be v \<Longrightarrow> bundle_masked be (sort_keys v)"
proof -
  assume "bundle_masked be v"
  then obtain d where v: "v = JObj d" "distinct (map fst d)" "\<And>x. (''servers'', x) \<in> set d \<Longrightarrow> servers_masked be x"
    unfolding bundle_masked_def by blast
  let ?m = "map (\<lambda>(k, v). (k, sort_keys v)) d"
  have "map fst ?m = map fst d" by auto
  with v(2) have "distinct (map fst ?m)" by (simp only:)
  then have "distinct (map fst (sort_key fst ?m))" by (metis mset_map mset_sort mset_eq_imp_distinct_iff)
  moreover have "servers_masked be (sort_keys x)" if "servers_masked be x" for x
    using that server_masked_sorted by (auto simp: servers_masked_def)
  then have "\<forall>(k, x) \<in> set (sort_key fst ?m). k = ''servers'' \<longrightarrow> servers_masked be x"
    unfolding sort_keys_entries using v(3) by fast
  ultimately show ?thesis unfolding bundle_masked_def v(1) sort_keys.simps by blast
qed

text \<open>A digest of at least eight hexadecimal digits makes the mask a token, which is left alone later.\<close>

definition digest_ok :: "bundle_env \<Rightarrow> bool" where
  "digest_ok be \<longleftrightarrow> (\<forall>s. 8 \<le> length (be_sha256_hex be s) \<and> list_all hex_char (be_sha256_hex be s))"

lemma mask_is_token:
  assumes "digest_ok be"
  shows "mask_token (''***'' @ take 8 (be_sha256_hex be s) @ ''***'')"
proof -
  have "8 \<le> length (be_sha256_hex be s)" "list_all hex_char (be_sha256_hex be s)"
    using assms by (simp_all add: digest_ok_def)
  moreover have "list_all hex_char (take 8 h)" if "list_all hex_char h" for h
    using that set_take_subset [of 8 h] by (auto simp: list_all_iff)
  moreover have "ends_with (''***'' @ take 8 (be_sha256_hex be s) @ ''***'') ''***''"
    unfolding ends_with_iff by (metis append_assoc)
  ultimately show ?thesis by (simp add: mask_token_def starts_with_iff min_absorb2)
qed

lemma mask_masked: "digest_ok be \<Longrightarrow> masked be (mask_secret be v)"
  using mask_is_token [of be] by (cases v) (auto simp: masked_def mask_secret_def)

lemma redact_server_masked:
  assumes "digest_ok be"
  shows "list_all (\<lambda>(k, x). entry_masked be k x) (redact_server be d)"
proof (induction d)
  case (Cons p d)
  obtain k x where p: "p = (k, x)" by (cases p)
  have env: "''env_vars'' \<notin> set secret_keys" by code_simp
  have "list_all (\<lambda>(n, y). masked be y) (map (\<lambda>(n, x). (n, mask_secret be x)) e)" for e
    using mask_masked [OF assms] by (auto simp: list_all_iff)
  with Cons p env mask_masked [OF assms] show ?case
    by (cases x) (auto simp: redact_server_def entry_masked_def)
qed (simp add: redact_server_def)

lemma redacted_bundle_masked:
  assumes "digest_ok be" and "redact_bundle be (JObj d) = Some v" and "distinct (map fst d)"
  shows "bundle_masked be v"
proof -
  obtain ss where ss: "redact_servers be (dict_get d ''servers'' (JList [])) = Some ss"
    and v: "v = JObj (map (\<lambda>(k, v). if k = ''servers'' then (k, ss) else (k, v)) d)"
    using assms(2) by (auto simp: redact_bundle_def)
  have "servers_masked be ss"
    using ss redact_server_masked [OF assms(1)]
    by (auto simp: redact_servers_def servers_masked_def split: json.splits if_splits)
  moreover have "map fst (map (\<lambda>(k, v). if k = ''servers'' then (k, ss) else (k, v)) d) = map fst d" by auto
  with assms(3) have "distinct (map fst (map (\<lambda>(k, v). if k = ''servers'' then (k, ss) else (k, v)) d))" by (simp only:)
  ultimately show ?thesis unfolding bundle_masked_def v by (auto split: if_splits)
qed

lemma json_ok_str [simp]: "json_ok E (mask_secret be v) = json_ok E v"
  by (cases v) (simp_all add: mask_secret_def)

lemma json_ok_values:
  assumes "\<And>k v. (k, v) \<in> set d \<Longrightarrow> json_ok E v \<Longrightarrow> fst (f (k, v)) = k \<and> json_ok E (snd (f (k, v)))"
    and "json_ok E (JObj d)"
  shows "json_ok E (JObj (map f d))"
proof -
  have "map fst (map f d) = map fst d" using assms by (auto simp: list_all_iff)
  with assms(2) have "distinct (map fst (map f d))" by (simp only: json_ok.simps)
  with assms show ?thesis by (fastforce simp: list_all_iff)
qed

lemma json_ok_redact_server: "json_ok E (JObj d) \<Longrightarrow> json_ok E (JObj (redact_server be d))"
proof -
  assume d: "json_ok E (JObj d)"
  have "json_ok E (JObj (map (\<lambda>(n, x). (n, mask_secret be x)) e))" if "json_ok E (JObj e)" for e
    using that by (intro json_ok_values) auto
  with d show ?thesis unfolding redact_server_def
    by (intro json_ok_values) (auto split: json.split simp del: json_ok.simps)
qed

lemma json_ok_redact_servers:
  assumes "json_ok E s" and "redact_servers be s = Some ss"
  shows "json_ok E ss"
proof (cases s)
  case (JList xs)
  have "json_ok E (JObj (redact_server be (obj_entries x)))" if "x \<in> set xs" "is_obj x" for x
  proof (rule json_ok_redact_server)
    have "x = JObj (obj_entries x)" using that(2) by (cases x) simp_all
    moreover have "json_ok E x" using that(1) assms(1) JList by (simp add: list_all_iff)
    ultimately show "json_ok E (JObj (obj_entries x))" by simp
  qed
  with assms(2) JList show ?thesis
    by (auto simp: redact_servers_def list_all_iff simp del: json_ok.simps(4) split: if_splits)
qed (use assms in \<open>auto simp: redact_servers_def split: if_splits\<close>)

lemma json_ok_redact:
  assumes "redact_bundle be (JObj d) = Some v" and "json_ok E (JObj d)"
  shows "json_ok E v"
proof -
  obtain ss where ss: "redact_servers be (dict_get d ''servers'' (JList [])) = Some ss"
    and v: "v = JObj (map (\<lambda>(k, v). if k = ''servers'' then (k, ss) else (k, v)) d)"
    using assms(1) by (auto simp: redact_bundle_def)
  have "json_ok E (dict_get d ''servers'' (JList []))"
    using assms(2) by (auto simp: dict_get_def list_all_iff split: option.split dest!: map_of_SomeD)
  then have "json_ok E ss" using ss by (rule json_ok_redact_servers)
  then show ?thesis unfolding v using assms(2) by (intro json_ok_values) (auto simp: list_all_iff)
qed

lemma generate_returns:
  assumes "build_config_bundle E be db = Inr c"
  shows "\<exists>t. generate_mcp_bundle_text E be db = Inr t"
proof -
  obtain vs where vs: "each_res (\<lambda>r. build_server_dict E be r (server_replicas db r)) (rows_enabled (md_servers db)) = Inr vs"
    and c: "map_of c ''servers'' = Some (JList vs)"
    using assms by (auto simp: build_config_bundle_def res_simps)
  have "is_obj v" if "v \<in> set vs" for v
    using each_res_in [OF vs that] by (auto simp: build_server_dict_def res_simps)
  then have "redact_servers be (JList vs) \<noteq> None" by (simp add: redact_servers_def list_all_iff)
  moreover have "dict_get (signed_bundle E be c) ''servers'' (JList []) = JList vs"
    using c by (auto simp: signed_bundle_def sign_bundle_def dict_get_def)
  ultimately have "redact_bundle be (JObj (signed_bundle E be c)) \<noteq> None" by (simp add: redact_bundle_def)
  with assms show ?thesis by (auto simp: generate_mcp_bundle_text_def)
qed

text \<open>After an apply, change detection reports no difference: reading back the text that was written gives
  the text that is computed, with the secrets masked once.\<close>

theorem applied_text_stable:
  assumes "build_config_bundle E be db = Inr c" "json_ok E (JObj c)" "digest_ok be"
    and "generate_mcp_bundle_text E be db = Inr t" "be_utf8_replace be (be_utf8 be t) = t"
    and "has_secrets_key be \<longrightarrow> be_fernet_decrypt be (be_utf8 be t) = None"
  shows "\<exists>files'. write_applied_mcp_bundle E be db files = Inr files' \<and> read_applied_mcp_bundle E be files' = t"
proof -
  let ?b = "signed_bundle E be c"
  obtain v where v: "redact_bundle be (JObj ?b) = Some v" "t = sorted_text E v"
    using assms(1,4) by (auto simp: generate_mcp_bundle_text_def split: option.splits)
  have "json_ok E (JObj ?b)"
    using assms(2) bundle_keys [OF assms(1)] by (auto simp: signed_bundle_def sign_bundle_def update_new list_all_iff)
  with v have ok: "json_ok E (sort_keys v)" "bundle_masked be v"
    using json_ok_redact json_ok_sort_keys redacted_bundle_masked [OF assms(3)] by fastforce+
  from json_loads_text [OF dumps_indent_text [OF ok(1)] white_simps(1) white_simps(1), of 0]
  have "json_loads E t = Some (sort_keys v)" by (simp add: v(2) sorted_text_def)
  moreover have "redact_bundle be (sort_keys v) = Some (sort_keys v)"
    by (rule bundle_masked_fixed [OF bundle_masked_sorted [OF ok(2)]])
  ultimately show ?thesis
    using assms(4-6) v(2)
    by (auto simp: write_applied_mcp_bundle_def read_applied_mcp_bundle_def or_default_def sorted_text_def Let_def)
qed

end
