(* ===== verification/McpScenario.thy ===== *)
theory McpScenario imports McpBundle Scenario begin

text \<open>
  The bundle writer at work: a backend with one server, one policy and a signing key, its bundle,
  and the theorems of \<open>McpBundle\<close> on it.
\<close>

definition demo_backend :: bundle_env where
  "demo_backend =
     \<lparr>be_getenv = (\<lambda>k. if k = ''MCP_CONFIG_SIGNING_KEY'' then Some ''k'' else None),
      be_setting = (\<lambda>k. if k = ''MCP_DEFAULT_RPM'' then Some ''600''
        else if k = ''MCP_UPSTREAM_PORT'' then Some ''8090''
        else if k = ''MCP_CONFIG_PATH'' then Some ''data/config.json'' else None),
      be_refresh_seconds = 60, be_fernet_encrypt = (\<lambda>s. s), be_fernet_decrypt = (\<lambda>s. None),
      be_aesgcm_encrypt = (\<lambda>s. s), be_sha256_hex = (\<lambda>s. ''0123456789abcdef''),
      be_hmac_hex = (\<lambda>k s. k @ s), be_utf8 = (\<lambda>s. s), be_utf8_decode = Some,
      be_utf8_replace = (\<lambda>s. s), be_urlparse_path = (\<lambda>u. Inr ''/mcp'')\<rparr>"

definition demo_server :: row where
  "demo_server =
     [(''id'', JInt 1), (''team_id'', JInt 5), (''name'', JStr ''files''), (''namespace'', JStr ''files''),
          (''url'', JStr ''https://files.example/mcp''), (''enabled'', JBool True), (''auth_type'', JStr ''none'')]"

definition demo_mcp_db :: mcp_db where
  "demo_mcp_db =
     \<lparr>md_servers = [demo_server,
        [(''id'', JInt 2), (''enabled'', JBool False)]],
      md_replicas = [[(''id'', JInt 7), (''server_id'', JInt 1), (''enabled'', JBool True)]],
      md_identities = [], md_teams = [[(''id'', JInt 5), (''name'', JStr ''ops''), (''slug'', JStr ''ops'')]],
      md_policies = [[(''id'', JInt 3), (''team_id'', JInt 5), (''name'', JStr ''deny''), (''enabled'', JBool True),
          (''expression'', JStr ''true''), (''action'', JStr ''deny'')]],
      md_dlp_rules = [], md_guardrails = [], md_skills = [], md_versions = [],
      md_settings = [''mcp_team_rpm_5'' \<mapsto> Some ''30'', ''mcp_default_rpm'' \<mapsto> None]\<rparr>"

definition demo_server_dict :: json where
  "demo_server_dict =
     JObj
          [(''id'', JInt 1), (''team_id'', JInt 5), (''name'', JStr ''files''),
           (''namespace'', JStr ''files''), (''display_name'', JNull),
           (''description'', JNull),
           (''url'', JStr ''http://haproxy:8090/mcp-up/files/mcp''),
           (''original_url'', JStr ''https://files.example/mcp''),
           (''enabled'', JBool True), (''verify_tls'', JNull),
           (''auth_type'', JStr ''none''), (''auth_header'', JNull),
           (''auth_secret'', JNull), (''timeout_ms'', JNull),
           (''max_body_bytes'', JNull), (''has_replicas'', JBool True),
           (''replica_count'', JInt 1),
           (''transport_type'', JStr ''streamable_http''), (''command'', JNull),
           (''args'', JList []), (''env_vars'', JObj []),
           (''package_manager'', JNull), (''source_package_name'', JNull),
           (''installed_version'', JNull), (''oauth_enabled'', JBool False),
           (''oauth_client_id'', JNull), (''oauth_client_secret'', JNull),
           (''oauth_scopes'', JNull),
           (''oauth_auth_status'', JStr ''not_configured''),
           (''oauth_access_token'', JNull), (''oauth_refresh_token'', JNull),
           (''oauth_token_expires_at'', JNull),
           (''oauth_auth_server_metadata_url'', JNull),
           (''oauth_protected_resource_metadata_url'', JNull)]"

definition demo_built :: "json dict" where
  "demo_built =
    [(''servers'',
       JList
        [demo_server_dict]),
      (''identities'', JList []),
      (''teams'',
       JList
        [JObj
          [(''id'', JInt 5), (''name'', JStr ''ops''),
           (''slug'', JStr ''ops'')]]),
      (''policies'',
       JList
        [JObj
          [(''id'', JInt 3), (''team_id'', JInt 5), (''name'', JStr ''deny''),
           (''enabled'', JBool True), (''priority'', JNull),
           (''expression'', JStr ''true''), (''expression_ast'', JNull),
           (''action'', JStr ''deny''), (''log'', JNull),
           (''no_log'', JNull)]]),
      (''dlp_rules'', JList []), (''guardrails'', JList []),
      (''skills'', JList []), (''jwt_issuer'', JStr []),
      (''jwt_audience'', JStr []), (''jwt_jwks_url'', JStr []),
      (''allowed_origins'', JList []), (''log_payloads'', JBool False),
      (''default_rpm'', JInt 600), (''per_ip_limit'', JInt 0),
      (''concurrent_limit'', JInt 0), (''catalog_refresh_seconds'', JInt 60),
      (''team_rpm_overrides'', JObj [(''5'', JInt 30)])]"

text \<open>Values without floats whose integers have few digits, a check that evaluates.\<close>

fun json_plain :: "json \<Rightarrow> bool" where
  "json_plain (JInt i) = int_fits i"
| "json_plain (JFloat r) = False"
| "json_plain (JList xs) = list_all json_plain xs"
| "json_plain (JObj d) = (distinct (map fst d) \<and> list_all (\<lambda>(k, v). json_plain v) d)"
| "json_plain v = True"

lemma json_plain_ok: "json_plain v \<Longrightarrow> json_ok E v"
  by (induction v rule: json_plain.induct) (auto simp: list_all_iff)

lemma demo_settings:
  "db_setting demo_backend demo_mcp_db ''mcp_per_ip_limit'' d = d"
  "db_setting demo_backend demo_mcp_db ''mcp_concurrent_limit'' d = d"
  "db_setting demo_backend demo_mcp_db ''mcp_default_rpm'' d = ''600''"
  "db_setting demo_backend demo_mcp_db ''mcp_jwt_issuer'' d = d"
  "db_setting demo_backend demo_mcp_db ''mcp_jwt_audience'' d = d"
  "db_setting demo_backend demo_mcp_db ''mcp_jwt_jwks_url'' d = d"
  "db_setting demo_backend demo_mcp_db ''mcp_allowed_origins'' d = d"
  "db_setting demo_backend demo_mcp_db ''mcp_log_payloads'' d = d"
  "db_setting demo_backend demo_mcp_db ''mcp_team_rpm_5'' d = ''30''"
  by code_simp+

lemma demo_texts:
  "int_of_text ''0'' = Inr 0" "int_of_text ''600'' = Inr 600" "py_int_of_str ''30'' = Some 30"
  "origins_of_text [] = []" "py_lower [] = []" "int_str 5 = ''5''"
  "auth0_issuer demo_backend = []" "auth0_audience demo_backend = []" "auth0_jwks_url demo_backend = []"
  "config_setting demo_backend ''MCP_JWT_ISSUER'' = []" "config_setting demo_backend ''MCP_JWT_AUDIENCE'' = []"
  "config_setting demo_backend ''MCP_JWT_JWKS_URL'' = []" "config_setting demo_backend ''MCP_ALLOWED_ORIGINS'' = []"
  "config_setting demo_backend ''MCP_LOG_PAYLOADS'' = []"
  "be_getenv demo_backend ''MCP_MAX_IP_RPM'' = None" "be_getenv demo_backend ''MCP_MAX_CONCURRENT'' = None"
  "be_refresh_seconds demo_backend = 60"
  by code_simp+

lemma demo_server_built:
  "build_server_dict literal_engine demo_backend demo_server [r] = Inr demo_server_dict"
  by (simp add: build_server_dict_def server_env_def server_args_def server_url_def open_column_def columns_def column_def
      str_column_def dict_get_def or_json_def str_of_def config_setting_def or_default_def or_text_def demo_server_def
      demo_backend_def demo_server_dict_def)

lemma demo_rows:
  "rows_enabled (md_servers demo_mcp_db) = [demo_server]" "length (server_replicas demo_mcp_db demo_server) = 1"
  "rows_enabled (md_identities demo_mcp_db) = []" "rows_enabled (md_dlp_rules demo_mcp_db) = []"
  "rows_enabled (md_guardrails demo_mcp_db) = []" "rows_enabled (md_skills demo_mcp_db) = []"
  "rows_enabled (md_policies demo_mcp_db) = md_policies demo_mcp_db"
  by (simp_all add: rows_enabled_def server_replicas_def demo_mcp_db_def demo_server_def column_def dict_get_def)

lemma demo_build:
  "build_config_bundle literal_engine demo_backend demo_mcp_db = Inr demo_built"
proof -
  obtain r where "server_replicas demo_mcp_db demo_server = [r]"
    using demo_rows(2) by (auto simp: length_Suc_conv)
  then have "build_server_dict literal_engine demo_backend demo_server (server_replicas demo_mcp_db demo_server) = Inr demo_server_dict"
    using demo_server_built by simp
  moreover have "build_team_rpm_overrides demo_backend demo_mcp_db (md_teams demo_mcp_db) = [(''5'', JInt 30)]"
    by (simp add: build_team_rpm_overrides_def demo_mcp_db_def [THEN arg_cong, of md_teams] team_id_text_def column_def
        dict_get_def int_of_def or_default_def demo_settings demo_texts)
  moreover have "map (\<lambda>t. JObj (columns [''id'', ''name'', ''slug''] t)) (md_teams demo_mcp_db) =
      [JObj [(''id'', JInt 5), (''name'', JStr ''ops''), (''slug'', JStr ''ops'')]]"
    by (simp add: demo_mcp_db_def columns_def column_def dict_get_def)
  moreover have "map build_policy_dict (md_policies demo_mcp_db) = [JObj
      [(''id'', JInt 3), (''team_id'', JInt 5), (''name'', JStr ''deny''),
       (''enabled'', JBool True), (''priority'', JNull),
       (''expression'', JStr ''true''), (''expression_ast'', JNull),
       (''action'', JStr ''deny''), (''log'', JNull),
       (''no_log'', JNull)]]"
    by (simp add: demo_mcp_db_def build_policy_dict_def columns_def column_def dict_get_def)
  ultimately show ?thesis
    by (simp add: build_config_bundle_def demo_rows demo_settings demo_texts demo_built_def or_default_def or_text_def
        del: list.map)
qed

lemma demo_built_facts:
  "build_config_bundle literal_engine demo_backend demo_mcp_db = Inr demo_built"
  "json_plain (JObj demo_built)"
  by (rule demo_build) code_simp

definition signing_env :: cfg_env where
  "signing_env = \<lparr>signing_key_env = ''k'', encryption_key_env = []\<rparr>"

definition demo_plain :: string where
  "demo_plain = sorted_text literal_engine (JObj (signed_bundle literal_engine demo_backend demo_built))"

definition bundle_services :: "mem app_services" where
  "bundle_services = demo_services\<lparr>cfg_read := return_io demo_plain\<rparr>"

text \<open>Here the HMAC is injective, so that the reload ends with the old allowlist.\<close>

theorem signed_bundle_never_verifies_witness:
  "reload_config literal_engine bundle_services signing_env 2 demo_state =
     (Inr (), set_config (sorted_bundle demo_built) demo_state)"
proof -
  have "on_world (cfg_read bundle_services) demo_state = (Inr demo_plain, demo_state)"
    by (simp add: bundle_services_def on_world_def return_io_def)
  moreover have "decrypt_bundle_bytes bundle_services signing_env demo_plain = demo_plain"
    by (simp add: decrypt_bundle_bytes_def signing_env_def)
  moreover have "utf8_decode bundle_services demo_plain = Inr demo_plain" "hmac_hex bundle_services = (\<lambda>k s. k @ s)"
    by (simp_all add: bundle_services_def demo_services_def)
  moreover have "be_getenv demo_backend ''MCP_CONFIG_SIGNING_KEY'' = Some (signing_key_env signing_env)"
    "signing_key_env signing_env \<noteq> []" "be_hmac_hex demo_backend = (\<lambda>k s. k @ s)"
    by (simp_all add: demo_backend_def signing_env_def)
  ultimately show ?thesis
    using signed_bundle_never_verifies [OF demo_built_facts(1) json_plain_ok [OF demo_built_facts(2)],
        of signing_env bundle_services demo_plain demo_state demo_plain demo_state 2]
    by (auto simp: demo_plain_def)
qed


definition moved_db :: mcp_db where
  "moved_db = reassign_teams (\<lambda>r. JInt 6) demo_mcp_db"

theorem rules_have_no_team_witness:
  "\<exists>c'. build_config_bundle literal_engine demo_backend moved_db = Inr c' \<and>
     map raw_policy_of (bundle_list c' ''policies'') = map raw_policy_of (bundle_list demo_built ''policies'')"
proof -
  have "is_ok (build_config_bundle literal_engine demo_backend moved_db)" by code_simp
  then obtain c' where c: "build_config_bundle literal_engine demo_backend moved_db = Inr c'" by (auto simp: is_ok_iff)
  with rules_have_no_team [OF demo_built_facts(1), of "\<lambda>r. JInt 6" c'] show ?thesis
    by (auto simp: moved_db_def)
qed

theorem applied_text_stable_witness:
  "\<exists>t files'. generate_mcp_bundle_text literal_engine demo_backend demo_mcp_db = Inr t \<and>
     write_applied_mcp_bundle literal_engine demo_backend demo_mcp_db Map.empty = Inr files' \<and>
     read_applied_mcp_bundle literal_engine demo_backend files' = t"
proof -
  obtain t where t: "generate_mcp_bundle_text literal_engine demo_backend demo_mcp_db = Inr t"
    using generate_returns [OF demo_built_facts(1)] by blast
  have "digest_ok demo_backend" by (simp add: digest_ok_def demo_backend_def hex_char_def)
  moreover have "be_utf8_replace demo_backend (be_utf8 demo_backend t) = t"
    "has_secrets_key demo_backend \<longrightarrow> be_fernet_decrypt demo_backend (be_utf8 demo_backend t) = None"
    by (simp_all add: demo_backend_def)
  ultimately show ?thesis
    using t applied_text_stable [OF demo_built_facts(1) json_plain_ok [OF demo_built_facts(2)], of t Map.empty] by blast
qed

end
