(* ===== verification/StdioProxy.thy ===== *)
theory StdioProxy imports Settings JsonText begin

text \<open>
  The stdio transport (\<open>mcp-gateway/stdio_proxy.py\<close>): upstream servers that are child processes and
  speak JSON-RPC over their standard streams.  A request gets an internal id, waits for the line
  that carries it, and gives the answer back under its own id; a reader task sorts the lines.

  Tasks interleave where the code awaits.  \<open>stdio_event\<close> lists what can happen there: a line or the
  end of the output, the end of the process, requests and timeouts of other tasks, a stop.  The
  operations of \<open>stdio_ops\<close> tell what the operating system answers and which events come in while
  they are awaited.  A future is named by the internal id it belongs to, ids being never reused.
  The reader of a process that has ended is taken to have finished before the process is started
  again.  Lines are decoded texts; logging is left out.
\<close>

section \<open>Allowed commands\<close>

text \<open>\<open>_ALLOWED_COMMANDS\<close>, read off the environment: \<open>None\<close> allows everything.\<close>

definition allowed_commands :: "string \<Rightarrow> string list option" where
  "allowed_commands setting = (if strip setting = ''*'' then None else Some (comma_list setting))"

definition path_basename :: "string \<Rightarrow> string" where
  "path_basename p = rev (takeWhile (\<lambda>c. c \<noteq> CHR ''/'') (rev p))"

definition is_command_allowed :: "string list option \<Rightarrow> string \<Rightarrow> bool" where
  "is_command_allowed allowed command =
     (case allowed of None \<Rightarrow> True | Some cs \<Rightarrow> path_basename command \<in> set cs)"

section \<open>One process\<close>

datatype future = Waiting | Answer "json dict" | Broken string | Cancelled

text \<open>\<open>sp_proc\<close>: \<open>None\<close> without a process object, else whether it is still alive (no return code).
  \<open>sp_reading\<close>: whether the reader task runs.\<close>

record stdio_process =
  sp_server_id :: int
  sp_command :: string
  sp_args :: "string list"
  sp_env :: "string dict"
  sp_proc :: "bool option"
  sp_reading :: bool
  sp_next_id :: int
  sp_pending :: "int list"
  sp_futures :: "(int \<times> future) list"
  sp_initialized :: bool
  sp_last_activity :: real

definition stdio_process_init :: "int \<Rightarrow> string \<Rightarrow> string list \<Rightarrow> string dict \<Rightarrow> real \<Rightarrow> stdio_process" where
  "stdio_process_init sid command args env now =
     \<lparr>sp_server_id = sid, sp_command = command, sp_args = args, sp_env = env, sp_proc = None, sp_reading = False,
      sp_next_id = 1, sp_pending = [], sp_futures = [], sp_initialized = False, sp_last_activity = now\<rparr>"

definition is_running :: "stdio_process \<Rightarrow> bool" where
  "is_running st \<longleftrightarrow> sp_proc st = Some True"

definition is_idle :: "int \<Rightarrow> real \<Rightarrow> stdio_process \<Rightarrow> bool" where
  "is_idle timeout now st \<longleftrightarrow> 0 < timeout \<and> of_int timeout < now - sp_last_activity st"

text \<open>\<open>if not fut.done(): ...\<close>, for one future and for all that are pending.\<close>

definition settle :: "int \<Rightarrow> future \<Rightarrow> stdio_process \<Rightarrow> stdio_process" where
  "settle i f st =
     (if map_of (sp_futures st) i = Some Waiting then st\<lparr>sp_futures := AList.update i f (sp_futures st)\<rparr> else st)"

definition settle_all :: "future \<Rightarrow> stdio_process \<Rightarrow> stdio_process" where
  "settle_all f st = (fold (\<lambda>i. settle i f) (sp_pending st) st)\<lparr>sp_pending := []\<rparr>"

definition drop_pending :: "int \<Rightarrow> stdio_process \<Rightarrow> stdio_process" where
  "drop_pending i st = st\<lparr>sp_pending := removeAll i (sp_pending st)\<rparr>"

text \<open>The \<open>finally\<close> block of the read loop.\<close>

definition EXITED :: string where "EXITED = ''stdio process exited unexpectedly''"

definition finish_reader :: "stdio_process \<Rightarrow> stdio_process" where
  "finish_reader st = (settle_all (Broken EXITED) st)\<lparr>sp_initialized := False, sp_reading := False\<rparr>"

text \<open>
  \<open>msg_id in self._pending\<close>: a key equal to the value as Python compares them; a list or a dict
  cannot be hashed.
\<close>

definition same_id :: "json \<Rightarrow> int \<Rightarrow> bool" where
  "same_id v k = py_eq (JInt k) v"

definition pending_key :: "json \<Rightarrow> int list \<Rightarrow> int option res" where
  "pending_key v keys =
     (case v of
        JNull \<Rightarrow> Inr None
      | JList xs \<Rightarrow> Inl TypeError
      | JObj d \<Rightarrow> Inl TypeError
      | _ \<Rightarrow> Inr (List.find (same_id v) keys))"

text \<open>One turn of the read loop.  A line that is no JSON is passed over, one that is JSON but no object
  raises at \<open>msg.get\<close>.\<close>

definition handle_line :: "engine \<Rightarrow> string \<Rightarrow> stdio_process \<Rightarrow> stdio_process res" where
  "handle_line E line st =
     (if strip line = [] then Inr st
      else (case json_loads E (strip line) of
              None \<Rightarrow> Inr st
            | Some (JObj d) \<Rightarrow>
                bind_res (pending_key (dict_get d ''id'' JNull) (sp_pending st)) (\<lambda>k.
                  Inr (case k of None \<Rightarrow> st | Some i \<Rightarrow> settle i (Answer d) (drop_pending i st)))
            | Some _ \<Rightarrow> Inl AttributeError))"

text \<open>\<open>_read_loop\<close> takes a line; an exception ends the loop.\<close>

definition take_line :: "engine \<Rightarrow> string \<Rightarrow> stdio_process \<Rightarrow> stdio_process" where
  "take_line E line st =
     (if \<not> sp_reading st then st
      else (case handle_line E line st of Inl e \<Rightarrow> finish_reader st | Inr st1 \<Rightarrow> st1))"

text \<open>The first part of \<open>send_request\<close>: the internal id and the message that is written.\<close>

definition begin_request :: "json dict \<Rightarrow> real \<Rightarrow> stdio_process \<Rightarrow> int \<times> json \<times> stdio_process" where
  "begin_request msg now st =
     (let i = sp_next_id st
      in (i, JObj (AList.update ''id'' (JInt i) msg),
          st\<lparr>sp_last_activity := now, sp_next_id := i + 1, sp_pending := sp_pending st @ [i],
             sp_futures := AList.update i Waiting (sp_futures st)\<rparr>))"

text \<open>A timeout cancels the future; \<open>send_request\<close> then forgets the id.\<close>

definition give_up :: "int \<Rightarrow> stdio_process \<Rightarrow> stdio_process" where
  "give_up i st = drop_pending i (settle i Cancelled st)"

text \<open>\<open>stop\<close>: cancelling a running reader runs its \<open>finally\<close> block first.\<close>

definition stop_process :: "stdio_process \<Rightarrow> stdio_process" where
  "stop_process st =
     (settle_all (Broken ''Process stopped'') (if sp_reading st then finish_reader st else st))
       \<lparr>sp_proc := None, sp_initialized := False\<rparr>"

text \<open>The state after a successful spawn.\<close>

definition spawned :: "real \<Rightarrow> stdio_process \<Rightarrow> stdio_process" where
  "spawned now st =
     st\<lparr>sp_proc := Some True, sp_last_activity := now, sp_initialized := False, sp_reading := True\<rparr>"

datatype stdio_event =
    Line string
  | Eof
  | Exited
  | Request "json dict" real
  | GiveUp int
  | Stop
  | Spawned real

fun stdio_step :: "engine \<Rightarrow> stdio_event \<Rightarrow> stdio_process \<Rightarrow> stdio_process" where
  "stdio_step E (Line s) st = take_line E s st"
| "stdio_step E Eof st = (if sp_reading st then finish_reader st else st)"
| "stdio_step E Exited st = st\<lparr>sp_proc := map_option (\<lambda>_. False) (sp_proc st)\<rparr>"
| "stdio_step E (Request msg now) st = (if is_running st then snd (snd (begin_request msg now st)) else st)"
| "stdio_step E (GiveUp i) st = give_up i st"
| "stdio_step E Stop st = stop_process st"
| "stdio_step E (Spawned now) st = (if is_running st then st else spawned now st)"

definition stdio_run :: "engine \<Rightarrow> stdio_event list \<Rightarrow> stdio_process \<Rightarrow> stdio_process" where
  "stdio_run E evs st = fold (stdio_step E) evs st"

section \<open>Requests to one process\<close>

text \<open>
  \<open>so_spawn\<close>: whether \<open>create_subprocess_exec\<close> succeeds.  \<open>so_write\<close>: the events while a line is written
  and drained, and the text of an exception.  \<open>so_wait sid i\<close>: the events while the request with the
  internal id \<open>i\<close> waits for its future, up to the timeout.  \<open>so_terminate\<close>: ending a live process.
\<close>

record 'w stdio_ops =
  so_now :: "'w \<Rightarrow> real \<times> 'w"
  so_spawn :: "string \<Rightarrow> string list \<Rightarrow> string dict \<Rightarrow> 'w \<Rightarrow> bool \<times> 'w"
  so_write :: "int \<Rightarrow> string \<Rightarrow> 'w \<Rightarrow> (stdio_event list \<times> string option) \<times> 'w"
  so_wait :: "int \<Rightarrow> int \<Rightarrow> 'w \<Rightarrow> stdio_event list \<times> 'w"
  so_terminate :: "int \<Rightarrow> 'w \<Rightarrow> 'w"

definition start_process :: "'w stdio_ops \<Rightarrow> stdio_process \<Rightarrow> 'w \<Rightarrow> bool \<times> stdio_process \<times> 'w" where
  "start_process ops st w =
     (if is_running st then (True, st, w)
      else (case so_spawn ops (sp_command st) (sp_args st) (sp_env st) w of
              (False, w1) \<Rightarrow> (False, st\<lparr>sp_proc := None\<rparr>, w1)
            | (True, w1) \<Rightarrow> (case so_now ops w1 of (now, w2) \<Rightarrow> (True, spawned now st, w2))))"

definition stop_stdio :: "'w stdio_ops \<Rightarrow> stdio_process \<Rightarrow> 'w \<Rightarrow> stdio_process \<times> 'w" where
  "stop_stdio ops st w = (stop_process st, if is_running st then so_terminate ops (sp_server_id st) w else w)"

definition restart_process :: "'w stdio_ops \<Rightarrow> stdio_process \<Rightarrow> 'w \<Rightarrow> bool \<times> stdio_process \<times> 'w" where
  "restart_process ops st w = (case stop_stdio ops st w of (st1, w1) \<Rightarrow> start_process ops st1 w1)"

definition stdio_error :: "json option \<Rightarrow> string \<Rightarrow> json dict" where
  "stdio_error i msg =
     (''jsonrpc'', JStr ''2.0'') # (case i of None \<Rightarrow> [] | Some v \<Rightarrow> [(''id'', v)]) @
     [(''error'', JObj [(''code'', JInt (- 32000)), (''message'', JStr msg)])]"

definition wire :: "engine \<Rightarrow> json \<Rightarrow> string" where
  "wire E msg = json_dumps E msg @ [newline]"

text \<open>What a settled or timed out future makes of the request.\<close>

definition reply_of :: "json \<Rightarrow> future \<Rightarrow> json dict" where
  "reply_of original f =
     (case f of
        Answer d \<Rightarrow> AList.update ''id'' original d
      | Broken msg \<Rightarrow> stdio_error (Some original) (''stdio error: '' @ msg)
      | _ \<Rightarrow> stdio_error (Some original) ''stdio request timeout'')"

definition finish_request :: "int \<Rightarrow> json \<Rightarrow> stdio_process \<Rightarrow> json dict \<times> stdio_process" where
  "finish_request i original st =
     (case dict_get (sp_futures st) i Waiting of
        Answer d \<Rightarrow> (reply_of original (Answer d), st)
      | Broken msg \<Rightarrow> (reply_of original (Broken msg), drop_pending i st)
      | _ \<Rightarrow> (reply_of original Waiting, give_up i st))"

definition written_request ::
  "engine \<Rightarrow> 'w stdio_ops \<Rightarrow> json dict \<Rightarrow> stdio_process \<Rightarrow> 'w \<Rightarrow> json dict \<times> stdio_process \<times> 'w" where
  "written_request E ops msg st w =
     (case so_now ops w of (now, w1) \<Rightarrow>
      case begin_request msg now st of (i, line, st1) \<Rightarrow>
      case so_write ops (sp_server_id st) (wire E line) w1 of ((evs, failed), w2) \<Rightarrow>
        (let st2 = stdio_run E evs st1
         in case failed of
              Some e \<Rightarrow> (stdio_error None (''Failed to write to stdin: '' @ e), drop_pending i st2, w2)
            | None \<Rightarrow>
                (case so_wait ops (sp_server_id st) i w2 of (later, w3) \<Rightarrow>
                 case finish_request i (dict_get msg ''id'' JNull) (stdio_run E later st2) of
                   (resp, st3) \<Rightarrow> (resp, st3, w3))))"

definition send_stdio_request ::
  "engine \<Rightarrow> 'w stdio_ops \<Rightarrow> json dict \<Rightarrow> stdio_process \<Rightarrow> 'w \<Rightarrow> json dict \<times> stdio_process \<times> 'w" where
  "send_stdio_request E ops msg st w =
     (case start_process ops st w of
        (False, st1, w1) \<Rightarrow> (stdio_error None ''Failed to start stdio process'', st1, w1)
      | (True, st1, w1) \<Rightarrow> written_request E ops msg st1 w1)"

definition send_stdio_notification ::
  "engine \<Rightarrow> 'w stdio_ops \<Rightarrow> json dict \<Rightarrow> stdio_process \<Rightarrow> 'w \<Rightarrow> int \<times> stdio_process \<times> 'w" where
  "send_stdio_notification E ops msg st w =
     (if \<not> is_running st then (502, st, w)
      else (case so_now ops w of (now, w1) \<Rightarrow>
            case so_write ops (sp_server_id st) (wire E (JObj msg)) w1 of ((evs, failed), w2) \<Rightarrow>
              (if failed = None then 200 else 502, stdio_run E evs (st\<lparr>sp_last_activity := now\<rparr>), w2)))"

definition stdio_session :: "stdio_process \<Rightarrow> string" where
  "stdio_session st = ''stdio:'' @ int_str (sp_server_id st)"

definition initialize_message :: "json dict" where
  "initialize_message =
     [(''jsonrpc'', JStr ''2.0''), (''method'', JStr ''initialize''),
      (''params'', JObj [(''protocolVersion'', JStr ''2025-11-25''), (''capabilities'', JObj []),
         (''clientInfo'', JObj [(''name'', JStr ''mcp-gateway''), (''version'', JStr ''0.1.0'')])])]"

definition initialize_process ::
  "engine \<Rightarrow> 'w stdio_ops \<Rightarrow> stdio_process \<Rightarrow> 'w \<Rightarrow> string option \<times> stdio_process \<times> 'w" where
  "initialize_process E ops st w =
     (if sp_initialized st then (Some (stdio_session st), st, w)
      else (case send_stdio_request E ops initialize_message st w of (resp, st1, w1) \<Rightarrow>
        if map_of resp ''error'' \<noteq> None then (None, st1, w1)
        else (case send_stdio_notification E ops
                     [(''jsonrpc'', JStr ''2.0''), (''method'', JStr ''notifications/initialized'')] st1 w1 of
                (_, st2, w2) \<Rightarrow> (Some (stdio_session st), st2\<lparr>sp_initialized := True\<rparr>, w2))))"

section \<open>The catalog of a process\<close>

text \<open>\<open>"result" in resp and key in resp["result"]\<close> with \<open>resp["result"][key]\<close>.\<close>

definition result_items :: "json dict \<Rightarrow> string \<Rightarrow> json option res" where
  "result_items resp key =
     (case map_of resp ''result'' of
        None \<Rightarrow> Inr None
      | Some (JObj r) \<Rightarrow> Inr (map_of r key)
      | Some (JStr s) \<Rightarrow> if contains s key then Inl TypeError else Inr None
      | Some (JList xs) \<Rightarrow> if JStr key \<in> set xs then Inl TypeError else Inr None
      | Some _ \<Rightarrow> Inl TypeError)"

definition result_cursor :: "json dict \<Rightarrow> json option res" where
  "result_cursor resp =
     (case dict_get resp ''result'' (JObj []) of
        JObj r \<Rightarrow> Inr (case map_of r ''nextCursor'' of None \<Rightarrow> None | Some c \<Rightarrow> if py_truthy c then Some c else None)
      | _ \<Rightarrow> Inl AttributeError)"

text \<open>\<open>items.extend(later)\<close>.\<close>

definition extend_items :: "json \<Rightarrow> json \<Rightarrow> json res" where
  "extend_items items later =
     (case items of
        JList xs \<Rightarrow>
          (case later of
             JList ys \<Rightarrow> Inr (JList (xs @ ys))
           | JObj d \<Rightarrow> Inr (JList (xs @ map (JStr \<circ> fst) d))
           | JStr s \<Rightarrow> Inr (JList (xs @ map (\<lambda>c. JStr [c]) s))
           | _ \<Rightarrow> Inl TypeError)
      | _ \<Rightarrow> Inl AttributeError)"

definition list_message :: "string \<Rightarrow> json dict \<Rightarrow> json dict" where
  "list_message meth params =
     [(''jsonrpc'', JStr ''2.0''), (''method'', JStr meth), (''params'', JObj params)]"

partial_function (option) stdio_pages ::
  "engine \<Rightarrow> 'w stdio_ops \<Rightarrow> string \<Rightarrow> string \<Rightarrow> json \<Rightarrow> json dict \<Rightarrow> stdio_process \<Rightarrow> 'w \<Rightarrow>
     (json res \<times> stdio_process \<times> 'w) option" where
  "stdio_pages E ops meth key items resp st w =
     (case result_cursor resp of
        Inl e \<Rightarrow> Some (Inl e, st, w)
      | Inr None \<Rightarrow> Some (Inr items, st, w)
      | Inr (Some c) \<Rightarrow>
          (case send_stdio_request E ops (list_message meth [(''cursor'', c)]) st w of (resp1, st1, w1) \<Rightarrow>
             (case result_items resp1 key of
                Inl e \<Rightarrow> Some (Inl e, st1, w1)
              | Inr None \<Rightarrow> Some (Inr items, st1, w1)
              | Inr (Some later) \<Rightarrow>
                  (case extend_items items later of
                     Inl e \<Rightarrow> Some (Inl e, st1, w1)
                   | Inr items1 \<Rightarrow> stdio_pages E ops meth key items1 resp1 st1 w1))))"

definition stdio_list ::
  "engine \<Rightarrow> 'w stdio_ops \<Rightarrow> string \<Rightarrow> string \<Rightarrow> stdio_process \<Rightarrow> 'w \<Rightarrow> (json res \<times> stdio_process \<times> 'w) option" where
  "stdio_list E ops meth key st w =
     (case send_stdio_request E ops (list_message meth []) st w of (resp, st1, w1) \<Rightarrow>
        (case result_items resp key of
           Inl e \<Rightarrow> Some (Inl e, st1, w1)
         | Inr None \<Rightarrow> Some (Inr (JList []), st1, w1)
         | Inr (Some items) \<Rightarrow> stdio_pages E ops meth key items resp st1 w1))"

fun stdio_lists ::
  "engine \<Rightarrow> 'w stdio_ops \<Rightarrow> (string \<times> string) list \<Rightarrow> stdio_process \<Rightarrow> 'w \<Rightarrow>
     (json dict res \<times> stdio_process \<times> 'w) option" where
  "stdio_lists E ops [] st w = Some (Inr [], st, w)"
| "stdio_lists E ops ((meth, key) # rest) st w =
     (case stdio_list E ops meth key st w of
        None \<Rightarrow> None
      | Some (Inl e, st1, w1) \<Rightarrow> Some (Inl e, st1, w1)
      | Some (Inr items, st1, w1) \<Rightarrow>
          (case stdio_lists E ops rest st1 w1 of
             None \<Rightarrow> None
           | Some (Inl e, st2, w2) \<Rightarrow> Some (Inl e, st2, w2)
           | Some (Inr ls, st2, w2) \<Rightarrow> Some (Inr ((key, items) # ls), st2, w2)))"

definition fetch_stdio_catalog ::
  "engine \<Rightarrow> 'w stdio_ops \<Rightarrow> stdio_process \<Rightarrow> 'w \<Rightarrow> (json dict res \<times> stdio_process \<times> 'w) option" where
  "fetch_stdio_catalog E ops =
     stdio_lists E ops [(''tools/list'', ''tools''), (''resources/list'', ''resources''), (''prompts/list'', ''prompts'')]"

section \<open>The process manager\<close>

record stdio_server =
  ss_id :: int
  ss_transport_type :: "string option"
  ss_command :: "string option"
  ss_args :: "string list"
  ss_env_vars :: "string dict"

type_synonym manager = "(int \<times> stdio_process) list"

text \<open>\<open>get_process\<close>: whether there is a process, which is then in the table.  A process that has ended is
  started again as it was made.\<close>

definition get_process ::
  "string list option \<Rightarrow> 'w stdio_ops \<Rightarrow> stdio_server \<Rightarrow> manager \<Rightarrow> 'w \<Rightarrow> bool \<times> manager \<times> 'w" where
  "get_process allowed ops s m w =
     (if ss_transport_type s \<noteq> Some ''stdio'' then (False, m, w)
      else (case map_of m (ss_id s) of
          Some p \<Rightarrow>
            if is_running p then (True, m, w)
            else (case start_process ops p w of (ok, p1, w1) \<Rightarrow> (ok, AList.update (ss_id s) p1 m, w1))
        | None \<Rightarrow>
            (case ss_command s of
               None \<Rightarrow> (False, m, w)
             | Some command \<Rightarrow>
                 if command = [] \<or> \<not> is_command_allowed allowed command then (False, m, w)
                 else (case so_now ops w of (now, w1) \<Rightarrow>
                       case start_process ops
                              (stdio_process_init (ss_id s) command (ss_args s) (ss_env_vars s) now) w1 of
                         (ok, p, w2) \<Rightarrow> (ok, if ok then AList.update (ss_id s) p m else m, w2)))))"

text \<open>An operation of the process the manager has found, or \<open>dflt\<close> without one.\<close>

definition with_process ::
  "string list option \<Rightarrow> 'w stdio_ops \<Rightarrow> stdio_server \<Rightarrow> 'a \<Rightarrow>
     (stdio_process \<Rightarrow> 'w \<Rightarrow> 'a \<times> stdio_process \<times> 'w) \<Rightarrow> manager \<Rightarrow> 'w \<Rightarrow> 'a \<times> manager \<times> 'w" where
  "with_process allowed ops s dflt f m w =
     (case get_process allowed ops s m w of (ok, m1, w1) \<Rightarrow>
        (case if ok then map_of m1 (ss_id s) else None of
           None \<Rightarrow> (dflt, m1, w1)
         | Some p \<Rightarrow> (case f p w1 of (x, p1, w2) \<Rightarrow> (x, AList.update (ss_id s) p1 m1, w2))))"

definition manager_send_request ::
  "engine \<Rightarrow> string list option \<Rightarrow> 'w stdio_ops \<Rightarrow> stdio_server \<Rightarrow> json dict \<Rightarrow> manager \<Rightarrow> 'w \<Rightarrow>
     (int \<times> json dict) \<times> manager \<times> 'w" where
  "manager_send_request E allowed ops s msg =
     with_process allowed ops s (502, stdio_error None ''No stdio process available'')
       (\<lambda>p w. case send_stdio_request E ops msg p w of (resp, p1, w1) \<Rightarrow> ((200, resp), p1, w1))"

definition manager_send_notification ::
  "engine \<Rightarrow> string list option \<Rightarrow> 'w stdio_ops \<Rightarrow> stdio_server \<Rightarrow> json dict \<Rightarrow> manager \<Rightarrow> 'w \<Rightarrow>
     int \<times> manager \<times> 'w" where
  "manager_send_notification E allowed ops s msg = with_process allowed ops s 502 (send_stdio_notification E ops msg)"

definition manager_initialize ::
  "engine \<Rightarrow> string list option \<Rightarrow> 'w stdio_ops \<Rightarrow> stdio_server \<Rightarrow> manager \<Rightarrow> 'w \<Rightarrow>
     string option \<times> manager \<times> 'w" where
  "manager_initialize E allowed ops s = with_process allowed ops s None (initialize_process E ops)"

text \<open>\<open>None\<close> where the catalog's pages do not end.\<close>

definition manager_fetch_catalog ::
  "engine \<Rightarrow> string list option \<Rightarrow> 'w stdio_ops \<Rightarrow> stdio_server \<Rightarrow> manager \<Rightarrow> 'w \<Rightarrow>
     (json dict option res \<times> manager \<times> 'w) option" where
  "manager_fetch_catalog E allowed ops s m w =
     (case get_process allowed ops s m w of (ok, m1, w1) \<Rightarrow>
        (case if ok then map_of m1 (ss_id s) else None of
           None \<Rightarrow> Some (Inr None, m1, w1)
         | Some p \<Rightarrow> map_option
             (\<lambda>(r, p1, w2). (map_sum id Some r, AList.update (ss_id s) p1 m1, w2)) (fetch_stdio_catalog E ops p w1)))"

definition stop_server :: "'w stdio_ops \<Rightarrow> int \<Rightarrow> manager \<Rightarrow> 'w \<Rightarrow> manager \<times> 'w" where
  "stop_server ops sid m w =
     (case map_of m sid of None \<Rightarrow> (m, w) | Some p \<Rightarrow> (AList.delete sid m, snd (stop_stdio ops p w)))"

definition restart_server :: "'w stdio_ops \<Rightarrow> int \<Rightarrow> manager \<Rightarrow> 'w \<Rightarrow> bool \<times> manager \<times> 'w" where
  "restart_server ops sid m w =
     (case map_of m sid of
        None \<Rightarrow> (False, m, w)
      | Some p \<Rightarrow> (case restart_process ops p w of (ok, p1, w1) \<Rightarrow> (ok, AList.update sid p1 m, w1)))"

definition is_healthy :: "int \<Rightarrow> manager \<Rightarrow> bool" where
  "is_healthy sid m = (case map_of m sid of None \<Rightarrow> False | Some p \<Rightarrow> is_running p)"

text \<open>The clock is read for each process; a reading of the same instant stands for them all.\<close>

definition stop_idle_processes :: "'w stdio_ops \<Rightarrow> int \<Rightarrow> real \<Rightarrow> manager \<Rightarrow> 'w \<Rightarrow> manager \<times> 'w" where
  "stop_idle_processes ops timeout now m w =
     fold (\<lambda>sid (m, w). stop_server ops sid m w) (map fst (filter (\<lambda>(sid, p). is_idle timeout now p) m)) (m, w)"

definition shutdown_all :: "'w stdio_ops \<Rightarrow> manager \<Rightarrow> 'w \<Rightarrow> manager \<times> 'w" where
  "shutdown_all ops m w = ([], fold (\<lambda>(sid, p) w. snd (stop_stdio ops p w)) m w)"

end
