(* ===== verification/StdioSafety.thy ===== *)
theory StdioSafety imports StdioProxy begin

text \<open>
  What the stdio transport guarantees.  \<open>first_decision\<close> reads the fate of a request off the events
  after it, without the process's state: the first line with its id answers it, and the end of the
  reader breaks it.  \<open>reply_correct\<close> shows that requests get exactly this, however they interleave;
  \<open>noise_silences_process\<close> that one line of JSON that is no object leaves a process that runs and
  never answers again; \<open>only_allowed_commands\<close> that no other command is ever started.
\<close>

section \<open>Ids and futures\<close>

definition stdio_ok :: "stdio_process \<Rightarrow> bool" where
  "stdio_ok st \<longleftrightarrow> (\<forall>i \<in> set (sp_pending st). i < sp_next_id st) \<and>
     (\<forall>i. map_of (sp_futures st) i \<noteq> None \<longrightarrow> i < sp_next_id st) \<and> distinct (sp_pending st)"

lemma settle_fields [simp]:
  "sp_pending (settle i f st) = sp_pending st" "sp_next_id (settle i f st) = sp_next_id st"
  "sp_reading (settle i f st) = sp_reading st" "sp_proc (settle i f st) = sp_proc st"
  "sp_command (settle i f st) = sp_command st"
  by (simp_all add: settle_def)

lemma settle_future:
  "map_of (sp_futures (settle i f st)) j =
     (if j = i \<and> map_of (sp_futures st) i = Some Waiting then Some f else map_of (sp_futures st) j)"
  by (simp add: settle_def)

lemma fold_settle_fields [simp]:
  "sp_pending (fold (\<lambda>i. settle i f) is st) = sp_pending st"
  "sp_next_id (fold (\<lambda>i. settle i f) is st) = sp_next_id st"
  "sp_reading (fold (\<lambda>i. settle i f) is st) = sp_reading st"
  "sp_proc (fold (\<lambda>i. settle i f) is st) = sp_proc st"
  "sp_command (fold (\<lambda>i. settle i f) is st) = sp_command st"
  by (induction "is" arbitrary: st) simp_all

lemma fold_settle_future:
  assumes "f \<noteq> Waiting"
  shows "map_of (sp_futures (fold (\<lambda>i. settle i f) is st)) j =
     (if j \<in> set is \<and> map_of (sp_futures st) j = Some Waiting then Some f else map_of (sp_futures st) j)"
  using assms by (induction "is" arbitrary: st) (auto simp: settle_future)

lemma settle_all_fields [simp]:
  "sp_pending (settle_all f st) = []" "sp_next_id (settle_all f st) = sp_next_id st"
  "sp_reading (settle_all f st) = sp_reading st" "sp_proc (settle_all f st) = sp_proc st"
  "sp_command (settle_all f st) = sp_command st"
  by (simp_all add: settle_all_def)

lemma settle_all_future:
  assumes "f \<noteq> Waiting"
  shows "map_of (sp_futures (settle_all f st)) j =
     (if j \<in> set (sp_pending st) \<and> map_of (sp_futures st) j = Some Waiting then Some f
      else map_of (sp_futures st) j)"
  using assms by (simp add: settle_all_def fold_settle_future)

lemma finish_reader_fields [simp]:
  "sp_pending (finish_reader st) = []" "sp_next_id (finish_reader st) = sp_next_id st"
  "\<not> sp_reading (finish_reader st)" "sp_proc (finish_reader st) = sp_proc st"
  "sp_command (finish_reader st) = sp_command st"
  by (simp_all add: finish_reader_def)

lemma finish_reader_future:
  "map_of (sp_futures (finish_reader st)) j =
     (if j \<in> set (sp_pending st) \<and> map_of (sp_futures st) j = Some Waiting then Some (Broken EXITED)
      else map_of (sp_futures st) j)"
  by (simp add: finish_reader_def settle_all_future)

lemma stop_process_fields [simp]:
  "sp_pending (stop_process st) = []" "sp_next_id (stop_process st) = sp_next_id st"
  "\<not> sp_reading (stop_process st)" "sp_proc (stop_process st) = None"
  "sp_command (stop_process st) = sp_command st"
  by (simp_all add: stop_process_def)

lemma stop_process_future:
  "map_of (sp_futures (stop_process st)) j =
     (if j \<in> set (sp_pending st) \<and> map_of (sp_futures st) j = Some Waiting
      then Some (Broken (if sp_reading st then EXITED else ''Process stopped'')) else map_of (sp_futures st) j)"
  by (auto simp: stop_process_def settle_all_future finish_reader_future)

lemma drop_pending_fields [simp]:
  "sp_pending (drop_pending i st) = removeAll i (sp_pending st)" "sp_next_id (drop_pending i st) = sp_next_id st"
  "sp_reading (drop_pending i st) = sp_reading st" "sp_proc (drop_pending i st) = sp_proc st"
  "sp_futures (drop_pending i st) = sp_futures st" "sp_command (drop_pending i st) = sp_command st"
  by (simp_all add: drop_pending_def)

lemma begin_request_fields [simp]:
  "fst (begin_request msg now st) = sp_next_id st"
  "sp_pending (snd (snd (begin_request msg now st))) = sp_pending st @ [sp_next_id st]"
  "sp_next_id (snd (snd (begin_request msg now st))) = sp_next_id st + 1"
  "sp_reading (snd (snd (begin_request msg now st))) = sp_reading st"
  "sp_proc (snd (snd (begin_request msg now st))) = sp_proc st"
  "sp_command (snd (snd (begin_request msg now st))) = sp_command st"
  "sp_futures (snd (snd (begin_request msg now st))) = AList.update (sp_next_id st) Waiting (sp_futures st)"
  by (simp_all add: begin_request_def Let_def)

section \<open>Lines\<close>

datatype line_kind = Noise | Reply json "json dict" | Crash

definition kind_of_line :: "engine \<Rightarrow> string \<Rightarrow> line_kind" where
  "kind_of_line E s =
     (if strip s = [] then Noise
      else (case json_loads E (strip s) of
              None \<Rightarrow> Noise
            | Some (JObj d) \<Rightarrow>
                (case dict_get d ''id'' JNull of
                   JNull \<Rightarrow> Noise | JList xs \<Rightarrow> Crash | JObj e \<Rightarrow> Crash | v \<Rightarrow> Reply v d)
            | Some _ \<Rightarrow> Crash))"

lemma find_key:
  "List.find (same_id v) keys = Some i \<Longrightarrow> i \<in> set keys \<and> same_id v i"
  by (rule find_SomeD)

lemma int_key_unique: "same_id v i \<Longrightarrow> same_id v k \<Longrightarrow> k = i"
  by (cases v) (auto simp: same_id_def)

lemma take_line_eq:
  assumes "sp_reading st"
  shows "take_line E s st =
    (case kind_of_line E s of
       Noise \<Rightarrow> st
     | Crash \<Rightarrow> finish_reader st
     | Reply v d \<Rightarrow> (case List.find (same_id v) (sp_pending st) of
         None \<Rightarrow> st | Some k \<Rightarrow> settle k (Answer d) (drop_pending k st)))"
  using assms
  by (auto simp: take_line_def handle_line_def kind_of_line_def pending_key_def split: option.splits json.splits)

lemma take_line_idle: "\<not> sp_reading st \<Longrightarrow> take_line E s st = st"
  by (simp add: take_line_def)

section \<open>The invariant\<close>

lemma settle_ok: "stdio_ok st \<Longrightarrow> stdio_ok (settle i f st)"
  by (simp add: stdio_ok_def settle_future)

lemma emptied_ok:
  assumes "stdio_ok st" "sp_pending st' = []" "sp_next_id st' = sp_next_id st"
    and "\<And>j. map_of (sp_futures st') j \<noteq> None \<Longrightarrow> map_of (sp_futures st) j \<noteq> None"
  shows "stdio_ok st'"
  using assms by (simp add: stdio_ok_def)

lemma finish_reader_ok: "stdio_ok st \<Longrightarrow> stdio_ok (finish_reader st)"
  by (rule emptied_ok) (auto simp: finish_reader_future split: if_splits)

lemma stop_process_ok: "stdio_ok st \<Longrightarrow> stdio_ok (stop_process st)"
  by (rule emptied_ok) (auto simp: stop_process_future split: if_splits)

lemma drop_pending_ok: "stdio_ok st \<Longrightarrow> stdio_ok (drop_pending i st)"
  by (simp add: stdio_ok_def distinct_removeAll)

lemma take_line_ok: "stdio_ok st \<Longrightarrow> stdio_ok (take_line E s st)"
  by (cases "sp_reading st")
    (auto simp: take_line_eq take_line_idle settle_ok drop_pending_ok finish_reader_ok split: line_kind.split option.split)

lemma begin_request_ok: "stdio_ok st \<Longrightarrow> stdio_ok (snd (snd (begin_request msg now st)))"
  by (fastforce simp: stdio_ok_def)

lemma stdio_step_ok: "stdio_ok st \<Longrightarrow> stdio_ok (stdio_step E ev st)"
  by (cases ev)
    (simp_all add: take_line_ok finish_reader_ok stop_process_ok begin_request_ok give_up_def drop_pending_ok settle_ok,
     simp_all add: stdio_ok_def spawned_def)

lemma stdio_run_ok: "stdio_ok st \<Longrightarrow> stdio_ok (stdio_run E evs st)"
  by (induction evs arbitrary: st) (simp_all add: stdio_run_def stdio_step_ok)

text \<open>A settled future stays as it is.\<close>

lemma take_line_settled:
  assumes "map_of (sp_futures st) i = Some f" "f \<noteq> Waiting"
  shows "map_of (sp_futures (take_line E s st)) i = Some f"
  using assms
  by (cases "sp_reading st")
    (auto simp: take_line_eq take_line_idle settle_future finish_reader_future split: line_kind.split option.split)

lemma stdio_step_settled:
  assumes "stdio_ok st" "map_of (sp_futures st) i = Some f" "f \<noteq> Waiting"
  shows "map_of (sp_futures (stdio_step E ev st)) i = Some f"
proof -
  from assms have "i \<noteq> sp_next_id st" by (auto simp: stdio_ok_def)
  with assms show ?thesis
    by (cases ev) (auto simp: take_line_settled finish_reader_future stop_process_future give_up_def settle_future spawned_def)
qed

lemma stdio_run_settled:
  "stdio_ok st \<Longrightarrow> map_of (sp_futures st) i = Some f \<Longrightarrow> f \<noteq> Waiting \<Longrightarrow>
     map_of (sp_futures (stdio_run E evs st)) i = Some f"
  by (induction evs arbitrary: st) (simp_all add: stdio_run_def stdio_step_ok stdio_step_settled)

section \<open>The fate of a request\<close>

definition decision :: "engine \<Rightarrow> int \<Rightarrow> stdio_event \<Rightarrow> future" where
  "decision E i ev =
     (case ev of
        Line s \<Rightarrow>
          (case kind_of_line E s of
             Noise \<Rightarrow> Waiting
           | Crash \<Rightarrow> Broken EXITED
           | Reply v d \<Rightarrow> if same_id v i then Answer d else Waiting)
      | Eof \<Rightarrow> Broken EXITED
      | Stop \<Rightarrow> Broken EXITED
      | GiveUp j \<Rightarrow> if j = i then Cancelled else Waiting
      | _ \<Rightarrow> Waiting)"

fun first_decision :: "engine \<Rightarrow> int \<Rightarrow> stdio_event list \<Rightarrow> future" where
  "first_decision E i [] = Waiting"
| "first_decision E i (ev # evs) = (if decision E i ev = Waiting then first_decision E i evs else decision E i ev)"

definition awaited :: "int \<Rightarrow> stdio_process \<Rightarrow> bool" where
  "awaited i st \<longleftrightarrow> sp_reading st \<and> i \<in> set (sp_pending st) \<and> map_of (sp_futures st) i = Some Waiting"

lemma find_own_key:
  assumes "i \<in> set keys" "same_id v i"
  shows "List.find (same_id v) keys = Some i"
proof (cases "List.find (same_id v) keys")
  case None
  with assms show ?thesis by (auto simp: find_None_iff)
next
  case (Some k)
  then show ?thesis using int_key_unique [OF assms(2)] find_key by blast
qed

lemma take_line_awaited:
  assumes "awaited i st"
  shows "map_of (sp_futures (take_line E s st)) i = Some (decision E i (Line s)) \<and>
    (decision E i (Line s) = Waiting \<longrightarrow> awaited i (take_line E s st))"
proof (cases "kind_of_line E s")
  case (Reply v d)
  show ?thesis
  proof (cases "same_id v i")
    case True
    with assms Reply find_own_key [of i "sp_pending st" v] show ?thesis
      by (simp add: awaited_def take_line_eq decision_def settle_future)
  next
    case False
    then have "List.find (same_id v) (sp_pending st) \<noteq> Some i" using find_key by blast
    with assms Reply False show ?thesis
      by (auto simp: awaited_def take_line_eq decision_def settle_future split: option.split)
  qed
qed (use assms in \<open>auto simp: awaited_def take_line_eq decision_def finish_reader_future\<close>)

lemma stdio_step_awaited:
  assumes "stdio_ok st" "awaited i st"
  shows "map_of (sp_futures (stdio_step E ev st)) i = Some (decision E i ev) \<and>
    (decision E i ev = Waiting \<longrightarrow> awaited i (stdio_step E ev st))"
proof (cases ev)
  case (Request msg now)
  with assms have "i \<noteq> sp_next_id st" by (auto simp: stdio_ok_def awaited_def)
  with assms Request show ?thesis by (auto simp: awaited_def decision_def)
qed (use assms take_line_awaited [OF assms(2)] in
  \<open>auto simp: awaited_def decision_def finish_reader_future stop_process_future give_up_def settle_future spawned_def\<close>)

lemma stdio_run_awaited:
  assumes "stdio_ok st" "awaited i st"
  shows "map_of (sp_futures (stdio_run E evs st)) i = Some (first_decision E i evs)"
  using assms
proof (induction evs arbitrary: st)
  case Nil
  then show ?case by (simp add: stdio_run_def awaited_def)
next
  case (Cons ev evs)
  note step = stdio_step_awaited [OF Cons.prems, of E ev]
  have run: "stdio_run E (ev # evs) st = stdio_run E evs (stdio_step E ev st)" by (simp add: stdio_run_def)
  show ?case
  proof (cases "decision E i ev = Waiting")
    case True
    with step Cons.IH [OF stdio_step_ok [OF Cons.prems(1)]] show ?thesis by (simp add: run)
  next
    case False
    with step stdio_run_settled [OF stdio_step_ok [OF Cons.prems(1)]] show ?thesis by (simp add: run)
  qed
qed

lemma begin_request_awaited:
  assumes "stdio_ok st" "sp_reading st"
  shows "stdio_ok (snd (snd (begin_request msg now st)))" "awaited (sp_next_id st) (snd (snd (begin_request msg now st)))"
  using assms begin_request_ok by (auto simp: awaited_def)

lemma finish_request_reply:
  "map_of (sp_futures st) i = Some f \<Longrightarrow> fst (finish_request i original st) = reply_of original f"
  by (auto simp: finish_request_def reply_of_def dict_get_def split: future.split)

lemma start_process_facts:
  assumes "start_process ops st w = (True, st1, w1)"
  shows "is_running st1" "sp_next_id st1 = sp_next_id st" "sp_server_id st1 = sp_server_id st"
    "stdio_ok st \<Longrightarrow> stdio_ok st1" "\<not> is_running st \<Longrightarrow> sp_reading st1"
  using assms
  by (auto simp: start_process_def spawned_def is_running_def stdio_ok_def split: if_splits prod.splits bool.splits)

text \<open>C13: A request gets the answer that belongs to it and no other: the first line with its internal id that comes
  after it, under its own id, unless the output ends, a line breaks the reader, or its timeout comes first; whatever
  other requests, lines and stops come in between.\<close>

theorem reply_correct:
  assumes "stdio_ok st" "start_process ops st w = (True, st1, w1)" "sp_reading st1"
    and "so_now ops w1 = (now, w2)"
    and "so_write ops (sp_server_id st)
           (wire E (JObj (AList.update ''id'' (JInt (sp_next_id st)) msg))) w2 = ((evs, None), w3)"
    and "so_wait ops (sp_server_id st) (sp_next_id st) w3 = (later, w4)"
  shows "fst (send_stdio_request E ops msg st w) =
    reply_of (dict_get msg ''id'' JNull) (first_decision E (sp_next_id st) (evs @ later))"
proof -
  note facts = start_process_facts [OF assms(2)]
  let ?st2 = "snd (snd (begin_request msg now st1))"
  note begun = begin_request_awaited [OF facts(4) [OF assms(1)] assms(3), of msg now]
  have run: "stdio_run E later (stdio_run E evs ?st2) = stdio_run E (evs @ later) ?st2" by (simp add: stdio_run_def)
  have "fst (finish_request (sp_next_id st) original (stdio_run E (evs @ later) ?st2)) =
      reply_of original (first_decision E (sp_next_id st) (evs @ later))" for original
    using stdio_run_awaited [OF begun] facts(2) by (simp add: finish_request_reply)
  moreover have "fst (send_stdio_request E ops msg st w) =
      fst (finish_request (sp_next_id st) (dict_get msg ''id'' JNull) (stdio_run E later (stdio_run E evs ?st2)))"
    using assms(2,4-6) facts(2,3)
    by (simp add: send_stdio_request_def written_request_def begin_request_def Let_def split: prod.split)
  ultimately show ?thesis by (simp add: run)
qed

section \<open>A line that is no object\<close>

definition silent :: "stdio_process \<Rightarrow> stdio_process \<Rightarrow> bool" where
  "silent st0 st \<longleftrightarrow> is_running st \<and> \<not> sp_reading st \<and>
     (\<forall>i d. map_of (sp_futures st) i = Some (Answer d) \<longrightarrow> map_of (sp_futures st0) i = Some (Answer d))"

lemma silent_step:
  assumes "silent st0 st" "ev \<noteq> Stop" "ev \<noteq> Exited"
  shows "silent st0 (stdio_step E ev st)"
  using assms
  by (cases ev) (auto simp: silent_def take_line_idle is_running_def give_up_def settle_future)

lemma silent_run:
  "silent st0 st \<Longrightarrow> Stop \<notin> set evs \<Longrightarrow> Exited \<notin> set evs \<Longrightarrow> silent st0 (stdio_run E evs st)"
  by (induction evs arbitrary: st) (auto simp: stdio_run_def silent_step)

text \<open>C15: One line of output that is JSON but no object (a number, say) silences a process for good: it still counts as
  running, so it is not started again, but no request is answered any more, whatever the process writes.\<close>

theorem noise_silences_process:
  assumes "is_running st" "sp_reading st" "kind_of_line E s = Crash"
    and "Stop \<notin> set evs" "Exited \<notin> set evs"
  shows "is_running (stdio_run E (Line s # evs) st) \<and>
    (\<forall>i d. map_of (sp_futures (stdio_run E (Line s # evs) st)) i = Some (Answer d) \<longrightarrow>
       map_of (sp_futures st) i = Some (Answer d))"
proof -
  have "silent st (take_line E s st)"
    using assms(1-3) by (auto simp: silent_def take_line_eq is_running_def finish_reader_future split: if_splits)
  then have "silent st (stdio_run E (Line s # evs) st)"
    using silent_run [OF _ assms(4,5)] by (simp add: stdio_run_def)
  then show ?thesis by (simp add: silent_def)
qed

section \<open>Only allowed commands\<close>

text \<open>\<open>agree\<close>: two systems that differ in what they do with commands that are not allowed, at most.\<close>

definition agree :: "string list option \<Rightarrow> 'w stdio_ops \<Rightarrow> 'w stdio_ops \<Rightarrow> bool" where
  "agree allowed ops ops' \<longleftrightarrow>
     so_now ops' = so_now ops \<and> so_write ops' = so_write ops \<and> so_wait ops' = so_wait ops \<and>
     so_terminate ops' = so_terminate ops \<and>
     (\<forall>c. is_command_allowed allowed c \<longrightarrow> so_spawn ops' c = so_spawn ops c)"

lemma agree_sym: "agree allowed ops ops' \<Longrightarrow> agree allowed ops' ops"
  by (simp add: agree_def)

lemma agreeD:
  assumes "agree allowed ops ops'"
  shows "so_now ops' = so_now ops" "so_write ops' = so_write ops" "so_wait ops' = so_wait ops"
    "so_terminate ops' = so_terminate ops"
  using assms by (simp_all add: agree_def)

lemma take_line_command [simp]: "sp_command (take_line E s st) = sp_command st"
  by (cases "sp_reading st") (auto simp: take_line_eq take_line_idle split: line_kind.split option.split)

lemma stdio_step_command [simp]: "sp_command (stdio_step E ev st) = sp_command st"
  by (cases ev) (simp_all add: give_up_def spawned_def)

lemma stdio_run_command [simp]: "sp_command (stdio_run E evs st) = sp_command st"
  by (induction evs arbitrary: st) (simp_all add: stdio_run_def)

lemma finish_request_command [simp]: "sp_command (snd (finish_request i v st)) = sp_command st"
  by (simp add: finish_request_def give_up_def split: future.split)

lemma start_command: "start_process ops st w = (ok, st1, w1) \<Longrightarrow> sp_command st1 = sp_command st"
  by (auto simp: start_process_def spawned_def split: if_splits prod.splits bool.splits)

lemma start_agrees:
  "agree allowed ops ops' \<Longrightarrow> is_command_allowed allowed (sp_command st) \<Longrightarrow>
     start_process ops' st w = start_process ops st w"
  by (auto simp: start_process_def agree_def split: prod.split bool.split)

lemma written_command: "written_request E ops msg st w = (resp, st1, w1) \<Longrightarrow> sp_command st1 = sp_command st"
  by (auto simp: written_request_def begin_request_def Let_def split: prod.splits option.splits
      dest!: arg_cong [where f = "\<lambda>p. sp_command (snd p)"])

lemma request_command: "send_stdio_request E ops msg st w = (resp, st1, w1) \<Longrightarrow> sp_command st1 = sp_command st"
  by (auto simp: send_stdio_request_def split: prod.splits bool.splits dest!: start_command written_command)

lemma request_agrees:
  assumes "agree allowed ops ops'" "is_command_allowed allowed (sp_command st)"
  shows "send_stdio_request E ops' msg st w = send_stdio_request E ops msg st w"
proof -
  have "written_request E ops' msg st1 w1 = written_request E ops msg st1 w1" for st1 w1
    using agreeD [OF assms(1)] by (simp only: written_request_def)
  then show ?thesis by (simp add: send_stdio_request_def start_agrees [OF assms] split: prod.split bool.split)
qed

lemma notification_command:
  "send_stdio_notification E ops msg st w = (r, st1, w1) \<Longrightarrow> sp_command st1 = sp_command st"
  by (auto simp: send_stdio_notification_def split: if_splits prod.splits)

lemma notification_agrees:
  "agree allowed ops ops' \<Longrightarrow> send_stdio_notification E ops' msg st w = send_stdio_notification E ops msg st w"
  by (simp add: send_stdio_notification_def agree_def)

lemma initialize_command: "initialize_process E ops st w = (r, st1, w1) \<Longrightarrow> sp_command st1 = sp_command st"
  by (auto simp: initialize_process_def split: if_splits prod.splits dest!: request_command notification_command)

lemma initialize_agrees:
  assumes "agree allowed ops ops'" "is_command_allowed allowed (sp_command st)"
  shows "initialize_process E ops' st w = initialize_process E ops st w"
  using request_agrees [OF assms] notification_agrees [OF assms(1)]
  by (auto simp: initialize_process_def split: prod.split)

lemma pages_agree:
  "stdio_pages E ops meth key items resp st w = Some r \<Longrightarrow>
     agree allowed ops ops' \<and> is_command_allowed allowed (sp_command st) \<longrightarrow>
     stdio_pages E ops' meth key items resp st w = Some r \<and> sp_command (fst (snd r)) = sp_command st"
proof (induction rule: stdio_pages.raw_induct [rotated, consumes 1, case_names step])
  case (step pages E ops meth key items resp st w r)
  show ?case
  proof (intro impI, elim conjE)
  assume agreed: "agree allowed ops ops'" and ok: "is_command_allowed allowed (sp_command st)"
  note ag = request_agrees [OF agreed ok]
  show "stdio_pages E ops' meth key items resp st w = Some r \<and> sp_command (fst (snd r)) = sp_command st"
  proof (cases "result_cursor resp")
    case (Inl e)
    with step(2) show ?thesis by (auto simp: stdio_pages.simps)
  next
    case (Inr c)
    show ?thesis
    proof (cases c)
      case None
      with step(2) Inr show ?thesis by (auto simp: stdio_pages.simps)
    next
      case (Some v)
      obtain resp1 st1 w1 where sent: "send_stdio_request E ops (list_message meth [(''cursor'', v)]) st w = (resp1, st1, w1)"
        by (metis prod_cases3)
      note cmd = request_command [OF sent]
      with ok have allowed: "is_command_allowed allowed (sp_command st1)" by simp
      show ?thesis
      proof (cases "result_items resp1 key")
        case (Inl e)
        with step(2) Inr Some sent cmd ag show ?thesis by (auto simp: stdio_pages.simps)
      next
        case items: (Inr got)
        show ?thesis
        proof (cases "\<exists>items1 xs. got = Some xs \<and> extend_items items xs = Inr items1")
          case True
          then obtain xs items1 where got: "got = Some xs" "extend_items items xs = Inr items1" by auto
          then have "pages E ops meth key items1 resp1 st1 w1 = Some r" using step(2) Inr Some sent items by simp
          from step(1) [OF this] agreed allowed show ?thesis
            using Inr Some sent items got cmd ag by (simp add: stdio_pages.simps [of E ops'])
        next
          case False
          with step(2) Inr Some sent items cmd ag show ?thesis
            by (cases got) (auto simp: stdio_pages.simps split: sum.splits)
        qed
      qed
    qed
  qed
  qed
qed

lemma pages_agree_eq:
  assumes "agree allowed ops ops'" "is_command_allowed allowed (sp_command st)"
  shows "stdio_pages E ops' meth key items resp st w = stdio_pages E ops meth key items resp st w"
  using pages_agree [of E] assms agree_sym [OF assms(1)] by (metis not_Some_eq)

lemma list_command:
  assumes "stdio_list E ops meth key st w = Some (r, st1, w1)" "is_command_allowed allowed (sp_command st)"
  shows "sp_command st1 = sp_command st"
proof -
  obtain resp st2 w2 where sent: "send_stdio_request E ops (list_message meth []) st w = (resp, st2, w2)"
    by (metis prod_cases3)
  note cmd = request_command [OF sent]
  have "agree allowed ops ops" by (simp add: agree_def)
  with assms(2) cmd pages_agree [of E ops meth key _ resp st2 w2 "(r, st1, w1)" allowed ops]
  have "sp_command st1 = sp_command st" if "stdio_pages E ops meth key items resp st2 w2 = Some (r, st1, w1)" for items
    using that by simp
  with assms(1) sent cmd show ?thesis
    by (auto simp: stdio_list_def split: sum.splits option.splits)
qed

lemma list_agrees:
  assumes "agree allowed ops ops'" "is_command_allowed allowed (sp_command st)"
  shows "stdio_list E ops' meth key st w = stdio_list E ops meth key st w"
proof -
  obtain resp st2 w2 where sent: "send_stdio_request E ops (list_message meth []) st w = (resp, st2, w2)"
    by (metis prod_cases3)
  with assms(2) request_command [OF sent] pages_agree_eq [OF assms(1), of st2] request_agrees [OF assms]
  show ?thesis by (simp add: stdio_list_def split: sum.split option.split)
qed

lemma lists_command:
  "stdio_lists E ops ks st w = Some (r, st1, w1) \<Longrightarrow> is_command_allowed allowed (sp_command st) \<Longrightarrow>
     sp_command st1 = sp_command st"
proof (induction ks arbitrary: st w r st1 w1)
  case (Cons k ks)
  obtain meth key where k: "k = (meth, key)" by (cases k)
  from Cons.prems k obtain r2 st2 w2 where l: "stdio_list E ops meth key st w = Some (r2, st2, w2)"
    by (cases "stdio_list E ops meth key st w") auto
  note cmd = list_command [OF l Cons.prems(2)]
  show ?case
  proof (cases r2)
    case (Inl e)
    with Cons.prems k l cmd show ?thesis by simp
  next
    case (Inr items)
    with Cons.prems k l obtain r3 w3 where "stdio_lists E ops ks st2 w2 = Some (r3, st1, w3)"
      by (auto split: option.splits sum.splits)
    from Cons.IH [OF this] cmd Cons.prems(2) show ?thesis by simp
  qed
qed simp

lemma lists_agree:
  assumes "agree allowed ops ops'"
  shows "is_command_allowed allowed (sp_command st) \<Longrightarrow> stdio_lists E ops' ks st w = stdio_lists E ops ks st w"
proof (induction ks arbitrary: st w)
  case (Cons k ks)
  obtain meth key where k: "k = (meth, key)" by (cases k)
  note l = list_agrees [OF assms Cons.prems]
  have "stdio_lists E ops' ks st1 w1 = stdio_lists E ops ks st1 w1"
    if "stdio_list E ops meth key st w = Some (r, st1, w1)" for r st1 w1
    using Cons list_command [OF that Cons.prems] by simp
  then show ?case by (auto simp: k l split: option.split sum.split)
qed simp

text \<open>The operations of the manager in any order; \<open>None\<close> when a catalog's pages do not end.\<close>

datatype manager_op =
    SendRequest stdio_server "json dict"
  | SendNotification stdio_server "json dict"
  | Initialize stdio_server
  | FetchCatalog stdio_server
  | StopServer int
  | RestartServer int
  | StopIdle real
  | ShutdownAll

fun manager_step ::
  "engine \<Rightarrow> string list option \<Rightarrow> int \<Rightarrow> 'w stdio_ops \<Rightarrow> manager_op \<Rightarrow> manager \<times> 'w \<Rightarrow> (manager \<times> 'w) option" where
  "manager_step E allowed timeout ops (SendRequest s msg) (m, w) = Some (snd (manager_send_request E allowed ops s msg m w))"
| "manager_step E allowed timeout ops (SendNotification s msg) (m, w) =
     Some (snd (manager_send_notification E allowed ops s msg m w))"
| "manager_step E allowed timeout ops (Initialize s) (m, w) = Some (snd (manager_initialize E allowed ops s m w))"
| "manager_step E allowed timeout ops (FetchCatalog s) (m, w) =
     map_option snd (manager_fetch_catalog E allowed ops s m w)"
| "manager_step E allowed timeout ops (StopServer sid) (m, w) = Some (stop_server ops sid m w)"
| "manager_step E allowed timeout ops (RestartServer sid) (m, w) = Some (snd (restart_server ops sid m w))"
| "manager_step E allowed timeout ops (StopIdle now) (m, w) = Some (stop_idle_processes ops timeout now m w)"
| "manager_step E allowed timeout ops ShutdownAll (m, w) = Some (shutdown_all ops m w)"

fun manager_run ::
  "engine \<Rightarrow> string list option \<Rightarrow> int \<Rightarrow> 'w stdio_ops \<Rightarrow> manager_op list \<Rightarrow> manager \<times> 'w \<Rightarrow> (manager \<times> 'w) option" where
  "manager_run E allowed timeout ops [] c = Some c"
| "manager_run E allowed timeout ops (x # xs) c =
     (case manager_step E allowed timeout ops x c of None \<Rightarrow> None | Some c1 \<Rightarrow> manager_run E allowed timeout ops xs c1)"

definition table_ok :: "string list option \<Rightarrow> manager \<Rightarrow> bool" where
  "table_ok allowed m \<longleftrightarrow> (\<forall>sid p. map_of m sid = Some p \<longrightarrow> is_command_allowed allowed (sp_command p))"

lemma table_ok_update:
  "table_ok allowed m \<Longrightarrow> is_command_allowed allowed (sp_command p) \<Longrightarrow> table_ok allowed (AList.update sid p m)"
  by (simp add: table_ok_def)

lemma table_ok_delete: "table_ok allowed m \<Longrightarrow> table_ok allowed (AList.delete sid m)"
  by (simp add: table_ok_def)

lemma init_command [simp]: "sp_command (stdio_process_init sid c args env now) = c"
  by (simp add: stdio_process_init_def)

lemma get_process_ok:
  assumes "get_process allowed ops s m w = (ok, m1, w1)" "table_ok allowed m"
  shows "table_ok allowed m1"
  using assms
  by (auto simp: get_process_def table_ok_update split: if_splits option.splits prod.splits dest!: start_command
      intro!: table_ok_update) (simp_all add: table_ok_def)

lemma get_process_agrees:
  assumes "agree allowed ops ops'" "table_ok allowed m"
  shows "get_process allowed ops' s m w = get_process allowed ops s m w"
proof (cases "map_of m (ss_id s)")
  case None
  have "start_process ops' (stdio_process_init sid c args env now) w1 = start_process ops (stdio_process_init sid c args env now) w1"
    if "is_command_allowed allowed c" for sid c args env now w1
    using that start_agrees [OF assms(1)] by simp
  with None show ?thesis
    using agreeD [OF assms(1)] by (auto simp: get_process_def split: option.split prod.split)
next
  case (Some p)
  with assms(2) have "is_command_allowed allowed (sp_command p)" by (auto simp: table_ok_def)
  with Some start_agrees [OF assms(1)] show ?thesis by (simp add: get_process_def)
qed

lemma with_process_ok:
  assumes "with_process allowed ops s dflt f m w = (x, m1, w1)" "table_ok allowed m"
    and "\<And>p w x p1 w1. f p w = (x, p1, w1) \<Longrightarrow> sp_command p1 = sp_command p"
  shows "table_ok allowed m1"
proof -
  obtain ok m2 w2 where got: "get_process allowed ops s m w = (ok, m2, w2)" by (metis prod_cases3)
  note ok2 = get_process_ok [OF got assms(2)]
  show ?thesis
  proof (cases "if ok then map_of m2 (ss_id s) else None")
    case None
    with assms(1) got ok2 show ?thesis by (simp add: with_process_def)
  next
    case (Some p)
    then have "is_command_allowed allowed (sp_command p)" using ok2 by (auto simp: table_ok_def split: if_splits)
    with Some assms(1) got ok2 assms(3) show ?thesis
      by (auto simp: with_process_def split: prod.splits intro!: table_ok_update)
  qed
qed

lemma with_process_agrees:
  assumes "agree allowed ops ops'" "table_ok allowed m"
    and "\<And>p w. is_command_allowed allowed (sp_command p) \<Longrightarrow> f' p w = f p w"
  shows "with_process allowed ops' s dflt f' m w = with_process allowed ops s dflt f m w"
proof -
  obtain ok m2 w2 where got: "get_process allowed ops s m w = (ok, m2, w2)" by (metis prod_cases3)
  have "f' p w2 = f p w2" if "map_of m2 (ss_id s) = Some p" for p
    using that get_process_ok [OF got assms(2)] assms(3) by (auto simp: table_ok_def)
  then show ?thesis
    using got get_process_agrees [OF assms(1,2)] by (auto simp: with_process_def split: option.split)
qed

lemma catalog_command:
  "fetch_stdio_catalog E ops p w = Some (r, p1, w1) \<Longrightarrow> is_command_allowed allowed (sp_command p) \<Longrightarrow>
     sp_command p1 = sp_command p"
  unfolding fetch_stdio_catalog_def by (rule lists_command)

lemma found_allowed:
  assumes "get_process allowed ops s m w = (ok, m1, w1)" "table_ok allowed m"
    and "(if ok then map_of m1 (ss_id s) else None) = Some p"
  shows "table_ok allowed m1" "is_command_allowed allowed (sp_command p)"
  using get_process_ok [OF assms(1,2)] assms(3) by (auto simp: table_ok_def split: if_splits)

lemma fetch_catalog_ok:
  assumes "manager_fetch_catalog E allowed ops s m w = Some (r, m1, w1)" "table_ok allowed m"
  shows "table_ok allowed m1"
proof -
  obtain ok m2 w2 where got: "get_process allowed ops s m w = (ok, m2, w2)" by (metis prod_cases3)
  show ?thesis
  proof (cases "if ok then map_of m2 (ss_id s) else None")
    case None
    with assms(1) got get_process_ok [OF got assms(2)] show ?thesis by (simp add: manager_fetch_catalog_def)
  next
    case (Some p)
    note found = found_allowed [OF got assms(2) Some]
    from Some assms(1) got obtain r' p1 where fetched: "fetch_stdio_catalog E ops p w2 = Some (r', p1, w1)"
      and m1: "m1 = AList.update (ss_id s) p1 m2"
      by (auto simp: manager_fetch_catalog_def)
    from catalog_command [OF fetched found(2)] found show ?thesis by (simp add: m1 table_ok_update)
  qed
qed

lemma fetch_catalog_agrees:
  assumes "agree allowed ops ops'" "table_ok allowed m"
  shows "manager_fetch_catalog E allowed ops' s m w = manager_fetch_catalog E allowed ops s m w"
proof -
  obtain ok m2 w2 where got: "get_process allowed ops s m w = (ok, m2, w2)" by (metis prod_cases3)
  have "fetch_stdio_catalog E ops' p w2 = fetch_stdio_catalog E ops p w2"
    if "(if ok then map_of m2 (ss_id s) else None) = Some p" for p
    unfolding fetch_stdio_catalog_def by (rule lists_agree [OF assms(1) found_allowed(2) [OF got assms(2) that]])
  then show ?thesis
    using got get_process_agrees [OF assms] by (simp add: manager_fetch_catalog_def split: option.split)
qed

lemma stop_stdio_agrees: "agree allowed ops ops' \<Longrightarrow> stop_stdio ops' = stop_stdio ops"
  by (intro ext) (simp add: stop_stdio_def agreeD)

lemma stop_server_agrees: "agree allowed ops ops' \<Longrightarrow> stop_server ops' = stop_server ops"
  by (intro ext) (simp add: stop_server_def stop_stdio_agrees [of allowed ops ops'] split: option.split)

lemma restart_agrees:
  assumes "agree allowed ops ops'" "table_ok allowed m"
  shows "restart_server ops' sid m w = restart_server ops sid m w"
proof (cases "map_of m sid")
  case (Some p)
  with assms(2) have "is_command_allowed allowed (sp_command (stop_process p))" by (auto simp: table_ok_def)
  with Some start_agrees [OF assms(1)] show ?thesis
    by (simp add: restart_server_def restart_process_def stop_stdio_agrees [OF assms(1)]) (simp add: stop_stdio_def)
qed (simp add: restart_server_def)

lemma stop_server_ok: "table_ok allowed m \<Longrightarrow> table_ok allowed (fst (stop_server ops sid m w))"
  by (simp add: stop_server_def table_ok_delete split: option.split)

lemma stop_fold_ok:
  "table_ok allowed m \<Longrightarrow> table_ok allowed (fst (fold (\<lambda>sid (m, w). stop_server ops sid m w) sids (m, w)))"
proof (induction sids arbitrary: m w)
  case (Cons sid sids)
  obtain m1 w1 where "stop_server ops sid m w = (m1, w1)" by (cases "stop_server ops sid m w")
  with Cons stop_server_ok [of allowed m ops sid w] show ?case by simp
qed simp

lemma restart_ok: "table_ok allowed m \<Longrightarrow> restart_server ops sid m w = (ok, m1, w1) \<Longrightarrow> table_ok allowed m1"
  by (auto simp: restart_server_def restart_process_def stop_stdio_def split: option.splits prod.splits
      dest!: start_command intro!: table_ok_update) (auto simp: table_ok_def)

lemma manager_step_ok:
  assumes "manager_step E allowed timeout ops x (m, w) = Some (m1, w1)" "table_ok allowed m"
  shows "table_ok allowed m1"
proof (cases x)
  case (SendRequest s msg)
  with assms obtain r where r: "manager_send_request E allowed ops s msg m w = (r, m1, w1)"
    by (cases "manager_send_request E allowed ops s msg m w") auto
  show ?thesis
    by (rule with_process_ok [OF r [unfolded manager_send_request_def] assms(2)])
      (auto split: prod.splits dest: request_command)
next
  case (SendNotification s msg)
  with assms obtain r where r: "manager_send_notification E allowed ops s msg m w = (r, m1, w1)"
    by (cases "manager_send_notification E allowed ops s msg m w") auto
  show ?thesis
    by (rule with_process_ok [OF r [unfolded manager_send_notification_def] assms(2) notification_command])
next
  case (Initialize s)
  with assms obtain r where r: "manager_initialize E allowed ops s m w = (r, m1, w1)"
    by (cases "manager_initialize E allowed ops s m w") auto
  show ?thesis
    by (rule with_process_ok [OF r [unfolded manager_initialize_def] assms(2) initialize_command])
next
  case (FetchCatalog s)
  with assms fetch_catalog_ok show ?thesis by auto
next
  case (StopServer sid)
  with assms stop_server_ok show ?thesis by (metis fst_conv manager_step.simps(5) option.inject)
next
  case (RestartServer sid)
  with assms restart_ok show ?thesis by (cases "restart_server ops sid m w") auto
next
  case (StopIdle now)
  with assms stop_fold_ok show ?thesis
    by (metis fst_conv manager_step.simps(7) option.inject stop_idle_processes_def)
next
  case ShutdownAll
  with assms show ?thesis by (simp add: shutdown_all_def table_ok_def)
qed

lemma manager_step_agrees:
  assumes "agree allowed ops ops'" "table_ok allowed m"
  shows "manager_step E allowed timeout ops' x (m, w) = manager_step E allowed timeout ops x (m, w)"
proof (cases x)
  case (SendRequest s msg)
  show ?thesis
    unfolding SendRequest manager_step.simps manager_send_request_def
    by (intro arg_cong [where f = "\<lambda>r. Some (snd r)"] with_process_agrees [OF assms])
      (simp add: request_agrees [OF assms(1)])
next
  case (SendNotification s msg)
  show ?thesis
    unfolding SendNotification manager_step.simps manager_send_notification_def
    by (intro arg_cong [where f = "\<lambda>r. Some (snd r)"] with_process_agrees [OF assms])
      (simp add: notification_agrees [OF assms(1)])
next
  case (Initialize s)
  show ?thesis
    unfolding Initialize manager_step.simps manager_initialize_def
    by (intro arg_cong [where f = "\<lambda>r. Some (snd r)"] with_process_agrees [OF assms])
      (simp add: initialize_agrees [OF assms(1)])
qed (simp_all add: fetch_catalog_agrees [OF assms] stop_server_agrees [OF assms(1)] restart_agrees [OF assms]
    stop_idle_processes_def shutdown_all_def stop_stdio_agrees [OF assms(1)])

lemma manager_run_agrees:
  assumes "agree allowed ops ops'"
  shows "table_ok allowed m \<Longrightarrow> manager_run E allowed timeout ops' xs (m, w) = manager_run E allowed timeout ops xs (m, w)"
proof (induction xs arbitrary: m w)
  case (Cons x xs)
  have "manager_run E allowed timeout ops' xs c = manager_run E allowed timeout ops xs c"
    if step: "manager_step E allowed timeout ops x (m, w) = Some c" for c
  proof -
    obtain m1 w1 where c: "c = (m1, w1)" by (cases c)
    from manager_step_ok [OF step [unfolded c] Cons.prems] show ?thesis unfolding c by (rule Cons.IH)
  qed
  with manager_step_agrees [OF assms Cons.prems] show ?case by (simp split: option.split)
qed simp

text \<open>C14: Whatever operations the gateway asks of the process manager, with whatever server configurations, it never
  starts a command whose base name is not allowed: the run is the same in a system that treats those commands
  differently.\<close>

theorem only_allowed_commands:
  assumes "\<And>c. is_command_allowed allowed c \<Longrightarrow> spawn c = so_spawn ops c"
  shows "manager_run E allowed timeout (ops\<lparr>so_spawn := spawn\<rparr>) xs ([], w) = manager_run E allowed timeout ops xs ([], w)"
  by (rule manager_run_agrees) (simp_all add: agree_def table_ok_def assms)

section \<open>A process at work\<close>

definition demo_answer :: "int \<Rightarrow> int \<Rightarrow> string" where
  "demo_answer i v = json_dumps literal_engine (JObj [(''id'', JInt i), (''result'', JInt v)])"

text \<open>A system on which every command starts; while the first request waits, another task sends one, and the
  process answers them in the other order, between lines of its log.\<close>

definition demo_wait :: "stdio_event list" where
  "demo_wait = [Line ''starting'', Request [(''id'', JStr ''b'')] 1, Line (demo_answer 2 8), Line (demo_answer 1 7), Eof]"

definition demo_system :: "nat stdio_ops" where
  "demo_system = \<lparr>so_now = (\<lambda>w. (0, w)), so_spawn = (\<lambda>c args env w. (True, Suc w)),
     so_write = (\<lambda>sid line w. (([], None), w)), so_wait = (\<lambda>sid i w. (demo_wait, w)), so_terminate = (\<lambda>sid w. w)\<rparr>"

definition demo_process :: stdio_process where
  "demo_process = stdio_process_init 3 ''npx'' [] [] 0"

lemma demo_process_ok: "stdio_ok demo_process"
  by (simp add: demo_process_def stdio_process_init_def stdio_ok_def)

lemma demo_kinds:
  "kind_of_line literal_engine ''starting'' = Noise"
  "kind_of_line literal_engine (demo_answer 2 8) = Reply (JInt 2) [(''id'', JInt 2), (''result'', JInt 8)]"
  "kind_of_line literal_engine (demo_answer 1 7) = Reply (JInt 1) [(''id'', JInt 1), (''result'', JInt 7)]"
  "kind_of_line literal_engine ''42'' = Crash"
  by code_simp+

lemma demo_decision: "first_decision literal_engine 1 demo_wait = Answer [(''id'', JInt 1), (''result'', JInt 7)]"
  by (simp add: demo_wait_def decision_def demo_kinds same_id_def)

theorem reply_correct_witness:
  "fst (send_stdio_request literal_engine demo_system [(''id'', JStr ''a'')] demo_process 0) =
     [(''id'', JStr ''a''), (''result'', JInt 7)]"
proof -
  have next_id: "sp_next_id demo_process = 1" by (simp add: demo_process_def stdio_process_init_def)
  have started: "start_process demo_system demo_process 0 = (True, spawned 0 demo_process, 1)"
    by (simp add: start_process_def demo_system_def is_running_def demo_process_def stdio_process_init_def)
  have "fst (send_stdio_request literal_engine demo_system [(''id'', JStr ''a'')] demo_process 0) =
      reply_of (dict_get [(''id'', JStr ''a'')] ''id'' JNull)
        (first_decision literal_engine (sp_next_id demo_process) ([] @ demo_wait))"
    by (rule reply_correct [OF demo_process_ok started, of 0 1 literal_engine _ _ 1 _ 1])
      (simp_all add: demo_system_def spawned_def)
  then show ?thesis by (simp add: demo_decision next_id reply_of_def dict_get_def)
qed

theorem noise_silences_process_witness:
  "is_running (stdio_run literal_engine [Line ''42'', Request [] 1, Line (demo_answer 1 7)] (spawned 0 demo_process)) \<and>
   map_of (sp_futures (stdio_run literal_engine [Line ''42'', Request [] 1, Line (demo_answer 1 7)]
     (spawned 0 demo_process))) 1 \<noteq> Some (Answer [(''id'', JInt 1), (''result'', JInt 7)])"
  using noise_silences_process [of "spawned 0 demo_process" literal_engine "''42''" "[Request [] 1, Line (demo_answer 1 7)]"]
  by (auto simp: spawned_def demo_process_def stdio_process_init_def is_running_def demo_kinds)

definition demo_shell :: stdio_server where
  "demo_shell = \<lparr>ss_id = 4, ss_transport_type = Some ''stdio'', ss_command = Some ''/bin/sh'', ss_args = [], ss_env_vars = []\<rparr>"

theorem only_allowed_commands_witness:
  "manager_run literal_engine (allowed_commands ''npx, node'') 600
     (demo_system\<lparr>so_spawn := \<lambda>c. if c = ''/bin/sh'' then (\<lambda>args env w. (False, 100)) else so_spawn demo_system c\<rparr>)
     [SendNotification demo_shell [], RestartServer 4, SendNotification (demo_shell\<lparr>ss_command := Some ''/usr/bin/npx''\<rparr>) []]
     ([], 0) =
   manager_run literal_engine (allowed_commands ''npx, node'') 600 demo_system
     [SendNotification demo_shell [], RestartServer 4, SendNotification (demo_shell\<lparr>ss_command := Some ''/usr/bin/npx''\<rparr>) []]
     ([], 0)"
proof -
  have "\<not> is_command_allowed (allowed_commands ''npx, node'') ''/bin/sh''" by code_simp
  then show ?thesis by (intro only_allowed_commands) auto
qed

end
