(* ===== verification/CacheRules.thy ===== *)
theory CacheRules imports Texts "HOL-Library.Product_Lexorder" begin

text \<open>
  Cacheability rules (\<open>backend/app/services/cache_rules.py\<close>): validation of a rule's pattern, the
  order of the rules, and the three texts made from them: the decision chain of Varnish, the
  \<open>cache-use\<close> and \<open>cache-store\<close> lines of HAProxy's memory cache and the \<open>use-server\<close> lines of the
  disk cache.

  The lemmas read the texts back: \<open>condition_holds\<close> is HAProxy's reading of a list of ACL names,
  \<open>run_vcl\<close> that of an if-chain; both agree with "the first matching rule decides".
\<close>

section \<open>Patterns\<close>

definition MATCH_TYPES :: "string list" where
  "MATCH_TYPES =
     [''path'', ''filename'', ''extension'', ''method'', ''query_string'', ''content_type'', ''status_code'']"

definition CACHE_ACTIONS :: "string list" where
  "CACHE_ACTIONS = [''cache'', ''bypass'']"

definition REQUEST_PHASE_TYPES :: "string list" where
  "REQUEST_PHASE_TYPES = [''path'', ''filename'', ''extension'', ''method'', ''query_string'']"

definition RESPONSE_PHASE_TYPES :: "string list" where
  "RESPONSE_PHASE_TYPES = [''content_type'', ''status_code'']"

definition unsafe_char :: "char \<Rightarrow> bool" where
  "unsafe_char c \<longleftrightarrow> c \<in> {newline, return_char, double_quote, single_quote, backquote, backslash} \<or> c \<in> set '';#|$''"

text \<open>The regular expressions of the module; their texts hold no line break here.\<close>

definition ascii_letter :: "char \<Rightarrow> bool" where
  "ascii_letter c \<longleftrightarrow> ascii_upper c \<or> ascii_lower c"

definition filename_ok :: "string \<Rightarrow> bool" where
  "filename_ok s \<longleftrightarrow> s \<noteq> [] \<and> list_all (\<lambda>c. c \<notin> set ''/*?'' \<and> \<not> py_isspace c) s"

definition extension_ok :: "string \<Rightarrow> bool" where
  "extension_ok s \<longleftrightarrow> s \<noteq> [] \<and> list_all ascii_alnum s"

definition method_ok :: "string \<Rightarrow> bool" where
  "method_ok s \<longleftrightarrow> s \<noteq> [] \<and> list_all ascii_upper s"

definition content_type_ok :: "string \<Rightarrow> bool" where
  "content_type_ok s \<longleftrightarrow>
     (case split_first s ''/'' of
        None \<Rightarrow> False
      | Some (a, b) \<Rightarrow>
          a \<noteq> [] \<and> list_all (\<lambda>c. ascii_alnum c \<or> c = CHR ''-'') a \<and>
          (b = ''*'' \<or> b \<noteq> [] \<and> list_all (\<lambda>c. ascii_alnum c \<or> c \<in> set ''-+.'') b))"

definition status_item_ok :: "string \<Rightarrow> bool" where
  "status_item_ok s \<longleftrightarrow>
     length s = 3 \<and> (list_all py_isdecimal s \<or> hd s \<in> set ''12345'' \<and> tl s = ''xx'')"

definition status_code_ok :: "string \<Rightarrow> bool" where
  "status_code_ok s \<longleftrightarrow> list_all status_item_ok (split_char CHR '','' s)"

definition query_param_ok :: "string \<Rightarrow> bool" where
  "query_param_ok s \<longleftrightarrow>
     (case split_first s ''='' of
        None \<Rightarrow> s \<noteq> [] \<and> list_all (\<lambda>c. ascii_alnum c \<or> c \<in> set ''_-'') s
      | Some (a, b) \<Rightarrow> a \<noteq> [] \<and> list_all (\<lambda>c. ascii_alnum c \<or> c \<in> set ''_-'') a \<and> CHR ''&'' \<notin> set b)"

definition lstrip_of :: "char \<Rightarrow> string \<Rightarrow> string" where
  "lstrip_of c s = dropWhile (\<lambda>x. x = c) s"

definition checked :: "(string \<Rightarrow> bool) \<Rightarrow> string \<Rightarrow> string res" where
  "checked ok s = (if ok s then Inr s else Inl ValueError)"

definition normalize_path :: "string \<Rightarrow> string res" where
  "normalize_path value =
     (let v = (if ends_with value ''*'' then butlast value else value)
      in if \<not> starts_with v ''/'' \<or> list_all (\<lambda>c. c = CHR ''/'') v then Inl ValueError else Inr v)"

definition normalize_extension :: "string \<Rightarrow> string res" where
  "normalize_extension value =
     bind_res (checked extension_ok (lstrip_of CHR ''.'' (if starts_with value ''*.'' then drop 2 value else value)))
       (\<lambda>v. Inr (py_lower v))"

definition normalize_pattern :: "string \<Rightarrow> string \<Rightarrow> string res" where
  "normalize_pattern match_type pattern =
     (let value = strip pattern
      in if match_type \<notin> set MATCH_TYPES \<or> value = [] \<or> list_ex unsafe_char value then Inl ValueError
         else if match_type = ''path'' then normalize_path value
         else if match_type = ''filename'' then checked filename_ok (lstrip_of CHR ''/'' value)
         else if match_type = ''extension'' then normalize_extension value
         else if match_type = ''method'' then checked method_ok (py_upper value)
         else if match_type = ''query_string'' then (if value = ''*'' then Inr value else checked query_param_ok value)
         else if match_type = ''content_type'' then checked content_type_ok (py_lower value)
         else checked status_code_ok value)"

definition validate_action :: "string \<Rightarrow> string res" where
  "validate_action action = checked (\<lambda>a. a \<in> set CACHE_ACTIONS) action"

section \<open>Rules in order\<close>

record cache_rule =
  cr_id :: int
  cr_priority :: int
  cr_enabled :: bool
  cr_match_type :: string
  cr_pattern :: string
  cr_action :: string
  cr_tier :: string

definition active_rules :: "cache_rule list option \<Rightarrow> cache_rule list" where
  "active_rules config =
     (case config of
        None \<Rightarrow> []
      | Some rules \<Rightarrow> sort_key (\<lambda>r. (cr_priority r, cr_id r)) (filter cr_enabled rules))"

definition tier_rules :: "string \<Rightarrow> string list \<Rightarrow> cache_rule list option \<Rightarrow> cache_rule list" where
  "tier_rules tier types config = filter (\<lambda>r. cr_tier r = tier \<and> cr_match_type r \<in> set types) (active_rules config)"

section \<open>Varnish\<close>

text \<open>\<open>int(c[0]) + 1\<close> of a range such as \<open>4xx\<close>.\<close>

definition vcl_range :: "string \<Rightarrow> string res" where
  "vcl_range c =
     (case c of
        [] \<Rightarrow> Inl IndexError
      | d # _ \<Rightarrow>
          (case py_int_of_str [d] of
             None \<Rightarrow> Inl ValueError
           | Some i \<Rightarrow> Inr (''beresp.status >= '' @ [d] @ ''00 && beresp.status < '' @ int_str (i + 1) @ ''00'')))"

definition vcl_status :: "string \<Rightarrow> string res" where
  "vcl_status c = (if str_isdigit c then Inr (''beresp.status == '' @ c) else vcl_range c)"

definition vcl_regex :: "string \<Rightarrow> string \<Rightarrow> string" where
  "vcl_regex what regex = what @ '' ~ '' @ [double_quote] @ regex @ [double_quote]"

definition optional_query :: string where
  "optional_query = ''('' @ [backslash] @ ''?.*)?$''"

definition vcl_condition :: "cache_rule \<Rightarrow> string res" where
  "vcl_condition r =
     (let t = cr_match_type r; p = cr_pattern r
      in if t = ''path'' then Inr (vcl_regex ''req.url'' (''^'' @ re_escape p))
         else if t = ''filename'' then Inr (vcl_regex ''req.url'' (''/'' @ re_escape p @ optional_query))
         else if t = ''extension'' then
           Inr (vcl_regex ''req.url'' (''(?i)'' @ [backslash] @ ''.'' @ re_escape p @ optional_query))
         else if t = ''method'' then Inr (''req.method == '' @ [double_quote] @ p @ [double_quote])
         else if t = ''query_string'' then
           Inr (if p = ''*'' then vcl_regex ''req.url'' (backslash # ''?'')
                else (case split_first p ''='' of
                        Some (param, v) \<Rightarrow> vcl_regex ''req.url'' (''[?&]'' @ re_escape param @ ''='' @ re_escape v)
                      | None \<Rightarrow> vcl_regex ''req.url'' (''[?&]'' @ re_escape p @ ''='')))
         else if t = ''content_type'' then
           Inr (vcl_regex ''beresp.http.Content-Type''
                  (''^'' @ (if ends_with p ''/*'' then re_escape (take (length p - 2) p) @ ''/'' else re_escape p)))
         else if t = ''status_code'' then
           (if CHR '','' \<in> set p then
              bind_res (each_res vcl_status (split_char CHR '','' p)) (\<lambda>cs. Inr (''('' @ join '' || '' cs @ '')''))
            else if ends_with p ''xx'' then vcl_range p
            else Inr (''beresp.status == '' @ p))
         else Inl ValueError)"

definition set_decision :: "string \<Rightarrow> string" where
  "set_decision a = ''set req.http.X-Cache-Decision = '' @ [double_quote] @ a @ [double_quote] @ '';''"

fun vcl_branches :: "string \<Rightarrow> string \<Rightarrow> cache_rule list \<Rightarrow> string list res" where
  "vcl_branches ind keyword [] = Inr []"
| "vcl_branches ind keyword (r # rs) =
     bind_res (vcl_condition r) (\<lambda>c.
     bind_res (vcl_branches ind ''} else if'' rs) (\<lambda>ls.
       Inr ((ind @ keyword @ '' ('' @ c @ '') {'') # (ind @ ''    '' @ set_decision (cr_action r)) # ls)))"

definition emit_vcl_decision :: "string \<Rightarrow> cache_rule list option \<Rightarrow> string list res" where
  "emit_vcl_decision ind config =
     (let rules = active_rules config; first = ind @ set_decision ''bypass''
      in if rules = [] then Inr [first, ind @ ''# No cacheability rules defined, nothing is cached'']
         else bind_res (vcl_branches ind ''if'' rules) (\<lambda>ls. Inr (first # ls @ [ind @ ''}''])))"

section \<open>HAProxy\<close>

definition haproxy_acl_criterion :: "cache_rule \<Rightarrow> string res" where
  "haproxy_acl_criterion r =
     (let t = cr_match_type r; p = cr_pattern r
      in if t = ''path'' then Inr (''path_beg '' @ p)
         else if t = ''filename'' then Inr (''path_end /'' @ p)
         else if t = ''extension'' then Inr (''path_end -i .'' @ p)
         else if t = ''method'' then Inr (''method '' @ p)
         else if t = ''query_string'' then
           Inr (if p = ''*'' then ''url_param() -m found''
                else (case split_first p ''='' of
                        Some (param, v) \<Rightarrow> ''urlp('' @ param @ '') -m str '' @ v
                      | None \<Rightarrow> ''urlp('' @ p @ '') -m found''))
         else Inl ValueError)"

definition acl_name :: "string \<Rightarrow> cache_rule \<Rightarrow> string" where
  "acl_name prefix r = prefix @ ''_'' @ int_str (cr_id r)"

definition acl_line :: "string \<Rightarrow> string \<Rightarrow> cache_rule \<Rightarrow> string res" where
  "acl_line ind prefix r =
     bind_res (haproxy_acl_criterion r) (\<lambda>c. Inr (ind @ ''acl '' @ acl_name prefix r @ '' '' @ c))"

text \<open>The conditions of the \<open>cache\<close> rules, each with the negation of the \<open>bypass\<close> rules before it.\<close>

fun guarded_rules :: "string \<Rightarrow> string list \<Rightarrow> cache_rule list \<Rightarrow> string list list" where
  "guarded_rules prefix bypasses [] = []"
| "guarded_rules prefix bypasses (r # rs) =
     (if cr_action r = ''bypass'' then guarded_rules prefix (bypasses @ [acl_name prefix r]) rs
      else (acl_name prefix r # map (\<lambda>n. CHR ''!'' # n) bypasses) # guarded_rules prefix bypasses rs)"

definition cache_use_line :: "string \<Rightarrow> string \<Rightarrow> string option \<Rightarrow> string list \<Rightarrow> string" where
  "cache_use_line ind cache_name extra conds =
     ind @ ''http-request cache-use '' @ cache_name @ '' if '' @
       join '' '' (conds @ (case extra of Some e \<Rightarrow> if e = [] then [] else [e] | None \<Rightarrow> []))"

definition emit_haproxy_cache_rules ::
  "cache_rule list option \<Rightarrow> string \<Rightarrow> string \<Rightarrow> string option \<Rightarrow> bool \<Rightarrow> string \<Rightarrow> (string list \<times> bool) res" where
  "emit_haproxy_cache_rules config cache_name prefix extra emit_acls ind =
     (let rules = tier_rules ''memory'' REQUEST_PHASE_TYPES config
      in if rules = [] then Inr ([ind @ ''# No cacheability rules for memory tier, memory cache stores nothing''], False)
         else bind_res (if emit_acls then each_res (acl_line ind prefix) rules else Inr []) (\<lambda>acls.
           (let uses = map (cache_use_line ind cache_name extra) (guarded_rules prefix [] rules)
            in if uses = [] then
                 Inr (acls @ [ind @ ''# All memory tier cacheability rules are bypass rules, memory cache stores nothing''], False)
               else Inr (acls @ uses, True))))"

definition status_condition :: "string \<Rightarrow> string" where
  "status_condition code =
     (if ends_with code ''xx'' then ''{ status '' @ take 1 code @ ''00:599 }'' else ''{ status '' @ code @ '' }'')"

definition haproxy_response_condition :: "cache_rule \<Rightarrow> string res" where
  "haproxy_response_condition r =
     (let t = cr_match_type r; p = cr_pattern r
      in if t = ''content_type'' then
           Inr (''res.hdr(Content-Type) -m beg '' @ (if ends_with p ''/*'' then take (length p - 2) p @ ''/'' else p))
         else if t = ''status_code'' then
           Inr (if CHR '','' \<in> set p then join '' || '' (map status_condition (split_char CHR '','' p))
                else status_condition p)
         else Inl ValueError)"

fun store_conditions :: "string list \<Rightarrow> cache_rule list \<Rightarrow> string list res" where
  "store_conditions bypasses [] = Inr []"
| "store_conditions bypasses (r # rs) =
     bind_res (haproxy_response_condition r) (\<lambda>c.
       if cr_action r = ''bypass'' then store_conditions (bypasses @ [c]) rs
       else bind_res (store_conditions bypasses rs) (\<lambda>cs.
         Inr ((''('' @ c @ (if bypasses = [] then [] else '' && '' @ join '' && '' (map (\<lambda>b. ''!('' @ b @ '')'') bypasses)) @ '')'')
              # cs)))"

definition emit_response_phase_cache_store_condition ::
  "cache_rule list option \<Rightarrow> string \<Rightarrow> string \<Rightarrow> string option res" where
  "emit_response_phase_cache_store_condition config cache_name ind =
     (let rules = tier_rules ''memory'' RESPONSE_PHASE_TYPES config
      in if rules = [] then Inr None
         else bind_res (store_conditions [] rules) (\<lambda>cs.
           Inr (Some (if cs = [] then ind @ ''# All response-phase rules are bypass rules, nothing cached''
                      else ind @ ''http-response cache-store '' @ cache_name @ '' if '' @ join '' || '' cs))))"

definition emit_cache_rule_acls :: "cache_rule list option \<Rightarrow> string \<Rightarrow> string \<Rightarrow> string list res" where
  "emit_cache_rule_acls config prefix ind =
     each_res (acl_line ind prefix) (filter (\<lambda>r. cr_match_type r \<notin> set RESPONSE_PHASE_TYPES) (active_rules config))"

definition emit_disk_cache_use_server_directives ::
  "cache_rule list option \<Rightarrow> string \<Rightarrow> string \<Rightarrow> string \<Rightarrow> string list \<times> string list" where
  "emit_disk_cache_use_server_directives config server prefix ind =
     (let conds = map (join '' '') (guarded_rules prefix [] (tier_rules ''disk'' REQUEST_PHASE_TYPES config))
      in (map (\<lambda>c. ind @ ''use-server '' @ server @ '' if '' @ c) conds, conds))"

section \<open>Normalised patterns\<close>

lemma dropWhile_subset: "set (dropWhile P s) \<subseteq> set s"
  using set_dropWhileD by fast

lemma checked_Inr [simp]: "checked ok s = Inr v \<longleftrightarrow> ok s \<and> v = s"
  by (auto simp: checked_def)

lemma strip_fixed: "(\<And>c. c \<in> set s \<Longrightarrow> \<not> py_isspace c) \<Longrightarrow> strip s = s"
proof -
  assume ns: "\<And>c. c \<in> set s \<Longrightarrow> \<not> py_isspace c"
  have "dropWhile py_isspace t = t" if "set t \<subseteq> set s" for t
    using that ns by (cases t) auto
  then show ?thesis by (simp add: strip_def lstrip_def)
qed

lemma lstrip_fixed: "s \<noteq> [] \<Longrightarrow> \<not> py_isspace (hd s) \<Longrightarrow> lstrip s = s"
  by (cases s) (simp_all add: lstrip_def)

lemma strip_strip [simp]: "strip (strip s) = strip s"
proof (cases "strip s = []")
  case False
  then have "\<not> py_isspace (hd (strip s))" "\<not> py_isspace (last (strip s))"
    using strip_chars_ends [of py_isspace s] by (simp_all add: strip_strip_chars)
  with False have "lstrip (strip s) = strip s" "lstrip (rev (strip s)) = rev (strip s)"
    by (simp_all add: lstrip_fixed hd_rev)
  then show ?thesis by (subst strip_def) simp
next
  case True
  then have "strip (strip s) = strip []" by (simp only:)
  moreover have "strip [] = []" by (simp add: strip_def lstrip_def)
  ultimately show ?thesis using True by (simp only:)
qed

lemma ascii_classes:
  "ascii_alnum c \<Longrightarrow> \<not> unsafe_char c \<and> \<not> py_isspace c"
  "ascii_upper c \<Longrightarrow> \<not> unsafe_char c \<and> \<not> py_isspace c"
  "c \<in> set ''-+./*'' \<Longrightarrow> \<not> unsafe_char c \<and> \<not> py_isspace c"
proof -
  have u: "ord c \<in> {10, 13, 34, 39, 96, 92, 59, 35, 124, 36}" if "unsafe_char c" for c
    using that by (auto simp: unsafe_char_def newline_def return_char_def double_quote_def single_quote_def
        backquote_def backslash_def ord_def)
  show "ascii_alnum c \<Longrightarrow> \<not> unsafe_char c \<and> \<not> py_isspace c"
    using u [of c] by (auto simp: ascii_alnum_def ascii_upper_def ascii_lower_def py_isdecimal_def py_isspace_def Let_def)
  show "ascii_upper c \<Longrightarrow> \<not> unsafe_char c \<and> \<not> py_isspace c"
    using u [of c] by (auto simp: ascii_upper_def py_isspace_def Let_def)
  show "c \<in> set ''-+./*'' \<Longrightarrow> \<not> unsafe_char c \<and> \<not> py_isspace c"
    using u [of c] by (auto simp: py_isspace_def ord_def Let_def)
qed

lemma content_type_chars:
  assumes "content_type_ok s" "c \<in> set s"
  shows "ascii_alnum c \<or> c \<in> set ''-+./*''"
proof -
  obtain a b where s: "split_first s ''/'' = Some (a, b)" using assms(1) by (auto simp: content_type_ok_def split: option.splits)
  have eq: "s = a @ ''/'' @ b" by (rule split_first_SomeD [OF s])
  have "list_all (\<lambda>c. ascii_alnum c \<or> c = CHR ''-'') a" "b = ''*'' \<or> list_all (\<lambda>c. ascii_alnum c \<or> c \<in> set ''-+.'') b"
    using assms(1) s by (auto simp: content_type_ok_def)
  with assms(2) eq show ?thesis by (auto simp: list_all_iff)
qed

lemma py_lower_char_idem [simp]: "py_lower_char (py_lower_char c) = py_lower_char c"
  by (auto simp: py_lower_char_def ord_def Let_def)

lemma py_lower_idem [simp]: "py_lower (py_lower s) = py_lower s"
  by (simp add: py_lower_def)

lemma lowered_alnum: "ascii_alnum c \<Longrightarrow> ascii_alnum (py_lower_char c)"
  by (auto simp: ascii_alnum_def ascii_upper_def ascii_lower_def py_isdecimal_def py_lower_char_def ord_def Let_def)

lemma py_upper_fixed: "list_all ascii_upper s \<Longrightarrow> py_upper s = s"
proof -
  assume all: "list_all ascii_upper s"
  have "(let n = ord c in if n = 223 then ''SS''
     else if (97 \<le> n \<and> n \<le> 122) \<or> (224 \<le> n \<and> n \<le> 254 \<and> n \<noteq> 247) then [char_of (n - 32)] else [c]) = [c]"
    if "c \<in> set s" for c
    using list_allD [OF all that] by (simp add: ascii_upper_def Let_def)
  then have "py_upper s = concat (map (\<lambda>c. [c]) s)"
    unfolding py_upper_def by (metis (no_types, lifting) map_cong)
  then show ?thesis by simp
qed

text \<open>A pattern without path, with each of its properties, is the same for all match types.\<close>

definition tidy :: "string \<Rightarrow> bool" where
  "tidy s \<longleftrightarrow> s \<noteq> [] \<and> list_all (\<lambda>c. \<not> unsafe_char c) s"

lemma tidyI: "s \<noteq> [] \<Longrightarrow> (\<And>c. c \<in> set s \<Longrightarrow> \<not> unsafe_char c) \<Longrightarrow> tidy s"
  by (simp add: tidy_def list_all_iff)

lemma tidy_subset: "tidy s \<Longrightarrow> set t \<subseteq> set s \<Longrightarrow> t \<noteq> [] \<Longrightarrow> tidy t"
  by (auto simp: tidy_def list_all_iff)

lemma tidy_not: "tidy s \<longleftrightarrow> s \<noteq> [] \<and> \<not> list_ex unsafe_char s"
  by (simp add: tidy_def list_all_iff list_ex_iff)

lemma normalize_shape:
  assumes "normalize_pattern t p = Inr v"
  shows "t \<in> set MATCH_TYPES \<and> tidy (strip p) \<and>
    (t = ''path'' \<and> normalize_path (strip p) = Inr v \<or>
     t = ''filename'' \<and> v = lstrip_of CHR ''/'' (strip p) \<and> filename_ok v \<or>
     t = ''extension'' \<and> normalize_extension (strip p) = Inr v \<or>
     t = ''method'' \<and> v = py_upper (strip p) \<and> method_ok v \<or>
     t = ''query_string'' \<and> v = strip p \<and> (v = ''*'' \<or> query_param_ok v) \<or>
     t = ''content_type'' \<and> v = py_lower (strip p) \<and> content_type_ok v \<or>
     t = ''status_code'' \<and> v = strip p \<and> status_code_ok v)"
  using assms by (auto simp: normalize_pattern_def tidy_not MATCH_TYPES_def Let_def split: if_splits)

lemma lstrip_of_subset: "set (lstrip_of c s) \<subseteq> set s"
  by (simp add: lstrip_of_def dropWhile_subset)

lemma extension_alnum:
  assumes "normalize_extension s = Inr v"
  shows "v \<noteq> [] \<and> list_all ascii_alnum v \<and> py_lower v = v"
  using assms lowered_alnum
  by (auto simp: normalize_extension_def res_simps extension_ok_def py_lower_def list_all_iff)

lemma unsafe_ord: "unsafe_char c \<Longrightarrow> ord c \<in> {10, 13, 34, 39, 96, 92, 59, 35, 124, 36}"
  by (auto simp: unsafe_char_def newline_def return_char_def double_quote_def single_quote_def
      backquote_def backslash_def ord_def)

lemma unsafe_lower: "unsafe_char (py_lower_char c) \<Longrightarrow> unsafe_char c"
proof (cases "py_lower_char c = c")
  case False
  then have "97 \<le> ord (py_lower_char c) \<and> ord (py_lower_char c) \<le> 122 \<or> 224 \<le> ord (py_lower_char c)"
    by (auto simp: py_lower_char_def ord_def Let_def split: if_splits)
  moreover assume "unsafe_char (py_lower_char c)"
  ultimately show ?thesis using unsafe_ord [of "py_lower_char c"] by auto
qed simp

lemma normalized_tidy:
  assumes "normalize_pattern t p = Inr v"
  shows "tidy v"
proof -
  note shape = normalize_shape [OF assms]
  then have p: "tidy (strip p)" by blast
  have low: "tidy (py_lower s)" if "tidy s" for s
    using that unsafe_lower by (auto simp: tidy_def py_lower_def list_all_iff)
  have "tidy v" if "list_all ascii_alnum v" "v \<noteq> []" using that ascii_classes(1) by (auto simp: tidy_def list_all_iff)
  moreover have "tidy v" if "method_ok v" using that ascii_classes(2) by (auto simp: tidy_def list_all_iff method_ok_def)
  moreover have "tidy v" if "v = lstrip_of CHR ''/'' (strip p)" "filename_ok v"
    using that tidy_subset [OF p lstrip_of_subset] by (simp add: filename_ok_def)
  moreover have "tidy v" if "normalize_path (strip p) = Inr v"
  proof -
    have "starts_with v ''/'' \<and> set v \<subseteq> set (strip p)"
      using that in_set_butlastD by (fastforce simp: normalize_path_def Let_def split: if_splits)
    moreover from this have "v \<noteq> []" by (cases v) auto
    ultimately show ?thesis using tidy_subset [OF p] by blast
  qed
  ultimately show ?thesis using shape low [OF p] p extension_alnum [of "strip p" v] by auto
qed

text \<open>What validation lets through cannot break out of a line of the configuration or of a text of Varnish: a
  normalised pattern is not empty and holds no line break, quote, backslash, semicolon, hash, bar or dollar.\<close>

theorem normalized_pattern_safe:
  assumes "normalize_pattern t p = Inr v"
  shows "v \<noteq> [] \<and> (\<forall>c \<in> set v. \<not> unsafe_char c)"
  using normalized_tidy [OF assms] by (simp add: tidy_def list_all_iff)

lemma stripped_by_chars: "list_all P v \<Longrightarrow> (\<And>c. P c \<Longrightarrow> \<not> py_isspace c) \<Longrightarrow> strip v = v"
  by (intro strip_fixed) (auto simp: list_all_iff)

lemma lstrip_of_again: "list_all (\<lambda>x. x \<noteq> c) v \<Longrightarrow> lstrip_of c v = v"
  by (cases v) (auto simp: lstrip_of_def)

text \<open>Validation is idempotent for every kind of pattern but paths: a stored pattern can be saved again and
  stays as it is.\<close>

theorem normalize_again:
  assumes "normalize_pattern t p = Inr v" and "t \<noteq> ''path''"
  shows "normalize_pattern t v = Inr v"
proof -
  have t: "tidy v" by (rule normalized_tidy [OF assms(1)])
  have again: "normalize_pattern t v = Inr v" if "strip v = v" "t \<in> set MATCH_TYPES"
    and "(if t = ''path'' then normalize_path v
         else if t = ''filename'' then checked filename_ok (lstrip_of CHR ''/'' v)
         else if t = ''extension'' then normalize_extension v
         else if t = ''method'' then checked method_ok (py_upper v)
         else if t = ''query_string'' then (if v = ''*'' then Inr v else checked query_param_ok v)
         else if t = ''content_type'' then checked content_type_ok (py_lower v)
         else checked status_code_ok v) = Inr v"
    using that t by (simp only: normalize_pattern_def tidy_not Let_def) simp
  show ?thesis
    using normalize_shape [OF assms(1)]
  proof (elim conjE disjE, goal_cases)
    case 1
    with assms(2) show ?case by simp
  next
    case 2
    then have "lstrip_of CHR ''/'' v = v" by (intro lstrip_of_again) (auto simp: filename_ok_def list_all_iff)
    moreover have "strip v = v" using 2 by (intro strip_fixed) (auto simp: filename_ok_def list_all_iff)
    ultimately show ?case using 2 by (intro again) (simp_all add: MATCH_TYPES_def)
  next
    case 3
    note v = extension_alnum [OF 3(4)]
    have "\<not> ascii_alnum CHR ''.''" "\<not> ascii_alnum CHR ''*''" by code_simp+
    with v have "normalize_extension v = Inr v"
      by (cases v) (auto simp: normalize_extension_def lstrip_of_def checked_def extension_ok_def)
    moreover have "strip v = v" using v ascii_classes(1) by (intro strip_fixed) (auto simp: list_all_iff)
    ultimately show ?case using 3 by (intro again) (simp_all add: MATCH_TYPES_def)
  next
    case 4
    then have "strip v = v" using ascii_classes(2) by (intro strip_fixed) (auto simp: method_ok_def list_all_iff)
    moreover have "py_upper v = v" using 4 by (intro py_upper_fixed) (simp add: method_ok_def)
    ultimately show ?case using 4 by (intro again) (simp_all add: MATCH_TYPES_def)
  next
    case 5
    then show ?case by (intro again) (auto simp: MATCH_TYPES_def)
  next
    case 6
    then show ?case by (intro again) (auto simp: MATCH_TYPES_def checked_def)
  next
    case 7
    then have "strip v = v" using content_type_chars ascii_classes(1,3) by (intro strip_fixed) blast
    with 7 show ?case by (intro again) (simp_all add: MATCH_TYPES_def)
  next
    case 8
    then show ?case by (intro again) (simp_all add: MATCH_TYPES_def)
  qed
qed

text \<open>A path with two stars loses one of them at each save.\<close>

lemma path_normalised_twice:
  "normalize_pattern ''path'' ''/a**'' = Inr ''/a*'' \<and> normalize_pattern ''path'' ''/a*'' = Inr ''/a''"
  by code_simp

theorem normalize_again_witness:
  "normalize_pattern ''extension'' '' *.PNG '' = Inr ''png'' \<and> normalize_pattern ''extension'' ''png'' = Inr ''png''"
proof -
  have "normalize_pattern ''extension'' '' *.PNG '' = Inr ''png''" by code_simp
  with normalize_again [OF this] show ?thesis by simp
qed

theorem normalized_pattern_safe_witness:
  "list_all (\<lambda>c. \<not> unsafe_char c) ''application/json''"
proof -
  have "normalize_pattern ''content_type'' ''Application/JSON'' = Inr ''application/json''" by code_simp
  from normalized_pattern_safe [OF this] show ?thesis unfolding list_all_iff by blast
qed

section \<open>The first matching rule decides\<close>

text \<open>
  HAProxy's reading of a condition made of ACL names: all of the words hold, \<open>!\<close> negates.  A list of
  lines fires when one of the lines with the given head does.
\<close>

definition word_holds :: "(string \<Rightarrow> bool) \<Rightarrow> string \<Rightarrow> bool" where
  "word_holds acl w = (case w of c # n \<Rightarrow> if c = CHR ''!'' then \<not> acl n else acl w | [] \<Rightarrow> True)"

definition condition_holds :: "(string \<Rightarrow> bool) \<Rightarrow> string \<Rightarrow> bool" where
  "condition_holds acl cond = list_all (word_holds acl) (split_char CHR '' '' cond)"

definition lines_fire :: "(string \<Rightarrow> bool) \<Rightarrow> string \<Rightarrow> string list \<Rightarrow> bool" where
  "lines_fire acl head ls =
     list_ex (\<lambda>l. starts_with l head \<and> condition_holds acl (drop (length head) l)) ls"

definition first_match_caches :: "(cache_rule \<Rightarrow> bool) \<Rightarrow> cache_rule list \<Rightarrow> bool" where
  "first_match_caches matches rules =
     (case List.find matches rules of Some r \<Rightarrow> cr_action r \<noteq> ''bypass'' | None \<Rightarrow> False)"

text \<open>A prefix of ACL names that stays one word.\<close>

definition prefix_ok :: "string \<Rightarrow> bool" where
  "prefix_ok p \<longleftrightarrow> CHR '' '' \<notin> set p \<and> \<not> starts_with p ''!''"

lemma int_str_no_space: "CHR '' '' \<notin> set (int_str i)"
proof -
  have "\<not> py_isdecimal CHR '' ''" by code_simp
  then show ?thesis using nat_str_decimal by (auto simp: int_str_def)
qed

lemma acl_name_word:
  assumes "prefix_ok p"
  shows "word_holds acl (acl_name p r) = acl (acl_name p r)" "CHR '' '' \<notin> set (acl_name p r)"
  using assms int_str_no_space [of "cr_id r"]
  by (cases p; auto simp: word_holds_def acl_name_def prefix_ok_def)+

lemma negated_word [simp]: "word_holds acl (CHR ''!'' # n) = (\<not> acl n)"
  by (simp add: word_holds_def)

text \<open>A word with a space in it is a list of words.\<close>

lemma condition_append:
  "condition_holds acl (a @ CHR '' '' # b) \<longleftrightarrow> condition_holds acl a \<and> condition_holds acl b"
proof -
  have "split_char d s \<noteq> []" for d s by (induction s) (auto split: list.split)
  then have "split_char d (a @ d # b) = split_char d a @ split_char d b" for d
    by (induction a) (auto split: list.split)
  then show ?thesis by (simp add: condition_holds_def)
qed

lemma condition_join:
  "ws \<noteq> [] \<Longrightarrow> (\<And>w. w \<in> set ws \<Longrightarrow> CHR '' '' \<notin> set w) \<Longrightarrow>
     condition_holds acl (join '' '' ws) = list_all (word_holds acl) ws"
  by (simp add: condition_holds_def split_char_join)

lemma join_snoc: "ws \<noteq> [] \<Longrightarrow> join sep (ws @ [e]) = join sep ws @ sep @ e"
proof (induction ws)
  case (Cons w ws)
  then show ?case by (cases ws) simp_all
qed simp

lemma condition_join_last:
  "ws \<noteq> [] \<Longrightarrow> (\<And>w. w \<in> set ws \<Longrightarrow> CHR '' '' \<notin> set w) \<Longrightarrow>
     condition_holds acl (join '' '' (ws @ [e])) = (list_all (word_holds acl) ws \<and> condition_holds acl e)"
proof -
  assume ws: "ws \<noteq> []" "\<And>w. w \<in> set ws \<Longrightarrow> CHR '' '' \<notin> set w"
  have "join '' '' (ws @ [e]) = join '' '' ws @ CHR '' '' # e"
    using join_snoc [OF ws(1), of "'' ''" e] by simp
  then show ?thesis using condition_append condition_join [OF ws] by simp
qed

text \<open>Some guarded condition holds exactly when no bypass rule before matches and the first match
  of the rest is a cache rule.\<close>

lemma guarded_rules_correct:
  "list_ex (\<lambda>ws. list_all (word_holds acl) ws) (guarded_rules p bs rs) \<longleftrightarrow>
     (\<forall>b \<in> set bs. \<not> acl b) \<and> first_match_caches (\<lambda>r. acl (acl_name p r)) rs" if "prefix_ok p"
proof (induction rs arbitrary: bs)
  case (Cons r rs)
  have "list_all (word_holds acl) (map (\<lambda>n. CHR ''!'' # n) bs) \<longleftrightarrow> (\<forall>b \<in> set bs. \<not> acl b)"
    by (auto simp: list_all_iff)
  with Cons acl_name_word(1) [OF that] show ?case by (auto simp: first_match_caches_def)
qed (simp add: first_match_caches_def)

lemma guarded_rules_words:
  assumes "prefix_ok p" and "ws \<in> set (guarded_rules p bs rs)" "\<And>b. b \<in> set bs \<Longrightarrow> CHR '' '' \<notin> set b"
  shows "ws \<noteq> [] \<and> (\<forall>w \<in> set ws. CHR '' '' \<notin> set w)"
  using assms(2,3)
proof (induction rs arbitrary: bs)
  case (Cons r rs)
  have bs: "\<And>b. b \<in> set (bs @ [acl_name p r]) \<Longrightarrow> CHR '' '' \<notin> set b"
    using Cons.prems(2) acl_name_word(2) [OF assms(1)] by auto
  show ?case
  proof (cases "cr_action r = ''bypass''")
    case True
    with Cons.IH [of "bs @ [acl_name p r]"] bs Cons.prems(1) show ?thesis by simp
  next
    case False
    with Cons.IH [OF _ Cons.prems(2)] Cons.prems acl_name_word(2) [OF assms(1)] show ?thesis by auto
  qed
qed simp

lemma guarded_rules_empty: "guarded_rules p bs rs = [] \<longleftrightarrow> (\<forall>r \<in> set rs. cr_action r = ''bypass'')"
  by (induction rs arbitrary: bs) auto

definition extra_holds :: "(string \<Rightarrow> bool) \<Rightarrow> string option \<Rightarrow> bool" where
  "extra_holds acl extra = (case extra of None \<Rightarrow> True | Some e \<Rightarrow> e = [] \<or> condition_holds acl e)"

definition use_head :: "string \<Rightarrow> string \<Rightarrow> string" where
  "use_head ind name = ind @ ''http-request cache-use '' @ name @ '' if ''"

lemma starts_with_append [simp]: "starts_with (a @ b) a"
  by (auto simp: starts_with_iff)

lemma use_line_fires:
  assumes "ws \<noteq> []" "\<forall>w \<in> set ws. CHR '' '' \<notin> set w"
  shows "starts_with (cache_use_line ind name extra ws) (use_head ind name) \<and>
    condition_holds acl (drop (length (use_head ind name)) (cache_use_line ind name extra ws)) \<longleftrightarrow>
    list_all (word_holds acl) ws \<and> extra_holds acl extra"
proof -
  let ?e = "case extra of Some e \<Rightarrow> if e = [] then [] else [e] | None \<Rightarrow> []"
  have line: "cache_use_line ind name extra ws = use_head ind name @ join '' '' (ws @ ?e)"
    by (simp add: cache_use_line_def use_head_def)
  have "condition_holds acl (join '' '' (ws @ ?e)) \<longleftrightarrow> list_all (word_holds acl) ws \<and> extra_holds acl extra"
    using assms condition_join [of ws acl] condition_join_last [of ws acl]
    by (auto simp: extra_holds_def split: option.split)
  with line show ?thesis by simp
qed

lemma acl_line_other_head: "acl_line ind p r = Inr l \<Longrightarrow> \<not> starts_with l (use_head ind name)"
  by (auto simp: acl_line_def res_simps use_head_def starts_with_iff)


definition server_head :: "string \<Rightarrow> string \<Rightarrow> string" where
  "server_head ind server = ind @ ''use-server '' @ server @ '' if ''"

text \<open>The same for the disk cache: a request is sent to Varnish exactly when the first enabled request rule of
  the tier that matches is a cache rule, and the conditions handed to the header line say the same.\<close>

theorem disk_cache_first_match:
  assumes "prefix_ok p"
  shows "case emit_disk_cache_use_server_directives config server p ind of (ls, conds) \<Rightarrow>
    (lines_fire acl (server_head ind server) ls \<longleftrightarrow>
       first_match_caches (\<lambda>r. acl (acl_name p r)) (tier_rules ''disk'' REQUEST_PHASE_TYPES config)) \<and>
    (list_ex (condition_holds acl) conds \<longleftrightarrow>
       first_match_caches (\<lambda>r. acl (acl_name p r)) (tier_rules ''disk'' REQUEST_PHASE_TYPES config))"
proof -
  let ?rules = "tier_rules ''disk'' REQUEST_PHASE_TYPES config"
  let ?gs = "guarded_rules p [] ?rules"
  have "condition_holds acl (join '' '' ws) = list_all (word_holds acl) ws" if "ws \<in> set ?gs" for ws
    using guarded_rules_words [OF assms that] by (intro condition_join) simp_all
  then have conds: "list_ex (condition_holds acl) (map (join '' '') ?gs) \<longleftrightarrow>
      first_match_caches (\<lambda>r. acl (acl_name p r)) ?rules"
    using guarded_rules_correct [OF assms, of acl "[]" ?rules] by (simp add: list_ex_iff)
  have line: "ind @ ''use-server '' @ server @ '' if '' @ c = server_head ind server @ c" for c
    by (simp add: server_head_def)
  have "lines_fire acl (server_head ind server) (map (\<lambda>c. ind @ ''use-server '' @ server @ '' if '' @ c) cs) \<longleftrightarrow>
      list_ex (condition_holds acl) cs" for cs
    unfolding line by (simp add: lines_fire_def list_ex_iff)
  with conds show ?thesis by (simp add: emit_disk_cache_use_server_directives_def Let_def del: map_map)
qed

text \<open>Varnish runs the chain of branches: the first whose condition holds sets the decision.\<close>

definition quoted_value :: "string \<Rightarrow> string \<Rightarrow> string" where
  "quoted_value ind l =
     (let head = ind @ ''set req.http.X-Cache-Decision = '' @ [double_quote]
      in take (length l - length head - 2) (drop (length head) l))"

definition branch_condition :: "string \<Rightarrow> string \<Rightarrow> string option" where
  "branch_condition ind l =
     (let body = (\<lambda>head. take (length l - length head - 3) (drop (length head) l))
      in if starts_with l (ind @ ''if ('') then Some (body (ind @ ''if (''))
         else if starts_with l (ind @ ''} else if ('') then Some (body (ind @ ''} else if (''))
         else None)"

fun run_chain :: "(string \<Rightarrow> bool) \<Rightarrow> string \<Rightarrow> string \<Rightarrow> string list \<Rightarrow> string" where
  "run_chain vcl ind dflt (l # m # ls) =
     (case branch_condition ind l of
        None \<Rightarrow> dflt
      | Some c \<Rightarrow> if vcl c then quoted_value (ind @ ''    '') m else run_chain vcl ind dflt ls)"
| "run_chain vcl ind dflt ls = dflt"

fun run_vcl :: "(string \<Rightarrow> bool) \<Rightarrow> string \<Rightarrow> string list \<Rightarrow> string" where
  "run_vcl vcl ind [] = []"
| "run_vcl vcl ind (l # ls) = run_chain vcl ind (quoted_value ind l) ls"

lemma quoted_value_of [simp]: "quoted_value ind (ind @ set_decision a) = a"
  by (simp add: quoted_value_def set_decision_def Let_def)

lemma branch_condition_of:
  assumes "kw = ''if'' \<or> kw = ''} else if''"
  shows "branch_condition ind (ind @ kw @ '' ('' @ c @ '') {'') = Some c"
proof -
  have "starts_with (ind @ s) (ind @ t) = starts_with s t" for s t by (auto simp: starts_with_iff)
  with assms show ?thesis by (auto simp: branch_condition_def Let_def)
qed

lemma run_branches:
  assumes "vcl_branches ind kw rs = Inr ls" and "kw = ''if'' \<or> kw = ''} else if''"
  shows "run_chain vcl ind dflt (ls @ [tail]) =
    (case List.find (\<lambda>r. \<exists>c. vcl_condition r = Inr c \<and> vcl c) rs of Some r \<Rightarrow> cr_action r | None \<Rightarrow> dflt)"
  using assms
proof (induction rs arbitrary: kw ls)
  case (Cons r rs)
  obtain c ms where c: "vcl_condition r = Inr c" "vcl_branches ind ''} else if'' rs = Inr ms"
    and ls: "ls = (ind @ kw @ '' ('' @ c @ '') {'') # ((ind @ ''    '') @ set_decision (cr_action r)) # ms"
    using Cons.prems(1) by (auto simp: res_simps)
  show ?case
    unfolding ls using c(1) Cons.IH [OF c(2)] branch_condition_of [OF Cons.prems(2), of ind c]
    by (simp del: append_assoc)
qed simp

text \<open>C40: In Varnish the first enabled rule whose condition holds sets the decision, and without one the response is
  not stored.\<close>

theorem vcl_first_match:
  assumes "emit_vcl_decision ind config = Inr ls"
  shows "run_vcl vcl ind ls =
    (case List.find (\<lambda>r. \<exists>c. vcl_condition r = Inr c \<and> vcl c) (active_rules config) of
       Some r \<Rightarrow> cr_action r | None \<Rightarrow> ''bypass'')"
proof (cases "active_rules config = []")
  case True
  with assms show ?thesis by (auto simp: emit_vcl_decision_def)
next
  case False
  then obtain ms where "vcl_branches ind ''if'' (active_rules config) = Inr ms"
    and "ls = (ind @ set_decision ''bypass'') # ms @ [ind @ ''}'']"
    using assms by (auto simp: emit_vcl_decision_def res_simps Let_def)
  with run_branches [of ind "''if''" "active_rules config" ms vcl] show ?thesis by simp
qed

section \<open>A tier at work\<close>

definition demo_rules :: "cache_rule list" where
  "demo_rules =
     [\<lparr>cr_id = 2, cr_priority = 1, cr_enabled = True, cr_match_type = ''extension'', cr_pattern = ''png'',
       cr_action = ''cache'', cr_tier = ''memory''\<rparr>,
      \<lparr>cr_id = 1, cr_priority = 0, cr_enabled = True, cr_match_type = ''path'', cr_pattern = ''/private/'',
       cr_action = ''bypass'', cr_tier = ''memory''\<rparr>,
      \<lparr>cr_id = 3, cr_priority = 0, cr_enabled = True, cr_match_type = ''path'', cr_pattern = ''/iso/'',
       cr_action = ''cache'', cr_tier = ''disk''\<rparr>]"

lemma demo_lines:
  "emit_haproxy_cache_rules (Some demo_rules) ''c'' ''r'' None False ''    '' =
     Inr ([''    http-request cache-use c if r_2 !r_1''], True)"
  by code_simp

definition png_only :: "string \<Rightarrow> bool" where
  "png_only n \<longleftrightarrow> n = ''r_2''"


theorem disk_cache_first_match_witness:
  "case emit_disk_cache_use_server_directives (Some demo_rules) ''disk'' ''r'' ''    '' of (ls, conds) \<Rightarrow>
     lines_fire png_only (server_head ''    '' ''disk'') ls \<longleftrightarrow>
       first_match_caches (\<lambda>r. png_only (acl_name ''r'' r)) (tier_rules ''disk'' REQUEST_PHASE_TYPES (Some demo_rules))"
proof -
  have "prefix_ok ''r''" by code_simp
  from disk_cache_first_match [OF this, where config = "Some demo_rules" and server = "''disk''" and ind = "''    ''" and acl = png_only]
  show ?thesis by (auto split: prod.splits)
qed

definition demo_vcl :: "string list" where
  "demo_vcl = (case emit_vcl_decision [] (Some demo_rules) of Inr ls \<Rightarrow> ls | Inl _ \<Rightarrow> [])"

theorem vcl_first_match_witness:
  "run_vcl (\<lambda>c. True) [] demo_vcl = ''bypass''"
proof -
  have "emit_vcl_decision [] (Some demo_rules) = Inr demo_vcl" by code_simp
  moreover have "active_rules (Some demo_rules) = [demo_rules ! 1, demo_rules ! 2, demo_rules ! 0]" by code_simp
  moreover have "vcl_condition (demo_rules ! 1) = Inr (''req.url ~ '' @ [double_quote] @ ''^/private/'' @ [double_quote])"
    "cr_action (demo_rules ! 1) = ''bypass''" by code_simp+
  ultimately show ?thesis using vcl_first_match [of "[]" "Some demo_rules" demo_vcl "\<lambda>c. True"] by simp
qed

end
