(* ===== verification/Ha.thy ===== *)
theory Ha imports Settings begin

text \<open>
  High availability (\<open>backend/app/services/ha.py\<close>): the inventory of HAProxy instances and its text
  form, the peers section, the keepalived configuration, the push of a configuration to every
  instance and the configuration endpoint's read and update.

  The settings object is \<open>ha_attrs\<close> of \<open>ha_env\<close> (see \<open>Settings\<close>); the host name of a URL
  (\<open>urlparse\<close>, \<open>None\<close> where it raises or finds none) is \<open>ha_hostname\<close>.  \<open>db = None\<close> is a call without a
  session.  The dash in the first comment of keepalived.conf is a comma here, code points above 255
  being outside the model.  Aggregated health and writing the file are left out.

  \<open>instances_round_trip\<close>, \<open>ha_update_read_back\<close>: what an update stores is what is read; the peer port
  is the exception (\<open>peer_port_update_ignored\<close>).
\<close>

section \<open>Instances\<close>

record haproxy_instance =
  hi_name :: string
  hi_url :: string
  hi_user :: "string option"
  hi_password :: "string option"

record ha_env =
  ha_attrs :: "string \<Rightarrow> string option"
  ha_hostname :: "string \<Rightarrow> string option"

definition ha_attr :: "ha_env \<Rightarrow> string \<Rightarrow> string" where
  "ha_attr env k = or_default (ha_attrs env k) ''''"

text \<open>\<open>parts[i].strip() if len(parts) > i and parts[i].strip() else None\<close>.\<close>

definition part_or_none :: "string list \<Rightarrow> nat \<Rightarrow> string option" where
  "part_or_none parts i =
     (if i < length parts \<and> strip (parts ! i) \<noteq> [] then Some (strip (parts ! i)) else None)"

definition parse_instance :: "string \<Rightarrow> haproxy_instance option" where
  "parse_instance chunk =
     (case split_first chunk ''='' of
        None \<Rightarrow> None
      | Some (n, r) \<Rightarrow>
          (let name = strip n; rest = strip r
           in if name = [] \<or> rest = [] then None
              else (let parts = split_char CHR '','' rest
                    in Some \<lparr>hi_name = name, hi_url = strip (hd parts), hi_user = part_or_none parts 1,
                             hi_password = part_or_none parts 2\<rparr>)))"

definition chunks_of :: "char \<Rightarrow> string \<Rightarrow> string list" where
  "chunks_of d raw = filter (\<lambda>c. c \<noteq> []) (map strip (split_char d raw))"

definition instance_chunks :: "string \<Rightarrow> string list" where
  "instance_chunks raw =
     (if CHR '';'' \<in> set raw then chunks_of CHR '';'' raw
      else (let comma = chunks_of CHR '','' raw
            in if comma \<noteq> [] \<and> list_all (\<lambda>c. CHR ''='' \<in> set c) comma then comma
               else if strip raw = [] then [] else [strip raw]))"

definition parse_instances :: "string \<Rightarrow> haproxy_instance list" where
  "parse_instances raw = List.map_filter parse_instance (instance_chunks raw)"

definition instance_text :: "haproxy_instance \<Rightarrow> string" where
  "instance_text i =
     hi_name i @ ''='' @ hi_url i @
     (case hi_user i of
        None \<Rightarrow> []
      | Some u \<Rightarrow>
          (if u = [] then []
           else '','' @ u @ (case hi_password i of None \<Rightarrow> [] | Some p \<Rightarrow> if p = [] then [] else '','' @ p)))"

definition instances_to_str :: "haproxy_instance list \<Rightarrow> string" where
  "instances_to_str xs = join '';'' (map instance_text xs)"

definition get_haproxy_instances :: "ha_env \<Rightarrow> settings_table option \<Rightarrow> haproxy_instance list" where
  "get_haproxy_instances env db =
     (let raw = (case db of
                   None \<Rightarrow> ha_attrs env ''HAPROXY_INSTANCES''
                 | Some tbl \<Rightarrow> get_setting (ha_attrs env) tbl ''haproxy_instances'' (ha_attrs env ''HAPROXY_INSTANCES''));
          xs = parse_instances (or_default raw '''')
      in if xs = [] then
           [\<lparr>hi_name = ''corex'', hi_url = ha_attr env ''DATAPLANE_API_URL'', hi_user = ha_attrs env ''DATAPLANE_API_USER'',
             hi_password = ha_attrs env ''DATAPLANE_API_PASSWORD''\<rparr>]
         else xs)"

definition is_ha_enabled :: "ha_env \<Rightarrow> settings_table option \<Rightarrow> bool" where
  "is_ha_enabled env db =
     (case db of
        None \<Rightarrow> ha_attr env ''HA_ENABLED'' = ''True''
      | Some tbl \<Rightarrow>
          text_true (or_default (get_setting (ha_attrs env) tbl ''ha_enabled'' (Some (ha_attr env ''HA_ENABLED''))) ''''))"

section \<open>Peers\<close>

definition extract_host :: "ha_env \<Rightarrow> string \<Rightarrow> string" where
  "extract_host env url = (case ha_hostname env url of Some h \<Rightarrow> or_text h url | None \<Rightarrow> url)"

definition unlines :: "string list \<Rightarrow> string" where
  "unlines ls = join [newline] ls"

definition generate_peers_section :: "ha_env \<Rightarrow> settings_table option \<Rightarrow> string" where
  "generate_peers_section env db =
     (let xs = get_haproxy_instances env db
      in if \<not> is_ha_enabled env db \<or> length xs < 2 then []
         else unlines (''peers corex-peers'' #
           map (\<lambda>i. ''    peer '' @ hi_name i @ '' '' @ extract_host env (hi_url i) @ '':'' @ ha_attr env ''HAPROXY_PEER_PORT'') xs)
           @ [newline, newline])"

definition maybe_peers :: "ha_env \<Rightarrow> settings_table option \<Rightarrow> string" where
  "maybe_peers env db =
     (if \<not> is_ha_enabled env db \<or> length (get_haproxy_instances env db) < 2 then [] else '' peers corex-peers'')"

section \<open>Keepalived\<close>

definition get_keepalived_setting :: "ha_env \<Rightarrow> settings_table option \<Rightarrow> string \<Rightarrow> string \<Rightarrow> string" where
  "get_keepalived_setting env db key dflt =
     (case db of
        None \<Rightarrow> dflt
      | Some tbl \<Rightarrow> or_text (or_default (get_setting (ha_attrs env) tbl key (Some dflt)) '''') dflt)"

text \<open>Every call of it passes the attribute of the key as the default.\<close>

definition ha_setting :: "ha_env \<Rightarrow> settings_table option \<Rightarrow> string \<Rightarrow> string" where
  "ha_setting env db key = get_keepalived_setting env db key (ha_attr env (upper_key key))"

definition block_lines :: "string \<Rightarrow> string list \<Rightarrow> string list" where
  "block_lines head body = (''    '' @ head @ '' {'') # map (\<lambda>l. ''        '' @ l) body @ [''    }'', '''']"

definition quoted_text :: "string \<Rightarrow> string" where
  "quoted_text s = [double_quote] @ s @ [double_quote]"

definition keepalived_lines ::
  "string \<Rightarrow> int \<Rightarrow> int \<Rightarrow> string \<Rightarrow> string \<Rightarrow> string list \<Rightarrow> int \<Rightarrow> bool \<Rightarrow> string \<Rightarrow> string list" where
  "keepalived_lines vip vrid priority iface auth_pass peers advert preempt track =
     [''# Generated by coreX Manager, do not edit manually'', ''global_defs {'', ''    enable_script_security'', ''}'', ''''] @
     (if track = [] then []
      else [''vrrp_script chk_haproxy {'', ''    script '' @ quoted_text track, ''    interval 2'', ''    weight -20'', ''}'', '''']) @
     [''vrrp_instance VI_1 {'', ''    state BACKUP'', ''    interface '' @ iface,
      ''    virtual_router_id '' @ int_str vrid, ''    priority '' @ int_str priority,
      ''    advert_int '' @ int_str advert, (if preempt then ''    preempt'' else ''    nopreempt''), ''''] @
     (if auth_pass = [] then [] else block_lines ''authentication'' [''auth_type PASS'', ''auth_pass '' @ auth_pass]) @
     block_lines ''virtual_ipaddress'' [vip] @
     (if peers = [] then [] else block_lines ''unicast_peer'' peers) @
     [''    notify_master '' @ quoted_text ''/usr/local/bin/keepalived_notify.sh MASTER'',
      ''    notify_backup '' @ quoted_text ''/usr/local/bin/keepalived_notify.sh BACKUP'',
      ''    notify_fault  '' @ quoted_text ''/usr/local/bin/keepalived_notify.sh FAULT'', ''''] @
     (if track = [] then [] else block_lines ''track_script'' [''chk_haproxy'']) @ [''}'']"

definition generate_keepalived_config :: "ha_env \<Rightarrow> settings_table option \<Rightarrow> string res" where
  "generate_keepalived_config env db =
     (let s = ha_setting env db; vip = s ''keepalived_vip''
      in if \<not> is_ha_enabled env db \<or> ha_attr env ''SWARM_MODE'' = ''True'' \<or> vip = [] then Inr []
         else bind_res (int_of_text (s ''keepalived_virtual_router_id'')) (\<lambda>vrid.
              bind_res (int_of_text (s ''keepalived_priority'')) (\<lambda>priority.
              bind_res (int_of_text (s ''keepalived_advert_int'')) (\<lambda>advert.
                Inr (unlines (keepalived_lines vip vrid priority (s ''keepalived_interface'')
                  (s ''keepalived_auth_password'') (comma_list (s ''keepalived_peer_addresses'')) advert
                  (text_true (s ''keepalived_preempt'')) (s ''keepalived_track_script'')) @ [newline])))))"

section \<open>Push\<close>

text \<open>
  One push per instance, in order; an exception is the result of its instance.  \<open>push\<close> is the Data
  Plane client, on a world \<open>'w\<close>, with \<open>Inl\<close> the text of an exception.
\<close>

definition push_result :: "string + json \<Rightarrow> json" where
  "push_result r =
     (case r of Inr v \<Rightarrow> v | Inl msg \<Rightarrow> JObj [(''status'', JStr ''error''), (''message'', JStr msg)])"

fun push_each ::
  "(haproxy_instance \<Rightarrow> string \<Rightarrow> 'w \<Rightarrow> (string + json) \<times> 'w) \<Rightarrow> string \<Rightarrow> haproxy_instance list \<Rightarrow>
     json dict \<Rightarrow> 'w \<Rightarrow> json dict \<times> 'w" where
  "push_each push cfg [] results w = (results, w)"
| "push_each push cfg (i # is) results w =
     (case push i cfg w of
        (r, w1) \<Rightarrow> push_each push cfg is (AList.update (hi_name i) (push_result r) results) w1)"

definition push_config_to_all_instances ::
  "(haproxy_instance \<Rightarrow> string \<Rightarrow> 'w \<Rightarrow> (string + json) \<times> 'w) \<Rightarrow> ha_env \<Rightarrow> settings_table option \<Rightarrow> string \<Rightarrow>
     'w \<Rightarrow> json dict \<times> 'w" where
  "push_config_to_all_instances push env db cfg w = push_each push cfg (get_haproxy_instances env db) [] w"

section \<open>The configuration endpoint\<close>

record keepalived_update =
  ku_vip :: "string option"
  ku_virtual_router_id :: "int option"
  ku_priority :: "int option"
  ku_interface :: "string option"
  ku_auth_password :: "string option"
  ku_peer_addresses :: "string list option"
  ku_advert_int :: "int option"
  ku_preempt :: "bool option"
  ku_track_script :: "string option"

record ha_update =
  hu_enabled :: "bool option"
  hu_topology :: "string option"
  hu_haproxy_replicas :: "int option"
  hu_valkey_replicas :: "int option"
  hu_coraza_replicas :: "int option"
  hu_instances :: "haproxy_instance list option"
  hu_peer_port :: "int option"
  hu_sentinel_enabled :: "bool option"
  hu_sentinel_hosts :: "string list option"
  hu_sentinel_service :: "string option"
  hu_keepalived :: "keepalived_update option"

definition low_bool :: "bool \<Rightarrow> string" where
  "low_bool b = py_lower (bool_text b)"

definition set_all :: "(string \<times> string option) list \<Rightarrow> settings_table \<Rightarrow> settings_table" where
  "set_all kvs tbl = fold (\<lambda>(k, v) t. optional_set t k v) kvs tbl"

definition keepalived_writes :: "keepalived_update \<Rightarrow> (string \<times> string option) list" where
  "keepalived_writes k =
     [(''keepalived_vip'', ku_vip k), (''keepalived_virtual_router_id'', map_option int_str (ku_virtual_router_id k)),
      (''keepalived_priority'', map_option int_str (ku_priority k)), (''keepalived_interface'', ku_interface k),
      (''keepalived_auth_password'', ku_auth_password k),
      (''keepalived_peer_addresses'', map_option (join '','') (ku_peer_addresses k)),
      (''keepalived_advert_int'', map_option int_str (ku_advert_int k)),
      (''keepalived_preempt'', map_option low_bool (ku_preempt k)), (''keepalived_track_script'', ku_track_script k)]"

definition ha_writes :: "ha_update \<Rightarrow> (string \<times> string option) list" where
  "ha_writes u =
     [(''ha_enabled'', map_option low_bool (hu_enabled u)), (''ha_topology'', hu_topology u),
      (''haproxy_ha_replicas'', map_option int_str (hu_haproxy_replicas u)),
      (''valkey_ha_replicas'', map_option int_str (hu_valkey_replicas u)),
      (''coraza_ha_replicas'', map_option int_str (hu_coraza_replicas u)),
      (''haproxy_instances'', map_option instances_to_str (hu_instances u)),
      (''haproxy_peer_port'', map_option int_str (hu_peer_port u)),
      (''valkey_sentinel_enabled'', map_option low_bool (hu_sentinel_enabled u)),
      (''valkey_sentinel_hosts'', map_option (join '','') (hu_sentinel_hosts u)),
      (''valkey_sentinel_service'', hu_sentinel_service u)]"

definition update_ha_config :: "ha_update \<Rightarrow> settings_table \<Rightarrow> settings_table" where
  "update_ha_config u tbl =
     set_all (case hu_keepalived u of None \<Rightarrow> [] | Some k \<Rightarrow> keepalived_writes k) (set_all (ha_writes u) tbl)"

record keepalived_view =
  kv_vip :: string
  kv_virtual_router_id :: int
  kv_priority :: int
  kv_interface :: string
  kv_auth_password :: string
  kv_peer_addresses :: "string list"
  kv_advert_int :: int
  kv_preempt :: bool
  kv_track_script :: "string option"

record ha_view =
  hv_enabled :: bool
  hv_swarm_mode :: bool
  hv_topology :: string
  hv_haproxy_replicas :: int
  hv_valkey_replicas :: int
  hv_coraza_replicas :: int
  hv_instances :: "haproxy_instance list"
  hv_peer_port :: string
  hv_keepalived :: keepalived_view
  hv_sentinel_enabled :: bool
  hv_sentinel_hosts :: "string list"
  hv_sentinel_service :: string

definition keepalived_config :: "ha_env \<Rightarrow> settings_table \<Rightarrow> keepalived_view res" where
  "keepalived_config env tbl =
     (let s = ha_setting env (Some tbl)
      in bind_res (int_of_text (s ''keepalived_virtual_router_id'')) (\<lambda>vrid.
         bind_res (int_of_text (s ''keepalived_priority'')) (\<lambda>priority.
         bind_res (int_of_text (s ''keepalived_advert_int'')) (\<lambda>advert.
           Inr \<lparr>kv_vip = s ''keepalived_vip'', kv_virtual_router_id = vrid, kv_priority = priority,
                kv_interface = s ''keepalived_interface'', kv_auth_password = s ''keepalived_auth_password'',
                kv_peer_addresses = comma_list (s ''keepalived_peer_addresses''), kv_advert_int = advert,
                kv_preempt = text_true (s ''keepalived_preempt''),
                kv_track_script = (let t = s ''keepalived_track_script'' in if t = [] then None else Some t)\<rparr>))))"

definition get_ha_config :: "ha_env \<Rightarrow> settings_table \<Rightarrow> ha_view res" where
  "get_ha_config env tbl =
     (let s = ha_setting env (Some tbl)
      in bind_res (keepalived_config env tbl) (\<lambda>k.
         bind_res (int_of_text (s ''haproxy_ha_replicas'')) (\<lambda>h.
         bind_res (int_of_text (s ''valkey_ha_replicas'')) (\<lambda>v.
         bind_res (int_of_text (s ''coraza_ha_replicas'')) (\<lambda>c.
           Inr \<lparr>hv_enabled = is_ha_enabled env (Some tbl), hv_swarm_mode = (ha_attr env ''SWARM_MODE'' = ''True''),
                hv_topology = s ''ha_topology'', hv_haproxy_replicas = h, hv_valkey_replicas = v,
                hv_coraza_replicas = c, hv_instances = get_haproxy_instances env (Some tbl),
                hv_peer_port = ha_attr env ''HAPROXY_PEER_PORT'', hv_keepalived = k,
                hv_sentinel_enabled = text_true (s ''valkey_sentinel_enabled''),
                hv_sentinel_hosts = comma_list (s ''valkey_sentinel_hosts''),
                hv_sentinel_service = s ''valkey_sentinel_service''\<rparr>)))))"

section \<open>The text of the inventory\<close>

definition word_ok :: "string \<Rightarrow> bool" where
  "word_ok s \<longleftrightarrow> s \<noteq> [] \<and> \<not> py_isspace (hd s) \<and> \<not> py_isspace (last s)"

definition avoids :: "string \<Rightarrow> string \<Rightarrow> bool" where
  "avoids cs s \<longleftrightarrow> set cs \<inter> set s = {}"

text \<open>Names, URLs and credentials that survive: no separators, no white space at the ends, and a
  password only beside a user.\<close>

definition inst_ok :: "haproxy_instance \<Rightarrow> bool" where
  "inst_ok i \<longleftrightarrow>
     word_ok (hi_name i) \<and> avoids '';,='' (hi_name i) \<and> word_ok (hi_url i) \<and> avoids '';,'' (hi_url i) \<and>
     (case hi_user i of
        None \<Rightarrow> hi_password i = None
      | Some u \<Rightarrow> word_ok u \<and> avoids '';,='' u \<and>
          (case hi_password i of None \<Rightarrow> True | Some p \<Rightarrow> word_ok p \<and> avoids '';,='' p))"

lemma strip_word: "word_ok s \<Longrightarrow> strip s = s"
proof -
  assume s: "word_ok s"
  then have "lstrip s = s" by (cases s) (auto simp: word_ok_def lstrip_def)
  moreover have "lstrip (rev s) = rev s"
    using s by (cases "rev s") (auto simp: word_ok_def lstrip_def simp flip: hd_rev)
  ultimately show ?thesis by (simp add: strip_def)
qed

lemma word_ok_append: "word_ok a \<Longrightarrow> word_ok b \<Longrightarrow> word_ok (a @ m @ b)"
  by (auto simp: word_ok_def)

lemma split_first_at: "c \<notin> set a \<Longrightarrow> split_first (a @ c # b) [c] = Some (a, b)"
  by (induction a) auto

lemma instance_text_shape:
  assumes "inst_ok i"
  obtains ps where "instance_text i = hi_name i @ ''='' @ join '','' (hi_url i # ps)"
    "list_all word_ok ps" "list_all (avoids '';,='') ps"
    "hi_user i = (case ps of [] \<Rightarrow> None | u # _ \<Rightarrow> Some u)"
    "hi_password i = (case ps of _ # p # _ \<Rightarrow> Some p | _ \<Rightarrow> None)" "length ps \<le> 2"
proof (cases "hi_user i")
  case None
  with assms that [of "[]"] show ?thesis by (auto simp: inst_ok_def instance_text_def)
next
  case (Some u)
  with assms have u: "word_ok u" "avoids '';,='' u" by (auto simp: inst_ok_def)
  then have "u \<noteq> []" by (simp add: word_ok_def)
  show ?thesis
  proof (cases "hi_password i")
    case None
    with Some u \<open>u \<noteq> []\<close> that [of "[u]"] show ?thesis by (auto simp: instance_text_def)
  next
    case (Some p)
    with \<open>hi_user i = Some u\<close> assms have "word_ok p" "avoids '';,='' p" by (auto simp: inst_ok_def)
    then show ?thesis
      using Some \<open>hi_user i = Some u\<close> u \<open>u \<noteq> []\<close> that [of "[u, p]"]
      by (auto simp: instance_text_def word_ok_def)
  qed
qed

lemma joined_words: "list_all word_ok ps \<Longrightarrow> word_ok w \<Longrightarrow> word_ok (join sep (w # ps))"
proof (induction ps arbitrary: w)
  case (Cons p ps)
  then have "word_ok (join sep (p # ps))" by simp
  with word_ok_append [OF Cons.prems(2) this, of sep] show ?case by simp
qed simp

lemma joined_set: "set (join sep ws) \<subseteq> set sep \<union> \<Union> (set ` set ws)"
  by (induction sep ws rule: join.induct) auto

lemma instance_text_facts:
  assumes "inst_ok i"
  shows "word_ok (instance_text i) \<and> CHR '';'' \<notin> set (instance_text i)"
proof -
  obtain ps where t: "instance_text i = hi_name i @ ''='' @ join '','' (hi_url i # ps)"
    and ps: "list_all word_ok ps" "list_all (avoids '';,='') ps"
    using instance_text_shape [OF assms] by metis
  have "word_ok (join '','' (hi_url i # ps))" using ps assms by (intro joined_words) (auto simp: inst_ok_def)
  moreover have "CHR '';'' \<notin> set (join '','' (hi_url i # ps))"
    using joined_set [of "'',''" "hi_url i # ps"] ps assms by (fastforce simp: inst_ok_def avoids_def list_all_iff)
  ultimately show ?thesis
    unfolding t using assms word_ok_append [of "hi_name i" _ "''=''"] by (auto simp: inst_ok_def avoids_def)
qed

lemma parse_instance_text:
  assumes "inst_ok i"
  shows "parse_instance (instance_text i) = Some i"
proof -
  obtain ps where t: "instance_text i = hi_name i @ ''='' @ join '','' (hi_url i # ps)"
    and ps: "list_all word_ok ps" "list_all (avoids '';,='') ps" "length ps \<le> 2"
    and cred: "hi_user i = (case ps of [] \<Rightarrow> None | u # _ \<Rightarrow> Some u)"
      "hi_password i = (case ps of _ # p # _ \<Rightarrow> Some p | _ \<Rightarrow> None)"
    using instance_text_shape [OF assms] by metis
  let ?rest = "join '','' (hi_url i # ps)"
  have split: "split_first (instance_text i) ''='' = Some (hi_name i, ?rest)"
    unfolding t using assms split_first_at [of "CHR ''=''" "hi_name i" ?rest] by (simp add: inst_ok_def avoids_def)
  have rest: "word_ok ?rest" using ps assms by (intro joined_words) (auto simp: inst_ok_def)
  have parts: "split_char CHR '','' ?rest = hi_url i # ps"
    using ps assms by (intro split_char_join) (auto simp: inst_ok_def avoids_def list_all_iff)
  have "part_or_none (hi_url i # ps) 1 = hi_user i \<and> part_or_none (hi_url i # ps) 2 = hi_password i"
    using ps cred by (cases ps; cases "tl ps") (auto simp: part_or_none_def strip_word word_ok_def)
  moreover have "hi_name i \<noteq> []" "?rest \<noteq> []" "strip (hi_url i) = hi_url i" "strip (hi_name i) = hi_name i"
    using assms rest strip_word by (auto simp: inst_ok_def word_ok_def)
  ultimately show ?thesis
    unfolding parse_instance_def split using strip_word [OF rest] parts by simp
qed

lemma chunks_joined:
  assumes "ws \<noteq> []" "\<And>w. w \<in> set ws \<Longrightarrow> word_ok w \<and> d \<notin> set w"
  shows "chunks_of d (join [d] ws) = ws"
proof -
  have "map strip ws = ws" using assms(2) by (intro map_idI) (simp add: strip_word)
  moreover have "filter (\<lambda>c. c \<noteq> []) ws = ws" using assms(2) by (auto simp: filter_id_conv word_ok_def)
  ultimately show ?thesis using assms by (simp add: chunks_of_def split_char_join)
qed

text \<open>One instance: its text is not taken for a list of instances without credentials.\<close>

lemma single_chunk:
  assumes "inst_ok i"
  shows "instance_chunks (instance_text i) = [instance_text i]"
proof -
  obtain ps where t: "instance_text i = hi_name i @ ''='' @ join '','' (hi_url i # ps)"
    and ps: "list_all word_ok ps" "list_all (avoids '';,='') ps"
    using instance_text_shape [OF assms] by metis
  let ?first = "hi_name i @ ''='' @ hi_url i"
  have "instance_text i = join '','' (?first # ps)" unfolding t by (cases ps) simp_all
  moreover have "chunks_of CHR '','' (join '','' (?first # ps)) = ?first # ps"
  proof (rule chunks_joined)
    fix w assume w: "w \<in> set (?first # ps)"
    have "word_ok ?first" using assms by (intro word_ok_append) (auto simp: inst_ok_def)
    moreover have "CHR '','' \<notin> set ?first" using assms by (auto simp: inst_ok_def avoids_def)
    ultimately show "word_ok w \<and> CHR '','' \<notin> set w" using w ps by (auto simp: list_all_iff avoids_def)
  qed simp
  ultimately have comma: "chunks_of CHR '','' (instance_text i) = ?first # ps" by simp
  note facts = instance_text_facts [OF assms]
  show ?thesis
  proof (cases ps)
    case Nil
    with comma t facts show ?thesis by (simp add: instance_chunks_def)
  next
    case (Cons u us)
    then have "CHR ''='' \<notin> set u" using ps(2) by (auto simp: avoids_def)
    with Cons comma facts strip_word show ?thesis by (auto simp: instance_chunks_def word_ok_def)
  qed
qed

lemma parse_instances_text:
  assumes "list_all inst_ok xs"
  shows "parse_instances (instances_to_str xs) = xs"
proof -
  have each: "List.map_filter parse_instance (map instance_text xs) = xs"
    using assms parse_instance_text by (induction xs) (auto simp: List.map_filter_simps)
  have "instance_chunks (instances_to_str xs) = map instance_text xs"
  proof (cases xs)
    case Nil
    have "instance_chunks [] = []" by code_simp
    with Nil show ?thesis by (simp add: instances_to_str_def)
  next
    case (Cons i others)
    show ?thesis
    proof (cases others)
      case Nil
      with Cons assms single_chunk show ?thesis by (simp add: instances_to_str_def)
    next
      case (Cons j js)
      then have "CHR '';'' \<in> set (instances_to_str xs)" using \<open>xs = i # others\<close> by (simp add: instances_to_str_def)
      moreover have "chunks_of CHR '';'' (instances_to_str xs) = map instance_text xs"
        unfolding instances_to_str_def using assms instance_text_facts \<open>xs = i # others\<close>
        by (intro chunks_joined) (auto simp: list_all_iff)
      ultimately show ?thesis by (simp add: instance_chunks_def)
    qed
  qed
  with each show ?thesis by (simp add: parse_instances_def)
qed

text \<open>The inventory survives being stored: parsing the text of a list of instances gives the list, with the
  credentials, whether there is one instance or several.\<close>

theorem instances_round_trip:
  assumes "list_all inst_ok xs"
  shows "parse_instances (instances_to_str xs) = xs"
  using assms by (rule parse_instances_text)

section \<open>Updates and what is read afterwards\<close>

text \<open>A list of optional writes: the last given value of a key counts.\<close>

fun written :: "(string \<times> string option) list \<Rightarrow> string \<Rightarrow> string option" where
  "written [] k = None"
| "written ((k', v) # kvs) k =
     (case written kvs k of Some s \<Rightarrow> Some s | None \<Rightarrow> if k' = k then v else None)"

lemma get_set_all:
  "get_setting attrs (set_all kvs tbl) k dflt =
     (case written kvs k of Some s \<Rightarrow> Some s | None \<Rightarrow> get_setting attrs tbl k dflt)"
proof (induction kvs arbitrary: tbl)
  case (Cons p kvs)
  obtain k' v where p: "p = (k', v)" by (cases p)
  have "set_all (p # kvs) tbl = set_all kvs (optional_set tbl k' v)" by (simp add: set_all_def p)
  with Cons.IH show ?case by (auto simp: p split: option.split)
qed (simp add: set_all_def)

definition update_writes :: "ha_update \<Rightarrow> (string \<times> string option) list" where
  "update_writes u = ha_writes u @ (case hu_keepalived u of None \<Rightarrow> [] | Some k \<Rightarrow> keepalived_writes k)"

lemma update_as_writes: "update_ha_config u tbl = set_all (update_writes u) tbl"
  by (simp add: update_ha_config_def update_writes_def set_all_def)

lemma written_append:
  "written (xs @ ys) k = (case written ys k of Some s \<Rightarrow> Some s | None \<Rightarrow> written xs k)"
  by (induction xs) (auto split: option.split)

lemma written_other: "k \<notin> fst ` set kvs \<Longrightarrow> written kvs k = None"
  by (induction kvs) (auto split: option.split)

lemma keepalived_keys: "fst ` set (keepalived_writes k) \<inter> fst ` set (ha_writes u) = {}"
  by (simp add: keepalived_writes_def ha_writes_def)

lemma written_ha:
  "written (update_writes u) ''ha_enabled'' = map_option low_bool (hu_enabled u)"
  "written (update_writes u) ''ha_topology'' = hu_topology u"
  "written (update_writes u) ''haproxy_instances'' = map_option instances_to_str (hu_instances u)"
  "written (update_writes u) ''valkey_sentinel_enabled'' = map_option low_bool (hu_sentinel_enabled u)"
  "written (update_writes u) ''valkey_sentinel_hosts'' = map_option (join '','') (hu_sentinel_hosts u)"
  by (cases "hu_keepalived u"; simp add: update_writes_def written_append ha_writes_def keepalived_writes_def split: option.split)+

lemma written_keepalived:
  assumes "hu_keepalived u = Some k"
  shows "written (update_writes u) ''keepalived_vip'' = ku_vip k"
    "written (update_writes u) ''keepalived_interface'' = ku_interface k"
    "written (update_writes u) ''keepalived_preempt'' = map_option low_bool (ku_preempt k)"
    "written (update_writes u) ''keepalived_peer_addresses'' = map_option (join '','') (ku_peer_addresses k)"
  using assms
  by (simp_all add: update_writes_def written_append ha_writes_def keepalived_writes_def split: option.split)

lemma ha_setting_written:
  assumes "written (update_writes u) key = Some s" "s \<noteq> []"
  shows "ha_setting env (Some (update_ha_config u tbl)) key = s"
  using assms by (simp add: ha_setting_def get_keepalived_setting_def update_as_writes get_set_all or_text_def or_default_def)

definition list_ok :: "string list \<Rightarrow> bool" where
  "list_ok ws \<longleftrightarrow> ws \<noteq> [] \<and> list_all (\<lambda>w. word_ok w \<and> CHR '','' \<notin> set w) ws"

lemma comma_list_joined: "list_ok ws \<Longrightarrow> comma_list (join '','' ws) = ws \<and> join '','' ws \<noteq> []"
proof -
  assume ws: "list_ok ws"
  then have "chunks_of CHR '','' (join '','' ws) = ws"
    by (intro chunks_joined) (auto simp: list_ok_def list_all_iff)
  then have "comma_list (join '','' ws) = ws" by (simp add: comma_list_def chunks_of_def)
  moreover from this ws have "join '','' ws \<noteq> []" by (auto simp: list_ok_def comma_list_def strip_def lstrip_def)
  ultimately show ?thesis by simp
qed

lemma low_bool_facts: "text_true (low_bool b) = b" "low_bool b \<noteq> []"
  by (simp_all add: low_bool_def) (simp add: bool_text_def py_lower_def)

lemma instances_written:
  assumes "hu_instances u = Some xs" "xs \<noteq> []" "list_all inst_ok xs"
  shows "get_haproxy_instances env (Some (update_ha_config u tbl)) = xs"
  using assms parse_instances_text [OF assms(3)]
  by (simp add: get_haproxy_instances_def update_as_writes get_set_all written_ha or_default_def Let_def)

text \<open>What an administrator sets is what the endpoint returns afterwards: the switch, the topology, the
  inventory, the sentinel's hosts and the keepalived settings, as far as they are given and not empty.\<close>

theorem ha_update_read_back:
  assumes "get_ha_config env (update_ha_config u tbl) = Inr v"
  shows "(\<forall>b. hu_enabled u = Some b \<longrightarrow> hv_enabled v = b) \<and>
    (\<forall>t. hu_topology u = Some t \<and> t \<noteq> [] \<longrightarrow> hv_topology v = t) \<and>
    (\<forall>xs. hu_instances u = Some xs \<and> xs \<noteq> [] \<and> list_all inst_ok xs \<longrightarrow> hv_instances v = xs) \<and>
    (\<forall>b. hu_sentinel_enabled u = Some b \<longrightarrow> hv_sentinel_enabled v = b) \<and>
    (\<forall>hs. hu_sentinel_hosts u = Some hs \<and> list_ok hs \<longrightarrow> hv_sentinel_hosts v = hs) \<and>
    (\<forall>k. hu_keepalived u = Some k \<longrightarrow>
       (\<forall>s. ku_vip k = Some s \<and> s \<noteq> [] \<longrightarrow> kv_vip (hv_keepalived v) = s) \<and>
       (\<forall>s. ku_interface k = Some s \<and> s \<noteq> [] \<longrightarrow> kv_interface (hv_keepalived v) = s) \<and>
       (\<forall>b. ku_preempt k = Some b \<longrightarrow> kv_preempt (hv_keepalived v) = b) \<and>
       (\<forall>ps. ku_peer_addresses k = Some ps \<and> list_ok ps \<longrightarrow> kv_peer_addresses (hv_keepalived v) = ps))"
proof -
  let ?t = "update_ha_config u tbl"
  let ?s = "ha_setting env (Some ?t)"
  obtain kv where kv: "keepalived_config env ?t = Inr kv" and v: "hv_keepalived v = kv"
    "hv_enabled v = is_ha_enabled env (Some ?t)" "hv_topology v = ?s ''ha_topology''"
    "hv_instances v = get_haproxy_instances env (Some ?t)"
    "hv_sentinel_enabled v = text_true (?s ''valkey_sentinel_enabled'')"
    "hv_sentinel_hosts v = comma_list (?s ''valkey_sentinel_hosts'')"
    using assms by (auto simp: get_ha_config_def res_simps Let_def)
  have kvs: "kv_vip kv = ?s ''keepalived_vip''" "kv_interface kv = ?s ''keepalived_interface''"
    "kv_preempt kv = text_true (?s ''keepalived_preempt'')"
    "kv_peer_addresses kv = comma_list (?s ''keepalived_peer_addresses'')"
    using kv by (auto simp: keepalived_config_def res_simps Let_def)
  have enabled: "is_ha_enabled env (Some ?t) = b" if "hu_enabled u = Some b" for b
    using that low_bool_facts by (simp add: is_ha_enabled_def update_as_writes get_set_all written_ha or_default_def)
  note set = ha_setting_written [of u _ _ env tbl] written_ha written_keepalived low_bool_facts comma_list_joined
  show ?thesis
    unfolding v kvs using enabled instances_written set by simp
qed

section \<open>The peer port\<close>

lemma written_peer_port:
  "k \<noteq> ''haproxy_peer_port'' \<Longrightarrow> written (update_writes (u\<lparr>hu_peer_port := p\<rparr>)) k = written (update_writes u) k"
  by (cases "hu_keepalived u") (simp_all add: update_writes_def written_append ha_writes_def)

lemma setting_peer_port:
  "k \<noteq> ''haproxy_peer_port'' \<Longrightarrow>
     get_setting attrs (update_ha_config (u\<lparr>hu_peer_port := p\<rparr>) tbl) k dflt =
     get_setting attrs (update_ha_config u tbl) k dflt"
  by (simp add: update_as_writes get_set_all written_peer_port)

lemma ha_setting_peer_port:
  "k \<noteq> ''haproxy_peer_port'' \<Longrightarrow>
     ha_setting env (Some (update_ha_config (u\<lparr>hu_peer_port := p\<rparr>) tbl)) k =
     ha_setting env (Some (update_ha_config u tbl)) k"
  by (simp add: ha_setting_def get_keepalived_setting_def setting_peer_port)

lemma inventory_peer_port:
  "get_haproxy_instances env (Some (update_ha_config (u\<lparr>hu_peer_port := p\<rparr>) tbl)) =
     get_haproxy_instances env (Some (update_ha_config u tbl))"
  "is_ha_enabled env (Some (update_ha_config (u\<lparr>hu_peer_port := p\<rparr>) tbl)) =
     is_ha_enabled env (Some (update_ha_config u tbl))"
  by (simp_all add: get_haproxy_instances_def is_ha_enabled_def setting_peer_port)

text \<open>Setting the peer port has no effect: neither the endpoint's answer nor the peers section nor keepalived's
  configuration depends on the port in an update.\<close>

theorem peer_port_update_ignored:
  "get_ha_config env (update_ha_config (u\<lparr>hu_peer_port := p\<rparr>) tbl) = get_ha_config env (update_ha_config u tbl) \<and>
   generate_peers_section env (Some (update_ha_config (u\<lparr>hu_peer_port := p\<rparr>) tbl)) =
     generate_peers_section env (Some (update_ha_config u tbl)) \<and>
   generate_keepalived_config env (Some (update_ha_config (u\<lparr>hu_peer_port := p\<rparr>) tbl)) =
     generate_keepalived_config env (Some (update_ha_config u tbl))"
  by (simp add: get_ha_config_def keepalived_config_def generate_peers_section_def generate_keepalived_config_def
      ha_setting_peer_port inventory_peer_port Let_def)

text \<open>A stick table refers to the peers exactly when the section exists.\<close>

lemma peers_consistent: "maybe_peers env db \<noteq> [] \<longleftrightarrow> generate_peers_section env db \<noteq> []"
  by (simp add: maybe_peers_def generate_peers_section_def Let_def)

section \<open>Every instance gets its configuration\<close>

text \<open>The worlds the pushes see, one per instance.\<close>

fun push_trace ::
  "(haproxy_instance \<Rightarrow> string \<Rightarrow> 'w \<Rightarrow> (string + json) \<times> 'w) \<Rightarrow> string \<Rightarrow> haproxy_instance list \<Rightarrow> 'w \<Rightarrow>
     (string \<times> (string + json)) list" where
  "push_trace push cfg [] w = []"
| "push_trace push cfg (i # is) w =
     (case push i cfg w of (r, w1) \<Rightarrow> (hi_name i, r) # push_trace push cfg is w1)"

lemma push_each_results:
  "distinct (map fst results @ map hi_name xs) \<Longrightarrow>
     fst (push_each push cfg xs results w) =
       results @ map (\<lambda>(n, r). (n, push_result r)) (push_trace push cfg xs w)"
proof (induction xs arbitrary: results w)
  case (Cons i xs)
  obtain r w1 where r: "push i cfg w = (r, w1)" by (cases "push i cfg w")
  have "AList.update (hi_name i) (push_result r) results = results @ [(hi_name i, push_result r)]"
    using Cons.prems update_conv' by (induction results) auto
  with Cons r show ?case by simp
qed simp

lemma push_trace_names: "map fst (push_trace push cfg xs w) = map hi_name xs"
  by (induction xs arbitrary: w) (auto split: prod.split)

text \<open>A configuration is pushed to every instance, in order and whatever the earlier pushes answered; with
  different names there is one result per instance, an error where the push raised.\<close>

theorem push_reaches_all:
  assumes "distinct (map hi_name (get_haproxy_instances env db))"
  shows "fst (push_config_to_all_instances push env db cfg w) =
      map (\<lambda>(n, r). (n, push_result r)) (push_trace push cfg (get_haproxy_instances env db) w) \<and>
    map fst (fst (push_config_to_all_instances push env db cfg w)) = map hi_name (get_haproxy_instances env db)"
proof -
  let ?xs = "get_haproxy_instances env db"
  have results: "fst (push_config_to_all_instances push env db cfg w) =
      map (\<lambda>(n, r). (n, push_result r)) (push_trace push cfg ?xs w)"
    using push_each_results [of "[]" ?xs push cfg w] assms by (simp add: push_config_to_all_instances_def)
  moreover have "map fst (map (\<lambda>(n, r). (n, push_result r)) ts) = map fst ts" for ts :: "(string \<times> (string + json)) list"
    by (induction ts) auto
  ultimately show ?thesis using push_trace_names by metis
qed

section \<open>Two instances\<close>

definition demo_instances :: "haproxy_instance list" where
  "demo_instances =
     [\<lparr>hi_name = ''a'', hi_url = ''http://a:5555'', hi_user = Some ''admin'', hi_password = Some ''pw''\<rparr>,
      \<lparr>hi_name = ''b'', hi_url = ''http://b:5555'', hi_user = None, hi_password = None\<rparr>]"

definition demo_ha_env :: ha_env where
  "demo_ha_env =
     \<lparr>ha_attrs = (\<lambda>k. map_of
        [(''HA_ENABLED'', ''False''), (''HAPROXY_PEER_PORT'', ''10000''), (''KEEPALIVED_PRIORITY'', ''100''),
         (''KEEPALIVED_VIRTUAL_ROUTER_ID'', ''51''), (''KEEPALIVED_ADVERT_INT'', ''1''), (''HAPROXY_HA_REPLICAS'', ''1''),
         (''VALKEY_HA_REPLICAS'', ''1''), (''CORAZA_HA_REPLICAS'', ''1''), (''SWARM_MODE'', ''False'')] k),
      ha_hostname = (\<lambda>u. None)\<rparr>"

definition demo_update :: ha_update where
  "demo_update =
     \<lparr>hu_enabled = Some True, hu_topology = None, hu_haproxy_replicas = None, hu_valkey_replicas = None,
      hu_coraza_replicas = None, hu_instances = Some demo_instances, hu_peer_port = None, hu_sentinel_enabled = None,
      hu_sentinel_hosts = None, hu_sentinel_service = None, hu_keepalived = None\<rparr>"

definition demo_table :: settings_table where
  "demo_table = update_ha_config demo_update Map.empty"

lemma demo_instances_ok: "list_all inst_ok demo_instances"
  by code_simp

theorem instances_round_trip_witness:
  "parse_instances (instances_to_str demo_instances) = demo_instances"
  by (rule instances_round_trip [OF demo_instances_ok])

theorem ha_update_read_back_witness:
  "\<exists>v. get_ha_config demo_ha_env demo_table = Inr v \<and> hv_enabled v \<and> hv_instances v = demo_instances"
proof -
  have "is_ok (get_ha_config demo_ha_env demo_table)" by code_simp
  then obtain v where v: "get_ha_config demo_ha_env (update_ha_config demo_update Map.empty) = Inr v"
    by (auto simp: is_ok_iff demo_table_def)
  have "hu_instances demo_update = Some demo_instances" "hu_enabled demo_update = Some True" "demo_instances \<noteq> []"
    by (simp_all add: demo_update_def demo_instances_def)
  with ha_update_read_back [OF v] v demo_instances_ok show ?thesis by (auto simp: demo_table_def)
qed

text \<open>A Data Plane client that fails for the first instance only.\<close>

definition demo_push :: "haproxy_instance \<Rightarrow> string \<Rightarrow> nat \<Rightarrow> (string + json) \<times> nat" where
  "demo_push i cfg n = (if hi_name i = ''a'' then Inl ''refused'' else Inr (JStr cfg), Suc n)"

theorem push_reaches_all_witness:
  "map fst (fst (push_config_to_all_instances demo_push demo_ha_env (Some demo_table) ''cfg'' 0)) = [''a'', ''b'']"
proof -
  have "get_haproxy_instances demo_ha_env (Some demo_table) = demo_instances" by code_simp
  then have names: "map hi_name (get_haproxy_instances demo_ha_env (Some demo_table)) = [''a'', ''b'']"
    by (simp add: demo_instances_def)
  then have "distinct (map hi_name (get_haproxy_instances demo_ha_env (Some demo_table)))" by simp
  from conjunct2 [OF push_reaches_all [OF this, of demo_push "''cfg''" 0]] names show ?thesis by (simp only:)
qed

end
