(* ===== verification/PolicyBuilder.thy ===== *)
theory PolicyBuilder imports Uris "HOL-Library.List_Lexorder" begin

text \<open>
  The backend's data for the policy builder and its catalog refreshes
  (\<open>backend/app/services/mcp_policies.py\<close>): which catalogs count as stale, the names offered to the
  user's teams, and the rate limit and retries of the background refresh.

  Names are made as the gateway makes them (\<open>Uris\<close>).  Valkey's answer to a read is an argument:
  \<open>None\<close> without a client, an exception, or the text of the key.  The rows are in the order of their
  names, as the queries ask.  Fetching a catalog from the upstream is the gateway's client (\<open>Upstream\<close>)
  and an operation of \<open>refresh_ops\<close> here; threads are sequences of events.
\<close>

record builder_server =
  bs_id :: int
  bs_team_id :: int
  bs_name :: string
  bs_namespace :: string
  bs_enabled :: bool
  bs_last_catalog_at :: "string option"

section \<open>Catalogs\<close>

type_synonym catalog_reads = "int \<Rightarrow> string option res option"

text \<open>The cached catalog, \<open>None\<close> where there is no client, no text, or no JSON in it.\<close>

definition get_server_catalog :: "engine \<Rightarrow> catalog_reads \<Rightarrow> builder_server \<Rightarrow> json option" where
  "get_server_catalog E reads s =
     (case reads (bs_id s) of
        Some (Inr (Some raw)) \<Rightarrow> if raw = [] then None else json_loads E raw
      | _ \<Rightarrow> None)"

definition server_is_stale :: "engine \<Rightarrow> catalog_reads \<Rightarrow> builder_server \<Rightarrow> bool res" where
  "server_is_stale E reads s =
     (case get_server_catalog E reads s of
        None \<Rightarrow> Inr True
      | Some c \<Rightarrow>
          if or_default (bs_last_catalog_at s) '''' \<noteq> [] then Inr False
          else (case c of
                  JObj d \<Rightarrow> Inr (\<not> py_truthy (dict_get d ''tools'' JNull) \<and> \<not> py_truthy (dict_get d ''resources'' JNull) \<and>
                                \<not> py_truthy (dict_get d ''prompts'' JNull))
                | _ \<Rightarrow> Inl AttributeError))"

section \<open>Names\<close>

text \<open>\<open>for x in catalog.get(k, [])\<close>: the elements of a text or a dict are texts, which are passed over.\<close>

definition catalog_items :: "json dict \<Rightarrow> string \<Rightarrow> json list res" where
  "catalog_items d k =
     (case dict_get d k (JList []) of
        JList xs \<Rightarrow> Inr (filter is_obj xs)
      | JObj e \<Rightarrow> Inr []
      | JStr s \<Rightarrow> Inr []
      | _ \<Rightarrow> Inl TypeError)"

definition given_fields :: "string \<Rightarrow> json list \<Rightarrow> json list" where
  "given_fields f xs = filter py_truthy (map (\<lambda>x. jget_or_null x f) xs)"

definition tool_names :: "engine \<Rightarrow> string \<Rightarrow> json dict \<Rightarrow> string \<Rightarrow> string list res" where
  "tool_names E namespace d k =
     bind_res (catalog_items d k)
       (\<lambda>xs. Inr (map (\<lambda>v. prefix_tool_name namespace (py_str (float_repr E) v)) (given_fields ''name'' xs)))"

text \<open>\<open>quote\<close> takes texts only.\<close>

definition resource_uri :: "string \<Rightarrow> json \<Rightarrow> string res" where
  "resource_uri namespace v = (case v of JStr u \<Rightarrow> Inr (wrap_resource_uri namespace u) | _ \<Rightarrow> Inl TypeError)"

definition resource_uris :: "string \<Rightarrow> json dict \<Rightarrow> string list res" where
  "resource_uris namespace d =
     bind_res (catalog_items d ''resources'') (\<lambda>xs. each_res (resource_uri namespace) (given_fields ''uri'' xs))"

record builder_names =
  bn_tools :: "string list"
  bn_resources :: "string list"
  bn_prompts :: "string list"

definition server_names :: "engine \<Rightarrow> catalog_reads \<Rightarrow> builder_server \<Rightarrow> builder_names res" where
  "server_names E reads s =
     (case get_server_catalog E reads s of
        None \<Rightarrow> Inr \<lparr>bn_tools = [], bn_resources = [], bn_prompts = []\<rparr>
      | Some c \<Rightarrow>
          if \<not> py_truthy c then Inr \<lparr>bn_tools = [], bn_resources = [], bn_prompts = []\<rparr>
          else (case c of
                  JObj d \<Rightarrow>
                    bind_res (tool_names E (bs_namespace s) d ''tools'') (\<lambda>ts.
                    bind_res (resource_uris (bs_namespace s) d) (\<lambda>rs.
                    bind_res (tool_names E (bs_namespace s) d ''prompts'') (\<lambda>ps.
                      Inr \<lparr>bn_tools = ts, bn_resources = rs, bn_prompts = ps\<rparr>)))
                | _ \<Rightarrow> Inl AttributeError))"

text \<open>\<open>sorted(set(x for x in xs if x))\<close>.\<close>

definition sorted_names :: "string list \<Rightarrow> string list" where
  "sorted_names xs = sort (remdups (filter (\<lambda>x. x \<noteq> []) xs))"

record server_meta =
  sm_server :: builder_server
  sm_stale :: bool

record builder_metadata =
  bm_servers :: "server_meta list"
  bm_stale_servers :: "server_meta list"
  bm_names :: builder_names
  bm_identities :: "string list"
  bm_teams :: "int list"

definition team_rows :: "int list \<Rightarrow> builder_server list \<Rightarrow> builder_server list" where
  "team_rows teams rows = filter (\<lambda>s. bs_team_id s \<in> set teams \<and> bs_enabled s) rows"

definition describe_server :: "engine \<Rightarrow> catalog_reads \<Rightarrow> builder_server \<Rightarrow> (server_meta \<times> builder_names) res" where
  "describe_server E reads s =
     bind_res (server_is_stale E reads s) (\<lambda>stale.
     bind_res (server_names E reads s) (\<lambda>ns. Inr (\<lparr>sm_server = s, sm_stale = stale\<rparr>, ns)))"

definition build_policy_builder_metadata ::
  "engine \<Rightarrow> catalog_reads \<Rightarrow> builder_server list \<Rightarrow> (int \<times> string) list \<Rightarrow> int list \<Rightarrow> int list \<Rightarrow> builder_metadata res" where
  "build_policy_builder_metadata E reads servers identities teams team_ids =
     bind_res (each_res (describe_server E reads) (team_rows team_ids servers)) (\<lambda>ds.
       Inr \<lparr>bm_servers = map fst ds, bm_stale_servers = filter sm_stale (map fst ds),
            bm_names =
              \<lparr>bn_tools = sorted_names (concat (map (bn_tools \<circ> snd) ds)),
               bn_resources = sorted_names (concat (map (bn_resources \<circ> snd) ds)),
               bn_prompts = sorted_names (concat (map (bn_prompts \<circ> snd) ds))\<rparr>,
            bm_identities = map snd (filter (\<lambda>(t, n). t \<in> set team_ids) identities),
            bm_teams = filter (\<lambda>t. t \<in> set team_ids) teams\<rparr>)"

section \<open>Background refreshes\<close>

definition COOLDOWN_SECONDS :: real where "COOLDOWN_SECONDS = 30"

record refresh_state =
  rf_last :: "(int \<times> real) list"
  rf_running :: "int list"

fun trigger_each :: "real \<Rightarrow> int list \<Rightarrow> refresh_state \<Rightarrow> int list \<times> refresh_state" where
  "trigger_each now [] st = ([], st)"
| "trigger_each now (sid # sids) st =
     (if sid \<in> set (rf_running st) \<or> now - dict_get (rf_last st) sid 0 < COOLDOWN_SECONDS then trigger_each now sids st
      else (case trigger_each now sids
                   (st\<lparr>rf_running := sid # rf_running st, rf_last := AList.update sid now (rf_last st)\<rparr>) of
              (queued, st1) \<Rightarrow> (sid # queued, st1)))"

definition trigger_background_catalog_refresh ::
  "bool \<Rightarrow> real \<Rightarrow> int list \<Rightarrow> refresh_state \<Rightarrow> int list \<times> refresh_state" where
  "trigger_background_catalog_refresh under_test now sids st =
     (if sids = [] \<or> under_test then ([], st) else trigger_each now sids st)"

text \<open>
  The thread's loop for one server: \<open>n\<close> attempts are left.  It stops when the server is gone,
  disabled or no longer stale, and after a success; an exception costs an attempt.  \<open>ro_sleep\<close> is the
  pause together with re-reading the row.
\<close>

record 'w refresh_ops =
  ro_server :: "int \<Rightarrow> 'w \<Rightarrow> builder_server option res \<times> 'w"
  ro_stale :: "builder_server \<Rightarrow> 'w \<Rightarrow> bool res \<times> 'w"
  ro_refresh :: "builder_server \<Rightarrow> 'w \<Rightarrow> json option res \<times> 'w"
  ro_sleep :: "'w \<Rightarrow> 'w"

definition attempt_refresh :: "'w refresh_ops \<Rightarrow> int \<Rightarrow> 'w \<Rightarrow> bool res \<times> 'w" where
  "attempt_refresh ops sid w =
     (case ro_server ops sid w of
        (Inl e, w1) \<Rightarrow> (Inl e, w1)
      | (Inr None, w1) \<Rightarrow> (Inr True, w1)
      | (Inr (Some s), w1) \<Rightarrow>
          (if \<not> bs_enabled s then (Inr True, w1)
           else (case ro_stale ops s w1 of
                   (Inl e, w2) \<Rightarrow> (Inl e, w2)
                 | (Inr False, w2) \<Rightarrow> (Inr True, w2)
                 | (Inr True, w2) \<Rightarrow>
                     (case ro_refresh ops s w2 of
                        (Inl e, w3) \<Rightarrow> (Inl e, w3)
                      | (Inr c, w3) \<Rightarrow> (Inr (case c of None \<Rightarrow> False | Some v \<Rightarrow> py_truthy v), w3)))))"

fun refresh_attempts :: "'w refresh_ops \<Rightarrow> int \<Rightarrow> nat \<Rightarrow> 'w \<Rightarrow> 'w" where
  "refresh_attempts ops sid 0 w = w"
| "refresh_attempts ops sid (Suc n) w =
     (case attempt_refresh ops sid w of
        (Inr True, w1) \<Rightarrow> w1
      | (_, w1) \<Rightarrow> refresh_attempts ops sid n (if 0 < n then ro_sleep ops w1 else w1))"

fun background_refresh_thread ::
  "'w refresh_ops \<Rightarrow> int list \<Rightarrow> nat \<Rightarrow> refresh_state \<times> 'w \<Rightarrow> refresh_state \<times> 'w" where
  "background_refresh_thread ops [] n (st, w) = (st, w)"
| "background_refresh_thread ops (sid # sids) n (st, w) =
     background_refresh_thread ops sids n
       (st\<lparr>rf_running := removeAll sid (rf_running st)\<rparr>, refresh_attempts ops sid n w)"

section \<open>What the builder shows\<close>

lemma sorted_names_facts:
  "set (sorted_names xs) = set xs - {[]}" "sorted (sorted_names xs)" "distinct (sorted_names xs)"
  by (auto simp: sorted_names_def)

definition offered_by :: "engine \<Rightarrow> catalog_reads \<Rightarrow> (builder_names \<Rightarrow> string list) \<Rightarrow> builder_server \<Rightarrow> string \<Rightarrow> bool" where
  "offered_by E reads kind s x \<longleftrightarrow> (\<exists>ns. server_names E reads s = Inr ns \<and> x \<in> set (kind ns) \<and> x \<noteq> [])"

lemma described_names:
  assumes "each_res (describe_server E reads) rows = Inr ds"
  shows "x \<in> set (concat (map (kind \<circ> snd) ds)) \<and> x \<noteq> [] \<longleftrightarrow> (\<exists>s \<in> set rows. offered_by E reads kind s x)"
  using assms
proof (induction rows arbitrary: ds)
  case (Cons s rows)
  then obtain d es where d: "describe_server E reads s = Inr d" "each_res (describe_server E reads) rows = Inr es"
    and ds: "ds = d # es"
    by (auto simp: res_simps)
  have "server_names E reads s = Inr (snd d)" using d(1) by (auto simp: describe_server_def res_simps)
  with Cons.IH [OF d(2)] ds show ?case by (auto simp: offered_by_def)
qed simp

text \<open>The builder offers a user exactly the tools, resources and prompts of the cached catalogs of the enabled
  servers of the user's teams, each once and in order.\<close>

theorem builder_shows_team_names:
  assumes "build_policy_builder_metadata E reads servers identities teams team_ids = Inr m"
  shows "\<forall>kind \<in> {bn_tools, bn_resources, bn_prompts}.
    sorted (kind (bm_names m)) \<and> distinct (kind (bm_names m)) \<and>
    (\<forall>x. x \<in> set (kind (bm_names m)) \<longleftrightarrow>
       (\<exists>s \<in> set servers. bs_team_id s \<in> set team_ids \<and> bs_enabled s \<and> offered_by E reads kind s x))"
proof -
  obtain ds where ds: "each_res (describe_server E reads) (team_rows team_ids servers) = Inr ds"
    and m: "bn_tools (bm_names m) = sorted_names (concat (map (bn_tools \<circ> snd) ds))"
      "bn_resources (bm_names m) = sorted_names (concat (map (bn_resources \<circ> snd) ds))"
      "bn_prompts (bm_names m) = sorted_names (concat (map (bn_prompts \<circ> snd) ds))"
    using assms by (auto simp: build_policy_builder_metadata_def res_simps)
  have names: "x \<in> set (sorted_names (concat (map (kind \<circ> snd) ds))) \<longleftrightarrow>
      (\<exists>s \<in> set servers. bs_team_id s \<in> set team_ids \<and> bs_enabled s \<and> offered_by E reads kind s x)" for kind x
    using described_names [OF ds, of x kind] by (auto simp: sorted_names_facts team_rows_def)
  have "kind (bm_names m) = sorted_names (concat (map (kind \<circ> snd) ds))"
    if "kind \<in> {bn_tools, bn_resources, bn_prompts}" for kind :: "builder_names \<Rightarrow> string list"
    using that m by auto
  then show ?thesis using names sorted_names_facts(2,3) by metis
qed

section \<open>The rate limit of refreshes\<close>

datatype refresh_event = Trigger "int list" real | Finished int

text \<open>A run of the process: the triggers of all requests and the ends of the threads' work, with the
  list of queued refreshes and their times.\<close>

fun refresh_step :: "refresh_event \<Rightarrow> refresh_state \<times> (int \<times> real) list \<Rightarrow> refresh_state \<times> (int \<times> real) list" where
  "refresh_step (Trigger sids now) (st, trace) =
     (case trigger_background_catalog_refresh False now sids st of
        (queued, st1) \<Rightarrow> (st1, trace @ map (\<lambda>s. (s, now)) queued))"
| "refresh_step (Finished sid) (st, trace) = (st\<lparr>rf_running := removeAll sid (rf_running st)\<rparr>, trace)"

definition refresh_run :: "refresh_event list \<Rightarrow> refresh_state \<times> (int \<times> real) list" where
  "refresh_run evs = fold refresh_step evs (\<lparr>rf_last = [], rf_running = []\<rparr>, [])"

definition spaced :: "(int \<times> real) list \<Rightarrow> bool" where
  "spaced trace \<longleftrightarrow> sorted_wrt (\<lambda>(s, t) (s', t'). s = s' \<longrightarrow> COOLDOWN_SECONDS \<le> t' - t) trace"

definition known_last :: "refresh_state \<Rightarrow> (int \<times> real) list \<Rightarrow> bool" where
  "known_last st trace \<longleftrightarrow> (\<forall>(s, t) \<in> set trace. \<exists>l. map_of (rf_last st) s = Some l \<and> t \<le> l)"

lemma trigger_each_spaced:
  assumes "spaced trace" "known_last st trace"
  shows "spaced (trace @ map (\<lambda>s. (s, now)) (fst (trigger_each now sids st))) \<and>
    known_last (snd (trigger_each now sids st)) (trace @ map (\<lambda>s. (s, now)) (fst (trigger_each now sids st)))"
  using assms
proof (induction sids arbitrary: st trace)
  case (Cons sid sids)
  show ?case
  proof (cases "sid \<in> set (rf_running st) \<or> now - dict_get (rf_last st) sid 0 < COOLDOWN_SECONDS")
    case True
    with Cons show ?thesis by simp
  next
    case False
    let ?st = "st\<lparr>rf_running := sid # rf_running st, rf_last := AList.update sid now (rf_last st)\<rparr>"
    have gap: "COOLDOWN_SECONDS \<le> now - t" if "(sid, t) \<in> set trace" for t
      using that Cons.prems(2) False by (fastforce simp: known_last_def dict_get_def)
    then have "spaced (trace @ [(sid, now)])"
      using Cons.prems(1) by (auto simp: spaced_def sorted_wrt_append)
    moreover have "0 < COOLDOWN_SECONDS" by (simp add: COOLDOWN_SECONDS_def)
    with gap Cons.prems(2) have "known_last ?st (trace @ [(sid, now)])"
      by (force simp: known_last_def)
    ultimately show ?thesis
      using Cons.IH [of "trace @ [(sid, now)]" ?st] False by (simp add: case_prod_beta)
  qed
qed simp

lemma refresh_step_spaced:
  "spaced (snd c) \<and> known_last (fst c) (snd c) \<Longrightarrow>
     spaced (snd (refresh_step ev c)) \<and> known_last (fst (refresh_step ev c)) (snd (refresh_step ev c))"
proof -
  assume c: "spaced (snd c) \<and> known_last (fst c) (snd c)"
  obtain st trace where st: "c = (st, trace)" by (cases c)
  show ?thesis
  proof (cases ev)
    case (Trigger sids now)
    with c st trigger_each_spaced [of trace st now sids] show ?thesis
      by (simp add: trigger_background_catalog_refresh_def case_prod_beta)
  next
    case (Finished sid)
    with c st show ?thesis by (simp add: known_last_def)
  qed
qed

text \<open>However often the builder polls, two background refreshes of one server are queued at least thirty
  seconds apart, whatever the clock does and however quickly the refreshes end.\<close>

theorem refreshes_spaced: "spaced (snd (refresh_run evs))"
proof -
  have "spaced (snd c) \<and> known_last (fst c) (snd c) \<Longrightarrow> spaced (snd (fold refresh_step evs c))" for c
    using refresh_step_spaced by (induction evs arbitrary: c) auto
  then show ?thesis by (simp add: refresh_run_def spaced_def known_last_def)
qed

section \<open>A server with a catalog\<close>

definition demo_files :: builder_server where
  "demo_files = \<lparr>bs_id = 1, bs_team_id = 5, bs_name = ''files'', bs_namespace = ''files'', bs_enabled = True,
     bs_last_catalog_at = None\<rparr>"

definition demo_reads :: catalog_reads where
  "demo_reads sid = Some (Inr (Some (json_dumps literal_engine
     (JObj [(''tools'', JList [JObj [(''name'', JStr ''read'')], JObj [(''name'', JStr ''list'')], JStr ''x''])]))))"

theorem builder_shows_team_names_witness:
  "\<exists>m. build_policy_builder_metadata literal_engine demo_reads
       [demo_files, demo_files\<lparr>bs_id := 2, bs_team_id := 6, bs_namespace := ''other''\<rparr>] [] [5, 6] [5] = Inr m \<and>
     bn_tools (bm_names m) = [''files__list'', ''files__read''] \<and> distinct (bn_tools (bm_names m))"
proof -
  let ?m = "build_policy_builder_metadata literal_engine demo_reads
       [demo_files, demo_files\<lparr>bs_id := 2, bs_team_id := 6, bs_namespace := ''other''\<rparr>] [] [5, 6] [5]"
  have "(case ?m of Inr m \<Rightarrow> bn_tools (bm_names m) = [''files__list'', ''files__read''] | Inl _ \<Rightarrow> False)" by code_simp
  then obtain m where "?m = Inr m" "bn_tools (bm_names m) = [''files__list'', ''files__read'']" by (auto split: sum.splits)
  with builder_shows_team_names [of literal_engine demo_reads _ "[]" "[5, 6]" "[5]" m] show ?thesis by blast
qed

end
