(* ===== verification/BackendAuth.thy ===== *)
theory BackendAuth imports Settings JsonText begin

text \<open>
  Users and logins of the backend: \<open>core/security.py\<close>, \<open>api/deps.py\<close>, \<open>services/auth.py\<close>,
  \<open>services/users.py\<close>, \<open>services/password_policy.py\<close>, \<open>core/password_expiry_middleware.py\<close> and the
  endpoints of \<open>api/v1/auth.py\<close> and \<open>api/v1/users.py\<close>, all under \<open>backend/app\<close>.

  bcrypt, PyJWT and pyotp are the operations of \<open>auth_ops\<close>; what the environment supplies to one call
  (the clock, a salt, a new secret, a new row id, the answers of the rate limiter and of the token
  deny-list) is a \<open>call_env\<close>, one reading of the clock standing for those of a call.  An endpoint
  returns \<open>Inl\<close> of a status and a detail, or a reply.  Preferences, e-mail addresses and the QR code are
  left out, as is request validation.
\<close>

section \<open>Data\<close>

record user =
  u_id :: int
  u_username :: string
  u_hashed_password :: string
  u_role :: "string option"
  u_is_admin :: bool
  u_totp_secret :: "string option"
  u_totp_enabled :: bool
  u_last_login_at :: "real option"
  u_password_changed_at :: "real option"
  u_created_at :: "real option"

record backend_db =
  bd_users :: "user list"
  bd_settings :: settings_table
  bd_cache :: "(string \<times> (real \<times> user)) list"

record auth_ops =
  bo_checkpw :: "string \<Rightarrow> string \<Rightarrow> string + bool"
  bo_hashpw :: "string \<Rightarrow> string \<Rightarrow> string + string"
  bo_encode :: "json dict \<Rightarrow> string"
  bo_decode :: "real \<Rightarrow> string \<Rightarrow> json dict option"
  bo_totp :: "string \<Rightarrow> string \<Rightarrow> real \<Rightarrow> bool"

record backend_config =
  bc_attrs :: "string \<Rightarrow> string option"
  bc_session_timeout :: int
  bc_session_warning :: int
  bc_min_length :: int
  bc_require_uppercase :: bool
  bc_require_lowercase :: bool
  bc_require_digit :: bool
  bc_require_symbol :: bool
  bc_rotation_months :: int
  bc_service_token :: string

record call_env =
  ce_now :: real
  ce_salt :: string
  ce_secret :: string
  ce_new_id :: int
  ce_allowed :: bool
  ce_revoked :: bool

type_synonym 'a http = "(int \<times> string) + 'a"

section \<open>Password policy\<close>

definition setting_bool :: "string option \<Rightarrow> bool \<Rightarrow> bool" where
  "setting_bool v dflt =
     (case v of None \<Rightarrow> dflt | Some s \<Rightarrow> py_lower (strip s) \<in> set [''true'', ''1'', ''yes'', ''on''])"

definition setting_int :: "string option \<Rightarrow> int \<Rightarrow> int" where
  "setting_int v dflt =
     (case v of None \<Rightarrow> dflt | Some s \<Rightarrow> (case int_of_text (strip s) of Inl e \<Rightarrow> dflt | Inr i \<Rightarrow> i))"

record password_policy =
  pp_min_length :: int
  pp_require_uppercase :: bool
  pp_require_lowercase :: bool
  pp_require_digit :: bool
  pp_require_symbol :: bool
  pp_rotation_months :: int

definition backend_setting :: "backend_config \<Rightarrow> backend_db \<Rightarrow> string \<Rightarrow> string option" where
  "backend_setting cfg db key = get_setting (bc_attrs cfg) (bd_settings db) key None"

definition get_password_policy :: "backend_config \<Rightarrow> backend_db \<Rightarrow> password_policy" where
  "get_password_policy cfg db =
     (let get = backend_setting cfg db
      in \<lparr>pp_min_length = max 1 (setting_int (get ''password_min_length'') (bc_min_length cfg)),
          pp_require_uppercase = setting_bool (get ''password_require_uppercase'') (bc_require_uppercase cfg),
          pp_require_lowercase = setting_bool (get ''password_require_lowercase'') (bc_require_lowercase cfg),
          pp_require_digit = setting_bool (get ''password_require_digit'') (bc_require_digit cfg),
          pp_require_symbol = setting_bool (get ''password_require_symbol'') (bc_require_symbol cfg),
          pp_rotation_months = max 0 (setting_int (get ''password_rotation_months'') (bc_rotation_months cfg))\<rparr>)"

text \<open>\<open>str.isupper\<close> and \<open>str.islower\<close> of one character.\<close>

definition py_isupper :: "char \<Rightarrow> bool" where
  "py_isupper c \<longleftrightarrow> (let n = ord c in (65 \<le> n \<and> n \<le> 90) \<or> (192 \<le> n \<and> n \<le> 222 \<and> n \<noteq> 215))"

definition py_islower :: "char \<Rightarrow> bool" where
  "py_islower c \<longleftrightarrow> py_isalpha c \<and> \<not> py_isupper c"

definition complexity_errors :: "password_policy \<Rightarrow> string \<Rightarrow> string list" where
  "complexity_errors p password =
     (if int (length password) < pp_min_length p
      then [''at least '' @ int_str (pp_min_length p) @ '' characters''] else []) @
     (if pp_require_uppercase p \<and> \<not> list_ex py_isupper password then [''an uppercase letter''] else []) @
     (if pp_require_lowercase p \<and> \<not> list_ex py_islower password then [''a lowercase letter''] else []) @
     (if pp_require_digit p \<and> \<not> list_ex py_isdigit password then [''a digit''] else []) @
     (if pp_require_symbol p \<and> \<not> list_ex (\<lambda>c. \<not> py_isalnum c) password then [''a symbol''] else [])"

definition validate_password_complexity :: "backend_config \<Rightarrow> backend_db \<Rightarrow> string \<Rightarrow> string + unit" where
  "validate_password_complexity cfg db password =
     (let errors = complexity_errors (get_password_policy cfg db) password
      in if errors \<noteq> [] then Inl (''Password must contain '' @ join '', '' errors) else Inr ())"

definition months_to_timedelta :: "int \<Rightarrow> real" where
  "months_to_timedelta months = 86400 * real_of_int (30 * months)"

definition is_password_expired :: "backend_config \<Rightarrow> real \<Rightarrow> user \<Rightarrow> backend_db \<Rightarrow> bool" where
  "is_password_expired cfg now u db =
     (let months = pp_rotation_months (get_password_policy cfg db)
      in if months \<le> 0 then False
         else (case (case u_password_changed_at u of Some t \<Rightarrow> Some t | None \<Rightarrow> u_created_at u) of
                 None \<Rightarrow> False
               | Some anchor \<Rightarrow> anchor + months_to_timedelta months \<le> now))"

section \<open>Sessions\<close>

definition clamped_setting :: "backend_config \<Rightarrow> backend_db \<Rightarrow> string \<Rightarrow> int \<Rightarrow> int \<Rightarrow> int" where
  "clamped_setting cfg db key dflt hi =
     (case get_setting (bc_attrs cfg) (bd_settings db) key (Some (int_str dflt)) of
        None \<Rightarrow> max 5 (min hi dflt)
      | Some raw \<Rightarrow> (case int_of_text raw of Inl e \<Rightarrow> max 5 (min hi dflt) | Inr i \<Rightarrow> max 5 (min hi i)))"

definition session_timeout_minutes :: "backend_config \<Rightarrow> backend_db \<Rightarrow> int" where
  "session_timeout_minutes cfg db = clamped_setting cfg db ''session_timeout_minutes'' (bc_session_timeout cfg) 1440"

definition session_warning_seconds :: "backend_config \<Rightarrow> backend_db \<Rightarrow> int" where
  "session_warning_seconds cfg db = clamped_setting cfg db ''session_warning_seconds'' (bc_session_warning cfg) 120"

text \<open>\<open>create_access_token\<close>; PyJWT writes the expiry as whole seconds.\<close>

definition access_claims :: "real \<Rightarrow> json dict \<Rightarrow> int \<Rightarrow> json dict" where
  "access_claims now claims minutes = AList.update ''exp'' (JInt \<lfloor>now + 60 * real_of_int minutes\<rfloor>) claims"

definition create_access_token :: "auth_ops \<Rightarrow> real \<Rightarrow> json dict \<Rightarrow> int \<Rightarrow> string" where
  "create_access_token ops now claims minutes = bo_encode ops (access_claims now claims minutes)"

definition token_claims :: "backend_config \<Rightarrow> real \<Rightarrow> user \<Rightarrow> backend_db \<Rightarrow> json dict" where
  "token_claims cfg now u db =
     [(''sub'', JStr (u_username u)), (''role'', case u_role u of None \<Rightarrow> JNull | Some r \<Rightarrow> JStr r),
      (''pwd_exp'', JBool (is_password_expired cfg now u db))]"

definition token_for_user :: "auth_ops \<Rightarrow> backend_config \<Rightarrow> real \<Rightarrow> user \<Rightarrow> backend_db \<Rightarrow> string" where
  "token_for_user ops cfg now u db =
     create_access_token ops now (token_claims cfg now u db) (session_timeout_minutes cfg db)"

text \<open>\<open>if not payload\<close>: an empty payload counts as none.\<close>

definition decoded :: "auth_ops \<Rightarrow> real \<Rightarrow> string \<Rightarrow> json dict option" where
  "decoded ops now token = (case bo_decode ops now token of Some [] \<Rightarrow> None | r \<Rightarrow> r)"

definition user_named :: "backend_db \<Rightarrow> json \<Rightarrow> user option" where
  "user_named db v = (case v of JStr n \<Rightarrow> List.find (\<lambda>u. u_username u = n) (bd_users db) | _ \<Rightarrow> None)"

definition user_of_id :: "backend_db \<Rightarrow> int \<Rightarrow> user option" where
  "user_of_id db i = List.find (\<lambda>u. u_id u = i) (bd_users db)"

text \<open>
  \<open>commit\<close> of a changed object: the columns whose value differs from the loaded one (\<open>snap\<close>) are
  written.  A row that is gone, or a user name that is taken, is a failed commit.
\<close>

definition merged :: "(user \<Rightarrow> 'a) \<Rightarrow> user \<Rightarrow> user \<Rightarrow> user \<Rightarrow> 'a" where
  "merged col snap new row = (if col new = col snap then col row else col new)"

definition flush_user :: "user \<Rightarrow> user \<Rightarrow> user \<Rightarrow> user" where
  "flush_user snap new row =
     row\<lparr>u_username := merged u_username snap new row, u_hashed_password := merged u_hashed_password snap new row,
         u_role := merged u_role snap new row, u_is_admin := merged u_is_admin snap new row,
         u_totp_secret := merged u_totp_secret snap new row, u_totp_enabled := merged u_totp_enabled snap new row,
         u_last_login_at := merged u_last_login_at snap new row,
         u_password_changed_at := merged u_password_changed_at snap new row\<rparr>"

definition server_error :: "int \<times> string" where
  "server_error = (500, ''Internal Server Error'')"

definition commit_user :: "user \<Rightarrow> user \<Rightarrow> backend_db \<Rightarrow> (user \<times> backend_db) http" where
  "commit_user snap new db =
     (case user_of_id db (u_id snap) of
        None \<Rightarrow> Inl server_error
      | Some row \<Rightarrow>
          (let row1 = flush_user snap new row
           in if list_ex (\<lambda>u. u_id u \<noteq> u_id snap \<and> u_username u = u_username row1) (bd_users db) then Inl server_error
              else Inr (row1, db\<lparr>bd_users := map (\<lambda>u. if u_id u = u_id snap then row1 else u) (bd_users db)\<rparr>)))"

section \<open>Logins\<close>

definition authenticate_user ::
  "auth_ops \<Rightarrow> real \<Rightarrow> backend_db \<Rightarrow> string \<Rightarrow> string \<Rightarrow> string option \<Rightarrow> string + (user \<times> user)" where
  "authenticate_user ops now db username password totp_code =
     (case user_named db (JStr username) of
        None \<Rightarrow> Inl ''Invalid credentials''
      | Some u \<Rightarrow>
          (case bo_checkpw ops password (u_hashed_password u) of
             Inl e \<Rightarrow> Inl e
           | Inr False \<Rightarrow> Inl ''Invalid credentials''
           | Inr True \<Rightarrow>
               if u_totp_enabled u \<and> or_default totp_code [] = [] then Inl ''TOTP code required''
               else if u_totp_enabled u \<and> (or_default (u_totp_secret u) [] = [] \<or>
                       \<not> bo_totp ops (or_default (u_totp_secret u) []) (strip (or_default totp_code [])) now)
               then Inl ''Invalid TOTP code''
               else Inr (u, u\<lparr>u_last_login_at := Some now\<rparr>)))"

record login_response =
  lr_access_token :: string
  lr_role :: "string option"
  lr_password_expired :: bool

definition create_token_for_user :: "auth_ops \<Rightarrow> backend_config \<Rightarrow> real \<Rightarrow> user \<Rightarrow> backend_db \<Rightarrow> login_response" where
  "create_token_for_user ops cfg now u db =
     \<lparr>lr_access_token = token_for_user ops cfg now u db, lr_role = u_role u,
      lr_password_expired = is_password_expired cfg now u db\<rparr>"

definition login ::
  "auth_ops \<Rightarrow> backend_config \<Rightarrow> call_env \<Rightarrow> string \<Rightarrow> string \<Rightarrow> string option \<Rightarrow> backend_db \<Rightarrow>
     login_response http \<times> backend_db" where
  "login ops cfg env username password totp_code db =
     (if \<not> ce_allowed env then (Inl (429, ''Rate limit exceeded''), db)
      else (case authenticate_user ops (ce_now env) db username password totp_code of
          Inl e \<Rightarrow> (Inl (401, e), db)
        | Inr (snap, u) \<Rightarrow>
            (case commit_user snap u db of
               Inl e \<Rightarrow> (Inl e, db)
             | Inr (u1, db1) \<Rightarrow> (Inr (create_token_for_user ops cfg (ce_now env) u1 db1), db1))))"

section \<open>The user of a request\<close>

definition ROLE_LEVEL :: "string option \<Rightarrow> nat" where
  "ROLE_LEVEL role =
     (if role = Some ''viewer'' then 1 else if role = Some ''operator'' then 2 else if role = Some ''admin'' then 3 else 0)"

definition USER_CACHE_TTL :: real where "USER_CACHE_TTL = 30"

definition USER_CACHE_MAX :: nat where "USER_CACHE_MAX = 256"

text \<open>A fresh entry answers; otherwise the entry is dropped and the row, if there is one, is cached anew.\<close>

definition get_user_cached :: "real \<Rightarrow> string \<Rightarrow> backend_db \<Rightarrow> user option \<times> backend_db" where
  "get_user_cached now name db =
     (case (case map_of (bd_cache db) name of
              Some (ts, u) \<Rightarrow> if now - ts < USER_CACHE_TTL then Some u else None
            | None \<Rightarrow> None) of
        Some u \<Rightarrow> (Some u, db)
      | None \<Rightarrow>
          (let rest = AList.delete name (bd_cache db)
           in case user_named db (JStr name) of
                None \<Rightarrow> (None, db\<lparr>bd_cache := rest\<rparr>)
              | Some v \<Rightarrow>
                  (let full = rest @ [(name, (now, v))]
                   in (Some v, db\<lparr>bd_cache := if USER_CACHE_MAX < length full then tl full else full\<rparr>))))"

definition is_service_call :: "backend_config \<Rightarrow> string option \<Rightarrow> bool" where
  "is_service_call cfg header \<longleftrightarrow> bc_service_token cfg \<noteq> [] \<and> header = Some (bc_service_token cfg)"

definition get_current_user ::
  "auth_ops \<Rightarrow> backend_config \<Rightarrow> call_env \<Rightarrow> string option \<Rightarrow> string option \<Rightarrow> backend_db \<Rightarrow>
     user http \<times> backend_db" where
  "get_current_user ops cfg env service token db =
     (case token of
        None \<Rightarrow> (Inl (401, ''Not authenticated''), db)
      | Some t \<Rightarrow>
          (case decoded ops (ce_now env) t of
             None \<Rightarrow> (Inl (401, ''Invalid token''), db)
           | Some payload \<Rightarrow>
               (let sub = dict_get payload ''sub'' JNull
                in if \<not> is_service_call cfg service \<and> ce_revoked env then (Inl (401, ''Token has been revoked''), db)
                   else (case (case sub of
                                 JStr n \<Rightarrow>
                                   if is_service_call cfg service then get_user_cached (ce_now env) n db
                                   else (user_named db sub, db)
                               | _ \<Rightarrow> (None, db)) of
                           (None, db1) \<Rightarrow> (Inl (401, ''User not found''), db1)
                         | (Some u, db1) \<Rightarrow> (Inr u, db1)))))"

definition rate_limited :: "backend_config \<Rightarrow> call_env \<Rightarrow> string option \<Rightarrow> string \<Rightarrow> bool" where
  "rate_limited cfg env service meth \<longleftrightarrow> meth \<noteq> ''GET'' \<and> \<not> is_service_call cfg service \<and> \<not> ce_allowed env"

definition require_role :: "string \<Rightarrow> user \<Rightarrow> unit http" where
  "require_role min_role u =
     (if ROLE_LEVEL (u_role u) < ROLE_LEVEL (Some min_role)
      then Inl (403, ''Requires '' @ min_role @ '' role or higher'') else Inr ())"

text \<open>\<open>PasswordExpiryMiddleware\<close>: whether a request is answered with 403.  The patterns that end in a dollar
  sign also match before a final line break.\<close>

definition whitelisted :: "string \<Rightarrow> bool" where
  "whitelisted path =
     (let p = (if starts_with path ''/api/v1'' then drop 7 path else path);
          exact = [''/auth/token'', ''/auth/change-password'', ''/auth/logout'', ''/auth/refresh'', ''/auth/session'',
                   ''/auth/me'', ''/auth/preferences'', ''/health'', ''/system/health'']
      in p \<in> set exact \<or> p \<in> set (map (\<lambda>e. e @ [newline]) exact) \<or> starts_with p ''/auth/totp/'')"

definition password_expiry_blocks :: "auth_ops \<Rightarrow> real \<Rightarrow> string \<Rightarrow> string option \<Rightarrow> bool" where
  "password_expiry_blocks ops now path authorization =
     (if \<not> starts_with path ''/api/v1'' \<or> whitelisted path then False
      else (case authorization of
          None \<Rightarrow> False
        | Some a \<Rightarrow>
            starts_with (py_lower a) ''bearer '' \<and>
            (case decoded ops now (drop 7 a) of
               None \<Rightarrow> False
             | Some payload \<Rightarrow> dict_get payload ''pwd_exp'' JNull = JBool True)))"

section \<open>Account operations\<close>

definition setup_totp :: "string \<Rightarrow> user \<Rightarrow> user" where
  "setup_totp secret u = u\<lparr>u_totp_secret := Some secret, u_totp_enabled := False\<rparr>"

definition verify_totp :: "auth_ops \<Rightarrow> real \<Rightarrow> string \<Rightarrow> user \<Rightarrow> string + user" where
  "verify_totp ops now code u =
     (if or_default (u_totp_secret u) [] = [] then Inl ''TOTP not set up''
      else if bo_totp ops (or_default (u_totp_secret u) []) (strip code) now then Inr (u\<lparr>u_totp_enabled := True\<rparr>)
      else Inl ''Invalid TOTP code'')"

definition disable_totp :: "auth_ops \<Rightarrow> string \<Rightarrow> user \<Rightarrow> string + user" where
  "disable_totp ops password u =
     (case bo_checkpw ops password (u_hashed_password u) of
        Inl e \<Rightarrow> Inl e
      | Inr False \<Rightarrow> Inl ''Invalid password''
      | Inr True \<Rightarrow> Inr (u\<lparr>u_totp_secret := None, u_totp_enabled := False\<rparr>))"

definition new_password ::
  "auth_ops \<Rightarrow> backend_config \<Rightarrow> call_env \<Rightarrow> backend_db \<Rightarrow> string \<Rightarrow> user \<Rightarrow> string + user" where
  "new_password ops cfg env db password u =
     (case validate_password_complexity cfg db password of
        Inl e \<Rightarrow> Inl e
      | Inr _ \<Rightarrow>
          (case bo_hashpw ops (ce_salt env) password of
             Inl e \<Rightarrow> Inl e
           | Inr h \<Rightarrow> Inr (u\<lparr>u_hashed_password := h, u_password_changed_at := Some (ce_now env)\<rparr>)))"

definition change_password ::
  "auth_ops \<Rightarrow> backend_config \<Rightarrow> call_env \<Rightarrow> backend_db \<Rightarrow> string \<Rightarrow> string \<Rightarrow> user \<Rightarrow> string + user" where
  "change_password ops cfg env db current fresh u =
     (case bo_checkpw ops current (u_hashed_password u) of
        Inl e \<Rightarrow> Inl e
      | Inr False \<Rightarrow> Inl ''Current password is incorrect''
      | Inr True \<Rightarrow> new_password ops cfg env db fresh u)"

text \<open>\<open>logout\<close>: the seconds for which the token goes on the deny-list, \<open>None\<close> for an invalid token.\<close>

definition logout_ttl :: "auth_ops \<Rightarrow> real \<Rightarrow> string \<Rightarrow> int option" where
  "logout_ttl ops now token =
     (case decoded ops now token of
        None \<Rightarrow> None
      | Some payload \<Rightarrow>
          (case dict_get payload ''exp'' JNull of
             JInt e \<Rightarrow> if e = 0 then Some 3600 else Some (max 1 \<lfloor>of_int e - now\<rfloor>)
           | _ \<Rightarrow> Some 3600))"

section \<open>User management\<close>

record user_create =
  uc_username :: string
  uc_role :: string
  uc_password :: string

text \<open>A field of an update is \<open>None\<close> when unset, \<open>Some None\<close> when null.\<close>

record user_update =
  uu_username :: "string option option"
  uu_role :: "string option option"
  uu_password :: "string option option"

definition create_user ::
  "auth_ops \<Rightarrow> backend_config \<Rightarrow> call_env \<Rightarrow> user_create \<Rightarrow> backend_db \<Rightarrow> user http \<times> backend_db" where
  "create_user ops cfg env c db =
     (if user_named db (JStr (uc_username c)) \<noteq> None then (Inl (400, ''Username already exists''), db)
      else (let u = \<lparr>u_id = ce_new_id env, u_username = uc_username c, u_hashed_password = [], u_role = Some (uc_role c),
                    u_is_admin = (uc_role c = ''admin''), u_totp_secret = None, u_totp_enabled = False,
                    u_last_login_at = None, u_password_changed_at = None, u_created_at = Some (ce_now env)\<rparr>
            in case new_password ops cfg env db (uc_password c) u of
                 Inl e \<Rightarrow> (Inl server_error, db)
               | Inr u1 \<Rightarrow>
                   if user_of_id db (u_id u1) \<noteq> None then (Inl server_error, db)
                   else (Inr u1, db\<lparr>bd_users := bd_users db @ [u1]\<rparr>)))"

definition role_changed :: "user_update \<Rightarrow> user \<Rightarrow> user" where
  "role_changed upd u =
     (case uu_role upd of None \<Rightarrow> u | Some r \<Rightarrow> u\<lparr>u_is_admin := (r = Some ''admin''), u_role := r\<rparr>)"

definition user_renamed :: "user_update \<Rightarrow> user \<Rightarrow> user" where
  "user_renamed upd u = (case uu_username upd of Some (Some n) \<Rightarrow> u\<lparr>u_username := n\<rparr> | _ \<Rightarrow> u)"

definition update_user ::
  "auth_ops \<Rightarrow> backend_config \<Rightarrow> call_env \<Rightarrow> int \<Rightarrow> user_update \<Rightarrow> user \<Rightarrow> backend_db \<Rightarrow> user http \<times> backend_db" where
  "update_user ops cfg env uid upd current db =
     (case user_of_id db uid of
        None \<Rightarrow> (Inl (404, ''User not found''), db)
      | Some row \<Rightarrow>
          (let snap = (if uid = u_id current then current else row)
           in if u_role current \<noteq> Some ''admin'' \<and> u_id current \<noteq> uid then (Inl (403, ''Cannot edit other users''), db)
              else (case (case uu_password upd of
                            Some (Some plain) \<Rightarrow> if plain = [] then Inr snap else new_password ops cfg env db plain snap
                          | _ \<Rightarrow> Inr snap) of
                      Inl e \<Rightarrow> (Inl server_error, db)
                    | Inr u1 \<Rightarrow>
                        if uu_role upd \<noteq> None \<and> u_role current \<noteq> Some ''admin''
                        then (Inl (403, ''Only admins can change roles''), db)
                        else if uu_username upd = Some None then (Inl server_error, db)
                        else (case commit_user snap (role_changed upd (user_renamed upd u1)) db of
                                Inl e \<Rightarrow> (Inl e, db)
                              | Inr (u2, db2) \<Rightarrow> (Inr u2, db2)))))"

definition delete_user :: "int \<Rightarrow> user \<Rightarrow> backend_db \<Rightarrow> unit http \<times> backend_db" where
  "delete_user uid current db =
     (case user_of_id db uid of
        None \<Rightarrow> (Inl (404, ''User not found''), db)
      | Some row \<Rightarrow>
          if u_id row = u_id current then (Inl (400, ''Cannot delete your own account''), db)
          else (Inr (), db\<lparr>bd_users := filter (\<lambda>u. u_id u \<noteq> uid) (bd_users db)\<rparr>))"

section \<open>Endpoints\<close>

datatype auth_call =
    TotpSetup
  | TotpVerify string
  | TotpDisable string
  | Logout
  | Me
  | Refresh
  | ChangePassword string string
  | SessionSettings
  | ListUsers
  | CreateUser user_create
  | GetUser int
  | UpdateUser int user_update
  | DeleteUser int

datatype auth_reply =
    Status
  | TotpSecret string
  | TotpState bool
  | ThisUser user
  | Users "user list"
  | AccessToken string
  | Denylist string "int option"
  | Session int int bool password_policy

text \<open>The method of the endpoint, and whether it asks for an administrator.\<close>

definition call_method :: "auth_call \<Rightarrow> string" where
  "call_method c =
     (case c of
        Me \<Rightarrow> ''GET'' | SessionSettings \<Rightarrow> ''GET'' | ListUsers \<Rightarrow> ''GET'' | GetUser uid \<Rightarrow> ''GET''
      | UpdateUser uid upd \<Rightarrow> ''PUT'' | DeleteUser uid \<Rightarrow> ''DELETE'' | _ \<Rightarrow> ''POST'')"

definition admin_only :: "auth_call \<Rightarrow> bool" where
  "admin_only c = (case c of ListUsers \<Rightarrow> True | CreateUser x \<Rightarrow> True | DeleteUser uid \<Rightarrow> True | _ \<Rightarrow> False)"

text \<open>The commit of an operation on the current user, or its error.\<close>

definition save_user ::
  "int \<Rightarrow> (user \<Rightarrow> auth_reply) \<Rightarrow> string + user \<Rightarrow> user \<Rightarrow> backend_db \<Rightarrow> auth_reply http \<times> backend_db" where
  "save_user status reply r u db =
     (case r of
        Inl e \<Rightarrow> (Inl (status, e), db)
      | Inr new \<Rightarrow> (case commit_user u new db of Inl e \<Rightarrow> (Inl e, db) | Inr (u1, db1) \<Rightarrow> (Inr (reply u1), db1)))"

definition answered :: "('a \<Rightarrow> auth_reply) \<Rightarrow> 'a http \<times> backend_db \<Rightarrow> auth_reply http \<times> backend_db" where
  "answered reply r = (case r of (Inl e, db) \<Rightarrow> (Inl e, db) | (Inr x, db) \<Rightarrow> (Inr (reply x), db))"

definition run_call ::
  "auth_ops \<Rightarrow> backend_config \<Rightarrow> call_env \<Rightarrow> string \<Rightarrow> user \<Rightarrow> auth_call \<Rightarrow> backend_db \<Rightarrow> auth_reply http \<times> backend_db" where
  "run_call ops cfg env token u c db =
     (case c of
        TotpSetup \<Rightarrow> save_user 400 (\<lambda>_. TotpSecret (ce_secret env)) (Inr (setup_totp (ce_secret env) u)) u db
      | TotpVerify code \<Rightarrow> save_user 400 (\<lambda>_. TotpState True) (verify_totp ops (ce_now env) code u) u db
      | TotpDisable password \<Rightarrow> save_user 401 (\<lambda>_. TotpState False) (disable_totp ops password u) u db
      | Logout \<Rightarrow> (Inr (Denylist token (logout_ttl ops (ce_now env) token)), db)
      | Me \<Rightarrow> (Inr (ThisUser u), db)
      | Refresh \<Rightarrow> (Inr (AccessToken (token_for_user ops cfg (ce_now env) u db)), db)
      | ChangePassword current fresh \<Rightarrow>
          save_user 400 (\<lambda>_. Status) (change_password ops cfg env db current fresh u) u db
      | SessionSettings \<Rightarrow>
          (Inr (Session (session_timeout_minutes cfg db) (session_warning_seconds cfg db)
                 (is_password_expired cfg (ce_now env) u db) (get_password_policy cfg db)), db)
      | ListUsers \<Rightarrow> (Inr (Users (bd_users db)), db)
      | CreateUser x \<Rightarrow> answered ThisUser (create_user ops cfg env x db)
      | GetUser uid \<Rightarrow>
          (case user_of_id db uid of
             None \<Rightarrow> (Inl (404, ''User not found''), db)
           | Some v \<Rightarrow>
               if u_role u \<noteq> Some ''admin'' \<and> u_id u \<noteq> uid then (Inl (403, ''Cannot view other users''), db)
               else (Inr (ThisUser v), db))
      | UpdateUser uid upd \<Rightarrow> answered ThisUser (update_user ops cfg env uid upd u db)
      | DeleteUser uid \<Rightarrow> answered (\<lambda>_. Status) (delete_user uid u db))"

text \<open>A request: the user of the token, the role and the rate limit are the endpoint's dependencies.\<close>

definition handle_call ::
  "auth_ops \<Rightarrow> backend_config \<Rightarrow> call_env \<Rightarrow> string option \<Rightarrow> string option \<Rightarrow> auth_call \<Rightarrow> backend_db \<Rightarrow>
     auth_reply http \<times> backend_db" where
  "handle_call ops cfg env service token c db =
     (case get_current_user ops cfg env service token db of
        (Inl e, db1) \<Rightarrow> (Inl e, db1)
      | (Inr u, db1) \<Rightarrow>
          (case (if admin_only c then require_role ''admin'' u else Inr ()) of
             Inl e \<Rightarrow> (Inl e, db1)
           | Inr _ \<Rightarrow>
               if c \<noteq> Logout \<and> rate_limited cfg env service (call_method c) then (Inl (429, ''Rate limit exceeded''), db1)
               else run_call ops cfg env (or_default token []) u c db1))"

end
