(* ===== verification/AccountSafety.thy ===== *)
theory AccountSafety imports BackendAuth begin

text \<open>
  What the backend guarantees of its accounts: who a login lets in (\<open>login_sound\<close>), that only
  administrators touch roles and other users' rows (\<open>only_admins_change_roles\<close>), the invariant of the
  table (\<open>accounts_stay_ok\<close>), and what an expired password (\<open>expired_user_confined\<close>) and the set-up of a
  second factor (\<open>setup_removes_second_factor\<close>) mean for a session.
\<close>

section \<open>Rows and commits\<close>

definition admin_flag_ok :: "user \<Rightarrow> bool" where
  "admin_flag_ok u \<longleftrightarrow> u_is_admin u = (u_role u = Some ''admin'')"

definition accounts_ok :: "backend_db \<Rightarrow> bool" where
  "accounts_ok db \<longleftrightarrow> distinct (map u_id (bd_users db)) \<and> distinct (map u_username (bd_users db)) \<and>
     list_all admin_flag_ok (bd_users db) \<and> list_all (\<lambda>(n, ts, u). admin_flag_ok u) (bd_cache db)"

lemma user_of_idD: "user_of_id db i = Some u \<Longrightarrow> u \<in> set (bd_users db) \<and> u_id u = i"
  unfolding user_of_id_def by (rule find_SomeD)

lemma user_namedD: "user_named db (JStr n) = Some u \<Longrightarrow> u \<in> set (bd_users db) \<and> u_username u = n"
  by (auto simp: user_named_def dest: find_SomeD)

lemma user_named_any: "user_named db v = Some u \<Longrightarrow> u \<in> set (bd_users db)"
  by (cases v) (auto simp: user_named_def dest: find_SomeD)

lemma flush_id [simp]: "u_id (flush_user snap new row) = u_id row"
  by (simp add: flush_user_def)

lemma commitD:
  assumes "commit_user snap new db = Inr (row1, db1)"
  obtains row where "user_of_id db (u_id snap) = Some row" "row1 = flush_user snap new row"
    "db1 = db\<lparr>bd_users := map (\<lambda>u. if u_id u = u_id snap then row1 else u) (bd_users db)\<rparr>"
    "\<And>u. u \<in> set (bd_users db) \<Longrightarrow> u_id u \<noteq> u_id snap \<Longrightarrow> u_username u \<noteq> u_username row1"
  using assms by (auto simp: commit_user_def Let_def list_ex_iff split: option.splits if_splits)

text \<open>Replacing the row of an id.\<close>

lemma unique_row:
  "accounts_ok db \<Longrightarrow> user_of_id db i = Some row \<Longrightarrow> u \<in> set (bd_users db) \<Longrightarrow> u_id u = i \<Longrightarrow> u = row"
  by (metis accounts_ok_def distinct_map inj_on_def user_of_idD)

lemma map_replaced:
  assumes "accounts_ok db" "user_of_id db i = Some row" "f row1 = f row"
  shows "map f (map (\<lambda>u. if u_id u = i then row1 else u) (bd_users db)) = map f (bd_users db)"
  using assms unique_row [OF assms(1,2)] by (auto intro!: map_cong)

lemma distinct_replaced:
  assumes "distinct (map f us)" "distinct (map u_id us)" "u_id row1 = i"
    and "\<And>u. u \<in> set us \<Longrightarrow> u_id u \<noteq> i \<Longrightarrow> f u \<noteq> f row1"
  shows "distinct (map f (map (\<lambda>u. if u_id u = i then row1 else u) us))"
  using assms
proof (induction us)
  case (Cons u us)
  have "f row1 \<notin> set (map f (map (\<lambda>u. if u_id u = i then row1 else u) us))" if "u_id u = i"
  proof -
    have "\<forall>v \<in> set us. u_id v \<noteq> i" using that Cons.prems(2) by (metis distinct.simps(2) imageI list.set_map list.simps(9))
    then show ?thesis using Cons.prems(4) by (auto simp: image_iff) metis
  qed
  moreover have "f u \<notin> set (map f (map (\<lambda>u. if u_id u = i then row1 else u) us))" if "u_id u \<noteq> i"
    using that Cons.prems(1,4) by (auto simp: image_iff)
  ultimately show ?case using Cons by simp
qed simp

lemma commit_ok:
  assumes "commit_user snap new db = Inr (row1, db1)" "accounts_ok db"
    and "\<And>row. user_of_id db (u_id snap) = Some row \<Longrightarrow> admin_flag_ok row \<Longrightarrow> admin_flag_ok (flush_user snap new row)"
  shows "accounts_ok db1" "admin_flag_ok row1"
proof -
  from assms(1) obtain row where row: "user_of_id db (u_id snap) = Some row" and row1: "row1 = flush_user snap new row"
    and db1: "db1 = db\<lparr>bd_users := map (\<lambda>u. if u_id u = u_id snap then row1 else u) (bd_users db)\<rparr>"
    and names: "\<And>u. u \<in> set (bd_users db) \<Longrightarrow> u_id u \<noteq> u_id snap \<Longrightarrow> u_username u \<noteq> u_username row1"
    by (rule commitD) blast
  note r = user_of_idD [OF row]
  have id: "u_id row1 = u_id snap" using r row1 by simp
  show flag: "admin_flag_ok row1"
    using r assms(2) assms(3) [OF row] row1 by (auto simp: accounts_ok_def list_all_iff)
  have ids: "distinct (map u_id (bd_users db1))"
    unfolding db1 using map_replaced [OF assms(2) row, of u_id row1] r row1 assms(2)
    by (simp add: accounts_ok_def del: map_map map_eq_conv)
  have "distinct (map u_username (bd_users db1))"
    unfolding db1 using distinct_replaced [of u_username "bd_users db" row1 "u_id snap"] assms(2) id names
    by (simp add: accounts_ok_def)
  with ids flag assms(2) show "accounts_ok db1" by (auto simp: accounts_ok_def db1 list_all_iff)
qed

section \<open>The invariant\<close>

definition same_flags :: "user \<Rightarrow> user \<Rightarrow> bool" where
  "same_flags u v \<longleftrightarrow> u_role v = u_role u \<and> u_is_admin v = u_is_admin u"

lemma flush_same_flags:
  "same_flags snap new \<Longrightarrow> u_role (flush_user snap new row) = u_role row \<and>
     u_is_admin (flush_user snap new row) = u_is_admin row"
  by (simp add: same_flags_def flush_user_def merged_def)

lemma flush_flag:
  "same_flags snap new \<Longrightarrow> admin_flag_ok row \<Longrightarrow> admin_flag_ok (flush_user snap new row)"
  using flush_same_flags [of snap new row] by (simp add: admin_flag_ok_def)

lemma operations_same_flags:
  "same_flags u (setup_totp secret u)" "same_flags u (u\<lparr>u_last_login_at := t\<rparr>)"
  "verify_totp ops now code u = Inr v \<Longrightarrow> same_flags u v"
  "disable_totp ops password u = Inr v \<Longrightarrow> same_flags u v"
  "new_password ops cfg env db password u = Inr v \<Longrightarrow> same_flags u v"
  "change_password ops cfg env db current fresh u = Inr v \<Longrightarrow> same_flags u v"
  by (auto simp: same_flags_def setup_totp_def verify_totp_def disable_totp_def new_password_def change_password_def
      split: if_splits sum.splits bool.splits)

lemma same_flags_user_renamed: "same_flags u v \<Longrightarrow> same_flags u (user_renamed upd v)"
  by (auto simp: same_flags_def user_renamed_def split: option.split)

lemma save_user_ok:
  assumes "accounts_ok db" "\<And>v. r = Inr v \<Longrightarrow> same_flags u v"
  shows "accounts_ok (snd (save_user status reply r u db))"
  using assms commit_ok [OF _ assms(1) flush_flag]
  by (auto simp: save_user_def split: sum.split)

lemma admin_update_flag:
  assumes "same_flags snap u1" "admin_flag_ok snap" "uu_role upd = None \<or> u_role snap = Some ''admin'' \<or> snap = row"
    and "admin_flag_ok row"
  shows "admin_flag_ok (flush_user snap (role_changed upd u1) row)"
  using assms
  by (auto simp: admin_flag_ok_def flush_user_def merged_def role_changed_def same_flags_def split: option.split if_splits)

lemma update_user_ok:
  assumes "accounts_ok db" "admin_flag_ok current"
  shows "accounts_ok (snd (update_user ops cfg env uid upd current db))"
proof (cases "user_of_id db uid")
  case (Some row)
  let ?snap = "if uid = u_id current then current else row"
  let ?pw = "case uu_password upd of Some (Some plain) \<Rightarrow> if plain = [] then Inr ?snap else new_password ops cfg env db plain ?snap
    | _ \<Rightarrow> Inr ?snap"
  have row_ok: "admin_flag_ok row" using user_of_idD [OF Some] assms(1) by (auto simp: accounts_ok_def list_all_iff)
  have snap_id: "u_id ?snap = uid" using user_of_idD [OF Some] by simp
  have snap_ok: "admin_flag_ok ?snap" using row_ok assms(2) by simp
  have committed: "accounts_ok db2"
    if pw: "?pw = Inr u1" and com: "commit_user ?snap (role_changed upd (user_renamed upd u1)) db = Inr (u2, db2)"
      and role: "uu_role upd = None \<or> u_role current = Some ''admin''" for u1 u2 db2
  proof (rule commit_ok(1) [OF com assms(1)])
    fix r assume r: "user_of_id db (u_id ?snap) = Some r" "admin_flag_ok r"
    have "same_flags ?snap u1"
      using pw operations_same_flags(5) by (auto simp: same_flags_def split: option.splits if_splits)
    then have "same_flags ?snap (user_renamed upd u1)" by (rule same_flags_user_renamed)
    moreover have "r = row" using r snap_id Some by simp
    ultimately show "admin_flag_ok (flush_user ?snap (role_changed upd (user_renamed upd u1)) r)"
      using admin_update_flag [of ?snap "user_renamed upd u1" upd r] snap_ok r role by (auto split: if_splits)
  qed
  show ?thesis
    using Some committed assms(1) by (auto simp: update_user_def Let_def split: sum.split)
qed (simp add: update_user_def assms)

lemma user_flag: "accounts_ok db \<Longrightarrow> u \<in> set (bd_users db) \<Longrightarrow> admin_flag_ok u"
  by (auto simp: accounts_ok_def list_all_iff)

lemma set_delete_subset: "set (AList.delete k xs) \<subseteq> set xs"
  by (auto simp: AList.delete_eq)

lemma list_all_tl: "list_all P xs \<Longrightarrow> list_all P (tl xs)"
  by (cases xs) auto

lemma cached_user_facts:
  assumes "get_user_cached now n db = (r, db1)" "accounts_ok db"
  shows "accounts_ok db1" "bd_users db1 = bd_users db" "r = Some u \<Longrightarrow> admin_flag_ok u"
proof -
  let ?entry = "case map_of (bd_cache db) n of Some (ts, u) \<Rightarrow> if now - ts < USER_CACHE_TTL then Some u else None | None \<Rightarrow> None"
  have cache: "admin_flag_ok u" if "(k, ts, u) \<in> set (bd_cache db)" for k ts u
    using that assms(2) by (auto simp: accounts_ok_def list_all_iff)
  have entry: "admin_flag_ok u" if "?entry = Some u" for u
    using that cache by (auto split: option.splits if_splits dest: map_of_SomeD)
  have named: "admin_flag_ok v" if "user_named db (JStr n) = Some v" for v
    using that user_namedD user_flag [OF assms(2)] by blast
  have kept: "accounts_ok (db\<lparr>bd_cache := c\<rparr>)" if "list_all (\<lambda>(n, ts, u). admin_flag_ok u) c" for c
    using that assms(2) by (simp add: accounts_ok_def)
  have rest: "list_all (\<lambda>(n, ts, u). admin_flag_ok u) (AList.delete n (bd_cache db))"
    using set_delete_subset [of n "bd_cache db"] cache by (fastforce simp: list_all_iff)
  have full: "list_all (\<lambda>(n, ts, u). admin_flag_ok u) (AList.delete n (bd_cache db) @ [(n, now, v)])"
    if "user_named db (JStr n) = Some v" for v
    using rest named [OF that] by simp
  have tl_full: "list_all (\<lambda>(n, ts, u). admin_flag_ok u) (tl (AList.delete n (bd_cache db) @ [(n, now, v)]))"
    if "user_named db (JStr n) = Some v" for v
    by (rule list_all_tl [OF full [OF that]])
  show "accounts_ok db1" "bd_users db1 = bd_users db" "r = Some u \<Longrightarrow> admin_flag_ok u"
    using assms entry named kept [OF rest] kept [OF full] kept [OF tl_full]
    by (auto simp: get_user_cached_def Let_def split: option.splits if_splits)
qed

lemma current_user_facts:
  assumes "get_current_user ops cfg env service token db = (r, db1)" "accounts_ok db"
  shows "accounts_ok db1" "bd_users db1 = bd_users db" "r = Inr u \<Longrightarrow> admin_flag_ok u"
proof -
  have cached: "accounts_ok d \<and> bd_users d = bd_users db \<and> (q = Some v \<longrightarrow> admin_flag_ok v)"
    if "get_user_cached now n db = (q, d)" for now n q v d
    using cached_user_facts [OF that assms(2)] by blast
  have named: "admin_flag_ok v" if "user_named db x = Some v" for x v
    using that user_named_any user_flag [OF assms(2)] by blast
  show "accounts_ok db1" "bd_users db1 = bd_users db" "r = Inr u \<Longrightarrow> admin_flag_ok u"
    using assms cached named
    by (auto simp: get_current_user_def Let_def split: option.splits if_splits prod.splits json.splits)
qed

lemma create_user_ok:
  assumes "accounts_ok db"
  shows "accounts_ok (snd (create_user ops cfg env c db))"
proof -
  have names: "u_username v \<noteq> n" if "user_named db (JStr n) = None" "v \<in> set (bd_users db)" for n v
    using that by (auto simp: user_named_def find_None_iff)
  have ids: "u_id v \<noteq> i" if "user_of_id db i = None" "v \<in> set (bd_users db)" for i v
    using that by (auto simp: user_of_id_def find_None_iff)
  have new: "u_id v = u_id u \<and> u_username v = u_username u \<and> same_flags u v" if "new_password ops cfg env db p u = Inr v" for p u v
    using that by (auto simp: new_password_def same_flags_def split: sum.splits)
  show ?thesis
    using assms
    by (auto simp: create_user_def Let_def accounts_ok_def admin_flag_ok_def same_flags_def split: sum.split
        dest!: new dest: names ids)
qed

lemma delete_user_ok: "accounts_ok db \<Longrightarrow> accounts_ok (snd (delete_user uid current db))"
  by (auto simp: delete_user_def accounts_ok_def list_all_iff distinct_map_filter split: option.split)

lemma answered_snd [simp]: "snd (answered f r) = snd r"
  by (simp add: answered_def split: prod.split sum.split)

lemma run_call_ok:
  assumes "accounts_ok db" "admin_flag_ok u"
  shows "accounts_ok (snd (run_call ops cfg env token u c db))"
  using assms
  by (cases c)
    (auto simp: run_call_def create_user_ok update_user_ok delete_user_ok operations_same_flags split: option.split
      intro!: save_user_ok)

lemma handle_call_ok:
  assumes "accounts_ok db"
  shows "accounts_ok (snd (handle_call ops cfg env service token c db))"
proof (cases "get_current_user ops cfg env service token db")
  case (Pair r db1)
  note facts = current_user_facts [OF Pair assms]
  have "r = Inr u \<Longrightarrow> accounts_ok (snd (run_call ops cfg env (or_default token []) u c db1))" for u
    using run_call_ok facts by blast
  with Pair facts(1) show ?thesis
    by (auto simp: handle_call_def split: sum.split)
qed

lemma login_ok:
  assumes "accounts_ok db"
  shows "accounts_ok (snd (login ops cfg env username password code db))"
proof -
  have "same_flags snap u" if "authenticate_user ops now db username password code = Inr (snap, u)" for now snap u
    using that operations_same_flags(2) by (auto simp: authenticate_user_def split: option.splits sum.splits bool.splits if_splits)
  with assms show ?thesis
    using commit_ok(1) [OF _ assms flush_flag] by (auto simp: login_def split: sum.split)
qed

datatype account_request =
    LoginRequest call_env string string "string option"
  | CallRequest call_env "string option" "string option" auth_call

fun account_step :: "auth_ops \<Rightarrow> backend_config \<Rightarrow> account_request \<Rightarrow> backend_db \<Rightarrow> backend_db" where
  "account_step ops cfg (LoginRequest env n p code) db = snd (login ops cfg env n p code db)"
| "account_step ops cfg (CallRequest env service token c) db = snd (handle_call ops cfg env service token c db)"

text \<open>C18: Whatever requests come in, user ids and user names stay unique and \<open>is_admin\<close> agrees with the role, also
  when changes are made on a cached and outdated copy of a user.\<close>

theorem accounts_stay_ok:
  assumes "accounts_ok db"
  shows "accounts_ok (fold (account_step ops cfg) rs db)"
  using assms
proof (induction rs arbitrary: db)
  case (Cons r rs)
  have "accounts_ok (account_step ops cfg r db)"
    using Cons.prems login_ok handle_call_ok by (cases r) auto
  with Cons.IH show ?case by simp
qed simp

section \<open>Logins\<close>

text \<open>C17: A login succeeds only within the rate limit, for a user of that name whose stored hash the password
  matches, and with a second factor switched on only with a code that the stored secret verifies; the token is
  that user's.\<close>

theorem login_sound:
  assumes "accounts_ok db" "login ops cfg env username password code db = (Inr resp, db1)"
  shows "ce_allowed env \<and>
    (\<exists>u. u \<in> set (bd_users db) \<and> u_username u = username \<and> bo_checkpw ops password (u_hashed_password u) = Inr True \<and>
       (u_totp_enabled u \<longrightarrow> (\<exists>secret c. u_totp_secret u = Some secret \<and> secret \<noteq> [] \<and> code = Some c \<and> c \<noteq> [] \<and>
          bo_totp ops secret (strip c) (ce_now env)))) \<and>
    (\<exists>u1. u1 \<in> set (bd_users db1) \<and> u_username u1 = username \<and>
       lr_access_token resp = token_for_user ops cfg (ce_now env) u1 db1)"
proof -
  obtain snap u row1 where allowed: "ce_allowed env"
    and auth: "authenticate_user ops (ce_now env) db username password code = Inr (snap, u)"
    and com: "commit_user snap u db = Inr (row1, db1)"
    and resp: "resp = create_token_for_user ops cfg (ce_now env) row1 db1"
    using assms(2) by (auto simp: login_def split: if_splits sum.splits)
  have named: "user_named db (JStr username) = Some snap"
    and pw: "bo_checkpw ops password (u_hashed_password snap) = Inr True"
    and u: "u = snap\<lparr>u_last_login_at := Some (ce_now env)\<rparr>"
    using auth by (auto simp: authenticate_user_def split: option.splits sum.splits bool.splits if_splits)
  have totp: "u_totp_enabled snap \<Longrightarrow> (\<exists>secret c. u_totp_secret snap = Some secret \<and> secret \<noteq> [] \<and> code = Some c \<and> c \<noteq> [] \<and>
      bo_totp ops secret (strip c) (ce_now env))"
    using auth named pw
    by (auto simp: authenticate_user_def or_default_def split: option.splits if_splits)
  from com obtain row where row: "user_of_id db (u_id snap) = Some row" and row1: "row1 = flush_user snap u row"
    and db1: "db1 = db\<lparr>bd_users := map (\<lambda>u. if u_id u = u_id snap then row1 else u) (bd_users db)\<rparr>"
    and names: "\<And>v. v \<in> set (bd_users db) \<Longrightarrow> u_id v \<noteq> u_id snap \<Longrightarrow> u_username v \<noteq> u_username row1"
    by (rule commitD) blast
  note snap = user_namedD [OF named] and r = user_of_idD [OF row]
  have "snap = row" using unique_row [OF assms(1) row] snap by blast
  then have "u_username row1 = username" using snap by (simp add: row1 flush_user_def merged_def u)
  moreover have "row1 \<in> set (bd_users db1)" using r by (force simp: db1)
  ultimately show ?thesis
    using allowed snap pw totp resp by (auto simp: create_token_for_user_def)
qed

section \<open>Roles\<close>

definition others_kept :: "user \<Rightarrow> backend_db \<Rightarrow> backend_db \<Rightarrow> bool" where
  "others_kept u db db' \<longleftrightarrow>
     map (\<lambda>v. (u_id v, u_role v, u_is_admin v)) (bd_users db') = map (\<lambda>v. (u_id v, u_role v, u_is_admin v)) (bd_users db) \<and>
     filter (\<lambda>v. u_id v \<noteq> u_id u) (bd_users db') = filter (\<lambda>v. u_id v \<noteq> u_id u) (bd_users db)"

lemma others_kept_same: "bd_users db' = bd_users db \<Longrightarrow> others_kept u db db'"
  by (simp add: others_kept_def)

lemma filter_replaced:
  "u_id row1 = i \<Longrightarrow> filter (\<lambda>v. u_id v \<noteq> i) (map (\<lambda>u. if u_id u = i then row1 else u) us) = filter (\<lambda>v. u_id v \<noteq> i) us"
  by (induction us) auto

lemma commit_others_kept:
  assumes "commit_user u new db = Inr (row1, db1)" "accounts_ok db" "same_flags u new"
  shows "others_kept u db db1"
proof -
  from assms(1) obtain row where row: "user_of_id db (u_id u) = Some row" and row1: "row1 = flush_user u new row"
    and db1: "db1 = db\<lparr>bd_users := map (\<lambda>v. if u_id v = u_id u then row1 else v) (bd_users db)\<rparr>"
    by (rule commitD) blast
  note r = user_of_idD [OF row]
  have "(u_id row1, u_role row1, u_is_admin row1) = (u_id row, u_role row, u_is_admin row)"
    by (simp add: row1 flush_same_flags [OF assms(3)])
  from map_replaced [OF assms(2) row this]
  have "map (\<lambda>v. (u_id v, u_role v, u_is_admin v)) (bd_users db1) = map (\<lambda>v. (u_id v, u_role v, u_is_admin v)) (bd_users db)"
    by (simp add: db1 del: map_map map_eq_conv)
  moreover have "u_id row1 = u_id u" using r row1 by simp
  ultimately show ?thesis by (simp add: others_kept_def db1 filter_replaced del: map_map)
qed

lemma save_others_kept:
  assumes "accounts_ok db" "\<And>v. r = Inr v \<Longrightarrow> same_flags u v"
  shows "others_kept u db (snd (save_user status reply r u db))"
  using assms commit_others_kept [OF _ assms(1)]
  by (auto simp: save_user_def others_kept_same split: sum.split)

lemma update_others_kept:
  assumes "accounts_ok db" "u_role u \<noteq> Some ''admin''"
  shows "others_kept u db (snd (update_user ops cfg env uid upd u db))"
proof (cases "user_of_id db uid")
  case (Some row)
  have "others_kept u db db2"
    if "(case uu_password upd of Some (Some plain) \<Rightarrow> if plain = [] then Inr u else new_password ops cfg env db plain u
          | _ \<Rightarrow> Inr u) = Inr u1" "uu_role upd = None"
      and com: "commit_user u (role_changed upd (user_renamed upd u1)) db = Inr (u2, db2)" for u1 u2 db2
  proof (rule commit_others_kept [OF com assms(1)])
    have "same_flags u u1"
      using that(1) operations_same_flags(5) by (auto simp: same_flags_def split: option.splits if_splits)
    with that(2) show "same_flags u (role_changed upd (user_renamed upd u1))"
      using same_flags_user_renamed by (simp add: role_changed_def)
  qed
  with Some assms(2) show ?thesis
    by (auto simp: update_user_def Let_def others_kept_same split: sum.split)
qed (simp add: update_user_def others_kept_same)

lemma not_admin_level: "role \<noteq> Some ''admin'' \<Longrightarrow> ROLE_LEVEL role < ROLE_LEVEL (Some ''admin'')"
  by (simp add: ROLE_LEVEL_def)

text \<open>C16: Only administrators create or delete users, change roles or touch another user's row: a request that is
  not authenticated leaves the users as they are, and one by a user without the role admin keeps all ids, roles and
  admin flags, and every row but the user's own.\<close>

theorem only_admins_change_roles:
  assumes "accounts_ok db" "handle_call ops cfg env service token c db = (r, db')"
  shows "case fst (get_current_user ops cfg env service token db) of
      Inl e \<Rightarrow> bd_users db' = bd_users db
    | Inr u \<Rightarrow> u_role u = Some ''admin'' \<or> others_kept u db db'"
proof -
  obtain q db1 where got: "get_current_user ops cfg env service token db = (q, db1)" by (cases "get_current_user ops cfg env service token db")
  note facts = current_user_facts [OF got assms(1)]
  show ?thesis
  proof (cases q)
    case (Inl e)
    with got assms(2) facts(2) show ?thesis by (auto simp: handle_call_def)
  next
    case (Inr u)
    have "others_kept u db db'" if role: "u_role u \<noteq> Some ''admin''"
    proof -
      have "others_kept u db1 (snd (run_call ops cfg env (or_default token []) u c db1))" if "\<not> admin_only c"
        using that facts(1) role
        by (cases c)
          (auto simp: run_call_def admin_only_def others_kept_same update_others_kept operations_same_flags split: option.split
            intro!: save_others_kept)
      then have "others_kept u db1 db'"
        using assms(2) got Inr not_admin_level [OF role]
        by (auto simp: handle_call_def require_role_def others_kept_same split: if_splits)
      then show ?thesis by (simp add: others_kept_def facts(2))
    qed
    with got Inr show ?thesis by auto
  qed
qed

section \<open>Sessions\<close>

lemma find_replaced:
  assumes "u \<in> set us" "\<And>x. x \<in> set us \<Longrightarrow> u_id x \<noteq> u_id u \<Longrightarrow> u_username x \<noteq> u_username u"
    and "u_username v = u_username u"
  shows "List.find (\<lambda>x. u_username x = u_username u) (map (\<lambda>x. if u_id x = u_id u then v else x) us) = Some v"
  using assms by (induction us) auto

text \<open>C19: Whoever holds a session can switch the second factor off without the password, although disabling it asks for
  one: after the set-up endpoint, the password alone is enough to log in.\<close>

theorem setup_removes_second_factor:
  assumes "accounts_ok db" "get_current_user ops cfg env None token db = (Inr u, db)" "ce_allowed env"
    and "bo_checkpw ops password (u_hashed_password u) = Inr True"
  shows "is_ok (authenticate_user ops now (snd (handle_call ops cfg env None token TotpSetup db)) (u_username u) password None)"
proof -
  have u: "u \<in> set (bd_users db)"
    using assms(2) user_named_any
    by (auto simp: get_current_user_def is_service_call_def Let_def split: option.splits json.splits if_splits)
  let ?v = "setup_totp (ce_secret env) u"
  obtain row where row: "user_of_id db (u_id u) = Some row"
    using u by (cases "user_of_id db (u_id u)") (auto simp: user_of_id_def find_None_iff)
  have "row = u" using unique_row [OF assms(1) row] u by blast
  then have flush: "flush_user u ?v row = ?v" by (simp add: flush_user_def merged_def setup_totp_def)
  have others: "u_username x \<noteq> u_username u" if "x \<in> set (bd_users db)" "u_id x \<noteq> u_id u" for x
    using that u assms(1) by (metis accounts_ok_def distinct_map inj_on_def)
  let ?us = "map (\<lambda>x. if u_id x = u_id u then ?v else x) (bd_users db)"
  have com: "commit_user u ?v db = Inr (?v, db\<lparr>bd_users := ?us\<rparr>)"
    using others row flush by (auto simp: commit_user_def Let_def list_ex_iff setup_totp_def)
  have names: "u_username ?v = u_username u" "u_hashed_password ?v = u_hashed_password u" "\<not> u_totp_enabled ?v"
    by (simp_all add: setup_totp_def)
  have "List.find (\<lambda>x. u_username x = u_username u) ?us = Some ?v"
    by (rule find_replaced [OF u others names(1)])
  then have "user_named (db\<lparr>bd_users := ?us\<rparr>) (JStr (u_username u)) = Some ?v" by (simp add: user_named_def)
  moreover have "snd (handle_call ops cfg env None token TotpSetup db) = db\<lparr>bd_users := ?us\<rparr>"
    using assms(2,3) com by (simp add: handle_call_def admin_only_def rate_limited_def run_call_def save_user_def)
  ultimately show ?thesis
    using assms(4) names by (simp add: authenticate_user_def)
qed

text \<open>C20: A token confines its session exactly when the password was expired as the token was made: until the token
  expires, every API request outside the whitelist is refused.\<close>

theorem expired_user_confined:
  assumes "bo_decode ops later (token_for_user ops cfg now u db) =
      Some (access_claims now (token_claims cfg now u db) (session_timeout_minutes cfg db))"
    and "starts_with path ''/api/v1''" "\<not> whitelisted path"
  shows "password_expiry_blocks ops later path (Some (''Bearer '' @ token_for_user ops cfg now u db)) =
    is_password_expired cfg now u db"
proof -
  have low: "py_lower (''Bearer '' @ t) = ''bearer '' @ py_lower t" for t
    unfolding py_lower_def map_append by (rule arg_cong [where f = "\<lambda>x. x @ map py_lower_char t"]) code_simp
  have bearer: "starts_with (py_lower (''Bearer '' @ t)) ''bearer ''" for t
    unfolding low starts_with_iff by blast
  have "decoded ops later (token_for_user ops cfg now u db) =
      Some (access_claims now (token_claims cfg now u db) (session_timeout_minutes cfg db))"
    by (simp add: decoded_def assms(1) access_claims_def token_claims_def split: list.split)
  then show ?thesis
    using assms(2,3) bearer [of "token_for_user ops cfg now u db"]
    by (simp add: password_expiry_blocks_def access_claims_def token_claims_def dict_get_def)
qed

section \<open>Two accounts\<close>

definition demo_ops :: auth_ops where
  "demo_ops = \<lparr>bo_checkpw = (\<lambda>p h. Inr (p = h)), bo_hashpw = (\<lambda>s p. Inr p), bo_encode = (\<lambda>c. ''session''),
     bo_decode = (\<lambda>now t. if t = ''bobs'' then Some [(''sub'', JStr ''bob'')] else None), bo_totp = (\<lambda>s c now. s = c)\<rparr>"

definition demo_backend :: backend_config where
  "demo_backend = \<lparr>bc_attrs = (\<lambda>k. None), bc_session_timeout = 30, bc_session_warning = 60, bc_min_length = 8,
     bc_require_uppercase = False, bc_require_lowercase = False, bc_require_digit = False, bc_require_symbol = False,
     bc_rotation_months = 1, bc_service_token = []\<rparr>"

definition demo_call :: call_env where
  "demo_call = \<lparr>ce_now = 9000000, ce_salt = [], ce_secret = ''otp2'', ce_new_id = 3, ce_allowed = True, ce_revoked = False\<rparr>"

definition demo_admin :: user where
  "demo_admin = \<lparr>u_id = 1, u_username = ''admin'', u_hashed_password = ''root1234'', u_role = Some ''admin'',
     u_is_admin = True, u_totp_secret = None, u_totp_enabled = False, u_last_login_at = None,
     u_password_changed_at = Some 0, u_created_at = Some 0\<rparr>"

definition demo_bob :: user where
  "demo_bob = \<lparr>u_id = 2, u_username = ''bob'', u_hashed_password = ''secret12'', u_role = Some ''viewer'',
     u_is_admin = False, u_totp_secret = Some ''otp1'', u_totp_enabled = True, u_last_login_at = None,
     u_password_changed_at = Some 0, u_created_at = Some 0\<rparr>"

definition demo_accounts :: backend_db where
  "demo_accounts = \<lparr>bd_users = [demo_admin, demo_bob], bd_settings = Map.empty, bd_cache = []\<rparr>"

lemma demo_accounts_ok: "accounts_ok demo_accounts"
  by (simp add: accounts_ok_def demo_accounts_def demo_admin_def demo_bob_def admin_flag_ok_def)

lemma demo_bob_current: "get_current_user demo_ops demo_backend demo_call None (Some ''bobs'') demo_accounts = (Inr demo_bob, demo_accounts)"
  by (simp add: get_current_user_def demo_ops_def demo_call_def decoded_def is_service_call_def user_named_def
      demo_accounts_def demo_admin_def demo_bob_def dict_get_def Let_def)

theorem accounts_stay_ok_witness:
  "accounts_ok (fold (account_step demo_ops demo_backend)
     [LoginRequest demo_call ''bob'' ''secret12'' (Some ''otp1''),
      CallRequest demo_call None (Some ''bobs'') (UpdateUser 2 \<lparr>uu_username = Some (Some ''admin''), uu_role = None, uu_password = None\<rparr>)]
     demo_accounts)"
  by (rule accounts_stay_ok [OF demo_accounts_ok])

theorem only_admins_change_roles_witness:
  "others_kept demo_bob demo_accounts (snd (handle_call demo_ops demo_backend demo_call None (Some ''bobs'')
     (UpdateUser 2 \<lparr>uu_username = None, uu_role = Some (Some ''admin''), uu_password = None\<rparr>) demo_accounts))"
proof -
  let ?c = "UpdateUser 2 \<lparr>uu_username = None, uu_role = Some (Some ''admin''), uu_password = None\<rparr>"
  obtain r db' where h: "handle_call demo_ops demo_backend demo_call None (Some ''bobs'') ?c demo_accounts = (r, db')"
    by (cases "handle_call demo_ops demo_backend demo_call None (Some ''bobs'') ?c demo_accounts")
  from only_admins_change_roles [OF demo_accounts_ok h] h show ?thesis
    by (simp add: demo_bob_current) (simp add: demo_bob_def)
qed

theorem setup_removes_second_factor_witness:
  "is_ok (authenticate_user demo_ops 0
     (snd (handle_call demo_ops demo_backend demo_call None (Some ''bobs'') TotpSetup demo_accounts)) ''bob'' ''secret12'' None)"
  using setup_removes_second_factor [OF demo_accounts_ok demo_bob_current, of "''secret12''" 0]
  by (simp add: demo_call_def demo_ops_def demo_bob_def)

theorem login_sound_witness:
  "\<exists>resp db1. login demo_ops demo_backend demo_call ''bob'' ''secret12'' (Some ''otp1'') demo_accounts = (Inr resp, db1) \<and>
     (\<exists>u1. u1 \<in> set (bd_users db1) \<and> u_username u1 = ''bob'' \<and>
        lr_access_token resp = token_for_user demo_ops demo_backend 9000000 u1 db1)"
proof -
  have strip: "strip ''otp1'' = ''otp1''" by code_simp
  obtain resp db1 where l: "login demo_ops demo_backend demo_call ''bob'' ''secret12'' (Some ''otp1'') demo_accounts = (Inr resp, db1)"
    by (simp add: login_def demo_call_def authenticate_user_def user_named_def demo_accounts_def demo_admin_def
        demo_bob_def demo_ops_def strip commit_user_def user_of_id_def flush_user_def merged_def Let_def or_default_def)
  have "ce_now demo_call = 9000000" by (simp add: demo_call_def)
  with l login_sound [OF demo_accounts_ok l] show ?thesis by auto
qed

lemma demo_expired: "is_password_expired demo_backend 9000000 demo_bob demo_accounts"
proof -
  have "pp_rotation_months (get_password_policy demo_backend demo_accounts) = 1"
    by (simp add: get_password_policy_def backend_setting_def demo_backend_def demo_accounts_def get_setting_def setting_int_def Let_def)
  then show ?thesis by (simp add: is_password_expired_def demo_bob_def months_to_timedelta_def)
qed

theorem expired_user_confined_witness:
  "password_expiry_blocks (demo_ops\<lparr>bo_decode := \<lambda>now t. Some (access_claims 9000000
       (token_claims demo_backend 9000000 demo_bob demo_accounts) (session_timeout_minutes demo_backend demo_accounts))\<rparr>)
     9000060 ''/api/v1/backends'' (Some (''Bearer '' @ token_for_user
       (demo_ops\<lparr>bo_decode := \<lambda>now t. Some (access_claims 9000000
         (token_claims demo_backend 9000000 demo_bob demo_accounts) (session_timeout_minutes demo_backend demo_accounts))\<rparr>)
       demo_backend 9000000 demo_bob demo_accounts))"
proof -
  have "starts_with ''/api/v1/backends'' ''/api/v1''" "\<not> whitelisted ''/api/v1/backends''" by code_simp+
  with demo_expired show ?thesis by (subst expired_user_confined) simp_all
qed

end
