(* ===== verification/LeaderLock.thy ===== *)
theory LeaderLock imports Prelude begin

text \<open>
  The election of one worker among the processes of the backend (\<open>acquire_leader_lock\<close> and what belongs
  to it in \<open>backend/app/core/valkey_client.py\<close>, and its use in \<open>lifespan\<close> of \<open>backend/app/main.py\<close>).

  The functions decide on answers: of Valkey (\<open>None\<close> without a client or after an exception) and of
  PostgreSQL's advisory lock.  \<open>cluster_step\<close> is the whole deployment, one command at a time: the steps
  give the documented effect of \<open>SET NX\<close>, of the compare-and-expire and compare-and-delete scripts, of an
  expiry and of a session-level advisory lock on the two locks, and the functions say what a worker makes
  of the answers.  A worker is a number.
\<close>

section \<open>The functions\<close>

text \<open>\<open>_pg_try_advisory_lock\<close>: the answer, and whether the process holds the lock's connection then.\<close>

definition pg_try_advisory_lock :: "bool \<Rightarrow> bool \<Rightarrow> bool option \<Rightarrow> bool \<times> bool" where
  "pg_try_advisory_lock holding sqlite acquired =
     (if holding then (True, True)
      else if sqlite then (True, False)
      else (case acquired of Some True \<Rightarrow> (True, True) | _ \<Rightarrow> (False, False)))"

definition acquire_leader_lock :: "bool option \<Rightarrow> bool \<Rightarrow> bool \<Rightarrow> bool option \<Rightarrow> bool \<times> bool" where
  "acquire_leader_lock valkey holding sqlite acquired =
     (case valkey of Some ok \<Rightarrow> (ok, holding) | None \<Rightarrow> pg_try_advisory_lock holding sqlite acquired)"

definition renew_leader_lock :: "bool option \<Rightarrow> bool \<Rightarrow> bool \<Rightarrow> bool option \<Rightarrow> bool \<times> bool" where
  "renew_leader_lock valkey holding sqlite acquired =
     (case valkey of
        Some r \<Rightarrow> (r, holding)
      | None \<Rightarrow> if holding then (True, True) else pg_try_advisory_lock holding sqlite acquired)"

section \<open>The deployment\<close>

text \<open>\<open>lk_key\<close>: the worker whose id is under the key; \<open>lk_pg\<close>: the one that holds the advisory lock; \<open>lk_leaders\<close>:
  those that run migrations and background services; \<open>lk_renewing\<close>: those whose renewal thread lives.\<close>

record cluster =
  lk_key :: "nat option"
  lk_pg :: "nat option"
  lk_running :: "nat set"
  lk_leaders :: "nat set"
  lk_renewing :: "nat set"

definition no_workers :: cluster where
  "no_workers = \<lparr>lk_key = None, lk_pg = None, lk_running = {}, lk_leaders = {}, lk_renewing = {}\<rparr>"

text \<open>\<open>lifespan\<close>: a worker that has got the lock becomes the leader and starts to renew; a leader whose
  renewal fails ends its renewal thread and nothing else.\<close>

definition started :: "nat \<Rightarrow> bool \<Rightarrow> cluster \<Rightarrow> cluster" where
  "started p is_leader c =
     c\<lparr>lk_running := insert p (lk_running c),
       lk_leaders := (if is_leader then insert p (lk_leaders c) else lk_leaders c),
       lk_renewing := (if is_leader then insert p (lk_renewing c) else lk_renewing c)\<rparr>"

definition renewed :: "nat \<Rightarrow> bool \<Rightarrow> cluster \<Rightarrow> cluster" where
  "renewed p ok c = (if ok then c else c\<lparr>lk_renewing := lk_renewing c - {p}\<rparr>)"

definition gone :: "nat \<Rightarrow> cluster \<Rightarrow> cluster" where
  "gone p c =
     c\<lparr>lk_running := lk_running c - {p}, lk_leaders := lk_leaders c - {p}, lk_renewing := lk_renewing c - {p},
       lk_pg := (if lk_pg c = Some p then None else lk_pg c)\<rparr>"

definition set_key :: "nat option \<Rightarrow> cluster \<Rightarrow> cluster" where
  "set_key k c = c\<lparr>lk_key := k\<rparr>"

definition set_pg :: "nat option \<Rightarrow> cluster \<Rightarrow> cluster" where
  "set_pg k c = c\<lparr>lk_pg := k\<rparr>"

datatype event = Start nat | Renew nat | Expire | Shutdown nat | Died nat

text \<open>\<open>via\<close> tells whether Valkey answers the worker in this step; \<open>sqlite\<close> is the kind of the database.\<close>

inductive cluster_step :: "bool \<Rightarrow> bool \<Rightarrow> event \<Rightarrow> cluster \<Rightarrow> cluster \<Rightarrow> bool" for sqlite where
  start: "p \<notin> lk_running c \<Longrightarrow> fst (acquire_leader_lock (Some (lk_key c = None)) False sqlite None) = ok \<Longrightarrow>
    cluster_step sqlite True (Start p) c (started p ok (set_key (if lk_key c = None then Some p else lk_key c) c))"
| start_alone: "p \<notin> lk_running c \<Longrightarrow> acquire_leader_lock None False sqlite (Some (lk_pg c = None)) = (ok, held) \<Longrightarrow>
    cluster_step sqlite False (Start p) c (started p ok (set_pg (if held then Some p else lk_pg c) c))"
| renew: "p \<in> lk_renewing c \<Longrightarrow>
    fst (renew_leader_lock (Some (lk_key c = Some p)) (lk_pg c = Some p) sqlite None) = ok \<Longrightarrow>
    cluster_step sqlite True (Renew p) c (renewed p ok c)"
| renew_alone: "p \<in> lk_renewing c \<Longrightarrow>
    renew_leader_lock None (lk_pg c = Some p) sqlite (Some (lk_pg c = None)) = (ok, held) \<Longrightarrow>
    cluster_step sqlite False (Renew p) c (renewed p ok (set_pg (if held then Some p else lk_pg c) c))"
| expire: "cluster_step sqlite True Expire c (set_key None c)"
| shutdown: "p \<in> lk_running c \<Longrightarrow>
    cluster_step sqlite True (Shutdown p) c (gone p (set_key (if lk_key c = Some p then None else lk_key c) c))"
| shutdown_alone: "p \<in> lk_running c \<Longrightarrow> cluster_step sqlite False (Shutdown p) c (gone p c)"
| died: "p \<in> lk_running c \<Longrightarrow> cluster_step sqlite True (Died p) c (gone p c)"

inductive_cases cluster_stepE: "cluster_step sqlite via ev c c'"

text \<open>Runs, with the list of events and whether Valkey answered.\<close>

inductive cluster_run :: "bool \<Rightarrow> (event \<times> bool) list \<Rightarrow> cluster \<Rightarrow> cluster \<Rightarrow> bool" for sqlite where
  none: "cluster_run sqlite [] c c"
| step: "cluster_run sqlite evs c c1 \<Longrightarrow> cluster_step sqlite via ev c1 c2 \<Longrightarrow> cluster_run sqlite (evs @ [(ev, via)]) c c2"

section \<open>One leader\<close>

text \<open>A step is timely when Valkey answers, and the key does not expire under a worker that renews it.\<close>

definition timely :: "event \<Rightarrow> bool \<Rightarrow> cluster \<Rightarrow> bool" where
  "timely ev via c \<longleftrightarrow> via \<and> (ev = Expire \<longrightarrow> (\<forall>p. lk_key c = Some p \<longrightarrow> p \<notin> lk_renewing c))"

inductive timely_run :: "bool \<Rightarrow> cluster \<Rightarrow> bool" for sqlite where
  init: "timely_run sqlite no_workers"
| step: "timely_run sqlite c \<Longrightarrow> cluster_step sqlite via ev c c1 \<Longrightarrow> timely ev via c \<Longrightarrow> timely_run sqlite c1"

definition elected :: "cluster \<Rightarrow> bool" where
  "elected c \<longleftrightarrow> (\<forall>p \<in> lk_leaders c. lk_key c = Some p \<and> p \<in> lk_renewing c)"

lemma elected_step: "cluster_step sqlite via ev c c1 \<Longrightarrow> timely ev via c \<Longrightarrow> elected c \<Longrightarrow> elected c1"
  by (erule cluster_stepE)
    (auto simp: timely_def elected_def started_def renewed_def gone_def set_key_def acquire_leader_lock_def
      renew_leader_lock_def)

lemma timely_elected: "timely_run sqlite c \<Longrightarrow> elected c"
proof (induction rule: timely_run.induct)
  case init
  show ?case by (simp add: elected_def no_workers_def)
next
  case (step c via ev c1)
  then show ?case using elected_step by blast
qed


section \<open>Losing the lock\<close>

lemma no_new_leader:
  "cluster_step sqlite via ev c c1 \<Longrightarrow> (\<And>p. ev \<noteq> Start p) \<Longrightarrow> lk_leaders c1 \<subseteq> lk_leaders c"
  by (erule cluster_stepE) (auto simp: renewed_def gone_def set_key_def set_pg_def)

text \<open>No worker that is running takes over from a leader that has stopped or lost the lock: without a new process
  the set of leaders only shrinks, so that once it is empty there is none.\<close>

theorem no_takeover:
  assumes "cluster_run sqlite evs c c1" "\<And>p via. (Start p, via) \<notin> set evs"
  shows "lk_leaders c1 \<subseteq> lk_leaders c"
  using assms
proof (induction rule: cluster_run.induct)
  case (step evs c c1 via ev c2)
  have "lk_leaders c1 \<subseteq> lk_leaders c" using step.IH step.prems by simp
  moreover have "lk_leaders c2 \<subseteq> lk_leaders c1"
    using step.prems by (intro no_new_leader [OF step.hyps(2)]) auto
  ultimately show ?case by blast
qed simp

text \<open>A leader that loses the lock goes on leading: after one expiry a second worker leads as well, and both keep
  doing so when the first one has noticed.\<close>

theorem two_leaders:
  "\<exists>c. cluster_run sqlite [(Start 1, True), (Expire, True), (Start 2, True), (Renew 1, True)] no_workers c \<and>
     lk_leaders c = {1, 2} \<and> lk_renewing c = {2}"
proof -
  let ?c1 = "started 1 True (set_key (Some 1) no_workers)"
  let ?c2 = "set_key None ?c1"
  let ?c3 = "started 2 True (set_key (Some 2) ?c2)"
  let ?c4 = "renewed 1 False ?c3"
  note defs = started_def set_key_def no_workers_def renewed_def acquire_leader_lock_def renew_leader_lock_def
  have s1: "cluster_step sqlite True (Start 1) no_workers ?c1"
    using cluster_step.start [of 1 no_workers sqlite True] by (simp add: defs)
  have s2: "cluster_step sqlite True Expire ?c1 ?c2" by (rule cluster_step.expire)
  have s3: "cluster_step sqlite True (Start 2) ?c2 ?c3"
    using cluster_step.start [of 2 ?c2 sqlite True] by (simp add: defs)
  have s4: "cluster_step sqlite True (Renew 1) ?c3 ?c4"
    using cluster_step.renew [of 1 ?c3 sqlite False] by (simp add: defs)
  note cluster_run.step [OF cluster_run.step [OF cluster_run.step [OF cluster_run.step [OF cluster_run.none s1] s2] s3] s4]
  then show ?thesis by (intro exI [of _ ?c4]) (auto simp: defs)
qed

text \<open>A worker starts alone and leads; it dies, and a second one, which started as a follower, stays one.\<close>

definition demo_leader :: cluster where
  "demo_leader = started 1 True (set_key (Some 1) no_workers)"

definition demo_follower :: cluster where
  "demo_follower = started 2 False demo_leader"

lemma demo_led: "timely_run sqlite demo_leader"
  using timely_run.step [OF timely_run.init cluster_step.start [of 1 no_workers sqlite True]]
  by (simp add: demo_leader_def no_workers_def acquire_leader_lock_def timely_def)


theorem no_takeover_witness: "\<exists>c. cluster_run False [(Died 1, True)] demo_follower c \<and> lk_running c = {2} \<and> lk_leaders c \<subseteq> {1}"
proof -
  have "cluster_step False True (Died 1) demo_follower (gone 1 demo_follower)"
    by (rule cluster_step.died) (simp add: demo_follower_def demo_leader_def started_def)
  from cluster_run.step [OF cluster_run.none this]
  have r: "cluster_run False [(Died 1, True)] demo_follower (gone 1 demo_follower)" by simp
  have "lk_leaders demo_follower = {1}" "lk_running (gone 1 demo_follower) = {2}"
    by (auto simp: demo_follower_def demo_leader_def started_def no_workers_def set_key_def gone_def)
  with r no_takeover [OF r] show ?thesis by auto
qed

end
