(* ===== verification/FixedWindow.thy ===== *)
theory FixedWindow imports RateLimit begin

text \<open>
  The backend's rate limiter (\<open>check_rate_limit\<close> and \<open>get_rate_limit_remaining\<close> of
  \<open>backend/app/core/valkey_client.py\<close>): a counter in Valkey per key and window of the clock.

  \<open>counter_ops\<close> are the client, the clock and the commands.  Dropping the client after an exception is
  part of the world.  \<open>fixed_window_bound\<close> says how many requests get through under the documented
  behaviour of the commands (\<open>counter_laws\<close>): the limit per window, and twice the limit in any time of
  that length.
\<close>

record 'w counter_ops =
  fo_client :: "'w \<Rightarrow> bool \<times> 'w"
  fo_time :: "'w \<Rightarrow> real \<times> 'w"
  fo_set_nx :: "string \<Rightarrow> int \<Rightarrow> int \<Rightarrow> ('w, unit) io"
  fo_incr :: "string \<Rightarrow> ('w, int) io"
  fo_get :: "string \<Rightarrow> ('w, string option) io"

definition clock_window :: "int \<Rightarrow> real \<Rightarrow> int" where
  "clock_window win t = \<lfloor>t\<rfloor> div win"

definition bucket_key :: "string \<Rightarrow> int \<Rightarrow> string" where
  "bucket_key key n = ''ratelimit:'' @ key @ '':'' @ int_str n"

definition fixed_window_check :: "'w counter_ops \<Rightarrow> string \<Rightarrow> int \<Rightarrow> int \<Rightarrow> 'w \<Rightarrow> bool \<times> 'w" where
  "fixed_window_check ops key max_requests win w =
     (case fo_client ops w of
        (False, w1) \<Rightarrow> (True, w1)
      | (True, w1) \<Rightarrow>
          (case fo_time ops w1 of (t, w2) \<Rightarrow>
             (let b = bucket_key key (clock_window win t)
              in case fo_set_nx ops b 0 win w2 of
                   (Inl e, w3) \<Rightarrow> (True, w3)
                 | (Inr _, w3) \<Rightarrow>
                     (case fo_incr ops b w3 of
                        (Inl e, w4) \<Rightarrow> (True, w4)
                      | (Inr count, w4) \<Rightarrow> (count \<le> max_requests, w4)))))"

text \<open>\<open>int(count or 0)\<close> is the count, which the counter keeps as a text of digits.\<close>

definition rate_limit_remaining :: "'w counter_ops \<Rightarrow> string \<Rightarrow> int \<Rightarrow> int \<Rightarrow> 'w \<Rightarrow> int \<times> 'w" where
  "rate_limit_remaining ops key max_requests win w =
     (case fo_client ops w of
        (False, w1) \<Rightarrow> (max_requests, w1)
      | (True, w1) \<Rightarrow>
          (case fo_time ops w1 of (t, w2) \<Rightarrow>
             (case fo_get ops (bucket_key key (clock_window win t)) w2 of
                (Inl e, w3) \<Rightarrow> (max_requests, w3)
              | (Inr v, w3) \<Rightarrow>
                  ((case (if or_default v [] = [] then Some 0 else py_int_of_str (or_default v [])) of
                      None \<Rightarrow> max_requests
                    | Some c \<Rightarrow> max 0 (max_requests - c)), w3))))"

section \<open>The documented behaviour\<close>

text \<open>
  \<open>T w\<close> is the time in the world \<open>w\<close> and \<open>C w b\<close> the count under a key, nothing being zero.  Time does not go back,
  and the counters of the window it is in are kept as it passes (their lifetime is a whole window from their
  creation in it); a check ends before its counter does.
\<close>

definition time_passes :: "int \<Rightarrow> ('w \<Rightarrow> real) \<Rightarrow> ('w \<Rightarrow> string \<Rightarrow> int) \<Rightarrow> 'w \<Rightarrow> 'w \<Rightarrow> bool" where
  "time_passes win T C w w' \<longleftrightarrow> T w \<le> T w' \<and>
     (\<forall>key. C w (bucket_key key (clock_window win (T w'))) \<le> C w' (bucket_key key (clock_window win (T w'))))"

definition counter_laws :: "'w counter_ops \<Rightarrow> int \<Rightarrow> ('w \<Rightarrow> real) \<Rightarrow> ('w \<Rightarrow> string \<Rightarrow> int) \<Rightarrow> bool" where
  "counter_laws ops win T C \<longleftrightarrow>
     (\<forall>w b. 0 \<le> C w b) \<and>
     (\<forall>w. fst (fo_client ops w) \<and> time_passes win T C w (snd (fo_client ops w))) \<and>
     (\<forall>w. fst (fo_time ops w) = T (snd (fo_time ops w)) \<and> time_passes win T C w (snd (fo_time ops w))) \<and>
     (\<forall>b v ex w. fst (fo_set_nx ops b v ex w) = Inr () \<and> T (snd (fo_set_nx ops b v ex w)) = T w \<and>
        C (snd (fo_set_nx ops b v ex w)) = C w) \<and>
     (\<forall>b w. fst (fo_incr ops b w) = Inr (C w b + 1) \<and> T (snd (fo_incr ops b w)) = T w \<and>
        C (snd (fo_incr ops b w)) = (C w)(b := C w b + 1))"

text \<open>The requests that get through, with their times, of a sequence of requests with the given keys.\<close>

fun let_through ::
  "'w counter_ops \<Rightarrow> ('w \<Rightarrow> real) \<Rightarrow> int \<Rightarrow> int \<Rightarrow> string list \<Rightarrow> (string \<times> real) list \<Rightarrow> 'w \<Rightarrow> (string \<times> real) list" where
  "let_through ops T max_requests win [] A w = A"
| "let_through ops T max_requests win (key # keys) A w =
     (case fixed_window_check ops key max_requests win w of
        (ok, w1) \<Rightarrow> let_through ops T max_requests win keys (if ok then A @ [(key, T w1)] else A) w1)"

definition in_window :: "int \<Rightarrow> string \<Rightarrow> int \<Rightarrow> (string \<times> real) list \<Rightarrow> nat" where
  "in_window win key n A = length (filter (\<lambda>(k, t). k = key \<and> clock_window win t = n) A)"

definition window_inv ::
  "int \<Rightarrow> int \<Rightarrow> ('w \<Rightarrow> real) \<Rightarrow> ('w \<Rightarrow> string \<Rightarrow> int) \<Rightarrow> (string \<times> real) list \<Rightarrow> 'w \<Rightarrow> bool" where
  "window_inv max_requests win T C A w \<longleftrightarrow>
     (\<forall>(k, t) \<in> set A. t \<le> T w) \<and>
     (\<forall>key. int (in_window win key (clock_window win (T w)) A) \<le> C w (bucket_key key (clock_window win (T w)))) \<and>
     (\<forall>key n. int (in_window win key n A) \<le> max_requests)"

lemma bucket_key_inj: "bucket_key a n = bucket_key b m \<longleftrightarrow> a = b \<and> n = m"
proof -
  have "bucket_key k i = (''ratelimit:'' @ k) @ CHR '':'' # int_str i" for k i by (simp add: bucket_key_def)
  then show ?thesis
    using split_at_last [OF colon_not_digit [of n] colon_not_digit [of m], of "''ratelimit:'' @ a" "''ratelimit:'' @ b"]
    by simp
qed

lemma clock_window_mono: "0 < win \<Longrightarrow> s \<le> t \<Longrightarrow> clock_window win s \<le> clock_window win t"
  by (simp add: clock_window_def zdiv_mono1 floor_mono)

lemma in_window_none:
  assumes "0 < win" "\<forall>(k, t) \<in> set A. t \<le> s" "clock_window win s < n"
  shows "in_window win key n A = 0"
proof -
  have "clock_window win t \<noteq> n" if "(k, t) \<in> set A" for k t
  proof -
    have "t \<le> s" using that assms(2) by blast
    with clock_window_mono [OF assms(1)] assms(3) show ?thesis by (metis not_less)
  qed
  then show ?thesis by (auto simp: in_window_def filter_empty_conv)
qed

lemma inv_time_passes:
  assumes "0 < win" "window_inv m win T C A w" "time_passes win T C w w'" "\<forall>b. 0 \<le> C w' b"
  shows "window_inv m win T C A w'"
proof -
  have le: "T w \<le> T w'" and old: "\<forall>(k, t) \<in> set A. t \<le> T w"
    using assms(2,3) by (auto simp: time_passes_def window_inv_def)
  have "int (in_window win key (clock_window win (T w')) A) \<le> C w' (bucket_key key (clock_window win (T w')))" for key
  proof (cases "clock_window win (T w) = clock_window win (T w')")
    case True
    with assms(2,3) show ?thesis by (fastforce simp: window_inv_def time_passes_def intro: order_trans)
  next
    case False
    with clock_window_mono [OF assms(1) le] have "clock_window win (T w) < clock_window win (T w')" by simp
    from in_window_none [OF assms(1) old this] assms(4) show ?thesis by simp
  qed
  with assms(2) le show ?thesis by (fastforce simp: window_inv_def)
qed

lemma check_step:
  assumes laws: "counter_laws ops win T C" and win: "0 < win" and inv: "window_inv m win T C A w"
    and chk: "fixed_window_check ops key m win w = (ok, w')"
  shows "window_inv m win T C (if ok then A @ [(key, T w')] else A) w'"
proof -
  obtain w1 where c: "fo_client ops w = (True, w1)"
    using laws by (cases "fo_client ops w") (auto simp: counter_laws_def dest: spec [of _ w])
  obtain t w2 where t: "fo_time ops w1 = (t, w2)" by (cases "fo_time ops w1")
  have tp: "time_passes win T C w w1" "time_passes win T C w1 w2" "t = T w2"
    using laws c t unfolding counter_laws_def by (metis fst_conv snd_conv)+
  have pos: "\<forall>b. 0 \<le> C v b" for v using laws by (simp add: counter_laws_def)
  have inv2: "window_inv m win T C A w2"
    using inv_time_passes [OF win inv_time_passes [OF win inv tp(1) pos] tp(2) pos] .
  let ?n = "clock_window win (T w2)"
  let ?b = "bucket_key key ?n"
  obtain w3 where s: "fo_set_nx ops ?b 0 win w2 = (Inr (), w3)" "T w3 = T w2" "C w3 = C w2"
    using laws unfolding counter_laws_def by (metis prod.collapse)
  obtain w4 where i: "fo_incr ops ?b w3 = (Inr (C w2 ?b + 1), w4)" "T w4 = T w2" "C w4 = (C w2)(?b := C w2 ?b + 1)"
    using laws s unfolding counter_laws_def by (metis prod.collapse)
  have res: "ok = (C w2 ?b + 1 \<le> m)" "w' = w4"
    using chk by (auto simp: fixed_window_check_def c t tp(3) s(1) i(1) Let_def)
  have counts: "in_window win k n (A @ [(key, T w2)]) = (if k = key \<and> n = ?n then Suc (in_window win k n A) else in_window win k n A)" for k n
    by (auto simp: in_window_def)
  have own: "int (in_window win key ?n A) \<le> C w2 ?b" using inv2 by (simp add: window_inv_def)
  then have "1 + int (in_window win key ?n A) \<le> m" if "C w2 ?b + 1 \<le> m" using that by linarith
  moreover have "int (in_window win key ?n A) \<le> C w2 ?b + 1" using own by linarith
  ultimately show ?thesis
    using inv2 res i(2,3) by (auto simp: window_inv_def counts bucket_key_inj)
qed

lemma let_through_inv:
  assumes "counter_laws ops win T C" "0 < win"
  shows "window_inv m win T C A w \<Longrightarrow> \<exists>w'. window_inv m win T C (let_through ops T m win keys A w) w'"
proof (induction keys arbitrary: A w)
  case (Cons key keys)
  obtain ok w1 where chk: "fixed_window_check ops key m win w = (ok, w1)" by (cases "fixed_window_check ops key m win w")
  from Cons.IH [OF check_step [OF assms Cons.prems chk]] chk show ?case by simp
qed auto

text \<open>Whatever sequence of requests is checked, on whatever keys, no key lets more than the limit through in a
  window of the clock, and at most twice the limit in any period of that length.\<close>

theorem fixed_window_bound:
  assumes "counter_laws ops win T C" "0 < win" "0 \<le> m"
  shows "int (in_window win key n (let_through ops T m win keys [] w)) \<le> m \<and>
    int (length (filter (\<lambda>(k, t). k = key \<and> s \<le> t \<and> t < s + of_int win) (let_through ops T m win keys [] w))) \<le> 2 * m"
proof -
  let ?A = "let_through ops T m win keys [] w"
  have "window_inv m win T C [] w" using assms by (simp add: window_inv_def in_window_def counter_laws_def)
  from let_through_inv [OF assms(1,2) this] have per: "int (in_window win key n ?A) \<le> m" for n
    by (auto simp: window_inv_def)
  let ?n = "clock_window win s"
  have near: "clock_window win t = ?n \<or> clock_window win t = ?n + 1" if "s \<le> t" "t < s + of_int win" for t
  proof -
    have "\<lfloor>t\<rfloor> \<le> \<lfloor>s\<rfloor> + win" using that(2) by (metis floor_add_int floor_mono less_imp_le)
    then have "clock_window win t \<le> (\<lfloor>s\<rfloor> + win) div win"
      unfolding clock_window_def by (rule zdiv_mono1 [OF _ assms(2)])
    also have "\<dots> = ?n + 1" using assms(2) by (simp add: clock_window_def)
    finally show ?thesis using clock_window_mono [OF assms(2) that(1)] by linarith
  qed
  have "length (filter (\<lambda>(k, t). k = key \<and> s \<le> t \<and> t < s + of_int win) xs) \<le> in_window win key ?n xs + in_window win key (?n + 1) xs" for xs
    using near by (induction xs) (auto simp: in_window_def)
  from this [of ?A] per [of ?n] per [of "?n + 1"] per [of n] show ?thesis by linarith
qed

section \<open>A counter that keeps everything\<close>

definition demo_counter_ops :: "(real \<times> (string \<Rightarrow> nat)) counter_ops" where
  "demo_counter_ops = \<lparr>fo_client = (\<lambda>w. (True, w)), fo_time = (\<lambda>(t, c). (t + 1, (t + 1, c))),
     fo_set_nx = (\<lambda>b v ex w. (Inr (), w)), fo_incr = (\<lambda>b (t, c). (Inr (int (c b) + 1), (t, c(b := Suc (c b))))),
     fo_get = (\<lambda>b (t, c). (Inr (Some (int_str (int (c b)))), (t, c)))\<rparr>"

theorem fixed_window_bound_witness:
  "int (in_window 60 ''k'' 0 (let_through demo_counter_ops fst 2 60 [''k'', ''k'', ''x'', ''k''] [] (0, \<lambda>b. 0))) \<le> 2"
proof -
  have "counter_laws demo_counter_ops 60 fst (\<lambda>(t, c) b. int (c b))"
    by (auto simp: counter_laws_def time_passes_def demo_counter_ops_def)
  then show ?thesis
    using fixed_window_bound [of demo_counter_ops 60 fst "\<lambda>(t, c) b. int (c b)" 2 "''k''" 0 "[''k'', ''k'', ''x'', ''k'']" "(0, \<lambda>b. 0)" 0]
    by simp
qed

end
