(* ===== verification/ApiSchemas.thy ===== *)
theory ApiSchemas imports Texts JsonText "HOL-Library.Multiset" begin

text \<open>
  API Armor's learned request schemas: \<open>services/api_armor_schemas.py\<close> infers a JSON Schema from an
  observed body and merges it into the endpoint's row, \<open>services/api_armor_schema_learner.py\<close> feeds
  it the bodies of the profiling log.  A schema is a JSON value.  The order in which Python
  lists a set is the parameter \<open>so\<close>; \<open>order_ok\<close> says that it only reorders.

  An abstract schema (\<open>shape\<close>) stands for what these two routines can build; \<open>merge_refines\<close>
  shows that the merge of schemas is the \<open>shape_join\<close> of shapes.
\<close>

named_theorems schema_simps "inferred and merged schemas"

section \<open>Inferring a schema\<close>

fun infer_schema :: "json \<Rightarrow> json" where
  "infer_schema JNull = JObj [(''type'', JStr ''null'')]"
| "infer_schema (JBool b) = JObj [(''type'', JStr ''boolean'')]"
| "infer_schema (JInt i) = JObj [(''type'', JStr ''integer'')]"
| "infer_schema (JFloat r) = JObj [(''type'', JStr ''number'')]"
| "infer_schema (JStr s) =
     JObj [(''type'', JStr ''string''), (''minLength'', JInt 0), (''maxLength'', JInt (int (length s)))]"
| "infer_schema (JList xs) =
     JObj [(''type'', JStr ''array''),
           (''items'', case xs of [] \<Rightarrow> JObj [] | x # _ \<Rightarrow> infer_schema x),
           (''minItems'', JInt 0), (''maxItems'', JInt (int (length xs)))]"
| "infer_schema (JObj d) =
     JObj [(''type'', JStr ''object''),
           (''properties'', JObj (map (\<lambda>(k, v). (k, infer_schema v)) d)),
           (''required'', JList (map (\<lambda>(k, v). JStr k) d)),
           (''additionalProperties'', JBool True)]"

section \<open>Merging two schemas\<close>

text \<open>\<open>dict(v)\<close>, \<open>v.items()\<close> and \<open>set(v)\<close>.  A non-empty list of pairs given to \<open>dict\<close> is outside
  the model and counts as an error.\<close>

fun dict_copy :: "json \<Rightarrow> json dict res" where
  "dict_copy (JObj d) = Inr d"
| "dict_copy (JList xs) = (if xs = [] then Inr [] else Inl TypeError)"
| "dict_copy (JStr s) = (if s = [] then Inr [] else Inl ValueError)"
| "dict_copy v = Inl TypeError"

fun dict_items :: "json \<Rightarrow> json dict res" where
  "dict_items (JObj d) = Inr d"
| "dict_items v = Inl AttributeError"

fun hashable_value :: "json \<Rightarrow> bool" where
  "hashable_value (JList xs) = False"
| "hashable_value (JObj d) = False"
| "hashable_value v = True"

fun set_elems :: "json \<Rightarrow> json list res" where
  "set_elems (JList xs) = (if list_all hashable_value xs then Inr xs else Inl TypeError)"
| "set_elems (JStr s) = Inr (map (\<lambda>c. JStr [c]) s)"
| "set_elems (JObj d) = Inr (map (\<lambda>(k, v). JStr k) d)"
| "set_elems v = Inl TypeError"

fun py_dedup :: "json list \<Rightarrow> json list" where
  "py_dedup [] = []"
| "py_dedup (x # xs) = (if list_ex (py_eq x) xs then py_dedup xs else x # py_dedup xs)"

text \<open>\<open>list(set(a) & set(b))\<close>\<close>

definition set_meet :: "(json list \<Rightarrow> json list) \<Rightarrow> json list \<Rightarrow> json list \<Rightarrow> json list" where
  "set_meet so a b = so (filter (\<lambda>x. list_ex (py_eq x) b) (py_dedup a))"

definition order_ok :: "('a list \<Rightarrow> 'a list) \<Rightarrow> bool" where
  "order_ok so \<longleftrightarrow> (\<forall>xs. mset (so xs) = mset xs)"

text \<open>\<open>a < b\<close> of two numbers or two texts; \<open>max\<close> and \<open>min\<close> keep the first of equal arguments.
  The limits of an observed schema are integers, so two lists are never compared.\<close>

fun text_less :: "string \<Rightarrow> string \<Rightarrow> bool" where
  "text_less s [] = False"
| "text_less [] (d # t) = True"
| "text_less (c # s) (d # t) = (ord c < ord d \<or> (c = d \<and> text_less s t))"

definition py_less :: "json \<Rightarrow> json \<Rightarrow> bool res" where
  "py_less a b = (case (num_val a, num_val b) of
       (Some x, Some y) \<Rightarrow> Inr (x < y)
     | _ \<Rightarrow> (case (a, b) of (JStr s, JStr t) \<Rightarrow> Inr (text_less s t) | _ \<Rightarrow> Inl TypeError))"

definition py_max :: "json \<Rightarrow> json \<Rightarrow> json res" where
  "py_max a b = bind_res (py_less a b) (\<lambda>l. Inr (if l then b else a))"

definition py_min :: "json \<Rightarrow> json \<Rightarrow> json res" where
  "py_min a b = bind_res (py_less b a) (\<lambda>l. Inr (if l then b else a))"

lemma dict_items_Inr [simp]: "dict_items v = Inr d \<longleftrightarrow> v = JObj d"
  by (cases v) auto

lemma dict_get_obj_size:
  assumes "dict_get d k (JObj []) = JObj q"
  shows "size_list (size_prod (\<lambda>x. 0) size) q \<le> size_list (size_prod (\<lambda>x. 0) size) d"
proof (cases "map_of d k")
  case None
  with assms show ?thesis by (simp add: dict_get_def)
next
  case (Some u)
  then have "(k, u) \<in> set d" by (rule map_of_SomeD)
  then have "size u \<le> size_list (size_prod (\<lambda>x. 0) size) d"
    by (induction d) auto
  with assms Some show ?thesis by (simp add: dict_get_def)
qed

function (sequential) merge_schemas :: "(json list \<Rightarrow> json list) \<Rightarrow> json \<Rightarrow> json \<Rightarrow> json res"
  and merge_props :: "(json list \<Rightarrow> json list) \<Rightarrow> json dict \<Rightarrow> json dict \<Rightarrow> json dict res" where
  "merge_schemas so s1 s2 = bind_res (dict_items s1) (\<lambda>d1. bind_res (dict_items s2) (\<lambda>d2.
     (let t1 = dict_get d1 ''type'' JNull; t2 = dict_get d2 ''type'' JNull in
      if \<not> py_eq t1 t2 then
        Inr (if py_truthy t1 \<and> py_truthy t2 then JObj [(''type'', JList [t1, t2])] else JObj [])
      else if t1 = JStr ''object'' then
        bind_res (dict_copy (dict_get d1 ''properties'' (JObj []))) (\<lambda>p1.
        bind_res (dict_items (dict_get d2 ''properties'' (JObj []))) (\<lambda>p2.
        bind_res (merge_props so p1 p2) (\<lambda>ps.
        bind_res (set_elems (dict_get d1 ''required'' (JList []))) (\<lambda>r1.
        bind_res (set_elems (dict_get d2 ''required'' (JList []))) (\<lambda>r2.
          Inr (JObj (AList.update ''required'' (JList (set_meet so r1 r2))
                (AList.update ''properties'' (JObj ps) d1))))))))
      else if t1 = JStr ''string'' then
        bind_res (py_max (dict_get d1 ''maxLength'' (JInt 0)) (dict_get d2 ''maxLength'' (JInt 0))) (\<lambda>mx.
        bind_res (py_min (dict_get d1 ''minLength'' (JInt 0)) (dict_get d2 ''minLength'' (JInt 0))) (\<lambda>mn.
          Inr (JObj (AList.update ''minLength'' mn (AList.update ''maxLength'' mx d1)))))
      else Inr (JObj d1))))"
| "merge_props so ps [] = Inr ps"
| "merge_props so ps ((k, v2) # r) =
     bind_res (case map_of ps k of None \<Rightarrow> Inr v2 | Some v1 \<Rightarrow> merge_schemas so v1 v2)
       (\<lambda>v. merge_props so (AList.update k v ps) r)"
  by pat_completeness auto
termination
  by (relation "measure (case_sum (\<lambda>(so, s1, s2). size s2)
        (\<lambda>(so, ps, q). size_list (size_prod (\<lambda>x. 0) size) q))")
    (auto dest: dict_get_obj_size)

declare merge_schemas.simps [simp del]

section \<open>Abstract schemas\<close>

text \<open>
  What inference and merging build: the seven types of JSON, the nested pairs that merging
  leaves where types differ, texts up to a length, lists, and objects with their known fields
  and the fields that every sample had.
\<close>

datatype json_kind = NullK | BoolK | IntK | NumK | TextK | ListK | DictK

datatype kinds = One json_kind | Or kinds kinds

datatype shape =
    Atom json_kind
  | Union kinds kinds
  | TextS nat
  | ListS "shape option" nat
  | DictS "(string \<times> shape) list" "string list"

fun json_kind_name :: "json_kind \<Rightarrow> string" where
  "json_kind_name NullK = ''null''"
| "json_kind_name BoolK = ''boolean''"
| "json_kind_name IntK = ''integer''"
| "json_kind_name NumK = ''number''"
| "json_kind_name TextK = ''string''"
| "json_kind_name ListK = ''array''"
| "json_kind_name DictK = ''object''"

fun kinds_json :: "kinds \<Rightarrow> json" where
  "kinds_json (One k) = JStr (json_kind_name k)"
| "kinds_json (Or s t) = JList [kinds_json s, kinds_json t]"

fun shape_kinds :: "shape \<Rightarrow> kinds" where
  "shape_kinds (Atom k) = One k"
| "shape_kinds (Union s t) = Or s t"
| "shape_kinds (TextS n) = One TextK"
| "shape_kinds (ListS i n) = One ListK"
| "shape_kinds (DictS p r) = One DictK"

fun shape_json :: "shape \<Rightarrow> json" where
  "shape_json (Atom k) = JObj [(''type'', JStr (json_kind_name k))]"
| "shape_json (Union s t) = JObj [(''type'', kinds_json (Or s t))]"
| "shape_json (TextS n) =
     JObj [(''type'', JStr ''string''), (''minLength'', JInt 0), (''maxLength'', JInt (int n))]"
| "shape_json (ListS i n) =
     JObj [(''type'', JStr ''array''),
           (''items'', case i of None \<Rightarrow> JObj [] | Some s \<Rightarrow> shape_json s),
           (''minItems'', JInt 0), (''maxItems'', JInt (int n))]"
| "shape_json (DictS p r) =
     JObj [(''type'', JStr ''object''),
           (''properties'', JObj (map (\<lambda>(k, s). (k, shape_json s)) p)),
           (''required'', JList (map JStr r)), (''additionalProperties'', JBool True)]"

fun shape_of :: "json \<Rightarrow> shape" where
  "shape_of JNull = Atom NullK"
| "shape_of (JBool b) = Atom BoolK"
| "shape_of (JInt i) = Atom IntK"
| "shape_of (JFloat r) = Atom NumK"
| "shape_of (JStr s) = TextS (length s)"
| "shape_of (JList xs) = ListS (case xs of [] \<Rightarrow> None | x # _ \<Rightarrow> Some (shape_of x)) (length xs)"
| "shape_of (JObj d) = DictS (map (\<lambda>(k, v). (k, shape_of v)) d) (map fst d)"

text \<open>The strings that the order parameter makes of a list of texts.\<close>

definition text_order :: "(json list \<Rightarrow> json list) \<Rightarrow> string list \<Rightarrow> string list" where
  "text_order so xs = map (\<lambda>v. case v of JStr s \<Rightarrow> s | _ \<Rightarrow> []) (so (map JStr xs))"

fun shape_join :: "(json list \<Rightarrow> json list) \<Rightarrow> shape \<Rightarrow> shape \<Rightarrow> shape"
  and shape_join_props :: "(json list \<Rightarrow> json list) \<Rightarrow> (string \<times> shape) list \<Rightarrow> (string \<times> shape) list \<Rightarrow>
     (string \<times> shape) list" where
  "shape_join so a b =
     (if shape_kinds a \<noteq> shape_kinds b then Union (shape_kinds a) (shape_kinds b)
      else (case b of
          DictS q r2 \<Rightarrow> (case a of
              DictS p r1 \<Rightarrow>
                DictS (shape_join_props so p q) (text_order so (filter (\<lambda>x. x \<in> set r2) (remdups r1)))
            | _ \<Rightarrow> a)
        | TextS n \<Rightarrow> (case a of TextS m \<Rightarrow> TextS (max m n) | _ \<Rightarrow> a)
        | _ \<Rightarrow> a))"
| "shape_join_props so ps [] = ps"
| "shape_join_props so ps ((k, b) # r) =
     shape_join_props so (AList.update k (case map_of ps k of None \<Rightarrow> b | Some a \<Rightarrow> shape_join so a b) ps) r"

declare shape_join.simps [simp del]

lemma shape_of_json: "infer_schema v = shape_json (shape_of v)"
  by (induction v) (auto split: list.splits intro: snds.intros)

fun wf_shape :: "shape \<Rightarrow> bool" where
  "wf_shape (Atom k) = (k \<notin> {TextK, ListK, DictK})"
| "wf_shape (Union s t) = True"
| "wf_shape (TextS n) = True"
| "wf_shape (ListS i n) = (case i of None \<Rightarrow> True | Some s \<Rightarrow> wf_shape s)"
| "wf_shape (DictS p r) = (distinct (map fst p) \<and> list_all (\<lambda>(k, s). wf_shape s) p)"

section \<open>Merging refines joining\<close>

lemma py_eq_kind_name [simp]:
  "json_kind_name k = json_kind_name l \<longleftrightarrow> k = l"
  by (cases k; cases l) auto

lemma kinds_eq [simp]: "py_eq (kinds_json s) (kinds_json t) \<longleftrightarrow> s = t"
proof (induction s arbitrary: t)
  case (One k)
  then show ?case by (cases t) (auto simp: py_eq_str_iff)
next
  case (Or a b)
  then show ?case by (cases t) auto
qed

lemma kinds_truthy [simp]: "py_truthy (kinds_json s)"
proof (cases s)
  case (One k)
  then show ?thesis by (cases k) auto
qed auto

lemma shape_json_obj: "\<exists>d. shape_json a = JObj d \<and> dict_get d ''type'' JNull = kinds_json (shape_kinds a)"
  by (cases a) (auto simp: dict_get_def)

lemma py_eq_texts [simp]: "list_ex (py_eq (JStr x)) (map JStr r) \<longleftrightarrow> x \<in> set r"
  by (induction r) auto

lemma py_dedup_texts [simp]: "py_dedup (map JStr r) = map JStr (remdups r)"
  by (induction r) auto

lemma order_ok_set: "order_ok so \<Longrightarrow> set (so xs) = set xs"
  unfolding order_ok_def by (metis set_mset_mset)

lemma text_order_JStr:
  assumes "order_ok so"
  shows "map JStr (text_order so xs) = so (map JStr xs)"
proof -
  have "\<forall>v \<in> set (so (map JStr xs)). JStr (case v of JStr s \<Rightarrow> s | _ \<Rightarrow> []) = v"
    using order_ok_set [OF assms, of "map JStr xs"] by auto
  then show ?thesis by (simp add: text_order_def map_idI)
qed

lemma text_order_set: "order_ok so \<Longrightarrow> set (text_order so xs) = set xs"
  by (subst inj_image_eq_iff [symmetric, of JStr])
    (auto simp: inj_def order_ok_set simp flip: set_map simp: text_order_JStr)

lemma set_meet_texts:
  "order_ok so \<Longrightarrow> set_meet so (map JStr r1) (map JStr r2)
     = map JStr (text_order so (filter (\<lambda>x. x \<in> set r2) (remdups r1)))"
  by (simp add: set_meet_def text_order_JStr filter_map comp_def)

lemma update_props [simp]:
  "AList.update k (f b) (map (\<lambda>(k, s). (k, f s)) p) = map (\<lambda>(k, s). (k, f s)) (AList.update k b p)"
  by (induction p) auto

lemma map_of_props: "map_of (map (\<lambda>(k, s). (k, f s)) p) k = map_option f (map_of p k)"
  by (induction p) auto

lemma texts_hashable [simp]: "list_all hashable_value (map JStr r)"
  by (induction r) auto

lemma dict_get_Cons: "dict_get ((k, v) # d) k' w = (if k' = k then v else dict_get d k' w)"
  by (simp add: dict_get_def)

lemma dict_get_Nil: "dict_get [] k w = w"
  by (simp add: dict_get_def)

lemmas merge_steps = merge_schemas.simps shape_join.simps dict_get_Cons dict_get_Nil py_max_def py_min_def py_less_def

lemma join_props_distinct:
  "distinct (map fst p) \<Longrightarrow> distinct (map fst (shape_join_props so p q))"
proof (induction q arbitrary: p)
  case (Cons x q)
  then show ?case by (cases x) (simp add: distinct_update)
qed simp

lemma all_update:
  "list_all (\<lambda>(k, s). P k s) p \<Longrightarrow> P k c \<Longrightarrow> list_all (\<lambda>(k, s). P k s) (AList.update k c p)"
  by (induction p) auto

lemma all_map_of: "list_all (\<lambda>(k, s). P k s) p \<Longrightarrow> map_of p k = Some a \<Longrightarrow> P k a"
  by (auto dest!: map_of_SomeD simp: list_all_iff)

lemma join_wf:
  shows "wf_shape a \<Longrightarrow> wf_shape b \<Longrightarrow> wf_shape (shape_join so a b)"
    and "list_all (\<lambda>(k, s). wf_shape s) p \<Longrightarrow> list_all (\<lambda>(k, s). wf_shape s) q \<Longrightarrow>
      list_all (\<lambda>(k, s). wf_shape s) (shape_join_props so p q)"
proof (induction so a b and so p q rule: shape_join_shape_join_props.induct)
  case (1 so a b)
  then show ?case
    by (auto simp: shape_join.simps join_props_distinct split: shape.splits)
next
  case (3 so ps k b r)
  have "wf_shape (case map_of ps k of None \<Rightarrow> b | Some a \<Rightarrow> shape_join so a b)"
    using 3 by (auto split: option.split dest: all_map_of)
  then show ?case using "3.IH"(2) "3.prems" by (simp add: all_update)
qed simp

lemma join_refined:
  shows "order_ok so \<Longrightarrow> wf_shape a \<Longrightarrow> wf_shape b \<Longrightarrow>
      merge_schemas so (shape_json a) (shape_json b) = Inr (shape_json (shape_join so a b))"
    and "order_ok so \<Longrightarrow> list_all (\<lambda>(k, s). wf_shape s) p \<Longrightarrow> list_all (\<lambda>(k, s). wf_shape s) q \<Longrightarrow>
      merge_props so (map (\<lambda>(k, s). (k, shape_json s)) p) (map (\<lambda>(k, s). (k, shape_json s)) q)
        = Inr (map (\<lambda>(k, s). (k, shape_json s)) (shape_join_props so p q))"
proof (induction so a b and so p q rule: shape_join_shape_join_props.induct)
  case (1 so a b)
  show ?case
  proof (cases "shape_kinds a = shape_kinds b")
    case False
    obtain d1 d2 where d: "shape_json a = JObj d1" "dict_get d1 ''type'' JNull = kinds_json (shape_kinds a)"
      "shape_json b = JObj d2" "dict_get d2 ''type'' JNull = kinds_json (shape_kinds b)"
      using shape_json_obj by blast
    with False show ?thesis by (simp add: merge_schemas.simps shape_join.simps)
  next
    case True
    show ?thesis
    proof (cases b)
      case (DictS q r2)
      with True "1.prems" obtain p r1 where a: "a = DictS p r1" by (cases a) auto
      have "merge_props so (map (\<lambda>(k, s). (k, shape_json s)) p) (map (\<lambda>(k, s). (k, shape_json s)) q)
          = Inr (map (\<lambda>(k, s). (k, shape_json s)) (shape_join_props so p q))"
        using True a DictS "1.prems" by (intro "1.IH") auto
      with a DictS "1.prems" show ?thesis by (simp add: merge_steps set_meet_texts)
    next
      case (TextS n)
      with True "1.prems" obtain m where "a = TextS m" by (cases a) auto
      with TextS show ?thesis by (auto simp: merge_steps max_def)
    next
      case (Atom k)
      with True "1.prems" have "a = Atom k" by (cases a) auto
      with Atom "1.prems" show ?thesis by (cases k) (simp_all add: merge_steps)
    next
      case (Union s t)
      with True have "a = Union s t" by (cases a) auto
      with Union show ?thesis by (simp add: merge_steps)
    next
      case (ListS i n)
      with True "1.prems" obtain j m where "a = ListS j m" by (cases a) auto
      with ListS show ?thesis by (simp add: merge_steps)
    qed
  qed
next
  case (2 so ps)
  then show ?case by simp
next
  case (3 so ps k b r)
  let ?c = "case map_of ps k of None \<Rightarrow> b | Some a \<Rightarrow> shape_join so a b"
  have c: "wf_shape ?c"
    using "3.prems" by (auto split: option.split dest: all_map_of intro: join_wf)
  have "merge_schemas so (shape_json a) (shape_json b) = Inr (shape_json (shape_join so a b))"
    if "map_of ps k = Some a" for a
    using that "3.prems" by (intro "3.IH"(1)) (auto dest: all_map_of)
  then have "(case map_of (map (\<lambda>(k, s). (k, shape_json s)) ps) k of None \<Rightarrow> Inr (shape_json b)
      | Some v1 \<Rightarrow> merge_schemas so v1 (shape_json b)) = Inr (shape_json ?c)"
    by (simp add: map_of_props split: option.split)
  with c "3.prems" "3.IH"(2) show ?case by (simp add: all_update)
qed

end
