(* ===== verification/SchemaCheck.thy ===== *)
theory SchemaCheck imports ApiSchemas begin

text \<open>
  The proxy's JSON Schema validator, \<open>haproxy/api-armor/schema_validator/src/lib.rs\<close>: it reads
  the schemas that the backend has learned.  \<open>validate_value\<close> is the field \<open>valid\<close> of the result
  (the messages are left out) and \<open>None\<close> where the code panics.  \<open>rnd\<close> is the conversion of an
  integer to \<open>f64\<close>.  Values are as \<open>serde_json\<close> reads them, integers within 64 bits; \<open>len()\<close> of a
  string counts the bytes of its UTF-8 text.

  \<open>validate_shape\<close>: on a learned schema the validator decides \<open>accepts\<close>, the meaning of a shape.
\<close>

section \<open>The validator\<close>

text \<open>Every check runs: a later panic is not hidden by an earlier error.\<close>

fun checks :: "bool option list \<Rightarrow> bool option" where
  "checks [] = Some True"
| "checks (b # bs) = (case b of None \<Rightarrow> None | Some x \<Rightarrow> map_option ((\<and>) x) (checks bs))"

definition utf8_len :: "string \<Rightarrow> nat" where
  "utf8_len s = sum_list (map (\<lambda>c. if ord c < 128 then 1 else 2) s)"

fun as_u64 :: "json \<Rightarrow> nat option" where
  "as_u64 (JInt i) = (if 0 \<le> i \<and> i < 2 ^ 64 then Some (nat i) else None)"
| "as_u64 v = None"

fun as_f64 :: "(int \<Rightarrow> real) \<Rightarrow> json \<Rightarrow> real option" where
  "as_f64 rnd (JInt i) = Some (rnd i)"
| "as_f64 rnd (JFloat r) = Some r"
| "as_f64 rnd v = None"

fun is_whole :: "json \<Rightarrow> bool" where
  "is_whole (JInt i) = True"
| "is_whole (JFloat r) = (real_of_int \<lfloor>r\<rfloor> = r)"
| "is_whole v = False"

fun json_type_name :: "json \<Rightarrow> string" where
  "json_type_name JNull = ''null''"
| "json_type_name (JBool b) = ''boolean''"
| "json_type_name (JInt i) = ''integer''"
| "json_type_name (JFloat r) = ''number''"
| "json_type_name (JStr s) = ''string''"
| "json_type_name (JList xs) = ''array''"
| "json_type_name (JObj d) = ''object''"

fun check_type :: "json \<Rightarrow> json \<Rightarrow> bool" where
  "check_type v (JStr t) =
     (if t = ''number'' then json_type_name v \<in> {''integer'', ''number''}
      else if t = ''integer'' then is_whole v
      else if t \<in> {''string'', ''boolean'', ''object'', ''array'', ''null''} then json_type_name v = t
      else True)"
| "check_type v (JList ts) = list_ex (check_type v) ts"
| "check_type v t = True"

text \<open>Equality of two values, an integer never equals a float.\<close>

fun serde_eq :: "json \<Rightarrow> json \<Rightarrow> bool" where
  "serde_eq (JList xs) (JList ys) =
     (length xs = length ys \<and> list_all (\<lambda>(x, y). serde_eq x y) (zip xs ys))"
| "serde_eq (JObj d) (JObj e) =
     (length d = length e \<and>
      list_all (\<lambda>(k, v). case map_of e k of None \<Rightarrow> False | Some w \<Rightarrow> serde_eq v w) d)"
| "serde_eq (JList xs) w = False"
| "serde_eq (JObj d) w = False"
| "serde_eq v w = (v = w)"

definition match_pattern :: "string \<Rightarrow> string \<Rightarrow> bool option" where
  "match_pattern s p =
     (let before = starts_with p ''*''; behind = ends_with p ''*'' in
      if before \<and> behind then (if length p < 2 then None else Some (contains s (butlast (tl p))))
      else if before then Some (ends_with s (tl p))
      else if behind then Some (starts_with s (butlast p))
      else Some (s = p))"

definition enum_check :: "json dict \<Rightarrow> json \<Rightarrow> bool" where
  "enum_check s v = (case map_of s ''enum'' of Some (JList es) \<Rightarrow> list_ex (\<lambda>e. serde_eq e v) es | _ \<Rightarrow> True)"

definition size_checks :: "json dict \<Rightarrow> string \<Rightarrow> string \<Rightarrow> nat \<Rightarrow> bool" where
  "size_checks s lo hi n =
     ((case Option.bind (map_of s lo) as_u64 of None \<Rightarrow> True | Some m \<Rightarrow> m \<le> n) \<and>
      (case Option.bind (map_of s hi) as_u64 of None \<Rightarrow> True | Some m \<Rightarrow> n \<le> m))"

definition text_checks :: "json dict \<Rightarrow> json \<Rightarrow> bool option" where
  "text_checks s v = (case v of
       JStr t \<Rightarrow> checks [Some (size_checks s ''minLength'' ''maxLength'' (utf8_len t)),
         (case map_of s ''pattern'' of Some (JStr p) \<Rightarrow> match_pattern t p | _ \<Rightarrow> Some True)]
     | _ \<Rightarrow> Some True)"

definition number_checks :: "(int \<Rightarrow> real) \<Rightarrow> json dict \<Rightarrow> json \<Rightarrow> bool" where
  "number_checks rnd s v = (case as_f64 rnd v of
       None \<Rightarrow> True
     | Some n \<Rightarrow>
         (case Option.bind (map_of s ''minimum'') (as_f64 rnd) of None \<Rightarrow> True | Some m \<Rightarrow> m \<le> n) \<and>
         (case Option.bind (map_of s ''maximum'') (as_f64 rnd) of None \<Rightarrow> True | Some m \<Rightarrow> n \<le> m))"

definition required_check :: "json dict \<Rightarrow> json \<Rightarrow> bool" where
  "required_check s v = (case (v, map_of s ''required'') of
       (JObj d, Some (JList rs)) \<Rightarrow>
         list_all (\<lambda>r. case r of JStr k \<Rightarrow> k \<in> fst ` set d | _ \<Rightarrow> True) rs
     | _ \<Rightarrow> True)"

definition schema_props :: "json dict \<Rightarrow> json dict option" where
  "schema_props s = (case map_of s ''properties'' of Some (JObj ps) \<Rightarrow> Some ps | _ \<Rightarrow> None)"

definition item_count_check :: "json dict \<Rightarrow> json \<Rightarrow> bool" where
  "item_count_check s v = (case v of JList xs \<Rightarrow> size_checks s ''minItems'' ''maxItems'' (length xs) | _ \<Rightarrow> True)"

lemma map_of_size [termination_simp]:
  "map_of d k = Some w \<Longrightarrow> size w < Suc (size_list (\<lambda>x. Suc (size (snd x))) d)"
  by (induction d) (auto split: if_splits)

fun validate_value :: "(int \<Rightarrow> real) \<Rightarrow> json \<Rightarrow> json \<Rightarrow> bool option" where
  "validate_value rnd v (JObj s) =
     (if (case map_of s ''type'' of None \<Rightarrow> False | Some t \<Rightarrow> \<not> check_type v t) then Some False
      else checks
        [Some (enum_check s v), text_checks s v, Some (number_checks rnd s v), Some (required_check s v),
         (case v of
            JObj d \<Rightarrow> (case schema_props s of
                None \<Rightarrow> Some True
              | Some ps \<Rightarrow> checks (map (\<lambda>(k, p). case map_of d k of
                    None \<Rightarrow> Some True | Some w \<Rightarrow> validate_value rnd w p) ps))
          | _ \<Rightarrow> Some True),
         (case v of
            JObj d \<Rightarrow> (case schema_props s of
                None \<Rightarrow> Some True
              | Some ps \<Rightarrow> (case map_of s ''additionalProperties'' of
                    Some (JBool b) \<Rightarrow> Some (b \<or> list_all (\<lambda>(k, w). k \<in> fst ` set ps) d)
                  | Some (JObj a) \<Rightarrow> checks (map (\<lambda>(k, w).
                        if k \<in> fst ` set ps then Some True else validate_value rnd w (JObj a)) d)
                  | _ \<Rightarrow> Some True))
          | _ \<Rightarrow> Some True),
         (case v of
            JList xs \<Rightarrow> (case map_of s ''items'' of
                None \<Rightarrow> Some True
              | Some i \<Rightarrow> checks (map (\<lambda>x. validate_value rnd x i) xs))
          | _ \<Rightarrow> Some True),
         Some (item_count_check s v)])"
| "validate_value rnd v sch = Some True"

definition validate :: "(int \<Rightarrow> real) \<Rightarrow> json \<Rightarrow> json \<Rightarrow> bool option" where
  "validate rnd v sch = validate_value rnd v sch"

declare validate_value.simps [simp del]

section \<open>What a learned schema accepts\<close>

fun value_kind :: "json \<Rightarrow> json_kind" where
  "value_kind JNull = NullK"
| "value_kind (JBool b) = BoolK"
| "value_kind (JInt i) = IntK"
| "value_kind (JFloat r) = NumK"
| "value_kind (JStr s) = TextK"
| "value_kind (JList xs) = ListK"
| "value_kind (JObj d) = DictK"

definition of_kind :: "json \<Rightarrow> json_kind \<Rightarrow> bool" where
  "of_kind v k \<longleftrightarrow> value_kind v = k \<or> (k = NumK \<and> value_kind v = IntK) \<or> (k = IntK \<and> is_whole v)"

fun kinds_accept :: "kinds \<Rightarrow> json \<Rightarrow> bool" where
  "kinds_accept (One k) v = of_kind v k"
| "kinds_accept (Or s t) v = (kinds_accept s v \<or> kinds_accept t v)"

fun accepts :: "shape \<Rightarrow> json \<Rightarrow> bool" where
  "accepts (Atom k) v = of_kind v k"
| "accepts (Union s t) v = kinds_accept (Or s t) v"
| "accepts (TextS n) v = (case v of JStr t \<Rightarrow> (n < 2 ^ 64 \<longrightarrow> utf8_len t \<le> n) | _ \<Rightarrow> False)"
| "accepts (ListS i n) v = (case v of
     JList xs \<Rightarrow> (n < 2 ^ 64 \<longrightarrow> length xs \<le> n) \<and>
       (case i of None \<Rightarrow> True | Some s \<Rightarrow> list_all (accepts s) xs)
   | _ \<Rightarrow> False)"
| "accepts (DictS p r) v = (case v of
     JObj d \<Rightarrow> set r \<subseteq> fst ` set d \<and>
       list_all (\<lambda>(k, s). case map_of d k of None \<Rightarrow> True | Some w \<Rightarrow> accepts s w) p
   | _ \<Rightarrow> False)"

text \<open>The same, where moreover every field of an object is a known one.\<close>

fun fits :: "shape \<Rightarrow> json \<Rightarrow> bool" where
  "fits (ListS i n) v = (case v of
     JList xs \<Rightarrow> (n < 2 ^ 64 \<longrightarrow> length xs \<le> n) \<and>
       (case i of None \<Rightarrow> True | Some s \<Rightarrow> list_all (fits s) xs)
   | _ \<Rightarrow> False)"
| "fits (DictS p r) v = (case v of
     JObj d \<Rightarrow> set r \<subseteq> fst ` set d \<and> fst ` set d \<subseteq> fst ` set p \<and>
       list_all (\<lambda>(k, s). case map_of d k of None \<Rightarrow> True | Some w \<Rightarrow> fits s w) p
   | _ \<Rightarrow> False)"
| "fits s v = accepts s v"

section \<open>The validator on learned schemas\<close>

lemma checks_map: "(\<And>x. x \<in> set xs \<Longrightarrow> f x = Some (g x)) \<Longrightarrow> checks (map f xs) = Some (list_all g xs)"
  by (induction xs) auto

lemma checks_trivial [simp]: "checks (map (\<lambda>x. Some True) xs) = Some True"
  by (induction xs) auto

lemma check_type_kind [simp]: "check_type v (JStr (json_kind_name k)) = of_kind v k"
  by (cases k; cases v) (auto simp: of_kind_def)

declare check_type.simps [simp del]

lemma check_type_kinds [simp]: "check_type v (kinds_json t) = kinds_accept t v"
  by (induction t) (auto simp: check_type.simps(2))

lemmas schema_checks = enum_check_def text_checks_def number_checks_def required_check_def
  schema_props_def item_count_check_def size_checks_def

lemma of_kind_text [simp]: "of_kind v TextK \<longleftrightarrow> (\<exists>t. v = JStr t)"
  by (cases v) (auto simp: of_kind_def)

lemma of_kind_list [simp]: "of_kind v ListK \<longleftrightarrow> (\<exists>xs. v = JList xs)"
  by (cases v) (auto simp: of_kind_def)

lemma of_kind_dict [simp]: "of_kind v DictK \<longleftrightarrow> (\<exists>d. v = JObj d)"
  by (cases v) (auto simp: of_kind_def)

lemma validate_empty [simp]: "validate_value rnd v (JObj []) = Some True"
  by (subst validate_value.simps) (auto simp: schema_checks split: json.split option.split)

lemma check_type_literal [simp]:
  "check_type v (JStr ''string'') \<longleftrightarrow> (\<exists>t. v = JStr t)"
  "check_type v (JStr ''array'') \<longleftrightarrow> (\<exists>xs. v = JList xs)"
  "check_type v (JStr ''object'') \<longleftrightarrow> (\<exists>d. v = JObj d)"
  using check_type_kind [of v TextK] check_type_kind [of v ListK] check_type_kind [of v DictK] by auto

lemma validate_shape: "validate_value rnd v (shape_json s) = Some (accepts s v)"
proof (induction s arbitrary: v)
  case (Atom k)
  then show ?case unfolding shape_json.simps
    by (subst validate_value.simps) (auto simp: schema_checks split: json.split option.split)
next
  case (Union a b)
  then show ?case unfolding shape_json.simps
    by (subst validate_value.simps) (auto simp: schema_checks check_type.simps(2) split: json.split option.split)
next
  case (TextS n)
  then show ?case unfolding shape_json.simps
    by (subst validate_value.simps) (auto simp: schema_checks split: json.split option.split)
next
  case (ListS i n)
  have "checks (map (\<lambda>x. validate_value rnd x (shape_json s)) xs) = Some (list_all (accepts s) xs)"
    if "i = Some s" for s xs
    using ListS.IH that by (intro checks_map) auto
  then show ?case unfolding shape_json.simps
    by (subst validate_value.simps) (auto simp: schema_checks split: json.split option.split)
next
  case (DictS p r)
  have "checks (map (\<lambda>(k, q). case map_of d k of None \<Rightarrow> Some True | Some w \<Rightarrow> validate_value rnd w q)
        (map (\<lambda>(k, s). (k, shape_json s)) p))
      = Some (list_all (\<lambda>(k, s). case map_of d k of None \<Rightarrow> True | Some w \<Rightarrow> accepts s w) p)" for d
    unfolding map_map
    using DictS.IH by (intro checks_map) (auto simp: snds.simps split: option.split)
  then show ?case unfolding shape_json.simps
    by (subst validate_value.simps) (auto simp: schema_checks list_all_iff split: json.split option.split)
qed

section \<open>Joining keeps what was observed\<close>

text \<open>A body from which the validator can learn without loss: no lists, ASCII texts, the keys of
  every object distinct.\<close>

fun plain :: "json \<Rightarrow> bool" where
  "plain (JStr s) = (list_all (\<lambda>c. ord c < 128) s)"
| "plain (JList xs) = False"
| "plain (JObj d) = (distinct (map fst d) \<and> list_all (\<lambda>(k, v). plain v) d)"
| "plain v = True"

lemma utf8_len_ascii: "list_all (\<lambda>c. ord c < 128) s \<Longrightarrow> utf8_len s = length s"
  by (induction s) (auto simp: utf8_len_def)

lemma fits_accepts: "fits s v \<Longrightarrow> accepts s v"
proof (induction s v rule: fits.induct)
  case (1 i n v)
  then show ?case by (auto simp: list_all_iff split: json.splits option.splits)
next
  case (2 p r v)
  then show ?case by (fastforce simp: list_all_iff split: json.splits option.splits)
qed auto

lemma fits_kind: "fits s v \<Longrightarrow> kinds_accept (shape_kinds s) v"
  by (cases s) (auto split: json.splits)

lemma shape_of_wf: "plain v \<Longrightarrow> wf_shape (shape_of v)"
  by (induction v) (auto simp: list_all_iff comp_def case_prod_beta split: list.splits intro: snds.intros)

lemma fits_shape_of: "plain v \<Longrightarrow> fits (shape_of v) v"
proof (induction v)
  case (JObj d)
  have "fits (shape_of w) w" if "(k, w) \<in> set d" for k w
    using that JObj by (auto simp: list_all_iff intro: snds.intros)
  moreover have "map_of d k = Some w" if "(k, w) \<in> set d" for k w
    using that JObj.prems by simp
  ultimately show ?case by (force simp: list_all_iff)
qed (auto simp: of_kind_def utf8_len_ascii)

lemma join_props_keys: "fst ` set (shape_join_props so p q) = fst ` set p \<union> fst ` set q"
proof (induction q arbitrary: p)
  case (Cons x q)
  then show ?case by (cases x) (simp add: dom_update)
qed simp

lemma join_props_map_of:
  "distinct (map fst q) \<Longrightarrow> map_of (shape_join_props so p q) k =
     (case map_of q k of
        None \<Rightarrow> map_of p k
      | Some b \<Rightarrow> Some (case map_of p k of None \<Rightarrow> b | Some a \<Rightarrow> shape_join so a b))"
proof (induction q arbitrary: p)
  case (Cons x q)
  obtain k' b where x: "x = (k', b)" by (cases x)
  with Cons.prems have "map_of q k' = None" by (simp add: map_of_eq_None_iff)
  with Cons x show ?case by (simp add: update_conv' split: option.split)
qed simp

lemma fits_join_left:
  shows "order_ok so \<Longrightarrow> fits a v \<Longrightarrow> fits (shape_join so a b) v"
    and "order_ok so \<Longrightarrow> fst ` set d \<subseteq> fst ` set p \<Longrightarrow>
      list_all (\<lambda>(k, s). case map_of d k of None \<Rightarrow> True | Some w \<Rightarrow> fits s w) p \<Longrightarrow>
      list_all (\<lambda>(k, s). case map_of d k of None \<Rightarrow> True | Some w \<Rightarrow> fits s w) (shape_join_props so p q)"
proof (induction so a b and so p q arbitrary: v and d rule: shape_join_shape_join_props.induct)
  case (1 so a b)
  show ?case
  proof (cases "shape_kinds a = shape_kinds b")
    case False
    with 1 show ?thesis by (simp add: shape_join.simps fits_kind)
  next
    case True
    show ?thesis
    proof (cases "\<exists>p r1 q r2. a = DictS p r1 \<and> b = DictS q r2")
      case True
      then obtain p r1 q r2 where ab: "a = DictS p r1" "b = DictS q r2" by blast
      from "1.prems" ab obtain d where d: "v = JObj d" "set r1 \<subseteq> fst ` set d" by (auto split: json.splits)
      then have "set (text_order so (filter (\<lambda>x. x \<in> set r2) (remdups r1))) \<subseteq> fst ` set d"
        using "1.prems"(1) by (auto simp: text_order_set)
      with 1 ab d show ?thesis by (auto simp: shape_join.simps join_props_keys)
    next
      case no_dict: False
      with True 1 show ?thesis
        by (cases b; cases a) (auto simp: shape_join.simps split: json.splits)
    qed
  qed
next
  case (3 so ps k b r)
  have "case map_of d k of None \<Rightarrow> True
      | Some w \<Rightarrow> fits (case map_of ps k of None \<Rightarrow> b | Some a \<Rightarrow> shape_join so a b) w"
  proof (cases "map_of d k")
    case (Some w)
    then have "k \<in> fst ` set ps"
      using "3.prems"(2) by (metis domI dom_map_of_conv_image_fst subsetD)
    then obtain a where a: "map_of ps k = Some a" by (cases "map_of ps k") (auto simp: map_of_eq_None_iff)
    with "3.prems"(3) Some have "fits a w" by (auto dest!: all_map_of)
    with a Some "3.IH"(1) "3.prems"(1) show ?thesis by simp
  qed simp
  then have "list_all (\<lambda>(k, s). case map_of d k of None \<Rightarrow> True | Some w \<Rightarrow> fits s w)
      (AList.update k (case map_of ps k of None \<Rightarrow> b | Some a \<Rightarrow> shape_join so a b) ps)"
    by (rule all_update [OF "3.prems"(3)])
  moreover have "fst ` set d \<subseteq>
      fst ` set (AList.update k (case map_of ps k of None \<Rightarrow> b | Some a \<Rightarrow> shape_join so a b) ps)"
    using "3.prems"(2) by (auto simp: dom_update)
  ultimately show ?case
    using "3.IH"(2) [OF "3.prems"(1)] by simp
qed simp

lemma atom_kind: "shape_kinds a = One k \<Longrightarrow> k \<notin> {TextK, ListK, DictK} \<Longrightarrow> a = Atom k"
  by (cases a) auto

lemma fits_join_right:
  assumes "order_ok so"
  shows "plain v \<Longrightarrow> wf_shape a \<Longrightarrow> fits (shape_join so a (shape_of v)) v"
proof (induction v arbitrary: a)
  case (JObj d)
  let ?q = "map (\<lambda>(k, w). (k, shape_of w)) d"
  have q: "distinct (map fst ?q)" "fst ` set ?q = fst ` set d" "map_of ?q k = map_option shape_of (map_of d k)" for k
    using JObj.prems(1) by (auto simp: comp_def case_prod_beta map_of_props image_image)
  have plain: "plain w" if "map_of d k = Some w" for k w
    using that JObj.prems(1) by (auto dest!: all_map_of)
  show ?case
  proof (cases "shape_kinds a = One DictK")
    case False
    then show ?thesis by (simp add: shape_join.simps)
  next
    case True
    with JObj.prems(2) obtain p r where a: "a = DictS p r" by (cases a) auto
    have "fits s w" if "(k, s) \<in> set (shape_join_props so p ?q)" "map_of d k = Some w" for k s w
    proof -
      have "distinct (map fst (shape_join_props so p ?q))"
        using a JObj.prems(2) by (simp add: join_props_distinct)
      with that(1) have "map_of (shape_join_props so p ?q) k = Some s" by simp
      then have s: "s = (case map_of p k of None \<Rightarrow> shape_of w | Some b \<Rightarrow> shape_join so b (shape_of w))"
        using q that(2) by (simp add: join_props_map_of)
      have "wf_shape b" if "map_of p k = Some b" for b
        using that a JObj.prems(2) by (auto dest: all_map_of)
      moreover have "fits (shape_join so b (shape_of w)) w" if "wf_shape b" for b
        using that \<open>map_of d k = Some w\<close> plain [OF \<open>map_of d k = Some w\<close>] JObj.IH
        by (auto dest!: map_of_SomeD intro: snds.intros)
      ultimately show ?thesis
        using s plain [OF that(2)] by (auto simp: fits_shape_of split: option.split)
    qed
    then have "list_all (\<lambda>(k, s). case map_of d k of None \<Rightarrow> True | Some w \<Rightarrow> fits s w)
        (shape_join_props so p ?q)"
      by (auto simp: list_all_iff split: option.split)
    with a q show ?thesis
      by (auto simp: shape_join.simps join_props_keys text_order_set [OF assms])
  qed
qed (use assms in \<open>auto simp: shape_join.simps of_kind_def utf8_len_ascii dest!: atom_kind split: shape.splits\<close>)

end
