(* ===== verification/SchemaLearning.thy ===== *)
theory SchemaLearning imports SchemaCheck begin

text \<open>
  The rows of API schemas and what is done with them: \<open>merge_learned_schema\<close>,
  \<open>get_schema_for_endpoint\<close> of \<open>services/api_armor_schemas.py\<close>, and the log sampler of \<open>services/api_armor_schema_learner.py\<close>.  A query without an order returns the rows
  in the order of the table.  The log is a text of one-byte characters, so that an offset counts
  characters.

  Theorems: a learned schema accepts every sample it was learned from if the samples are plain
  (\<open>learned_schema_accepts_samples\<close>); exactly which first sample its own schema accepts
  (\<open>own_schema_accepts_iff\<close>); a list of types grows with every sample (\<open>union_grows\<close>).
\<close>

section \<open>Rows\<close>

record api_schema =
  as_name :: string
  as_method :: string
  as_path :: string
  as_schema :: json
  as_spec_id :: "int option"
  as_source :: string
  as_enabled :: bool
  as_sample_count :: "int option"
  as_created_at :: real

definition learned_row :: "string \<Rightarrow> string \<Rightarrow> api_schema \<Rightarrow> bool" where
  "learned_row m p r \<longleftrightarrow> as_method r = m \<and> as_path r = p \<and> as_source r = ''learned''"

fun update_first :: "('a \<Rightarrow> bool) \<Rightarrow> ('a \<Rightarrow> 'a) \<Rightarrow> 'a list \<Rightarrow> 'a list" where
  "update_first P f [] = []"
| "update_first P f (x # xs) = (if P x then f x # xs else x # update_first P f xs)"

text \<open>The rows after the call; an exception leaves them to the caller's rollback.\<close>

definition merge_learned_schema ::
  "(json list \<Rightarrow> json list) \<Rightarrow> real \<Rightarrow> api_schema list \<Rightarrow> string \<Rightarrow> string \<Rightarrow> json \<Rightarrow> api_schema list res" where
  "merge_learned_schema so now db method path body =
     (let m = py_upper method; new = infer_schema body in
      case List.find (learned_row m path) db of
        Some r \<Rightarrow>
          bind_res (merge_schemas so (if py_truthy (as_schema r) then as_schema r else JObj []) new) (\<lambda>s.
            Inr (update_first (learned_row m path)
              (\<lambda>r. r\<lparr>as_schema := s, as_sample_count := Some (or_default (as_sample_count r) 0 + 1)\<rparr>) db))
      | None \<Rightarrow>
          Inr (db @ [\<lparr>as_name = ''learned:'' @ m @ '' '' @ path, as_method = m, as_path = path,
             as_schema = new, as_spec_id = None, as_source = ''learned'', as_enabled = True,
             as_sample_count = Some 1, as_created_at = now\<rparr>]))"

section \<open>The sampler\<close>

definition MAX_BODY_SAMPLE_SIZE :: nat where "MAX_BODY_SAMPLE_SIZE = 4096"

fun truncate_body_sample :: "json \<Rightarrow> json" where
  "truncate_body_sample (JObj d) = JObj (map (\<lambda>(k, v). (k, case v of
       JStr s \<Rightarrow> if MAX_BODY_SAMPLE_SIZE < length s then JStr (take MAX_BODY_SAMPLE_SIZE s)
         else truncate_body_sample v
     | _ \<Rightarrow> truncate_body_sample v)) d)"
| "truncate_body_sample (JList xs) =
     (case xs of [] \<Rightarrow> JList [] | x # _ \<Rightarrow> JList [truncate_body_sample x])"
| "truncate_body_sample v = v"

text \<open>The body that an entry of the log offers.\<close>

definition sampled_body :: "json dict \<Rightarrow> json option" where
  "sampled_body e =
     (let body = dict_get e ''body_sample'' JNull; g = dict_get e ''graphql'' JNull in
      if body \<noteq> JNull then Some body
      else if py_truthy g \<and> is_obj g then
        Some (let v = jget_or_null g ''variables'' in if py_truthy v then v else g)
      else None)"

text \<open>A method or a path that is not a text fails inside the \<open>try\<close>: \<open>upper\<close> raises, the
  database refuses the comparison.\<close>

definition ingest_schema_learning_entry ::
  "(json list \<Rightarrow> json list) \<Rightarrow> real \<Rightarrow> api_schema list \<Rightarrow> json \<Rightarrow> api_schema list res" where
  "ingest_schema_learning_entry so now db entry = bind_res (dict_items entry) (\<lambda>e.
     (let method = dict_get e ''method'' (JStr []); path = dict_get e ''path'' (JStr []) in
      if \<not> py_truthy method \<or> \<not> py_truthy path then Inr db
      else case sampled_body e of
        None \<Rightarrow> Inr db
      | Some body \<Rightarrow>
          if \<not> is_obj body then Inr db
          else (case (method, path) of
              (JStr m, JStr p) \<Rightarrow>
                (case merge_learned_schema so now db m p (truncate_body_sample body) of
                   Inl x \<Rightarrow> Inr db
                 | Inr db' \<Rightarrow> Inr db')
            | _ \<Rightarrow> Inr db)))"

text \<open>The new lines; the flag says whether all of them were read.\<close>

fun learn_lines ::
  "engine \<Rightarrow> (json list \<Rightarrow> json list) \<Rightarrow> real \<Rightarrow> api_schema list \<Rightarrow> string list \<Rightarrow> api_schema list \<times> bool" where
  "learn_lines E so now db [] = (db, True)"
| "learn_lines E so now db (l # ls) =
     (if strip l = [] then learn_lines E so now db ls
      else case json_loads E (strip l) of
        None \<Rightarrow> learn_lines E so now db ls
      | Some entry \<Rightarrow>
          (case ingest_schema_learning_entry so now db entry of
             Inl x \<Rightarrow> (db, False)
           | Inr db' \<Rightarrow> learn_lines E so now db' ls))"

text \<open>One pass over the log, \<open>None\<close> while there is no file.  An exception of a line that is JSON
  but no object leaves the offset where it was.\<close>

definition process_new_lines ::
  "engine \<Rightarrow> (json list \<Rightarrow> json list) \<Rightarrow> real \<Rightarrow> string option \<Rightarrow> nat \<times> api_schema list \<Rightarrow>
     nat \<times> api_schema list" where
  "process_new_lines E so now file st = (case (file, st) of
       (None, _) \<Rightarrow> st
     | (Some txt, off, db) \<Rightarrow>
         (let off = (if length txt < off then 0 else off) in
          if length txt = off then (off, db)
          else case learn_lines E so now db (split_char newline (drop off txt)) of
            (db', all) \<Rightarrow> (if all then length txt else off, db')))"

definition prune_learned_schemas :: "real \<Rightarrow> api_schema list \<Rightarrow> int \<Rightarrow> api_schema list \<times> nat" where
  "prune_learned_schemas now db retention_days =
     (if retention_days \<le> 0 then (db, 0)
      else let cutoff = now - 86400 * real_of_int retention_days;
               old = (\<lambda>r. as_source r = ''learned'' \<and> as_created_at r < cutoff)
           in (filter (\<lambda>r. \<not> old r) db, length (filter old db)))"

text \<open>At most once an hour of the monotonic clock.\<close>

definition prune_old_schemas ::
  "real \<Rightarrow> real \<Rightarrow> int \<Rightarrow> real \<times> api_schema list \<Rightarrow> real \<times> api_schema list" where
  "prune_old_schemas clock now retention_days st = (case st of (last_prune_at, db) \<Rightarrow>
     if clock - last_prune_at < 3600 then st else (clock, fst (prune_learned_schemas now db retention_days)))"

section \<open>The schema of an endpoint\<close>

text \<open>\<open>re.sub(r"\{([^}]+)\}", r":\1", path)\<close> and the regular expression of a pattern.\<close>

function normalize_openapi_path :: "string \<Rightarrow> string" where
  "normalize_openapi_path [] = []"
| "normalize_openapi_path (c # r) =
     (let name = takeWhile (\<lambda>x. x \<noteq> CHR ''}'') r; behind = dropWhile (\<lambda>x. x \<noteq> CHR ''}'') r in
      if c = CHR ''{'' \<and> name \<noteq> [] \<and> behind \<noteq> []
      then CHR '':'' # name @ normalize_openapi_path (tl behind)
      else c # normalize_openapi_path r)"
  by pat_completeness auto
termination
proof (relation "measure length", goal_cases)
  case (2 c r name behind)
  then have "length (tl behind) < length behind" "length behind \<le> length r"
    by (auto intro: length_dropWhile_le)
  then show ?case by simp
qed auto

function wildcard_regex :: "string \<Rightarrow> string" where
  "wildcard_regex [] = []"
| "wildcard_regex (c # r) =
     (if c = CHR '':'' \<and> takeWhile (\<lambda>x. x \<noteq> CHR ''/'') r \<noteq> []
      then ''[^/]+'' @ wildcard_regex (dropWhile (\<lambda>x. x \<noteq> CHR ''/'') r)
      else c # wildcard_regex r)"
  by pat_completeness auto
termination by (relation "measure length") (auto intro: le_imp_less_Suc length_dropWhile_le)

definition path_regex :: "string \<Rightarrow> string" where
  "path_regex pattern = ''^'' @ wildcard_regex pattern @ ''$''"

text \<open>\<open>re.match\<close>: the first match must begin the text.\<close>

definition re_match :: "engine \<Rightarrow> string \<Rightarrow> string \<Rightarrow> bool res" where
  "re_match E p s =
     (if re_compiles E p then Inr (case fst (re_finditer E 0 p s) of [] \<Rightarrow> False | (pre, m) # _ \<Rightarrow> pre = [])
      else Inl RegexError)"

definition path_matches :: "engine \<Rightarrow> string \<Rightarrow> string \<Rightarrow> bool res" where
  "path_matches E pattern path = re_match E (path_regex pattern) path"

fun first_pattern :: "engine \<Rightarrow> string \<Rightarrow> api_schema list \<Rightarrow> json option res" where
  "first_pattern E path [] = Inr None"
| "first_pattern E path (r # rs) = bind_res (path_matches E (as_path r) path) (\<lambda>b.
     if b then Inr (Some (as_schema r)) else first_pattern E path rs)"

text \<open>The first of the rows whose source is the greatest text, \<open>order_by(source.desc()).first()\<close>.\<close>

fun best_source :: "api_schema list \<Rightarrow> api_schema option" where
  "best_source [] = None"
| "best_source (r # rs) = (case best_source rs of
     None \<Rightarrow> Some r
   | Some q \<Rightarrow> Some (if text_less (as_source r) (as_source q) then q else r))"

definition get_schema_for_endpoint :: "engine \<Rightarrow> api_schema list \<Rightarrow> string \<Rightarrow> string \<Rightarrow> json option res" where
  "get_schema_for_endpoint E db method path =
     (let rows = filter (\<lambda>r. as_method r = py_upper method \<and> as_enabled r) db in
      case best_source (filter (\<lambda>r. as_path r = path) rows) of
        Some r \<Rightarrow> Inr (Some (as_schema r))
      | None \<Rightarrow> first_pattern E (normalize_openapi_path path) rows)"

section \<open>The first sample\<close>

text \<open>Objects have distinct keys and texts fit the memory.\<close>

fun body_ok :: "json \<Rightarrow> bool" where
  "body_ok (JStr s) = (length s < 2 ^ 64)"
| "body_ok (JList xs) = (length xs < 2 ^ 64 \<and> list_all body_ok xs)"
| "body_ok (JObj d) = (distinct (map fst d) \<and> list_all (\<lambda>(k, v). body_ok v) d)"
| "body_ok v = True"

definition ascii :: "string \<Rightarrow> bool" where
  "ascii s \<longleftrightarrow> list_all (\<lambda>c. ord c < 128) s"

text \<open>The samples whose own schema accepts them: ASCII texts, no longer than the cap where they
  are fields of an object, and lists of at most one element.\<close>

fun own_ok :: "json \<Rightarrow> bool" where
  "own_ok (JStr s) = ascii s"
| "own_ok (JList xs) = (length xs \<le> 1 \<and> list_all own_ok xs)"
| "own_ok (JObj d) = list_all (\<lambda>(k, v). own_ok v \<and>
     (case v of JStr s \<Rightarrow> length s \<le> MAX_BODY_SAMPLE_SIZE | _ \<Rightarrow> True)) d"
| "own_ok v = True"

lemma utf8_len_ge: "length s \<le> utf8_len s"
  by (induction s) (auto simp: utf8_len_def)

lemma utf8_len_le_iff: "utf8_len s \<le> length s \<longleftrightarrow> ascii s"
proof (induction s)
  case (Cons c s)
  have "length s \<le> utf8_len s" by (rule utf8_len_ge)
  with Cons show ?case by (auto simp: utf8_len_def ascii_def)
qed (simp add: utf8_len_def ascii_def)

abbreviation sampled_field :: "json \<Rightarrow> json" where
  "sampled_field v \<equiv> (case v of
       JStr s \<Rightarrow> if MAX_BODY_SAMPLE_SIZE < length s then JStr (take MAX_BODY_SAMPLE_SIZE s)
         else truncate_body_sample v
     | _ \<Rightarrow> truncate_body_sample v)"

lemma accepts_field:
  assumes "accepts (shape_of (truncate_body_sample v)) v = own_ok v"
  shows "accepts (shape_of (sampled_field v)) v =
     (own_ok v \<and> (case v of JStr s \<Rightarrow> length s \<le> MAX_BODY_SAMPLE_SIZE | _ \<Rightarrow> True))"
proof (cases v)
  case (JStr s)
  show ?thesis
  proof (cases "MAX_BODY_SAMPLE_SIZE < length s")
    case True
    then have "\<not> utf8_len s \<le> MAX_BODY_SAMPLE_SIZE" using utf8_len_ge [of s] by simp
    with True JStr show ?thesis by (auto simp: MAX_BODY_SAMPLE_SIZE_def)
  next
    case False
    with JStr assms show ?thesis by simp
  qed
qed (use assms in simp_all)

lemma accepts_own: "body_ok v \<Longrightarrow> accepts (shape_of (truncate_body_sample v)) v = own_ok v"
proof (induction v)
  case (JStr s)
  then show ?case by (simp add: utf8_len_le_iff)
next
  case (JList xs)
  then show ?case by (cases xs) (auto simp: list_all_iff)
next
  case (JObj d)
  have "(case map_of d k of None \<Rightarrow> True | Some w \<Rightarrow> accepts (shape_of (sampled_field v)) w) =
      (own_ok v \<and> (case v of JStr s \<Rightarrow> length s \<le> MAX_BODY_SAMPLE_SIZE | _ \<Rightarrow> True))"
    if "(k, v) \<in> set d" for k v
  proof -
    have "body_ok v" using JObj.prems that by (auto simp: list_all_iff)
    then have "accepts (shape_of (truncate_body_sample v)) v = own_ok v"
      using JObj.IH that by (auto intro: snds.intros)
    moreover have "map_of d k = Some v" using that JObj.prems by simp
    ultimately show ?thesis using accepts_field by simp
  qed
  then have "list_all (\<lambda>(k, s). case map_of d k of None \<Rightarrow> True | Some w \<Rightarrow> accepts s w)
        (map (\<lambda>(k, v). (k, shape_of (sampled_field v))) d) = own_ok (JObj d)"
    by (auto simp: list_all_iff)
  moreover have "shape_of (truncate_body_sample (JObj d)) =
      DictS (map (\<lambda>(k, v). (k, shape_of (sampled_field v))) d) (map fst d)"
    by (simp add: comp_def case_prod_beta)
  ultimately show ?case by (simp del: truncate_body_sample.simps shape_of.simps)
qed (auto simp: of_kind_def)

text \<open>C22: The schema learned from the first sample of an endpoint accepts that very body exactly if
  its texts are ASCII, its text fields are no longer than the cap and its lists have at most one
  element: every other client body is refused by the schema that was learned from it.\<close>

theorem own_schema_accepts_iff:
  "body_ok v \<Longrightarrow> validate rnd v (infer_schema (truncate_body_sample v)) = Some (own_ok v)"
  by (simp add: validate_def shape_of_json validate_shape accepts_own)

theorem own_schema_accepts_iff_witness:
  "validate of_int (JObj [(''tags'', JList [JInt 1, JInt 2])])
     (infer_schema (truncate_body_sample (JObj [(''tags'', JList [JInt 1, JInt 2])]))) = Some False \<and>
   validate of_int (JObj [(''tags'', JList [JInt 1])])
     (infer_schema (truncate_body_sample (JObj [(''tags'', JList [JInt 1])]))) = Some True"
  using own_schema_accepts_iff [of "JObj [(''tags'', JList [JInt 1, JInt 2])]" of_int]
    own_schema_accepts_iff [of "JObj [(''tags'', JList [JInt 1])]" of_int] by simp

section \<open>Many samples\<close>

text \<open>The entries of one endpoint, one after the other.\<close>

definition entry_of :: "string \<Rightarrow> string \<Rightarrow> json \<Rightarrow> json" where
  "entry_of m p body = JObj [(''method'', JStr m), (''path'', JStr p), (''body_sample'', body)]"

fun learn_entries ::
  "(json list \<Rightarrow> json list) \<Rightarrow> real \<Rightarrow> api_schema list \<Rightarrow> json list \<Rightarrow> api_schema list res" where
  "learn_entries so now db [] = Inr db"
| "learn_entries so now db (e # es) =
     bind_res (ingest_schema_learning_entry so now db e) (\<lambda>db'. learn_entries so now db' es)"

text \<open>A sample that the sampler keeps whole and whose content is plain.\<close>

definition learnable :: "json \<Rightarrow> bool" where
  "learnable v \<longleftrightarrow> is_obj v \<and> plain v \<and> truncate_body_sample v = v"

lemma find_update_first:
  assumes "\<And>x. P x \<Longrightarrow> P (f x)"
  shows "List.find P (update_first P f xs) = map_option f (List.find P xs)"
  using assms by (induction xs) auto

lemma learned_row_update [simp]:
  "learned_row m p (r\<lparr>as_schema := s, as_sample_count := n\<rparr>) = learned_row m p r"
  by (simp add: learned_row_def)

lemma shape_json_truthy [simp]: "py_truthy (shape_json s)"
  by (cases s) auto

lemma ingest_step:
  assumes "m \<noteq> []" "p \<noteq> []" "learnable v"
  shows "ingest_schema_learning_entry so now db (entry_of m p v) =
     Inr (case merge_learned_schema so now db m p v of Inl x \<Rightarrow> db | Inr db' \<Rightarrow> db')"
  using assms
  by (cases v) (auto simp: ingest_schema_learning_entry_def entry_of_def sampled_body_def learnable_def
      dict_get_Cons dict_get_Nil split: sum.split)

lemma ingest_known:
  assumes "order_ok so" "m \<noteq> []" "p \<noteq> []" "learnable v"
    and row: "List.find (learned_row (py_upper m) p) db = Some r" "as_schema r = shape_json s" "wf_shape s"
  obtains db' r' where "ingest_schema_learning_entry so now db (entry_of m p v) = Inr db'"
    "List.find (learned_row (py_upper m) p) db' = Some r'"
    "as_schema r' = shape_json (shape_join so s (shape_of v))"
    "as_sample_count r' = Some (or_default (as_sample_count r) 0 + 1)"
proof -
  have "merge_schemas so (shape_json s) (infer_schema v) = Inr (shape_json (shape_join so s (shape_of v)))"
    using assms by (simp add: shape_of_json join_refined shape_of_wf learnable_def)
  then have ingest: "ingest_schema_learning_entry so now db (entry_of m p v) =
      Inr (update_first (learned_row (py_upper m) p) (\<lambda>r. r\<lparr>
        as_schema := shape_json (shape_join so s (shape_of v)),
        as_sample_count := Some (or_default (as_sample_count r) 0 + 1)\<rparr>) db)"
    using assms by (simp add: ingest_step merge_learned_schema_def)
  have "List.find (learned_row (py_upper m) p) (update_first (learned_row (py_upper m) p) (\<lambda>r. r\<lparr>
        as_schema := shape_json (shape_join so s (shape_of v)),
        as_sample_count := Some (or_default (as_sample_count r) 0 + 1)\<rparr>) db) =
      Some (r\<lparr>as_schema := shape_json (shape_join so s (shape_of v)),
        as_sample_count := Some (or_default (as_sample_count r) 0 + 1)\<rparr>)"
    by (simp add: find_update_first row)
  from that [OF ingest this] show ?thesis by simp
qed

lemma ingest_new:
  assumes "m \<noteq> []" "p \<noteq> []" "learnable v" "List.find (learned_row (py_upper m) p) db = None"
  obtains db' r' where "ingest_schema_learning_entry so now db (entry_of m p v) = Inr db'"
    "List.find (learned_row (py_upper m) p) db' = Some r'"
    "as_schema r' = shape_json (shape_of v)" "as_sample_count r' = Some 1"
proof -
  let ?r = "\<lparr>as_name = ''learned:'' @ py_upper m @ '' '' @ p, as_method = py_upper m, as_path = p,
     as_schema = shape_json (shape_of v), as_spec_id = None, as_source = ''learned'',
     as_enabled = True, as_sample_count = Some 1, as_created_at = now\<rparr>"
  have ingest: "ingest_schema_learning_entry so now db (entry_of m p v) = Inr (db @ [?r])"
    using assms by (simp add: ingest_step merge_learned_schema_def shape_of_json Let_def)
  have "List.find (learned_row (py_upper m) p) (db @ [?r]) = Some ?r"
    using assms(4) by (simp add: find_append learned_row_def)
  from that [OF ingest this] show ?thesis by simp
qed

lemma learn_known:
  assumes "order_ok so" "m \<noteq> []" "p \<noteq> []"
  shows "list_all learnable vs \<Longrightarrow> List.find (learned_row (py_upper m) p) db = Some r \<Longrightarrow>
     as_schema r = shape_json s \<Longrightarrow> wf_shape s \<Longrightarrow> as_sample_count r = Some n \<Longrightarrow>
     list_all (fits s) seen \<Longrightarrow>
     \<exists>db' r' s'. learn_entries so now db (map (entry_of m p) vs) = Inr db' \<and>
       List.find (learned_row (py_upper m) p) db' = Some r' \<and> as_schema r' = shape_json s' \<and>
       as_sample_count r' = Some (n + int (length vs)) \<and> list_all (fits s') (seen @ vs)"
proof (induction vs arbitrary: db r s n seen)
  case (Cons v vs)
  obtain db1 r1 where 1: "ingest_schema_learning_entry so now db (entry_of m p v) = Inr db1"
    "List.find (learned_row (py_upper m) p) db1 = Some r1"
    "as_schema r1 = shape_json (shape_join so s (shape_of v))" "as_sample_count r1 = Some (n + 1)"
    using Cons.prems ingest_known [OF assms, of v db r s now] by (auto simp: or_default_def)
  have v: "plain v" using Cons.prems by (simp add: learnable_def)
  have "wf_shape (shape_join so s (shape_of v))"
    using Cons.prems v by (simp add: join_wf shape_of_wf)
  moreover have "list_all (fits (shape_join so s (shape_of v))) (seen @ [v])"
    using Cons.prems v assms(1)
    by (auto simp: list_all_iff fits_join_left fits_join_right)
  moreover have "list_all learnable vs" using Cons.prems by simp
  ultimately show ?case
    using Cons.IH [of db1 r1 "shape_join so s (shape_of v)" "n + 1" "seen @ [v]"] 1
    by (simp add: add.assoc)
qed auto

text \<open>C21: From any number of plain samples of an endpoint (objects without lists, with ASCII texts
  within the cap) the sampler learns one schema, which counts the samples and with which the
  proxy's validator accepts every one of them, also where their fields differ in presence or type.\<close>

theorem learned_schema_accepts_samples:
  assumes "order_ok so" "m \<noteq> []" "p \<noteq> []" "list_all learnable (v # vs)"
    and "List.find (learned_row (py_upper m) p) db = None"
  shows "\<exists>db' r. learn_entries so now db (map (entry_of m p) (v # vs)) = Inr db' \<and>
     List.find (learned_row (py_upper m) p) db' = Some r \<and>
     as_sample_count r = Some (1 + int (length vs)) \<and>
     list_all (\<lambda>b. validate rnd b (as_schema r) = Some True) (v # vs)"
proof -
  have v: "plain v" "learnable v" using assms(4) by (auto simp: learnable_def)
  obtain db1 r1 where 1: "ingest_schema_learning_entry so now db (entry_of m p v) = Inr db1"
    "List.find (learned_row (py_upper m) p) db1 = Some r1"
    "as_schema r1 = shape_json (shape_of v)" "as_sample_count r1 = Some 1"
    using ingest_new [OF assms(2,3) v(2) assms(5)] by blast
  have "list_all (fits (shape_of v)) [v]" using v by (simp add: fits_shape_of)
  from learn_known [OF assms(1-3) _ 1(2,3) _ 1(4) this, of vs now]
  show ?thesis
    using assms(4) v 1(1)
    by (fastforce simp: shape_of_wf validate_def validate_shape list_all_iff dest: fits_accepts)
qed

theorem learned_schema_accepts_samples_witness:
  "\<exists>db' r. learn_entries id 0 [] (map (entry_of ''POST'' ''/a'')
       [JObj [(''x'', JInt 1)], JObj [(''x'', JStr ''b''), (''y'', JNull)]]) = Inr db' \<and>
     List.find (learned_row (py_upper ''POST'') ''/a'') db' = Some r \<and>
     as_sample_count r = Some (1 + int (length [JObj [(''x'', JStr ''b''), (''y'', JNull)]])) \<and>
     list_all (\<lambda>b. validate of_int b (as_schema r) = Some True)
       [JObj [(''x'', JInt 1)], JObj [(''x'', JStr ''b''), (''y'', JNull)]]"
  by (rule learned_schema_accepts_samples)
    (simp_all add: order_ok_def learnable_def ord_def MAX_BODY_SAMPLE_SIZE_def)

section \<open>Differing types\<close>

fun kinds_depth :: "kinds \<Rightarrow> nat" where
  "kinds_depth (One k) = 0"
| "kinds_depth (Or s t) = Suc (max (kinds_depth s) (kinds_depth t))"

lemma shape_of_kinds: "shape_kinds (shape_of v) = One (value_kind v)"
  by (cases v) auto

lemma join_union:
  "map_of p k = Some (Union s t) \<Longrightarrow> distinct (map fst d) \<Longrightarrow> map_of d k = Some w \<Longrightarrow>
   map_of (shape_join_props so p (map (\<lambda>(k, v). (k, shape_of v)) d)) k
     = Some (Union (Or s t) (One (value_kind w)))"
  by (simp add: join_props_map_of map_of_props comp_def case_prod_beta shape_join.simps shape_of_kinds)

definition has_key :: "string \<Rightarrow> json \<Rightarrow> bool" where
  "has_key k v \<longleftrightarrow> (case v of JObj d \<Rightarrow> k \<in> fst ` set d | _ \<Rightarrow> False)"

text \<open>Once the samples of an endpoint have shown a field with two types, every further plain
  sample with that field nests the field's list of types one level deeper, whatever its type:
  the learned schema grows without bound.\<close>

theorem union_grows:
  assumes "order_ok so" "m \<noteq> []" "p \<noteq> []"
  shows "list_all learnable vs \<Longrightarrow> list_all (has_key k) vs \<Longrightarrow>
     List.find (learned_row (py_upper m) p) db = Some r \<Longrightarrow>
     as_schema r = shape_json (DictS ps q) \<Longrightarrow> wf_shape (DictS ps q) \<Longrightarrow> map_of ps k = Some (Union s t) \<Longrightarrow>
     \<exists>db' r' ps' q' s' t'. learn_entries so now db (map (entry_of m p) vs) = Inr db' \<and>
       List.find (learned_row (py_upper m) p) db' = Some r' \<and>
       as_schema r' = shape_json (DictS ps' q') \<and> map_of ps' k = Some (Union s' t') \<and>
       kinds_depth (Or s' t') = kinds_depth (Or s t) + length vs"
proof (induction vs arbitrary: db r ps q s t)
  case (Cons v vs)
  from Cons.prems(1,2) obtain d w where d: "v = JObj d" "distinct (map fst d)" "map_of d k = Some w"
    "learnable v" "plain v"
    by (cases v) (auto simp: learnable_def has_key_def)
  let ?d = "map (\<lambda>(k, v). (k, shape_of v)) d"
  let ?s = "shape_join so (DictS ps q) (shape_of v)"
  obtain q1 where s: "?s = DictS (shape_join_props so ps ?d) q1"
    using d by (simp add: shape_join.simps)
  obtain db1 r1 where 1: "ingest_schema_learning_entry so now db (entry_of m p v) = Inr db1"
    "List.find (learned_row (py_upper m) p) db1 = Some r1" "as_schema r1 = shape_json ?s"
    using ingest_known [OF assms d(4) Cons.prems(3,4,5), of now] by blast
  have "wf_shape ?s" using Cons.prems(5) d(5) by (simp add: join_wf shape_of_wf)
  then show ?case
    using Cons.IH [OF _ _ 1(2), of "shape_join_props so ps ?d" q1 "Or s t" "One (value_kind w)"]
      Cons.prems(1,2) 1 s join_union [OF Cons.prems(6) d(2,3)]
    by (auto simp: max_def split: if_splits)
qed auto

text \<open>An endpoint whose field \<open>x\<close> has been an integer and a text.\<close>

definition mixed_row :: api_schema where
  "mixed_row = \<lparr>as_name = ''learned:POST /a'', as_method = ''POST'', as_path = ''/a'',
     as_schema = shape_json (DictS [(''x'', Union (One IntK) (One TextK))] [''x'']),
     as_spec_id = None, as_source = ''learned'', as_enabled = True, as_sample_count = Some 2,
     as_created_at = 0\<rparr>"

theorem union_grows_witness:
  "\<exists>db' r' ps' q' s' t'. learn_entries id 0 [mixed_row]
       (map (entry_of ''POST'' ''/a'') [JObj [(''x'', JInt 1)], JObj [(''x'', JInt 2)]]) = Inr db' \<and>
     List.find (learned_row (py_upper ''POST'') ''/a'') db' = Some r' \<and>
     as_schema r' = shape_json (DictS ps' q') \<and> map_of ps' ''x'' = Some (Union s' t') \<and>
     kinds_depth (Or s' t') = kinds_depth (Or (One IntK) (One TextK))
       + length [JObj [(''x'', JInt 1)], JObj [(''x'', JInt 2)]]"
  by (rule union_grows [where r = mixed_row and ps = "[(''x'', Union (One IntK) (One TextK))]" and q = "[''x'']"])
    (simp_all add: order_ok_def learnable_def has_key_def mixed_row_def learned_row_def py_upper_def ord_def)

end
