(* ===== verification/OpenApiRefs.thy ===== *)
theory OpenApiRefs imports SchemaLearning begin

text \<open>
  Import of an OpenAPI document, \<open>services/api_armor_schemas.py\<close>: the resolution of \<open>$ref\<close> and the
  request schemas of its endpoints.  The fuel is what is left of Python's recursion limit; at 0
  the code raises \<open>RecursionError\<close>.

  \<open>resolved_ref_free\<close>: if the references do not go round in a circle, enough stack gives a
  schema without references; \<open>recursive_schema_never_imports\<close>: a schema that contains itself
  raises at every limit.
\<close>

section \<open>References\<close>

definition ref_key :: string where "ref_key = ''$ref''"

text \<open>The walk along the parts of a reference, \<open>None\<close> where it leaves the document.\<close>

fun walk_ref :: "json \<Rightarrow> string list \<Rightarrow> json option" where
  "walk_ref cur [] = Some cur"
| "walk_ref cur (p # ps) = (case jget cur p of None \<Rightarrow> None | Some v \<Rightarrow> walk_ref v ps)"

definition ref_parts :: "string \<Rightarrow> string list" where
  "ref_parts ref = split_char CHR ''/'' (dropWhile (\<lambda>c. c = CHR ''#'' \<or> c = CHR ''/'') ref)"

definition ref_root :: "json \<Rightarrow> json" where
  "ref_root comps = JObj [(''components'', JObj [(''schemas'', comps)]), (''definitions'', comps)]"

fun resolve_ref :: "nat \<Rightarrow> json \<Rightarrow> json \<Rightarrow> json res"
  and resolve_nested_refs :: "nat \<Rightarrow> json \<Rightarrow> json \<Rightarrow> json res" where
  "resolve_ref 0 schema comps = Inl RecursionError"
| "resolve_ref (Suc n) schema comps = (case schema of
     JObj d \<Rightarrow> (case map_of d ref_key of
         None \<Rightarrow> resolve_nested_refs n schema comps
       | Some (JStr ref) \<Rightarrow>
           (case walk_ref (ref_root comps) (ref_parts ref) of
              Some (JObj c) \<Rightarrow> resolve_nested_refs n (JObj c) comps
            | _ \<Rightarrow> Inr schema)
       | Some _ \<Rightarrow> Inl AttributeError)
   | _ \<Rightarrow> Inr schema)"
| "resolve_nested_refs 0 schema comps = Inl RecursionError"
| "resolve_nested_refs (Suc n) schema comps = (case schema of
     JObj d \<Rightarrow>
       if map_of d ref_key \<noteq> None then resolve_ref n schema comps
       else bind_res (each_res (\<lambda>(k, v). bind_res (resolve_nested_refs n v comps) (\<lambda>w. Inr (k, w))) d)
         (\<lambda>e. Inr (JObj e))
   | JList xs \<Rightarrow> bind_res (each_res (\<lambda>x. resolve_nested_refs n x comps) xs) (\<lambda>ys. Inr (JList ys))
   | _ \<Rightarrow> Inr schema)"

section \<open>The endpoints of a document\<close>

record extracted =
  ex_name :: json
  ex_method :: string
  ex_path :: string
  ex_schema :: json

definition OPENAPI_METHODS :: "string list" where
  "OPENAPI_METHODS = [''get'', ''post'', ''put'', ''patch'', ''delete'']"

text \<open>\<open>v.get(k, dflt)\<close> of a value that may be no dict.\<close>

definition get_field :: "json \<Rightarrow> string \<Rightarrow> json \<Rightarrow> json res" where
  "get_field v k dflt = bind_res (dict_items v) (\<lambda>d. Inr (dict_get d k dflt))"

text \<open>The schema of an operation's JSON body, \<open>None\<close> where the operation has none.\<close>

definition request_schema :: "json dict \<Rightarrow> string \<Rightarrow> json option res" where
  "request_schema item verb = (case map_of item verb of
       None \<Rightarrow> Inr None
     | Some operation \<Rightarrow>
         bind_res (get_field operation ''requestBody'' (JObj [])) (\<lambda>rb.
         bind_res (get_field rb ''content'' (JObj [])) (\<lambda>content.
         bind_res (get_field content ''application/json'' (JObj [])) (\<lambda>jc.
         bind_res (get_field jc ''schema'' (JObj [])) (\<lambda>schema.
           Inr (if py_truthy schema then Some schema else None))))))"

definition extract_endpoint :: "nat \<Rightarrow> json \<Rightarrow> string \<Rightarrow> json dict \<Rightarrow> string \<Rightarrow> extracted option res" where
  "extract_endpoint n comps path item verb =
     bind_res (request_schema item verb) (\<lambda>s. case s of
       None \<Rightarrow> Inr None
     | Some schema_ref \<Rightarrow>
         bind_res (resolve_ref n schema_ref comps) (\<lambda>resolved.
         bind_res (get_field (dict_get item verb JNull) ''operationId'' (JStr [])) (\<lambda>op.
           Inr (Some \<lparr>ex_name = if py_truthy op then op else JStr (py_upper verb @ '' '' @ path),
             ex_method = py_upper verb, ex_path = normalize_openapi_path path,
             ex_schema = resolved\<rparr>))))"

definition extract_path :: "nat \<Rightarrow> json \<Rightarrow> string \<times> json \<Rightarrow> extracted list res" where
  "extract_path n comps entry = (case entry of
       (path, JObj item) \<Rightarrow> collect (extract_endpoint n comps path item) OPENAPI_METHODS
     | _ \<Rightarrow> Inr [])"

definition extract_schemas_from_openapi :: "nat \<Rightarrow> json dict \<Rightarrow> extracted list res" where
  "extract_schemas_from_openapi n spec =
     bind_res (get_field (dict_get spec ''components'' (JObj [])) ''schemas'' (JObj [])) (\<lambda>comps.
     bind_res (dict_items (dict_get spec ''paths'' (JObj []))) (\<lambda>paths.
     bind_res (each_res (extract_path n comps) paths) (\<lambda>xs. Inr (concat xs))))"

section \<open>Import\<close>

record openapi_spec =
  os_id :: int
  os_name :: string
  os_text :: string
  os_json :: "json dict"
  os_version :: string
  os_listener_ids :: "int list"
  os_backend_ids :: "int list"
  os_enabled :: bool

text \<open>\<open>yaml\<close> is \<open>yaml.safe_load\<close>, \<open>None\<close> where it raises.\<close>

definition parse_openapi_spec :: "engine \<Rightarrow> (string \<Rightarrow> json option) \<Rightarrow> string \<Rightarrow> (json dict \<times> string) res" where
  "parse_openapi_spec E yaml spec_text =
     (case (case json_loads E spec_text of Some v \<Rightarrow> Some v | None \<Rightarrow> yaml spec_text) of
        Some (JObj spec) \<Rightarrow>
          Inr (spec, case map_of spec ''openapi'' of
              Some v \<Rightarrow> py_str (float_repr E) v
            | None \<Rightarrow> (case map_of spec ''swagger'' of
                Some v \<Rightarrow> ''swagger/'' @ py_str (float_repr E) v
              | None \<Rightarrow> ''unknown''))
      | _ \<Rightarrow> Inl ValueError)"

text \<open>The tables after the call; an exception leaves nothing of the transaction.  The name of a row
  is the text of what the document says.\<close>

definition import_openapi_spec ::
  "engine \<Rightarrow> (string \<Rightarrow> json option) \<Rightarrow> nat \<Rightarrow> real \<Rightarrow> int \<Rightarrow> openapi_spec list \<times> api_schema list \<Rightarrow>
     string \<Rightarrow> string \<Rightarrow> int list \<Rightarrow> int list \<Rightarrow> (openapi_spec list \<times> api_schema list) res" where
  "import_openapi_spec E yaml n now spec_id db name spec_text listener_ids backend_ids =
     (case db of (specs, rows) \<Rightarrow>
      if list_ex (\<lambda>s. os_name s = name) specs then Inl ValueError
      else bind_res (parse_openapi_spec E yaml spec_text) (\<lambda>(spec, version).
        bind_res (extract_schemas_from_openapi n spec) (\<lambda>xs.
          Inr (specs @ [\<lparr>os_id = spec_id, os_name = name, os_text = spec_text, os_json = spec,
                 os_version = version, os_listener_ids = listener_ids,
                 os_backend_ids = backend_ids, os_enabled = True\<rparr>],
               rows @ map (\<lambda>x. \<lparr>as_name = py_str (float_repr E) (ex_name x), as_method = ex_method x,
                 as_path = ex_path x, as_schema = ex_schema x, as_spec_id = Some spec_id,
                 as_source = ''openapi'', as_enabled = True, as_sample_count = Some 0,
                 as_created_at = now\<rparr>) xs))))"

section \<open>Acyclic references resolve\<close>

fun ref_free :: "json \<Rightarrow> bool" where
  "ref_free (JObj d) = (map_of d ref_key = None \<and> list_all (\<lambda>(k, v). ref_free v) d)"
| "ref_free (JList xs) = list_all ref_free xs"
| "ref_free v = True"

text \<open>Every reference in the value names a component that is an object of a rank below \<open>b\<close>.\<close>

definition ref_to :: "string \<Rightarrow> string" where
  "ref_to name = ''#/components/schemas/'' @ name"

fun refs_below :: "json dict \<Rightarrow> (string \<Rightarrow> nat) \<Rightarrow> nat \<Rightarrow> json \<Rightarrow> bool" where
  "refs_below comps rk b (JObj d) = (case map_of d ref_key of
       None \<Rightarrow> list_all (\<lambda>(k, v). refs_below comps rk b v) d
     | Some (JStr r) \<Rightarrow> list_ex (\<lambda>(name, c). r = ref_to name \<and> is_obj c \<and> rk name < b \<and>
         CHR ''/'' \<notin> set name \<and> map_of comps name = Some c) comps
     | Some _ \<Rightarrow> False)"
| "refs_below comps rk b (JList xs) = list_all (refs_below comps rk b) xs"
| "refs_below comps rk b v = True"

definition acyclic_refs :: "json dict \<Rightarrow> (string \<Rightarrow> nat) \<Rightarrow> bool" where
  "acyclic_refs comps rk \<longleftrightarrow> list_all (\<lambda>(name, c). refs_below comps rk (rk name) c) comps"

lemma acyclic_component:
  "acyclic_refs comps rk \<Longrightarrow> map_of comps name = Some c \<Longrightarrow> refs_below comps rk (rk name) c"
  by (auto simp: acyclic_refs_def list_all_iff dest!: map_of_SomeD)

lemma ref_parts_ref_to: "CHR ''/'' \<notin> set name \<Longrightarrow> ref_parts (ref_to name) = [''components'', ''schemas'', name]"
  by (simp add: ref_parts_def ref_to_def split_char_id)

lemma walk_ref_to:
  "CHR ''/'' \<notin> set name \<Longrightarrow> walk_ref (ref_root (JObj comps)) (ref_parts (ref_to name)) = map_of comps name"
  by (simp add: ref_parts_ref_to ref_root_def split: option.split)

text \<open>A list comprehension returns with enough fuel if each of its elements does.\<close>

lemma each_res_enough:
  fixes f :: "nat \<Rightarrow> 'a \<Rightarrow> 'b res"
  assumes "\<And>x. x \<in> set xs \<Longrightarrow> \<exists>N. \<forall>n \<ge> N. \<exists>w. f n x = Inr w \<and> Q x w"
  shows "\<exists>N. \<forall>n \<ge> N. \<exists>ws. each_res (f n) xs = Inr ws \<and> list_all2 Q xs ws"
  using assms
proof (induction xs)
  case (Cons x xs)
  obtain N where N: "\<And>n. N \<le> n \<Longrightarrow> \<exists>w. f n x = Inr w \<and> Q x w" using Cons.prems by force
  obtain M where M: "\<And>n. M \<le> n \<Longrightarrow> \<exists>ws. each_res (f n) xs = Inr ws \<and> list_all2 Q xs ws"
    using Cons by force
  have "\<exists>ws. each_res (f n) (x # xs) = Inr ws \<and> list_all2 Q (x # xs) ws" if "max N M \<le> n" for n
  proof -
    have "N \<le> n" "M \<le> n" using that by simp_all
    then obtain w ws where "f n x = Inr w" "Q x w" "each_res (f n) xs = Inr ws" "list_all2 Q xs ws"
      using N [of n] M [of n] by auto
    then show ?thesis by simp
  qed
  then show ?case by blast
qed simp

lemma one_more: "\<exists>N. \<forall>n \<ge> N. P (Suc n) \<Longrightarrow> \<exists>N. \<forall>n \<ge> N. P n"
  by (metis Suc_le_D Suc_le_mono)

lemma bind_enough:
  assumes "\<exists>N. \<forall>n \<ge> N. \<exists>ws. g n = Inr ws \<and> Q ws" "\<And>ws. Q ws \<Longrightarrow> P (h ws)"
  shows "\<exists>N. \<forall>n \<ge> (N :: nat). \<exists>w. bind_res (g n) (\<lambda>ws. Inr (h ws)) = Inr w \<and> P w"
proof -
  obtain N where N: "\<And>n. N \<le> n \<Longrightarrow> \<exists>ws. g n = Inr ws \<and> Q ws" using assms(1) by blast
  have "\<exists>w. bind_res (g n) (\<lambda>ws. Inr (h ws)) = Inr w \<and> P w" if "N \<le> n" for n
    using N [OF that] assms(2) by auto
  then show ?thesis by blast
qed

lemma nested_enough:
  assumes acyclic: "acyclic_refs comps rk"
  shows "refs_below comps rk b v \<Longrightarrow>
     \<exists>N. \<forall>n \<ge> N. \<exists>w. resolve_nested_refs n v (JObj comps) = Inr w \<and> ref_free w"
proof (induction b arbitrary: v rule: less_induct)
  case (less b)
  show ?case using less.prems
  proof (induction v)
    case (JList xs)
    have each: "\<exists>N. \<forall>n \<ge> N. \<exists>ws. each_res (\<lambda>x. resolve_nested_refs n x (JObj comps)) xs = Inr ws \<and>
        list_all2 (\<lambda>x w. ref_free w) xs ws"
      using JList by (intro each_res_enough) (auto simp: list_all_iff)
    have free: "list_all ref_free ws" if "list_all2 (\<lambda>x w. ref_free w) xs ws" for ws
      using that by induction auto
    have "\<exists>N. \<forall>n \<ge> N. \<exists>w. resolve_nested_refs (Suc n) (JList xs) (JObj comps) = Inr w \<and> ref_free w"
      unfolding resolve_nested_refs.simps json.case by (rule bind_enough [OF each]) (simp add: free)
    then show ?case by (rule one_more)
  next
    case (JObj d)
    show ?case
    proof (cases "map_of d ref_key")
      case None
      have each: "\<exists>N. \<forall>n \<ge> N. \<exists>ws. each_res (\<lambda>(k, v). bind_res (resolve_nested_refs n v (JObj comps))
            (\<lambda>w. Inr (k, w))) d = Inr ws \<and> list_all2 (\<lambda>x y. fst y = fst x \<and> ref_free (snd y)) d ws"
      proof (rule each_res_enough)
        fix x assume x: "x \<in> set d"
        obtain k v where kv: "x = (k, v)" by (cases x)
        have "refs_below comps rk b v" using x kv JObj.prems None by (auto simp: list_all_iff)
        then have "\<exists>N. \<forall>n \<ge> N. \<exists>w. resolve_nested_refs n v (JObj comps) = Inr w \<and> ref_free w"
          using JObj.IH x kv by (auto intro: snds.intros)
        then show "\<exists>N. \<forall>n \<ge> N. \<exists>w. (case x of (k, v) \<Rightarrow> bind_res (resolve_nested_refs n v (JObj comps))
            (\<lambda>w. Inr (k, w))) = Inr w \<and> fst w = fst x \<and> ref_free (snd w)"
          using kv by fastforce
      qed
      have not_Some: "\<not> map_of d ref_key \<noteq> None" using None by simp
      have free: "map_of ws ref_key = None \<and> list_all (\<lambda>(k, w). ref_free w) ws"
        if "list_all2 (\<lambda>x y. fst y = fst x \<and> ref_free (snd y)) d ws" for ws
      proof -
        from that have "map fst ws = map fst d" by induction auto
        then have "fst ` set ws = fst ` set d" by (metis set_map)
        moreover from that have "list_all (\<lambda>(k, w). ref_free w) ws" by induction auto
        ultimately show ?thesis using None by (simp add: map_of_eq_None_iff)
      qed
      have "\<exists>N. \<forall>n \<ge> N. \<exists>w. resolve_nested_refs (Suc n) (JObj d) (JObj comps) = Inr w \<and> ref_free w"
        unfolding resolve_nested_refs.simps json.case if_not_P [OF not_Some]
        by (rule bind_enough [OF each]) (use free in simp)
      then show ?thesis by (rule one_more)
    next
      case (Some r)
      with JObj.prems obtain name c where r: "r = JStr (ref_to name)" "is_obj c" "rk name < b"
        "CHR ''/'' \<notin> set name" "map_of comps name = Some c"
        by (cases r) (auto simp: list_ex_iff)
      from less.IH [OF r(3) acyclic_component [OF acyclic r(5)]]
      have "\<exists>N. \<forall>n \<ge> N. \<exists>w. resolve_ref (Suc n) (JObj d) (JObj comps) = Inr w \<and> ref_free w"
        using r Some by (cases c) (simp_all add: walk_ref_to)
      then have "\<exists>N. \<forall>n \<ge> N. \<exists>w. resolve_ref n (JObj d) (JObj comps) = Inr w \<and> ref_free w"
        by (rule one_more)
      then have "\<exists>N. \<forall>n \<ge> N. \<exists>w. resolve_nested_refs (Suc n) (JObj d) (JObj comps) = Inr w \<and> ref_free w"
        using Some by simp
      then show ?thesis by (rule one_more)
    qed
  qed (rule one_more, simp)+
qed

text \<open>If no component refers to itself through others, enough stack resolves a request schema
  whose references all name components to a schema without any reference.\<close>

theorem resolved_ref_free:
  assumes "acyclic_refs comps rk" "refs_below comps rk b (JObj d)"
  shows "\<exists>N. \<forall>n \<ge> N. \<exists>w. resolve_ref n (JObj d) (JObj comps) = Inr w \<and> ref_free w"
proof -
  obtain N where N: "\<And>n. N \<le> n \<Longrightarrow>
      \<exists>w. resolve_nested_refs n (JObj d) (JObj comps) = Inr w \<and> ref_free w"
    using nested_enough [OF assms] by blast
  have "\<exists>w. resolve_ref n (JObj d) (JObj comps) = Inr w \<and> ref_free w" if "Suc N \<le> n" for n
  proof (cases "map_of d ref_key")
    case None
    with that N [of "n - 1"] show ?thesis by (cases n) auto
  next
    case (Some r)
    have "resolve_nested_refs (Suc n) (JObj d) (JObj comps) = resolve_ref n (JObj d) (JObj comps)"
      using Some by simp
    with N [of "Suc n"] that show ?thesis by simp
  qed
  then show ?thesis by blast
qed

theorem resolved_ref_free_witness:
  "\<exists>N. \<forall>n \<ge> N. \<exists>w. resolve_ref n (JObj [(ref_key, JStr (ref_to ''A''))])
     (JObj [(''A'', JObj [(''items'', JObj [(ref_key, JStr (ref_to ''B''))])]), (''B'', JObj [(''type'', JStr ''string'')])])
     = Inr w \<and> ref_free w"
  by (rule resolved_ref_free [where b = 2 and rk = "\<lambda>n. if n = ''A'' then 1 else 0"])
    (simp_all add: acyclic_refs_def ref_key_def ref_to_def)

section \<open>A recursive schema\<close>

fun contains_ref :: "string \<Rightarrow> json \<Rightarrow> bool" where
  "contains_ref r (JObj d) = (case map_of d ref_key of
       None \<Rightarrow> list_ex (\<lambda>(k, v). contains_ref r v) d
     | Some w \<Rightarrow> w = JStr r)"
| "contains_ref r (JList xs) = list_ex (contains_ref r) xs"
| "contains_ref r v = False"

lemma each_res_fails: "x \<in> set xs \<Longrightarrow> \<not> is_ok (f x) \<Longrightarrow> \<not> is_ok (each_res f xs)"
  by (induction xs) (auto simp: res_simps)

lemma recursive_fails:
  assumes c: "map_of comps name = Some (JObj c)" "contains_ref (ref_to name) (JObj c)" "CHR ''/'' \<notin> set name"
  shows "contains_ref (ref_to name) v \<Longrightarrow>
     \<not> is_ok (resolve_nested_refs n v (JObj comps)) \<and> (is_obj v \<longrightarrow> \<not> is_ok (resolve_ref n v (JObj comps)))"
proof (induction n arbitrary: v rule: less_induct)
  case (less n)
  show ?case
  proof (cases n)
    case (Suc m)
    then have IH: "contains_ref (ref_to name) w \<Longrightarrow> \<not> is_ok (resolve_nested_refs m w (JObj comps)) \<and>
        (is_obj w \<longrightarrow> \<not> is_ok (resolve_ref m w (JObj comps)))" for w
      using less.IH [of m w] by simp
    show ?thesis
    proof (cases v)
      case (JObj d)
      show ?thesis
      proof (cases "map_of d ref_key")
        case (Some r)
        with less.prems JObj c Suc IH [of v] IH [of "JObj c"] show ?thesis
          by (simp add: walk_ref_to)
      next
        case None
        with less.prems JObj obtain k w where kw: "(k, w) \<in> set d" "contains_ref (ref_to name) w"
          by (auto simp: list_ex_iff)
        have "\<not> is_ok (each_res (\<lambda>(k, v). bind_res (resolve_nested_refs m v (JObj comps)) (\<lambda>w. Inr (k, w))) d)"
          using IH [OF kw(2)] by (intro each_res_fails [OF kw(1)]) (auto simp: res_simps)
        with None JObj Suc IH [of v] less.prems show ?thesis by (auto simp: res_simps)
      qed
    next
      case (JList xs)
      with less.prems obtain x where x: "x \<in> set xs" "contains_ref (ref_to name) x"
        by (auto simp: list_ex_iff)
      have "\<not> is_ok (each_res (\<lambda>x. resolve_nested_refs m x (JObj comps)) xs)"
        using IH [OF x(2)] by (intro each_res_fails [OF x(1)]) simp
      with JList Suc show ?thesis by (auto simp: res_simps)
    qed (use less.prems in auto)
  qed simp
qed

lemma collect_fails: "x \<in> set xs \<Longrightarrow> \<not> is_ok (f x) \<Longrightarrow> \<not> is_ok (collect f xs)"
  by (induction xs) (auto simp: res_simps)

text \<open>C23: A document with an endpoint whose body schema mentions a component that contains a
  reference to itself (a tree, a linked list) is never imported, whatever the recursion limit.\<close>

theorem recursive_schema_never_imports:
  assumes "map_of spec ''paths'' = Some (JObj paths)" "(path, JObj item) \<in> set paths"
    and "verb \<in> set OPENAPI_METHODS" "request_schema item verb = Inr (Some (JObj s))"
    and "map_of spec ''components'' = Some (JObj cs)" "map_of cs ''schemas'' = Some (JObj comps)"
    and "contains_ref (ref_to name) (JObj s)" "CHR ''/'' \<notin> set name"
    and "map_of comps name = Some (JObj c)" "contains_ref (ref_to name) (JObj c)"
  shows "\<not> is_ok (extract_schemas_from_openapi n spec)"
proof -
  have "\<not> is_ok (resolve_ref n (JObj s) (JObj comps))"
    using recursive_fails [OF assms(9,10,8,7), of n] by simp
  then have "\<not> is_ok (extract_endpoint n (JObj comps) path item verb)"
    by (auto simp: extract_endpoint_def assms(4) res_simps)
  then have "\<not> is_ok (extract_path n (JObj comps) (path, JObj item))"
    using collect_fails [OF assms(3)] by (simp add: extract_path_def)
  from each_res_fails [where f = "extract_path n (JObj comps)", OF assms(2) this] show ?thesis
    using assms(1,5,6)
    by (auto simp: extract_schemas_from_openapi_def get_field_def dict_get_def res_simps)
qed

text \<open>A document with one endpoint that takes a tree.\<close>

definition tree_component :: "json dict" where
  "tree_component = [(''properties'', JObj [(''child'', JObj [(ref_key, JStr (ref_to ''Node''))])])]"

definition tree_item :: "json dict" where
  "tree_item = [(''post'', JObj [(''requestBody'', JObj [(''content'', JObj [(''application/json'',
     JObj [(''schema'', JObj [(ref_key, JStr (ref_to ''Node''))])])])])])]"

definition tree_spec :: "json dict" where
  "tree_spec = [(''openapi'', JStr ''3.0.3''), (''paths'', JObj [(''/trees'', JObj tree_item)]),
     (''components'', JObj [(''schemas'', JObj [(''Node'', JObj tree_component)])])]"

theorem recursive_schema_never_imports_witness:
  "\<not> is_ok (extract_schemas_from_openapi 1000 tree_spec)"
  by (rule recursive_schema_never_imports [where path = "''/trees''" and paths = "[(''/trees'', JObj tree_item)]"
        and cs = "[(''schemas'', JObj [(''Node'', JObj tree_component)])]"
        and comps = "[(''Node'', JObj tree_component)]" and item = tree_item and verb = "''post''"
        and s = "[(ref_key, JStr (ref_to ''Node''))]" and name = "''Node''" and c = tree_component])
    (simp_all add: tree_spec_def tree_item_def tree_component_def OPENAPI_METHODS_def request_schema_def
      get_field_def dict_get_def ref_key_def)

end
