(* ===== verification/SchemaFiles.thy ===== *)
theory SchemaFiles imports SchemaLearning begin

text \<open>
  From the rows to the proxy: \<open>services/api_armor_writer.py\<close> writes an index of the enabled rows and
  one file per row, \<open>haproxy/api-armor/body_parser/src/lib.rs\<close> picks the first index entry of a
  request and validates the body with the file it names.

  \<open>served_schema_iff\<close>: which row's schema a request is checked against.  The file names forget
  the difference of some paths and of the sources, so it need not be the row of the entry.
\<close>

section \<open>Writing\<close>

definition safe_char :: "char \<Rightarrow> bool" where
  "safe_char c \<longleftrightarrow> ascii_alnum c \<or> c \<in> set ''._-''"

definition safe_data_filename :: "string \<Rightarrow> string" where
  "safe_data_filename name =
     (let cleaned = or_text (strip (strip_chars (\<lambda>c. c \<in> set ''._-'')
        (sub_chars (\<lambda>c. \<not> safe_char c) ''_'' name))) ''unnamed''
      in if cleaned \<in> {''.'', ''..''} then ''unnamed'' else cleaned)"

text \<open>\<open>re.sub(r"_+", "_", s)\<close>\<close>

fun collapse_underscores :: "string \<Rightarrow> string" where
  "collapse_underscores [] = []"
| "collapse_underscores (c # s) =
     (if c = CHR ''_'' \<and> starts_with s ''_'' then collapse_underscores s
      else c # collapse_underscores s)"

definition safe_schema_filename :: "string \<Rightarrow> string \<Rightarrow> string" where
  "safe_schema_filename method path =
     or_text (strip_chars (\<lambda>c. c = CHR ''_'')
       (collapse_underscores (safe_data_filename method @ ''_'' @ safe_data_filename path))) ''schema''"

definition row_file :: "api_schema \<Rightarrow> string" where
  "row_file r = safe_schema_filename (as_method r) (as_path r)"

record index_entry =
  ie_id :: nat
  ie_name :: string
  ie_method :: string
  ie_path_pattern :: string
  ie_path_regex :: string
  ie_file :: string
  ie_source :: string
  ie_sample_count :: int

text \<open>The rows come with their ids.\<close>

definition row_entry :: "nat \<times> api_schema \<Rightarrow> index_entry" where
  "row_entry ir = (case ir of (i, r) \<Rightarrow>
     \<lparr>ie_id = i, ie_name = as_name r, ie_method = as_method r,
       ie_path_pattern = as_path r, ie_path_regex = path_regex (as_path r),
       ie_file = ''schemas/'' @ row_file r @ ''.json'', ie_source = as_source r,
       ie_sample_count = or_default (as_sample_count r) 0\<rparr>)"

definition build_schema_index :: "(nat \<times> api_schema) list \<Rightarrow> index_entry list" where
  "build_schema_index rows =
     map row_entry (filter (\<lambda>x. as_enabled (snd x))
       (sort_key (\<lambda>x. if as_source (snd x) = ''openapi'' then 0 else (1 :: nat)) rows))"

text \<open>A directory maps the path of a file to what it holds; the files of the schemas directory that
  are not of this writing are removed.\<close>

type_synonym schema_dir = "string \<Rightarrow> json option"

definition write_schema_file :: "api_schema \<Rightarrow> schema_dir \<Rightarrow> schema_dir" where
  "write_schema_file r files = files(''schemas/'' @ row_file r @ ''.json'' \<mapsto>
     (if py_truthy (as_schema r) then as_schema r else JObj []))"

definition remove_stale_files :: "string set \<Rightarrow> schema_dir \<Rightarrow> schema_dir" where
  "remove_stale_files expected files = (\<lambda>f.
     if ends_with f ''.json'' \<and> f \<notin> expected then None else files f)"

definition write_api_armor_schemas ::
  "(nat \<times> api_schema) list \<Rightarrow> schema_dir \<Rightarrow> index_entry list \<times> schema_dir" where
  "write_api_armor_schemas db files =
     (let schemas = filter (\<lambda>x. as_enabled (snd x)) db;
          index = build_schema_index schemas;
          written = map snd (zip index schemas);
          expected = (\<lambda>x. ''schemas/'' @ row_file (snd x) @ ''.json'') ` set written
      in (index, remove_stale_files expected (fold (\<lambda>x. write_schema_file (snd x)) written files)))"

section \<open>Serving\<close>

text \<open>The match of a request's path by segments, as the proxy does it.\<close>

definition segments_match :: "string \<Rightarrow> string \<Rightarrow> bool" where
  "segments_match pattern path =
     (let pat = split_char CHR ''/'' pattern; segs = split_char CHR ''/'' path in
      length pat = length segs \<and>
      list_all (\<lambda>(p, v). starts_with p '':'' \<or> p = v) (zip pat segs))"

definition lower_ascii :: "string \<Rightarrow> string" where
  "lower_ascii s = map (\<lambda>c. if ascii_upper c then char_of (ord c + 32) else c) s"

definition entry_matches :: "string \<Rightarrow> string \<Rightarrow> index_entry \<Rightarrow> bool" where
  "entry_matches method path e \<longleftrightarrow>
     lower_ascii (ie_method e) = lower_ascii method \<and> segments_match (ie_path_pattern e) path"

definition find_schema_json :: "index_entry list \<times> schema_dir \<Rightarrow> string \<Rightarrow> string \<Rightarrow> json option" where
  "find_schema_json d method path = (case d of (index, files) \<Rightarrow>
     (case List.find (entry_matches method path) index of
        None \<Rightarrow> None
      | Some e \<Rightarrow> files (ie_file e)))"

section \<open>Which schema a request meets\<close>

text \<open>The row whose entry a request selects: enabled, of its method, with a pattern of its path, and
  of the first such from a document rather than a learned one.\<close>

definition row_matches :: "string \<Rightarrow> string \<Rightarrow> api_schema \<Rightarrow> bool" where
  "row_matches method path r \<longleftrightarrow> as_enabled r \<and>
     lower_ascii (as_method r) = lower_ascii method \<and> segments_match (as_path r) path"

definition selected_row :: "(nat \<times> api_schema) list \<Rightarrow> string \<Rightarrow> string \<Rightarrow> api_schema option" where
  "selected_row db method path =
     (case List.find (\<lambda>x. row_matches method path (snd x) \<and> as_source (snd x) = ''openapi'') db of
        Some x \<Rightarrow> Some (snd x)
      | None \<Rightarrow> map_option snd (List.find (\<lambda>x. row_matches method path (snd x)) db))"

text \<open>The last enabled row that is written to a file.\<close>

definition last_writer :: "(nat \<times> api_schema) list \<Rightarrow> string \<Rightarrow> api_schema option" where
  "last_writer db f =
     map_option snd (List.find (\<lambda>x. as_enabled (snd x) \<and> row_file (snd x) = f) (rev db))"

definition schema_text :: "api_schema \<Rightarrow> json" where
  "schema_text r = (if py_truthy (as_schema r) then as_schema r else JObj [])"

lemma fold_write_schema:
  "fold (\<lambda>x. write_schema_file (snd x)) xs files (''schemas/'' @ f @ ''.json'') =
     (case List.find (\<lambda>x. row_file (snd x) = f) (rev xs) of
        None \<Rightarrow> files (''schemas/'' @ f @ ''.json'')
      | Some x \<Rightarrow> Some (schema_text (snd x)))"
proof (induction xs arbitrary: files)
  case (Cons x xs)
  then show ?case
    by (cases x) (auto simp: write_schema_file_def schema_text_def find_append split: option.split)
qed simp

text \<open>Sorting by a key of 0 and 1.\<close>

lemma sort_two_keys:
  "sort_key (\<lambda>x. if P x then 0 else (1 :: nat)) xs = filter P xs @ filter (\<lambda>x. \<not> P x) xs"
proof (rule properties_for_sort_key)
  have "sorted (map (\<lambda>x. if P x then 0 else (1 :: nat)) (filter P xs))"
    "sorted (map (\<lambda>x. if P x then 0 else (1 :: nat)) (filter (\<lambda>x. \<not> P x) xs))"
    by (induction xs) auto
  then show "sorted (map (\<lambda>x. if P x then 0 else (1 :: nat)) (filter P xs @ filter (\<lambda>x. \<not> P x) xs))"
    by (auto simp: sorted_append)
qed (auto simp: filter_empty_conv)

lemma index_rows:
  "build_schema_index (filter (\<lambda>x. as_enabled (snd x)) rows) = map row_entry
     (filter (\<lambda>x. as_enabled (snd x) \<and> as_source (snd x) = ''openapi'') rows @
      filter (\<lambda>x. as_enabled (snd x) \<and> as_source (snd x) \<noteq> ''openapi'') rows)"
  by (simp add: build_schema_index_def sort_two_keys filter_filter conj_commute)

lemma find_in_filter: "List.find P (filter Q xs) = List.find (\<lambda>x. Q x \<and> P x) xs"
  by (induction xs) auto

lemma find_map_entry:
  "List.find P (map f xs) = map_option f (List.find (P \<circ> f) xs)"
  by (induction xs) auto

lemma find_cong: "(\<And>x. x \<in> set xs \<Longrightarrow> P x = Q x) \<Longrightarrow> List.find P xs = List.find Q xs"
  by (induction xs) auto

lemma entry_matches_row:
  "entry_matches method path (row_entry (i, r)) \<longleftrightarrow>
     lower_ascii (as_method r) = lower_ascii method \<and> segments_match (as_path r) path"
  by (simp add: entry_matches_def row_entry_def)

text \<open>Looking for a row of one kind first and then for one of the other finds, where there is none of
  the first, simply the first.\<close>

lemma find_split: "List.find (\<lambda>x. P x \<and> Q x) xs = None \<Longrightarrow>
    List.find (\<lambda>x. P x \<and> \<not> Q x) xs = List.find P xs"
  by (induction xs) (auto split: if_splits)

lemma index_find:
  "map_option ie_file (List.find (entry_matches method path)
       (build_schema_index (filter (\<lambda>x. as_enabled (snd x)) db)))
     = map_option (\<lambda>r. ''schemas/'' @ row_file r @ ''.json'') (selected_row db method path)"
proof -
  let ?m = "\<lambda>x. row_matches method path (snd x)" and ?o = "\<lambda>x. as_source (snd x) = ''openapi''"
  have find: "List.find (entry_matches method path)
       (build_schema_index (filter (\<lambda>x. as_enabled (snd x)) db)) =
     map_option row_entry (case List.find (\<lambda>x. ?m x \<and> ?o x) db of
         None \<Rightarrow> List.find (\<lambda>x. ?m x \<and> \<not> ?o x) db | Some x \<Rightarrow> Some x)"
  proof -
    have "List.find (\<lambda>x. (as_enabled (snd x) \<and> as_source (snd x) = ''openapi'') \<and>
          (entry_matches method path \<circ> row_entry) x) db = List.find (\<lambda>x. ?m x \<and> ?o x) db"
      "List.find (\<lambda>x. (as_enabled (snd x) \<and> as_source (snd x) \<noteq> ''openapi'') \<and>
          (entry_matches method path \<circ> row_entry) x) db = List.find (\<lambda>x. ?m x \<and> \<not> ?o x) db"
      by (rule find_cong; auto simp: entry_matches_row row_matches_def)+
    then show ?thesis
      by (simp only: index_rows find_map_entry find_append find_in_filter)
  qed
  have sel: "selected_row db method path = map_option snd (case List.find (\<lambda>x. ?m x \<and> ?o x) db of
         None \<Rightarrow> List.find ?m db | Some x \<Rightarrow> Some x)"
    by (auto simp: selected_row_def split: option.split)
  show ?thesis unfolding find sel
    by (auto simp: option.map_comp row_entry_def comp_def case_prod_beta find_split split: option.split)
qed

lemma find_row_SomeD: "List.find P xs = Some x \<Longrightarrow> x \<in> set xs \<and> P x"
  by (induction xs) (auto split: if_splits)

lemma find_exists: "x \<in> set xs \<Longrightarrow> P x \<Longrightarrow> \<exists>y. List.find P xs = Some y"
  by (induction xs) auto

lemma selected_row_enabled:
  "selected_row db method path = Some r \<Longrightarrow> \<exists>x \<in> set db. snd x = r \<and> as_enabled r"
  by (auto simp: selected_row_def row_matches_def split: option.splits dest!: find_row_SomeD) force+

lemma all_written: "map snd (zip (build_schema_index (filter (\<lambda>x. as_enabled (snd x)) db))
    (filter (\<lambda>x. as_enabled (snd x)) db)) = filter (\<lambda>x. as_enabled (snd x)) db"
  by (rule map_snd_zip) (simp add: build_schema_index_def case_prod_beta)

text \<open>C24: A request is checked against the schema of the last enabled row that shares the file name of
  the row it selects (of its method and a pattern of its path, from a document before learned), and
  against none if it selects none.\<close>

theorem served_schema_iff:
  "find_schema_json (write_api_armor_schemas db files) method path =
     (case selected_row db method path of
        None \<Rightarrow> None
      | Some r \<Rightarrow> map_option schema_text (last_writer db (row_file r)))"
proof -
  let ?w = "filter (\<lambda>x. as_enabled (snd x)) db"
  let ?file = "\<lambda>r. ''schemas/'' @ row_file r @ ''.json''"
  let ?files = "remove_stale_files ((\<lambda>x. ?file (snd x)) ` set ?w) (fold (\<lambda>x. write_schema_file (snd x)) ?w files)"
  have "find_schema_json (write_api_armor_schemas db files) method path =
      Option.bind (map_option ie_file (List.find (entry_matches method path) (build_schema_index ?w))) ?files"
    unfolding find_schema_json_def write_api_armor_schemas_def Let_def prod.case all_written
    by (auto split: option.split)
  also have "\<dots> = Option.bind (selected_row db method path) (\<lambda>r. ?files (?file r))"
    unfolding index_find by (simp add: option.map_comp Option.bind_map_option comp_def)
  also have "\<dots> = Option.bind (selected_row db method path) (\<lambda>r. map_option schema_text (last_writer db (row_file r)))"
  proof (rule Option.bind_cong [OF refl])
    fix r assume "selected_row db method path = Some r"
    then obtain x where x: "x \<in> set db" "snd x = r" "as_enabled r" using selected_row_enabled by blast
    have "\<exists>y. List.find (\<lambda>x. as_enabled (snd x) \<and> row_file (snd x) = row_file r) (rev db) = Some y"
      using x by (intro find_exists [of x]) auto
    moreover have "?file r \<in> (\<lambda>x. ?file (snd x)) ` set ?w" using x by auto
    ultimately show "?files (?file r) = map_option schema_text (last_writer db (row_file r))"
      using fold_write_schema [of ?w files "row_file r"]
      by (auto simp: remove_stale_files_def last_writer_def rev_filter find_in_filter)
  qed
  finally show ?thesis by (cases "selected_row db method path") auto
qed

text \<open>Where an endpoint has an uploaded schema and, later in the table, a learned one, the request
  selects the uploaded one and is checked against the learned one, whose file replaced it.\<close>

theorem uploaded_schema_shadowed:
  assumes "selected_row db method path = Some r" "as_source r = ''openapi''"
    and "db = before @ [(i, l)]" "as_enabled l" "as_source l = ''learned''"
    and "as_method l = as_method r" "as_path l = as_path r"
  shows "find_schema_json (write_api_armor_schemas db files) method path = Some (schema_text l)"
  using assms by (simp add: served_schema_iff last_writer_def row_file_def)

definition row_of :: "string \<Rightarrow> string \<Rightarrow> json \<Rightarrow> api_schema" where
  "row_of path source schema = \<lparr>as_name = path, as_method = ''POST'', as_path = path, as_schema = schema,
     as_spec_id = None, as_source = source, as_enabled = True, as_sample_count = None, as_created_at = 0\<rparr>"

theorem uploaded_schema_shadowed_witness:
  "find_schema_json (write_api_armor_schemas
      ([(1, row_of ''/users/:id'' ''openapi'' (infer_schema (JInt 1)))] @
       [(2, row_of ''/users/:id'' ''learned'' (infer_schema (JStr ''a'')))]) (\<lambda>f. None))
      ''POST'' ''/users/7'' = Some (schema_text (row_of ''/users/:id'' ''learned'' (infer_schema (JStr ''a''))))"
  by (rule uploaded_schema_shadowed
      [where r = "row_of ''/users/:id'' ''openapi'' (infer_schema (JInt 1))", OF _ _ refl])
    (simp_all add: selected_row_def row_matches_def row_of_def segments_match_def lower_ascii_def)

text \<open>Two paths, one file.\<close>

lemma file_names_collide: "safe_schema_filename ''POST'' ''/users/:id'' = safe_schema_filename ''POST'' ''/users/id''"
  by code_simp

end
