(* ===== verification/ApiProfiler.thy ===== *)
theory ApiProfiler imports SchemaLearning "HOL-Library.List_Lexorder" "HOL-Library.Char_ord" begin

text \<open>
  API Armor's behavioural profiles, \<open>services/api_armor_profiler.py\<close>: every entry of the profiling
  log updates the profile of its endpoint and is then compared with it.  A dict of the profile is
  changed in place and assigned to the column it came from; \<open>tracked\<close> says whether the database
  layer stores such a dict (SQLAlchemy does not, for a plain \<open>JSON\<close> column).

  \<open>no_anomaly_recorded\<close>: since the update comes first, an entry is never recorded as an anomaly
  while its profile has room.  \<open>baseline_frozen\<close>: a dict that is not stored again stays the one
  of the first entry.
\<close>

section \<open>Profiles\<close>

record dim_data =
  dd_values :: "string list"
  dd_count :: int

record api_profile =
  ap_method :: string
  ap_path :: string
  ap_dimensions :: "(string \<times> dim_data) list"
  ap_sample_count :: "int option"
  ap_status_codes :: "(string \<times> int) list"
  ap_learned :: bool
  ap_last_seen :: real

record api_anomaly =
  aa_listener_id :: json
  aa_method :: string
  aa_path :: string
  aa_dimension :: string
  aa_observed_value :: string
  aa_expected_values :: string
  aa_request_id :: json
  aa_client_ip :: json
  aa_created_at :: real

definition DIMENSIONS :: "string list" where
  "DIMENSIONS = [''body_structure'', ''graphql'', ''content_type'', ''auth_type'', ''req_fp'',
     ''req_fp_param_keys'', ''req_fp_param_types'']"

section \<open>Paths\<close>

definition hex_digit_char :: "char \<Rightarrow> bool" where
  "hex_digit_char c \<longleftrightarrow> (48 \<le> ord c \<and> ord c \<le> 57) \<or> (97 \<le> ord c \<and> ord c \<le> 102) \<or> (65 \<le> ord c \<and> ord c \<le> 70)"

text \<open>The characters that each of the three patterns takes behind a slash.\<close>

definition uuid_length :: "string \<Rightarrow> nat option" where
  "uuid_length s = (let u = take 36 s in
     if length u = 36 \<and> list_all (\<lambda>(i, c). if i \<in> {8, 13, 18, 23} then c = CHR ''-'' else hex_digit_char c)
          (enumerate 0 u)
     then Some 36 else None)"

definition object_id_length :: "string \<Rightarrow> nat option" where
  "object_id_length s = (let u = take 24 s in
     if length u = 24 \<and> list_all hex_digit_char u then Some 24 else None)"

definition number_length :: "string \<Rightarrow> nat option" where
  "number_length s = (let u = takeWhile py_isdecimal s in if u = [] then None else Some (length u))"

function sub_ids :: "(string \<Rightarrow> nat option) \<Rightarrow> string \<Rightarrow> string" where
  "sub_ids m [] = []"
| "sub_ids m (c # r) =
     (if c = CHR ''/'' then (case m r of
          None \<Rightarrow> c # sub_ids m r
        | Some n \<Rightarrow> ''/:id'' @ sub_ids m (drop n r))
      else c # sub_ids m r)"
  by pat_completeness auto
termination by (relation "measure (\<lambda>(m, s). length s)") auto

definition normalize_profile_path :: "string \<Rightarrow> string" where
  "normalize_profile_path path =
     sub_ids number_length (sub_ids object_id_length (sub_ids uuid_length path))"

section \<open>Dimensions of an entry\<close>

text \<open>\<open>sorted(keys)\<close> of texts or of numbers; a list of lists is outside the model.\<close>

definition py_sorted :: "json list \<Rightarrow> json list res" where
  "py_sorted xs =
     (if list_all (\<lambda>v. case v of JStr s \<Rightarrow> True | _ \<Rightarrow> False) xs then
        Inr (sort_key (\<lambda>v. case v of JStr s \<Rightarrow> s | _ \<Rightarrow> []) xs)
      else if list_all (\<lambda>v. num_val v \<noteq> None) xs then Inr (sort_key (\<lambda>v. the (num_val v)) xs)
      else if length xs \<le> 1 then Inr xs else Inl TypeError)"

fun iterated :: "json \<Rightarrow> json list res" where
  "iterated (JList xs) = Inr xs"
| "iterated (JStr s) = Inr (map (\<lambda>c. JStr [c]) s)"
| "iterated (JObj d) = Inr (map (\<lambda>(k, v). JStr k) d)"
| "iterated v = Inl TypeError"

text \<open>\<open>JNull\<close> is \<open>None\<close>.\<close>

definition extract_dimension :: "json dict \<Rightarrow> string \<Rightarrow> json res" where
  "extract_dimension e dm =
     (if dm = ''body_structure'' then
        (case dict_get e ''body_structure'' JNull of
           JObj bs \<Rightarrow>
             (let keys = dict_get bs ''top_keys'' (JList []) in
              if bs \<noteq> [] \<and> py_truthy keys
              then bind_res (iterated keys) (\<lambda>ks. bind_res (py_sorted ks) (\<lambda>xs. Inr (JList xs)))
              else Inr JNull)
         | _ \<Rightarrow> Inr JNull)
      else if dm = ''graphql'' then
        (case dict_get e ''graphql'' JNull of
           JObj g \<Rightarrow>
             (if g \<noteq> [] then
                Inr (JObj [(''operation'', dict_get g ''operation'' (JStr [])),
                           (''depth'', dict_get g ''depth'' (JInt 0)),
                           (''query_hash'', dict_get g ''query_hash'' (JStr []))])
              else Inr JNull)
         | _ \<Rightarrow> Inr JNull)
      else if dm = ''auth_type'' then Inr (dict_get e dm (JStr ''n''))
      else if dm \<in> {''content_type'', ''req_fp'', ''req_fp_param_keys'', ''req_fp_param_types''} then
        Inr (dict_get e dm JNull)
      else Inr JNull)"

fun dim_text :: "engine \<Rightarrow> json \<Rightarrow> string" where
  "dim_text E (JStr s) = s"
| "dim_text E v = json_dumps E v"

section \<open>Updating and comparing\<close>

definition MAX_DIM_VALUES :: nat where "MAX_DIM_VALUES = 1000"

definition update_dim :: "(string \<times> dim_data) list \<Rightarrow> string \<Rightarrow> string \<Rightarrow> (string \<times> dim_data) list" where
  "update_dim dims dm v =
     (let d = dict_get dims dm \<lparr>dd_values = [], dd_count = 0\<rparr>;
          vs = (if v \<notin> set (dd_values d) \<and> length (dd_values d) < MAX_DIM_VALUES
                then dd_values d @ [v] else dd_values d)
      in AList.update dm \<lparr>dd_values = vs, dd_count = dd_count d + 1\<rparr> dims)"

fun update_dims ::
  "engine \<Rightarrow> json dict \<Rightarrow> string list \<Rightarrow> (string \<times> dim_data) list \<Rightarrow> (string \<times> dim_data) list res" where
  "update_dims E e [] dims = Inr dims"
| "update_dims E e (dm # ds) dims = bind_res (extract_dimension e dm) (\<lambda>v.
     update_dims E e ds (if v = JNull then dims else update_dim dims dm (dim_text E v)))"

fun check_anomaly ::
  "engine \<Rightarrow> (string \<times> dim_data) list \<Rightarrow> json dict \<Rightarrow> string list \<Rightarrow> string option res" where
  "check_anomaly E dims e [] = Inr None"
| "check_anomaly E dims e (dm # ds) = bind_res (extract_dimension e dm) (\<lambda>v.
     if v \<noteq> JNull \<and>
        dim_text E v \<notin> set (dd_values (dict_get dims dm \<lparr>dd_values = [], dd_count = 0\<rparr>))
     then Inr (Some dm) else check_anomaly E dims e ds)"

definition same_endpoint :: "string \<Rightarrow> string \<Rightarrow> api_profile \<Rightarrow> bool" where
  "same_endpoint m p r \<longleftrightarrow> ap_method r = m \<and> ap_path r = p"

text \<open>What the database keeps of a dict that was loaded, changed in place and assigned again.\<close>

definition stored :: "bool \<Rightarrow> 'a list \<Rightarrow> 'a list \<Rightarrow> 'a list" where
  "stored tracked loaded changed = (if tracked \<or> loaded = [] then changed else loaded)"

text \<open>The profile of an endpoint, a new one if there is none.\<close>

definition loaded_profile :: "real \<Rightarrow> api_profile list \<Rightarrow> string \<Rightarrow> string \<Rightarrow> api_profile" where
  "loaded_profile now profiles m p = (case List.find (same_endpoint m p) profiles of
       Some r \<Rightarrow> r
     | None \<Rightarrow> \<lparr>ap_method = m, ap_path = p, ap_dimensions = [], ap_sample_count = Some 0,
         ap_status_codes = [], ap_learned = False, ap_last_seen = now\<rparr>)"

definition updated_profile ::
  "engine \<Rightarrow> bool \<Rightarrow> real \<Rightarrow> json dict \<Rightarrow> (string \<times> dim_data) list \<Rightarrow> api_profile \<Rightarrow> api_profile" where
  "updated_profile E tracked now e dims r =
     (let status = dict_get e ''response_status'' JNull;
          s = py_str (float_repr E) status;
          codes = (if py_truthy status
            then AList.update s (dict_get (ap_status_codes r) s 0 + 1) (ap_status_codes r)
            else ap_status_codes r)
      in r\<lparr>ap_dimensions := stored tracked (ap_dimensions r) dims,
           ap_sample_count := Some (or_default (ap_sample_count r) 0 + 1),
           ap_status_codes := stored tracked (ap_status_codes r) codes,
           ap_last_seen := now\<rparr>)"

definition new_anomaly ::
  "engine \<Rightarrow> real \<Rightarrow> json dict \<Rightarrow> string \<Rightarrow> string \<Rightarrow> (string \<times> dim_data) list \<Rightarrow> string \<Rightarrow> json \<Rightarrow> api_anomaly" where
  "new_anomaly E now e m p dims dm v =
     \<lparr>aa_listener_id = dict_get e ''listener_id'' JNull, aa_method = m, aa_path = p, aa_dimension = dm,
       aa_observed_value = json_dumps E v,
       aa_expected_values = json_dumps E (JList (map JStr
         (dd_values (dict_get dims dm \<lparr>dd_values = [], dd_count = 0\<rparr>)))),
       aa_request_id = dict_get e ''request_id'' JNull,
       aa_client_ip = dict_get e ''client_ip'' JNull, aa_created_at = now\<rparr>"

definition written_profiles ::
  "engine \<Rightarrow> bool \<Rightarrow> real \<Rightarrow> json dict \<Rightarrow> string \<Rightarrow> string \<Rightarrow> (string \<times> dim_data) list \<Rightarrow>
     api_profile list \<Rightarrow> api_profile list" where
  "written_profiles E tracked now e m p dims profiles =
     (if list_ex (same_endpoint m p) profiles
      then update_first (same_endpoint m p) (updated_profile E tracked now e dims) profiles
      else profiles @ [updated_profile E tracked now e dims (loaded_profile now profiles m p)])"

text \<open>The tables after the call.  A method that is no text is refused by the database.\<close>

definition ingest_profiling_entry ::
  "engine \<Rightarrow> bool \<Rightarrow> real \<Rightarrow> api_profile list \<times> api_anomaly list \<Rightarrow> json dict \<Rightarrow>
     (api_profile list \<times> api_anomaly list) res" where
  "ingest_profiling_entry E tracked now db e = (case db of (profiles, anomalies) \<Rightarrow>
     (let method = dict_get e ''method'' (JStr []); path = dict_get e ''path'' (JStr []) in
      if \<not> py_truthy method \<or> \<not> py_truthy path then Inr db
      else case (method, path) of
        (JStr m, JStr p0) \<Rightarrow>
          (let p = normalize_profile_path p0; r = loaded_profile now profiles m p
           in bind_res (update_dims E e DIMENSIONS (ap_dimensions r)) (\<lambda>dims.
              let profiles' = written_profiles E tracked now e m p dims profiles
              in bind_res (if ap_learned r then check_anomaly E dims e DIMENSIONS else Inr None) (\<lambda>a.
                 case a of
                   None \<Rightarrow> Inr (profiles', anomalies)
                 | Some dm \<Rightarrow> bind_res (extract_dimension e dm) (\<lambda>v.
                     Inr (profiles', anomalies @ [new_anomaly E now e m p dims dm v])))))
      | _ \<Rightarrow> Inl TypeError))"

text \<open>One entry of the log: an exception is logged and rolled back.\<close>

definition process_entry ::
  "engine \<Rightarrow> bool \<Rightarrow> real \<Rightarrow> api_profile list \<times> api_anomaly list \<Rightarrow> json \<Rightarrow>
     api_profile list \<times> api_anomaly list" where
  "process_entry E tracked now db entry = (case entry of
       JObj e \<Rightarrow> (case ingest_profiling_entry E tracked now db e of Inl x \<Rightarrow> db | Inr db' \<Rightarrow> db')
     | _ \<Rightarrow> db)"

text \<open>The new lines of the log and the offset behind them; a line that is no JSON is skipped.\<close>

definition process_line ::
  "engine \<Rightarrow> bool \<Rightarrow> real \<Rightarrow> string \<Rightarrow> api_profile list \<times> api_anomaly list \<Rightarrow>
     api_profile list \<times> api_anomaly list" where
  "process_line E tracked now l db =
     (if strip l = [] then db
      else case json_loads E (strip l) of
        None \<Rightarrow> db
      | Some entry \<Rightarrow> process_entry E tracked now db entry)"

definition process_profiling_lines ::
  "engine \<Rightarrow> bool \<Rightarrow> real \<Rightarrow> string option \<Rightarrow> nat \<times> api_profile list \<times> api_anomaly list \<Rightarrow>
     nat \<times> api_profile list \<times> api_anomaly list" where
  "process_profiling_lines E tracked now file st = (case (file, st) of
       (None, _) \<Rightarrow> st
     | (Some txt, off, db) \<Rightarrow>
         (let off = (if length txt < off then 0 else off)
          in if length txt = off then (off, db)
             else (length txt, fold (process_line E tracked now) (split_char newline (drop off txt)) db)))"

text \<open>Profiles are found by their position.\<close>

definition finalize_profile :: "api_profile list \<Rightarrow> nat \<Rightarrow> int \<Rightarrow> api_profile list \<times> bool" where
  "finalize_profile profiles i min_samples =
     (if length profiles \<le> i \<or> or_default (ap_sample_count (profiles ! i)) 0 < min_samples then (profiles, False)
      else (profiles[i := (profiles ! i)\<lparr>ap_learned := True\<rparr>], True))"

definition prune_profiles ::
  "real \<Rightarrow> api_profile list \<times> api_anomaly list \<Rightarrow> int \<Rightarrow> (api_profile list \<times> api_anomaly list) \<times> nat" where
  "prune_profiles now db retention_days = (case db of (profiles, anomalies) \<Rightarrow>
     if retention_days \<le> 0 then (db, 0)
     else let cutoff = now - 86400 * real_of_int retention_days
          in ((filter (\<lambda>r. \<not> ap_last_seen r < cutoff) profiles,
               filter (\<lambda>a. \<not> aa_created_at a < cutoff) anomalies),
              length (filter (\<lambda>r. ap_last_seen r < cutoff) profiles)))"

section \<open>An entry fits the profile it has just extended\<close>

text \<open>The profile knows a value of a dimension.\<close>

definition knows :: "(string \<times> dim_data) list \<Rightarrow> string \<Rightarrow> string \<Rightarrow> bool" where
  "knows dims dm v \<longleftrightarrow> v \<in> set (dd_values (dict_get dims dm \<lparr>dd_values = [], dd_count = 0\<rparr>))"

definition has_room :: "(string \<times> dim_data) list \<Rightarrow> string \<Rightarrow> bool" where
  "has_room dims dm \<longleftrightarrow>
     length (dd_values (dict_get dims dm \<lparr>dd_values = [], dd_count = 0\<rparr>)) < MAX_DIM_VALUES"

lemma update_dim_knows: "knows dims dm v \<or> has_room dims dm \<Longrightarrow> knows (update_dim dims dm v) dm v"
  by (auto simp: knows_def has_room_def update_dim_def Let_def)

lemma update_dim_other [simp]:
  "dm' \<noteq> dm \<Longrightarrow> knows (update_dim dims dm v) dm' w = knows dims dm' w"
  "dm' \<noteq> dm \<Longrightarrow> has_room (update_dim dims dm v) dm' = has_room dims dm'"
  by (simp_all add: knows_def has_room_def update_dim_def Let_def)

lemma update_dims_keeps:
  "update_dims E e ds dims = Inr dims' \<Longrightarrow> dm \<notin> set ds \<Longrightarrow> knows dims' dm v = knows dims dm v"
  by (induction E e ds dims rule: update_dims.induct) (auto simp: res_simps split: if_splits)

lemma update_dims_known:
  assumes "update_dims E e ds dims = Inr dims'" "distinct ds" "list_all (has_room dims) ds"
    and "dm \<in> set ds" "extract_dimension e dm = Inr v" "v \<noteq> JNull"
  shows "knows dims' dm (dim_text E v)"
  using assms
proof (induction ds arbitrary: dims)
  case (Cons a ds)
  obtain w where w: "extract_dimension e a = Inr w"
    "update_dims E e ds (if w = JNull then dims else update_dim dims a (dim_text E w)) = Inr dims'"
    using Cons.prems(1) by (auto simp: res_simps)
  show ?case
  proof (cases "dm = a")
    case True
    with w Cons.prems have "v = w" by simp
    with w True Cons.prems show ?thesis
      using update_dims_keeps [OF w(2), of a "dim_text E w"] by (auto simp: update_dim_knows)
  next
    case False
    have "list_all (has_room (if w = JNull then dims else update_dim dims a (dim_text E w))) ds"
      using Cons.prems(2,3) by (simp add: list_all_iff) (metis update_dim_other(2))
    with Cons.IH [OF w(2)] Cons.prems False show ?thesis by simp
  qed
qed simp

lemma check_anomaly_None:
  "(\<And>dm v. dm \<in> set ds \<Longrightarrow> extract_dimension e dm = Inr v \<Longrightarrow> v \<noteq> JNull \<Longrightarrow> knows dims dm (dim_text E v)) \<Longrightarrow>
   check_anomaly E dims e ds = Inr a \<Longrightarrow> a = None"
  by (induction ds) (auto simp: res_simps knows_def split: if_splits)

lemma ingest_profiling_cases:
  assumes "ingest_profiling_entry E tracked now (profiles, anomalies) e = Inr (profiles', anomalies')"
  obtains (unchanged) "profiles' = profiles" "anomalies' = anomalies"
  | (written) m p dims a where
      "update_dims E e DIMENSIONS (ap_dimensions (loaded_profile now profiles m p)) = Inr dims"
      "profiles' = written_profiles E tracked now e m p dims profiles"
      "(if ap_learned (loaded_profile now profiles m p) then check_anomaly E dims e DIMENSIONS else Inr None) = Inr a"
      "a = None \<Longrightarrow> anomalies' = anomalies"
proof -
  let ?m = "dict_get e ''method'' (JStr [])" and ?p = "dict_get e ''path'' (JStr [])"
  show ?thesis
  proof (cases "py_truthy ?m \<and> py_truthy ?p \<and> (\<exists>m p. ?m = JStr m \<and> ?p = JStr p)")
    case False
    then have "ingest_profiling_entry E tracked now (profiles, anomalies) e = Inr (profiles, anomalies) \<or>
        ingest_profiling_entry E tracked now (profiles, anomalies) e = Inl TypeError"
      by (auto simp: ingest_profiling_entry_def Let_def split: json.split)
    with assms unchanged show ?thesis by auto
  next
    case True
    then obtain m p0 where mp: "?m = JStr m" "?p = JStr p0" "m \<noteq> []" "p0 \<noteq> []" by auto
    define p where "p = normalize_profile_path p0"
    define r where "r = loaded_profile now profiles m p"
    from assms mp have "bind_res (update_dims E e DIMENSIONS (ap_dimensions r)) (\<lambda>dims.
        bind_res (if ap_learned r then check_anomaly E dims e DIMENSIONS else Inr None) (\<lambda>a.
          case a of None \<Rightarrow> Inr (written_profiles E tracked now e m p dims profiles, anomalies)
          | Some dm \<Rightarrow> bind_res (extract_dimension e dm) (\<lambda>v.
              Inr (written_profiles E tracked now e m p dims profiles,
                anomalies @ [new_anomaly E now e m p dims dm v])))) = Inr (profiles', anomalies')"
      unfolding r_def p_def by (simp add: ingest_profiling_entry_def Let_def)
    then obtain dims a where "update_dims E e DIMENSIONS (ap_dimensions r) = Inr dims"
      "(if ap_learned r then check_anomaly E dims e DIMENSIONS else Inr None) = Inr a"
      "profiles' = written_profiles E tracked now e m p dims profiles" "a = None \<longrightarrow> anomalies' = anomalies"
      unfolding bind_res_Inr_iff by (fastforce simp: bind_res_Inr_iff split: option.splits)
    with written [of m p dims a] show ?thesis unfolding r_def by blast
  qed
qed

lemma loaded_profile_known: "loaded_profile now profiles m p \<in> set profiles \<or>
    ap_dimensions (loaded_profile now profiles m p) = []"
  by (auto simp: loaded_profile_def find_Some_iff split: option.split)

definition profiles_have_room :: "api_profile list \<Rightarrow> bool" where
  "profiles_have_room profiles \<longleftrightarrow>
     list_all (\<lambda>r. list_all (has_room (ap_dimensions r)) DIMENSIONS) profiles"

text \<open>C25: An entry of the log is never recorded as an anomaly while the profiles have room (fewer than
  1000 values in each dimension), learned or not: it is added to the profile before it is compared.\<close>

theorem no_anomaly_recorded:
  assumes "profiles_have_room profiles"
    and "ingest_profiling_entry E tracked now (profiles, anomalies) e = Inr (profiles', anomalies')"
  shows "anomalies' = anomalies"
  using assms(2)
proof (cases rule: ingest_profiling_cases)
  case (written m p dims a)
  let ?r = "loaded_profile now profiles m p"
  have room: "list_all (has_room (ap_dimensions ?r)) DIMENSIONS"
    using loaded_profile_known [of now profiles m p] assms(1)
    by (auto simp: profiles_have_room_def list_all_iff has_room_def dict_get_def MAX_DIM_VALUES_def)
  have "distinct DIMENSIONS" by (simp add: DIMENSIONS_def)
  then have "b = None" if "check_anomaly E dims e DIMENSIONS = Inr b" for b
    using check_anomaly_None [OF update_dims_known [OF written(1) _ room] that] by blast
  with written(3,4) show ?thesis by (auto split: if_splits)
qed simp

lemma is_ok_bind: "is_ok (bind_res r f) \<longleftrightarrow> (case r of Inl x \<Rightarrow> False | Inr y \<Rightarrow> is_ok (f y))"
  by (cases r) auto

lemma update_dims_ok:
  "list_all (\<lambda>dm. is_ok (extract_dimension e dm)) ds \<Longrightarrow> is_ok (update_dims E e ds dims)"
  by (induction E e ds dims rule: update_dims.induct) (auto simp: is_ok_bind split: sum.splits)

lemma check_anomaly_ok:
  "list_all (\<lambda>dm. is_ok (extract_dimension e dm)) ds \<Longrightarrow> is_ok (check_anomaly E dims e ds)"
  by (induction ds) (auto simp: is_ok_bind split: sum.splits)

definition demo_profile :: api_profile where
  "demo_profile = \<lparr>ap_method = ''POST'', ap_path = ''/a/:id'', ap_dimensions = [(''auth_type'',
     \<lparr>dd_values = [''jwt''], dd_count = 100\<rparr>)], ap_sample_count = Some 100, ap_status_codes = [],
     ap_learned = True, ap_last_seen = 0\<rparr>"

definition demo_entry :: "json dict" where
  "demo_entry = [(''method'', JStr ''POST''), (''path'', JStr ''/a/7''), (''auth_type'', JStr ''n''),
     (''content_type'', JStr ''text/xml'')]"

theorem no_anomaly_recorded_witness:
  "profiles_have_room [demo_profile] \<and>
   (\<exists>ps as. ingest_profiling_entry literal_engine False 1 ([demo_profile], []) demo_entry = Inr (ps, as) \<and> as = [])"
proof
  show room: "profiles_have_room [demo_profile]"
    by code_simp
  have ok: "list_all (\<lambda>dm. is_ok (extract_dimension demo_entry dm)) DIMENSIONS"
    by (simp add: extract_dimension_def demo_entry_def dict_get_def DIMENSIONS_def)
  have "is_ok (extract_dimension demo_entry dm)" for dm
    by (simp add: extract_dimension_def demo_entry_def dict_get_def)
  moreover have "dict_get demo_entry ''method'' (JStr []) = JStr ''POST''" "dict_get demo_entry ''path'' (JStr []) = JStr ''/a/7''"
    by (simp_all add: demo_entry_def dict_get_def)
  ultimately have "is_ok (ingest_profiling_entry literal_engine False 1 ([demo_profile], []) demo_entry)"
    using update_dims_ok [OF ok] check_anomaly_ok [OF ok]
    by (simp add: ingest_profiling_entry_def Let_def is_ok_bind split: sum.split option.split)
      (metis is_ok.simps(1))
  then obtain ps as where
    "ingest_profiling_entry literal_engine False 1 ([demo_profile], []) demo_entry = Inr (ps, as)"
    by (auto simp: res_simps)
  with no_anomaly_recorded [OF room this]
  show "\<exists>ps as. ingest_profiling_entry literal_engine False 1 ([demo_profile], []) demo_entry
      = Inr (ps, as) \<and> as = []" by blast
qed

section \<open>A baseline that is not stored again\<close>

lemma find_update_any:
  assumes "\<And>x. P (f x) = P x" "List.find P xs = Some r"
  shows "List.find P (update_first Q f xs) = Some r \<or> List.find P (update_first Q f xs) = Some (f r)"
  using assms(2) by (induction xs) (auto simp: assms(1) split: if_splits)

text \<open>Where the database layer does not store a dict that was changed in place, the dimensions of a
  known endpoint stay those of its first entries, whatever the log says later.\<close>

theorem baseline_frozen:
  assumes "List.find (same_endpoint m p) profiles = Some r" "ap_dimensions r \<noteq> []"
    and "ingest_profiling_entry E False now (profiles, anomalies) e = Inr (profiles', anomalies')"
  shows "\<exists>r'. List.find (same_endpoint m p) profiles' = Some r' \<and> ap_dimensions r' = ap_dimensions r"
proof -
  have row: "same_endpoint m p (updated_profile E False now e dims q) = same_endpoint m p q"
    "ap_dimensions q \<noteq> [] \<Longrightarrow> ap_dimensions (updated_profile E False now e dims q) = ap_dimensions q"
    for dims q
    by (simp_all add: same_endpoint_def updated_profile_def stored_def Let_def)
  from assms(3) show ?thesis
  proof (cases rule: ingest_profiling_cases)
    case unchanged
    with assms(1) show ?thesis by simp
  next
    case (written k q dims a)
    then show ?thesis
      using assms(1) find_update_any [where f = "updated_profile E False now e dims" and Q = "same_endpoint k q", OF row(1) assms(1)] row(2) [OF assms(2), of dims]
      by (auto simp: written_profiles_def find_append)
  qed
qed

theorem baseline_frozen_witness:
  "\<exists>r'. List.find (same_endpoint ''POST'' ''/a/:id'')
       (fst (process_entry literal_engine False 1 ([demo_profile], []) (JObj demo_entry))) = Some r' \<and>
     ap_dimensions r' = ap_dimensions demo_profile"
proof (cases "ingest_profiling_entry literal_engine False 1 ([demo_profile], []) demo_entry")
  case (Inl x)
  then show ?thesis by (simp add: process_entry_def demo_profile_def same_endpoint_def)
next
  case (Inr db)
  then have "ingest_profiling_entry literal_engine False 1 ([demo_profile], []) demo_entry = Inr (fst db, snd db)"
    by simp
  from baseline_frozen [OF _ _ this, of "''POST''" "''/a/:id''" demo_profile] Inr
  show ?thesis by (simp add: process_entry_def same_endpoint_def demo_profile_def)
qed

end
